(* ===== verification/Runtime_Prelude.thy ===== *)
theory Runtime_Prelude
  imports Main "HOL-Library.Word" "HOL-Library.Char_ord" "HOL-Library.List_Lexorder"
    "HOL-Library.Product_Lexorder" "HOL-Library.Sublist"
begin

text \<open>
  Shared vocabulary of the AccordLock runtime model: Rust's \<open>Result\<close> with \<open>?\<close> as
  \<open>and_then\<close>, its checked and saturating integer operations, UTF-8 strings with the
  standard library's \<open>trim\<close> and control-character test, 16-byte identifiers and 32-byte
  digests as machine words, big-endian byte strings and length framing, and the
  facts about them that the component theories use through \<open>simp\<close>.
\<close>

named_theorems result_simps \<open>success and failure of composed checks\<close>
named_theorems arith_defs \<open>definitions of the machine-integer operations\<close>
named_theorems frame_simps \<open>unique decomposition of framed byte strings\<close>

section \<open>Results\<close>

datatype (discs_sels) ('a, 'e) result = Ok 'a | Err 'e

definition and_then :: "('a, 'e) result \<Rightarrow> ('a \<Rightarrow> ('b, 'e) result) \<Rightarrow> ('b, 'e) result" where
  "and_then r f = (case r of Ok x \<Rightarrow> f x | Err e \<Rightarrow> Err e)"

definition ensure :: "bool \<Rightarrow> 'e \<Rightarrow> (unit, 'e) result" where
  "ensure b e = (if b then Ok () else Err e)"

definition ok_or :: "'a option \<Rightarrow> 'e \<Rightarrow> ('a, 'e) result" where
  "ok_or x e = (case x of Some y \<Rightarrow> Ok y | None \<Rightarrow> Err e)"

definition map_err :: "('e \<Rightarrow> 'f) \<Rightarrow> ('a, 'e) result \<Rightarrow> ('a, 'f) result" where
  "map_err f r = (case r of Ok x \<Rightarrow> Ok x | Err e \<Rightarrow> Err (f e))"

lemma and_then_simps [simp]:
  "and_then (Ok x) f = f x" "and_then (Err e) f = Err e"
  by (simp_all add: and_then_def)

lemma and_then_Ok [result_simps]:
  "and_then r f = Ok y \<longleftrightarrow> (\<exists>x. r = Ok x \<and> f x = Ok y)"
  by (cases r) simp_all

lemma ensure_Ok [result_simps]: "ensure b e = Ok u \<longleftrightarrow> b"
  by (simp add: ensure_def)

lemma ensure_Err [result_simps]: "ensure b e = Err e' \<longleftrightarrow> \<not> b \<and> e' = e"
  by (auto simp: ensure_def)

lemma ensure_True [simp]: "ensure True e = Ok ()"
  by (simp add: ensure_def)

lemma ensure_False [simp]: "ensure False e = Err e"
  by (simp add: ensure_def)

lemma ok_or_Ok [result_simps]: "ok_or x e = Ok y \<longleftrightarrow> x = Some y"
  by (cases x) (simp_all add: ok_or_def)

lemma ok_or_simps [simp]: "ok_or (Some y) e = Ok y" "ok_or None e = Err e"
  by (simp_all add: ok_or_def)

lemma map_err_Ok [result_simps]: "map_err f r = Ok y \<longleftrightarrow> r = Ok y"
  by (cases r) (simp_all add: map_err_def)

lemma map_err_simps [simp]: "map_err f (Ok y) = Ok y" "map_err f (Err e) = Err (f e)"
  by (simp_all add: map_err_def)

section \<open>Machine integers\<close>

text \<open>
  The code keeps every timestamp as \<open>i64\<close> and only ever adds to or subtracts from it with
  the checked or saturating operations, so an \<open>i64\<close> is an \<open>int\<close> and each operation
  says what happens outside the range. Counters and versions are words of their width.
\<close>

type_synonym i64 = int
type_synonym u64 = "64 word"
type_synonym u32 = "32 word"
type_synonym u16 = "16 word"
type_synonym u8 = "8 word"
type_synonym bytes = "8 word list"

definition i64_min :: int where "i64_min = - (2 ^ 63)"
definition i64_max :: int where "i64_max = 2 ^ 63 - 1"

definition i64_ok :: "i64 \<Rightarrow> bool" where
  "i64_ok x \<longleftrightarrow> i64_min \<le> x \<and> x \<le> i64_max"

definition i64_checked_add :: "i64 \<Rightarrow> i64 \<Rightarrow> i64 option" where
  "i64_checked_add a b = (if i64_ok (a + b) then Some (a + b) else None)"

definition i64_checked_sub :: "i64 \<Rightarrow> i64 \<Rightarrow> i64 option" where
  "i64_checked_sub a b = (if i64_ok (a - b) then Some (a - b) else None)"

definition i64_saturate :: "int \<Rightarrow> i64" where
  "i64_saturate x = max i64_min (min i64_max x)"

definition i64_saturating_add :: "i64 \<Rightarrow> i64 \<Rightarrow> i64" where
  "i64_saturating_add a b = i64_saturate (a + b)"

definition i64_saturating_sub :: "i64 \<Rightarrow> i64 \<Rightarrow> i64" where
  "i64_saturating_sub a b = i64_saturate (a - b)"

definition u64_checked_add :: "u64 \<Rightarrow> u64 \<Rightarrow> u64 option" where
  "u64_checked_add a b = (if unat a + unat b < 2 ^ 64 then Some (a + b) else None)"

definition u32_checked_add :: "u32 \<Rightarrow> u32 \<Rightarrow> u32 option" where
  "u32_checked_add a b = (if unat a + unat b < 2 ^ 32 then Some (a + b) else None)"

definition usize_checked_add :: "nat \<Rightarrow> nat \<Rightarrow> nat option" where
  "usize_checked_add a b = (if a + b < 2 ^ 64 then Some (a + b) else None)"

lemmas i64_defs [arith_defs] = i64_min_def i64_max_def i64_ok_def i64_checked_add_def
  i64_checked_sub_def i64_saturate_def i64_saturating_add_def i64_saturating_sub_def

lemma i64_checked_add_Some [result_simps]:
  "i64_checked_add a b = Some c \<longleftrightarrow> c = a + b \<and> i64_ok (a + b)"
  by (auto simp: i64_checked_add_def)

lemma i64_checked_sub_Some [result_simps]:
  "i64_checked_sub a b = Some c \<longleftrightarrow> c = a - b \<and> i64_ok (a - b)"
  by (auto simp: i64_checked_sub_def)

lemma i64_saturate_ok: "i64_ok (i64_saturate x)"
  by (simp add: arith_defs)

lemma i64_saturate_id: "i64_ok x \<Longrightarrow> i64_saturate x = x"
  by (simp add: arith_defs)

lemma i64_saturating_add_le: "0 \<le> a \<Longrightarrow> i64_saturating_add a b \<le> a + b \<or> a + b < i64_min"
  by (auto simp: arith_defs)

lemma u64_checked_add_Some:
  "u64_checked_add a b = Some c \<Longrightarrow> unat c = unat a + unat b"
  by (auto simp: u64_checked_add_def unat_word_ariths split: if_splits)

lemma u32_checked_succ: "a < b \<Longrightarrow> u32_checked_add a 1 = Some (a + 1)"
proof -
  assume "a < b"
  then have "unat a < unat b" "unat b < 2 ^ 32"
    using unsigned_less [of b] by (simp_all add: word_less_nat_alt)
  then show ?thesis by (simp add: u32_checked_add_def)
qed

lemma u64_checked_succ_less: "u64_checked_add a 1 = Some c \<Longrightarrow> a < c"
  by (auto dest!: u64_checked_add_Some simp: word_less_nat_alt)


section \<open>Strings\<close>

text \<open>
  A Rust string is its UTF-8 bytes, so \<open>len\<close>, equality, ordering and the byte predicates
  are those of \<open>char list\<close>. The two Unicode-aware operations the code uses are written over
  UTF-8: a control character (category Cc) is below U+0020, or U+007F, or U+0080 to U+009F
  (lead byte C2); \<open>trim\<close> removes the White\_Space code points at both ends.
\<close>

fun has_control :: "string \<Rightarrow> bool" where
  "has_control [] = False"
| "has_control (c # cs) =
     ((of_char c :: nat) < 32 \<or> of_char c = (127 :: nat) \<or>
      (of_char c = (194 :: nat) \<and> cs \<noteq> [] \<and>
         (128 :: nat) \<le> of_char (hd cs) \<and> of_char (hd cs) \<le> (159 :: nat)) \<or>
      has_control cs)"

definition utf8_lit :: "nat list \<Rightarrow> string" where
  "utf8_lit ns = map char_of ns"

definition white_space :: "string list" where
  "white_space = map utf8_lit
     ([[9], [10], [11], [12], [13], [32], [194, 133], [194, 160], [225, 154, 128]]
      @ map (\<lambda>b. [226, 128, b]) [128 ..< 139]
      @ [[226, 128, 168], [226, 128, 169], [226, 128, 175], [226, 129, 159], [227, 128, 128]])"

function strip_front :: "string list \<Rightarrow> string \<Rightarrow> string" where
  "strip_front ws s =
     (case find (\<lambda>w. w \<noteq> [] \<and> prefix w s) ws of
        None \<Rightarrow> s
      | Some w \<Rightarrow> strip_front ws (drop (length w) s))"
  by pat_completeness auto
termination
proof (relation "measure (\<lambda>(ws, s). length s)")
  show "wf (measure (\<lambda>(ws, s). length s))" by simp
next
  fix ws s w
  assume "find (\<lambda>w. w \<noteq> [] \<and> prefix w s) ws = Some (w :: string)"
  then have "w \<noteq> [] \<and> prefix w s" by (auto simp: find_Some_iff)
  then show "((ws, drop (length w) s), ws, s) \<in> measure (\<lambda>(ws, s). length s)"
    by (cases s) (auto simp: prefix_def)
qed

declare strip_front.simps [simp del]

definition trim_start :: "string \<Rightarrow> string" where
  "trim_start s = strip_front white_space s"

definition trim_end :: "string \<Rightarrow> string" where
  "trim_end s = rev (strip_front (map rev white_space) (rev s))"

definition trim :: "string \<Rightarrow> string" where
  "trim s = trim_end (trim_start s)"

definition valid_text :: "nat \<Rightarrow> string \<Rightarrow> bool" where
  "valid_text maximum s \<longleftrightarrow>
     s \<noteq> [] \<and> length s \<le> maximum \<and> trim s = s \<and> \<not> has_control s"

lemma strip_front_None:
  "find (\<lambda>w. w \<noteq> [] \<and> prefix w s) ws = None \<Longrightarrow> strip_front ws s = s"
  by (simp add: strip_front.simps)

lemma strip_front_suffix: "suffix (strip_front ws s) s"
proof (induction ws s rule: strip_front.induct)
  case (1 ws s)
  show ?case
  proof (cases "find (\<lambda>w. w \<noteq> [] \<and> prefix w s) ws")
    case None
    then show ?thesis by (simp add: strip_front.simps)
  next
    case (Some w)
    with 1 have "suffix (strip_front ws (drop (length w) s)) (drop (length w) s)" by simp
    then have "suffix (strip_front ws (drop (length w) s)) s"
      by (meson suffix_drop suffix_order.trans)
    with Some show ?thesis by (simp add: strip_front.simps [of ws s])
  qed
qed

lemma strip_front_id: "strip_front ws s = s \<longleftrightarrow> (\<forall>w \<in> set ws. w \<noteq> [] \<longrightarrow> \<not> prefix w s)"
proof
  assume id: "strip_front ws s = s"
  show "\<forall>w \<in> set ws. w \<noteq> [] \<longrightarrow> \<not> prefix w s"
  proof (cases "find (\<lambda>w. w \<noteq> [] \<and> prefix w s) ws")
    case None
    then show ?thesis by (auto simp: find_None_iff)
  next
    case (Some w)
    then have w: "w \<noteq> []" "prefix w s" by (auto simp: find_Some_iff)
    have "length (strip_front ws (drop (length w) s)) \<le> length (drop (length w) s)"
      by (rule suffix_length_le [OF strip_front_suffix])
    moreover have "length (drop (length w) s) < length s"
      using w by (cases s) (auto simp: prefix_def)
    ultimately show ?thesis using id Some by (simp add: strip_front.simps [of ws s])
  qed
next
  assume "\<forall>w \<in> set ws. w \<noteq> [] \<longrightarrow> \<not> prefix w s"
  then show "strip_front ws s = s"
    by (intro strip_front_None) (auto simp: find_None_iff)
qed

text \<open>A string is its own trimming exactly when no white space stands at either end.\<close>

lemma trim_id:
  "trim s = s \<longleftrightarrow> (\<forall>w \<in> set white_space. w \<noteq> [] \<longrightarrow> \<not> prefix w s \<and> \<not> suffix w s)"
proof -
  have len: "length (trim_end t) \<le> length t" for t
    unfolding trim_end_def length_rev
    using suffix_length_le [OF strip_front_suffix, of "map rev white_space" "rev t"] by simp
  have end_id: "trim_end s = s \<longleftrightarrow> (\<forall>w \<in> set white_space. w \<noteq> [] \<longrightarrow> \<not> suffix w s)"
    using strip_front_id [of "map rev white_space" "rev s"]
    by (auto simp: trim_end_def suffix_to_prefix rev_swap)
  have start_id: "trim_start s = s \<longleftrightarrow> (\<forall>w \<in> set white_space. w \<noteq> [] \<longrightarrow> \<not> prefix w s)"
    by (simp add: trim_start_def strip_front_id)
  have "trim s = s \<longleftrightarrow> trim_start s = s \<and> trim_end s = s"
  proof
    assume t: "trim s = s"
    have "length s \<le> length (trim_start s)" using len [of "trim_start s"] t by (simp add: trim_def)
    moreover have "suffix (trim_start s) s" by (simp add: trim_start_def strip_front_suffix)
    ultimately have "trim_start s = s"
      by (metis suffix_length_le suffix_order.antisym suffix_def append_eq_append_conv
          append_Nil le_antisym)
    with t show "trim_start s = s \<and> trim_end s = s" by (simp add: trim_def)
  qed (simp add: trim_def)
  then show ?thesis unfolding start_id end_id by blast
qed

section \<open>Identifiers, digests and big-endian bytes\<close>

text \<open>
  A \<open>Uuid\<close> is its 16 bytes and a \<open>Digest32\<close> (like every \<open>[u8; 32]\<close> commitment and public key)
  its 32 bytes, kept as words; reading them most significant byte first gives back the
  array, and the derived orders are those of the words.
\<close>

type_synonym uuid = "128 word"
type_synonym digest32 = "256 word"

definition is_nil :: "uuid \<Rightarrow> bool" where
  "is_nil u \<longleftrightarrow> u = 0"

definition is_zero :: "digest32 \<Rightarrow> bool" where
  "is_zero d \<longleftrightarrow> d = 0"

fun be_bytes :: "nat \<Rightarrow> nat \<Rightarrow> bytes" where
  "be_bytes 0 n = []"
| "be_bytes (Suc k) n = be_bytes k (n div 256) @ [word_of_nat (n mod 256)]"

definition uuid_bytes :: "uuid \<Rightarrow> bytes" where
  "uuid_bytes u = be_bytes 16 (unat u)"

definition digest_bytes :: "digest32 \<Rightarrow> bytes" where
  "digest_bytes d = be_bytes 32 (unat d)"

definition str_bytes :: "string \<Rightarrow> bytes" where
  "str_bytes s = map (\<lambda>c. word_of_nat (of_char c)) s"

lemma be_bytes_length [simp]: "length (be_bytes k n) = k"
  by (induction k arbitrary: n) simp_all

lemma unat_byte_of_nat: "m < 256 \<Longrightarrow> unat (word_of_nat m :: u8) = m"
  by (simp add: unat_of_nat)

lemma be_bytes_inj:
  "m < 256 ^ k \<Longrightarrow> n < 256 ^ k \<Longrightarrow> be_bytes k m = be_bytes k n \<longleftrightarrow> m = n"
proof (induction k arbitrary: m n)
  case 0
  then show ?case by simp
next
  case (Suc k)
  have "m div 256 < 256 ^ k" "n div 256 < 256 ^ k"
    using Suc.prems by (simp_all add: less_mult_imp_div_less mult.commute)
  then have "be_bytes k (m div 256) = be_bytes k (n div 256) \<longleftrightarrow> m div 256 = n div 256"
    by (rule Suc.IH)
  moreover have "(word_of_nat (m mod 256) :: u8) = word_of_nat (n mod 256) \<longleftrightarrow> m mod 256 = n mod 256"
    using unat_byte_of_nat [of "m mod 256"] unat_byte_of_nat [of "n mod 256"]
    by (metis mod_less_divisor zero_less_numeral)
  moreover have "m = n \<longleftrightarrow> m div 256 = n div 256 \<and> m mod 256 = n mod 256"
    by (metis div_mult_mod_eq)
  ultimately show ?case by simp
qed

lemma uuid_bytes_length [simp]: "length (uuid_bytes u) = 16"
  by (simp add: uuid_bytes_def)

lemma digest_bytes_length [simp]: "length (digest_bytes d) = 32"
  by (simp add: digest_bytes_def)

lemma uuid_bytes_inj [simp]: "uuid_bytes a = uuid_bytes b \<longleftrightarrow> a = b"
proof -
  have "unat a < 256 ^ 16" "unat b < 256 ^ 16"
    using unsigned_less [of a, where ?'a = nat] unsigned_less [of b, where ?'a = nat] by simp_all
  then show ?thesis by (simp add: uuid_bytes_def be_bytes_inj word_unat_eq_iff)
qed

lemma digest_bytes_inj [simp]: "digest_bytes a = digest_bytes b \<longleftrightarrow> a = b"
proof -
  have "unat a < 256 ^ 32" "unat b < 256 ^ 32"
    using unsigned_less [of a, where ?'a = nat] unsigned_less [of b, where ?'a = nat] by simp_all
  then show ?thesis by (simp add: digest_bytes_def be_bytes_inj word_unat_eq_iff)
qed

lemma str_bytes_length [simp]: "length (str_bytes s) = length s"
  by (simp add: str_bytes_def)

lemma str_bytes_inj [simp]: "str_bytes s = str_bytes t \<longleftrightarrow> s = t"
proof -
  have "inj (\<lambda>c. (word_of_nat (of_char c) :: u8))"
  proof (rule injI)
    fix c d :: char
    assume "(word_of_nat (of_char c) :: u8) = word_of_nat (of_char d)"
    then have "unat (word_of_nat (of_char c) :: u8) = unat (word_of_nat (of_char d) :: u8)"
      by simp
    then have "(of_char c :: nat) = of_char d" by (simp add: unat_byte_of_nat)
    then show "c = d" by simp
  qed
  then show ?thesis by (simp add: str_bytes_def inj_map_eq_map)
qed

section \<open>Length framing\<close>

text \<open>
  Several commitments prefix a component with its length as a big-endian \<open>u64\<close>; a length
  that does not fit is the error the caller returns. A framed component can be split off
  the front of a byte string in one way only.
\<close>

definition frame :: "bytes \<Rightarrow> bytes option" where
  "frame v = (if length v < 2 ^ 64 then Some (be_bytes 8 (length v) @ v) else None)"

lemma frame_Some: "frame v = Some f \<longleftrightarrow> length v < 2 ^ 64 \<and> f = be_bytes 8 (length v) @ v"
  by (auto simp: frame_def)

lemma u64_be_append [frame_simps]:
  assumes "m < 2 ^ 64" "n < 2 ^ 64"
  shows "be_bytes 8 m @ xs = be_bytes 8 n @ ys \<longleftrightarrow> m = n \<and> xs = ys"
proof -
  have "m < 256 ^ 8" "n < 256 ^ 8" using assms by simp_all
  then show ?thesis by (simp add: be_bytes_inj)
qed

lemma frame_append:
  assumes "frame v = Some f" "frame w = Some g"
  shows "f @ xs = g @ ys \<longleftrightarrow> v = w \<and> xs = ys"
proof -
  have lv: "length v < 2 ^ 64" "length w < 2 ^ 64" and fg: "f = be_bytes 8 (length v) @ v"
    "g = be_bytes 8 (length w) @ w"
    using assms by (simp_all add: frame_Some)
  have "f @ xs = g @ ys \<longleftrightarrow> length v = length w \<and> v @ xs = w @ ys"
    unfolding fg append_assoc using lv by (rule u64_be_append)
  then show ?thesis by auto
qed

section \<open>Sorted and duplicate-free sequences\<close>

text \<open>\<open>windows(2).any(|pair| pair[0] >= pair[1])\<close> is the code's test that a vector is not
  strictly increasing.\<close>

fun some_window_ge :: "'a :: linorder list \<Rightarrow> bool" where
  "some_window_ge (x # y # zs) = (y \<le> x \<or> some_window_ge (y # zs))"
| "some_window_ge _ = False"

lemma some_window_ge_iff: "\<not> some_window_ge xs \<longleftrightarrow> sorted_wrt (<) xs"
  by (induction xs rule: some_window_ge.induct) (auto simp: not_le intro: order.strict_trans)

lemma distinct_remdups_adj: "sorted xs \<Longrightarrow> distinct (remdups_adj xs)"
  by (induction xs rule: remdups_adj.induct) (auto simp: antisym)

text \<open>\<open>sort(); dedup()\<close>: the canonical form of a vector used as a set.\<close>

definition sort_dedup :: "'a :: linorder list \<Rightarrow> 'a list" where
  "sort_dedup xs = remdups_adj (sort xs)"

lemma set_sort_dedup [simp]: "set (sort_dedup xs) = set xs"
  by (simp add: sort_dedup_def)

lemma sort_dedup_Nil [simp]: "sort_dedup xs = [] \<longleftrightarrow> xs = []"
  by (metis set_sort_dedup set_empty)

lemma sort_dedup_strict: "sorted_wrt (<) (sort_dedup xs)"
proof -
  have "sorted (sort_dedup xs)" "distinct (sort_dedup xs)"
    by (simp_all add: sort_dedup_def distinct_remdups_adj)
  then show ?thesis by (simp add: strict_sorted_iff)
qed

lemma sort_dedup_eq_iff: "sort_dedup xs = sort_dedup ys \<longleftrightarrow> set xs = set ys"
proof
  assume "set xs = set ys"
  then have "set (sort_dedup xs) = set (sort_dedup ys)" by simp
  then show "sort_dedup xs = sort_dedup ys"
    using sort_dedup_strict by (metis strict_sorted_iff sorted_distinct_set_unique)
qed (metis set_sort_dedup)

lemma sort_dedup_id: "sorted_wrt (<) xs \<Longrightarrow> sort_dedup xs = xs"
  using sort_dedup_strict [of xs]
  by (metis set_sort_dedup strict_sorted_iff sorted_distinct_set_unique)

section \<open>Digests\<close>

text \<open>What a commitment relies on of its digest: these two inputs do not collide. The digest of
  every byte string has collisions somewhere, so a binding property names its inputs.\<close>

definition no_collision :: "(bytes \<Rightarrow> digest32) \<Rightarrow> bytes \<Rightarrow> bytes \<Rightarrow> bool" where
  "no_collision sha256 x y \<longleftrightarrow> (sha256 x = sha256 y \<longrightarrow> x = y)"

lemma no_collision_eq [simp]: "no_collision sha256 x y \<Longrightarrow> sha256 x = sha256 y \<longleftrightarrow> x = y"
  by (auto simp: no_collision_def)

end
