(* ===== verification/Protocol_Types.thy ===== *)
theory Protocol_Types
  imports Runtime_Prelude
begin

text \<open>
  The data of \<^verbatim>\<open>accordlock-protocol/src/types.rs\<close>: authority vectors, evidence payloads and
  assertions, registered attesters and their scopes, deployment templates, policies,
  proposals, evaluation attestations, capability grants, execution authorizations and
  consumption receipts, with the constant codes and domains the encodings use. Struct
  fields keep their names after a prefix that tells the structs apart.
\<close>

section \<open>Versions and domains\<close>

definition EVIDENCE_ASSERTION_SCHEMA_VERSION :: u16 where
  "EVIDENCE_ASSERTION_SCHEMA_VERSION = 2"
definition EVIDENCE_ROOT_DOMAIN :: string where
  "EVIDENCE_ROOT_DOMAIN = ''accordlock:v2:evidence-root''"
definition EVALUATION_ATTESTATION_SCHEMA_VERSION :: u16 where
  "EVALUATION_ATTESTATION_SCHEMA_VERSION = 2"
definition EVALUATION_DOMAIN :: string where
  "EVALUATION_DOMAIN = ''accordlock:v2:evaluation-attestation''"
definition EXECUTION_AUTHORIZATION_DOMAIN :: string where
  "EXECUTION_AUTHORIZATION_DOMAIN = ''accordlock:v2:cloud-execution-authorization''"
definition EXECUTION_AUTHORIZATION_SCHEMA_VERSION :: u16 where
  "EXECUTION_AUTHORIZATION_SCHEMA_VERSION = 2"
definition EXECUTION_AUTHORIZATION_SINGLE_USE_PROFILE :: u8 where
  "EXECUTION_AUTHORIZATION_SINGLE_USE_PROFILE = 1"
definition CONSUMPTION_RECEIPT_DOMAIN :: string where
  "CONSUMPTION_RECEIPT_DOMAIN = ''accordlock:v1:consumption-receipt''"
definition MAX_IMMUTABLE_DEPENDENCY_EXPIRIES :: nat where
  "MAX_IMMUTABLE_DEPENDENCY_EXPIRIES = 64"

section \<open>Authority\<close>

record AuthorityDomainState =
  ads_root :: digest32
  ads_epoch :: u64
  ads_activation_id :: uuid

record AuthorityVector =
  av_policy :: AuthorityDomainState
  av_registry :: AuthorityDomainState
  av_revocation :: AuthorityDomainState
  av_connector :: AuthorityDomainState
  av_resource :: AuthorityDomainState
  av_signer :: AuthorityDomainState
  av_mediation :: AuthorityDomainState
  av_grant_registry :: AuthorityDomainState
  av_office_act_registry :: AuthorityDomainState
  av_principal_registry :: AuthorityDomainState
  av_workload_build_allowlist :: AuthorityDomainState
  av_kernel_configuration :: AuthorityDomainState

definition domains :: "AuthorityVector \<Rightarrow> AuthorityDomainState list" where
  "domains v =
     [av_policy v, av_registry v, av_revocation v, av_connector v, av_resource v, av_signer v,
      av_mediation v, av_grant_registry v, av_office_act_registry v, av_principal_registry v,
      av_workload_build_allowlist v, av_kernel_configuration v]"

section \<open>Evidence\<close>

datatype EvidenceKind = KReview | KBuild | KArtifact | KTarget

fun kind_domain :: "EvidenceKind \<Rightarrow> string" where
  "kind_domain KReview = ''accordlock:v2:evidence:review''"
| "kind_domain KBuild = ''accordlock:v2:evidence:build''"
| "kind_domain KArtifact = ''accordlock:v2:evidence:artifact''"
| "kind_domain KTarget = ''accordlock:v2:evidence:target''"

fun kind_code :: "EvidenceKind \<Rightarrow> u8" where
  "kind_code KReview = 0"
| "kind_code KBuild = 1"
| "kind_code KArtifact = 2"
| "kind_code KTarget = 3"

datatype CompletenessProfile = DeclaredMaterials | HermeticInputsV1

fun completeness_code :: "CompletenessProfile \<Rightarrow> u8" where
  "completeness_code DeclaredMaterials = 0"
| "completeness_code HermeticInputsV1 = 1"

datatype EvidencePayload =
    PReview (pr_repository: string) (pr_commit_sha: string) (pr_approved: bool)
      (pr_review_state_id: string)
  | PBuild (pb_repository: string) (pb_commit_sha: string) (pb_workflow_ref: string)
      (pb_run_id: string) (pb_succeeded: bool) (pb_input_manifest_root: digest32)
      (pb_completeness_profile: CompletenessProfile) (pb_output_digest: digest32)
  | PArtifact (pa_repository: string) (pa_digest: digest32) (pa_source_run_id: string)
      (pa_signature_valid: bool) (pa_quarantined: bool)
  | PTarget (pt_cluster_identity: string) (pt_namespace: string) (pt_deployment: string)
      (pt_deployment_uid: string) (pt_resource_version: string) (pt_current_image: digest32)
      (pt_projection_hash: digest32)

fun payload_kind :: "EvidencePayload \<Rightarrow> EvidenceKind" where
  "payload_kind (PReview _ _ _ _) = KReview"
| "payload_kind (PBuild _ _ _ _ _ _ _ _) = KBuild"
| "payload_kind (PArtifact _ _ _ _ _) = KArtifact"
| "payload_kind (PTarget _ _ _ _ _ _ _) = KTarget"

record EvidenceAssertion =
  ea_schema_version :: u16
  ea_request_id :: uuid
  ea_evidence_id :: uuid
  ea_issuer :: string
  ea_key_id :: string
  ea_source_uri :: string
  ea_observed_at :: i64
  ea_valid_until :: i64
  ea_authority :: AuthorityVector
  ea_payload :: EvidencePayload

record SignedEvidence =
  se_assertion :: EvidenceAssertion
  se_cose_sign1 :: bytes

datatype AttesterStatus = Active | Disabled | Revoked

datatype AttesterScope =
    SReview (sr_repository: string)
  | SBuild (sb_repository: string) (sb_workflow_ref: string)
  | SArtifact (sa_image_repository: string)
  | STarget (st_cluster_identity: string) (st_namespace: string) (st_deployment_uid: string)

record RegisteredAttester =
  ra_tenant :: string
  ra_environment :: string
  ra_issuer :: string
  ra_key_id :: string
  ra_public_key :: digest32
  ra_principal_id :: string
  ra_base_grade :: u8
  ra_status :: AttesterStatus
  ra_scopes :: "AttesterScope list"

section \<open>Templates, policies and proposals\<close>

record DeploymentTemplate =
  dt_operation :: string
  dt_environment :: string
  dt_audience :: string
  dt_repository :: string
  dt_commit_sha :: string
  dt_image_repository :: string
  dt_image_digest :: digest32
  dt_cluster_identity :: string
  dt_namespace :: string
  dt_deployment :: string
  dt_deployment_uid :: string
  dt_container :: string
  dt_container_index :: u32
  dt_prior_image_digest :: digest32
  dt_resource_version :: string
  dt_prior_projection_hash :: digest32
  dt_prior_transaction_annotation :: "string option"
  dt_prior_authorization_annotation :: "string option"
  dt_prior_operation_hash_annotation :: "string option"

record PolicyConfig =
  pc_policy_id :: string
  pc_allowed_actors :: "string list"
  pc_allowed_repositories :: "string list"
  pc_allowed_image_repositories :: "string list"
  pc_allowed_clusters :: "string list"
  pc_allowed_namespaces :: "string list"
  pc_minimum_review_grade :: u8
  pc_minimum_build_grade :: u8
  pc_maximum_evidence_age_seconds :: i64
  pc_maximum_authorization_lifetime_seconds :: i64

record AgentProposal =
  ap_schema_version :: u16
  ap_request_id :: uuid
  ap_tenant :: string
  ap_actor :: string
  ap_template :: DeploymentTemplate

record TrustedEvidenceSet =
  te_request_id :: uuid
  te_evidence :: "SignedEvidence list"

datatype DecisionOutcome = Allow | Deny

fun outcome_code :: "DecisionOutcome \<Rightarrow> u8" where
  "outcome_code Allow = 1"
| "outcome_code Deny = 0"

section \<open>Reason codes\<close>

datatype ReasonCode =
    Allowed | UnknownAction | ActorNotAllowed
  | RepositoryNotAllowed | ImageRepositoryNotAllowed | TargetNotAllowed
  | CallerSecurityFactRejected | EvidenceSignatureInvalid | AttesterNotRegistered
  | AttesterScopeViolation | EvidenceDefective | EvidenceStale
  | EvidenceFromFuture | AuthorityEpochMismatch | MissingReview
  | ReviewNotApproved | ReviewCommitMismatch | ReviewGradeInsufficient
  | MissingBuild | BuildFailed | BuildCommitMismatch
  | BuildGradeInsufficient | MissingArtifact | ArtifactSignatureInvalid
  | ArtifactQuarantined | TransformOutputMismatch | MissingTargetSnapshot
  | TargetIdentityMismatch | TargetStateMismatch | MalformedCommit
  | InvalidValidityWindow | PolicyRootMismatch | EvidenceRequestMismatch

fun reason_code :: "ReasonCode \<Rightarrow> u16" where
  "reason_code Allowed = 0"
| "reason_code UnknownAction = 1"
| "reason_code ActorNotAllowed = 2"
| "reason_code RepositoryNotAllowed = 3"
| "reason_code ImageRepositoryNotAllowed = 4"
| "reason_code TargetNotAllowed = 5"
| "reason_code CallerSecurityFactRejected = 6"
| "reason_code EvidenceSignatureInvalid = 7"
| "reason_code AttesterNotRegistered = 8"
| "reason_code AttesterScopeViolation = 9"
| "reason_code EvidenceDefective = 10"
| "reason_code EvidenceStale = 11"
| "reason_code EvidenceFromFuture = 12"
| "reason_code AuthorityEpochMismatch = 13"
| "reason_code MissingReview = 14"
| "reason_code ReviewNotApproved = 15"
| "reason_code ReviewCommitMismatch = 16"
| "reason_code ReviewGradeInsufficient = 17"
| "reason_code MissingBuild = 18"
| "reason_code BuildFailed = 19"
| "reason_code BuildCommitMismatch = 20"
| "reason_code BuildGradeInsufficient = 21"
| "reason_code MissingArtifact = 22"
| "reason_code ArtifactSignatureInvalid = 23"
| "reason_code ArtifactQuarantined = 24"
| "reason_code TransformOutputMismatch = 25"
| "reason_code MissingTargetSnapshot = 26"
| "reason_code TargetIdentityMismatch = 27"
| "reason_code TargetStateMismatch = 28"
| "reason_code MalformedCommit = 29"
| "reason_code InvalidValidityWindow = 30"
| "reason_code PolicyRootMismatch = 31"
| "reason_code EvidenceRequestMismatch = 32"

text \<open>The derived order is the order of declaration, which the codes number.\<close>

lemma reason_code_inj: "reason_code a = reason_code b \<longleftrightarrow> a = b"
  by (cases a; cases b) simp_all

instantiation ReasonCode :: linorder
begin

definition less_eq_ReasonCode :: "ReasonCode \<Rightarrow> ReasonCode \<Rightarrow> bool" where
  "less_eq_ReasonCode a b \<longleftrightarrow> reason_code a \<le> reason_code b"

definition less_ReasonCode :: "ReasonCode \<Rightarrow> ReasonCode \<Rightarrow> bool" where
  "less_ReasonCode a b \<longleftrightarrow> reason_code a < reason_code b"

instance
  by standard
    (auto simp: less_eq_ReasonCode_def less_ReasonCode_def reason_code_inj
      dest: order.antisym)

end

section \<open>Attestations, grants, authorizations and receipts\<close>

record EvaluationAttestation =
  at_schema_version :: u16
  at_request_id :: uuid
  at_evaluation_nonce :: uuid
  at_tenant :: string
  at_actor :: string
  at_evaluated_at :: i64
  at_outcome :: DecisionOutcome
  at_reasons :: "ReasonCode list"
  at_template_hash :: digest32
  at_evidence_root :: digest32
  at_principals :: "string list"
  at_policy_root :: digest32
  at_authority :: AuthorityVector
  at_consume_before :: i64

record SignedEvaluation =
  sv_attestation :: EvaluationAttestation
  sv_cose_sign1 :: bytes

record CapabilityGrant =
  cg_grant_id :: uuid
  cg_holder :: string
  cg_tenant :: string
  cg_operation :: string
  cg_repository :: string
  cg_audience :: string
  cg_cluster_identity :: string
  cg_namespace :: string
  cg_deployment_uid :: string
  cg_container :: string
  cg_image_repository :: string
  cg_not_before :: i64
  cg_expires_at :: i64
  cg_maximum_uses :: u32

record DispatchDeadlinePolicy =
  dp_max_dispatch_delay_seconds :: i64
  dp_profile_hard_cap :: i64
  dp_immutable_dependency_expiries :: "i64 list"

record ExecutionAuthorization =
  xa_schema_version :: u16
  xa_authorization_id :: uuid
  xa_evaluation_nonce :: uuid
  xa_request_id :: uuid
  xa_tenant :: string
  xa_holder :: string
  xa_audience :: string
  xa_issued_at :: i64
  xa_not_before :: i64
  xa_consume_before :: i64
  xa_dispatch_deadline_policy :: DispatchDeadlinePolicy
  xa_grant_id :: uuid
  xa_template :: DeploymentTemplate
  xa_template_hash :: digest32
  xa_evidence_root :: digest32
  xa_principals :: "string list"
  xa_policy_root :: digest32
  xa_authority :: AuthorityVector

record SignedAuthorization =
  sx_authorization :: ExecutionAuthorization
  sx_cose_sign1 :: bytes

record ConsumptionReceipt =
  cr_schema_version :: u16
  cr_transaction_id :: uuid
  cr_authorization_id :: uuid
  cr_consumed_at :: i64
  cr_dispatch_deadline :: i64
  cr_authority :: AuthorityVector
  cr_authorization_hash :: digest32

section \<open>Values the machine can hold\<close>

text \<open>
  Rust's types bound every length by \<open>isize::MAX\<close> and every \<open>i64\<close> by its range. The model's
  lists and integers are unbounded, so facts that depend on a bound take it as one of the
  predicates below; every value of the program satisfies them.
\<close>

definition str_ok :: "string \<Rightarrow> bool" where
  "str_ok s \<longleftrightarrow> length s < 2 ^ 63"

definition strs_ok :: "string list \<Rightarrow> bool" where
  "strs_ok xs \<longleftrightarrow> length xs < 2 ^ 63 \<and> list_all str_ok xs"

definition opt_str_ok :: "string option \<Rightarrow> bool" where
  "opt_str_ok x = (case x of None \<Rightarrow> True | Some s \<Rightarrow> str_ok s)"

definition template_ok :: "DeploymentTemplate \<Rightarrow> bool" where
  "template_ok t \<longleftrightarrow>
     list_all str_ok [dt_operation t, dt_environment t, dt_audience t, dt_repository t,
       dt_commit_sha t, dt_image_repository t, dt_cluster_identity t, dt_namespace t,
       dt_deployment t, dt_deployment_uid t, dt_container t, dt_resource_version t] \<and>
     list_all opt_str_ok [dt_prior_transaction_annotation t, dt_prior_authorization_annotation t,
       dt_prior_operation_hash_annotation t]"

fun payload_ok :: "EvidencePayload \<Rightarrow> bool" where
  "payload_ok (PReview r c a i) = list_all str_ok [r, c, i]"
| "payload_ok (PBuild r c w i s m p d) = list_all str_ok [r, c, w, i]"
| "payload_ok (PArtifact r d i s q) = list_all str_ok [r, i]"
| "payload_ok (PTarget c n d u v i h) = list_all str_ok [c, n, d, u, v]"

definition assertion_ok :: "EvidenceAssertion \<Rightarrow> bool" where
  "assertion_ok a \<longleftrightarrow> list_all str_ok [ea_issuer a, ea_key_id a, ea_source_uri a] \<and>
     list_all i64_ok [ea_observed_at a, ea_valid_until a] \<and> payload_ok (ea_payload a)"

definition policy_ok :: "PolicyConfig \<Rightarrow> bool" where
  "policy_ok p \<longleftrightarrow> str_ok (pc_policy_id p) \<and>
     list_all strs_ok [pc_allowed_actors p, pc_allowed_repositories p,
       pc_allowed_image_repositories p, pc_allowed_clusters p, pc_allowed_namespaces p] \<and>
     list_all i64_ok [pc_maximum_evidence_age_seconds p,
       pc_maximum_authorization_lifetime_seconds p]"

definition proposal_ok :: "AgentProposal \<Rightarrow> bool" where
  "proposal_ok p \<longleftrightarrow> list_all str_ok [ap_tenant p, ap_actor p] \<and> template_ok (ap_template p)"

definition attestation_ok :: "EvaluationAttestation \<Rightarrow> bool" where
  "attestation_ok a \<longleftrightarrow> list_all str_ok [at_tenant a, at_actor a] \<and>
     list_all i64_ok [at_evaluated_at a, at_consume_before a] \<and>
     length (at_reasons a) < 2 ^ 63 \<and> strs_ok (at_principals a)"

definition grant_ok :: "CapabilityGrant \<Rightarrow> bool" where
  "grant_ok g \<longleftrightarrow>
     list_all str_ok [cg_holder g, cg_tenant g, cg_operation g, cg_repository g, cg_audience g,
       cg_cluster_identity g, cg_namespace g, cg_deployment_uid g, cg_container g,
       cg_image_repository g] \<and>
     list_all i64_ok [cg_not_before g, cg_expires_at g]"

definition deadline_policy_ok :: "DispatchDeadlinePolicy \<Rightarrow> bool" where
  "deadline_policy_ok p \<longleftrightarrow>
     list_all i64_ok [dp_max_dispatch_delay_seconds p, dp_profile_hard_cap p] \<and>
     list_all i64_ok (dp_immutable_dependency_expiries p) \<and>
     length (dp_immutable_dependency_expiries p) < 2 ^ 63"

definition authorization_ok :: "ExecutionAuthorization \<Rightarrow> bool" where
  "authorization_ok x \<longleftrightarrow> list_all str_ok [xa_tenant x, xa_holder x, xa_audience x] \<and>
     list_all i64_ok [xa_issued_at x, xa_not_before x, xa_consume_before x] \<and>
     deadline_policy_ok (xa_dispatch_deadline_policy x) \<and> template_ok (xa_template x) \<and>
     strs_ok (xa_principals x)"

definition receipt_ok :: "ConsumptionReceipt \<Rightarrow> bool" where
  "receipt_ok r \<longleftrightarrow> list_all i64_ok [cr_consumed_at r, cr_dispatch_deadline r]"

end
