(* ===== verification/Canonical_Encoding.thy ===== *)
theory Canonical_Encoding
  imports Protocol_Types
begin

text \<open>
  \<^verbatim>\<open>accordlock-protocol/src/canonical.rs\<close>: the deterministic CBOR layout of every signed or
  hashed value. The encoder is the external crate minicbor, so the model of an
  \<open>encode_*\<close> function is the sequence of encoder calls it makes (the tokens) and the bytes
  are taken from a parameter \<open>enc\<close> that gives the bytes of one call. What the code relies on
  is the interface \<open>cbor_encoder\<close>: an item is never empty and can be read off the front of a
  byte string in one way. RFC 8949's preferred serialisation satisfies it (interpretation
  \<open>rfc\<close>). SHA-256 is a parameter too; the hash facts say that two values with one hash
  are equal or exhibit a collision.
\<close>

named_theorems encode_cancel \<open>unique decomposition of token sequences\<close>
named_theorems encode_tokens \<open>layouts of the encoded values\<close>

section \<open>Encoder calls\<close>

datatype cbor_token =
    CArray nat
  | CInt int
  | CBytes bytes
  | CStr string
  | CBool bool
  | CNull

text \<open>The arguments the encoder's calls can have: lengths below \<open>2\<^sup>6\<^sup>4\<close>, integers of at
  most 64 bits.\<close>

fun token_ok :: "cbor_token \<Rightarrow> bool" where
  "token_ok (CArray n) = (n < 2 ^ 64)"
| "token_ok (CInt i) = (- (2 ^ 64) \<le> i \<and> i < 2 ^ 64)"
| "token_ok (CBytes b) = (length b < 2 ^ 64)"
| "token_ok (CStr s) = (length s < 2 ^ 64)"
| "token_ok (CBool b) = True"
| "token_ok CNull = True"

locale cbor_encoder =
  fixes enc :: "cbor_token \<Rightarrow> bytes"
  assumes item_nonempty: "token_ok t \<Longrightarrow> enc t \<noteq> []"
    and item_prefix_free:
      "token_ok t \<Longrightarrow> token_ok u \<Longrightarrow> enc t @ xs = enc u @ ys \<Longrightarrow> t = u \<and> xs = ys"
begin

lemma items_inj:
  assumes "list_all token_ok ts" "list_all token_ok us"
    and "concat (map enc ts) = concat (map enc us)"
  shows "ts = us"
  using assms
proof (induction ts arbitrary: us)
  case Nil
  then show ?case by (cases us) (auto dest: item_nonempty)
next
  case (Cons t ts)
  then obtain u us' where us: "us = u # us'"
    by (cases us) (auto dest: item_nonempty)
  with Cons.prems have "t = u \<and> concat (map enc ts) = concat (map enc us')"
    by (intro item_prefix_free) simp_all
  with Cons us show ?case by simp
qed

end

section \<open>The layouts\<close>

text \<open>\<open>u64::try_from(len).unwrap_or(u64::MAX)\<close>\<close>

definition array_len :: "nat \<Rightarrow> nat" where
  "array_len n = (if n < 2 ^ 64 then n else 2 ^ 64 - 1)"

definition counted :: "('a \<Rightarrow> cbor_token) \<Rightarrow> 'a list \<Rightarrow> cbor_token list" where
  "counted f xs = CArray (array_len (length xs)) # map f xs"

definition encode_domain :: "AuthorityDomainState \<Rightarrow> cbor_token list" where
  "encode_domain v =
     [CArray 3, CBytes (digest_bytes (ads_root v)), CInt (uint (ads_epoch v)),
      CBytes (uuid_bytes (ads_activation_id v))]"

definition encode_authority :: "AuthorityVector \<Rightarrow> cbor_token list" where
  "encode_authority v = CArray 12 # concat (map encode_domain (domains v))"

fun encode_optional_string :: "string option \<Rightarrow> cbor_token list" where
  "encode_optional_string (Some s) = [CStr s]"
| "encode_optional_string None = [CNull]"

definition encode_template :: "DeploymentTemplate \<Rightarrow> cbor_token list" where
  "encode_template v =
     [CArray 19, CStr (dt_operation v), CStr (dt_environment v), CStr (dt_audience v),
      CStr (dt_repository v), CStr (dt_commit_sha v), CStr (dt_image_repository v),
      CBytes (digest_bytes (dt_image_digest v)), CStr (dt_cluster_identity v),
      CStr (dt_namespace v), CStr (dt_deployment v), CStr (dt_deployment_uid v),
      CStr (dt_container v), CInt (uint (dt_container_index v)),
      CBytes (digest_bytes (dt_prior_image_digest v)), CStr (dt_resource_version v),
      CBytes (digest_bytes (dt_prior_projection_hash v))]
     @ encode_optional_string (dt_prior_transaction_annotation v)
     @ encode_optional_string (dt_prior_authorization_annotation v)
     @ encode_optional_string (dt_prior_operation_hash_annotation v)"

definition encode_dispatch_deadline_policy :: "DispatchDeadlinePolicy \<Rightarrow> cbor_token list" where
  "encode_dispatch_deadline_policy v =
     [CArray 3, CInt (dp_max_dispatch_delay_seconds v), CInt (dp_profile_hard_cap v)]
     @ counted CInt (dp_immutable_dependency_expiries v)"

fun encode_payload :: "EvidencePayload \<Rightarrow> cbor_token list" where
  "encode_payload (PReview repository commit_sha approved review_state_id) =
     [CArray 5, CInt 0, CStr repository, CStr commit_sha, CBool approved, CStr review_state_id]"
| "encode_payload (PBuild repository commit_sha workflow_ref run_id succeeded input_manifest_root
      completeness_profile output_digest) =
     [CArray 9, CInt 1, CStr repository, CStr commit_sha, CStr workflow_ref, CStr run_id,
      CBool succeeded, CBytes (digest_bytes input_manifest_root),
      CInt (uint (completeness_code completeness_profile)),
      CBytes (digest_bytes output_digest)]"
| "encode_payload (PArtifact repository digest source_run_id signature_valid quarantined) =
     [CArray 6, CInt 2, CStr repository, CBytes (digest_bytes digest), CStr source_run_id,
      CBool signature_valid, CBool quarantined]"
| "encode_payload (PTarget cluster_identity namespace deployment deployment_uid resource_version
      current_image projection_hash) =
     [CArray 8, CInt 3, CStr cluster_identity, CStr namespace, CStr deployment,
      CStr deployment_uid, CStr resource_version, CBytes (digest_bytes current_image),
      CBytes (digest_bytes projection_hash)]"

definition encode_assertion :: "EvidenceAssertion \<Rightarrow> cbor_token list" where
  "encode_assertion v =
     [CArray 10, CInt (uint (ea_schema_version v)), CBytes (uuid_bytes (ea_request_id v)),
      CBytes (uuid_bytes (ea_evidence_id v)), CStr (ea_issuer v), CStr (ea_key_id v),
      CStr (ea_source_uri v), CInt (ea_observed_at v), CInt (ea_valid_until v)]
     @ encode_authority (ea_authority v) @ encode_payload (ea_payload v)"

definition encode_sorted_strings :: "string list \<Rightarrow> cbor_token list" where
  "encode_sorted_strings values = counted CStr (sort_dedup values)"

section \<open>Canonical values\<close>

definition AUTHORITY_VECTOR_DOMAIN :: string where
  "AUTHORITY_VECTOR_DOMAIN = ''accordlock:v1:authority-vector''"

definition AGENT_PROPOSAL_DOMAIN :: string where
  "AGENT_PROPOSAL_DOMAIN = ''accordlock:v1:agent-proposal''"

datatype CanonicalError =
    Encode string
  | NonCanonicalCollection string
  | InvalidValue string

definition require_sorted_unique :: "'a :: linorder list \<Rightarrow> string \<Rightarrow> (unit, CanonicalError) result" where
  "require_sorted_unique xs field =
     (if some_window_ge xs then Err (NonCanonicalCollection field) else Ok ())"

definition proposal_tokens :: "AgentProposal \<Rightarrow> cbor_token list" where
  "proposal_tokens v =
     [CArray 6, CInt (uint (ap_schema_version v)), CBytes (uuid_bytes (ap_request_id v)),
      CStr (ap_tenant v), CStr (ap_actor v)]
     @ encode_template (ap_template v) @ [CStr AGENT_PROPOSAL_DOMAIN]"

definition policy_tokens :: "PolicyConfig \<Rightarrow> cbor_token list" where
  "policy_tokens v =
     [CArray 10, CStr (pc_policy_id v)]
     @ encode_sorted_strings (pc_allowed_actors v)
     @ encode_sorted_strings (pc_allowed_repositories v)
     @ encode_sorted_strings (pc_allowed_image_repositories v)
     @ encode_sorted_strings (pc_allowed_clusters v)
     @ encode_sorted_strings (pc_allowed_namespaces v)
     @ [CInt (uint (pc_minimum_review_grade v)), CInt (uint (pc_minimum_build_grade v)),
        CInt (pc_maximum_evidence_age_seconds v),
        CInt (pc_maximum_authorization_lifetime_seconds v)]"

definition authority_tokens :: "AuthorityVector \<Rightarrow> cbor_token list" where
  "authority_tokens v = CArray 2 # encode_authority v @ [CStr AUTHORITY_VECTOR_DOMAIN]"

definition attestation_tokens ::
    "EvaluationAttestation \<Rightarrow> (cbor_token list, CanonicalError) result" where
  "attestation_tokens v =
     and_then (require_sorted_unique (at_principals v) ''evaluation principals'') (\<lambda>_. Ok
       ([CArray 15, CInt (uint (at_schema_version v)), CBytes (uuid_bytes (at_request_id v)),
         CBytes (uuid_bytes (at_evaluation_nonce v)), CStr (at_tenant v), CStr (at_actor v),
         CInt (at_evaluated_at v), CInt (uint (outcome_code (at_outcome v)))]
        @ counted (\<lambda>r. CInt (uint (reason_code r))) (at_reasons v)
        @ [CBytes (digest_bytes (at_template_hash v)), CBytes (digest_bytes (at_evidence_root v))]
        @ encode_sorted_strings (at_principals v)
        @ [CBytes (digest_bytes (at_policy_root v))]
        @ encode_authority (at_authority v)
        @ [CInt (at_consume_before v), CStr EVALUATION_DOMAIN]))"

definition grant_tokens :: "CapabilityGrant \<Rightarrow> cbor_token list" where
  "grant_tokens v =
     [CArray 15, CBytes (uuid_bytes (cg_grant_id v)), CStr (cg_holder v), CStr (cg_tenant v),
      CStr (cg_operation v), CStr (cg_repository v), CStr (cg_audience v),
      CStr (cg_cluster_identity v), CStr (cg_namespace v), CStr (cg_deployment_uid v),
      CStr (cg_container v), CStr (cg_image_repository v), CInt (cg_not_before v),
      CInt (cg_expires_at v), CInt (uint (cg_maximum_uses v)),
      CStr ''accordlock:v1:capability-grant'']"

definition authorization_tokens ::
    "ExecutionAuthorization \<Rightarrow> (cbor_token list, CanonicalError) result" where
  "authorization_tokens v =
     (let policy = xa_dispatch_deadline_policy v in
      and_then (require_sorted_unique (xa_principals v) ''authorization principals'') (\<lambda>_.
      and_then (ensure
        (\<not> (dp_max_dispatch_delay_seconds policy \<le> 0 \<or> dp_profile_hard_cap policy < 0
           \<or> MAX_IMMUTABLE_DEPENDENCY_EXPIRIES < length (dp_immutable_dependency_expiries policy)
           \<or> list_ex (\<lambda>expiry. expiry < 0) (dp_immutable_dependency_expiries policy)))
        (InvalidValue ''authorization dispatch deadline policy'')) (\<lambda>_.
      and_then (require_sorted_unique (dp_immutable_dependency_expiries policy)
        ''authorization immutable dependency expiries'') (\<lambda>_. Ok
       ([CArray 20, CInt (uint (xa_schema_version v)), CBytes (uuid_bytes (xa_authorization_id v)),
         CBytes (uuid_bytes (xa_evaluation_nonce v)), CBytes (uuid_bytes (xa_request_id v)),
         CStr (xa_tenant v), CStr (xa_holder v), CStr (xa_audience v), CInt (xa_issued_at v),
         CInt (xa_not_before v), CInt (xa_consume_before v)]
        @ encode_dispatch_deadline_policy policy
        @ [CBytes (uuid_bytes (xa_grant_id v))]
        @ encode_template (xa_template v)
        @ [CBytes (digest_bytes (xa_template_hash v)), CBytes (digest_bytes (xa_evidence_root v))]
        @ encode_sorted_strings (xa_principals v)
        @ [CBytes (digest_bytes (xa_policy_root v))]
        @ encode_authority (xa_authority v)
        @ [CStr EXECUTION_AUTHORIZATION_DOMAIN,
           CInt (uint EXECUTION_AUTHORIZATION_SINGLE_USE_PROFILE)])))))"

definition receipt_tokens :: "ConsumptionReceipt \<Rightarrow> cbor_token list" where
  "receipt_tokens v =
     [CArray 8, CInt (uint (cr_schema_version v)), CBytes (uuid_bytes (cr_transaction_id v)),
      CBytes (uuid_bytes (cr_authorization_id v)), CInt (cr_consumed_at v),
      CInt (cr_dispatch_deadline v)]
     @ encode_authority (cr_authority v)
     @ [CBytes (digest_bytes (cr_authorization_hash v)), CStr CONSUMPTION_RECEIPT_DOMAIN]"

text \<open>The implementors of the trait \<open>CanonicalEncode\<close>, as one type.\<close>

datatype canonical_value =
    VAssertion EvidenceAssertion
  | VTemplate DeploymentTemplate
  | VProposal AgentProposal
  | VPolicy PolicyConfig
  | VAuthority AuthorityVector
  | VAttestation EvaluationAttestation
  | VGrant CapabilityGrant
  | VAuthorization ExecutionAuthorization
  | VReceipt ConsumptionReceipt

fun canonical_tokens :: "canonical_value \<Rightarrow> (cbor_token list, CanonicalError) result" where
  "canonical_tokens (VAssertion v) = Ok (encode_assertion v)"
| "canonical_tokens (VTemplate v) = Ok (encode_template v)"
| "canonical_tokens (VProposal v) = Ok (proposal_tokens v)"
| "canonical_tokens (VPolicy v) = Ok (policy_tokens v)"
| "canonical_tokens (VAuthority v) = Ok (authority_tokens v)"
| "canonical_tokens (VAttestation v) = attestation_tokens v"
| "canonical_tokens (VGrant v) = Ok (grant_tokens v)"
| "canonical_tokens (VAuthorization v) = authorization_tokens v"
| "canonical_tokens (VReceipt v) = Ok (receipt_tokens v)"

definition canonical_bytes ::
    "(cbor_token \<Rightarrow> bytes) \<Rightarrow> canonical_value \<Rightarrow> (bytes, CanonicalError) result" where
  "canonical_bytes enc v = and_then (canonical_tokens v) (\<lambda>ts. Ok (concat (map enc ts)))"

definition canonical_hash ::
    "(cbor_token \<Rightarrow> bytes) \<Rightarrow> (bytes \<Rightarrow> digest32) \<Rightarrow> canonical_value
     \<Rightarrow> (digest32, CanonicalError) result" where
  "canonical_hash enc sha256 v = and_then (canonical_bytes enc v) (\<lambda>b. Ok (sha256 b))"

definition evidence_root ::
    "(cbor_token \<Rightarrow> bytes) \<Rightarrow> (bytes \<Rightarrow> digest32) \<Rightarrow> EvidenceAssertion list \<Rightarrow> digest32" where
  "evidence_root enc sha256 values =
     (let ordered = sort_key ea_evidence_id values;
          tokens = CArray (array_len (length ordered)) # concat (map encode_assertion ordered)
      in sha256 (str_bytes EVIDENCE_ROOT_DOMAIN @ [0] @ concat (map enc tokens)))"

section \<open>Layouts determine their values\<close>

text \<open>Each layout can be cancelled at the front of a token sequence: the encoded value and the
  rest of the sequence are both determined.\<close>

lemma uint_inj [simp]: "uint a = uint b \<longleftrightarrow> a = b"
  by (simp add: word_uint_eq_iff)

lemma completeness_code_inj [simp]: "completeness_code a = completeness_code b \<longleftrightarrow> a = b"
  by (cases a; cases b) simp_all

lemma outcome_code_inj [simp]: "outcome_code a = outcome_code b \<longleftrightarrow> a = b"
  by (cases a; cases b) simp_all

lemma array_len_inj: "m < 2 ^ 63 \<Longrightarrow> n < 2 ^ 63 \<Longrightarrow> array_len m = array_len n \<longleftrightarrow> m = n"
  by (simp add: array_len_def)

lemma encode_domain_cancel [encode_cancel]:
  "encode_domain a @ xs = encode_domain b @ ys \<longleftrightarrow> a = b \<and> xs = ys"
  by (auto simp: encode_domain_def intro: AuthorityDomainState.equality)

lemma encode_authority_cancel [encode_cancel]:
  "encode_authority a @ xs = encode_authority b @ ys \<longleftrightarrow> a = b \<and> xs = ys"
  by (auto simp: encode_authority_def domains_def encode_domain_cancel append_assoc
      intro: AuthorityVector.equality)

lemma encode_optional_cancel [encode_cancel]:
  "encode_optional_string a @ xs = encode_optional_string b @ ys \<longleftrightarrow> a = b \<and> xs = ys"
  by (cases a; cases b) auto

lemma encode_template_cancel [encode_cancel]:
  "encode_template a @ xs = encode_template b @ ys \<longleftrightarrow> a = b \<and> xs = ys"
  by (auto simp: encode_template_def encode_optional_cancel intro: DeploymentTemplate.equality)

lemma encode_payload_cancel [encode_cancel]:
  "encode_payload a @ xs = encode_payload b @ ys \<longleftrightarrow> a = b \<and> xs = ys"
  by (cases a; cases b) auto

lemma counted_cancel:
  assumes "inj f" "length as < 2 ^ 63" "length bs < 2 ^ 63"
  shows "counted f as @ xs = counted f bs @ ys \<longleftrightarrow> as = bs \<and> xs = ys"
  using assms by (auto simp: counted_def array_len_inj inj_map_eq_map)

lemma inj_CInt: "inj CInt" and inj_CStr: "inj CStr"
  by (simp_all add: inj_def)

lemma inj_reason_token: "inj (\<lambda>r. CInt (uint (reason_code r)))"
  by (simp add: inj_def reason_code_inj)

lemmas counted_cancels = counted_cancel [OF inj_CInt] counted_cancel [OF inj_CStr]
  counted_cancel [OF inj_reason_token]

lemma encode_deadline_cancel:
  assumes "deadline_policy_ok a" "deadline_policy_ok b"
  shows "encode_dispatch_deadline_policy a @ xs = encode_dispatch_deadline_policy b @ ys
    \<longleftrightarrow> a = b \<and> xs = ys"
  using assms by (auto simp: encode_dispatch_deadline_policy_def deadline_policy_ok_def
      counted_cancels intro: DispatchDeadlinePolicy.equality)

lemma length_sort_dedup: "length (sort_dedup xs) \<le> length xs"
  unfolding sort_dedup_def by (metis remdups_adj_length length_sort)

lemma encode_sorted_cancel:
  assumes "strs_ok as" "strs_ok bs"
  shows "encode_sorted_strings as @ xs = encode_sorted_strings bs @ ys
    \<longleftrightarrow> set as = set bs \<and> xs = ys"
proof -
  have "length (sort_dedup as) < 2 ^ 63" "length (sort_dedup bs) < 2 ^ 63"
    using assms length_sort_dedup [of as] length_sort_dedup [of bs] by (simp_all add: strs_ok_def)
  then show ?thesis by (simp add: encode_sorted_strings_def counted_cancels sort_dedup_eq_iff)
qed

lemma encode_assertion_cancel [encode_cancel]:
  "encode_assertion a @ xs = encode_assertion b @ ys \<longleftrightarrow> a = b \<and> xs = ys"
  by (auto simp: encode_assertion_def encode_authority_cancel encode_payload_cancel
      intro: EvidenceAssertion.equality)

lemma encode_eq [encode_cancel]:
  "encode_authority a = encode_authority b \<longleftrightarrow> a = b"
  "encode_template t = encode_template u \<longleftrightarrow> t = u"
  "encode_assertion x = encode_assertion y \<longleftrightarrow> x = y"
  using encode_authority_cancel [of a "[]" b "[]"] encode_template_cancel [of t "[]" u "[]"]
    encode_assertion_cancel [of x "[]" y "[]"]
  by simp_all

lemma encode_sorted_eq:
  "strs_ok as \<Longrightarrow> strs_ok bs \<Longrightarrow>
     encode_sorted_strings as = encode_sorted_strings bs \<longleftrightarrow> set as = set bs"
  using encode_sorted_cancel [of as bs "[]" "[]"] by simp

lemma require_sorted_unique_Ok [result_simps]:
  "require_sorted_unique xs field = Ok u \<longleftrightarrow> sorted_wrt (<) xs"
  by (simp add: require_sorted_unique_def some_window_ge_iff [symmetric])

lemma strict_sorted_set_eq:
  "sorted_wrt (<) (xs :: 'a :: linorder list) \<Longrightarrow> sorted_wrt (<) ys \<Longrightarrow> set xs = set ys \<longleftrightarrow> xs = ys"
  by (metis sort_dedup_eq_iff sort_dedup_id)

section \<open>Every layout stays inside the encoder's domain\<close>

fun value_ok :: "canonical_value \<Rightarrow> bool" where
  "value_ok (VAssertion v) = assertion_ok v"
| "value_ok (VTemplate v) = template_ok v"
| "value_ok (VProposal v) = proposal_ok v"
| "value_ok (VPolicy v) = policy_ok v"
| "value_ok (VAuthority v) = True"
| "value_ok (VAttestation v) = attestation_ok v"
| "value_ok (VGrant v) = grant_ok v"
| "value_ok (VAuthorization v) = authorization_ok v"
| "value_ok (VReceipt v) = receipt_ok v"

declare token_ok.simps(1-4) [simp del]

lemma uint_token_ok [simp]:
  "token_ok (CInt (uint (a :: u64)))" "token_ok (CInt (uint (b :: u32)))"
  "token_ok (CInt (uint (c :: u16)))" "token_ok (CInt (uint (d :: u8)))"
proof -
  have *: "0 \<le> i \<Longrightarrow> i < 2 ^ 64 \<Longrightarrow> token_ok (CInt i)" for i
    by (simp add: token_ok.simps)
  show "token_ok (CInt (uint a))" "token_ok (CInt (uint b))" "token_ok (CInt (uint c))"
    "token_ok (CInt (uint d))"
    using uint_lt2p [of a] uint_lt2p [of b] uint_lt2p [of c] uint_lt2p [of d]
    by (intro *; simp)+
qed

lemma i64_token_ok [simp]: "i64_ok i \<Longrightarrow> token_ok (CInt i)"
  by (simp add: token_ok.simps arith_defs)

lemma bytes_token_ok [simp]: "token_ok (CBytes (digest_bytes d))" "token_ok (CBytes (uuid_bytes u))"
  by (simp_all add: token_ok.simps)

lemma str_token_ok [simp]: "str_ok s \<Longrightarrow> token_ok (CStr s)"
  by (simp add: token_ok.simps str_ok_def)

lemma array_token_ok [simp]: "token_ok (CArray (array_len n))"
  by (simp add: token_ok.simps array_len_def)

lemma constant_tokens_ok [simp]:
  "token_ok (CArray 2)" "token_ok (CArray 3)" "token_ok (CArray 5)" "token_ok (CArray 6)"
  "token_ok (CArray 8)" "token_ok (CArray 9)" "token_ok (CArray 10)" "token_ok (CArray 12)"
  "token_ok (CArray 15)" "token_ok (CArray 19)" "token_ok (CArray 20)"
  "token_ok (CInt 0)" "token_ok (CInt 1)" "token_ok (CInt 2)" "token_ok (CInt 3)"
  by (simp_all add: token_ok.simps)

lemma domain_string_tokens_ok [simp]:
  "token_ok (CStr AGENT_PROPOSAL_DOMAIN)" "token_ok (CStr AUTHORITY_VECTOR_DOMAIN)"
  "token_ok (CStr EVALUATION_DOMAIN)" "token_ok (CStr EXECUTION_AUTHORIZATION_DOMAIN)"
  "token_ok (CStr CONSUMPTION_RECEIPT_DOMAIN)" "token_ok (CStr ''accordlock:v1:capability-grant'')"
  by (simp_all add: token_ok.simps AGENT_PROPOSAL_DOMAIN_def AUTHORITY_VECTOR_DOMAIN_def
      EVALUATION_DOMAIN_def EXECUTION_AUTHORIZATION_DOMAIN_def CONSUMPTION_RECEIPT_DOMAIN_def)

lemma domain_tokens_ok [simp]: "list_all token_ok (encode_domain v)"
  by (simp add: encode_domain_def)

lemma authority_tokens_ok [simp]: "list_all token_ok (encode_authority v)"
  by (simp add: encode_authority_def domains_def)

lemma optional_tokens_ok [simp]: "opt_str_ok x \<Longrightarrow> list_all token_ok (encode_optional_string x)"
  by (cases x) (simp_all add: opt_str_ok_def)

lemma template_tokens_ok [simp]: "template_ok t \<Longrightarrow> list_all token_ok (encode_template t)"
  by (simp add: encode_template_def template_ok_def)

lemma ints_tokens_ok [simp]: "list_all i64_ok xs \<Longrightarrow> list_all token_ok (counted CInt xs)"
  by (simp add: counted_def list_all_iff)

lemma reasons_tokens_ok [simp]: "list_all token_ok (counted (\<lambda>r. CInt (uint (reason_code r))) rs)"
  by (simp add: counted_def list_all_iff)

lemma deadline_tokens_ok [simp]:
  "deadline_policy_ok p \<Longrightarrow> list_all token_ok (encode_dispatch_deadline_policy p)"
  by (simp add: encode_dispatch_deadline_policy_def deadline_policy_ok_def)

lemma payload_tokens_ok [simp]: "payload_ok p \<Longrightarrow> list_all token_ok (encode_payload p)"
  by (cases p) simp_all

lemma assertion_tokens_ok [simp]: "assertion_ok a \<Longrightarrow> list_all token_ok (encode_assertion a)"
  by (simp add: encode_assertion_def assertion_ok_def)

lemma sorted_tokens_ok [simp]: "strs_ok xs \<Longrightarrow> list_all token_ok (encode_sorted_strings xs)"
  by (simp add: encode_sorted_strings_def strs_ok_def list_all_iff counted_def)

lemma canonical_tokens_ok:
  "value_ok v \<Longrightarrow> canonical_tokens v = Ok ts \<Longrightarrow> list_all token_ok ts"
  by (cases v)
    (auto simp: proposal_tokens_def policy_tokens_def authority_tokens_def attestation_tokens_def
      grant_tokens_def authorization_tokens_def receipt_tokens_def Let_def result_simps
      proposal_ok_def policy_ok_def attestation_ok_def grant_ok_def authorization_ok_def receipt_ok_def)

section \<open>Injectivity across all canonical values\<close>

text \<open>A policy's lists are encoded as sets, so the encoding determines them up to order and
  repetition; every other value is determined exactly.\<close>

definition policy_equiv :: "PolicyConfig \<Rightarrow> PolicyConfig \<Rightarrow> bool" where
  "policy_equiv p q \<longleftrightarrow>
     pc_policy_id p = pc_policy_id q \<and>
     set (pc_allowed_actors p) = set (pc_allowed_actors q) \<and>
     set (pc_allowed_repositories p) = set (pc_allowed_repositories q) \<and>
     set (pc_allowed_image_repositories p) = set (pc_allowed_image_repositories q) \<and>
     set (pc_allowed_clusters p) = set (pc_allowed_clusters q) \<and>
     set (pc_allowed_namespaces p) = set (pc_allowed_namespaces q) \<and>
     pc_minimum_review_grade p = pc_minimum_review_grade q \<and>
     pc_minimum_build_grade p = pc_minimum_build_grade q \<and>
     pc_maximum_evidence_age_seconds p = pc_maximum_evidence_age_seconds q \<and>
     pc_maximum_authorization_lifetime_seconds p = pc_maximum_authorization_lifetime_seconds q"

fun same_value :: "canonical_value \<Rightarrow> canonical_value \<Rightarrow> bool" where
  "same_value (VPolicy p) (VPolicy q) = policy_equiv p q"
| "same_value v w = (v = w)"

lemma proposal_tokens_inj: "proposal_tokens a = proposal_tokens b \<Longrightarrow> a = b"
  by (auto simp: proposal_tokens_def encode_cancel intro: AgentProposal.equality)

lemma policy_tokens_equiv:
  "policy_ok p \<Longrightarrow> policy_ok q \<Longrightarrow> policy_tokens p = policy_tokens q \<longleftrightarrow> policy_equiv p q"
  by (auto simp: policy_tokens_def policy_ok_def policy_equiv_def encode_sorted_cancel encode_sorted_eq)

lemma policy_equiv_sym: "policy_equiv p q \<Longrightarrow> policy_equiv q p"
  by (simp add: policy_equiv_def)

lemma authority_tokens_inj: "authority_tokens a = authority_tokens b \<Longrightarrow> a = b"
  by (auto simp: authority_tokens_def encode_cancel)

lemma receipt_tokens_inj: "receipt_tokens a = receipt_tokens b \<Longrightarrow> a = b"
  by (auto simp: receipt_tokens_def encode_cancel intro: ConsumptionReceipt.equality)

lemma grant_tokens_inj: "grant_tokens a = grant_tokens b \<Longrightarrow> a = b"
  by (auto simp: grant_tokens_def intro: CapabilityGrant.equality)

lemma attestation_tokens_inj:
  assumes "attestation_ok a" "attestation_ok b"
    and "attestation_tokens a = Ok ts" "attestation_tokens b = Ok ts"
  shows "a = b"
proof -
  have sorted: "sorted_wrt (<) (at_principals a)" "sorted_wrt (<) (at_principals b)"
    using assms by (auto simp: attestation_tokens_def result_simps)
  have len: "length (at_reasons a) < 2 ^ 63" "length (at_reasons b) < 2 ^ 63"
    and prin: "strs_ok (at_principals a)" "strs_ok (at_principals b)"
    using assms by (simp_all add: attestation_ok_def)
  show ?thesis
    using assms(3,4) len prin
    by (auto simp: attestation_tokens_def result_simps encode_cancel counted_cancels
        encode_sorted_cancel strict_sorted_set_eq intro!: EvaluationAttestation.equality)
qed

lemma authorization_tokens_inj:
  assumes "authorization_ok a" "authorization_ok b"
    and "authorization_tokens a = Ok ts" "authorization_tokens b = Ok ts"
  shows "a = b"
proof -
  have sorted: "sorted_wrt (<) (xa_principals a)" "sorted_wrt (<) (xa_principals b)"
    using assms by (auto simp: authorization_tokens_def result_simps Let_def)
  have dl: "deadline_policy_ok (xa_dispatch_deadline_policy a)"
      "deadline_policy_ok (xa_dispatch_deadline_policy b)"
    and prin: "strs_ok (xa_principals a)" "strs_ok (xa_principals b)"
    using assms by (simp_all add: authorization_ok_def)
  show ?thesis
    using assms(3,4) dl prin
    by (auto simp: authorization_tokens_def result_simps Let_def encode_cancel
        encode_deadline_cancel encode_sorted_cancel strict_sorted_set_eq
        intro!: ExecutionAuthorization.equality)
qed

lemmas canonical_value_defs = proposal_tokens_def policy_tokens_def authority_tokens_def
  attestation_tokens_def grant_tokens_def authorization_tokens_def receipt_tokens_def
  encode_assertion_def encode_template_def

lemma canonical_tokens_distinct:
  assumes "canonical_tokens v = Ok ts" "canonical_tokens w = Ok ts"
  shows "same_value v w \<or> (\<exists>a b. v = VAssertion a \<and> w = VAssertion b)
    \<or> (\<exists>a b. v = VTemplate a \<and> w = VTemplate b) \<or> (\<exists>a b. v = VProposal a \<and> w = VProposal b)
    \<or> (\<exists>a b. v = VPolicy a \<and> w = VPolicy b) \<or> (\<exists>a b. v = VAuthority a \<and> w = VAuthority b)
    \<or> (\<exists>a b. v = VAttestation a \<and> w = VAttestation b) \<or> (\<exists>a b. v = VGrant a \<and> w = VGrant b)
    \<or> (\<exists>a b. v = VAuthorization a \<and> w = VAuthorization b)
    \<or> (\<exists>a b. v = VReceipt a \<and> w = VReceipt b)"
  using assms by (cases v; cases w) (auto simp: canonical_value_defs result_simps Let_def)

lemma canonical_tokens_inj:
  assumes "value_ok v" "value_ok w" "canonical_tokens v = Ok ts" "canonical_tokens w = Ok ts"
  shows "same_value v w"
  using canonical_tokens_distinct [OF assms(3,4)] assms
  by (auto simp: encode_cancel policy_tokens_equiv policy_equiv_sym
      dest: proposal_tokens_inj authority_tokens_inj receipt_tokens_inj grant_tokens_inj
        attestation_tokens_inj authorization_tokens_inj)

lemma same_value_bytes:
  assumes "value_ok v" "value_ok w" "same_value v w"
  shows "canonical_bytes enc v = canonical_bytes enc w"
  using assms by (cases "(v, w)" rule: same_value.cases)
    (auto simp: canonical_bytes_def dest: policy_tokens_equiv [THEN iffD2, rotated -1])

context cbor_encoder
begin

lemma canonical_bytes_determine:
  assumes "value_ok v" "value_ok w" "canonical_bytes enc v = Ok b" "canonical_bytes enc w = Ok b"
  shows "same_value v w"
proof -
  obtain ts us where ts: "canonical_tokens v = Ok ts" "canonical_tokens w = Ok us"
    and b: "concat (map enc ts) = concat (map enc us)"
    using assms(3,4) by (auto simp: canonical_bytes_def result_simps)
  have "ts = us"
    using canonical_tokens_ok [OF assms(1) ts(1)] canonical_tokens_ok [OF assms(2) ts(2)] b
    by (rule items_inj)
  with assms(1,2) ts show ?thesis by (blast intro: canonical_tokens_inj)
qed

lemma canonical_hash_eq_iff:
  assumes "value_ok v" "value_ok w" "canonical_bytes enc v = Ok x" "canonical_bytes enc w = Ok y"
    "no_collision sha256 x y"
  shows "canonical_hash enc sha256 v = canonical_hash enc sha256 w \<longleftrightarrow> same_value v w"
proof -
  have "canonical_hash enc sha256 v = canonical_hash enc sha256 w \<longleftrightarrow> x = y"
    using assms(3-5) by (simp add: canonical_hash_def)
  also have "\<dots> \<longleftrightarrow> same_value v w"
    using canonical_bytes_determine [OF assms(1,2)] same_value_bytes [OF assms(1,2), of enc] assms(3,4)
    by auto
  finally show ?thesis .
qed

lemma assertions_bytes_inj:
  assumes "list_all assertion_ok as" "list_all assertion_ok bs"
    and "length as < 2 ^ 63" "length bs < 2 ^ 63"
    and "concat (map enc (CArray (array_len (length as)) # concat (map encode_assertion as)))
       = concat (map enc (CArray (array_len (length bs)) # concat (map encode_assertion bs)))"
  shows "as = bs"
proof -
  have ok: "list_all assertion_ok xs \<Longrightarrow> list_all token_ok (concat (map encode_assertion xs))" for xs
    by (induction xs) simp_all
  have "CArray (array_len (length as)) # concat (map encode_assertion as)
      = CArray (array_len (length bs)) # concat (map encode_assertion bs)"
    by (rule items_inj [OF _ _ assms(5)]) (use assms ok in simp_all)
  then have "length as = length bs" "concat (map encode_assertion as) = concat (map encode_assertion bs)"
    using assms(3,4) by (simp_all add: array_len_inj)
  then show ?thesis
    by (induction as bs rule: list_induct2) (simp_all add: encode_cancel)
qed

end

section \<open>RFC 8949 heads\<close>

text \<open>The preferred serialisation of RFC 8949, as a concrete encoder: a head carries the major
  type and an argument in the shortest of five forms, the body follows.\<close>

definition head_info :: "nat \<Rightarrow> nat" where
  "head_info n = (if n < 24 then n else if n < 2 ^ 8 then 24 else if n < 2 ^ 16 then 25
     else if n < 2 ^ 32 then 26 else 27)"

definition head_width :: "nat \<Rightarrow> nat" where
  "head_width k = (if k < 24 then 0 else 2 ^ (k - 24))"

definition cbor_head :: "nat \<Rightarrow> nat \<Rightarrow> bytes" where
  "cbor_head major n = word_of_nat (32 * major + head_info n) # be_bytes (head_width (head_info n)) n"

fun token_head :: "cbor_token \<Rightarrow> nat \<times> nat" where
  "token_head (CArray n) = (4, n)"
| "token_head (CInt i) = (if 0 \<le> i then (0, nat i) else (1, nat (- 1 - i)))"
| "token_head (CBytes b) = (2, length b)"
| "token_head (CStr s) = (3, length s)"
| "token_head (CBool b) = (7, if b then 21 else 20)"
| "token_head CNull = (7, 22)"

fun token_body :: "cbor_token \<Rightarrow> bytes" where
  "token_body (CBytes b) = b"
| "token_body (CStr s) = str_bytes s"
| "token_body _ = []"

definition rfc8949 :: "cbor_token \<Rightarrow> bytes" where
  "rfc8949 t = (case token_head t of (major, n) \<Rightarrow> cbor_head major n @ token_body t)"

lemma head_info_less: "head_info n < 28"
  by (simp add: head_info_def)

lemma head_arg_less: "\<not> n < 24 \<Longrightarrow> n < 2 ^ 64 \<Longrightarrow> n < 256 ^ head_width (head_info n)"
  by (auto simp: head_info_def head_width_def)

lemma cbor_head_cancel:
  assumes "m < 8" "m' < 8" "n < 2 ^ 64" "n' < 2 ^ 64"
    and eq: "cbor_head m n @ xs = cbor_head m' n' @ ys"
  shows "m = m' \<and> n = n' \<and> xs = ys"
proof -
  let ?k = "head_info n" and ?k' = "head_info n'"
  have "unat (word_of_nat (32 * m + ?k) :: u8) = unat (word_of_nat (32 * m' + ?k') :: u8)"
    using eq by (simp add: cbor_head_def)
  moreover have "32 * m + ?k < 256" "32 * m' + ?k' < 256"
    using assms(1,2) head_info_less [of n] head_info_less [of n'] by simp_all
  ultimately have "32 * m + ?k = 32 * m' + ?k'" by (simp only: unat_byte_of_nat)
  then have mk: "m = m'" "?k = ?k'"
    using head_info_less [of n] head_info_less [of n'] by presburger+
  then have args: "be_bytes (head_width ?k) n = be_bytes (head_width ?k) n'" and rest: "xs = ys"
    using eq by (simp_all add: cbor_head_def)
  have "n = n'"
  proof (cases "n < 24")
    case True
    then have "?k' < 24" using mk(2) by (simp add: head_info_def)
    then have "n' < 24" by (simp add: head_info_def split: if_splits)
    with True mk(2) show ?thesis by (simp add: head_info_def)
  next
    case False
    then have "\<not> ?k < 24" by (simp add: head_info_def)
    with mk(2) have "\<not> n' < 24" by (auto simp: head_info_def)
    with False assms(3,4) have "n < 256 ^ head_width ?k" "n' < 256 ^ head_width ?k"
      using head_arg_less [of n] head_arg_less [of n'] mk(2) by simp_all
    with args show ?thesis by (simp add: be_bytes_inj)
  qed
  with mk rest show ?thesis by simp
qed

lemma token_head_less: "token_ok t \<Longrightarrow> token_head t = (m, n) \<Longrightarrow> m < 8 \<and> n < 2 ^ 64"
  by (cases t) (auto simp: token_ok.simps split: if_splits)

lemma token_head_body:
  "token_head t = token_head u \<Longrightarrow> token_body t @ xs = token_body u @ ys \<Longrightarrow> t = u \<and> xs = ys"
  by (cases t; cases u) (auto split: if_splits)

interpretation rfc: cbor_encoder rfc8949
proof
  fix t
  show "rfc8949 t \<noteq> []" by (simp add: rfc8949_def cbor_head_def split: prod.splits)
next
  fix t u xs ys
  assume ok: "token_ok t" "token_ok u" and eq: "rfc8949 t @ xs = rfc8949 u @ ys"
  obtain m n m' n' where h: "token_head t = (m, n)" "token_head u = (m', n')"
    by (metis surj_pair)
  have "cbor_head m n @ token_body t @ xs = cbor_head m' n' @ token_body u @ ys"
    using eq h by (simp add: rfc8949_def)
  then have "m = m' \<and> n = n' \<and> token_body t @ xs = token_body u @ ys"
    using token_head_less [OF ok(1) h(1)] token_head_less [OF ok(2) h(2)]
    by (intro cbor_head_cancel) simp_all
  then show "t = u \<and> xs = ys" using h by (intro token_head_body) simp_all
qed

end
