(* ===== verification/Cose_Crypto.thy ===== *)
theory Cose_Crypto
  imports Canonical_Encoding
begin

text \<open>
  \<^verbatim>\<open>accordlock-protocol/src/crypto.rs\<close>: signing identities and verifiers, the authority roots
  that commit to a key, and the COSE Sign1 profile of \<open>sign_cose\<close> and \<open>verify_cose\<close>. CBOR,
  SHA-256, Ed25519, COSE serialisation and the text forms of a UUID come from external
  crates; they are the fields of the record \<open>externals\<close>, an argument of every operation that uses them.
\<close>

section \<open>External operations\<close>

text \<open>The part of coset's types the code touches: \<open>HeaderBuilder\<close> sets the algorithm and the
  key identifier and leaves every other parameter unset.\<close>

record CoseHeader =
  ch_alg :: "int option"
  ch_key_id :: bytes
  ch_others :: "(int \<times> bytes) list"

record CoseSign1 =
  cs_protected :: CoseHeader
  cs_original_data :: "bytes option"
  cs_unprotected :: CoseHeader
  cs_payload :: "bytes option"
  cs_signature :: bytes

record externals =
  x_cbor :: "cbor_token \<Rightarrow> bytes"
  x_sha256 :: "bytes \<Rightarrow> digest32"
  x_vk_decodes :: "digest32 \<Rightarrow> bool"
  x_vk_is_weak :: "digest32 \<Rightarrow> bool"
  x_public_key :: "digest32 \<Rightarrow> digest32"
  x_sign :: "digest32 \<Rightarrow> bytes \<Rightarrow> bytes"
  x_verify_strict :: "digest32 \<Rightarrow> bytes \<Rightarrow> bytes \<Rightarrow> bool"
  x_cose_from_slice :: "bytes \<Rightarrow> CoseSign1 option"
  x_cose_to_vec :: "CoseSign1 \<Rightarrow> bytes option"
  x_header_to_vec :: "CoseHeader \<Rightarrow> bytes option"
  x_sig_structure :: "CoseSign1 \<Rightarrow> bytes \<Rightarrow> bytes"
  x_uuid_parse :: "string \<Rightarrow> uuid option"
  x_uuid_string :: "uuid \<Rightarrow> string"
  x_uuid_simple :: "uuid \<Rightarrow> string"

definition eddsa :: int where "eddsa = - 8"

definition header_build :: "string \<Rightarrow> CoseHeader" where
  "header_build key_id = \<lparr>ch_alg = Some eddsa, ch_key_id = str_bytes key_id, ch_others = []\<rparr>"

definition header_empty :: CoseHeader where
  "header_empty = \<lparr>ch_alg = None, ch_key_id = [], ch_others = []\<rparr>"

section \<open>Keys\<close>

definition MAX_COSE_SIZE_BYTES :: nat where "MAX_COSE_SIZE_BYTES = 1048576"
definition MAX_COSE_PAYLOAD_BYTES :: nat where "MAX_COSE_PAYLOAD_BYTES = 524288"
definition MAX_KEY_ID_BYTES :: nat where "MAX_KEY_ID_BYTES = 256"
definition MAX_DOMAIN_BYTES :: nat where "MAX_DOMAIN_BYTES = 128"

definition AUTHORIZATION_SIGNER_ROOT_DOMAIN :: string where
  "AUTHORIZATION_SIGNER_ROOT_DOMAIN = ''accordlock:v1:authorization-signer-root''"
definition EVALUATOR_VERIFIER_ROOT_DOMAIN :: string where
  "EVALUATOR_VERIFIER_ROOT_DOMAIN = ''accordlock:v1:evaluator-verifier-root''"

datatype CryptoError =
    Cose
  | NonCanonicalCose
  | InvalidProtectedHeaders
  | UnprotectedHeaders
  | MissingPayload
  | InvalidPublicKey
  | InvalidKeyId
  | InvalidDomain
  | ProfileLimitExceeded
  | InvalidSignature

record SigningIdentity =
  si_key_id :: string
  si_key :: digest32

record CoseVerifier =
  cv_key_id :: string
  cv_key :: digest32

definition public_key_bytes :: "externals \<Rightarrow> SigningIdentity \<Rightarrow> digest32" where
  "public_key_bytes X identity = x_public_key X (si_key identity)"

definition identity_verifier :: "externals \<Rightarrow> SigningIdentity \<Rightarrow> CoseVerifier" where
  "identity_verifier X identity =
     \<lparr>cv_key_id = si_key_id identity, cv_key = public_key_bytes X identity\<rparr>"

definition validate_key_id :: "string \<Rightarrow> (unit, CryptoError) result" where
  "validate_key_id key_id = ensure (valid_text MAX_KEY_ID_BYTES key_id) InvalidKeyId"

definition validate_domain :: "string \<Rightarrow> (unit, CryptoError) result" where
  "validate_domain domain = ensure (valid_text MAX_DOMAIN_BYTES domain) InvalidDomain"

definition from_public_key ::
    "externals \<Rightarrow> string \<Rightarrow> digest32 \<Rightarrow> (CoseVerifier, CryptoError) result" where
  "from_public_key X key_id public_key =
     and_then (validate_key_id key_id) (\<lambda>_.
     and_then (ensure (x_vk_decodes X public_key) InvalidPublicKey) (\<lambda>_.
     and_then (ensure (\<not> x_vk_is_weak X public_key) InvalidPublicKey) (\<lambda>_.
     Ok \<lparr>cv_key_id = key_id, cv_key = public_key\<rparr>)))"

section \<open>Roots that commit to a key\<close>

fun frame_all :: "bytes list \<Rightarrow> (bytes, CryptoError) result" where
  "frame_all [] = Ok []"
| "frame_all (c # cs) =
     and_then (ok_or (frame c) ProfileLimitExceeded) (\<lambda>f.
     and_then (frame_all cs) (\<lambda>fs. Ok (f @ fs)))"

definition authorization_signer_root ::
    "externals \<Rightarrow> string \<Rightarrow> digest32 \<Rightarrow> (digest32, CryptoError) result" where
  "authorization_signer_root X key_id public_key =
     and_then (from_public_key X key_id public_key) (\<lambda>_.
     and_then (frame_all [str_bytes AUTHORIZATION_SIGNER_ROOT_DOMAIN, str_bytes key_id,
       digest_bytes public_key]) (\<lambda>commitment.
     Ok (x_sha256 X commitment)))"

definition evaluator_verifier_root ::
    "externals \<Rightarrow> string \<Rightarrow> digest32 \<Rightarrow> (digest32, CryptoError) result" where
  "evaluator_verifier_root X key_id public_key =
     and_then (from_public_key X key_id public_key) (\<lambda>_.
     and_then (frame_all [str_bytes EVALUATOR_VERIFIER_ROOT_DOMAIN, str_bytes key_id,
       digest_bytes public_key]) (\<lambda>commitment.
     Ok (x_sha256 X commitment)))"

section \<open>The COSE profile\<close>

definition sign_cose ::
    "externals \<Rightarrow> bytes \<Rightarrow> string \<Rightarrow> SigningIdentity \<Rightarrow> (bytes, CryptoError) result" where
  "sign_cose X payload domain identity =
     and_then (validate_key_id (si_key_id identity)) (\<lambda>_.
     and_then (validate_domain domain) (\<lambda>_.
     and_then (ensure (length payload \<le> MAX_COSE_PAYLOAD_BYTES) ProfileLimitExceeded) (\<lambda>_.
     and_then (ensure (\<not> x_vk_is_weak X (public_key_bytes X identity)) InvalidPublicKey) (\<lambda>_.
     let unsigned = \<lparr>cs_protected = header_build (si_key_id identity), cs_original_data = None,
           cs_unprotected = header_empty, cs_payload = Some payload, cs_signature = []\<rparr>;
         signed = unsigned\<lparr>cs_signature :=
           x_sign X (si_key identity) (x_sig_structure X unsigned (str_bytes domain))\<rparr>
     in and_then (ok_or (x_cose_to_vec X signed) Cose) (\<lambda>encoded.
        and_then (ensure (length encoded \<le> MAX_COSE_SIZE_BYTES) ProfileLimitExceeded) (\<lambda>_.
        Ok encoded))))))"

definition verify_cose ::
    "externals \<Rightarrow> bytes \<Rightarrow> string \<Rightarrow> CoseVerifier \<Rightarrow> (bytes, CryptoError) result" where
  "verify_cose X encoded expected_domain verifier =
     and_then (validate_key_id (cv_key_id verifier)) (\<lambda>_.
     and_then (validate_domain expected_domain) (\<lambda>_.
     and_then (ensure (length encoded \<le> MAX_COSE_SIZE_BYTES) ProfileLimitExceeded) (\<lambda>_.
     and_then (ok_or (x_cose_from_slice X encoded) Cose) (\<lambda>signed.
     and_then (ok_or (x_cose_to_vec X signed) Cose) (\<lambda>canonical.
     and_then (ensure (canonical = encoded) NonCanonicalCose) (\<lambda>_.
     let expected_header = header_build (cv_key_id verifier) in
     and_then (ensure (cs_protected signed = expected_header) InvalidProtectedHeaders) (\<lambda>_.
     and_then (ok_or (x_header_to_vec X expected_header) Cose) (\<lambda>expected_protected.
     and_then (ensure (cs_original_data signed = Some expected_protected) NonCanonicalCose) (\<lambda>_.
     and_then (ensure (cs_unprotected signed = header_empty) UnprotectedHeaders) (\<lambda>_.
     and_then (ok_or (cs_payload signed) MissingPayload) (\<lambda>payload.
     and_then (ensure (length payload \<le> MAX_COSE_PAYLOAD_BYTES) ProfileLimitExceeded) (\<lambda>_.
     and_then (ensure (x_verify_strict X (cv_key verifier)
         (x_sig_structure X signed (str_bytes expected_domain)) (cs_signature signed))
         InvalidSignature) (\<lambda>_.
     Ok payload)))))))))))))"

section \<open>What the code relies on\<close>

text \<open>The envelopes of the profile: the header that \<open>sign_cose\<close> builds for a valid key identifier, no
  unprotected header, and a payload.\<close>

definition profile_envelope :: "string \<Rightarrow> bytes \<Rightarrow> bytes \<Rightarrow> CoseSign1" where
  "profile_envelope key_id payload sig = \<lparr>cs_protected = header_build key_id, cs_original_data = None,
     cs_unprotected = header_empty, cs_payload = Some payload, cs_signature = sig\<rparr>"

text \<open>coset, for these envelopes: decoding what was encoded restores the value and remembers the protected
  bytes, re-encoding gives the same bytes, and the signed structure, which does not include the
  signature, is the same.\<close>

definition cose_roundtrip :: "externals \<Rightarrow> bool" where
  "cose_roundtrip X \<longleftrightarrow> (\<forall>key_id payload. valid_text MAX_KEY_ID_BYTES key_id \<longrightarrow>
     (\<forall>aad sig. x_sig_structure X (profile_envelope key_id payload sig) aad
        = x_sig_structure X (profile_envelope key_id payload []) aad)
     \<and> (\<forall>sig b. x_cose_to_vec X (profile_envelope key_id payload sig) = Some b \<longrightarrow>
        (\<exists>h. x_header_to_vec X (header_build key_id) = Some h
           \<and> x_cose_from_slice X b = Some ((profile_envelope key_id payload sig)\<lparr>cs_original_data := Some h\<rparr>)
           \<and> x_cose_to_vec X ((profile_envelope key_id payload sig)\<lparr>cs_original_data := Some h\<rparr>) = Some b
           \<and> (\<forall>aad. x_sig_structure X ((profile_envelope key_id payload sig)\<lparr>cs_original_data := Some h\<rparr>) aad
                = x_sig_structure X (profile_envelope key_id payload sig) aad))))"

text \<open>ed25519-dalek: a signature verifies under the signer's public key, which strict verification
  requires not to be weak.\<close>

definition signature_correct :: "externals \<Rightarrow> bool" where
  "signature_correct X \<longleftrightarrow> (\<forall>k msg. \<not> x_vk_is_weak X (x_public_key X k) \<longrightarrow>
     x_verify_strict X (x_public_key X k) msg (x_sign X k msg))"

section \<open>Facts\<close>

lemma from_public_key_Ok [result_simps]:
  "from_public_key X key_id public_key = Ok v \<longleftrightarrow>
     valid_text MAX_KEY_ID_BYTES key_id \<and> x_vk_decodes X public_key \<and>
     \<not> x_vk_is_weak X public_key \<and> v = \<lparr>cv_key_id = key_id, cv_key = public_key\<rparr>"
  by (auto simp: from_public_key_def validate_key_id_def result_simps)

lemma frame_all_append:
  assumes "frame_all cs = Ok fs" "frame_all ds = Ok gs" "length cs = length ds" "fs = gs"
  shows "cs = ds"
  using assms(3,1,2,4)
proof (induction cs ds arbitrary: fs gs rule: list_induct2)
  case Nil
  then show ?case by simp
next
  case (Cons c cs d ds)
  then obtain f fs' g gs' where f: "frame c = Some f" "frame_all cs = Ok fs'" "fs = f @ fs'"
    "frame d = Some g" "frame_all ds = Ok gs'" "gs = g @ gs'"
    by (auto simp: result_simps)
  with Cons.prems(3) have "c = d" "fs' = gs'" by (auto simp: frame_append)
  with Cons.IH f show ?case by simp
qed

text \<open>The bytes under a root of either kind determine the key, and none is of both kinds.\<close>

lemma root_domains_differ:
  "str_bytes AUTHORIZATION_SIGNER_ROOT_DOMAIN \<noteq> str_bytes EVALUATOR_VERIFIER_ROOT_DOMAIN"
  by (simp add: AUTHORIZATION_SIGNER_ROOT_DOMAIN_def EVALUATOR_VERIFIER_ROOT_DOMAIN_def)

lemma frame_all_root:
  assumes "frame_all [str_bytes d, str_bytes k, digest_bytes p] = Ok c"
    and "frame_all [str_bytes d', str_bytes k', digest_bytes p'] = Ok c'"
  shows "c = c' \<longleftrightarrow> d = d' \<and> k = k' \<and> p = p'"
  using assms frame_all_append [OF assms] by auto

text \<open>What the profile signs it also verifies, under the same domain and the signer's verifier.\<close>

lemma cose_roundtripD:
  assumes "cose_roundtrip X" "valid_text MAX_KEY_ID_BYTES key_id"
  shows "x_sig_structure X (profile_envelope key_id payload sig) aad = x_sig_structure X (profile_envelope key_id payload []) aad"
    and "x_cose_to_vec X (profile_envelope key_id payload sig) = Some b \<Longrightarrow>
      \<exists>h. x_header_to_vec X (header_build key_id) = Some h
        \<and> x_cose_from_slice X b = Some ((profile_envelope key_id payload sig)\<lparr>cs_original_data := Some h\<rparr>)
        \<and> x_cose_to_vec X ((profile_envelope key_id payload sig)\<lparr>cs_original_data := Some h\<rparr>) = Some b
        \<and> (\<forall>aad. x_sig_structure X ((profile_envelope key_id payload sig)\<lparr>cs_original_data := Some h\<rparr>) aad
             = x_sig_structure X (profile_envelope key_id payload sig) aad)"
  using assms unfolding cose_roundtrip_def by blast+

lemma verify_of_sign:
  assumes "cose_roundtrip X" "signature_correct X" "sign_cose X payload domain identity = Ok encoded"
  shows "verify_cose X encoded domain (identity_verifier X identity) = Ok payload"
proof -
  let ?u = "profile_envelope (si_key_id identity) payload []"
  define s where "s = profile_envelope (si_key_id identity) payload
    (x_sign X (si_key identity) (x_sig_structure X ?u (str_bytes domain)))"
  have guards: "validate_key_id (si_key_id identity) = Ok ()" "validate_domain domain = Ok ()"
    "length payload \<le> MAX_COSE_PAYLOAD_BYTES" "length encoded \<le> MAX_COSE_SIZE_BYTES"
    "\<not> x_vk_is_weak X (x_public_key X (si_key identity))"
    and enc: "x_cose_to_vec X s = Some encoded"
    using assms(3) by (auto simp: sign_cose_def result_simps Let_def public_key_bytes_def s_def profile_envelope_def)
  have key: "valid_text MAX_KEY_ID_BYTES (si_key_id identity)"
    using guards(1) by (simp add: validate_key_id_def ensure_Ok)
  have fields: "cs_protected s = header_build (si_key_id identity)"
    "cs_unprotected s = header_empty" "cs_payload s = Some payload"
    "cs_signature s = x_sign X (si_key identity) (x_sig_structure X ?u (str_bytes domain))"
    by (simp_all add: s_def profile_envelope_def)
  obtain h where h: "x_header_to_vec X (header_build (si_key_id identity)) = Some h"
    "x_cose_from_slice X encoded = Some (s\<lparr>cs_original_data := Some h\<rparr>)"
    "x_cose_to_vec X (s\<lparr>cs_original_data := Some h\<rparr>) = Some encoded"
    "\<And>aad. x_sig_structure X (s\<lparr>cs_original_data := Some h\<rparr>) aad = x_sig_structure X s aad"
    using cose_roundtripD(2) [OF assms(1) key enc [unfolded s_def]] unfolding s_def by blast
  have "x_sig_structure X s aad = x_sig_structure X ?u aad" for aad
    unfolding s_def by (rule cose_roundtripD(1) [OF assms(1) key])
  moreover have "x_verify_strict X (x_public_key X (si_key identity))
      (x_sig_structure X ?u (str_bytes domain)) (cs_signature s)"
    using assms(2) guards(5) by (simp add: signature_correct_def fields)
  ultimately show ?thesis
    using guards h fields by (simp add: verify_cose_def identity_verifier_def public_key_bytes_def Let_def)
qed

end
