(* ===== verification/Reference_Externals.thy ===== *)
theory Reference_Externals
  imports Cose_Crypto "HOL-Library.Code_Target_Nat"
begin

text \<open>
  A concrete instance of the external operations, to run the model on concrete inputs: the
  RFC 8949 encoder, a length-framed envelope in place of the COSE serialisation, a checksum in
  place of SHA-256 and a keyed checksum in place of Ed25519. It has the documented behaviour
  that the properties assume of the external libraries; nothing is claimed about its strength.
\<close>

section \<open>A concrete instance\<close>

definition ref_digest :: "bytes \<Rightarrow> digest32" where
  "ref_digest b = word_of_nat (Suc (length b))"

definition ref_header :: "CoseHeader \<Rightarrow> bytes option" where
  "ref_header h = (if ch_alg h = Some eddsa \<and> ch_others h = [] then Some (ch_key_id h) else None)"

definition ref_to_vec :: "CoseSign1 \<Rightarrow> bytes option" where
  "ref_to_vec s =
     (case (ref_header (cs_protected s), cs_payload s) of
        (Some h, Some p) \<Rightarrow>
          if cs_unprotected s = header_empty \<and> length h < 2 ^ 64 \<and> length p < 2 ^ 64
          then Some (be_bytes 8 (length h) @ h @ be_bytes 8 (length p) @ p @ cs_signature s)
          else None
      | _ \<Rightarrow> None)"

definition be_nat :: "bytes \<Rightarrow> nat" where
  "be_nat bs = foldl (\<lambda>n b. 256 * n + unat b) 0 bs"

definition ref_from_slice :: "bytes \<Rightarrow> CoseSign1 option" where
  "ref_from_slice bs =
     (let k = be_nat (take 8 bs); h = take k (drop 8 bs); r = drop (8 + k) bs;
          n = be_nat (take 8 r)
      in if 16 + k + n \<le> length bs
         then Some \<lparr>cs_protected = \<lparr>ch_alg = Some eddsa, ch_key_id = h, ch_others = []\<rparr>,
           cs_original_data = Some h, cs_unprotected = header_empty,
           cs_payload = Some (take n (drop 8 r)), cs_signature = drop (8 + n) r\<rparr>
         else None)"

definition ref_sig_structure :: "CoseSign1 \<Rightarrow> bytes \<Rightarrow> bytes" where
  "ref_sig_structure s aad =
     (case cs_original_data s of
        Some h \<Rightarrow> h
      | None \<Rightarrow> (case ref_header (cs_protected s) of Some h \<Rightarrow> h | None \<Rightarrow> []))
     @ be_bytes 8 (length aad) @ aad
     @ (case cs_payload s of None \<Rightarrow> [] | Some p \<Rightarrow> p)"

definition ref_sign :: "digest32 \<Rightarrow> bytes \<Rightarrow> bytes" where
  "ref_sign k msg = digest_bytes k @ digest_bytes (ref_digest msg)"

definition ref_externals :: externals where
  "ref_externals =
     \<lparr>x_cbor = rfc8949, x_sha256 = ref_digest, x_vk_decodes = (\<lambda>_. True),
      x_vk_is_weak = (\<lambda>k. k = 0), x_public_key = (\<lambda>k. k), x_sign = ref_sign,
      x_verify_strict = (\<lambda>k msg s. k \<noteq> 0 \<and> s = ref_sign k msg),
      x_cose_from_slice = ref_from_slice, x_cose_to_vec = ref_to_vec,
      x_header_to_vec = ref_header, x_sig_structure = ref_sig_structure,
      x_uuid_parse = (\<lambda>s. if s = ''id'' then Some 1 else None),
      x_uuid_string = (\<lambda>_. ''id''), x_uuid_simple = (\<lambda>_. ''id'')\<rparr>"

lemma ref_externals_simps [simp]:
  "x_cbor ref_externals = rfc8949" "x_sha256 ref_externals = ref_digest"
  "x_vk_decodes ref_externals k" "x_vk_is_weak ref_externals k \<longleftrightarrow> k = 0"
  "x_public_key ref_externals k = k" "x_sign ref_externals = ref_sign"
  "x_verify_strict ref_externals k msg s \<longleftrightarrow> k \<noteq> 0 \<and> s = ref_sign k msg"
  "x_cose_from_slice ref_externals = ref_from_slice" "x_cose_to_vec ref_externals = ref_to_vec"
  "x_header_to_vec ref_externals = ref_header" "x_sig_structure ref_externals = ref_sig_structure"
  "x_uuid_parse ref_externals text = (if text = ''id'' then Some 1 else None)"
  "x_uuid_string ref_externals u = ''id''" "x_uuid_simple ref_externals u = ''id''"
  by (simp_all add: ref_externals_def)

lemma ref_digest_no_collision:
  assumes "length x \<noteq> length y" "length x < 2 ^ 64" "length y < 2 ^ 64"
  shows "no_collision ref_digest x y"
proof -
  have "ref_digest x \<noteq> ref_digest y"
    using assms by (simp add: ref_digest_def word_of_nat_eq_iff take_bit_nat_eq_self)
  then show ?thesis by (simp add: no_collision_def)
qed

lemma be_nat_snoc: "be_nat (bs @ [b]) = 256 * be_nat bs + unat b"
  by (simp add: be_nat_def)

lemma be_nat_be_bytes: "n < 256 ^ k \<Longrightarrow> be_nat (be_bytes k n) = n"
proof (induction k arbitrary: n)
  case 0
  then show ?case by (simp add: be_nat_def)
next
  case (Suc k)
  then have "n div 256 < 256 ^ k" by (simp add: less_mult_imp_div_less mult.commute)
  with Suc.IH show ?case by (simp add: be_nat_snoc unat_byte_of_nat)
qed

lemma ref_from_to:
  assumes "ref_to_vec s = Some b"
  obtains h where "ref_header (cs_protected s) = Some h"
    "ref_from_slice b = Some (s\<lparr>cs_original_data := Some h\<rparr>)"
proof -
  obtain h p where h: "ref_header (cs_protected s) = Some h" and p: "cs_payload s = Some p"
    and u: "cs_unprotected s = header_empty" and l: "length h < 2 ^ 64" "length p < 2 ^ 64"
    and b: "b = be_bytes 8 (length h) @ h @ be_bytes 8 (length p) @ p @ cs_signature s"
    using assms by (auto simp: ref_to_vec_def split: option.splits if_splits)
  have n: "be_nat (be_bytes 8 (length h)) = length h" "be_nat (be_bytes 8 (length p)) = length p"
    using l by (simp_all add: be_nat_be_bytes)
  have "cs_protected s = \<lparr>ch_alg = Some eddsa, ch_key_id = h, ch_others = []\<rparr>"
    using h by (auto simp: ref_header_def split: if_splits intro: CoseHeader.equality)
  then have "ref_from_slice b = Some (s\<lparr>cs_original_data := Some h\<rparr>)"
    using n p u by (simp add: ref_from_slice_def b Let_def)
  with h that show thesis by blast
qed

lemma ref_cose_roundtrip: "cose_roundtrip ref_externals"
proof -
  have "\<exists>h. ref_header (header_build k) = Some h
        \<and> ref_from_slice b = Some ((profile_envelope k p sig)\<lparr>cs_original_data := Some h\<rparr>)
        \<and> ref_to_vec ((profile_envelope k p sig)\<lparr>cs_original_data := Some h\<rparr>) = Some b
        \<and> (\<forall>aad. ref_sig_structure ((profile_envelope k p sig)\<lparr>cs_original_data := Some h\<rparr>) aad
             = ref_sig_structure (profile_envelope k p sig) aad)"
    if b: "ref_to_vec (profile_envelope k p sig) = Some b" for k p sig b
  proof -
    let ?s = "profile_envelope k p sig"
    from b obtain h where h: "ref_header (cs_protected ?s) = Some h"
      "ref_from_slice b = Some (?s\<lparr>cs_original_data := Some h\<rparr>)" by (rule ref_from_to)
    have "ref_to_vec (?s\<lparr>cs_original_data := Some h\<rparr>) = ref_to_vec ?s"
      by (simp add: ref_to_vec_def split: option.split)
    with h b show ?thesis by (auto simp: ref_sig_structure_def profile_envelope_def)
  qed
  moreover have "ref_sig_structure (profile_envelope k p sig) aad = ref_sig_structure (profile_envelope k p []) aad" for k p aad sig
    by (simp add: ref_sig_structure_def profile_envelope_def)
  ultimately show ?thesis by (simp add: cose_roundtrip_def)
qed

lemma ref_sign_cose:
  assumes "valid_text MAX_KEY_ID_BYTES (si_key_id i)" "valid_text MAX_DOMAIN_BYTES d"
    and "length p \<le> MAX_COSE_PAYLOAD_BYTES" "si_key i \<noteq> 0"
  obtains c where "sign_cose ref_externals p d i = Ok c" "length c = length (si_key_id i) + length p + 80"
proof -
  have k: "length (si_key_id i) \<le> 256" "length p \<le> 524288"
    using assms by (simp_all add: valid_text_def MAX_KEY_ID_BYTES_def MAX_COSE_PAYLOAD_BYTES_def)
  let ?u = "\<lparr>cs_protected = header_build (si_key_id i), cs_original_data = None,
           cs_unprotected = header_empty, cs_payload = Some p, cs_signature = []\<rparr>"
  let ?c = "be_bytes 8 (length (si_key_id i)) @ str_bytes (si_key_id i) @ be_bytes 8 (length p) @ p
      @ ref_sign (si_key i) (ref_sig_structure ?u (str_bytes d))"
  show thesis
  proof (rule that)
    show "sign_cose ref_externals p d i = Ok ?c"
      using assms k by (simp add: sign_cose_def validate_key_id_def validate_domain_def Let_def
          public_key_bytes_def ref_to_vec_def ref_header_def header_build_def MAX_COSE_SIZE_BYTES_def
          ref_sign_def)
    show "length ?c = length (si_key_id i) + length p + 80" by (simp add: ref_sign_def)
  qed
qed

lemma ref_signature_correct: "signature_correct ref_externals"
  by (simp add: signature_correct_def)

end
