(* ===== verification/Kernel_Registry.thy ===== *)
theory Kernel_Registry
  imports Cose_Crypto
begin

text \<open>
  The attester registry of \<^verbatim>\<open>accordlock-kernel/src/lib.rs\<close>: text accounting, the
  length-framed canonical registry material with its ordering, uniqueness and size
  checks, and activation of a registry under an authority domain. The facts show that
  accepted material determines the registry, so an activated root commits to every entry
  and scope.
\<close>

section \<open>Limits and errors\<close>

definition MAX_EVIDENCE_ITEMS :: nat where "MAX_EVIDENCE_ITEMS = 64"
definition MAX_REGISTERED_ATTESTERS :: nat where "MAX_REGISTERED_ATTESTERS = 256"
definition MAX_SCOPES_PER_ATTESTER :: nat where "MAX_SCOPES_PER_ATTESTER = 64"
definition MAX_POLICY_ENTRIES_PER_FIELD :: nat where "MAX_POLICY_ENTRIES_PER_FIELD = 256"
definition MAX_SECURITY_TEXT_BYTES :: nat where "MAX_SECURITY_TEXT_BYTES = 4096"
definition MAX_AGGREGATE_SECURITY_TEXT_BYTES :: nat where
  "MAX_AGGREGATE_SECURITY_TEXT_BYTES = 524288"
definition MAX_AGGREGATE_COSE_BYTES :: nat where "MAX_AGGREGATE_COSE_BYTES = 4194304"
definition MAX_AUTHORITY_GRADE :: u8 where "MAX_AUTHORITY_GRADE = 4"
definition MAX_AUTHORIZATION_PRINCIPALS :: nat where "MAX_AUTHORIZATION_PRINCIPALS = 256"

definition ATTESTER_REGISTRY_ROOT_DOMAIN :: bytes where
  "ATTESTER_REGISTRY_ROOT_DOMAIN = str_bytes ''accordlock:v1:activated-attester-registry'' @ [0]"

text \<open>Errors that carry another error's text carry the error itself here.\<close>

datatype KernelError =
    InputLimitExceeded
  | Canonical CanonicalError
  | EvaluationSignature CryptoError
  | EvaluatorAuthorityMismatch
  | AuthorizationSignature CryptoError
  | AuthorizationPayloadMismatch
  | InvalidContext string
  | KPolicyRootMismatch
  | InvalidAttesterRegistry string
  | AttesterRegistryRootMismatch
  | AttesterRegistryAuthorityMismatch
  | IngressExpired
  | IngressClockRollback
  | IngressRegistryAuthorityMismatch
  | DurableContextRequiresConsumingEvaluation
  | AuthorizationNotExecutable string

section \<open>Text\<close>

definition valid_security_text :: "string \<Rightarrow> bool" where
  "valid_security_text value = valid_text MAX_SECURITY_TEXT_BYTES value"

text \<open>\<open>account_text(&mut total, value)\<close>: the new total, or \<open>None\<close> where the code returns
  \<open>false\<close> and leaves the total alone.\<close>

definition account_text :: "nat \<Rightarrow> string \<Rightarrow> nat option" where
  "account_text used value =
     (if MAX_SECURITY_TEXT_BYTES < length value then None
      else case usize_checked_add used (length value) of
             None \<Rightarrow> None
           | Some n \<Rightarrow> if MAX_AGGREGATE_SECURITY_TEXT_BYTES < n then None else Some n)"

text \<open>\<open>all(|value| account_text(&mut total, value))\<close>\<close>

fun account_texts :: "nat \<Rightarrow> string list \<Rightarrow> nat option" where
  "account_texts used [] = Some used"
| "account_texts used (v # vs) =
     (case account_text used v of None \<Rightarrow> None | Some n \<Rightarrow> account_texts n vs)"

fun account_scope :: "nat \<Rightarrow> AttesterScope \<Rightarrow> nat option" where
  "account_scope used (SReview repository) = account_text used repository"
| "account_scope used (SArtifact image_repository) = account_text used image_repository"
| "account_scope used (SBuild repository workflow_ref) =
     account_texts used [repository, workflow_ref]"
| "account_scope used (STarget cluster_identity namespace deployment_uid) =
     account_texts used [cluster_identity, namespace, deployment_uid]"

section \<open>Authority domains\<close>

definition valid_authority_domain :: "AuthorityDomainState \<Rightarrow> bool" where
  "valid_authority_domain d \<longleftrightarrow> ads_root d \<noteq> 0 \<and> \<not> is_nil (ads_activation_id d)"

definition validate_authority_domain :: "AuthorityDomainState \<Rightarrow> (unit, KernelError) result" where
  "validate_authority_domain d =
     ensure (valid_authority_domain d)
       (InvalidAttesterRegistry ''registry authority root and activation identifier must be non-zero'')"

definition validate_authority_vector :: "AuthorityVector \<Rightarrow> (unit, KernelError) result" where
  "validate_authority_vector a =
     ensure (\<not> list_ex (\<lambda>d. \<not> valid_authority_domain d) (domains a))
       (InvalidContext ''authority roots and activation identifiers must be non-zero'')"

section \<open>Canonical registry material\<close>

definition append_length_framed :: "bytes \<Rightarrow> bytes \<Rightarrow> (bytes, KernelError) result" where
  "append_length_framed material value =
     and_then (ok_or (frame value) InputLimitExceeded) (\<lambda>f. Ok (material @ f))"

fun append_framed_all :: "bytes \<Rightarrow> string list \<Rightarrow> (bytes, KernelError) result" where
  "append_framed_all material [] = Ok material"
| "append_framed_all material (v # vs) =
     and_then (append_length_framed material (str_bytes v)) (\<lambda>m. append_framed_all m vs)"

definition invalid_scope :: KernelError where
  "invalid_scope = InvalidAttesterRegistry ''attester scope contains an invalid identifier''"

fun canonical_scope_material :: "AttesterScope \<Rightarrow> (bytes, KernelError) result" where
  "canonical_scope_material (SReview repository) =
     and_then (ensure (valid_security_text repository) invalid_scope) (\<lambda>_.
     append_framed_all [0] [repository])"
| "canonical_scope_material (SBuild repository workflow_ref) =
     and_then (ensure (valid_security_text repository \<and> valid_security_text workflow_ref)
       invalid_scope) (\<lambda>_.
     append_framed_all [1] [repository, workflow_ref])"
| "canonical_scope_material (SArtifact image_repository) =
     and_then (ensure (valid_security_text image_repository) invalid_scope) (\<lambda>_.
     append_framed_all [2] [image_repository])"
| "canonical_scope_material (STarget cluster_identity namespace deployment_uid) =
     and_then (ensure (valid_security_text cluster_identity \<and> valid_security_text namespace
       \<and> valid_security_text deployment_uid) invalid_scope) (\<lambda>_.
     append_framed_all [3] [cluster_identity, namespace, deployment_uid])"

fun status_code :: "AttesterStatus \<Rightarrow> u8" where
  "status_code Active = 0"
| "status_code Disabled = 1"
| "status_code Revoked = 2"

text \<open>The scope loop of one entry: threads the text total, the previous scope's material and
  the registry material.\<close>

fun scope_loop ::
    "nat \<Rightarrow> bytes option \<Rightarrow> bytes \<Rightarrow> AttesterScope list \<Rightarrow> (nat \<times> bytes, KernelError) result" where
  "scope_loop used previous material [] = Ok (used, material)"
| "scope_loop used previous material (scope # scopes) =
     and_then (ok_or (account_scope used scope)
       (InvalidAttesterRegistry ''attester scope text exceeds the accepted profile'')) (\<lambda>used'.
     and_then (canonical_scope_material scope) (\<lambda>scope_material.
     and_then (ensure (\<not> (case previous of None \<Rightarrow> False | Some p \<Rightarrow> scope_material \<le> p))
       (InvalidAttesterRegistry ''attester scopes must be strictly sorted and duplicate-free'')) (\<lambda>_.
     and_then (append_length_framed material scope_material) (\<lambda>material'.
     scope_loop used' (Some scope_material) material' scopes))))"

definition identity_fields :: "RegisteredAttester \<Rightarrow> string list" where
  "identity_fields e = [ra_tenant e, ra_environment e, ra_issuer e, ra_key_id e, ra_principal_id e]"

definition entry_identity :: "RegisteredAttester \<Rightarrow> string \<times> string" where
  "entry_identity e = (ra_issuer e, ra_key_id e)"

text \<open>The guard of the entry loop; \<open>Some\<close> of the new text total when it passes.\<close>

definition entry_guard ::
    "externals \<Rightarrow> nat \<Rightarrow> (string \<times> string) option \<Rightarrow> digest32 set \<Rightarrow> RegisteredAttester
     \<Rightarrow> nat option" where
  "entry_guard X used previous public_keys e =
     (if list_ex (\<lambda>v. \<not> valid_security_text v) (identity_fields e) then None
      else case account_texts used (identity_fields e) of
             None \<Rightarrow> None
           | Some used' \<Rightarrow>
               if ra_scopes e = [] \<or> MAX_SCOPES_PER_ATTESTER < length (ra_scopes e)
                  \<or> MAX_AUTHORITY_GRADE < ra_base_grade e
                  \<or> (case previous of None \<Rightarrow> False | Some p \<Rightarrow> entry_identity e \<le> p)
                  \<or> ra_public_key e \<in> public_keys
                  \<or> \<not> is_Ok (from_public_key X (ra_key_id e) (ra_public_key e))
               then None else Some used')"

fun entry_loop ::
    "externals \<Rightarrow> nat \<Rightarrow> (string \<times> string) option \<Rightarrow> digest32 set \<Rightarrow> bytes
     \<Rightarrow> RegisteredAttester list \<Rightarrow> (bytes, KernelError) result" where
  "entry_loop X used previous public_keys material [] = Ok material"
| "entry_loop X used previous public_keys material (e # es) =
     and_then (ok_or (entry_guard X used previous public_keys e)
       (InvalidAttesterRegistry
         ''entries must be valid, strictly identity-sorted, and identity/key unique'')) (\<lambda>used1.
     and_then (append_framed_all material (identity_fields e)) (\<lambda>material1.
     and_then (scope_loop used1 None
       (material1 @ digest_bytes (ra_public_key e) @ [ra_base_grade e, status_code (ra_status e)]
         @ be_bytes 8 (length (ra_scopes e))) (ra_scopes e)) (\<lambda>(used2, material2).
     entry_loop X used2 (Some (entry_identity e)) (insert (ra_public_key e) public_keys)
       material2 es)))"

definition canonical_attester_registry_material ::
    "externals \<Rightarrow> RegisteredAttester list \<Rightarrow> (bytes, KernelError) result" where
  "canonical_attester_registry_material X entries =
     and_then (ensure (entries \<noteq> [] \<and> length entries \<le> MAX_REGISTERED_ATTESTERS)
       (InvalidAttesterRegistry ''registry cardinality is outside the accepted profile'')) (\<lambda>_.
     entry_loop X 0 None {} (ATTESTER_REGISTRY_ROOT_DOMAIN @ be_bytes 8 (length entries)) entries)"

section \<open>Activation\<close>

record ActivatedAttesterRegistry =
  aar_authority_domain :: AuthorityDomainState
  aar_entries :: "RegisteredAttester list"

definition compute_root ::
    "externals \<Rightarrow> RegisteredAttester list \<Rightarrow> (digest32, KernelError) result" where
  "compute_root X entries =
     and_then (canonical_attester_registry_material X entries) (\<lambda>material. Ok (x_sha256 X material))"

definition registry_new ::
    "externals \<Rightarrow> AuthorityDomainState \<Rightarrow> RegisteredAttester list
     \<Rightarrow> (ActivatedAttesterRegistry, KernelError) result" where
  "registry_new X authority_domain entries =
     and_then (validate_authority_domain authority_domain) (\<lambda>_.
     and_then (compute_root X entries) (\<lambda>root.
     and_then (ensure (root = ads_root authority_domain) AttesterRegistryRootMismatch) (\<lambda>_.
     Ok \<lparr>aar_authority_domain = authority_domain, aar_entries = entries\<rparr>)))"

section \<open>Material determines the registry\<close>

text \<open>The layout that the loops append, without their checks.\<close>

definition framed :: "bytes \<Rightarrow> bytes" where
  "framed v = be_bytes 8 (length v) @ v"

fun scope_fields :: "AttesterScope \<Rightarrow> string list" where
  "scope_fields (SReview a) = [a]"
| "scope_fields (SBuild a b) = [a, b]"
| "scope_fields (SArtifact a) = [a]"
| "scope_fields (STarget a b c) = [a, b, c]"

fun scope_tag :: "AttesterScope \<Rightarrow> u8" where
  "scope_tag (SReview _) = 0"
| "scope_tag (SBuild _ _) = 1"
| "scope_tag (SArtifact _) = 2"
| "scope_tag (STarget _ _ _) = 3"

definition framed_texts :: "string list \<Rightarrow> bytes" where
  "framed_texts vs = concat (map (\<lambda>v. framed (str_bytes v)) vs)"

definition scope_layout :: "AttesterScope \<Rightarrow> bytes" where
  "scope_layout s = scope_tag s # framed_texts (scope_fields s)"

definition entry_layout :: "RegisteredAttester \<Rightarrow> bytes" where
  "entry_layout e = framed_texts (identity_fields e) @ digest_bytes (ra_public_key e)
     @ [ra_base_grade e, status_code (ra_status e)] @ be_bytes 8 (length (ra_scopes e))
     @ concat (map (\<lambda>s. framed (scope_layout s)) (ra_scopes e))"

definition texts_fit :: "string list \<Rightarrow> bool" where
  "texts_fit vs \<longleftrightarrow> (\<forall>v \<in> set vs. length v < 2 ^ 64)"

definition scope_fits :: "AttesterScope \<Rightarrow> bool" where
  "scope_fits s \<longleftrightarrow> texts_fit (scope_fields s) \<and> length (scope_layout s) < 2 ^ 64"

definition entry_fits :: "RegisteredAttester \<Rightarrow> bool" where
  "entry_fits e \<longleftrightarrow> texts_fit (identity_fields e) \<and> length (ra_scopes e) < 2 ^ 64
     \<and> (\<forall>s \<in> set (ra_scopes e). scope_fits s)"

lemma append_length_framed_Ok [result_simps]:
  "append_length_framed m v = Ok m' \<longleftrightarrow> length v < 2 ^ 64 \<and> m' = m @ framed v"
  by (auto simp: append_length_framed_def result_simps frame_Some framed_def)

lemma append_framed_all_Ok [result_simps]:
  "append_framed_all m vs = Ok m' \<longleftrightarrow> texts_fit vs \<and> m' = m @ framed_texts vs"
  by (induction vs arbitrary: m) (auto simp: result_simps texts_fit_def framed_texts_def)

lemma canonical_scope_material_Ok:
  "canonical_scope_material s = Ok m \<Longrightarrow> texts_fit (scope_fields s) \<and> m = scope_layout s"
  by (cases s) (auto simp: result_simps scope_layout_def texts_fit_def framed_texts_def)

lemma scope_loop_Ok:
  "scope_loop used previous m scopes = Ok (used', m') \<Longrightarrow>
     (\<forall>s \<in> set scopes. scope_fits s) \<and> m' = m @ concat (map (\<lambda>s. framed (scope_layout s)) scopes)"
proof (induction scopes arbitrary: used previous m)
  case Nil
  then show ?case by simp
next
  case (Cons s scopes)
  then obtain used1 sm m1 where sm: "canonical_scope_material s = Ok sm"
    and m1: "append_length_framed m sm = Ok m1"
    and rest: "scope_loop used1 (Some sm) m1 scopes = Ok (used', m')"
    by (auto simp: and_then_Ok ok_or_Ok ensure_Ok)
  from Cons.IH [OF rest] m1 canonical_scope_material_Ok [OF sm] show ?case
    by (auto simp: append_length_framed_Ok scope_fits_def)
qed

lemma entry_guard_scopes:
  "entry_guard X used previous keys e = Some used' \<Longrightarrow> length (ra_scopes e) < 2 ^ 64"
  by (auto simp: entry_guard_def MAX_SCOPES_PER_ATTESTER_def split: if_splits option.splits)

lemma entry_loop_Ok:
  "entry_loop X used previous keys m es = Ok m' \<Longrightarrow>
     (\<forall>e \<in> set es. entry_fits e) \<and> m' = m @ concat (map entry_layout es)"
proof (induction es arbitrary: used previous keys m)
  case Nil
  then show ?case by simp
next
  case (Cons e es)
  then obtain used1 m1 used2 m2 where guard: "entry_guard X used previous keys e = Some used1"
    and m1: "append_framed_all m (identity_fields e) = Ok m1"
    and m2: "scope_loop used1 None
       (m1 @ digest_bytes (ra_public_key e) @ [ra_base_grade e, status_code (ra_status e)]
         @ be_bytes 8 (length (ra_scopes e))) (ra_scopes e) = Ok (used2, m2)"
    and rest: "entry_loop X used2 (Some (entry_identity e)) (insert (ra_public_key e) keys) m2 es = Ok m'"
    by (auto simp: and_then_Ok ok_or_Ok)
  from Cons.IH [OF rest] m1 scope_loop_Ok [OF m2] entry_guard_scopes [OF guard] show ?case
    by (auto simp: append_framed_all_Ok entry_fits_def entry_layout_def)
qed

lemma framed_cancel [frame_simps]:
  "length v < 2 ^ 64 \<Longrightarrow> length w < 2 ^ 64 \<Longrightarrow>
     framed v @ xs = framed w @ ys \<longleftrightarrow> v = w \<and> xs = ys"
  using frame_append [of v "framed v" w "framed w"] by (simp add: frame_Some framed_def)

lemma framed_texts_cancel:
  assumes "length vs = length ws" "texts_fit vs" "texts_fit ws"
  shows "framed_texts vs @ xs = framed_texts ws @ ys \<longleftrightarrow> vs = ws \<and> xs = ys"
  using assms
  by (induction vs ws rule: list_induct2) (auto simp: framed_texts_def texts_fit_def frame_simps)

lemma scope_layout_inj:
  assumes "scope_fits s" "scope_fits t" "scope_layout s = scope_layout t"
  shows "s = t"
  using assms framed_texts_cancel [of "scope_fields s" "scope_fields t" "[]" "[]"]
  by (cases s; cases t) (auto simp: scope_layout_def scope_fits_def)

lemma scopes_layout_cancel:
  assumes "length ss = length ts" "\<forall>s \<in> set ss. scope_fits s" "\<forall>t \<in> set ts. scope_fits t"
    and "concat (map (\<lambda>s. framed (scope_layout s)) ss) @ xs
       = concat (map (\<lambda>s. framed (scope_layout s)) ts) @ ys"
  shows "ss = ts \<and> xs = ys"
  using assms
proof (induction ss ts rule: list_induct2)
  case Nil
  then show ?case by simp
next
  case (Cons s ss t ts)
  have fit: "length (scope_layout s) < 2 ^ 64" "length (scope_layout t) < 2 ^ 64"
    using Cons.prems by (simp_all add: scope_fits_def)
  have "framed (scope_layout s) @ concat (map (\<lambda>s. framed (scope_layout s)) ss) @ xs
      = framed (scope_layout t) @ concat (map (\<lambda>s. framed (scope_layout s)) ts) @ ys"
    using Cons.prems(3) by simp
  then have layout: "scope_layout s = scope_layout t"
    and rest: "concat (map (\<lambda>s. framed (scope_layout s)) ss) @ xs
       = concat (map (\<lambda>s. framed (scope_layout s)) ts) @ ys"
    by (simp_all only: framed_cancel [OF fit])
  have "s = t" using Cons.prems layout by (intro scope_layout_inj) simp_all
  moreover have "ss = ts \<and> xs = ys" using Cons.prems rest by (intro Cons.IH) simp_all
  ultimately show ?case by simp
qed

lemma status_code_inj [simp]: "status_code a = status_code b \<longleftrightarrow> a = b"
  by (cases a; cases b) simp_all

lemma entry_layout_cancel:
  assumes "entry_fits e" "entry_fits f" "entry_layout e @ xs = entry_layout f @ ys"
  shows "e = f \<and> xs = ys"
proof -
  let ?tail = "\<lambda>e zs. concat (map (\<lambda>s. framed (scope_layout s)) (ra_scopes e)) @ zs"
  have ids: "texts_fit (identity_fields e)" "texts_fit (identity_fields f)"
    and counts: "length (ra_scopes e) < 2 ^ 64" "length (ra_scopes f) < 2 ^ 64"
    using assms(1,2) by (simp_all add: entry_fits_def)
  have len: "length (identity_fields e) = length (identity_fields f)"
    by (simp add: identity_fields_def)
  have head: "identity_fields e = identity_fields f \<and> ra_public_key e = ra_public_key f
      \<and> ra_base_grade e = ra_base_grade f \<and> ra_status e = ra_status f
      \<and> be_bytes 8 (length (ra_scopes e)) @ ?tail e xs = be_bytes 8 (length (ra_scopes f)) @ ?tail f ys"
    using assms(3) by (simp add: entry_layout_def framed_texts_cancel [OF len ids])
  then have "length (ra_scopes e) = length (ra_scopes f)" "?tail e xs = ?tail f ys"
    by (simp_all only: u64_be_append [OF counts])
  then have "ra_scopes e = ra_scopes f \<and> xs = ys"
    using assms(1,2) by (intro scopes_layout_cancel) (simp_all add: entry_fits_def)
  with head show ?thesis
    by (auto simp: identity_fields_def intro: RegisteredAttester.equality)
qed

lemma entries_layout_inj:
  assumes "length es = length fs" "\<forall>e \<in> set es. entry_fits e" "\<forall>f \<in> set fs. entry_fits f"
    and "concat (map entry_layout es) = concat (map entry_layout fs)"
  shows "es = fs"
  using assms
proof (induction es fs rule: list_induct2)
  case (Cons e es f fs)
  have "entry_layout e @ concat (map entry_layout es) = entry_layout f @ concat (map entry_layout fs)"
    using Cons.prems(3) by simp
  then have "e = f \<and> concat (map entry_layout es) = concat (map entry_layout fs)"
    using Cons.prems by (intro entry_layout_cancel) simp_all
  moreover from this have "es = fs" using Cons.prems by (intro Cons.IH) simp_all
  ultimately show ?case by simp
qed simp

lemma registry_material_inj:
  assumes "canonical_attester_registry_material X es = Ok m"
    and "canonical_attester_registry_material X fs = Ok m"
  shows "es = fs"
proof -
  have es: "\<forall>e \<in> set es. entry_fits e" "length es < 2 ^ 64"
    "m = ATTESTER_REGISTRY_ROOT_DOMAIN @ be_bytes 8 (length es) @ concat (map entry_layout es)"
    using assms(1) by (auto simp: canonical_attester_registry_material_def result_simps
        MAX_REGISTERED_ATTESTERS_def dest: entry_loop_Ok)
  have fs: "\<forall>e \<in> set fs. entry_fits e" "length fs < 2 ^ 64"
    "m = ATTESTER_REGISTRY_ROOT_DOMAIN @ be_bytes 8 (length fs) @ concat (map entry_layout fs)"
    using assms(2) by (auto simp: canonical_attester_registry_material_def result_simps
        MAX_REGISTERED_ATTESTERS_def dest: entry_loop_Ok)
  have "be_bytes 8 (length es) @ concat (map entry_layout es)
      = be_bytes 8 (length fs) @ concat (map entry_layout fs)"
    using es(3) fs(3) by (simp only: same_append_eq)
  then have "length es = length fs" "concat (map entry_layout es) = concat (map entry_layout fs)"
    by (simp_all only: u64_be_append [OF es(2) fs(2)])
  with es(1) fs(1) show ?thesis by (intro entries_layout_inj) simp_all
qed

section \<open>Accepted registries are well formed\<close>

definition entry_valid :: "externals \<Rightarrow> RegisteredAttester \<Rightarrow> bool" where
  "entry_valid X e \<longleftrightarrow> list_all valid_security_text (identity_fields e) \<and> ra_scopes e \<noteq> []
     \<and> length (ra_scopes e) \<le> MAX_SCOPES_PER_ATTESTER \<and> ra_base_grade e \<le> MAX_AUTHORITY_GRADE
     \<and> is_Ok (from_public_key X (ra_key_id e) (ra_public_key e))"

definition registry_wf :: "externals \<Rightarrow> RegisteredAttester list \<Rightarrow> bool" where
  "registry_wf X es \<longleftrightarrow> list_all (entry_valid X) es \<and> sorted_wrt (<) (map entry_identity es)
     \<and> distinct (map ra_public_key es)"

lemma entry_guard_Some:
  "entry_guard X used previous keys e = Some used' \<Longrightarrow>
     entry_valid X e \<and> ra_public_key e \<notin> keys \<and> (\<forall>p. previous = Some p \<longrightarrow> p < entry_identity e)"
  by (auto simp: entry_guard_def entry_valid_def list_ex_iff list_all_iff not_less not_le
      split: if_splits option.splits)

lemma entry_loop_wf:
  "entry_loop X used previous keys m es = Ok m' \<Longrightarrow>
     registry_wf X es \<and> keys \<inter> ra_public_key ` set es = {}
     \<and> (\<forall>p. previous = Some p \<longrightarrow> (\<forall>e \<in> set es. p < entry_identity e))"
proof (induction es arbitrary: used previous keys m)
  case Nil
  then show ?case by (simp add: registry_wf_def)
next
  case (Cons e es)
  then obtain used1 used2 m2 where guard: "entry_guard X used previous keys e = Some used1"
    and rest: "entry_loop X used2 (Some (entry_identity e)) (insert (ra_public_key e) keys) m2 es = Ok m'"
    by (auto simp: and_then_Ok ok_or_Ok)
  from Cons.IH [OF rest] entry_guard_Some [OF guard] show ?case
    by (auto simp: registry_wf_def intro: order.strict_trans)
qed

lemma registry_new_wf: "registry_new X d es = Ok r \<Longrightarrow> registry_wf X (aar_entries r)"
  by (auto simp: registry_new_def compute_root_def canonical_attester_registry_material_def
      result_simps dest: entry_loop_wf)

end
