(* ===== verification/State_Model.thy ===== *)
theory State_Model
  imports Cose_Crypto
begin

text \<open>
  The data and the pure checks of \<^verbatim>\<open>accordlock-state/src/model.rs\<close> (and the control-work
  capability of \<^verbatim>\<open>control.rs\<close>): scopes, dispatch deadlines, grants, issued
  authorizations, consumption keys, physical-resource identities, admission tuples,
  monotone authority, and the validations that guard consumption and dispatch. The facts
  say what each accepted value promises: a deadline inside every bound, a grant that binds
  the authorization field by field, an authority that never goes back.
\<close>

section \<open>Errors\<close>

text \<open>The variants that the modelled operations raise or classify; the others belong to the broker,
  terminal, admission and PostgreSQL operations. A signature failure
  carries the underlying error or the adapter's own message.\<close>

datatype StateError =
    InvalidRecord string
  | InvalidDeadline string
  | DeadlineOverflow
  | EmptyDispatchWindow i64 i64
  | AuthorityNotInitialized
  | AuthorityCompareFailed
  | AuthorityMismatch
  | NonMonotoneAuthority
  | GrantNotFound
  | GrantAlreadyExists
  | GrantMismatch
  | GrantRegistryRootMismatch
  | GrantRevoked
  | GrantNotYetValid i64 i64
  | GrantExpired i64 i64
  | GrantExhausted
  | GrantNotConsumed
  | AuthorizationNotFound
  | AuthorizationAlreadyExists
  | InvalidAuthorizationSignature "CryptoError + string"
  | ConsumptionNotFound
  | TransactionMismatch
  | AuthorizationNotYetValid i64 i64
  | AuthorizationExpired i64 i64
  | DependencyExpired i64 i64
  | DispatchDeadlineExpired i64 i64
  | DispatchAlreadyClaimed
  | PhysicalResourceAlreadyReserved
  | DispatchClaimOutcomeUnknown
  | DispatchClaimNotFound
  | DispatchClaimMismatch
  | DispatchAcquisitionMismatch
  | DispatchAcquisitionRequired
  | DispatchAcquisitionFenceExhausted
  | DispatchClaimLeaseExpired i64 i64
  | DispatchCredentialExpired
  | DispatchAttemptOutcomeUnknown
  | AdmissionCredentialMismatch
  | DispatchFenceExhausted
  | AlreadyConsumed
  | ConsumptionOutcomeUnknown
  | ControlSubmissionMismatch
  | ControlWorkNotFound
  | ControlStatusNotFound
  | ControlWorkMismatch
  | ControlIngressKeyNotCurrent i64
  | ControlIngressNotYetValid i64 i64
  | ControlIngressExpired i64 i64
  | ControlWorkLeaseExpired i64 i64
  | ClockBeforeUnixEpoch
  | ClockRollback i64 i64
  | StateCanonical CanonicalError

fun is_temporal_rejection_for_sample :: "StateError \<Rightarrow> i64 \<Rightarrow> bool" where
  "is_temporal_rejection_for_sample (EmptyDispatchWindow observed _) t = (observed = t)"
| "is_temporal_rejection_for_sample (GrantNotYetValid observed _) t = (observed = t)"
| "is_temporal_rejection_for_sample (GrantExpired observed _) t = (observed = t)"
| "is_temporal_rejection_for_sample (AuthorizationNotYetValid observed _) t = (observed = t)"
| "is_temporal_rejection_for_sample (AuthorizationExpired observed _) t = (observed = t)"
| "is_temporal_rejection_for_sample (DependencyExpired observed _) t = (observed = t)"
| "is_temporal_rejection_for_sample (DispatchDeadlineExpired observed _) t = (observed = t)"
| "is_temporal_rejection_for_sample (DispatchClaimLeaseExpired observed _) t = (observed = t)"
| "is_temporal_rejection_for_sample (ControlIngressKeyNotCurrent observed) t = (observed = t)"
| "is_temporal_rejection_for_sample (ControlIngressNotYetValid observed _) t = (observed = t)"
| "is_temporal_rejection_for_sample (ControlIngressExpired observed _) t = (observed = t)"
| "is_temporal_rejection_for_sample (ControlWorkLeaseExpired observed _) t = (observed = t)"
| "is_temporal_rejection_for_sample _ t = False"

section \<open>Scopes and deadlines\<close>

record Scope =
  sc_tenant :: string
  sc_environment :: string

definition scope_validate :: "Scope \<Rightarrow> (unit, StateError) result" where
  "scope_validate s =
     ensure (\<not> (trim (sc_tenant s) = [] \<or> trim (sc_environment s) = []
       \<or> trim (sc_tenant s) \<noteq> sc_tenant s \<or> trim (sc_environment s) \<noteq> sc_environment s))
       (InvalidRecord ''tenant and environment must be non-empty and have no surrounding whitespace'')"

definition scope_new :: "string \<Rightarrow> string \<Rightarrow> (Scope, StateError) result" where
  "scope_new tenant environment =
     (let scope = \<lparr>sc_tenant = tenant, sc_environment = environment\<rparr>
      in and_then (scope_validate scope) (\<lambda>_. Ok scope))"

definition validate_deadline_policy :: "DispatchDeadlinePolicy \<Rightarrow> (unit, StateError) result" where
  "validate_deadline_policy p =
     and_then (ensure (\<not> dp_max_dispatch_delay_seconds p \<le> 0)
       (InvalidDeadline ''max_dispatch_delay_seconds must be positive'')) (\<lambda>_.
     and_then (ensure (\<not> dp_profile_hard_cap p < 0)
       (InvalidDeadline ''profile_hard_cap must be a non-negative Unix time'')) (\<lambda>_.
     ensure (\<not> (MAX_IMMUTABLE_DEPENDENCY_EXPIRIES < length (dp_immutable_dependency_expiries p)
         \<or> list_ex (\<lambda>e. e < 0) (dp_immutable_dependency_expiries p)
         \<or> some_window_ge (dp_immutable_dependency_expiries p)))
       (InvalidDeadline
         ''dependency expiries must be non-negative, strictly sorted, duplicate-free, and bounded'')))"

text \<open>The loop over the dependency expiries: the first expired one is the error, the deadline is
  lowered by each.\<close>

fun expiry_loop :: "i64 \<Rightarrow> i64 \<Rightarrow> i64 list \<Rightarrow> (i64, StateError) result" where
  "expiry_loop t deadline [] = Ok deadline"
| "expiry_loop t deadline (e # es) =
     (if e \<le> t then Err (DependencyExpired t e) else expiry_loop t (min deadline e) es)"

definition compute_dispatch_deadline ::
    "i64 \<Rightarrow> i64 \<Rightarrow> DispatchDeadlinePolicy \<Rightarrow> (i64, StateError) result" where
  "compute_dispatch_deadline consumption_time consume_before policy =
     and_then (validate_deadline_policy policy) (\<lambda>_.
     and_then (ensure (\<not> (consumption_time < 0 \<or> consume_before < 0))
       (InvalidDeadline ''times must be non-negative Unix seconds'')) (\<lambda>_.
     and_then (ensure (\<not> consume_before \<le> consumption_time)
       (AuthorizationExpired consumption_time consume_before)) (\<lambda>_.
     and_then (ok_or (i64_checked_add consumption_time (dp_max_dispatch_delay_seconds policy))
       DeadlineOverflow) (\<lambda>delay_deadline.
     and_then (expiry_loop consumption_time
       (min (min delay_deadline consume_before) (dp_profile_hard_cap policy))
       (dp_immutable_dependency_expiries policy)) (\<lambda>deadline.
     and_then (ensure (\<not> deadline \<le> consumption_time)
       (EmptyDispatchWindow consumption_time deadline)) (\<lambda>_.
     Ok deadline))))))"

section \<open>Authority\<close>

definition state_validate_authority_vector :: "AuthorityVector \<Rightarrow> (unit, StateError) result" where
  "state_validate_authority_vector a =
     ensure (\<not> list_ex (\<lambda>d. is_nil (ads_activation_id d)) (domains a))
       (InvalidRecord ''authority activation identifiers must be non-nil'')"

definition domain_regresses :: "AuthorityDomainState \<Rightarrow> AuthorityDomainState \<Rightarrow> bool" where
  "domain_regresses old new \<longleftrightarrow>
     ads_epoch new < ads_epoch old \<or> (new \<noteq> old \<and> ads_epoch new \<le> ads_epoch old)"

definition ensure_monotone_authority ::
    "AuthorityVector \<Rightarrow> AuthorityVector \<Rightarrow> (unit, StateError) result" where
  "ensure_monotone_authority current next =
     and_then (state_validate_authority_vector current) (\<lambda>_.
     and_then (state_validate_authority_vector next) (\<lambda>_.
     ensure (\<not> list_ex (\<lambda>(old, new). domain_regresses old new) (zip (domains current) (domains next)))
       NonMonotoneAuthority))"

definition grant_revocation_root :: "externals \<Rightarrow> uuid \<Rightarrow> digest32" where
  "grant_revocation_root X grant_id =
     x_sha256 X (str_bytes ''accordlock:v1:single-grant-revoked:'' @ uuid_bytes grant_id)"

definition revocation_step ::
    "externals \<Rightarrow> uuid \<Rightarrow> nat \<times> AuthorityDomainState \<times> AuthorityDomainState \<Rightarrow> bool" where
  "revocation_step X grant_id = (\<lambda>(index, old, new).
     if index = 2
     then \<not> (ads_epoch new \<le> ads_epoch old \<or> ads_root new \<noteq> grant_revocation_root X grant_id
       \<or> ads_activation_id new = ads_activation_id old)
     else new = old)"

definition validate_revocation_transition ::
    "externals \<Rightarrow> uuid \<Rightarrow> AuthorityVector \<Rightarrow> AuthorityVector \<Rightarrow> (unit, StateError) result" where
  "validate_revocation_transition X grant_id expected next =
     and_then (ensure_monotone_authority expected next) (\<lambda>_.
     ensure (list_all (revocation_step X grant_id)
         (zip [0 ..< 12] (zip (domains expected) (domains next))))
       NonMonotoneAuthority)"

section \<open>Grants\<close>

record GrantRegistration =
  gr_environment :: string
  gr_grant :: CapabilityGrant
  gr_authority :: AuthorityVector
  gr_dispatch_deadline_policy :: DispatchDeadlinePolicy

definition registration_scope :: "GrantRegistration \<Rightarrow> Scope" where
  "registration_scope r =
     \<lparr>sc_tenant = cg_tenant (gr_grant r), sc_environment = gr_environment r\<rparr>"

definition grant_hash :: "externals \<Rightarrow> CapabilityGrant \<Rightarrow> (digest32, StateError) result" where
  "grant_hash X g = map_err StateCanonical (canonical_hash (x_cbor X) (x_sha256 X) (VGrant g))"

definition registration_validate ::
    "externals \<Rightarrow> GrantRegistration \<Rightarrow> (unit, StateError) result" where
  "registration_validate X r =
     and_then (scope_validate (registration_scope r)) (\<lambda>_.
     and_then (state_validate_authority_vector (gr_authority r)) (\<lambda>_.
     and_then (validate_deadline_policy (gr_dispatch_deadline_policy r)) (\<lambda>_.
     let grant = gr_grant r in
     and_then (grant_hash X grant) (\<lambda>h.
     and_then (ensure (ads_root (av_grant_registry (gr_authority r)) = h)
       GrantRegistryRootMismatch) (\<lambda>_.
     and_then (ensure (\<not> (is_nil (cg_grant_id grant)
         \<or> list_ex (\<lambda>v. trim v = []) [cg_holder grant, cg_operation grant, cg_repository grant,
             cg_audience grant, cg_cluster_identity grant, cg_namespace grant,
             cg_deployment_uid grant, cg_container grant, cg_image_repository grant]))
       (InvalidRecord ''grant identifiers and bound resource fields must be non-empty'')) (\<lambda>_.
     and_then (ensure (cg_maximum_uses grant \<noteq> 0)
       (InvalidRecord ''grant maximum_uses must be positive'')) (\<lambda>_.
     and_then (ensure (\<not> (cg_not_before grant < 0 \<or> cg_expires_at grant \<le> cg_not_before grant))
       (InvalidRecord ''grant validity interval is empty or invalid'')) (\<lambda>_.
     ensure (\<not> (dp_profile_hard_cap (gr_dispatch_deadline_policy r) \<le> cg_not_before grant
         \<or> list_ex (\<lambda>e. e \<le> cg_not_before grant)
             (dp_immutable_dependency_expiries (gr_dispatch_deadline_policy r))))
       (InvalidDeadline ''grant registration has no usable dispatch-policy interval'')))))))))"

record GrantSnapshot =
  gs_registration :: GrantRegistration
  gs_uses :: u32
  gs_revoked :: bool

record IssuanceSnapshot =
  is_scope :: Scope
  is_registration :: GrantRegistration
  is_issued_at :: i64


section \<open>Physical resources and keys\<close>

record PhysicalResourceKey =
  pk_cluster_identity :: string
  pk_namespace :: string
  pk_deployment_uid :: string

definition valid_physical_identity_component :: "string \<Rightarrow> nat \<Rightarrow> bool" where
  "valid_physical_identity_component value maximum_length = valid_text maximum_length value"

definition physical_resource_new ::
    "string \<Rightarrow> string \<Rightarrow> string \<Rightarrow> (PhysicalResourceKey, StateError) result" where
  "physical_resource_new cluster_identity namespace deployment_uid =
     and_then (ensure (valid_physical_identity_component cluster_identity 512
         \<and> valid_physical_identity_component namespace 253
         \<and> valid_physical_identity_component deployment_uid 512)
       (InvalidRecord
         ''physical resource identity must be non-empty, bounded, trimmed, and control-free'')) (\<lambda>_.
     Ok \<lparr>pk_cluster_identity = cluster_identity, pk_namespace = namespace,
         pk_deployment_uid = deployment_uid\<rparr>)"

definition from_authorization ::
    "ExecutionAuthorization \<Rightarrow> (PhysicalResourceKey, StateError) result" where
  "from_authorization a =
     physical_resource_new (dt_cluster_identity (xa_template a)) (dt_namespace (xa_template a))
       (dt_deployment_uid (xa_template a))"

record ConsumeKey =
  ck_scope :: Scope
  ck_transaction_id :: uuid
  ck_authorization_id :: uuid

definition key_validate :: "ConsumeKey \<Rightarrow> (unit, StateError) result" where
  "key_validate k =
     and_then (scope_validate (ck_scope k)) (\<lambda>_.
     ensure (\<not> (is_nil (ck_transaction_id k) \<or> is_nil (ck_authorization_id k)))
       (InvalidRecord ''transaction_id and authorization_id must be non-nil''))"

section \<open>Issued authorizations\<close>

record IssuedAuthorizationRecord =
  ir_transaction_id :: uuid
  ir_signed_authorization :: SignedAuthorization
  ir_signer_key_id :: string
  ir_signer_public_key :: digest32
  ir_authorization_hash :: digest32

definition ir_authorization :: "IssuedAuthorizationRecord \<Rightarrow> ExecutionAuthorization" where
  "ir_authorization r = sx_authorization (ir_signed_authorization r)"

definition issued_scope :: "IssuedAuthorizationRecord \<Rightarrow> Scope" where
  "issued_scope r = \<lparr>sc_tenant = xa_tenant (ir_authorization r),
     sc_environment = dt_environment (xa_template (ir_authorization r))\<rparr>"

abbreviation state_hash :: "externals \<Rightarrow> canonical_value \<Rightarrow> (digest32, StateError) result" where
  "state_hash X v \<equiv> map_err StateCanonical (canonical_hash (x_cbor X) (x_sha256 X) v)"

abbreviation signature_error :: "CryptoError \<Rightarrow> StateError" where
  "signature_error e \<equiv> InvalidAuthorizationSignature (Inl e)"

definition issued_validate ::
    "externals \<Rightarrow> IssuedAuthorizationRecord \<Rightarrow> (unit, StateError) result" where
  "issued_validate X r =
     (let authorization = ir_authorization r in
     and_then (state_validate_authority_vector (xa_authority authorization)) (\<lambda>_.
     and_then (from_authorization authorization) (\<lambda>_.
     and_then (map_err signature_error
       (from_public_key X (ir_signer_key_id r) (ir_signer_public_key r))) (\<lambda>verifier.
     and_then (map_err signature_error
       (authorization_signer_root X (ir_signer_key_id r) (ir_signer_public_key r))) (\<lambda>signer_root.
     and_then (ensure (signer_root = ads_root (av_signer (xa_authority authorization)))
       (InvalidAuthorizationSignature
         (Inr ''authorization signer does not match the active signer authority root''))) (\<lambda>_.
     and_then (map_err signature_error
       (verify_cose X (sx_cose_sign1 (ir_signed_authorization r)) EXECUTION_AUTHORIZATION_DOMAIN
         verifier)) (\<lambda>signed_payload.
     and_then (map_err StateCanonical
       (canonical_bytes (x_cbor X) (VAuthorization authorization))) (\<lambda>canonical_payload.
     and_then (ensure (signed_payload = canonical_payload)
       (InvalidAuthorizationSignature
         (Inr ''COSE payload does not equal the canonical action authorization''))) (\<lambda>_.
     and_then (ensure (\<not> (is_nil (ir_transaction_id r) \<or> is_nil (xa_authorization_id authorization)
         \<or> is_nil (xa_grant_id authorization) \<or> is_nil (xa_request_id authorization)
         \<or> is_nil (xa_evaluation_nonce authorization)))
       (InvalidRecord ''authorization and transaction identifiers must be non-nil'')) (\<lambda>_.
     and_then (validate_deadline_policy (xa_dispatch_deadline_policy authorization)) (\<lambda>_.
     and_then (ensure (\<not> (xa_issued_at authorization < 0
         \<or> xa_not_before authorization < xa_issued_at authorization
         \<or> xa_consume_before authorization \<le> xa_not_before authorization))
       (InvalidRecord ''authorization validity interval is empty or invalid'')) (\<lambda>_.
     and_then (ensure (\<not> (xa_schema_version authorization \<noteq> EXECUTION_AUTHORIZATION_SCHEMA_VERSION
         \<or> trim (xa_tenant authorization) = [] \<or> trim (xa_holder authorization) = []
         \<or> trim (xa_audience authorization) = []
         \<or> trim (dt_environment (xa_template authorization)) = []))
       (InvalidRecord ''authorization schema and principal/scope fields must be non-empty'')) (\<lambda>_.
     and_then (ensure (xa_audience authorization = dt_audience (xa_template authorization))
       (InvalidRecord ''authorization audience must equal template audience'')) (\<lambda>_.
     and_then (ensure (xa_policy_root authorization
         = ads_root (av_policy (xa_authority authorization)))
       (InvalidRecord ''authorization policy_root must equal its authority policy root'')) (\<lambda>_.
     and_then (state_hash X (VTemplate (xa_template authorization))) (\<lambda>template_hash.
     and_then (ensure (xa_template_hash authorization = template_hash)
       (InvalidRecord ''authorization template_hash must equal the canonical template hash'')) (\<lambda>_.
     and_then (state_hash X (VAuthorization authorization)) (\<lambda>authorization_hash.
     ensure (ir_authorization_hash r = authorization_hash)
       (InvalidRecord ''authorization_hash must equal the canonical authorization hash'')))))))))))))))))))"

definition issued_new ::
    "externals \<Rightarrow> uuid \<Rightarrow> SignedAuthorization \<Rightarrow> string \<Rightarrow> digest32
     \<Rightarrow> (IssuedAuthorizationRecord, StateError) result" where
  "issued_new X transaction_id signed_authorization signer_key_id signer_public_key =
     and_then (state_hash X (VAuthorization (sx_authorization signed_authorization)))
       (\<lambda>authorization_hash.
     let record = \<lparr>ir_transaction_id = transaction_id, ir_signed_authorization = signed_authorization,
           ir_signer_key_id = signer_key_id, ir_signer_public_key = signer_public_key,
           ir_authorization_hash = authorization_hash\<rparr>
     in and_then (issued_validate X record) (\<lambda>_. Ok record))"

section \<open>Admission tuples\<close>

record AdmissionAuthorizationRequest =
  ar_key :: ConsumeKey
  ar_claim_id :: uuid
  ar_fence :: u64
  ar_physical_resource :: PhysicalResourceKey
  ar_credential_token_digest :: digest32
  ar_service_account_uid :: string
  ar_credential_id :: string
  ar_credential_binding_commitment :: digest32
  ar_admission_uid :: string
  ar_provider_request_commitment :: digest32
  ar_old_object_commitment :: digest32
  ar_new_object_commitment :: digest32
  ar_executor_identity_commitment :: digest32
  ar_observer_identity_commitment :: digest32

definition is_ascii :: "string \<Rightarrow> bool" where
  "is_ascii s = list_all (\<lambda>c. (of_char c :: nat) < 128) s"

definition ascii_lower :: "char \<Rightarrow> bool" where
  "ascii_lower c \<longleftrightarrow> CHR ''a'' \<le> c \<and> c \<le> CHR ''z''"

definition ascii_upper :: "char \<Rightarrow> bool" where
  "ascii_upper c \<longleftrightarrow> CHR ''A'' \<le> c \<and> c \<le> CHR ''Z''"

definition ascii_digit :: "char \<Rightarrow> bool" where
  "ascii_digit c \<longleftrightarrow> CHR ''0'' \<le> c \<and> c \<le> CHR ''9''"

definition ascii_alphanumeric :: "char \<Rightarrow> bool" where
  "ascii_alphanumeric c \<longleftrightarrow> ascii_lower c \<or> ascii_upper c \<or> ascii_digit c"

definition valid_admission_uid :: "string \<Rightarrow> bool" where
  "valid_admission_uid value \<longleftrightarrow>
     value \<noteq> [] \<and> length value \<le> 128 \<and> is_ascii value
     \<and> list_all (\<lambda>c. ascii_alphanumeric c \<or> c \<in> set ''._-:'') value"

definition valid_kubernetes_credential_id :: "externals \<Rightarrow> string \<Rightarrow> bool" where
  "valid_kubernetes_credential_id X value =
     (if prefix ''AUTHORIZATION_ID='' value
      then let encoded = drop (length ''AUTHORIZATION_ID='') value in
        case x_uuid_parse X encoded of
          None \<Rightarrow> False
        | Some parsed \<Rightarrow> \<not> is_nil parsed \<and> encoded = x_uuid_string X parsed
      else False)"

definition admission_request_validate ::
    "externals \<Rightarrow> AdmissionAuthorizationRequest \<Rightarrow> (unit, StateError) result" where
  "admission_request_validate X r =
     and_then (key_validate (ar_key r)) (\<lambda>_.
     and_then (physical_resource_new (pk_cluster_identity (ar_physical_resource r))
       (pk_namespace (ar_physical_resource r)) (pk_deployment_uid (ar_physical_resource r))) (\<lambda>_.
     and_then (ensure (\<not> (is_nil (ar_claim_id r) \<or> ar_fence r = 0
         \<or> \<not> valid_admission_uid (ar_admission_uid r)
         \<or> \<not> valid_physical_identity_component (ar_service_account_uid r) 512
         \<or> \<not> valid_kubernetes_credential_id X (ar_credential_id r)))
       (InvalidRecord ''admission claim must be non-nil, fence positive, and UID canonical'')) (\<lambda>_.
     ensure (\<not> 0 \<in> set [ar_provider_request_commitment r, ar_credential_token_digest r,
         ar_credential_binding_commitment r, ar_old_object_commitment r,
         ar_new_object_commitment r, ar_executor_identity_commitment r,
         ar_observer_identity_commitment r])
       (InvalidRecord ''admission commitments must be nonzero''))))"

text \<open>\<open>append_length_framed\<close> of this file, over an option: a field too long is the error.\<close>

definition tuple_too_long :: StateError where
  "tuple_too_long = InvalidRecord ''admission tuple field is too long''"

definition frame_text :: "string \<Rightarrow> (bytes, StateError) result" where
  "frame_text s = ok_or (frame (str_bytes s)) tuple_too_long"

definition admission_request_commitment ::
    "externals \<Rightarrow> AdmissionAuthorizationRequest \<Rightarrow> (digest32, StateError) result" where
  "admission_request_commitment X r =
     and_then (frame_text (sc_tenant (ck_scope (ar_key r)))) (\<lambda>tenant.
     and_then (frame_text (sc_environment (ck_scope (ar_key r)))) (\<lambda>environment.
     and_then (frame_text (pk_cluster_identity (ar_physical_resource r))) (\<lambda>cluster.
     and_then (frame_text (pk_namespace (ar_physical_resource r))) (\<lambda>namespace.
     and_then (frame_text (pk_deployment_uid (ar_physical_resource r))) (\<lambda>deployment.
     and_then (frame_text (ar_service_account_uid r)) (\<lambda>account.
     and_then (frame_text (ar_credential_id r)) (\<lambda>credential.
     and_then (frame_text (ar_admission_uid r)) (\<lambda>uid.
     Ok (x_sha256 X
       (str_bytes ''accordlock:v2:admission-authorization-request'' @ tenant @ environment
        @ uuid_bytes (ck_transaction_id (ar_key r)) @ uuid_bytes (ck_authorization_id (ar_key r))
        @ uuid_bytes (ar_claim_id r) @ be_bytes 8 (unat (ar_fence r))
        @ cluster @ namespace @ deployment
        @ digest_bytes (ar_credential_token_digest r) @ account @ credential
        @ digest_bytes (ar_credential_binding_commitment r) @ uid
        @ digest_bytes (ar_provider_request_commitment r)
        @ digest_bytes (ar_old_object_commitment r) @ digest_bytes (ar_new_object_commitment r)
        @ digest_bytes (ar_executor_identity_commitment r)
        @ digest_bytes (ar_observer_identity_commitment r)))))))))))"


section \<open>Control work\<close>

datatype ControlWorkPhase = PhaseEvaluate | PhaseIssue | PhaseConsume | PhaseDone

record ControlWorkLease =
  wl_state_instance_id :: uuid
  wl_submission_id :: uuid
  wl_phase :: ControlWorkPhase
  wl_worker_id :: string
  wl_claim_id :: uuid
  wl_fence :: u64
  wl_claimed_at :: i64
  wl_lease_until :: i64

record ControlEvaluationWork =
  cw_lease :: ControlWorkLease
  cw_scope :: Scope
  cw_proposal :: AgentProposal
  cw_caller_tenant :: string
  cw_caller_actor :: string
  cw_accepted_at :: i64
  cw_ingress_expires_at :: i64
  cw_ingress_authority_domain :: AuthorityDomainState
  cw_active_authority :: AuthorityVector
  cw_evaluation_nonce :: uuid

end
