(* ===== verification/Kernel_Evaluation.thy ===== *)
theory Kernel_Evaluation
  imports Kernel_Registry State_Model
begin

text \<open>
  The evaluation half of \<^verbatim>\<open>accordlock-kernel/src/lib.rs\<close>: construction of the trusted
  context, the input limits, verification of the connector evidence, the lineage rules of
  \<open>evaluate_behavior\<close>, the decision and its signature. Every loop that pushes reasons is a
  function that returns the reasons it pushes, in order.
\<close>

section \<open>Context\<close>

record AuthenticatedCaller =
  au_tenant :: string
  au_actor :: string

record AuthenticatedIngressRequest =
  ai_caller :: AuthenticatedCaller
  ai_proposal :: AgentProposal
  ai_ingress_key_id :: string
  ai_nonce :: uuid
  ai_authenticated_at :: i64
  ai_expires_at :: i64
  ai_authority_domain :: AuthorityDomainState

record KernelCaller =
  kl_tenant :: string
  kl_actor :: string

record KernelContext =
  kc_control_work :: "ControlEvaluationWork option"
  kc_caller :: KernelCaller
  kc_proposal :: AgentProposal
  kc_authenticated_at :: i64
  kc_ingress_expires_at :: i64
  kc_ingress_authority_domain :: AuthorityDomainState
  kc_now :: i64
  kc_evaluation_nonce :: uuid
  kc_policy :: PolicyConfig
  kc_active_authority :: AuthorityVector
  kc_attester_registry :: ActivatedAttesterRegistry

abbreviation kernel_hash :: "externals \<Rightarrow> canonical_value \<Rightarrow> (digest32, KernelError) result" where
  "kernel_hash X v \<equiv> map_err Canonical (canonical_hash (x_cbor X) (x_sha256 X) v)"

definition from_trusted_parts ::
    "externals \<Rightarrow> Scope option \<Rightarrow> AgentProposal \<Rightarrow> string \<Rightarrow> string \<Rightarrow> i64 \<Rightarrow> i64
     \<Rightarrow> AuthorityDomainState \<Rightarrow> i64 \<Rightarrow> uuid \<Rightarrow> PolicyConfig \<Rightarrow> AuthorityVector
     \<Rightarrow> ActivatedAttesterRegistry \<Rightarrow> (KernelContext, KernelError) result" where
  "from_trusted_parts X durable_scope proposal caller_tenant caller_actor authenticated_at
       ingress_expires_at ingress_authority_domain now evaluation_nonce policy active_authority
       attester_registry =
     and_then (ensure (\<not> (now < 0 \<or> authenticated_at < 0 \<or> ingress_expires_at \<le> authenticated_at
         \<or> is_nil evaluation_nonce \<or> \<not> valid_security_text caller_tenant
         \<or> \<not> valid_security_text caller_actor
         \<or> ap_tenant proposal \<noteq> caller_tenant \<or> ap_actor proposal \<noteq> caller_actor
         \<or> (case durable_scope of
              None \<Rightarrow> False
            | Some scope \<Rightarrow> sc_tenant scope \<noteq> ap_tenant proposal
                \<or> sc_environment scope \<noteq> dt_environment (ap_template proposal))))
       (InvalidContext
         ''caller identity, durable scope, evaluation nonce, or trusted time is invalid'')) (\<lambda>_.
     and_then (ensure (\<not> now < authenticated_at) IngressClockRollback) (\<lambda>_.
     and_then (ensure (\<not> ingress_expires_at \<le> now) IngressExpired) (\<lambda>_.
     and_then (validate_authority_vector active_authority) (\<lambda>_.
     and_then (kernel_hash X (VPolicy policy)) (\<lambda>policy_root.
     and_then (ensure (policy_root = ads_root (av_policy active_authority)) KPolicyRootMismatch) (\<lambda>_.
     and_then (ensure (aar_authority_domain attester_registry = av_registry active_authority)
       AttesterRegistryAuthorityMismatch) (\<lambda>_.
     and_then (ensure (ingress_authority_domain = av_principal_registry active_authority)
       IngressRegistryAuthorityMismatch) (\<lambda>_.
     Ok \<lparr>kc_control_work = None,
         kc_caller = \<lparr>kl_tenant = caller_tenant, kl_actor = caller_actor\<rparr>,
         kc_proposal = proposal, kc_authenticated_at = authenticated_at,
         kc_ingress_expires_at = ingress_expires_at,
         kc_ingress_authority_domain = ingress_authority_domain, kc_now = now,
         kc_evaluation_nonce = evaluation_nonce, kc_policy = policy,
         kc_active_authority = active_authority,
         kc_attester_registry = attester_registry\<rparr>))))))))"

definition from_control_work ::
    "externals \<Rightarrow> ControlEvaluationWork \<Rightarrow> PolicyConfig \<Rightarrow> ActivatedAttesterRegistry
     \<Rightarrow> (KernelContext, KernelError) result" where
  "from_control_work X work policy attester_registry =
     (let lease = cw_lease work in
     and_then (ensure (\<not> (wl_phase lease \<noteq> PhaseEvaluate \<or> is_nil (wl_submission_id lease)
         \<or> is_nil (wl_claim_id lease) \<or> wl_fence lease = 0
         \<or> wl_lease_until lease \<le> wl_claimed_at lease
         \<or> \<not> valid_security_text (wl_worker_id lease)))
       (InvalidContext ''durable evaluation work lease is malformed'')) (\<lambda>_.
     and_then (from_trusted_parts X (Some (cw_scope work)) (cw_proposal work)
       (cw_caller_tenant work) (cw_caller_actor work) (cw_accepted_at work)
       (cw_ingress_expires_at work) (cw_ingress_authority_domain work) (wl_claimed_at lease)
       (cw_evaluation_nonce work) policy (cw_active_authority work) attester_registry)
       (\<lambda>context. Ok (context\<lparr>kc_control_work := Some work\<rparr>))))"

definition from_authenticated_ingress ::
    "externals \<Rightarrow> AuthenticatedIngressRequest \<Rightarrow> i64 \<Rightarrow> uuid \<Rightarrow> PolicyConfig \<Rightarrow> AuthorityVector
     \<Rightarrow> ActivatedAttesterRegistry \<Rightarrow> (KernelContext, KernelError) result" where
  "from_authenticated_ingress X ingress now evaluation_nonce policy active_authority
       attester_registry =
     from_trusted_parts X None (ai_proposal ingress) (au_tenant (ai_caller ingress))
       (au_actor (ai_caller ingress)) (ai_authenticated_at ingress) (ai_expires_at ingress)
       (ai_authority_domain ingress) now evaluation_nonce policy active_authority
       attester_registry"

section \<open>Input limits\<close>

definition account_template :: "nat \<Rightarrow> DeploymentTemplate \<Rightarrow> nat option" where
  "account_template used t =
     (case account_texts used [dt_operation t, dt_environment t, dt_audience t, dt_repository t,
        dt_commit_sha t, dt_image_repository t, dt_cluster_identity t, dt_namespace t,
        dt_deployment t, dt_deployment_uid t, dt_container t, dt_resource_version t] of
        None \<Rightarrow> None
      | Some n \<Rightarrow> account_texts n (List.map_filter id [dt_prior_transaction_annotation t,
          dt_prior_authorization_annotation t, dt_prior_operation_hash_annotation t]))"

fun account_payload :: "nat \<Rightarrow> EvidencePayload \<Rightarrow> nat option" where
  "account_payload used (PReview repository commit_sha _ review_state_id) =
     account_texts used [repository, commit_sha, review_state_id]"
| "account_payload used (PBuild repository commit_sha workflow_ref run_id _ _ _ _) =
     account_texts used [repository, commit_sha, workflow_ref, run_id]"
| "account_payload used (PArtifact repository _ source_run_id _ _) =
     account_texts used [repository, source_run_id]"
| "account_payload used (PTarget cluster_identity namespace deployment deployment_uid
       resource_version _ _) =
     account_texts used [cluster_identity, namespace, deployment, deployment_uid, resource_version]"

fun account_scopes :: "nat \<Rightarrow> AttesterScope list \<Rightarrow> nat option" where
  "account_scopes used [] = Some used"
| "account_scopes used (s # ss) =
     (case account_scope used s of None \<Rightarrow> None | Some n \<Rightarrow> account_scopes n ss)"

text \<open>The loop over the evidence accounts the COSE bytes and the text of each item.\<close>

fun account_evidence :: "nat \<Rightarrow> nat \<Rightarrow> SignedEvidence list \<Rightarrow> nat option" where
  "account_evidence used cose [] = Some used"
| "account_evidence used cose (s # ss) =
     (case usize_checked_add cose (length (se_cose_sign1 s)) of
        None \<Rightarrow> None
      | Some cose' \<Rightarrow>
          if MAX_COSE_SIZE_BYTES < length (se_cose_sign1 s) \<or> MAX_AGGREGATE_COSE_BYTES < cose'
          then None
          else case account_texts used [ea_issuer (se_assertion s), ea_key_id (se_assertion s),
                 ea_source_uri (se_assertion s)] of
                 None \<Rightarrow> None
               | Some n \<Rightarrow> (case account_payload n (ea_payload (se_assertion s)) of
                   None \<Rightarrow> None
                 | Some m \<Rightarrow> account_evidence m cose' ss))"

fun account_attesters :: "nat \<Rightarrow> RegisteredAttester list \<Rightarrow> nat option" where
  "account_attesters used [] = Some used"
| "account_attesters used (e # es) =
     (case account_texts used (identity_fields e) of
        None \<Rightarrow> None
      | Some n \<Rightarrow> (case account_scopes n (ra_scopes e) of
          None \<Rightarrow> None
        | Some m \<Rightarrow> account_attesters m es))"

definition policy_lists :: "PolicyConfig \<Rightarrow> string list list" where
  "policy_lists p = [pc_allowed_actors p, pc_allowed_repositories p,
     pc_allowed_image_repositories p, pc_allowed_clusters p, pc_allowed_namespaces p]"

definition input_within_profile :: "AgentProposal \<Rightarrow> TrustedEvidenceSet \<Rightarrow> KernelContext \<Rightarrow> bool" where
  "input_within_profile proposal connector_evidence context =
     (let entries = aar_entries (kc_attester_registry context);
          policy = kc_policy context in
      if MAX_EVIDENCE_ITEMS < length (te_evidence connector_evidence)
         \<or> MAX_REGISTERED_ATTESTERS < length entries
         \<or> list_ex (\<lambda>values. MAX_POLICY_ENTRIES_PER_FIELD < length values) (policy_lists policy)
         \<or> list_ex (\<lambda>e. MAX_SCOPES_PER_ATTESTER < length (ra_scopes e)) entries
      then False
      else case account_texts 0 [ap_tenant proposal, ap_actor proposal] of
        None \<Rightarrow> False
      | Some n1 \<Rightarrow> (case account_template n1 (ap_template proposal) of
        None \<Rightarrow> False
      | Some n2 \<Rightarrow> (case account_texts n2 ([kl_tenant (kc_caller context),
          kl_actor (kc_caller context), pc_policy_id policy] @ concat (policy_lists policy)) of
        None \<Rightarrow> False
      | Some n3 \<Rightarrow> (case account_evidence n3 0 (te_evidence connector_evidence) of
        None \<Rightarrow> False
      | Some n4 \<Rightarrow> account_attesters n4 entries \<noteq> None))))"

section \<open>Evidence\<close>

record VerifiedAssertion =
  va_assertion :: EvidenceAssertion
  va_computed_grade :: u8
  va_principal_id :: string

fun scope_matches :: "AttesterScope \<Rightarrow> EvidencePayload \<Rightarrow> bool" where
  "scope_matches (SReview allowed) (PReview repository _ _ _) = (allowed = repository)"
| "scope_matches (SArtifact allowed) (PArtifact repository _ _ _ _) = (allowed = repository)"
| "scope_matches (SBuild allowed_repository allowed_workflow)
     (PBuild repository _ workflow_ref _ _ _ _ _) =
     (allowed_repository = repository \<and> allowed_workflow = workflow_ref)"
| "scope_matches (STarget allowed_cluster allowed_namespace allowed_uid)
     (PTarget cluster_identity namespace _ deployment_uid _ _ _) =
     (allowed_cluster = cluster_identity \<and> allowed_namespace = namespace
      \<and> allowed_uid = deployment_uid)"
| "scope_matches _ _ = False"

definition assertion_profile_error ::
    "EvidenceAssertion \<Rightarrow> TrustedEvidenceSet \<Rightarrow> AgentProposal \<Rightarrow> ReasonCode option" where
  "assertion_profile_error a evidence_set proposal =
     (if ea_schema_version a \<noteq> EVIDENCE_ASSERTION_SCHEMA_VERSION then Some EvidenceDefective
      else if ea_request_id a \<noteq> te_request_id evidence_set \<or> ea_request_id a \<noteq> ap_request_id proposal
      then Some EvidenceRequestMismatch
      else None)"

type_synonym attester_map = "(string \<times> string) \<Rightarrow> RegisteredAttester option"

definition invalid_entry :: "externals \<Rightarrow> RegisteredAttester \<Rightarrow> bool" where
  "invalid_entry X e \<longleftrightarrow> ra_tenant e = [] \<or> ra_environment e = [] \<or> ra_issuer e = []
     \<or> ra_key_id e = [] \<or> ra_principal_id e = [] \<or> ra_scopes e = []
     \<or> MAX_AUTHORITY_GRADE < ra_base_grade e
     \<or> \<not> is_Ok (from_public_key X (ra_key_id e) (ra_public_key e))"

text \<open>The first loop of \<open>verify_evidence\<close>; \<open>None\<close> where the code returns \<open>EvidenceDefective\<close>.\<close>

fun index_registry ::
    "externals \<Rightarrow> attester_map \<Rightarrow> digest32 set \<Rightarrow> RegisteredAttester list \<Rightarrow> attester_map option" where
  "index_registry X registry keys [] = Some registry"
| "index_registry X registry keys (e # es) =
     (if invalid_entry X e \<or> registry (entry_identity e) \<noteq> None \<or> ra_public_key e \<in> keys
      then None
      else index_registry X (registry(entry_identity e \<mapsto> e)) (insert (ra_public_key e) keys) es)"

text \<open>The checks of one item up to the last \<open>continue\<close>: the attester, or the reason pushed.\<close>

definition authenticate_item ::
    "externals \<Rightarrow> attester_map \<Rightarrow> TrustedEvidenceSet \<Rightarrow> AgentProposal \<Rightarrow> SignedEvidence
     \<Rightarrow> (RegisteredAttester, ReasonCode) result" where
  "authenticate_item X registry input proposal item =
     (let a = se_assertion item in
     and_then (ok_or (registry (ea_issuer a, ea_key_id a)) AttesterNotRegistered) (\<lambda>attester.
     and_then (ensure (\<not> (ra_tenant attester \<noteq> ap_tenant proposal
         \<or> ra_environment attester \<noteq> dt_environment (ap_template proposal)
         \<or> ra_status attester \<noteq> Active
         \<or> \<not> list_ex (\<lambda>scope. scope_matches scope (ea_payload a)) (ra_scopes attester)))
       AttesterScopeViolation) (\<lambda>_.
     and_then (map_err (\<lambda>_. EvidenceSignatureInvalid)
       (from_public_key X (ra_key_id attester) (ra_public_key attester))) (\<lambda>verifier.
     and_then (map_err (\<lambda>_. EvidenceSignatureInvalid)
       (verify_cose X (se_cose_sign1 item) (kind_domain (payload_kind (ea_payload a))) verifier))
       (\<lambda>payload.
     and_then (map_err (\<lambda>_. EvidenceSignatureInvalid)
       (canonical_bytes (x_cbor X) (VAssertion a))) (\<lambda>expected_payload.
     and_then (ensure (payload = expected_payload) EvidenceSignatureInvalid) (\<lambda>_.
     case assertion_profile_error a input proposal of
       Some reason \<Rightarrow> Err reason
     | None \<Rightarrow> Ok attester)))))))"

text \<open>The reasons an authenticated item adds; it is kept whatever they are.\<close>

definition currency_reasons :: "KernelContext \<Rightarrow> EvidenceAssertion \<Rightarrow> ReasonCode list" where
  "currency_reasons context a =
     (if kc_now context < ea_observed_at a then [EvidenceFromFuture] else [])
     @ (if ea_valid_until a \<le> ea_observed_at a then [InvalidValidityWindow] else [])
     @ (if ea_valid_until a \<le> kc_now context
           \<or> pc_maximum_evidence_age_seconds (kc_policy context)
               < i64_saturating_sub (kc_now context) (ea_observed_at a)
        then [EvidenceStale] else [])
     @ (if ea_authority a \<noteq> kc_active_authority context then [AuthorityEpochMismatch] else [])"

fun verify_loop ::
    "externals \<Rightarrow> attester_map \<Rightarrow> TrustedEvidenceSet \<Rightarrow> KernelContext \<Rightarrow> AgentProposal
     \<Rightarrow> uuid set \<Rightarrow> SignedEvidence list \<Rightarrow> VerifiedAssertion list \<times> ReasonCode list" where
  "verify_loop X registry input context proposal seen [] = ([], [])"
| "verify_loop X registry input context proposal seen (s # ss) =
     (let a = se_assertion s;
          (assertions, reasons) =
            verify_loop X registry input context proposal (insert (ea_evidence_id a) seen) ss in
      if ea_evidence_id a \<in> seen then (assertions, EvidenceDefective # reasons)
      else case authenticate_item X registry input proposal s of
             Err reason \<Rightarrow> (assertions, reason # reasons)
           | Ok attester \<Rightarrow>
               (\<lparr>va_assertion = a, va_computed_grade = ra_base_grade attester,
                 va_principal_id = ra_principal_id attester\<rparr> # assertions,
                currency_reasons context a @ reasons))"

definition verify_evidence ::
    "externals \<Rightarrow> TrustedEvidenceSet \<Rightarrow> KernelContext \<Rightarrow> AgentProposal
     \<Rightarrow> VerifiedAssertion list \<times> ReasonCode list" where
  "verify_evidence X input context proposal =
     (case index_registry X Map.empty {} (aar_entries (kc_attester_registry context)) of
        None \<Rightarrow> ([], [EvidenceDefective])
      | Some registry \<Rightarrow>
          verify_loop X registry input context proposal {} (te_evidence input))"


section \<open>Lineage rules\<close>

definition of_kind :: "EvidenceKind \<Rightarrow> VerifiedAssertion list \<Rightarrow> VerifiedAssertion list" where
  "of_kind k evidence = filter (\<lambda>v. payload_kind (ea_payload (va_assertion v)) = k) evidence"

text \<open>Each loop of \<open>evaluate_behavior\<close> handles the payloads of one kind; other payloads never reach
  it, because the loop runs over the filtered evidence.\<close>

fun review_matches :: "DeploymentTemplate \<Rightarrow> EvidencePayload \<Rightarrow> bool" where
  "review_matches t (PReview repository commit_sha _ _) =
     (repository = dt_repository t \<and> commit_sha = dt_commit_sha t)"
| "review_matches t _ = False"

fun review_step :: "DeploymentTemplate \<Rightarrow> PolicyConfig \<Rightarrow> u8 \<Rightarrow> EvidencePayload \<Rightarrow> ReasonCode list" where
  "review_step t policy grade (PReview repository commit_sha approved _) =
     (if repository \<noteq> dt_repository t \<or> commit_sha \<noteq> dt_commit_sha t then [ReviewCommitMismatch]
      else (if \<not> approved then [ReviewNotApproved] else [])
        @ (if grade < pc_minimum_review_grade policy then [ReviewGradeInsufficient] else []))"
| "review_step t policy grade _ = []"

fun build_step :: "DeploymentTemplate \<Rightarrow> PolicyConfig \<Rightarrow> u8 \<Rightarrow> EvidencePayload \<Rightarrow> ReasonCode list" where
  "build_step t policy grade (PBuild repository commit_sha _ _ succeeded _ completeness_profile _) =
     (if repository \<noteq> dt_repository t \<or> commit_sha \<noteq> dt_commit_sha t then [BuildCommitMismatch]
      else (if \<not> succeeded then [BuildFailed] else [])
        @ (if grade < pc_minimum_build_grade policy then [BuildGradeInsufficient] else [])
        @ (if completeness_profile \<noteq> HermeticInputsV1 then [EvidenceDefective] else []))"
| "build_step t policy grade _ = []"

fun build_output :: "DeploymentTemplate \<Rightarrow> EvidencePayload \<Rightarrow> (string \<times> digest32) list" where
  "build_output t (PBuild repository commit_sha _ run_id _ _ _ output_digest) =
     (if repository \<noteq> dt_repository t \<or> commit_sha \<noteq> dt_commit_sha t then []
      else [(run_id, output_digest)])"
| "build_output t _ = []"

fun artifact_matches :: "DeploymentTemplate \<Rightarrow> EvidencePayload \<Rightarrow> bool" where
  "artifact_matches t (PArtifact repository digest _ _ _) =
     (repository = dt_image_repository t \<and> digest = dt_image_digest t)"
| "artifact_matches t _ = False"

fun artifact_step ::
    "DeploymentTemplate \<Rightarrow> (string \<times> digest32) list \<Rightarrow> EvidencePayload \<Rightarrow> ReasonCode list" where
  "artifact_step t matching_builds (PArtifact repository digest source_run_id signature_valid
       quarantined) =
     (if repository \<noteq> dt_image_repository t \<or> digest \<noteq> dt_image_digest t then []
      else (if \<not> signature_valid then [ArtifactSignatureInvalid] else [])
        @ (if quarantined then [ArtifactQuarantined] else [])
        @ (if \<not> list_ex (\<lambda>(run_id, output). run_id = source_run_id \<and> output = digest) matching_builds
           then [TransformOutputMismatch] else []))"
| "artifact_step t matching_builds _ = []"

fun target_matches :: "DeploymentTemplate \<Rightarrow> EvidencePayload \<Rightarrow> bool" where
  "target_matches t (PTarget cluster_identity namespace deployment deployment_uid _ _ _) =
     (cluster_identity = dt_cluster_identity t \<and> namespace = dt_namespace t
      \<and> deployment = dt_deployment t \<and> deployment_uid = dt_deployment_uid t)"
| "target_matches t _ = False"

fun target_step :: "DeploymentTemplate \<Rightarrow> EvidencePayload \<Rightarrow> ReasonCode list" where
  "target_step t (PTarget cluster_identity namespace deployment deployment_uid resource_version
       current_image projection_hash) =
     (if cluster_identity \<noteq> dt_cluster_identity t \<or> namespace \<noteq> dt_namespace t
         \<or> deployment \<noteq> dt_deployment t \<or> deployment_uid \<noteq> dt_deployment_uid t
      then [TargetIdentityMismatch]
      else if resource_version \<noteq> dt_resource_version t
         \<or> current_image \<noteq> dt_prior_image_digest t
         \<or> projection_hash \<noteq> dt_prior_projection_hash t
      then [TargetStateMismatch] else [])"
| "target_step t _ = []"

abbreviation va_payload :: "VerifiedAssertion \<Rightarrow> EvidencePayload" where
  "va_payload v \<equiv> ea_payload (va_assertion v)"

definition evaluate_behavior ::
    "DeploymentTemplate \<Rightarrow> PolicyConfig \<Rightarrow> VerifiedAssertion list \<Rightarrow> ReasonCode list" where
  "evaluate_behavior t policy evidence =
     (let reviews = of_kind KReview evidence;
          builds = of_kind KBuild evidence;
          artifacts = of_kind KArtifact evidence;
          targets = of_kind KTarget evidence;
          matching_review = list_ex (\<lambda>v. review_matches t (va_payload v)) reviews;
          matching_builds = concat (map (\<lambda>v. build_output t (va_payload v)) builds);
          matching_artifact = list_ex (\<lambda>v. artifact_matches t (va_payload v)) artifacts;
          matching_target = list_ex (\<lambda>v. target_matches t (va_payload v)) targets
      in (if reviews = [] then [MissingReview] else [])
       @ concat (map (\<lambda>v. review_step t policy (va_computed_grade v) (va_payload v)) reviews)
       @ (if \<not> matching_review \<and> evidence \<noteq> [] then [MissingReview] else [])
       @ (if builds = [] then [MissingBuild] else [])
       @ concat (map (\<lambda>v. build_step t policy (va_computed_grade v) (va_payload v)) builds)
       @ (if artifacts = [] then [MissingArtifact] else [])
       @ concat (map (\<lambda>v. artifact_step t matching_builds (va_payload v)) artifacts)
       @ (if \<not> matching_artifact then [TransformOutputMismatch] else [])
       @ (if targets = [] then [MissingTargetSnapshot] else [])
       @ concat (map (\<lambda>v. target_step t (va_payload v)) targets)
       @ (if \<not> matching_target \<and> evidence \<noteq> [] then [MissingTargetSnapshot] else []))"

section \<open>Evaluation\<close>

definition ascii_hexdigit :: "char \<Rightarrow> bool" where
  "ascii_hexdigit c \<longleftrightarrow> ascii_digit c \<or> CHR ''a'' \<le> c \<and> c \<le> CHR ''f'' \<or> CHR ''A'' \<le> c \<and> c \<le> CHR ''F''"

definition is_commit_sha :: "string \<Rightarrow> bool" where
  "is_commit_sha value \<longleftrightarrow> length value = 40 \<and> list_all ascii_hexdigit value"

definition DEPLOY_EKS_IMAGE_V1 :: string where
  "DEPLOY_EKS_IMAGE_V1 = ''DEPLOY_EKS_IMAGE_V1''"

text \<open>The reasons pushed before the policy root is computed.\<close>

definition request_reasons ::
    "AgentProposal \<Rightarrow> TrustedEvidenceSet \<Rightarrow> KernelContext \<Rightarrow> ReasonCode list" where
  "request_reasons proposal connector_evidence context =
     (let t = ap_template proposal; policy = kc_policy context in
       (if ap_schema_version proposal \<noteq> 1 \<or> dt_operation t \<noteq> DEPLOY_EKS_IMAGE_V1
        then [UnknownAction] else [])
     @ (if te_request_id connector_evidence \<noteq> ap_request_id proposal
        then [EvidenceRequestMismatch] else [])
     @ (if proposal \<noteq> kc_proposal context then [CallerSecurityFactRejected] else [])
     @ (if \<not> is_commit_sha (dt_commit_sha t) then [MalformedCommit] else [])
     @ (if kl_actor (kc_caller context) \<notin> set (pc_allowed_actors policy)
        then [ActorNotAllowed] else [])
     @ (if dt_repository t \<notin> set (pc_allowed_repositories policy)
        then [RepositoryNotAllowed] else [])
     @ (if dt_image_repository t \<notin> set (pc_allowed_image_repositories policy)
        then [ImageRepositoryNotAllowed] else [])
     @ (if dt_cluster_identity t \<notin> set (pc_allowed_clusters policy)
           \<or> dt_namespace t \<notin> set (pc_allowed_namespaces policy)
        then [TargetNotAllowed] else []))"

text \<open>\<open>iter().min().unwrap_or(now)\<close>\<close>

fun min_or :: "i64 \<Rightarrow> i64 list \<Rightarrow> i64" where
  "min_or now [] = now"
| "min_or now (x # xs) = fold min xs x"

definition evaluate_inner ::
    "externals \<Rightarrow> AgentProposal \<Rightarrow> TrustedEvidenceSet \<Rightarrow> KernelContext
     \<Rightarrow> (EvaluationAttestation, KernelError) result" where
  "evaluate_inner X proposal connector_evidence context =
     and_then (ensure (input_within_profile proposal connector_evidence context)
       InputLimitExceeded) (\<lambda>_.
     and_then (kernel_hash X (VPolicy (kc_policy context))) (\<lambda>computed_policy_root.
     let policy_reasons =
           (if computed_policy_root \<noteq> ads_root (av_policy (kc_active_authority context))
            then [PolicyRootMismatch] else []);
         (assertions, evidence_reasons) = verify_evidence X connector_evidence context proposal;
         collected = sort_dedup (request_reasons proposal connector_evidence context
           @ policy_reasons @ evidence_reasons
           @ evaluate_behavior (ap_template proposal) (kc_policy context) assertions);
         allow = (collected = []);
         reasons = (if allow then [Allowed] else collected);
         root = evidence_root (x_cbor X) (x_sha256 X) (map va_assertion assertions);
         principals = sort_dedup (map va_principal_id assertions)
     in and_then (kernel_hash X (VTemplate (ap_template proposal))) (\<lambda>template_hash.
        let consume_before = min_or (kc_now context)
              (map (\<lambda>v. ea_valid_until (va_assertion v)) assertions
               @ [i64_saturating_add (kc_now context)
                    (pc_maximum_authorization_lifetime_seconds (kc_policy context))]
               @ [kc_ingress_expires_at context])
        in Ok \<lparr>at_schema_version = EVALUATION_ATTESTATION_SCHEMA_VERSION,
               at_request_id = ap_request_id proposal,
               at_evaluation_nonce = kc_evaluation_nonce context,
               at_tenant = kl_tenant (kc_caller context),
               at_actor = kl_actor (kc_caller context),
               at_evaluated_at = kc_now context,
               at_outcome = (if allow then Allow else Deny),
               at_reasons = reasons,
               at_template_hash = template_hash,
               at_evidence_root = root,
               at_principals = principals,
               at_policy_root = computed_policy_root,
               at_authority = kc_active_authority context,
               at_consume_before = consume_before\<rparr>)))"

definition evaluate ::
    "externals \<Rightarrow> AgentProposal \<Rightarrow> TrustedEvidenceSet \<Rightarrow> KernelContext
     \<Rightarrow> (EvaluationAttestation, KernelError) result" where
  "evaluate X proposal connector_evidence context =
     and_then (ensure (kc_control_work context = None)
       DurableContextRequiresConsumingEvaluation) (\<lambda>_.
     evaluate_inner X proposal connector_evidence context)"

definition sign_evaluation ::
    "externals \<Rightarrow> EvaluationAttestation \<Rightarrow> SigningIdentity
     \<Rightarrow> (SignedEvaluation, KernelError) result" where
  "sign_evaluation X attestation evaluator =
     and_then (map_err Canonical (canonical_bytes (x_cbor X) (VAttestation attestation))) (\<lambda>payload.
     and_then (map_err EvaluationSignature (sign_cose X payload EVALUATION_DOMAIN evaluator))
       (\<lambda>cose_sign1. Ok \<lparr>sv_attestation = attestation, sv_cose_sign1 = cose_sign1\<rparr>))"

definition control_work_required :: KernelError where
  "control_work_required = InvalidContext ''durable evaluation requires a control-work capability''"

definition evaluate_control ::
    "externals \<Rightarrow> KernelContext \<Rightarrow> TrustedEvidenceSet \<Rightarrow> SigningIdentity
     \<Rightarrow> (ControlEvaluationWork \<times> SignedEvaluation, KernelError) result" where
  "evaluate_control X context connector_evidence evaluator =
     and_then (ensure (kc_control_work context \<noteq> None) control_work_required) (\<lambda>_.
     and_then (map_err EvaluationSignature
       (evaluator_verifier_root X (si_key_id evaluator) (public_key_bytes X evaluator)))
       (\<lambda>evaluator_root.
     and_then (ensure (evaluator_root
         = ads_root (av_kernel_configuration (kc_active_authority context)))
       EvaluatorAuthorityMismatch) (\<lambda>_.
     and_then (evaluate_inner X (kc_proposal context) connector_evidence context) (\<lambda>evaluation.
     and_then (sign_evaluation X evaluation evaluator) (\<lambda>signed_evaluation.
     and_then (ok_or (kc_control_work context) control_work_required) (\<lambda>work.
     Ok (work, signed_evaluation)))))))"

section \<open>Baseline policy\<close>

record BaselineFacts =
  bf_review_approved :: bool
  bf_build_succeeded :: bool
  bf_artifact_signature_valid :: bool
  bf_artifact_quarantined :: bool
  bf_target_current :: bool

record BaselineDecision =
  bd_allow :: bool
  bd_reasons :: "string list"

definition evaluate_plain_policy ::
    "AgentProposal \<Rightarrow> PolicyConfig \<Rightarrow> BaselineFacts \<Rightarrow> BaselineDecision" where
  "evaluate_plain_policy proposal policy facts =
     (let t = ap_template proposal;
          reasons =
            (if dt_operation t \<noteq> DEPLOY_EKS_IMAGE_V1 then [''UNKNOWN_ACTION''] else [])
          @ (if ap_actor proposal \<notin> set (pc_allowed_actors policy) then [''ACTOR_NOT_ALLOWED''] else [])
          @ (if dt_repository t \<notin> set (pc_allowed_repositories policy)
             then [''REPOSITORY_NOT_ALLOWED''] else [])
          @ (if dt_image_repository t \<notin> set (pc_allowed_image_repositories policy)
             then [''IMAGE_REPOSITORY_NOT_ALLOWED''] else [])
          @ (if dt_cluster_identity t \<notin> set (pc_allowed_clusters policy)
                \<or> dt_namespace t \<notin> set (pc_allowed_namespaces policy)
             then [''TARGET_NOT_ALLOWED''] else [])
          @ (if \<not> bf_review_approved facts then [''REVIEW_NOT_APPROVED''] else [])
          @ (if \<not> bf_build_succeeded facts then [''BUILD_FAILED''] else [])
          @ (if \<not> bf_artifact_signature_valid facts then [''ARTIFACT_SIGNATURE_INVALID''] else [])
          @ (if bf_artifact_quarantined facts then [''ARTIFACT_QUARANTINED''] else [])
          @ (if \<not> bf_target_current facts then [''TARGET_NOT_CURRENT''] else [])
      in \<lparr>bd_allow = (reasons = []), bd_reasons = reasons\<rparr>)"

end
