(* ===== verification/Kernel_Decision.thy ===== *)
theory Kernel_Decision
  imports Kernel_Evaluation
begin

text \<open>
  What the evaluation kernel decides. \<open>allow_spec\<close> states, without loops or reason lists,
  when a proposal is allowed: an authorised request, evidence that is authentic, current
  and complete, and an unbroken lineage from the reviewed commit through a hermetic build
  to the deployed image and the observed target. The lemmas lead to the equivalence of the
  kernel's outcome with that specification, and bound what an attestation carries.
\<close>

section \<open>Specification\<close>

definition request_ok :: "AgentProposal \<Rightarrow> TrustedEvidenceSet \<Rightarrow> KernelContext \<Rightarrow> bool" where
  "request_ok proposal input context \<longleftrightarrow>
     (let t = ap_template proposal; policy = kc_policy context in
      proposal = kc_proposal context \<and> ap_schema_version proposal = 1
      \<and> dt_operation t = DEPLOY_EKS_IMAGE_V1 \<and> te_request_id input = ap_request_id proposal
      \<and> is_commit_sha (dt_commit_sha t)
      \<and> kl_actor (kc_caller context) \<in> set (pc_allowed_actors policy)
      \<and> dt_repository t \<in> set (pc_allowed_repositories policy)
      \<and> dt_image_repository t \<in> set (pc_allowed_image_repositories policy)
      \<and> dt_cluster_identity t \<in> set (pc_allowed_clusters policy)
      \<and> dt_namespace t \<in> set (pc_allowed_namespaces policy))"

definition attested_by ::
    "externals \<Rightarrow> RegisteredAttester list \<Rightarrow> TrustedEvidenceSet \<Rightarrow> AgentProposal \<Rightarrow> SignedEvidence
     \<Rightarrow> RegisteredAttester \<Rightarrow> bool" where
  "attested_by X entries input proposal s e \<longleftrightarrow>
     (let a = se_assertion s in
      e \<in> set entries \<and> entry_identity e = (ea_issuer a, ea_key_id a)
      \<and> ra_tenant e = ap_tenant proposal \<and> ra_environment e = dt_environment (ap_template proposal)
      \<and> ra_status e = Active \<and> (\<exists>scope \<in> set (ra_scopes e). scope_matches scope (ea_payload a))
      \<and> (\<exists>b. verify_cose X (se_cose_sign1 s) (kind_domain (payload_kind (ea_payload a)))
             \<lparr>cv_key_id = ra_key_id e, cv_key = ra_public_key e\<rparr> = Ok b
           \<and> canonical_bytes (x_cbor X) (VAssertion a) = Ok b)
      \<and> ea_schema_version a = EVIDENCE_ASSERTION_SCHEMA_VERSION
      \<and> ea_request_id a = te_request_id input \<and> ea_request_id a = ap_request_id proposal)"

definition current_item :: "KernelContext \<Rightarrow> EvidenceAssertion \<Rightarrow> bool" where
  "current_item context a \<longleftrightarrow>
     ea_observed_at a \<le> kc_now context \<and> ea_observed_at a < ea_valid_until a
     \<and> kc_now context < ea_valid_until a
     \<and> i64_saturating_sub (kc_now context) (ea_observed_at a)
         \<le> pc_maximum_evidence_age_seconds (kc_policy context)
     \<and> ea_authority a = kc_active_authority context"

text \<open>The lineage, over the payloads and the grades of their attesters.\<close>

definition lineage :: "DeploymentTemplate \<Rightarrow> PolicyConfig \<Rightarrow> (EvidencePayload \<times> u8) set \<Rightarrow> bool" where
  "lineage t policy V \<longleftrightarrow>
     (\<exists>(p, g) \<in> V. payload_kind p = KReview)
     \<and> (\<forall>r c ok i g. (PReview r c ok i, g) \<in> V \<longrightarrow>
          r = dt_repository t \<and> c = dt_commit_sha t \<and> ok \<and> pc_minimum_review_grade policy \<le> g)
     \<and> (\<exists>(p, g) \<in> V. payload_kind p = KBuild)
     \<and> (\<forall>r c w i ok m prof d g. (PBuild r c w i ok m prof d, g) \<in> V \<longrightarrow>
          r = dt_repository t \<and> c = dt_commit_sha t \<and> ok \<and> pc_minimum_build_grade policy \<le> g
          \<and> prof = HermeticInputsV1)
     \<and> (\<exists>run ok q g. (PArtifact (dt_image_repository t) (dt_image_digest t) run ok q, g) \<in> V)
     \<and> (\<forall>run ok q g. (PArtifact (dt_image_repository t) (dt_image_digest t) run ok q, g) \<in> V \<longrightarrow>
          ok \<and> \<not> q \<and> (\<exists>r c w b m prof g'. (PBuild r c w run b m prof (dt_image_digest t), g') \<in> V))
     \<and> (\<exists>(p, g) \<in> V. payload_kind p = KTarget)
     \<and> (\<forall>c n d u v i h g. (PTarget c n d u v i h, g) \<in> V \<longrightarrow>
          c = dt_cluster_identity t \<and> n = dt_namespace t \<and> d = dt_deployment t
          \<and> u = dt_deployment_uid t \<and> v = dt_resource_version t
          \<and> i = dt_prior_image_digest t \<and> h = dt_prior_projection_hash t)"

definition graded_payloads ::
    "externals \<Rightarrow> RegisteredAttester list \<Rightarrow> TrustedEvidenceSet \<Rightarrow> AgentProposal
     \<Rightarrow> (EvidencePayload \<times> u8) set" where
  "graded_payloads X entries input proposal =
     {(ea_payload (se_assertion s), ra_base_grade e) | s e.
        s \<in> set (te_evidence input) \<and> attested_by X entries input proposal s e}"

definition allow_spec ::
    "externals \<Rightarrow> AgentProposal \<Rightarrow> TrustedEvidenceSet \<Rightarrow> KernelContext \<Rightarrow> bool" where
  "allow_spec X proposal input context \<longleftrightarrow>
     (let entries = aar_entries (kc_attester_registry context) in
      request_ok proposal input context
      \<and> canonical_hash (x_cbor X) (x_sha256 X) (VPolicy (kc_policy context))
          = Ok (ads_root (av_policy (kc_active_authority context)))
      \<and> distinct (map (\<lambda>s. ea_evidence_id (se_assertion s)) (te_evidence input))
      \<and> (\<forall>s \<in> set (te_evidence input). current_item context (se_assertion s)
           \<and> (\<exists>e. attested_by X entries input proposal s e))
      \<and> lineage (ap_template proposal) (kc_policy context)
          (graded_payloads X entries input proposal))"

section \<open>The registry index\<close>

lemma valid_security_text_nonempty: "valid_security_text v \<Longrightarrow> v \<noteq> []"
  by (simp add: valid_security_text_def valid_text_def)

lemma entry_valid_not_invalid: "entry_valid X e \<Longrightarrow> \<not> invalid_entry X e"
  by (auto simp: entry_valid_def invalid_entry_def identity_fields_def
      dest: valid_security_text_nonempty)

lemma index_registry_total:
  assumes "list_all (entry_valid X) es" "distinct (map entry_identity es)"
    and "distinct (map ra_public_key es)" "keys \<inter> ra_public_key ` set es = {}"
    and "dom m \<inter> entry_identity ` set es = {}"
  shows "\<exists>r. index_registry X m keys es = Some r
    \<and> (\<forall>k e. r k = Some e \<longleftrightarrow> m k = Some e \<or> e \<in> set es \<and> entry_identity e = k)"
  using assms
proof (induction es arbitrary: m keys)
  case Nil
  then show ?case by simp
next
  case (Cons e es)
  let ?m = "m(entry_identity e \<mapsto> e)"
  have fresh: "m (entry_identity e) = None" using Cons.prems(5) by auto
  have "\<exists>r. index_registry X ?m (insert (ra_public_key e) keys) es = Some r
    \<and> (\<forall>k f. r k = Some f \<longleftrightarrow> ?m k = Some f \<or> f \<in> set es \<and> entry_identity f = k)"
  proof (rule Cons.IH)
    show "dom ?m \<inter> entry_identity ` set es = {}" using Cons.prems(2,5) by simp
    show "insert (ra_public_key e) keys \<inter> ra_public_key ` set es = {}"
      using Cons.prems(3,4) by simp
  qed (use Cons.prems in simp_all)
  then obtain r where r: "index_registry X ?m (insert (ra_public_key e) keys) es = Some r"
    "\<And>k f. r k = Some f \<longleftrightarrow> ?m k = Some f \<or> f \<in> set es \<and> entry_identity f = k"
    by blast
  have "index_registry X m keys (e # es) = Some r"
    using Cons.prems r(1) fresh by (auto simp: entry_valid_not_invalid)
  moreover have "r k = Some f \<longleftrightarrow> m k = Some f \<or> f \<in> set (e # es) \<and> entry_identity f = k" for k f
    using r(2) [of k f] Cons.prems(2) fresh by (auto split: if_splits)
  ultimately show ?case by blast
qed

text \<open>An activated registry is indexed completely: the early \<open>EvidenceDefective\<close> return of
  \<open>verify_evidence\<close> is dead code for it.\<close>

lemma index_registry_wf:
  assumes "registry_wf X es"
  obtains r where "index_registry X Map.empty {} es = Some r"
    "\<And>k e. r k = Some e \<longleftrightarrow> e \<in> set es \<and> entry_identity e = k"
proof -
  have "distinct (map entry_identity es)" using assms by (simp add: registry_wf_def strict_sorted_iff)
  with assms have "\<exists>r. index_registry X Map.empty {} es = Some r
    \<and> (\<forall>k e. r k = Some e \<longleftrightarrow> (Map.empty :: attester_map) k = Some e \<or> e \<in> set es \<and> entry_identity e = k)"
    by (intro index_registry_total) (auto simp: registry_wf_def)
  with that show ?thesis by auto
qed

section \<open>Authentication of one item\<close>

lemma authenticate_item_Ok:
  assumes wf: "registry_wf X es"
    and r: "\<And>k e. r k = Some e \<longleftrightarrow> e \<in> set es \<and> entry_identity e = k"
  shows "authenticate_item X r input proposal s = Ok e \<longleftrightarrow> attested_by X es input proposal s e"
proof -
  have key: "valid_text MAX_KEY_ID_BYTES (ra_key_id f) \<and> x_vk_decodes X (ra_public_key f)
      \<and> \<not> x_vk_is_weak X (ra_public_key f)" if "f \<in> set es" for f
    using wf that by (cases "from_public_key X (ra_key_id f) (ra_public_key f)")
      (auto simp: registry_wf_def list_all_iff entry_valid_def from_public_key_Ok)
  show ?thesis
    by (auto simp: authenticate_item_def attested_by_def Let_def result_simps r list_ex_iff
        assertion_profile_error_def dest: key split: option.splits if_splits)
qed

lemma currency_reasons_Nil: "currency_reasons context a = [] \<longleftrightarrow> current_item context a"
  by (auto simp: currency_reasons_def current_item_def)

lemma verify_loop_Nil:
  "snd (verify_loop X r input context proposal seen ss) = [] \<longleftrightarrow>
     distinct (map (\<lambda>s. ea_evidence_id (se_assertion s)) ss)
     \<and> (\<forall>s \<in> set ss. ea_evidence_id (se_assertion s) \<notin> seen
          \<and> current_item context (se_assertion s)
          \<and> (\<exists>e. authenticate_item X r input proposal s = Ok e))"
proof (induction ss arbitrary: seen)
  case (Cons s ss)
  obtain as rs where l: "verify_loop X r input context proposal
      (insert (ea_evidence_id (se_assertion s)) seen) ss = (as, rs)"
    by (cases "verify_loop X r input context proposal
      (insert (ea_evidence_id (se_assertion s)) seen) ss")
  then have "rs = [] \<longleftrightarrow> snd (verify_loop X r input context proposal
      (insert (ea_evidence_id (se_assertion s)) seen) ss) = []" by simp
  then show ?case
    unfolding Cons.IH
    by (cases "authenticate_item X r input proposal s")
      (auto simp: l Let_def currency_reasons_Nil image_iff)
qed simp

lemma verify_loop_assertions:
  assumes "snd (verify_loop X r input context proposal seen ss) = []"
  shows "(\<lambda>v. (va_payload v, va_computed_grade v))
           ` set (fst (verify_loop X r input context proposal seen ss))
       = {(ea_payload (se_assertion s), ra_base_grade e) | s e.
            s \<in> set ss \<and> authenticate_item X r input proposal s = Ok e}"
  using assms
proof (induction ss arbitrary: seen)
  case (Cons s ss)
  let ?seen = "insert (ea_evidence_id (se_assertion s)) seen"
  obtain as rs where l: "verify_loop X r input context proposal ?seen ss = (as, rs)"
    by (cases "verify_loop X r input context proposal ?seen ss")
  obtain e where e: "authenticate_item X r input proposal s = Ok e"
    and fresh: "ea_evidence_id (se_assertion s) \<notin> seen" and rs: "rs = []"
    using Cons.prems by (auto simp: l Let_def split: if_splits result.splits)
  have "(\<lambda>v. (va_payload v, va_computed_grade v)) ` set as
      = {(ea_payload (se_assertion s), ra_base_grade e) | s e.
          s \<in> set ss \<and> authenticate_item X r input proposal s = Ok e}"
    using Cons.IH [of ?seen] l rs by simp
  then show ?case using e fresh by (auto simp: l Let_def)
qed simp


section \<open>Lineage\<close>

lemma review_step_Nil: "review_step t policy g p = [] \<longleftrightarrow>
   (\<forall>r c ok i. p = PReview r c ok i \<longrightarrow>
      r = dt_repository t \<and> c = dt_commit_sha t \<and> ok \<and> pc_minimum_review_grade policy \<le> g)"
  by (cases p) (auto simp: not_less)

lemma build_step_Nil: "build_step t policy g p = [] \<longleftrightarrow>
   (\<forall>r c w i ok m prof d. p = PBuild r c w i ok m prof d \<longrightarrow>
      r = dt_repository t \<and> c = dt_commit_sha t \<and> ok \<and> pc_minimum_build_grade policy \<le> g
      \<and> prof = HermeticInputsV1)"
  by (cases p) (auto simp: not_less)

lemma artifact_step_Nil: "artifact_step t builds p = [] \<longleftrightarrow>
   (\<forall>run ok q. p = PArtifact (dt_image_repository t) (dt_image_digest t) run ok q \<longrightarrow>
      ok \<and> \<not> q \<and> (run, dt_image_digest t) \<in> set builds)"
  by (cases p) (auto simp: list_ex_iff)

lemma target_step_Nil: "target_step t p = [] \<longleftrightarrow>
   (\<forall>c n d u v i h. p = PTarget c n d u v i h \<longrightarrow>
      c = dt_cluster_identity t \<and> n = dt_namespace t \<and> d = dt_deployment t
      \<and> u = dt_deployment_uid t \<and> v = dt_resource_version t
      \<and> i = dt_prior_image_digest t \<and> h = dt_prior_projection_hash t)"
  by (cases p) auto

lemma build_output_set: "(run, d) \<in> set (build_output t p) \<longleftrightarrow>
   (\<exists>w b m prof. p = PBuild (dt_repository t) (dt_commit_sha t) w run b m prof d)"
  by (cases p) auto

lemma artifact_matches_iff: "artifact_matches t p \<longleftrightarrow>
   (\<exists>run ok q. p = PArtifact (dt_image_repository t) (dt_image_digest t) run ok q)"
  by (cases p) auto

lemma artifact_matches_kind: "artifact_matches t p \<Longrightarrow> payload_kind p = KArtifact"
  by (cases p) simp_all

lemma matches_of_steps:
  "payload_kind p = KReview \<Longrightarrow> review_step t policy g p = [] \<Longrightarrow> review_matches t p"
  "payload_kind p = KTarget \<Longrightarrow> target_step t p = [] \<Longrightarrow> target_matches t p"
  by (cases p; auto split: if_splits)+

lemma steps_other_kind:
  "payload_kind p \<noteq> KReview \<Longrightarrow> review_step t policy g p = []"
  "payload_kind p \<noteq> KBuild \<Longrightarrow> build_step t policy g p = []"
  "payload_kind p \<noteq> KBuild \<Longrightarrow> build_output t p = []"
  "payload_kind p \<noteq> KArtifact \<Longrightarrow> artifact_step t builds p = []"
  "payload_kind p \<noteq> KTarget \<Longrightarrow> target_step t p = []"
  by (cases p; simp)+

lemma of_kind_simps:
  "of_kind k V = [] \<longleftrightarrow> (\<forall>v \<in> set V. payload_kind (va_payload v) \<noteq> k)"
  "v \<in> set (of_kind k V) \<longleftrightarrow> v \<in> set V \<and> payload_kind (va_payload v) = k"
  by (auto simp: of_kind_def filter_empty_conv)

definition matching_builds :: "DeploymentTemplate \<Rightarrow> VerifiedAssertion list \<Rightarrow> (string \<times> digest32) list" where
  "matching_builds t V = concat (map (\<lambda>v. build_output t (va_payload v)) (of_kind KBuild V))"

lemma evaluate_behavior_Nil:
  "evaluate_behavior t policy V = [] \<longleftrightarrow>
     (\<exists>v \<in> set V. payload_kind (va_payload v) = KReview)
     \<and> (\<forall>v \<in> set V. review_step t policy (va_computed_grade v) (va_payload v) = [])
     \<and> (\<exists>v \<in> set V. payload_kind (va_payload v) = KBuild)
     \<and> (\<forall>v \<in> set V. build_step t policy (va_computed_grade v) (va_payload v) = [])
     \<and> (\<exists>v \<in> set V. artifact_matches t (va_payload v))
     \<and> (\<forall>v \<in> set V. artifact_step t (matching_builds t V) (va_payload v) = [])
     \<and> (\<exists>v \<in> set V. payload_kind (va_payload v) = KTarget)
     \<and> (\<forall>v \<in> set V. target_step t (va_payload v) = [])" (is "?L = ?R")
proof -
  have art: "(\<exists>v \<in> set V. payload_kind (va_payload v) = KArtifact \<and> artifact_matches t (va_payload v))
      \<longleftrightarrow> (\<exists>v \<in> set V. artifact_matches t (va_payload v))"
    by (blast dest: artifact_matches_kind)
  have nil: "(if b then [x] else []) = [] \<longleftrightarrow> \<not> b" for b :: bool and x :: ReasonCode by simp
  have steps: "(\<forall>v \<in> set (of_kind k V). f v = []) \<longleftrightarrow> (\<forall>v \<in> set V. f v = [])"
    if "\<And>v. payload_kind (va_payload v) \<noteq> k \<Longrightarrow> f v = []"
    for k and f :: "VerifiedAssertion \<Rightarrow> ReasonCode list"
    using that by (auto simp: of_kind_simps)
  have ex: "list_ex P (of_kind k V) \<longleftrightarrow> (\<exists>v \<in> set V. payload_kind (va_payload v) = k \<and> P v)" for P k
    by (auto simp: list_ex_iff of_kind_simps)
  have "?L \<longleftrightarrow>
     of_kind KReview V \<noteq> []
     \<and> (\<forall>v \<in> set V. review_step t policy (va_computed_grade v) (va_payload v) = [])
     \<and> (list_ex (\<lambda>v. review_matches t (va_payload v)) (of_kind KReview V) \<or> V = [])
     \<and> of_kind KBuild V \<noteq> []
     \<and> (\<forall>v \<in> set V. build_step t policy (va_computed_grade v) (va_payload v) = [])
     \<and> of_kind KArtifact V \<noteq> []
     \<and> (\<forall>v \<in> set V. artifact_step t (matching_builds t V) (va_payload v) = [])
     \<and> list_ex (\<lambda>v. artifact_matches t (va_payload v)) (of_kind KArtifact V)
     \<and> of_kind KTarget V \<noteq> []
     \<and> (\<forall>v \<in> set V. target_step t (va_payload v) = [])
     \<and> (list_ex (\<lambda>v. target_matches t (va_payload v)) (of_kind KTarget V) \<or> V = [])"
    unfolding evaluate_behavior_def Let_def append_is_Nil_conv nil concat_eq_Nil_conv
      matching_builds_def [symmetric] set_map ball_simps
    by (simp add: steps [where k = KReview, symmetric] steps [where k = KBuild, symmetric]
        steps [where k = KArtifact, symmetric] steps [where k = KTarget, symmetric] steps_other_kind)
  also have "\<dots> \<longleftrightarrow> ?R"
    unfolding ex art of_kind_simps
    by (blast dest: matches_of_steps artifact_matches_kind)
  finally show ?thesis .
qed


text \<open>The reasons pushed by \<open>evaluate_behavior\<close> are none exactly when the lineage is complete.\<close>

lemma matching_builds_set: "(run, d) \<in> set (matching_builds t V) \<longleftrightarrow>
   (\<exists>v \<in> set V. \<exists>w b m prof.
      va_payload v = PBuild (dt_repository t) (dt_commit_sha t) w run b m prof d)"
  by (force simp: matching_builds_def of_kind_simps build_output_set)

lemma evaluate_behavior_lineage:
  "evaluate_behavior t policy V = [] \<longleftrightarrow>
     lineage t policy ((\<lambda>v. (va_payload v, va_computed_grade v)) ` set V)"
proof -
  let ?G = "(\<lambda>v. (va_payload v, va_computed_grade v)) ` set V"
  have G: "(p, g) \<in> ?G \<longleftrightarrow> (\<exists>v \<in> set V. va_payload v = p \<and> va_computed_grade v = g)" for p g by auto
  have exk: "(\<exists>v \<in> set V. payload_kind (va_payload v) = k) \<longleftrightarrow> (\<exists>(p, g) \<in> ?G. payload_kind p = k)" for k
    by auto
  have rev: "(\<forall>v \<in> set V. review_step t policy (va_computed_grade v) (va_payload v) = []) \<longleftrightarrow>
      (\<forall>r c ok i g. (PReview r c ok i, g) \<in> ?G \<longrightarrow>
        r = dt_repository t \<and> c = dt_commit_sha t \<and> ok \<and> pc_minimum_review_grade policy \<le> g)"
    unfolding review_step_Nil G by metis
  have bld: "(\<forall>v \<in> set V. build_step t policy (va_computed_grade v) (va_payload v) = []) \<longleftrightarrow>
      (\<forall>r c w i ok m prof d g. (PBuild r c w i ok m prof d, g) \<in> ?G \<longrightarrow>
        r = dt_repository t \<and> c = dt_commit_sha t \<and> ok \<and> pc_minimum_build_grade policy \<le> g
        \<and> prof = HermeticInputsV1)"
    unfolding build_step_Nil G by blast
  have tgt: "(\<forall>v \<in> set V. target_step t (va_payload v) = []) \<longleftrightarrow>
      (\<forall>c n d u v i h g. (PTarget c n d u v i h, g) \<in> ?G \<longrightarrow>
        c = dt_cluster_identity t \<and> n = dt_namespace t \<and> d = dt_deployment t
        \<and> u = dt_deployment_uid t \<and> v = dt_resource_version t
        \<and> i = dt_prior_image_digest t \<and> h = dt_prior_projection_hash t)"
    unfolding target_step_Nil G by metis
  have art: "(\<exists>v \<in> set V. artifact_matches t (va_payload v)) \<longleftrightarrow>
      (\<exists>run ok q g. (PArtifact (dt_image_repository t) (dt_image_digest t) run ok q, g) \<in> ?G)"
    unfolding artifact_matches_iff G by blast
  have src: "(\<forall>v \<in> set V. artifact_step t (matching_builds t V) (va_payload v) = []) \<longleftrightarrow>
      (\<forall>run ok q g. (PArtifact (dt_image_repository t) (dt_image_digest t) run ok q, g) \<in> ?G \<longrightarrow>
        ok \<and> \<not> q \<and> (\<exists>r c w b m prof g'. (PBuild r c w run b m prof (dt_image_digest t), g') \<in> ?G))"
    if builds: "\<forall>r c w i ok m prof d g. (PBuild r c w i ok m prof d, g) \<in> ?G \<longrightarrow>
        r = dt_repository t \<and> c = dt_commit_sha t \<and> ok \<and> pc_minimum_build_grade policy \<le> g
        \<and> prof = HermeticInputsV1"
  proof -
    have "(run, d) \<in> set (matching_builds t V) \<longleftrightarrow>
        (\<exists>r c w b m prof g'. (PBuild r c w run b m prof d, g') \<in> ?G)" for run d
      unfolding matching_builds_set G using builds unfolding G by blast
    then show ?thesis unfolding artifact_step_Nil G by blast
  qed
  show ?thesis
    unfolding evaluate_behavior_Nil lineage_def exk rev bld tgt art
    using src by (simp only: cong: conj_cong)
qed

section \<open>The decision\<close>

lemma request_reasons_Nil:
  "request_reasons proposal input context = [] \<longleftrightarrow> request_ok proposal input context"
  by (auto simp: request_reasons_def request_ok_def Let_def)

lemma verify_evidence_accepts:
  assumes wf: "registry_wf X (aar_entries (kc_attester_registry context))"
  shows "snd (verify_evidence X input context proposal) = [] \<longleftrightarrow>
      distinct (map (\<lambda>s. ea_evidence_id (se_assertion s)) (te_evidence input))
      \<and> (\<forall>s \<in> set (te_evidence input). current_item context (se_assertion s)
          \<and> (\<exists>e. attested_by X (aar_entries (kc_attester_registry context)) input proposal s e))"
    and "snd (verify_evidence X input context proposal) = [] \<Longrightarrow>
      (\<lambda>v. (va_payload v, va_computed_grade v)) ` set (fst (verify_evidence X input context proposal))
      = graded_payloads X (aar_entries (kc_attester_registry context)) input proposal"
proof -
  obtain r where r: "index_registry X Map.empty {} (aar_entries (kc_attester_registry context)) = Some r"
    "\<And>k e. r k = Some e \<longleftrightarrow> e \<in> set (aar_entries (kc_attester_registry context)) \<and> entry_identity e = k"
    using index_registry_wf [OF wf] by blast
  note auth = authenticate_item_Ok [OF wf r(2)]
  show "snd (verify_evidence X input context proposal) = [] \<longleftrightarrow>
      distinct (map (\<lambda>s. ea_evidence_id (se_assertion s)) (te_evidence input))
      \<and> (\<forall>s \<in> set (te_evidence input). current_item context (se_assertion s)
          \<and> (\<exists>e. attested_by X (aar_entries (kc_attester_registry context)) input proposal s e))"
    by (simp add: verify_evidence_def r(1) verify_loop_Nil auth)
  show "(\<lambda>v. (va_payload v, va_computed_grade v)) ` set (fst (verify_evidence X input context proposal))
      = graded_payloads X (aar_entries (kc_attester_registry context)) input proposal"
    if "snd (verify_evidence X input context proposal) = []"
    using that verify_loop_assertions [of X r input "context" proposal "{}" "te_evidence input"]
    by (simp add: verify_evidence_def r(1) auth graded_payloads_def)
qed

lemma evaluate_inner_outcome:
  assumes ok: "evaluate_inner X proposal input context = Ok att"
    and wf: "registry_wf X (aar_entries (kc_attester_registry context))"
  shows "at_outcome att = Allow \<longleftrightarrow> allow_spec X proposal input context"
proof -
  obtain vs rs where v: "verify_evidence X input context proposal = (vs, rs)"
    by (cases "verify_evidence X input context proposal")
  obtain root where root: "canonical_hash (x_cbor X) (x_sha256 X) (VPolicy (kc_policy context)) = Ok root"
    and outcome: "at_outcome att = Allow \<longleftrightarrow> request_reasons proposal input context = []
      \<and> root = ads_root (av_policy (kc_active_authority context)) \<and> rs = []
      \<and> evaluate_behavior (ap_template proposal) (kc_policy context) vs = []"
    using ok by (auto simp: evaluate_inner_def v Let_def and_then_Ok map_err_Ok ensure_Ok
        split: if_splits)
  show ?thesis
    using verify_evidence_accepts [OF wf, of input proposal]
    unfolding outcome request_reasons_Nil evaluate_behavior_lineage allow_spec_def Let_def root v
    by auto
qed


section \<open>What an attestation carries\<close>

text \<open>The verified assertions are a selection of the submitted ones.\<close>

lemma verify_loop_subset:
  "va_assertion ` set (fst (verify_loop X r input context proposal seen ss)) \<subseteq> se_assertion ` set ss"
proof (induction ss arbitrary: seen)
  case (Cons s ss)
  let ?seen = "insert (ea_evidence_id (se_assertion s)) seen"
  obtain as rs where l: "verify_loop X r input context proposal ?seen ss = (as, rs)"
    by (cases "verify_loop X r input context proposal ?seen ss")
  with Cons [of ?seen] show ?case
    by (auto simp: Let_def split: result.splits)
qed simp

lemma verify_loop_keeps:
  assumes "snd (verify_loop X r input context proposal seen ss) = []"
  shows "map va_assertion (fst (verify_loop X r input context proposal seen ss)) = map se_assertion ss"
  using assms
proof (induction ss arbitrary: seen)
  case (Cons s ss)
  let ?seen = "insert (ea_evidence_id (se_assertion s)) seen"
  obtain as rs where l: "verify_loop X r input context proposal ?seen ss = (as, rs)"
    by (cases "verify_loop X r input context proposal ?seen ss")
  with Cons.prems Cons.IH [of ?seen] show ?case
    by (auto simp: Let_def split: if_splits result.splits)
qed simp

lemma verify_evidence_keeps:
  "snd (verify_evidence X input context proposal) = [] \<Longrightarrow>
     map va_assertion (fst (verify_evidence X input context proposal))
     = map se_assertion (te_evidence input)"
  by (auto simp: verify_evidence_def verify_loop_keeps split: option.splits)

lemma min_or_Min: "xs \<noteq> [] \<Longrightarrow> min_or now xs = Min (set xs)"
  using Min.set_eq_fold [of "hd xs" "tl xs"] by (cases xs) simp_all

text \<open>The whole attestation, as a function of the verified assertions.\<close>

lemma evaluate_inner_Ok:
  assumes "evaluate_inner X proposal input context = Ok att"
  obtains vs rs where "verify_evidence X input context proposal = (vs, rs)"
    and "at_outcome att = Allow \<longrightarrow> rs = []"
    and "at_reasons att = (if at_outcome att = Allow then [Allowed] else at_reasons att)"
    and "at_outcome att = Deny \<longrightarrow> at_reasons att \<noteq> [] \<and> sorted_wrt (<) (at_reasons att)"
    and "at_consume_before att = Min (set (map (\<lambda>v. ea_valid_until (va_assertion v)) vs
        @ [i64_saturating_add (kc_now context)
             (pc_maximum_authorization_lifetime_seconds (kc_policy context)),
           kc_ingress_expires_at context]))"
    and "at_principals att = sort_dedup (map va_principal_id vs)"
    and "at_evidence_root att = evidence_root (x_cbor X) (x_sha256 X) (map va_assertion vs)"
    and "canonical_hash (x_cbor X) (x_sha256 X) (VPolicy (kc_policy context)) = Ok (at_policy_root att)"
    and "canonical_hash (x_cbor X) (x_sha256 X) (VTemplate (ap_template proposal))
        = Ok (at_template_hash att)"
    and "at_request_id att = ap_request_id proposal" "at_authority att = kc_active_authority context"
    and "at_evaluation_nonce att = kc_evaluation_nonce context" "at_evaluated_at att = kc_now context"
    and "at_tenant att = kl_tenant (kc_caller context)" "at_actor att = kl_actor (kc_caller context)"
proof -
  obtain vs rs where v: "verify_evidence X input context proposal = (vs, rs)"
    by (cases "verify_evidence X input context proposal")
  obtain root h where r: "canonical_hash (x_cbor X) (x_sha256 X) (VPolicy (kc_policy context)) = Ok root"
    "canonical_hash (x_cbor X) (x_sha256 X) (VTemplate (ap_template proposal)) = Ok h"
    by (simp add: canonical_hash_def canonical_bytes_def)
  show thesis
    using assms unfolding evaluate_inner_def v Let_def and_then_Ok map_err_Ok r result.inject prod.case
    by (elim exE conjE)
      (rule that [OF v]; hypsubst_thin; simp add: r min_or_Min sort_dedup_strict split: if_split)
qed

lemma evaluate_inner_total:
  "is_Ok (evaluate_inner X proposal input context) \<longleftrightarrow> input_within_profile proposal input context"
  by (auto simp: evaluate_inner_def ensure_def canonical_hash_def canonical_bytes_def Let_def
      split: prod.splits)

lemma attestation_encodable:
  assumes "evaluate_inner X proposal input context = Ok att"
  shows "\<exists>ts. canonical_tokens (VAttestation att) = Ok ts"
proof -
  have "sorted_wrt (<) (at_principals att)"
    using assms by (elim evaluate_inner_Ok) (simp add: sort_dedup_strict)
  then show ?thesis
    by (simp add: attestation_tokens_def require_sorted_unique_def some_window_ge_iff)
qed

lemma consume_before_bounds:
  assumes "evaluate_inner X proposal input context = Ok att"
  shows "at_consume_before att \<le> kc_ingress_expires_at context"
    and "at_consume_before att \<le> i64_saturating_add (kc_now context)
           (pc_maximum_authorization_lifetime_seconds (kc_policy context))"
    and "at_outcome att = Allow \<Longrightarrow> s \<in> set (te_evidence input)
           \<Longrightarrow> at_consume_before att \<le> ea_valid_until (se_assertion s)"
proof -
  obtain vs rs where v: "verify_evidence X input context proposal = (vs, rs)"
    and allow: "at_outcome att = Allow \<longrightarrow> rs = []"
    and b: "at_consume_before att = Min (set (map (\<lambda>v. ea_valid_until (va_assertion v)) vs
        @ [i64_saturating_add (kc_now context)
             (pc_maximum_authorization_lifetime_seconds (kc_policy context)),
           kc_ingress_expires_at context]))"
    using assms by (elim evaluate_inner_Ok) (rule that; assumption)
  show "at_consume_before att \<le> kc_ingress_expires_at context"
    "at_consume_before att \<le> i64_saturating_add (kc_now context)
           (pc_maximum_authorization_lifetime_seconds (kc_policy context))"
    unfolding b by (rule Min_le; simp)+
  assume out: "at_outcome att = Allow" and s: "s \<in> set (te_evidence input)"
  have "map va_assertion vs = map se_assertion (te_evidence input)"
    using verify_evidence_keeps [of X input "context" proposal] allow out v by simp
  then have "se_assertion s \<in> va_assertion ` set vs" using s by (metis imageI list.set_map)
  then show "at_consume_before att \<le> ea_valid_until (se_assertion s)"
    unfolding b by (intro Min_le) auto
qed

lemma from_trusted_parts_Ok:
  assumes "from_trusted_parts X scope proposal tenant actor authenticated expires domain now nonce
      policy authority registry = Ok context"
  shows "kc_control_work context = None" "kc_proposal context = proposal"
    "kc_now context = now" "kc_policy context = policy" "kc_active_authority context = authority"
    "kc_attester_registry context = registry" "kc_ingress_expires_at context = expires"
    "kc_evaluation_nonce context = nonce"
    "kl_tenant (kc_caller context) = ap_tenant proposal" "kl_actor (kc_caller context) = ap_actor proposal"
    "0 \<le> now" "authenticated \<le> now" "now < expires" "\<not> is_nil nonce"
    "canonical_hash (x_cbor X) (x_sha256 X) (VPolicy policy) = Ok (ads_root (av_policy authority))"
    "aar_authority_domain registry = av_registry authority" "domain = av_principal_registry authority"
    "\<forall>s. scope = Some s \<longrightarrow> sc_tenant s = ap_tenant proposal
       \<and> sc_environment s = dt_environment (ap_template proposal)"
  using assms
  by (auto simp: from_trusted_parts_def result_simps split: option.splits)

end
