(* ===== verification/Kernel_Scenario.thy ===== *)
theory Kernel_Scenario
  imports Reference_Externals Kernel_Decision
begin

definition sample_template :: DeploymentTemplate where
  "sample_template =
     \<lparr>dt_operation = DEPLOY_EKS_IMAGE_V1, dt_environment = ''prod'', dt_audience = ''executor'',
      dt_repository = ''org/app'', dt_commit_sha = replicate 40 (CHR ''a''),
      dt_image_repository = ''registry/app'', dt_image_digest = 7, dt_cluster_identity = ''cluster'',
      dt_namespace = ''web'', dt_deployment = ''app'', dt_deployment_uid = ''uid'',
      dt_container = ''app'', dt_container_index = 0, dt_prior_image_digest = 5,
      dt_resource_version = ''41'', dt_prior_projection_hash = 6,
      dt_prior_transaction_annotation = None, dt_prior_authorization_annotation = None,
      dt_prior_operation_hash_annotation = None\<rparr>"

definition sample_policy :: PolicyConfig where
  "sample_policy =
     \<lparr>pc_policy_id = ''policy'', pc_allowed_actors = [''agent''], pc_allowed_repositories = [''org/app''],
      pc_allowed_image_repositories = [''registry/app''], pc_allowed_clusters = [''cluster''],
      pc_allowed_namespaces = [''web''], pc_minimum_review_grade = 2, pc_minimum_build_grade = 2,
      pc_maximum_evidence_age_seconds = 600, pc_maximum_authorization_lifetime_seconds = 300\<rparr>"

definition sample_attester :: RegisteredAttester where
  "sample_attester =
     \<lparr>ra_tenant = ''acme'', ra_environment = ''prod'', ra_issuer = ''issuer'', ra_key_id = ''key'',
      ra_public_key = 9, ra_principal_id = ''principal'', ra_base_grade = 3, ra_status = Active,
      ra_scopes = [SReview ''org/app'', SBuild ''org/app'' ''ci'', SArtifact ''registry/app'',
        STarget ''cluster'' ''web'' ''uid'']\<rparr>"

definition sample_proposal :: AgentProposal where
  "sample_proposal = \<lparr>ap_schema_version = 1, ap_request_id = 11, ap_tenant = ''acme'',
     ap_actor = ''agent'', ap_template = sample_template\<rparr>"

definition domain_at :: "digest32 \<Rightarrow> AuthorityDomainState" where
  "domain_at root = \<lparr>ads_root = root, ads_epoch = 4, ads_activation_id = 31\<rparr>"

text \<open>The roots that commit to the sample policy, registry, signer, evaluator and grant under the
  concrete digest.\<close>

definition sample_authority :: AuthorityVector where
  "sample_authority =
     \<lparr>av_policy = domain_at 61, av_registry = domain_at 292, av_revocation = domain_at 1,
      av_connector = domain_at 2, av_resource = domain_at 3, av_signer = domain_at 102,
      av_mediation = domain_at 4, av_grant_registry = domain_at 139,
      av_office_act_registry = domain_at 5, av_principal_registry = domain_at 6,
      av_workload_build_allowlist = domain_at 7, av_kernel_configuration = domain_at 103\<rparr>"

definition sample_registry :: ActivatedAttesterRegistry where
  "sample_registry = \<lparr>aar_authority_domain = domain_at 292, aar_entries = [sample_attester]\<rparr>"

definition sample_context :: KernelContext where
  "sample_context =
     \<lparr>kc_control_work = None, kc_caller = \<lparr>kl_tenant = ''acme'', kl_actor = ''agent''\<rparr>,
      kc_proposal = sample_proposal, kc_authenticated_at = 990, kc_ingress_expires_at = 1200,
      kc_ingress_authority_domain = domain_at 6, kc_now = 1000, kc_evaluation_nonce = 12,
      kc_policy = sample_policy, kc_active_authority = sample_authority,
      kc_attester_registry = sample_registry\<rparr>"

definition sample_assertion :: "uuid \<Rightarrow> EvidencePayload \<Rightarrow> EvidenceAssertion" where
  "sample_assertion i p =
     \<lparr>ea_schema_version = 2, ea_request_id = 11, ea_evidence_id = i, ea_issuer = ''issuer'',
      ea_key_id = ''key'', ea_source_uri = ''source'', ea_observed_at = 950, ea_valid_until = 1400,
      ea_authority = sample_authority, ea_payload = p\<rparr>"

definition sample_bytes :: "uuid \<Rightarrow> EvidencePayload \<Rightarrow> bytes" where
  "sample_bytes i p = concat (map rfc8949 (encode_assertion (sample_assertion i p)))"

definition sample_identity :: SigningIdentity where
  "sample_identity = \<lparr>si_key_id = ''key'', si_key = 9\<rparr>"

definition ok_bytes :: "(bytes, 'e) result \<Rightarrow> bytes" where
  "ok_bytes r = (case r of Ok b \<Rightarrow> b | Err _ \<Rightarrow> [])"

definition sample_signed :: "uuid \<Rightarrow> EvidencePayload \<Rightarrow> SignedEvidence" where
  "sample_signed i p =
     \<lparr>se_assertion = sample_assertion i p, se_cose_sign1 =
        ok_bytes (sign_cose ref_externals (sample_bytes i p) (kind_domain (payload_kind p)) sample_identity)\<rparr>"

definition sample_payloads :: "EvidencePayload list" where
  "sample_payloads =
     [PReview ''org/app'' (replicate 40 (CHR ''a'')) True ''review'',
      PBuild ''org/app'' (replicate 40 (CHR ''a'')) ''ci'' ''run'' True 8 HermeticInputsV1 7,
      PArtifact ''registry/app'' 7 ''run'' True False,
      PTarget ''cluster'' ''web'' ''app'' ''uid'' ''41'' 5 6]"

definition sample_evidence :: TrustedEvidenceSet where
  "sample_evidence = \<lparr>te_request_id = 11, te_evidence =
     [sample_signed 1 (sample_payloads ! 0), sample_signed 2 (sample_payloads ! 1),
      sample_signed 3 (sample_payloads ! 2), sample_signed 4 (sample_payloads ! 3)]\<rparr>"

definition sample_evaluator :: SigningIdentity where
  "sample_evaluator = \<lparr>si_key_id = ''evaluator'', si_key = 22\<rparr>"

section \<open>Facts\<close>

lemma sample_simps [simp]:
  "kc_policy sample_context = sample_policy" "kc_active_authority sample_context = sample_authority"
  "kc_attester_registry sample_context = sample_registry" "kc_proposal sample_context = sample_proposal"
  "kc_now sample_context = 1000" "kc_ingress_expires_at sample_context = 1200"
  "kc_evaluation_nonce sample_context = 12"
  "kc_caller sample_context = \<lparr>kl_tenant = ''acme'', kl_actor = ''agent''\<rparr>"
  "aar_entries sample_registry = [sample_attester]" "ap_template sample_proposal = sample_template"
  "av_policy sample_authority = domain_at 61" "ads_root (domain_at d) = d"
  by (simp_all add: sample_context_def sample_registry_def sample_proposal_def sample_authority_def
      domain_at_def)

lemma sample_registry_new:
  "registry_new ref_externals (domain_at 292) [sample_attester] = Ok sample_registry"
  by code_simp

lemma sample_policy_root:
  "canonical_hash rfc8949 ref_digest (VPolicy sample_policy) = Ok 61"
  by code_simp

lemma sample_texts: "valid_security_text ''acme''" "valid_security_text ''agent''"
  "valid_text MAX_KEY_ID_BYTES ''key''" "valid_text MAX_DOMAIN_BYTES (kind_domain KReview)"
  "valid_text MAX_DOMAIN_BYTES (kind_domain KBuild)"
  "valid_text MAX_DOMAIN_BYTES (kind_domain KArtifact)"
  "valid_text MAX_DOMAIN_BYTES (kind_domain KTarget)"
  by code_simp+

lemma sample_context_new:
  "from_trusted_parts ref_externals None sample_proposal ''acme'' ''agent'' 990 1200 (domain_at 6)
     1000 12 sample_policy sample_authority sample_registry = Ok sample_context"
  by (simp add: from_trusted_parts_def sample_texts sample_policy_root sample_context_def
      validate_authority_vector_def domains_def valid_authority_domain_def is_nil_def
      sample_proposal_def sample_authority_def domain_at_def sample_registry_def)

lemma sample_evaluator_root: "evaluator_verifier_root ref_externals ''evaluator'' 22 = Ok 103"
proof -
  have "valid_text MAX_KEY_ID_BYTES ''evaluator''" by code_simp
  then show ?thesis by (simp add: evaluator_verifier_root_def from_public_key_def
        validate_key_id_def frame_def ref_digest_def EVALUATOR_VERIFIER_ROOT_DOMAIN_def)
qed

lemma length_rfc8949:
  "length (rfc8949 t) = Suc (head_width (head_info (snd (token_head t))) + length (token_body t))"
  by (simp add: rfc8949_def cbor_head_def split: prod.splits)

lemma length_encoded:
  "length (concat (map rfc8949 ts)) \<le> sum_list (map (\<lambda>t. 9 + length (token_body t)) ts)"
proof -
  have "length (rfc8949 t) \<le> 9 + length (token_body t)" for t
    by (simp add: length_rfc8949 head_width_def head_info_def)
  then show ?thesis by (simp add: length_concat comp_def sum_list_mono)
qed

lemma sample_bytes_length: "p \<in> set sample_payloads \<Longrightarrow> length (sample_bytes i p) \<le> 4000"
  unfolding sample_bytes_def
  by (rule order.trans [OF length_encoded])
    (auto simp: sample_payloads_def encode_assertion_def sample_assertion_def sample_authority_def
      encode_authority_def domains_def encode_domain_def domain_at_def)

lemma sample_kind_domain: "valid_text MAX_DOMAIN_BYTES (kind_domain k)"
  using sample_texts by (cases k) simp_all

lemma sample_sign:
  assumes "p \<in> set sample_payloads"
  shows "sign_cose ref_externals (sample_bytes i p) (kind_domain (payload_kind p)) sample_identity
      = Ok (se_cose_sign1 (sample_signed i p))"
    and "length (se_cose_sign1 (sample_signed i p)) \<le> 5000"
proof -
  have l: "length (sample_bytes i p) \<le> 4000" by (rule sample_bytes_length [OF assms])
  then have len: "length (sample_bytes i p) \<le> MAX_COSE_PAYLOAD_BYTES"
    by (simp add: MAX_COSE_PAYLOAD_BYTES_def)
  have key: "valid_text MAX_KEY_ID_BYTES (si_key_id sample_identity)" "si_key sample_identity \<noteq> 0"
    using sample_texts by (simp_all add: sample_identity_def)
  obtain c where c: "sign_cose ref_externals (sample_bytes i p)
      (kind_domain (payload_kind p)) sample_identity = Ok c"
    "length c = length (si_key_id sample_identity) + length (sample_bytes i p) + 80"
    by (rule ref_sign_cose [OF key(1) sample_kind_domain len key(2)])
  then show "sign_cose ref_externals (sample_bytes i p) (kind_domain (payload_kind p)) sample_identity
      = Ok (se_cose_sign1 (sample_signed i p))"
    "length (se_cose_sign1 (sample_signed i p)) \<le> 5000"
    using l by (simp_all add: sample_signed_def ok_bytes_def sample_identity_def)
qed

lemma sample_verifies:
  assumes "p \<in> set sample_payloads"
  shows "verify_cose ref_externals (se_cose_sign1 (sample_signed i p)) (kind_domain (payload_kind p))
      \<lparr>cv_key_id = ''key'', cv_key = 9\<rparr> = Ok (sample_bytes i p)"
  using verify_of_sign [OF ref_cose_roundtrip ref_signature_correct sample_sign(1) [OF assms]]
  by (simp add: identity_verifier_def sample_identity_def public_key_bytes_def)

lemma sample_attested:
  assumes "p \<in> set sample_payloads"
  shows "attested_by ref_externals [sample_attester] sample_evidence sample_proposal (sample_signed i p)
    sample_attester"
proof -
  have "\<exists>scope \<in> set (ra_scopes sample_attester). scope_matches scope p"
    using assms by (auto simp: sample_payloads_def sample_attester_def)
  moreover have "se_assertion (sample_signed i p) = sample_assertion i p"
    by (simp add: sample_signed_def)
  ultimately show ?thesis
    using sample_verifies [OF assms]
    by (simp add: attested_by_def sample_assertion_def sample_attester_def entry_identity_def
        sample_proposal_def sample_template_def sample_evidence_def sample_bytes_def canonical_bytes_def
        EVIDENCE_ASSERTION_SCHEMA_VERSION_def)
qed

lemma sample_items: "te_evidence sample_evidence = map2 sample_signed [1, 2, 3, 4] sample_payloads"
  by (simp add: sample_evidence_def sample_payloads_def)

lemma sample_item:
  assumes "s \<in> set (te_evidence sample_evidence)"
  obtains i p where "s = sample_signed i p" "p \<in> set sample_payloads"
  using assms that by (auto simp: sample_evidence_def sample_payloads_def)

lemma sample_current: "current_item sample_context (sample_assertion i p)"
  by (simp add: current_item_def sample_assertion_def sample_context_def sample_policy_def arith_defs)

lemma sample_attester_only:
  "attested_by X [sample_attester] input proposal s e \<Longrightarrow> e = sample_attester"
  by (simp add: attested_by_def Let_def)

lemma sample_graded:
  "graded_payloads ref_externals [sample_attester] sample_evidence sample_proposal
     = (\<lambda>p. (p, 3)) ` set sample_payloads"
proof -
  let ?A = "attested_by ref_externals [sample_attester] sample_evidence sample_proposal"
  have att: "?A s e \<longleftrightarrow> e = sample_attester" if "s \<in> set (te_evidence sample_evidence)" for s e
    using that by (auto elim!: sample_item intro: sample_attested dest: sample_attester_only)
  have "{(ea_payload (se_assertion s), ra_base_grade e) | s e.
        s \<in> set (te_evidence sample_evidence) \<and> ?A s e}
      = (\<lambda>s. (ea_payload (se_assertion s), ra_base_grade sample_attester)) ` set (te_evidence sample_evidence)"
    using att by (force simp: image_def)
  then show ?thesis
    by (simp add: graded_payloads_def sample_items sample_payloads_def sample_signed_def
        sample_assertion_def sample_attester_def)
qed

lemma sample_lineage: "lineage sample_template sample_policy ((\<lambda>p. (p, 3)) ` set sample_payloads)"
  by (simp add: lineage_def sample_payloads_def sample_template_def sample_policy_def) blast

lemma sample_request_ok: "request_ok sample_proposal sample_evidence sample_context"
  by (simp add: request_ok_def sample_context_def sample_proposal_def sample_template_def
      sample_policy_def sample_evidence_def is_commit_sha_def) code_simp

lemma sample_allow_spec: "allow_spec ref_externals sample_proposal sample_evidence sample_context"
proof -
  have "\<forall>s \<in> set (te_evidence sample_evidence). current_item sample_context (se_assertion s)
      \<and> (\<exists>e. attested_by ref_externals [sample_attester] sample_evidence sample_proposal s e)"
  proof
    fix s assume "s \<in> set (te_evidence sample_evidence)"
    then obtain i p where s: "s = sample_signed i p" "p \<in> set sample_payloads" by (rule sample_item)
    have "current_item sample_context (se_assertion s)"
      unfolding s(1) by (simp add: sample_signed_def sample_current)
    moreover have "attested_by ref_externals [sample_attester] sample_evidence sample_proposal s sample_attester"
      unfolding s(1) by (rule sample_attested [OF s(2)])
    ultimately show "current_item sample_context (se_assertion s)
      \<and> (\<exists>e. attested_by ref_externals [sample_attester] sample_evidence sample_proposal s e)" by blast
  qed
  moreover have "distinct (map (\<lambda>s. ea_evidence_id (se_assertion s)) (te_evidence sample_evidence))"
    by (simp add: sample_items sample_payloads_def sample_signed_def sample_assertion_def)
  ultimately show ?thesis
    using sample_request_ok sample_policy_root sample_lineage
    by (simp add: allow_spec_def sample_graded)
qed

lemmas account_defs = account_text_def usize_checked_add_def MAX_SECURITY_TEXT_BYTES_def
  MAX_AGGREGATE_SECURITY_TEXT_BYTES_def

lemma sample_account_item:
  assumes "p \<in> set sample_payloads" "used \<le> 4000"
  shows "\<exists>n. account_texts used [ea_issuer (sample_assertion i p), ea_key_id (sample_assertion i p),
      ea_source_uri (sample_assertion i p)] = Some n
    \<and> (\<exists>m. account_payload n p = Some m \<and> m \<le> used + 500)"
  using assms by (auto simp: sample_payloads_def sample_assertion_def account_defs)

lemma sample_account_evidence:
  assumes "set items \<subseteq> UNIV \<times> set sample_payloads" "used + 500 * length items \<le> 4000"
    and "cose + 5000 * length items \<le> 100000"
  shows "\<exists>n \<le> 4000. account_evidence used cose (map (\<lambda>(i, p). sample_signed i p) items) = Some n"
  using assms
proof (induction items arbitrary: used cose)
  case Nil
  then show ?case by simp
next
  case (Cons ip items)
  obtain i p where ip: "ip = (i, p)" by (cases ip)
  then have p: "p \<in> set sample_payloads" using Cons.prems(1) by simp
  have l: "length (se_cose_sign1 (sample_signed i p)) \<le> 5000" by (rule sample_sign(2) [OF p])
  obtain n m where n: "account_texts used [ea_issuer (sample_assertion i p), ea_key_id (sample_assertion i p),
      ea_source_uri (sample_assertion i p)] = Some n" "account_payload n p = Some m" "m \<le> used + 500"
    using sample_account_item [OF p, of used i] Cons.prems(2) by auto
  have "\<exists>k \<le> 4000. account_evidence m (cose + length (se_cose_sign1 (sample_signed i p)))
      (map (\<lambda>(i, p). sample_signed i p) items) = Some k"
    by (rule Cons.IH) (use Cons.prems n(3) l in simp_all)
  moreover have "se_assertion (sample_signed i p) = sample_assertion i p"
    "ea_payload (sample_assertion i p) = p"
    by (simp_all add: sample_signed_def sample_assertion_def)
  ultimately show ?case
    using l n Cons.prems(3)
    by (simp add: ip usize_checked_add_def MAX_COSE_SIZE_BYTES_def MAX_AGGREGATE_COSE_BYTES_def
        del: account_texts.simps)
qed

lemma sample_within: "input_within_profile sample_proposal sample_evidence sample_context"
proof -
  have len: "length (te_evidence sample_evidence) = 4" by (simp add: sample_evidence_def)
  have texts: "account_texts 0 [ap_tenant sample_proposal, ap_actor sample_proposal] = Some 9"
    "account_template 9 sample_template = Some 120"
    "account_texts 120 ([''acme'', ''agent'', pc_policy_id sample_policy]
       @ concat (policy_lists sample_policy)) = Some 169"
    by (simp_all add: sample_proposal_def sample_template_def account_template_def account_defs
        DEPLOY_EKS_IMAGE_V1_def sample_policy_def policy_lists_def)
  have lists: "\<not> list_ex (\<lambda>values. MAX_POLICY_ENTRIES_PER_FIELD < length values) (policy_lists sample_policy)"
    "length (ra_scopes sample_attester) = 4"
    by (simp_all add: sample_policy_def policy_lists_def MAX_POLICY_ENTRIES_PER_FIELD_def
        sample_attester_def)
  have items: "te_evidence sample_evidence
      = map (\<lambda>(i, p). sample_signed i p) (zip [1, 2, 3, 4] sample_payloads)"
    by (simp add: sample_items)
  obtain n where n: "account_evidence 169 0 (te_evidence sample_evidence) = Some n" "n \<le> 4000"
    unfolding items using sample_account_evidence [of "zip [1, 2, 3, 4] sample_payloads" 169 0]
    by (auto simp: sample_payloads_def)
  have "account_attesters n [sample_attester] \<noteq> None"
    using n(2) by (simp add: sample_attester_def identity_fields_def account_defs)
  then show ?thesis
    using len lists texts n(1) by (simp add: input_within_profile_def MAX_EVIDENCE_ITEMS_def
        MAX_REGISTERED_ATTESTERS_def MAX_SCOPES_PER_ATTESTER_def del: account_texts.simps account_attesters.simps)
qed

end
