(* ===== verification/Protocol_Properties.thy ===== *)
theory Protocol_Properties
  imports Kernel_Scenario
begin

text \<open>
  What the protocol crate promises to the rest of the runtime: canonical bytes and hashes
  determine the value, the evidence root does not depend on the order of the evidence, key
  roots determine the key and its purpose, and an envelope that was signed is verified.
\<close>

section \<open>The bytes under a root\<close>

definition evidence_root_material :: "(cbor_token \<Rightarrow> bytes) \<Rightarrow> EvidenceAssertion list \<Rightarrow> bytes" where
  "evidence_root_material enc values =
     (let ordered = sort_key ea_evidence_id values in
      str_bytes EVIDENCE_ROOT_DOMAIN @ [0] @ concat (map enc
        (CArray (array_len (length ordered)) # concat (map encode_assertion ordered))))"

definition key_root_material :: "string \<Rightarrow> string \<Rightarrow> digest32 \<Rightarrow> bytes" where
  "key_root_material domain key_id public_key =
     (case frame_all [str_bytes domain, str_bytes key_id, digest_bytes public_key] of
        Ok c \<Rightarrow> c
      | Err _ \<Rightarrow> [])"

lemma evidence_root_material:
  "evidence_root enc sha256 values = sha256 (evidence_root_material enc values)"
  by (simp add: evidence_root_def evidence_root_material_def Let_def)

lemma key_root_material_Ok:
  "frame_all [str_bytes d, str_bytes k, digest_bytes p] = Ok c \<Longrightarrow> key_root_material d k p = c"
  by (simp add: key_root_material_def)

lemma sort_key_eq_set:
  assumes "distinct (map f xs)" "distinct (map f ys)"
  shows "sort_key f xs = sort_key f ys \<longleftrightarrow> set xs = set ys"
proof
  assume "set xs = set ys"
  with assms show "sort_key f xs = sort_key f ys"
    by (intro map_sorted_distinct_set_unique [of f]) (auto simp: distinct_map)
qed (metis set_sort)

section \<open>Canonical encoding\<close>

text \<open>C39. Canonical hashes bind: two values of any of the nine canonical types, encodable by a CBOR
  writer whose items are prefix free, have the same canonical hash if and only if they are the
  same value, where the lists of a policy count as sets, unless SHA-256 collides on their two
  encodings. In particular two values of different types never share an encoding.\<close>

theorem canonical_hash_binds:
  assumes "cbor_encoder enc" "value_ok v" "value_ok w"
    and "canonical_bytes enc v = Ok x" "canonical_bytes enc w = Ok y" "no_collision sha256 x y"
  shows "canonical_hash enc sha256 v = canonical_hash enc sha256 w \<longleftrightarrow> same_value v w"
  using assms by (intro cbor_encoder.canonical_hash_eq_iff)

theorem canonical_hash_binds_witness:
  "canonical_hash rfc8949 ref_digest (VPolicy sample_policy)
     \<noteq> canonical_hash rfc8949 ref_digest (VPolicy (sample_policy\<lparr>pc_policy_id := ''policy-2''\<rparr>))"
proof -
  let ?q = "sample_policy\<lparr>pc_policy_id := ''policy-2''\<rparr>"
  let ?x = "concat (map rfc8949 (policy_tokens sample_policy))"
  let ?y = "concat (map rfc8949 (policy_tokens ?q))"
  have ok: "value_ok (VPolicy sample_policy)" "value_ok (VPolicy ?q)"
    by (simp_all add: policy_ok_def sample_policy_def strs_ok_def str_ok_def arith_defs)
  have b: "canonical_bytes rfc8949 (VPolicy sample_policy) = Ok ?x"
      "canonical_bytes rfc8949 (VPolicy ?q) = Ok ?y"
    by (simp_all add: canonical_bytes_def)
  have "length ?x = 60" "length ?y = 62" by code_simp+
  then have "no_collision ref_digest ?x ?y" by (intro ref_digest_no_collision) simp_all
  from canonical_hash_binds [OF rfc.cbor_encoder_axioms ok b this] show ?thesis
    by (simp add: policy_equiv_def sample_policy_def)
qed

text \<open>The evidence root is a commitment to the set of evidence: for evidence with distinct
  identifiers it does not depend on the order in which the items arrive, and two such sets
  share a root only if they are the same, unless SHA-256 collides on the two encodings.\<close>

theorem evidence_root_binds_set:
  assumes "cbor_encoder enc" "list_all assertion_ok as" "list_all assertion_ok bs"
    and "length as < 2 ^ 63" "length bs < 2 ^ 63"
    and "distinct (map ea_evidence_id as)" "distinct (map ea_evidence_id bs)"
    and "no_collision sha256 (evidence_root_material enc as) (evidence_root_material enc bs)"
  shows "evidence_root enc sha256 as = evidence_root enc sha256 bs \<longleftrightarrow> set as = set bs"
proof -
  let ?s = "sort_key ea_evidence_id"
  have "evidence_root enc sha256 as = evidence_root enc sha256 bs
      \<longleftrightarrow> evidence_root_material enc as = evidence_root_material enc bs"
    using assms(8) by (simp add: evidence_root_material)
  also have "\<dots> \<longleftrightarrow> ?s as = ?s bs"
  proof
    assume "evidence_root_material enc as = evidence_root_material enc bs"
    then show "?s as = ?s bs"
      using cbor_encoder.assertions_bytes_inj [OF assms(1), of "?s as" "?s bs"] assms(2-5)
      by (simp add: evidence_root_material_def list_all_iff Let_def)
  qed (simp only: evidence_root_material_def)
  also have "\<dots> \<longleftrightarrow> set as = set bs" by (rule sort_key_eq_set [OF assms(6,7)])
  finally show ?thesis .
qed

theorem evidence_root_binds_set_witness:
  "evidence_root rfc8949 ref_digest [sample_assertion 2 (hd sample_payloads), sample_assertion 1 (hd sample_payloads)]
     = evidence_root rfc8949 ref_digest [sample_assertion 1 (hd sample_payloads), sample_assertion 2 (hd sample_payloads)]"
proof -
  let ?a = "\<lambda>i. sample_assertion i (hd sample_payloads)"
  have ok: "assertion_ok (?a i)" for i
    by (simp add: assertion_ok_def sample_assertion_def sample_payloads_def str_ok_def arith_defs)
  have ids: "ea_evidence_id (?a i) = i" for i by (simp add: sample_assertion_def)
  have "sort_key ea_evidence_id [?a 2, ?a 1] = sort_key ea_evidence_id [?a 1, ?a 2]"
    by (simp add: ids word_le_nat_alt)
  then have "no_collision ref_digest (evidence_root_material rfc8949 [?a 2, ?a 1])
      (evidence_root_material rfc8949 [?a 1, ?a 2])"
    by (simp add: no_collision_def evidence_root_material_def Let_def)
  from evidence_root_binds_set [OF rfc.cbor_encoder_axioms _ _ _ _ _ _ this] ok ids
  show ?thesis by (auto simp: insert_commute)
qed

section \<open>Keys\<close>

text \<open>Key roots bind the key and its purpose: a signer root and an evaluator root never agree,
  and two roots of the same purpose agree exactly for the same key identifier and public key,
  unless SHA-256 collides on the two framings.\<close>

theorem key_roots_bind:
  assumes "authorization_signer_root X k p = Ok r" "authorization_signer_root X k' p' = Ok r'"
    and "evaluator_verifier_root X l q = Ok s"
    and "no_collision (x_sha256 X) (key_root_material AUTHORIZATION_SIGNER_ROOT_DOMAIN k p)
      (key_root_material AUTHORIZATION_SIGNER_ROOT_DOMAIN k' p')"
    and "no_collision (x_sha256 X) (key_root_material AUTHORIZATION_SIGNER_ROOT_DOMAIN k p)
      (key_root_material EVALUATOR_VERIFIER_ROOT_DOMAIN l q)"
  shows "(r = r' \<longleftrightarrow> k = k' \<and> p = p') \<and> r \<noteq> s"
proof -
  let ?A = AUTHORIZATION_SIGNER_ROOT_DOMAIN and ?E = EVALUATOR_VERIFIER_ROOT_DOMAIN
  obtain c c' e where
    c: "frame_all [str_bytes ?A, str_bytes k, digest_bytes p] = Ok c" "r = x_sha256 X c"
    and c': "frame_all [str_bytes ?A, str_bytes k', digest_bytes p'] = Ok c'" "r' = x_sha256 X c'"
    and e: "frame_all [str_bytes ?E, str_bytes l, digest_bytes q] = Ok e" "s = x_sha256 X e"
    using assms(1-3) unfolding authorization_signer_root_def evaluator_verifier_root_def
      and_then_Ok result.inject by blast
  have "r = r' \<longleftrightarrow> c = c'" "r = s \<longleftrightarrow> c = e"
    using assms(4,5) c c' e by (simp_all add: key_root_material_Ok)
  moreover have "?A \<noteq> ?E" by (simp add: AUTHORIZATION_SIGNER_ROOT_DOMAIN_def EVALUATOR_VERIFIER_ROOT_DOMAIN_def)
  ultimately show ?thesis using frame_all_root [OF c(1) c'(1)] frame_all_root [OF c(1) e(1)] by simp
qed

theorem key_roots_bind_witness:
  "authorization_signer_root ref_externals ''signer'' 21 = Ok 102
    \<and> authorization_signer_root ref_externals ''signer-2'' 21 = Ok 104
    \<and> evaluator_verifier_root ref_externals ''evaluator'' 22 = Ok 103
    \<and> (102 :: digest32) \<noteq> 104 \<and> (102 :: digest32) \<noteq> 103"
proof -
  let ?m = "key_root_material AUTHORIZATION_SIGNER_ROOT_DOMAIN"
    and ?e = "key_root_material EVALUATOR_VERIFIER_ROOT_DOMAIN"
  have "valid_text MAX_KEY_ID_BYTES ''signer''" "valid_text MAX_KEY_ID_BYTES ''signer-2''"
    "valid_text MAX_KEY_ID_BYTES ''evaluator''"
    by code_simp+
  then have roots: "authorization_signer_root ref_externals ''signer'' 21 = Ok 102"
    "authorization_signer_root ref_externals ''signer-2'' 21 = Ok 104"
    "evaluator_verifier_root ref_externals ''evaluator'' 22 = Ok 103"
    by (simp_all add: authorization_signer_root_def evaluator_verifier_root_def from_public_key_def
        validate_key_id_def frame_def ref_digest_def AUTHORIZATION_SIGNER_ROOT_DOMAIN_def
        EVALUATOR_VERIFIER_ROOT_DOMAIN_def)
  have "length (?m ''signer'' 21) = 101" "length (?m ''signer-2'' 21) = 103"
    "length (?e ''evaluator'' 22) = 102"
    by (simp_all add: key_root_material_def frame_def AUTHORIZATION_SIGNER_ROOT_DOMAIN_def
        EVALUATOR_VERIFIER_ROOT_DOMAIN_def)
  then show ?thesis
    using key_roots_bind [OF roots] roots by (simp add: ref_digest_no_collision)
qed

section \<open>Envelopes\<close>

lemma sample_envelope:
  obtains e where "sign_cose ref_externals [1, 2, 3] ''domain'' sample_identity = Ok e"
proof -
  have "valid_text MAX_KEY_ID_BYTES (si_key_id sample_identity)" "valid_text MAX_DOMAIN_BYTES ''domain''"
    by code_simp+
  then show ?thesis
    by (rule ref_sign_cose [where p = "[1, 2, 3]"])
      (use that in \<open>simp_all add: sample_identity_def MAX_COSE_PAYLOAD_BYTES_def\<close>)
qed

text \<open>What is signed is verified: if an identity signs a payload for a domain, the verifier of
  that identity accepts the envelope for that domain and returns exactly that payload, under
  the documented behaviour of the COSE and Ed25519 libraries.\<close>

theorem signed_payload_verifies:
  assumes "cose_roundtrip X" "signature_correct X" "sign_cose X payload domain identity = Ok encoded"
  shows "verify_cose X encoded domain (identity_verifier X identity) = Ok payload"
  using assms by (rule verify_of_sign)

theorem signed_payload_verifies_witness:
  "\<exists>encoded. sign_cose ref_externals [1, 2, 3] ''domain'' sample_identity = Ok encoded
    \<and> verify_cose ref_externals encoded ''domain'' (identity_verifier ref_externals sample_identity)
      = Ok [1, 2, 3]"
proof -
  obtain e where "sign_cose ref_externals [1, 2, 3] ''domain'' sample_identity = Ok e"
    by (rule sample_envelope)
  then show ?thesis
    using signed_payload_verifies [OF ref_cose_roundtrip ref_signature_correct] by blast
qed

text \<open>An envelope has one meaning: if two verifiers accept the same bytes, whatever domains
  they expect, they have the same key identifier and return the same payload, both within the
  profile's limits.\<close>

theorem envelope_is_unambiguous:
  assumes "verify_cose X encoded d v = Ok p" "verify_cose X encoded d' v' = Ok p'"
  shows "cv_key_id v = cv_key_id v' \<and> p = p' \<and> length encoded \<le> MAX_COSE_SIZE_BYTES
    \<and> length p \<le> MAX_COSE_PAYLOAD_BYTES"
  using assms by (auto simp: verify_cose_def result_simps Let_def header_build_def)

theorem envelope_is_unambiguous_witness:
  "\<exists>encoded. verify_cose ref_externals encoded ''domain'' (identity_verifier ref_externals sample_identity)
      = Ok [1, 2, 3] \<and> length encoded \<le> MAX_COSE_SIZE_BYTES"
proof -
  obtain e where "sign_cose ref_externals [1, 2, 3] ''domain'' sample_identity = Ok e"
    by (rule sample_envelope)
  then have v: "verify_cose ref_externals e ''domain'' (identity_verifier ref_externals sample_identity)
      = Ok [1, 2, 3]"
    by (rule verify_of_sign [OF ref_cose_roundtrip ref_signature_correct])
  show ?thesis using envelope_is_unambiguous [OF v v] v by blast
qed

end
