(* ===== verification/Kernel_Authorization.thy ===== *)
theory Kernel_Authorization
  imports Kernel_Evaluation
begin

text \<open>
  The authorization checks of \<^verbatim>\<open>accordlock-kernel/src/lib.rs\<close>: the signature and canonical
  payload of a signed execution authorization, its intrinsic fields, its dispatch policy at
  a given time, and its agreement with an explicit verification context.
\<close>

section \<open>Intrinsic checks\<close>

fun lower_all :: "i64 \<Rightarrow> i64 list \<Rightarrow> i64" where
  "lower_all deadline [] = deadline"
| "lower_all deadline (e # es) = lower_all (min deadline e) es"

definition not_executable :: "string \<Rightarrow> KernelError" where
  "not_executable = AuthorizationNotExecutable"

definition validate_dispatch_policy_at ::
    "DispatchDeadlinePolicy \<Rightarrow> i64 \<Rightarrow> i64 \<Rightarrow> (unit, KernelError) result" where
  "validate_dispatch_policy_at policy now consume_before =
     (let expiries = dp_immutable_dependency_expiries policy in
     and_then (ensure (\<not> (dp_max_dispatch_delay_seconds policy \<le> 0
         \<or> dp_profile_hard_cap policy \<le> now
         \<or> MAX_IMMUTABLE_DEPENDENCY_EXPIRIES < length expiries
         \<or> list_ex (\<lambda>e. e \<le> now) expiries \<or> some_window_ge expiries))
       (not_executable ''dispatch deadline policy is invalid, expired, or noncanonical'')) (\<lambda>_.
     and_then (ok_or (i64_checked_add now (dp_max_dispatch_delay_seconds policy))
       (not_executable ''dispatch deadline overflows trusted time'')) (\<lambda>delay_deadline.
     let deadline = lower_all (min (min delay_deadline consume_before) (dp_profile_hard_cap policy))
           expiries
     in ensure (\<not> deadline \<le> now)
          (not_executable ''dispatch policy leaves no executable interval''))))"

definition digest_is_zero :: "digest32 \<Rightarrow> bool" where
  "digest_is_zero value \<longleftrightarrow> value = 0"

definition validate_executable_authorization_fields ::
    "ExecutionAuthorization \<Rightarrow> i64 \<Rightarrow> (unit, KernelError) result" where
  "validate_executable_authorization_fields a now =
     (let t = xa_template a in
     and_then (ensure (\<not> (list_ex (\<lambda>v. \<not> valid_security_text v)
           [xa_tenant a, xa_holder a, xa_audience a, dt_operation t, dt_environment t,
            dt_audience t, dt_repository t, dt_commit_sha t, dt_image_repository t,
            dt_cluster_identity t, dt_namespace t, dt_deployment t, dt_deployment_uid t,
            dt_container t, dt_resource_version t]
         \<or> \<not> is_commit_sha (dt_commit_sha t)
         \<or> list_ex (\<lambda>v. \<not> valid_security_text v) (List.map_filter id
             [dt_prior_transaction_annotation t, dt_prior_authorization_annotation t,
              dt_prior_operation_hash_annotation t])))
       (not_executable ''authorization scope, operation, or resource identity is malformed'')) (\<lambda>_.
     and_then (ensure (\<not> (xa_principals a = []
         \<or> MAX_AUTHORIZATION_PRINCIPALS < length (xa_principals a)
         \<or> list_ex (\<lambda>p. \<not> valid_security_text p) (xa_principals a)
         \<or> some_window_ge (xa_principals a)))
       (not_executable
         ''authorization principals must be bounded, nonempty, sorted, and duplicate-free'')) (\<lambda>_.
     and_then (ensure (\<not> list_ex digest_is_zero [xa_template_hash a, xa_evidence_root a,
         xa_policy_root a, dt_image_digest t, dt_prior_image_digest t, dt_prior_projection_hash t])
       (not_executable ''authorization security commitments must be non-zero'')) (\<lambda>_.
     and_then (ensure (\<not> list_ex (\<lambda>d. \<not> valid_authority_domain d) (domains (xa_authority a)))
       (not_executable
         ''authorization authority roots and activation identifiers must be non-zero'')) (\<lambda>_.
     validate_dispatch_policy_at (xa_dispatch_deadline_policy a) now (xa_consume_before a))))))"

section \<open>Contextual verification\<close>

record ExplicitAuthorizationVerificationContext =
  vc_now :: i64
  vc_expected_audience :: string
  vc_supplied_authority :: AuthorityVector

definition verification_context_new ::
    "i64 \<Rightarrow> string \<Rightarrow> AuthorityVector
     \<Rightarrow> (ExplicitAuthorizationVerificationContext, KernelError) result" where
  "verification_context_new now expected_audience supplied_authority =
     and_then (ensure (\<not> (now < 0 \<or> \<not> valid_security_text expected_audience))
       (InvalidContext ''authorization verification time or audience is invalid'')) (\<lambda>_.
     and_then (validate_authority_vector supplied_authority) (\<lambda>_.
     Ok \<lparr>vc_now = now, vc_expected_audience = expected_audience,
         vc_supplied_authority = supplied_authority\<rparr>))"

record ContextVerifiedAuthorization =
  cva_authorization :: ExecutionAuthorization
  cva_authorization_hash :: digest32

definition verify_authorization_signature ::
    "externals \<Rightarrow> SignedAuthorization \<Rightarrow> CoseVerifier \<Rightarrow> (unit, KernelError) result" where
  "verify_authorization_signature X sx verifier =
     and_then (map_err AuthorizationSignature
       (verify_cose X (sx_cose_sign1 sx) EXECUTION_AUTHORIZATION_DOMAIN verifier)) (\<lambda>signed_payload.
     and_then (map_err Canonical
       (canonical_bytes (x_cbor X) (VAuthorization (sx_authorization sx)))) (\<lambda>expected_payload.
     ensure (signed_payload = expected_payload) AuthorizationPayloadMismatch))"

definition verify_authorization_in_explicit_context ::
    "externals \<Rightarrow> SignedAuthorization \<Rightarrow> CoseVerifier \<Rightarrow> ExplicitAuthorizationVerificationContext
     \<Rightarrow> (ContextVerifiedAuthorization, KernelError) result" where
  "verify_authorization_in_explicit_context X sx verifier ctx =
     and_then (verify_authorization_signature X sx verifier) (\<lambda>_.
     let a = sx_authorization sx in
     and_then (ensure (xa_schema_version a = EXECUTION_AUTHORIZATION_SCHEMA_VERSION)
       (not_executable ''unsupported execution-authorization schema or profile'')) (\<lambda>_.
     and_then (ensure (\<not> list_ex is_nil [xa_authorization_id a, xa_evaluation_nonce a,
         xa_request_id a, xa_grant_id a])
       (not_executable ''authorization identifiers must be non-nil'')) (\<lambda>_.
     and_then (ensure (\<not> (xa_issued_at a < 0 \<or> vc_now ctx < xa_issued_at a
         \<or> xa_not_before a < xa_issued_at a \<or> vc_now ctx < xa_not_before a
         \<or> xa_consume_before a \<le> vc_now ctx))
       (not_executable ''authorization validity interval is empty, future, or expired'')) (\<lambda>_.
     and_then (ensure (xa_authority a = vc_supplied_authority ctx)
       (not_executable ''authorization authority is not the exact supplied authority vector'')) (\<lambda>_.
     and_then (ensure (\<not> (xa_audience a \<noteq> vc_expected_audience ctx
         \<or> dt_audience (xa_template a) \<noteq> vc_expected_audience ctx))
       (not_executable
         ''authorization and template audience do not match the executor audience'')) (\<lambda>_.
     and_then (validate_executable_authorization_fields a (vc_now ctx)) (\<lambda>_.
     and_then (map_err AuthorizationSignature
       (authorization_signer_root X (cv_key_id verifier) (cv_key verifier))) (\<lambda>signer_root.
     and_then (ensure (signer_root = ads_root (av_signer (vc_supplied_authority ctx)))
       (not_executable
         ''authorization verifier does not match the supplied signer authority root'')) (\<lambda>_.
     and_then (kernel_hash X (VTemplate (xa_template a))) (\<lambda>template_hash.
     and_then (ensure (xa_template_hash a = template_hash)
       (not_executable ''template hash does not match the canonical template'')) (\<lambda>_.
     and_then (ensure (xa_policy_root a = ads_root (av_policy (xa_authority a)))
       (not_executable ''policy root does not match the authorization authority'')) (\<lambda>_.
     and_then (kernel_hash X (VAuthorization a)) (\<lambda>authorization_hash.
     Ok \<lparr>cva_authorization = a, cva_authorization_hash = authorization_hash\<rparr>)))))))))))))"

definition verify_authorization ::
    "externals \<Rightarrow> SignedAuthorization \<Rightarrow> CoseVerifier \<Rightarrow> ExplicitAuthorizationVerificationContext
     \<Rightarrow> (ContextVerifiedAuthorization, KernelError) result" where
  "verify_authorization = verify_authorization_in_explicit_context"

section \<open>Facts\<close>

lemma lower_all_fold: "lower_all d es = fold min es d"
  by (induction es arbitrary: d) (simp_all add: min.commute)

lemma not_executable_inject [simp]: "not_executable m = AuthorizationNotExecutable m"
  by (simp add: not_executable_def)

end
