(* ===== verification/State_Validation.thy ===== *)
theory State_Validation
  imports State_Model
begin

text \<open>
  The second half of \<^verbatim>\<open>accordlock-state/src/model.rs\<close>: the admission context, claim requests
  and tokens, outbox entries, and the validations that decide whether a grant covers an
  authorization, whether an authorization may be consumed now, whether a stored consumption
  is intact, and whether it may still be dispatched. Each is characterised by what it
  guarantees when it accepts.
\<close>

section \<open>Admission context\<close>

record AdmissionContext =
  ac_key :: ConsumeKey
  ac_claim_id :: uuid
  ac_fence :: u64
  ac_physical_resource :: PhysicalResourceKey
  ac_credential_token_digest :: digest32
  ac_service_account_uid :: string
  ac_credential_id :: string
  ac_credential_not_before :: i64
  ac_credential_expires_at :: i64
  ac_credential_binding_commitment :: digest32
  ac_template :: DeploymentTemplate
  ac_template_hash :: digest32
  ac_operation_hash :: digest32
  ac_provider_request_commitment :: digest32
  ac_started_at :: i64
  ac_checked_at :: i64
  ac_dispatch_deadline :: i64
  ac_authority :: AuthorityVector

definition authorization_request ::
    "externals \<Rightarrow> AdmissionContext \<Rightarrow> string \<Rightarrow> string \<Rightarrow> string \<Rightarrow> digest32 \<Rightarrow> digest32 \<Rightarrow> digest32
     \<Rightarrow> digest32 \<Rightarrow> (AdmissionAuthorizationRequest, StateError) result" where
  "authorization_request X c admission_uid observed_service_account_uid observed_credential_id
       old_object_commitment new_object_commitment executor_identity_commitment
       observer_identity_commitment =
     and_then (ensure (\<not> (observed_service_account_uid \<noteq> ac_service_account_uid c
         \<or> observed_credential_id \<noteq> ac_credential_id c)) AdmissionCredentialMismatch) (\<lambda>_.
     let request = \<lparr>ar_key = ac_key c, ar_claim_id = ac_claim_id c, ar_fence = ac_fence c,
           ar_physical_resource = ac_physical_resource c,
           ar_credential_token_digest = ac_credential_token_digest c,
           ar_service_account_uid = ac_service_account_uid c,
           ar_credential_id = ac_credential_id c,
           ar_credential_binding_commitment = ac_credential_binding_commitment c,
           ar_admission_uid = admission_uid,
           ar_provider_request_commitment = ac_provider_request_commitment c,
           ar_old_object_commitment = old_object_commitment,
           ar_new_object_commitment = new_object_commitment,
           ar_executor_identity_commitment = executor_identity_commitment,
           ar_observer_identity_commitment = observer_identity_commitment\<rparr>
     in and_then (admission_request_validate X request) (\<lambda>_. Ok request))"

section \<open>Claims, receipts and snapshots\<close>

definition DISPATCH_CLAIM_LEASE_SECONDS :: i64 where
  "DISPATCH_CLAIM_LEASE_SECONDS = 30"

record DispatchClaimRequest =
  cl_key :: ConsumeKey
  cl_claim_id :: uuid
  cl_worker_id :: string

definition canonical_name_char :: "char \<Rightarrow> bool" where
  "canonical_name_char c \<longleftrightarrow> ascii_lower c \<or> ascii_digit c \<or> c \<in> set ''._-:/@''"

definition valid_canonical_worker_id :: "string \<Rightarrow> bool" where
  "valid_canonical_worker_id value \<longleftrightarrow>
     value \<noteq> [] \<and> length value \<le> 253 \<and> is_ascii value
     \<and> ascii_lower (hd value) \<and> ascii_alphanumeric (last value)
     \<and> list_all canonical_name_char value"

definition claim_request_validate :: "DispatchClaimRequest \<Rightarrow> (unit, StateError) result" where
  "claim_request_validate r =
     and_then (key_validate (cl_key r)) (\<lambda>_.
     ensure (\<not> (is_nil (cl_claim_id r) \<or> \<not> valid_canonical_worker_id (cl_worker_id r)))
       (InvalidRecord ''claim_id must be non-nil and worker_id must be canonical''))"

datatype OutboxStatus = PendingWitness

record OutboxEntry =
  ob_scope :: Scope
  ob_transaction_id :: uuid
  ob_authorization_id :: uuid
  ob_dispatch_deadline :: i64
  ob_status :: OutboxStatus
  ob_receipt :: ConsumptionReceipt

record ConsumeSuccess =
  ok_receipt :: ConsumptionReceipt
  ok_outbox :: OutboxEntry
  ok_issued :: IssuedAuthorizationRecord

record DispatchSnapshot =
  ds_scope :: Scope
  ds_checked_at :: i64
  ds_authority :: AuthorityVector
  ds_issued :: IssuedAuthorizationRecord
  ds_receipt :: ConsumptionReceipt
  ds_outbox :: OutboxEntry

record DispatchClaimToken =
  tk_key :: ConsumeKey
  tk_physical_resource :: PhysicalResourceKey
  tk_claim_id :: uuid
  tk_worker_id :: string
  tk_fence :: u64
  tk_claimed_at :: i64
  tk_lease_until :: i64
  tk_state_instance_id :: uuid

section \<open>Validations\<close>

definition validate_grant_for_authorization ::
    "GrantRegistration \<Rightarrow> ExecutionAuthorization \<Rightarrow> (unit, StateError) result" where
  "validate_grant_for_authorization r a =
     (let grant = gr_grant r; template = xa_template a in
      ensure (\<not> (gr_authority r \<noteq> xa_authority a
        \<or> gr_dispatch_deadline_policy r \<noteq> xa_dispatch_deadline_policy a
        \<or> cg_grant_id grant \<noteq> xa_grant_id a
        \<or> cg_tenant grant \<noteq> xa_tenant a
        \<or> gr_environment r \<noteq> dt_environment template
        \<or> cg_holder grant \<noteq> xa_holder a
        \<or> cg_operation grant \<noteq> dt_operation template
        \<or> cg_repository grant \<noteq> dt_repository template
        \<or> cg_audience grant \<noteq> xa_audience a
        \<or> cg_cluster_identity grant \<noteq> dt_cluster_identity template
        \<or> cg_namespace grant \<noteq> dt_namespace template
        \<or> cg_deployment_uid grant \<noteq> dt_deployment_uid template
        \<or> cg_container grant \<noteq> dt_container template
        \<or> cg_image_repository grant \<noteq> dt_image_repository template
        \<or> xa_issued_at a < cg_not_before grant
        \<or> cg_expires_at grant \<le> xa_issued_at a
        \<or> xa_not_before a < cg_not_before grant
        \<or> cg_expires_at grant < xa_consume_before a)) GrantMismatch)"

definition validate_current_grant ::
    "externals \<Rightarrow> AuthorityVector \<Rightarrow> GrantSnapshot \<Rightarrow> i64 \<Rightarrow> (unit, StateError) result" where
  "validate_current_grant X active_authority g observed_time =
     (let registration = gs_registration g; grant = gr_grant registration in
     and_then (ensure (\<not> observed_time < 0) ClockBeforeUnixEpoch) (\<lambda>_.
     and_then (registration_validate X registration) (\<lambda>_.
     and_then (ensure (gr_authority registration = active_authority) AuthorityMismatch) (\<lambda>_.
     and_then (ensure (\<not> gs_revoked g) GrantRevoked) (\<lambda>_.
     and_then (ensure (\<not> observed_time < cg_not_before grant)
       (GrantNotYetValid observed_time (cg_not_before grant))) (\<lambda>_.
     and_then (ensure (\<not> cg_expires_at grant \<le> observed_time)
       (GrantExpired observed_time (cg_expires_at grant))) (\<lambda>_.
     and_then (ensure (\<not> cg_maximum_uses grant \<le> gs_uses g) GrantExhausted) (\<lambda>_.
     and_then (compute_dispatch_deadline observed_time (cg_expires_at grant)
       (gr_dispatch_deadline_policy registration)) (\<lambda>_.
     Ok ())))))))))"

text \<open>The clock checks that open \<open>validate_consumption\<close> and \<open>validate_dispatch_snapshot\<close>.\<close>

definition check_clock :: "i64 \<Rightarrow> i64 option \<Rightarrow> (unit, StateError) result" where
  "check_clock observed_time high_water =
     and_then (ensure (\<not> observed_time < 0) ClockBeforeUnixEpoch) (\<lambda>_.
     case high_water of
       None \<Rightarrow> Ok ()
     | Some h \<Rightarrow> ensure (\<not> observed_time < h) (ClockRollback observed_time h))"

definition validate_consumption ::
    "externals \<Rightarrow> AuthorityVector \<Rightarrow> GrantSnapshot \<Rightarrow> IssuedAuthorizationRecord \<Rightarrow> i64
     \<Rightarrow> i64 option \<Rightarrow> (i64, StateError) result" where
  "validate_consumption X active_authority g issued observed_time high_water =
     and_then (check_clock observed_time high_water) (\<lambda>_.
     and_then (issued_validate X issued) (\<lambda>_.
     let authorization = ir_authorization issued in
     and_then (ensure (active_authority = xa_authority authorization) AuthorityMismatch) (\<lambda>_.
     and_then (validate_grant_for_authorization (gs_registration g) authorization) (\<lambda>_.
     and_then (ensure (\<not> observed_time < xa_not_before authorization)
       (AuthorizationNotYetValid observed_time (xa_not_before authorization))) (\<lambda>_.
     and_then (ensure (\<not> xa_consume_before authorization \<le> observed_time)
       (AuthorizationExpired observed_time (xa_consume_before authorization))) (\<lambda>_.
     and_then (validate_current_grant X active_authority g observed_time) (\<lambda>_.
     compute_dispatch_deadline observed_time (xa_consume_before authorization)
       (xa_dispatch_deadline_policy authorization))))))))"

definition validate_recovered_consumption ::
    "externals \<Rightarrow> ConsumeKey \<Rightarrow> IssuedAuthorizationRecord \<Rightarrow> ConsumptionReceipt \<Rightarrow> OutboxEntry
     \<Rightarrow> (ConsumeSuccess, StateError) result" where
  "validate_recovered_consumption X key issued receipt outbox =
     (let authorization = ir_authorization issued in
     and_then (key_validate key) (\<lambda>_.
     and_then (issued_validate X issued) (\<lambda>_.
     and_then (ensure (\<not> (ir_transaction_id issued \<noteq> ck_transaction_id key
         \<or> xa_authorization_id authorization \<noteq> ck_authorization_id key
         \<or> issued_scope issued \<noteq> ck_scope key)) TransactionMismatch) (\<lambda>_.
     and_then (compute_dispatch_deadline (cr_consumed_at receipt)
       (xa_consume_before authorization) (xa_dispatch_deadline_policy authorization)) (\<lambda>expected.
     and_then (ensure (\<not> (cr_schema_version receipt \<noteq> xa_schema_version authorization
         \<or> cr_transaction_id receipt \<noteq> ck_transaction_id key
         \<or> cr_authorization_id receipt \<noteq> ck_authorization_id key
         \<or> cr_authority receipt \<noteq> xa_authority authorization
         \<or> cr_authorization_hash receipt \<noteq> ir_authorization_hash issued
         \<or> cr_consumed_at receipt < xa_not_before authorization
         \<or> xa_consume_before authorization \<le> cr_consumed_at receipt
         \<or> cr_dispatch_deadline receipt \<noteq> expected
         \<or> ob_scope outbox \<noteq> ck_scope key
         \<or> ob_transaction_id outbox \<noteq> ck_transaction_id key
         \<or> ob_authorization_id outbox \<noteq> ck_authorization_id key
         \<or> ob_dispatch_deadline outbox \<noteq> expected
         \<or> ob_status outbox \<noteq> PendingWitness
         \<or> ob_receipt outbox \<noteq> receipt))
       (InvalidRecord
         ''recovered authorization, receipt, outbox, and consume key do not agree'')) (\<lambda>_.
     Ok \<lparr>ok_receipt = receipt, ok_outbox = outbox, ok_issued = issued\<rparr>))))))"

definition validate_dispatch_immutable_facts ::
    "externals \<Rightarrow> ConsumeKey \<Rightarrow> GrantSnapshot \<Rightarrow> IssuedAuthorizationRecord \<Rightarrow> ConsumptionReceipt
     \<Rightarrow> OutboxEntry \<Rightarrow> (unit, StateError) result" where
  "validate_dispatch_immutable_facts X key g issued receipt outbox =
     and_then (validate_recovered_consumption X key issued receipt outbox) (\<lambda>_.
     and_then (registration_validate X (gs_registration g)) (\<lambda>_.
     and_then (validate_grant_for_authorization (gs_registration g) (ir_authorization issued)) (\<lambda>_.
     and_then (ensure (gs_uses g \<noteq> 0) GrantNotConsumed) (\<lambda>_.
     ensure (\<not> cg_maximum_uses (gr_grant (gs_registration g)) < gs_uses g)
       (InvalidRecord ''stored grant use count exceeds its maximum'')))))"

definition validate_dispatch_snapshot ::
    "externals \<Rightarrow> ConsumeKey \<Rightarrow> AuthorityVector \<Rightarrow> GrantSnapshot \<Rightarrow> IssuedAuthorizationRecord
     \<Rightarrow> ConsumptionReceipt \<Rightarrow> OutboxEntry \<Rightarrow> i64 \<Rightarrow> i64 option
     \<Rightarrow> (DispatchSnapshot, StateError) result" where
  "validate_dispatch_snapshot X key active_authority g issued receipt outbox observed_time high_water =
     and_then (check_clock observed_time high_water) (\<lambda>_.
     and_then (validate_dispatch_immutable_facts X key g issued receipt outbox) (\<lambda>_.
     and_then (ensure (\<not> observed_time < cr_consumed_at receipt)
       (ClockRollback observed_time (cr_consumed_at receipt))) (\<lambda>_.
     let authorization = ir_authorization issued in
     and_then (ensure (\<not> gs_revoked g) GrantRevoked) (\<lambda>_.
     and_then (ensure (\<not> (active_authority \<noteq> xa_authority authorization
         \<or> active_authority \<noteq> cr_authority receipt
         \<or> active_authority \<noteq> gr_authority (gs_registration g))) AuthorityMismatch) (\<lambda>_.
     and_then (ensure (\<not> cr_dispatch_deadline receipt \<le> observed_time)
       (DispatchDeadlineExpired observed_time (cr_dispatch_deadline receipt))) (\<lambda>_.
     and_then (ensure (\<not> xa_consume_before authorization \<le> observed_time)
       (AuthorizationExpired observed_time (xa_consume_before authorization))) (\<lambda>_.
     and_then (validate_deadline_policy (xa_dispatch_deadline_policy authorization)) (\<lambda>_.
     case find (\<lambda>e. e \<le> observed_time)
         (dp_immutable_dependency_expiries (xa_dispatch_deadline_policy authorization)) of
       Some e \<Rightarrow> Err (DependencyExpired observed_time e)
     | None \<Rightarrow> Ok \<lparr>ds_scope = ck_scope key, ds_checked_at = observed_time,
         ds_authority = active_authority, ds_issued = issued, ds_receipt = receipt,
         ds_outbox = outbox\<rparr>))))))))"

section \<open>Deadlines\<close>

text \<open>Every bound the policy names, in one list; the computed deadline is their minimum.\<close>

definition deadline_bounds :: "i64 \<Rightarrow> i64 \<Rightarrow> DispatchDeadlinePolicy \<Rightarrow> i64 list" where
  "deadline_bounds t consume_before p =
     (t + dp_max_dispatch_delay_seconds p) # consume_before # dp_profile_hard_cap p
       # dp_immutable_dependency_expiries p"

lemma expiry_loop_Ok:
  "expiry_loop t d es = Ok x \<longleftrightarrow> list_all (\<lambda>e. t < e) es \<and> x = fold min es d"
  by (induction es arbitrary: d) (auto simp: min.commute)

lemma Min_fold_min: "fold min es d = Min (set (d # es))"
proof -
  have "Min (set (d # es)) = fold min es d" by (rule Min.set_eq_fold)
  then show ?thesis by simp
qed

lemma validate_deadline_policy_Ok [result_simps]:
  "validate_deadline_policy p = Ok u \<longleftrightarrow>
     0 < dp_max_dispatch_delay_seconds p \<and> 0 \<le> dp_profile_hard_cap p
     \<and> length (dp_immutable_dependency_expiries p) \<le> MAX_IMMUTABLE_DEPENDENCY_EXPIRIES
     \<and> list_all (\<lambda>e. 0 \<le> e) (dp_immutable_dependency_expiries p)
     \<and> sorted_wrt (<) (dp_immutable_dependency_expiries p)"
  by (auto simp: validate_deadline_policy_def result_simps some_window_ge_iff list_ex_iff
      list_all_iff not_less not_le)

lemma compute_dispatch_deadline_Ok:
  "compute_dispatch_deadline t consume_before p = Ok d \<longleftrightarrow>
     is_Ok (validate_deadline_policy p) \<and> 0 \<le> t \<and> i64_ok (t + dp_max_dispatch_delay_seconds p)
     \<and> list_all (\<lambda>b. t < b) (deadline_bounds t consume_before p)
     \<and> d = Min (set (deadline_bounds t consume_before p))" (is "?L \<longleftrightarrow> ?R")
proof -
  let ?es = "dp_immutable_dependency_expiries p"
  let ?m = "min (min (t + dp_max_dispatch_delay_seconds p) consume_before) (dp_profile_hard_cap p)"
  have m: "fold min ?es ?m = Min (set (deadline_bounds t consume_before p))"
    unfolding Min_fold_min deadline_bounds_def
    by (cases ?es) (simp_all add: min.assoc min.left_commute)
  have less: "t < Min (set (deadline_bounds t consume_before p))
      \<longleftrightarrow> list_all (\<lambda>b. t < b) (deadline_bounds t consume_before p)"
    unfolding list_all_iff by (subst Min_gr_iff) (auto simp: deadline_bounds_def)
  have pol: "(\<exists>u. validate_deadline_policy p = Ok u) \<longleftrightarrow> is_Ok (validate_deadline_policy p)"
    by (cases "validate_deadline_policy p") auto
  have "?L \<longleftrightarrow> (\<exists>u. validate_deadline_policy p = Ok u) \<and> 0 \<le> t \<and> 0 \<le> consume_before
      \<and> t < consume_before \<and> i64_ok (t + dp_max_dispatch_delay_seconds p)
      \<and> list_all (\<lambda>e. t < e) ?es \<and> t < fold min ?es ?m \<and> d = fold min ?es ?m"
    by (auto simp: compute_dispatch_deadline_def and_then_Ok ok_or_Ok ensure_Ok
        i64_checked_add_Some expiry_loop_Ok)
  also have "\<dots> \<longleftrightarrow> ?R"
    unfolding m less pol by (auto simp: deadline_bounds_def)
  finally show ?thesis .
qed

end
