(* ===== verification/State_Scenario.thy ===== *)
theory State_Scenario
  imports Kernel_Scenario Kernel_Authorization State_Validation
begin

text \<open>
  A concrete grant, its registration and a signed execution authorization under it, for the
  deployment of the kernel scenario, under the concrete external operations.
\<close>

section \<open>A grant and an authorization\<close>

definition sample_deadlines :: DispatchDeadlinePolicy where
  "sample_deadlines = \<lparr>dp_max_dispatch_delay_seconds = 60, dp_profile_hard_cap = 1150,
     dp_immutable_dependency_expiries = [1100, 1300]\<rparr>"

definition sample_grant :: CapabilityGrant where
  "sample_grant =
     \<lparr>cg_grant_id = 41, cg_holder = ''agent'', cg_tenant = ''acme'', cg_operation = DEPLOY_EKS_IMAGE_V1,
      cg_repository = ''org/app'', cg_audience = ''executor'', cg_cluster_identity = ''cluster'',
      cg_namespace = ''web'', cg_deployment_uid = ''uid'', cg_container = ''app'',
      cg_image_repository = ''registry/app'', cg_not_before = 900, cg_expires_at = 1400,
      cg_maximum_uses = 2\<rparr>"

definition sample_registration :: GrantRegistration where
  "sample_registration = \<lparr>gr_environment = ''prod'', gr_grant = sample_grant,
     gr_authority = sample_authority, gr_dispatch_deadline_policy = sample_deadlines\<rparr>"

text \<open>The identifier the issuer derives for this request: the digest keeps only the lengths, so what is
  left are the version and variant bits.\<close>

abbreviation derived_id :: uuid where
  "derived_id \<equiv> 0x80008000000000000000"

definition sample_authorization :: ExecutionAuthorization where
  "sample_authorization =
     \<lparr>xa_schema_version = 2, xa_authorization_id = derived_id, xa_evaluation_nonce = 12, xa_request_id = 11,
      xa_tenant = ''acme'', xa_holder = ''agent'', xa_audience = ''executor'', xa_issued_at = 1010,
      xa_not_before = 1010, xa_consume_before = 1200, xa_dispatch_deadline_policy = sample_deadlines,
      xa_grant_id = 41, xa_template = sample_template, xa_template_hash = 232, xa_evidence_root = 3155,
      xa_principals = [''principal''], xa_policy_root = 61, xa_authority = sample_authority\<rparr>"

definition sample_signer :: SigningIdentity where
  "sample_signer = \<lparr>si_key_id = ''signer'', si_key = 21\<rparr>"

definition sample_authorization_bytes :: bytes where
  "sample_authorization_bytes = ok_bytes (canonical_bytes rfc8949 (VAuthorization sample_authorization))"

definition sample_signed_authorization :: SignedAuthorization where
  "sample_signed_authorization =
     \<lparr>sx_authorization = sample_authorization, sx_cose_sign1 = ok_bytes
        (sign_cose ref_externals sample_authorization_bytes EXECUTION_AUTHORIZATION_DOMAIN sample_signer)\<rparr>"

definition sample_issued :: IssuedAuthorizationRecord where
  "sample_issued = \<lparr>ir_transaction_id = derived_id, ir_signed_authorization = sample_signed_authorization,
     ir_signer_key_id = ''signer'', ir_signer_public_key = 21,
     ir_authorization_hash = ref_digest sample_authorization_bytes\<rparr>"

section \<open>Facts\<close>

lemma sample_grant_hash: "grant_hash ref_externals sample_grant = Ok 139"
  by code_simp

lemma sample_template_hash: "canonical_hash rfc8949 ref_digest (VTemplate sample_template) = Ok 232"
  by code_simp

lemma sample_names: "list_all valid_security_text [''acme'', ''agent'', ''executor'', ''prod'', ''org/app'',
    ''registry/app'', ''cluster'', ''web'', ''app'', ''uid'', ''41'', ''principal'',
    DEPLOY_EKS_IMAGE_V1, replicate 40 (CHR ''a'')]"
  by code_simp

lemma sample_deadline_policy: "validate_deadline_policy sample_deadlines = Ok ()"
  by code_simp

lemma sample_deadline: "compute_dispatch_deadline 1010 1200 sample_deadlines = Ok 1070"
  by code_simp

lemma sample_trims: "list_all (\<lambda>s. trim s = s \<and> s \<noteq> []) [''acme'', ''agent'', ''executor'', ''prod'', ''org/app'',
    ''registry/app'', ''cluster'', ''web'', ''app'', ''uid'', DEPLOY_EKS_IMAGE_V1]"
  by code_simp

lemma sample_registration_validate: "registration_validate ref_externals sample_registration = Ok ()"
  using sample_trims sample_grant_hash sample_deadline_policy
  by (simp add: registration_validate_def registration_scope_def sample_registration_def
      state_validate_authority_vector_def domains_def sample_authority_def domain_at_def is_nil_def)
    (simp add: scope_validate_def sample_grant_def sample_deadlines_def is_nil_def)

lemma sample_signer_root: "authorization_signer_root ref_externals ''signer'' 21 = Ok 102"
proof -
  have "valid_text MAX_KEY_ID_BYTES ''signer''" by code_simp
  then show ?thesis
    by (simp add: authorization_signer_root_def from_public_key_def validate_key_id_def frame_def
        ref_digest_def AUTHORIZATION_SIGNER_ROOT_DOMAIN_def)
qed

lemma sample_authorization_canonical:
  "canonical_bytes rfc8949 (VAuthorization sample_authorization) = Ok sample_authorization_bytes"
  by (simp add: sample_authorization_bytes_def ok_bytes_def canonical_bytes_def authorization_tokens_def
      sample_authorization_def sample_deadlines_def require_sorted_unique_def some_window_ge_iff
      MAX_IMMUTABLE_DEPENDENCY_EXPIRIES_def Let_def)

lemma sample_authorization_length: "length sample_authorization_bytes \<le> 5000"
proof -
  obtain ts where ts: "authorization_tokens sample_authorization = Ok ts"
    and b: "sample_authorization_bytes = concat (map rfc8949 ts)"
    using sample_authorization_canonical by (auto simp: canonical_bytes_def and_then_Ok)
  have "sum_list (map (\<lambda>t. 9 + length (token_body t)) ts) \<le> 5000"
    using ts by (auto simp: authorization_tokens_def sample_authorization_def sample_deadlines_def
        and_then_Ok encode_dispatch_deadline_policy_def counted_def encode_template_def
        sample_template_def encode_sorted_strings_def encode_authority_def domains_def
        encode_domain_def sample_authority_def domain_at_def Let_def DEPLOY_EKS_IMAGE_V1_def
        EXECUTION_AUTHORIZATION_DOMAIN_def sort_dedup_def)
  then show ?thesis unfolding b using length_encoded [of ts] by linarith
qed

lemma sample_authorization_verifies:
  "verify_cose ref_externals (sx_cose_sign1 sample_signed_authorization) EXECUTION_AUTHORIZATION_DOMAIN
     \<lparr>cv_key_id = ''signer'', cv_key = 21\<rparr> = Ok sample_authorization_bytes"
proof -
  have "valid_text MAX_KEY_ID_BYTES (si_key_id sample_signer)"
    "valid_text MAX_DOMAIN_BYTES EXECUTION_AUTHORIZATION_DOMAIN" by code_simp+
  moreover have "length sample_authorization_bytes \<le> MAX_COSE_PAYLOAD_BYTES"
    using sample_authorization_length by (simp add: MAX_COSE_PAYLOAD_BYTES_def)
  ultimately obtain c where c: "sign_cose ref_externals sample_authorization_bytes
      EXECUTION_AUTHORIZATION_DOMAIN sample_signer = Ok c"
    by (rule ref_sign_cose) (simp_all add: sample_signer_def)
  have "identity_verifier ref_externals sample_signer = \<lparr>cv_key_id = ''signer'', cv_key = 21\<rparr>"
    by (simp add: identity_verifier_def sample_signer_def public_key_bytes_def)
  with verify_of_sign [OF ref_cose_roundtrip ref_signature_correct c] show ?thesis
    by (simp add: sample_signed_authorization_def c ok_bytes_def)
qed

lemma sample_authorization_hash:
  "canonical_hash rfc8949 ref_digest (VAuthorization sample_authorization)
     = Ok (ref_digest sample_authorization_bytes)"
  by (simp add: canonical_hash_def sample_authorization_canonical)

lemma sample_from_authorization:
  "from_authorization sample_authorization = Ok \<lparr>pk_cluster_identity = ''cluster'',
     pk_namespace = ''web'', pk_deployment_uid = ''uid''\<rparr>"
  by code_simp

lemma sample_issued_validate: "issued_validate ref_externals sample_issued = Ok ()"
proof -
  have a: "ir_authorization sample_issued = sample_authorization"
    by (simp add: ir_authorization_def sample_issued_def sample_signed_authorization_def)
  have k: "from_public_key ref_externals ''signer'' 21 = Ok \<lparr>cv_key_id = ''signer'', cv_key = 21\<rparr>"
    by code_simp
  show ?thesis
    unfolding issued_validate_def a
    using sample_authorization_canonical sample_authorization_verifies sample_authorization_hash
      sample_template_hash sample_trims
    by (simp add: sample_issued_def k sample_signer_root sample_from_authorization
        sample_deadline_policy)
      (simp add: sample_authorization_def sample_authority_def sample_template_def domain_at_def
        is_nil_def sample_deadline_policy
        state_validate_authority_vector_def domains_def EXECUTION_AUTHORIZATION_SCHEMA_VERSION_def)
qed

definition sample_granted :: GrantSnapshot where
  "sample_granted = \<lparr>gs_registration = sample_registration, gs_uses = 0, gs_revoked = False\<rparr>"

lemma sample_current_grant:
  "validate_current_grant ref_externals sample_authority sample_granted 1010 = Ok ()"
proof -
  have "compute_dispatch_deadline 1010 1400 sample_deadlines = Ok 1070" by code_simp
  then show ?thesis
    using sample_registration_validate
    by (simp add: validate_current_grant_def sample_granted_def sample_registration_def sample_grant_def
        word_le_nat_alt)
qed

lemma sample_grant_matches:
  "validate_grant_for_authorization sample_registration sample_authorization = Ok ()"
  by (simp add: validate_grant_for_authorization_def sample_registration_def sample_grant_def
      sample_authorization_def sample_template_def Let_def)

lemma sample_consumption:
  "validate_consumption ref_externals sample_authority sample_granted sample_issued 1010 (Some 1000)
     = Ok 1070"
proof -
  have "ir_authorization sample_issued = sample_authorization" "gs_registration sample_granted = sample_registration"
    by (simp_all add: ir_authorization_def sample_issued_def sample_signed_authorization_def sample_granted_def)
  then show ?thesis
    using sample_deadline
    by (simp add: validate_consumption_def check_clock_def sample_issued_validate sample_grant_matches
        sample_current_grant)
      (simp add: sample_authorization_def)
qed

definition sample_verification :: ExplicitAuthorizationVerificationContext where
  "sample_verification = \<lparr>vc_now = 1010, vc_expected_audience = ''executor'',
     vc_supplied_authority = sample_authority\<rparr>"

lemma sample_verified:
  "verify_authorization ref_externals sample_signed_authorization \<lparr>cv_key_id = ''signer'', cv_key = 21\<rparr>
     sample_verification
   = Ok \<lparr>cva_authorization = sample_authorization,
       cva_authorization_hash = ref_digest sample_authorization_bytes\<rparr>"
proof -
  have a: "sx_authorization sample_signed_authorization = sample_authorization"
    by (simp add: sample_signed_authorization_def)
  have p: "validate_dispatch_policy_at sample_deadlines 1010 1200 = Ok ()" by code_simp
  have c: "is_commit_sha (replicate 40 (CHR ''a''))" by code_simp
  have f: "validate_executable_authorization_fields sample_authorization 1010 = Ok ()"
    using p c sample_names
    by (simp add: validate_executable_authorization_fields_def sample_authorization_def
        sample_template_def sample_authority_def domain_at_def domains_def valid_authority_domain_def
        is_nil_def digest_is_zero_def map_filter_def MAX_AUTHORIZATION_PRINCIPALS_def some_window_ge_iff
        Let_def)
  show ?thesis
    unfolding verify_authorization_def verify_authorization_in_explicit_context_def
      verify_authorization_signature_def a
    using sample_authorization_canonical sample_authorization_verifies sample_authorization_hash
      sample_template_hash
    by (simp add: sample_verification_def f sample_signer_root)
      (simp add: sample_authorization_def sample_template_def sample_authority_def is_nil_def domain_at_def
        EXECUTION_AUTHORIZATION_SCHEMA_VERSION_def)
qed

end
