(* ===== verification/Kernel_Properties.thy ===== *)
theory Kernel_Properties
  imports Kernel_Decision State_Scenario
begin

text \<open>
  What the evaluation kernel promises: its decision is exactly the specification, its failures
  are exactly the documented ones, its attestation is bounded and encodable, its registry root
  determines the registry, and an authorization it verifies has a dispatch window for the
  transactional state.
\<close>

section \<open>A durable evaluation without evidence\<close>

definition no_evidence :: TrustedEvidenceSet where
  "no_evidence = \<lparr>te_request_id = 11, te_evidence = []\<rparr>"

definition sample_work :: ControlEvaluationWork where
  "sample_work =
     \<lparr>cw_lease = \<lparr>wl_state_instance_id = 71, wl_submission_id = 72, wl_phase = PhaseEvaluate,
        wl_worker_id = ''worker'', wl_claim_id = 73, wl_fence = 1, wl_claimed_at = 995, wl_lease_until = 1025\<rparr>,
      cw_scope = \<lparr>sc_tenant = ''acme'', sc_environment = ''prod''\<rparr>, cw_proposal = sample_proposal,
      cw_caller_tenant = ''acme'', cw_caller_actor = ''agent'', cw_accepted_at = 990,
      cw_ingress_expires_at = 1200, cw_ingress_authority_domain = domain_at 6,
      cw_active_authority = sample_authority, cw_evaluation_nonce = 12\<rparr>"

definition durable_context :: KernelContext where
  "durable_context = sample_context\<lparr>kc_control_work := Some sample_work\<rparr>"

lemma durable_within: "input_within_profile sample_proposal no_evidence durable_context"
  by (simp add: input_within_profile_def no_evidence_def durable_context_def sample_context_def
      sample_registry_def sample_proposal_def sample_template_def account_template_def account_defs
      DEPLOY_EKS_IMAGE_V1_def sample_policy_def policy_lists_def sample_attester_def identity_fields_def
      MAX_EVIDENCE_ITEMS_def MAX_REGISTERED_ATTESTERS_def MAX_SCOPES_PER_ATTESTER_def
      MAX_POLICY_ENTRIES_PER_FIELD_def)

lemma durable_denied:
  obtains att where "evaluate_inner ref_externals sample_proposal no_evidence durable_context = Ok att"
    and "at_outcome att = Deny" "length (at_reasons att) \<le> 10" "at_principals att = []"
proof -
  obtain att where att: "evaluate_inner ref_externals sample_proposal no_evidence durable_context = Ok att"
    using durable_within evaluate_inner_total by (metis result.collapse(1))
  obtain rs where v: "verify_evidence ref_externals no_evidence durable_context sample_proposal = ([], rs)"
      "length rs \<le> 1"
    using that by (cases "index_registry ref_externals Map.empty {}
      (aar_entries (kc_attester_registry durable_context))") (simp_all add: verify_evidence_def no_evidence_def)
  have r: "request_reasons sample_proposal no_evidence durable_context = []"
    using sample_request_ok by (simp add: request_reasons_Nil request_ok_def no_evidence_def
        durable_context_def sample_evidence_def)
  have b: "evaluate_behavior sample_template sample_policy []
      = [MissingReview, MissingBuild, MissingArtifact, TransformOutputMismatch, MissingTargetSnapshot]"
    by (simp add: evaluate_behavior_def of_kind_def)
  let ?rs = "rs @ evaluate_behavior sample_template sample_policy []"
  have "kc_policy durable_context = sample_policy" "kc_active_authority durable_context = sample_authority"
    by (simp_all add: durable_context_def)
  then have "at_outcome att = (if sort_dedup ?rs = [] then Allow else Deny)"
    "at_reasons att = (if sort_dedup ?rs = [] then [Allowed] else sort_dedup ?rs)" "at_principals att = []"
    using att sample_policy_root
    by (auto simp: evaluate_inner_def v(1) r and_then_Ok Let_def)
  then show ?thesis
    using that att v(2) length_sort_dedup [of ?rs] by (simp add: b sort_dedup_Nil)
qed

lemma attestation_length:
  assumes "evaluate_inner ref_externals sample_proposal no_evidence durable_context = Ok att"
    and "length (at_reasons att) \<le> 10" "at_principals att = []"
    and "canonical_bytes rfc8949 (VAttestation att) = Ok payload"
  shows "length payload \<le> 5000"
proof -
  have f: "at_tenant att = ''acme''" "at_actor att = ''agent''" "at_authority att = sample_authority"
    using assms(1) by (elim evaluate_inner_Ok; simp add: durable_context_def)+
  obtain ts where ts: "attestation_tokens att = Ok ts" and b: "payload = concat (map rfc8949 ts)"
    using assms(4) by (auto simp: canonical_bytes_def and_then_Ok)
  have "sum_list (map (\<lambda>t. 9 + length (token_body t)) ts) \<le> 5000"
    using ts assms(2)
    by (auto simp: attestation_tokens_def and_then_Ok f assms(3) counted_def comp_def sum_list_triv
        encode_sorted_strings_def sort_dedup_def
        encode_authority_def domains_def encode_domain_def sample_authority_def domain_at_def
        EVALUATION_DOMAIN_def)
  then show ?thesis unfolding b using length_encoded [of ts] by linarith
qed

lemma durable_evaluation:
  obtains sv where "evaluate_control ref_externals durable_context no_evidence sample_evaluator
      = Ok (sample_work, sv)" "at_outcome (sv_attestation sv) = Deny"
proof -
  obtain att where att: "evaluate_inner ref_externals sample_proposal no_evidence durable_context = Ok att"
    "at_outcome att = Deny" "length (at_reasons att) \<le> 10" "at_principals att = []"
    by (rule durable_denied)
  obtain payload where p: "canonical_bytes rfc8949 (VAttestation att) = Ok payload"
    using attestation_encodable [OF att(1)] by (auto simp: canonical_bytes_def)
  have texts: "valid_text MAX_KEY_ID_BYTES ''evaluator''" "valid_text MAX_DOMAIN_BYTES EVALUATION_DOMAIN"
    by code_simp+
  have len: "length payload \<le> MAX_COSE_PAYLOAD_BYTES"
    using attestation_length [OF att(1,3,4) p] by (simp add: MAX_COSE_PAYLOAD_BYTES_def)
  obtain c where c: "sign_cose ref_externals payload EVALUATION_DOMAIN sample_evaluator = Ok c"
    by (rule ref_sign_cose [OF _ texts(2) len, of sample_evaluator])
      (use texts(1) in \<open>simp_all add: sample_evaluator_def\<close>)
  have "kc_control_work durable_context = Some sample_work" "kc_proposal durable_context = sample_proposal"
    "ads_root (av_kernel_configuration (kc_active_authority durable_context)) = 103"
    by (simp_all add: durable_context_def sample_authority_def)
  then have "evaluate_control ref_externals durable_context no_evidence sample_evaluator
      = Ok (sample_work, \<lparr>sv_attestation = att, sv_cose_sign1 = c\<rparr>)"
    using att(1) p c sample_evaluator_root
    by (simp add: evaluate_control_def sign_evaluation_def public_key_bytes_def sample_evaluator_def)
  with that att(2) show ?thesis by simp
qed

section \<open>Decisions\<close>

text \<open>C3. The kernel decides the specification: for a context whose attester registry was activated,
  and inputs within the profile's limits, the evaluation returns an attestation, and the
  outcome is Allow if and only if the request is authorised, every item of evidence is
  authentic, in scope, current and unique, and the lineage from review through build and
  artifact to the target is unbroken.\<close>

theorem kernel_decides_specification:
  assumes "registry_new X domain entries = Ok (kc_attester_registry context)"
    and "kc_control_work context = None" "input_within_profile proposal evidence context"
  shows "\<exists>att. evaluate X proposal evidence context = Ok att
    \<and> (at_outcome att = Allow \<longleftrightarrow> allow_spec X proposal evidence context)"
proof -
  obtain att where att: "evaluate_inner X proposal evidence context = Ok att"
    using assms(3) evaluate_inner_total by (metis result.collapse(1))
  then show ?thesis
    using evaluate_inner_outcome [OF att registry_new_wf [OF assms(1)]] assms(2)
    by (simp add: evaluate_def)
qed

theorem kernel_decides_specification_witness:
  "\<exists>att. evaluate ref_externals sample_proposal sample_evidence sample_context = Ok att
    \<and> at_outcome att = Allow"
proof -
  have "kc_control_work sample_context = None" by (simp add: sample_context_def)
  then show ?thesis
    using kernel_decides_specification
        [of ref_externals "domain_at 292" "[sample_attester]" sample_context, OF _ _ sample_within]
      sample_registry_new sample_allow_spec by simp
qed

text \<open>The kernel fails in two ways only: an evaluation is refused exactly when the context
  belongs to durable control work or the input exceeds the profile's limits, with the error of
  that case; everything else is an attestation.\<close>

theorem kernel_errors:
  "evaluate X proposal evidence context = Err e \<longleftrightarrow>
     (if kc_control_work context \<noteq> None then e = DurableContextRequiresConsumingEvaluation
      else \<not> input_within_profile proposal evidence context \<and> e = InputLimitExceeded)"
  using evaluate_inner_total [of X proposal evidence "context"]
  by (auto simp: evaluate_def evaluate_inner_def ensure_def)

text \<open>C34. An attestation is bounded by everything it rests on: it can be encoded, it carries the
  request, caller, nonce, time and authority of the context, its reasons are Allowed alone or a
  strictly sorted non-empty list, and its consumption bound is at most the expiry of the
  ingress envelope, the policy's lifetime and, when allowed, the expiry of every item of
  evidence.\<close>

theorem attestation_is_bounded:
  assumes "evaluate X proposal evidence context = Ok att"
  shows "is_Ok (canonical_bytes (x_cbor X) (VAttestation att))
    \<and> at_request_id att = ap_request_id proposal \<and> at_evaluation_nonce att = kc_evaluation_nonce context
    \<and> at_authority att = kc_active_authority context \<and> at_evaluated_at att = kc_now context
    \<and> at_consume_before att \<le> kc_ingress_expires_at context
    \<and> at_consume_before att \<le> i64_saturating_add (kc_now context)
         (pc_maximum_authorization_lifetime_seconds (kc_policy context))
    \<and> (if at_outcome att = Allow
       then at_reasons att = [Allowed]
         \<and> list_all (\<lambda>s. at_consume_before att \<le> ea_valid_until (se_assertion s)) (te_evidence evidence)
       else at_reasons att \<noteq> [] \<and> sorted_wrt (<) (at_reasons att))"
proof -
  have inner: "evaluate_inner X proposal evidence context = Ok att"
    using assms by (simp add: evaluate_def and_then_Ok)
  obtain ts where "canonical_tokens (VAttestation att) = Ok ts"
    using attestation_encodable [OF inner] by blast
  then have enc: "is_Ok (canonical_bytes (x_cbor X) (VAttestation att))"
    by (simp add: canonical_bytes_def)
  show ?thesis
  proof (rule evaluate_inner_Ok [OF inner], goal_cases)
    case (1 vs rs)
    show ?case
    proof (cases "at_outcome att")
      case Allow
      then show ?thesis using 1 enc consume_before_bounds [OF inner] by (simp add: list_all_iff)
    next
      case Deny
      then show ?thesis using 1 enc consume_before_bounds(1,2) [OF inner] by simp
    qed
  qed
qed

theorem attestation_is_bounded_witness:
  "\<exists>att. evaluate ref_externals sample_proposal sample_evidence sample_context = Ok att
    \<and> at_consume_before att \<le> 1200"
proof -
  obtain att where att: "evaluate_inner ref_externals sample_proposal sample_evidence sample_context = Ok att"
    using sample_within evaluate_inner_total by (metis result.collapse(1))
  have "kc_control_work sample_context = None" by (simp add: sample_context_def)
  then have "evaluate ref_externals sample_proposal sample_evidence sample_context = Ok att"
    using att by (simp add: evaluate_def)
  from attestation_is_bounded [OF this] this show ?thesis by auto
qed

text \<open>Durable evaluation hands back the work it was given with a verifiable evaluation: if the
  control evaluation succeeds, the returned work is the context's own, the evaluator's key is
  the one the active authority commits to, the attestation is the kernel's decision for the
  submitted proposal, and the envelope verifies under the evaluator's key to the canonical
  bytes of that attestation.\<close>

theorem control_evaluation_is_verifiable:
  assumes "cose_roundtrip X" "signature_correct X"
    and "evaluate_control X context evidence evaluator = Ok (work, sv)"
  shows "kc_control_work context = Some work
    \<and> evaluator_verifier_root X (si_key_id evaluator) (public_key_bytes X evaluator)
        = Ok (ads_root (av_kernel_configuration (kc_active_authority context)))
    \<and> evaluate_inner X (kc_proposal context) evidence context = Ok (sv_attestation sv)
    \<and> map_err Inl (verify_cose X (sv_cose_sign1 sv) EVALUATION_DOMAIN (identity_verifier X evaluator))
        = map_err Inr (canonical_bytes (x_cbor X) (VAttestation (sv_attestation sv)))"
  using assms(3) verify_of_sign [OF assms(1,2)]
  by (auto simp: evaluate_control_def sign_evaluation_def result_simps)

theorem control_evaluation_is_verifiable_witness:
  "\<exists>sv. evaluate_control ref_externals durable_context no_evidence sample_evaluator = Ok (sample_work, sv)
    \<and> at_outcome (sv_attestation sv) = Deny
    \<and> map_err Inl (verify_cose ref_externals (sv_cose_sign1 sv) EVALUATION_DOMAIN
        (identity_verifier ref_externals sample_evaluator))
      = map_err Inr (canonical_bytes rfc8949 (VAttestation (sv_attestation sv)))"
proof -
  obtain sv where sv: "evaluate_control ref_externals durable_context no_evidence sample_evaluator
      = Ok (sample_work, sv)" "at_outcome (sv_attestation sv) = Deny"
    by (rule durable_evaluation)
  from control_evaluation_is_verifiable [OF ref_cose_roundtrip ref_signature_correct sv(1)] sv
  show ?thesis by auto
qed

section \<open>The attester registry\<close>

text \<open>C40. An activated registry is well formed: its entries are sorted by issuer and key identifier
  without duplicates, no two share a public key, every entry has valid texts, a valid
  Ed25519 key, a bounded grade and a bounded non-empty list of scopes, there are boundedly many
  of them, and the root of its authority domain is the root computed from them.\<close>

theorem activated_registry_is_well_formed:
  assumes "registry_new X domain entries = Ok r"
  shows "registry_wf X (aar_entries r) \<and> aar_entries r = entries \<and> aar_authority_domain r = domain
    \<and> compute_root X (aar_entries r) = Ok (ads_root domain)
    \<and> length (aar_entries r) \<le> MAX_REGISTERED_ATTESTERS"
  using registry_new_wf [OF assms] assms
  by (auto simp: registry_new_def compute_root_def canonical_attester_registry_material_def result_simps)

theorem activated_registry_is_well_formed_witness:
  "registry_wf ref_externals (aar_entries sample_registry)
    \<and> compute_root ref_externals (aar_entries sample_registry) = Ok 292"
  using activated_registry_is_well_formed [OF sample_registry_new] by (simp add: domain_at_def)

lemma sample_materials:
  obtains m n where "canonical_attester_registry_material ref_externals [sample_attester] = Ok m"
    "length m = 291"
    "canonical_attester_registry_material ref_externals [sample_attester\<lparr>ra_principal_id := ''principal-2''\<rparr>] = Ok n"
    "length n = 293"
proof -
  let ?len = "\<lambda>es. map_result length id (canonical_attester_registry_material ref_externals es)"
  have "?len [sample_attester] = Ok 291"
    "?len [sample_attester\<lparr>ra_principal_id := ''principal-2''\<rparr>] = Ok 293"
    by code_simp+
  with that show ?thesis
    by (cases "canonical_attester_registry_material ref_externals [sample_attester]";
        cases "canonical_attester_registry_material ref_externals
          [sample_attester\<lparr>ra_principal_id := ''principal-2''\<rparr>]") simp_all
qed

text \<open>The registry root determines the registry: two lists of attesters with a registry material
  on which SHA-256 does not collide have the same root if and only if they are equal, entry by
  entry and scope by scope, in order.\<close>

theorem registry_root_binds:
  assumes "canonical_attester_registry_material X es = Ok m"
    and "canonical_attester_registry_material X fs = Ok n" "no_collision (x_sha256 X) m n"
  shows "compute_root X es = compute_root X fs \<longleftrightarrow> es = fs"
  using assms registry_material_inj [of X es m fs] by (auto simp: compute_root_def)

theorem registry_root_binds_witness:
  "compute_root ref_externals [sample_attester]
     \<noteq> compute_root ref_externals [sample_attester\<lparr>ra_principal_id := ''principal-2''\<rparr>]"
proof -
  let ?b = "sample_attester\<lparr>ra_principal_id := ''principal-2''\<rparr>"
  obtain m n where m: "canonical_attester_registry_material ref_externals [sample_attester] = Ok m" "length m = 291"
    and n: "canonical_attester_registry_material ref_externals [?b] = Ok n" "length n = 293"
    by (rule sample_materials)
  then have "no_collision (x_sha256 ref_externals) m n" by (simp add: ref_digest_no_collision)
  from registry_root_binds [OF m(1) n(1) this] show ?thesis by (simp add: sample_attester_def)
qed

section \<open>Verified authorizations\<close>

text \<open>The kernel's check of a dispatch policy at a time, against the state's computation.\<close>

lemma dispatch_policy_has_deadline:
  assumes "validate_dispatch_policy_at p now consume_before = Ok ()" "0 \<le> now"
  shows "\<exists>d. compute_dispatch_deadline now consume_before p = Ok d \<and> now < d \<and> d \<le> consume_before"
proof -
  let ?B = "set (deadline_bounds now consume_before p)" and ?es = "dp_immutable_dependency_expiries p"
  have p: "0 < dp_max_dispatch_delay_seconds p" "now < dp_profile_hard_cap p"
      "length ?es \<le> MAX_IMMUTABLE_DEPENDENCY_EXPIRIES" "\<forall>e \<in> set ?es. now < e" "sorted_wrt (<) ?es"
      "i64_ok (now + dp_max_dispatch_delay_seconds p)" "now < consume_before"
    using assms(1) unfolding validate_dispatch_policy_at_def Let_def and_then_Ok ensure_Ok ok_or_Ok
      i64_checked_add_Some lower_all_fold Min_fold_min
    by (auto simp: list_ex_iff some_window_ge_iff not_le Min_gr_iff)
  have "compute_dispatch_deadline now consume_before p = Ok (Min ?B)"
    unfolding compute_dispatch_deadline_Ok
    using p assms(2) by (auto simp: is_Ok_def result_simps list_all_iff deadline_bounds_def)
  moreover have "now < Min ?B"
    using p by (subst Min_gr_iff) (auto simp: deadline_bounds_def)
  moreover have "Min ?B \<le> consume_before" by (rule Min_le) (simp_all add: deadline_bounds_def)
  ultimately show ?thesis by blast
qed

text \<open>C35. A verified authorization can be dispatched: if the kernel verifies a signed authorization in
  a context, then the signature covers exactly the canonical bytes of the authorization, its
  authority and audience are those of the context, its hash is its canonical hash, and the
  transactional state computes at the same time a dispatch deadline strictly in the future
  and not after the authorization's own bound.\<close>

theorem verified_authorization_is_dispatchable:
  assumes "verify_authorization X sx verifier ctx = Ok v"
  shows "cva_authorization v = sx_authorization sx
    \<and> xa_authority (sx_authorization sx) = vc_supplied_authority ctx
    \<and> xa_audience (sx_authorization sx) = vc_expected_audience ctx
    \<and> canonical_hash (x_cbor X) (x_sha256 X) (VAuthorization (sx_authorization sx))
        = Ok (cva_authorization_hash v)
    \<and> map_err Inl (verify_cose X (sx_cose_sign1 sx) EXECUTION_AUTHORIZATION_DOMAIN verifier)
        = map_err Inr (canonical_bytes (x_cbor X) (VAuthorization (sx_authorization sx)))
    \<and> (\<exists>d. compute_dispatch_deadline (vc_now ctx) (xa_consume_before (sx_authorization sx))
           (xa_dispatch_deadline_policy (sx_authorization sx)) = Ok d
         \<and> vc_now ctx < d \<and> d \<le> xa_consume_before (sx_authorization sx))"
proof -
  let ?a = "sx_authorization sx"
  from assms have base: "cva_authorization v = ?a" "xa_authority ?a = vc_supplied_authority ctx"
      "xa_audience ?a = vc_expected_audience ctx"
      "canonical_hash (x_cbor X) (x_sha256 X) (VAuthorization ?a) = Ok (cva_authorization_hash v)"
    and sig: "verify_authorization_signature X sx verifier = Ok ()"
    and now: "0 \<le> vc_now ctx"
    and fields: "validate_executable_authorization_fields ?a (vc_now ctx) = Ok ()"
    by (auto simp: verify_authorization_def verify_authorization_in_explicit_context_def result_simps Let_def)
  have "map_err Inl (verify_cose X (sx_cose_sign1 sx) EXECUTION_AUTHORIZATION_DOMAIN verifier)
      = map_err Inr (canonical_bytes (x_cbor X) (VAuthorization ?a))"
    using sig by (auto simp: verify_authorization_signature_def result_simps)
  moreover have "validate_dispatch_policy_at (xa_dispatch_deadline_policy ?a) (vc_now ctx)
      (xa_consume_before ?a) = Ok ()"
    using fields by (auto simp: validate_executable_authorization_fields_def and_then_Ok Let_def)
  ultimately show ?thesis
    using base dispatch_policy_has_deadline [OF _ now] by blast
qed

theorem verified_authorization_is_dispatchable_witness:
  "cva_authorization_hash \<lparr>cva_authorization = sample_authorization,
       cva_authorization_hash = ref_digest sample_authorization_bytes\<rparr> = ref_digest sample_authorization_bytes
    \<and> (\<exists>d. compute_dispatch_deadline 1010 1200 sample_deadlines = Ok d \<and> 1010 < d \<and> d \<le> 1200)"
  using verified_authorization_is_dispatchable [OF sample_verified]
  by (simp add: sample_verification_def sample_signed_authorization_def sample_authorization_def)

end
