(* ===== verification/Dispatch_Model.thy ===== *)
theory Dispatch_Model
  imports State_Validation
begin

text \<open>
  The data of \<^verbatim>\<open>accordlock-dispatch/src/model.rs\<close>: authority versions, physical
  destinations and their owners, consumption bindings, credential claims, the lifecycle
  phases, the evidence values that external services hand in, and the commitment that the
  machine retains for an observed effect. That commitment is shown to bind every field of
  the evidence.
\<close>

section \<open>Identities and bindings\<close>

record AuthorityVersion =
  ver_root :: digest32
  ver_epoch :: u64

record PhysicalResourceId =
  ph_cluster_trust_domain :: string
  ph_api_server_identity :: string
  ph_namespace :: string
  ph_deployment_uid :: string

record LogicalOwner =
  lo_tenant :: string
  lo_environment :: string

record CredentialProfile =
  cp_token_subject :: string
  cp_token_audience :: string
  cp_effective_rbac_commitment :: digest32

record EffectTemplate =
  et_template_hash :: digest32
  et_operation_hash :: digest32
  et_execution_command_commitment :: digest32
  et_final_wire_commitment :: digest32

record ConsumptionBinding =
  cb_authorization_id :: uuid
  cb_authorization_hash :: digest32
  cb_receipt_commitment :: digest32
  cb_effect :: EffectTemplate

record PreparedExecution =
  px_bound_object_uid :: string
  px_template_hash :: digest32
  px_operation_hash :: digest32
  px_token_subject :: string
  px_token_audience :: string
  px_effective_rbac_commitment :: digest32
  px_execution_command_commitment :: digest32
  px_final_wire_commitment :: digest32

record CredentialClaims =
  cc_token_digest :: digest32
  cc_subject :: string
  cc_audience :: string
  cc_service_account_uid :: string
  cc_credential_id :: string
  cc_bound_object_uid :: string
  cc_not_before :: i64
  cc_expires_at :: i64

record NonIssuanceEvidence =
  ni_transaction_id :: uuid
  ni_physical :: PhysicalResourceId
  ni_bound_object_name :: string
  ni_bound_object_uid :: "string option"
  ni_template_hash :: digest32
  ni_operation_hash :: digest32
  ni_evidence_commitment :: digest32

record CredentialInvalidationEvidence =
  ci_transaction_id :: uuid
  ci_physical :: PhysicalResourceId
  ci_bound_object_name :: string
  ci_bound_object_uid :: string
  ci_token_digest :: "digest32 option"
  ci_template_hash :: digest32
  ci_operation_hash :: digest32
  ci_execution_command_commitment :: digest32
  ci_final_wire_commitment :: digest32
  ci_effective_rbac_commitment :: digest32
  ci_evidence_commitment :: digest32

record EffectBinding =
  eb_template_hash :: digest32
  eb_operation_hash :: digest32
  eb_execution_command_commitment :: digest32
  eb_final_wire_commitment :: digest32
  eb_effective_rbac_commitment :: digest32
  eb_token_digest :: digest32

record AuthenticatedObserver =
  ao_identity :: string
  ao_authentication_commitment :: digest32

record ExactEffectEvidence =
  ee_transaction_id :: uuid
  ee_physical :: PhysicalResourceId
  ee_binding :: EffectBinding
  ee_response_commitment :: digest32
  ee_post_state_commitment :: digest32
  ee_observed_resource_uid :: string
  ee_observed_resource_version :: string
  ee_observed_at :: i64
  ee_observer :: AuthenticatedObserver

section \<open>Phases, outcomes and errors\<close>

datatype LifecyclePhase =
    Consumed | DispatchWaitingResource | BoundObjectCreatePending | BoundObjectCreateInFlight
  | BoundObjectCreateUnknown | BoundObjectReconciling | CredentialPrepared | CredentialIssuing
  | CredentialIssueUnknown | CredentialInvalidating | CredentialReady | ReleaseCancelled
  | EffectReleased | Executing | ExecutionUnknown | Reconciling | Executed | ExecutionFailed
  | CredentialQuarantined | CredentialSafeExpired | ManualResolutionRequired | TransactionFinal

datatype ProviderOutcome = Success ExactEffectEvidence | Unknown

datatype ReconciliationOutcome =
    ExactEffect ExactEffectEvidence | NoEffectNotEstablished | Ambiguous

datatype BoundObjectObservation = Absent | Matching PreparedExecution | Conflicting

record EffectEvidenceSnapshot =
  es_transaction_id :: uuid
  es_physical :: PhysicalResourceId
  es_phase :: LifecyclePhase
  es_evidence_commitment :: "digest32 option"

record DispatchClaim =
  dc_transaction_id :: uuid
  dc_physical :: PhysicalResourceId
  dc_consumption :: ConsumptionBinding
  dc_worker :: string
  dc_fence :: u64
  dc_reservation_generation :: u64
  dc_bound_object_name :: string

datatype DispatchError =
    InvalidBounds | InvalidTime | AliasConflict | InvalidIdentity | RegistrationMismatch
  | DuplicateTransaction | ConsumptionReplay | UnknownTransaction | InvalidTransition
  | AuthorityChanged | AuthorityRollback | EmergencyStop | DeadlineExpired | ResourceBusy
  | StaleLease | InvalidCredential | InvalidCommitment | InvalidEvidence | CredentialStillLive
  | ArithmeticOverflow

section \<open>Bounds\<close>

record DispatchBounds =
  db_max_dispatch_delay_s :: i64
  db_token_lifetime_upper_bound_s :: i64
  db_clock_uncertainty_s :: i64
  db_minimum_remaining_lifetime_s :: i64
  db_lease_ttl_s :: i64

definition bounds_validate :: "DispatchBounds \<Rightarrow> (DispatchBounds, DispatchError) result" where
  "bounds_validate b =
     and_then (ensure (\<not> (db_max_dispatch_delay_s b \<le> 0 \<or> db_token_lifetime_upper_bound_s b \<le> 0
         \<or> db_clock_uncertainty_s b < 0 \<or> db_minimum_remaining_lifetime_s b \<le> 0
         \<or> db_lease_ttl_s b \<le> 0)) InvalidBounds) (\<lambda>_. Ok b)"

section \<open>The evidence commitment\<close>

text \<open>\<open>update_string\<close>: a \<open>u128\<close> big-endian length, then the bytes.\<close>

definition update_string :: "string \<Rightarrow> bytes" where
  "update_string value = be_bytes 16 (length value) @ str_bytes value"

definition i64_be_bytes :: "i64 \<Rightarrow> bytes" where
  "i64_be_bytes t = be_bytes 8 (nat (t mod 2 ^ 64))"

definition evidence_material :: "ExactEffectEvidence \<Rightarrow> bytes" where
  "evidence_material e =
     (let p = ee_physical e; b = ee_binding e in
      str_bytes ''ACCORDLOCK_DISPATCH_EXACT_EFFECT_EVIDENCE_V1'' @ [0]
      @ uuid_bytes (ee_transaction_id e)
      @ update_string (ph_cluster_trust_domain p)
      @ update_string (ph_api_server_identity p)
      @ update_string (ph_namespace p)
      @ update_string (ph_deployment_uid p)
      @ digest_bytes (eb_template_hash b)
      @ digest_bytes (eb_operation_hash b)
      @ digest_bytes (eb_execution_command_commitment b)
      @ digest_bytes (eb_final_wire_commitment b)
      @ digest_bytes (eb_effective_rbac_commitment b)
      @ digest_bytes (eb_token_digest b)
      @ digest_bytes (ee_response_commitment e)
      @ digest_bytes (ee_post_state_commitment e)
      @ update_string (ee_observed_resource_uid e)
      @ update_string (ee_observed_resource_version e)
      @ i64_be_bytes (ee_observed_at e)
      @ update_string (ao_identity (ee_observer e))
      @ digest_bytes (ao_authentication_commitment (ee_observer e)))"

definition evidence_commitment :: "externals \<Rightarrow> ExactEffectEvidence \<Rightarrow> digest32" where
  "evidence_commitment X e = x_sha256 X (evidence_material e)"

section \<open>The commitment binds the evidence\<close>

text \<open>Every value of the program: lengths fit \<open>isize\<close>, times fit \<open>i64\<close>.\<close>

definition evidence_ok :: "ExactEffectEvidence \<Rightarrow> bool" where
  "evidence_ok e \<longleftrightarrow>
     list_all str_ok [ph_cluster_trust_domain (ee_physical e), ph_api_server_identity (ee_physical e),
       ph_namespace (ee_physical e), ph_deployment_uid (ee_physical e),
       ee_observed_resource_uid e, ee_observed_resource_version e, ao_identity (ee_observer e)]
     \<and> i64_ok (ee_observed_at e)"

lemma update_string_cancel [frame_simps]:
  assumes "str_ok s" "str_ok t"
  shows "update_string s @ xs = update_string t @ ys \<longleftrightarrow> s = t \<and> xs = ys"
proof -
  have "length s < 256 ^ 16" "length t < 256 ^ 16" using assms by (simp_all add: str_ok_def)
  then have "be_bytes 16 (length s) = be_bytes 16 (length t) \<longleftrightarrow> length s = length t"
    by (rule be_bytes_inj)
  then show ?thesis by (auto simp: update_string_def)
qed

lemma update_string_inj: "str_ok s \<Longrightarrow> str_ok t \<Longrightarrow> update_string s = update_string t \<longleftrightarrow> s = t"
  using update_string_cancel [of s t "[]" "[]"] by simp

lemma i64_be_bytes_inj:
  assumes "i64_ok a" "i64_ok b"
  shows "i64_be_bytes a = i64_be_bytes b \<longleftrightarrow> a = b"
proof -
  have "nat (a mod 2 ^ 64) < 256 ^ 8" "nat (b mod 2 ^ 64) < 256 ^ 8"
    by (simp_all add: nat_less_iff)
  then have "i64_be_bytes a = i64_be_bytes b \<longleftrightarrow> nat (a mod 2 ^ 64) = nat (b mod 2 ^ 64)"
    unfolding i64_be_bytes_def by (rule be_bytes_inj)
  also have "\<dots> \<longleftrightarrow> a mod 2 ^ 64 = b mod 2 ^ 64"
    by (simp add: nat_eq_iff)
  also have "\<dots> \<longleftrightarrow> a = b"
  proof
    assume "a mod 2 ^ 64 = b mod 2 ^ 64"
    then have "2 ^ 64 dvd a - b" by (simp add: mod_eq_dvd_iff)
    moreover have "\<bar>a - b\<bar> < 2 ^ 64" using assms by (auto simp: arith_defs)
    ultimately show "a = b" using dvd_imp_le_int [of "a - b" "2 ^ 64"] by force
  qed simp
  finally show ?thesis .
qed

lemma i64_be_bytes_cancel:
  "i64_ok a \<Longrightarrow> i64_ok b \<Longrightarrow> i64_be_bytes a @ xs = i64_be_bytes b @ ys \<longleftrightarrow> a = b \<and> xs = ys"
  using i64_be_bytes_inj [of a b] by (simp add: i64_be_bytes_def)

lemma evidence_material_inj:
  assumes "evidence_ok a" "evidence_ok b" "evidence_material a = evidence_material b"
  shows "a = b"
  using assms
  by (auto simp: evidence_ok_def evidence_material_def Let_def update_string_cancel update_string_inj
      i64_be_bytes_cancel intro!: ExactEffectEvidence.equality PhysicalResourceId.equality
      EffectBinding.equality AuthenticatedObserver.equality)

end
