(* ===== verification/Dispatch_Machine.thy ===== *)
theory Dispatch_Machine
  imports Dispatch_Model
begin

text \<open>
  \<^verbatim>\<open>accordlock-dispatch/src/machine.rs\<close>: the dispatch machine. Every method that takes
  \<open>&mut self\<close> is a function from the machine to its result and the machine after it, because
  several rejections still commit a transition (a cancelled release, a waiting phase, a
  credential sent to invalidation). Methods compiled only for tests are left out.
\<close>

section \<open>State\<close>

record Lease =
  le_worker :: string
  le_fence :: u64
  le_expires_at :: i64

record Attempt =
  tx_owner :: LogicalOwner
  tx_physical :: PhysicalResourceId
  tx_consumed_authority :: AuthorityVersion
  tx_consumption :: ConsumptionBinding
  tx_emergency_generation :: u64
  tx_dispatch_deadline :: i64
  tx_phase :: LifecyclePhase
  tx_reservation_generation :: "u64 option"
  tx_lease :: "Lease option"
  tx_bound_object_name :: "string option"
  tx_bound_object_uid :: "string option"
  tx_prepared_execution :: "PreparedExecution option"
  tx_issue_started_at :: "i64 option"
  tx_token_digest :: "digest32 option"
  tx_token_not_before :: "i64 option"
  tx_token_expires_at :: "i64 option"
  tx_service_account_uid :: "string option"
  tx_credential_id :: "string option"
  tx_credential_safe_after :: "i64 option"
  tx_invalidation_confirmed :: bool
  tx_provider_attempt_started_at :: "i64 option"
  tx_reconciliation_started_at :: "i64 option"
  tx_effect_evidence_commitment :: "digest32 option"
  tx_dispatch_claim_token :: "DispatchClaimToken option"

record Reservation =
  rs_transaction_id :: uuid
  rs_generation :: u64

record DestinationRegistration =
  dr_owner :: LogicalOwner
  dr_credential :: CredentialProfile

record CredentialAuthorityFacts =
  cf_token_digest :: digest32
  cf_not_before :: i64
  cf_expires_at :: i64
  cf_service_account_uid :: string
  cf_credential_id :: string

text \<open>The registrations are an association list: the code inserts only absent keys, and the one
  traversal of the map does not depend on its order.\<close>

record DispatchMachine =
  dm_bounds :: DispatchBounds
  dm_active_authority :: AuthorityVersion
  dm_emergency_stop :: bool
  dm_emergency_generation :: u64
  dm_high_water_time :: i64
  dm_registrations :: "(PhysicalResourceId \<times> DestinationRegistration) list"
  dm_attempts :: "uuid \<Rightarrow> Attempt option"
  dm_consumed_authorization_ids :: "uuid set"
  dm_consumed_authorization_hashes :: "digest32 set"
  dm_consumed_receipts :: "digest32 set"
  dm_reservations :: "PhysicalResourceId \<Rightarrow> Reservation option"
  dm_reservation_generations :: "PhysicalResourceId \<Rightarrow> u64 option"
  dm_next_fence :: u64
  dm_bridge_owner :: "LogicalOwner option"

type_synonym 'a dispatch_result = "('a, DispatchError) result"
type_synonym 'a effect = "'a dispatch_result \<times> DispatchMachine"

text \<open>\<open>r?\<close> inside a method: an error returns with the machine as it is.\<close>

definition attempt_q :: "'a dispatch_result \<Rightarrow> DispatchMachine \<Rightarrow> ('a \<Rightarrow> 'b effect) \<Rightarrow> 'b effect" where
  "attempt_q r m f = (case r of Ok x \<Rightarrow> f x | Err e \<Rightarrow> (Err e, m))"

definition dispatch_new ::
    "DispatchBounds \<Rightarrow> AuthorityVersion \<Rightarrow> i64 \<Rightarrow> DispatchMachine dispatch_result" where
  "dispatch_new bounds active_authority initial_time =
     and_then (bounds_validate bounds) (\<lambda>bounds.
     and_then (ensure (\<not> initial_time < 0) InvalidTime) (\<lambda>_.
     Ok \<lparr>dm_bounds = bounds, dm_active_authority = active_authority, dm_emergency_stop = False,
         dm_emergency_generation = 0, dm_high_water_time = initial_time, dm_registrations = [],
         dm_attempts = Map.empty, dm_consumed_authorization_ids = {},
         dm_consumed_authorization_hashes = {}, dm_consumed_receipts = {},
         dm_reservations = Map.empty, dm_reservation_generations = Map.empty,
         dm_next_fence = 0, dm_bridge_owner = None\<rparr>))"

section \<open>Validation helpers\<close>

definition valid_identity_component :: "string \<Rightarrow> nat \<Rightarrow> bool" where
  "valid_identity_component value maximum_length = valid_text maximum_length value"

definition valid_credential_id :: "externals \<Rightarrow> string \<Rightarrow> bool" where
  "valid_credential_id X value =
     (if prefix ''AUTHORIZATION_ID='' value
      then let encoded = drop (length ''AUTHORIZATION_ID='') value in
        case x_uuid_parse X encoded of
          None \<Rightarrow> False
        | Some parsed \<Rightarrow> \<not> is_nil parsed \<and> encoded = x_uuid_string X parsed
      else False)"

definition valid_canonical_opaque :: "string \<Rightarrow> nat \<Rightarrow> bool" where
  "valid_canonical_opaque value maximum_length \<longleftrightarrow>
     valid_identity_component value maximum_length \<and> is_ascii value
     \<and> list_all (\<lambda>c. CHR ''!'' \<le> c \<and> c \<le> CHR ''~'') value"

definition valid_canonical_observer_identity :: "string \<Rightarrow> bool" where
  "valid_canonical_observer_identity value \<longleftrightarrow>
     valid_identity_component value 512 \<and> is_ascii value
     \<and> ascii_lower (hd value) \<and> ascii_alphanumeric (last value)
     \<and> list_all canonical_name_char value"

definition validate_time :: "DispatchMachine \<Rightarrow> i64 \<Rightarrow> unit dispatch_result" where
  "validate_time m now = ensure (\<not> (now < dm_high_water_time m \<or> now < 0)) InvalidTime"

definition commit_time :: "i64 \<Rightarrow> DispatchMachine \<Rightarrow> DispatchMachine" where
  "commit_time now m = m\<lparr>dm_high_water_time := now\<rparr>"

definition attempt :: "DispatchMachine \<Rightarrow> uuid \<Rightarrow> Attempt dispatch_result" where
  "attempt m transaction_id = ok_or (dm_attempts m transaction_id) UnknownTransaction"

text \<open>Writing back through \<open>attempt_mut\<close>, after the attempt has been read.\<close>

definition put_attempt :: "uuid \<Rightarrow> Attempt \<Rightarrow> DispatchMachine \<Rightarrow> DispatchMachine" where
  "put_attempt transaction_id a m = m\<lparr>dm_attempts := (dm_attempts m)(transaction_id \<mapsto> a)\<rparr>"

definition require_authority :: "DispatchMachine \<Rightarrow> Attempt \<Rightarrow> unit dispatch_result" where
  "require_authority m a = ensure (dm_active_authority m = tx_consumed_authority a) AuthorityChanged"

definition require_live_dispatch :: "DispatchMachine \<Rightarrow> Attempt \<Rightarrow> i64 \<Rightarrow> unit dispatch_result" where
  "require_live_dispatch m a now =
     and_then (ensure (\<not> (dm_emergency_stop m
       \<or> tx_emergency_generation a \<noteq> dm_emergency_generation m)) EmergencyStop) (\<lambda>_.
     ensure (\<not> tx_dispatch_deadline a \<le> now) DeadlineExpired)"

definition validate_effect_template :: "EffectTemplate \<Rightarrow> unit dispatch_result" where
  "validate_effect_template e =
     ensure (\<not> (et_template_hash e = 0 \<or> et_operation_hash e = 0
       \<or> et_execution_command_commitment e = 0 \<or> et_final_wire_commitment e = 0)) InvalidCommitment"

definition validate_consumption_binding :: "ConsumptionBinding \<Rightarrow> unit dispatch_result" where
  "validate_consumption_binding c =
     and_then (ensure (\<not> (is_nil (cb_authorization_id c) \<or> cb_authorization_hash c = 0
       \<or> cb_receipt_commitment c = 0)) InvalidCommitment) (\<lambda>_.
     validate_effect_template (cb_effect c))"

definition valid_prepared_execution ::
    "PreparedExecution \<Rightarrow> EffectTemplate \<Rightarrow> CredentialProfile \<Rightarrow> bool" where
  "valid_prepared_execution p effect credential \<longleftrightarrow>
     valid_identity_component (px_bound_object_uid p) 512
     \<and> valid_identity_component (px_token_subject p) 512
     \<and> valid_identity_component (px_token_audience p) 512
     \<and> px_template_hash p = et_template_hash effect
     \<and> px_operation_hash p = et_operation_hash effect
     \<and> px_token_subject p = cp_token_subject credential
     \<and> px_token_audience p = cp_token_audience credential
     \<and> px_effective_rbac_commitment p = cp_effective_rbac_commitment credential
     \<and> px_execution_command_commitment p = et_execution_command_commitment effect
     \<and> px_final_wire_commitment p = et_final_wire_commitment effect"

definition require_effect_binding :: "Attempt \<Rightarrow> EffectBinding \<Rightarrow> unit dispatch_result" where
  "require_effect_binding a b =
     and_then (ok_or (tx_prepared_execution a) InvalidCommitment) (\<lambda>prepared.
     and_then (ok_or (tx_token_digest a) InvalidCommitment) (\<lambda>token_digest.
     let effect = cb_effect (tx_consumption a) in
     ensure (\<not> (eb_template_hash b \<noteq> et_template_hash effect
       \<or> eb_operation_hash b \<noteq> et_operation_hash effect
       \<or> eb_execution_command_commitment b \<noteq> et_execution_command_commitment effect
       \<or> eb_final_wire_commitment b \<noteq> et_final_wire_commitment effect
       \<or> eb_execution_command_commitment b \<noteq> px_execution_command_commitment prepared
       \<or> eb_final_wire_commitment b \<noteq> px_final_wire_commitment prepared
       \<or> eb_effective_rbac_commitment b \<noteq> px_effective_rbac_commitment prepared
       \<or> eb_token_digest b \<noteq> token_digest)) InvalidCommitment))"

definition require_exact_effect_evidence ::
    "externals \<Rightarrow> uuid \<Rightarrow> Attempt \<Rightarrow> ExactEffectEvidence \<Rightarrow> i64 \<Rightarrow> i64 \<Rightarrow> digest32 dispatch_result" where
  "require_exact_effect_evidence X transaction_id a e observation_must_follow now =
     and_then (ensure (\<not> (ee_transaction_id e \<noteq> transaction_id
       \<or> ee_physical e \<noteq> tx_physical a
       \<or> ee_response_commitment e = 0 \<or> ee_post_state_commitment e = 0
       \<or> ee_observed_resource_uid e \<noteq> ph_deployment_uid (tx_physical a)
       \<or> \<not> valid_canonical_opaque (ee_observed_resource_uid e) 512
       \<or> \<not> valid_canonical_opaque (ee_observed_resource_version e) 512
       \<or> ee_observed_at e \<le> observation_must_follow \<or> now < ee_observed_at e
       \<or> \<not> valid_canonical_observer_identity (ao_identity (ee_observer e))
       \<or> ao_authentication_commitment (ee_observer e) = 0)) InvalidEvidence) (\<lambda>_.
     and_then (require_effect_binding a (ee_binding e)) (\<lambda>_.
     let commitment = evidence_commitment X e in
     and_then (ensure (commitment \<noteq> 0) InvalidEvidence) (\<lambda>_. Ok commitment)))"

definition require_non_issuance_evidence ::
    "uuid \<Rightarrow> Attempt \<Rightarrow> NonIssuanceEvidence \<Rightarrow> unit dispatch_result" where
  "require_non_issuance_evidence transaction_id a e =
     and_then (ok_or (tx_bound_object_name a) InvalidEvidence) (\<lambda>bound_object_name.
     ensure (\<not> (ni_transaction_id e \<noteq> transaction_id \<or> ni_physical e \<noteq> tx_physical a
       \<or> ni_bound_object_name e \<noteq> bound_object_name
       \<or> ni_bound_object_uid e \<noteq> tx_bound_object_uid a
       \<or> ni_template_hash e \<noteq> et_template_hash (cb_effect (tx_consumption a))
       \<or> ni_operation_hash e \<noteq> et_operation_hash (cb_effect (tx_consumption a))
       \<or> ni_evidence_commitment e = 0)) InvalidEvidence)"

definition require_credential_invalidation_evidence ::
    "uuid \<Rightarrow> Attempt \<Rightarrow> CredentialInvalidationEvidence \<Rightarrow> unit dispatch_result" where
  "require_credential_invalidation_evidence transaction_id a e =
     and_then (ok_or (tx_prepared_execution a) InvalidEvidence) (\<lambda>prepared.
     and_then (ok_or (tx_bound_object_name a) InvalidEvidence) (\<lambda>bound_object_name.
     ensure (\<not> (ci_transaction_id e \<noteq> transaction_id \<or> ci_physical e \<noteq> tx_physical a
       \<or> ci_bound_object_name e \<noteq> bound_object_name
       \<or> ci_bound_object_uid e \<noteq> px_bound_object_uid prepared
       \<or> ci_token_digest e \<noteq> tx_token_digest a
       \<or> ci_template_hash e \<noteq> et_template_hash (cb_effect (tx_consumption a))
       \<or> ci_operation_hash e \<noteq> et_operation_hash (cb_effect (tx_consumption a))
       \<or> ci_execution_command_commitment e \<noteq> px_execution_command_commitment prepared
       \<or> ci_final_wire_commitment e \<noteq> px_final_wire_commitment prepared
       \<or> ci_effective_rbac_commitment e \<noteq> px_effective_rbac_commitment prepared
       \<or> ci_evidence_commitment e = 0)) InvalidEvidence))"

definition require_claim_identity ::
    "DispatchMachine \<Rightarrow> uuid \<Rightarrow> DispatchClaim \<Rightarrow> unit dispatch_result" where
  "require_claim_identity m transaction_id claim =
     and_then (attempt m transaction_id) (\<lambda>a.
     and_then (ok_or (tx_lease a) StaleLease) (\<lambda>lease.
     ensure (\<not> (dc_transaction_id claim \<noteq> transaction_id
       \<or> dc_physical claim \<noteq> tx_physical a
       \<or> dc_consumption claim \<noteq> tx_consumption a
       \<or> le_worker lease \<noteq> dc_worker claim
       \<or> le_fence lease \<noteq> dc_fence claim
       \<or> tx_reservation_generation a \<noteq> Some (dc_reservation_generation claim)
       \<or> tx_bound_object_name a \<noteq> Some (dc_bound_object_name claim))) StaleLease))"

definition require_lease ::
    "DispatchMachine \<Rightarrow> uuid \<Rightarrow> DispatchClaim \<Rightarrow> i64 \<Rightarrow> unit dispatch_result" where
  "require_lease m transaction_id claim now =
     and_then (require_claim_identity m transaction_id claim) (\<lambda>_.
     and_then (attempt m transaction_id) (\<lambda>a.
     and_then (ok_or (tx_lease a) StaleLease) (\<lambda>lease.
     ensure (\<not> le_expires_at lease \<le> now) StaleLease)))"

definition credential_safe_after :: "DispatchMachine \<Rightarrow> i64 \<Rightarrow> i64 dispatch_result" where
  "credential_safe_after m observed_at =
     ok_or (Option.bind (i64_checked_add observed_at (db_token_lifetime_upper_bound_s (dm_bounds m)))
       (\<lambda>v. i64_checked_add v (db_clock_uncertainty_s (dm_bounds m)))) ArithmeticOverflow"

definition credential_is_safe :: "Attempt \<Rightarrow> i64 \<Rightarrow> bool" where
  "credential_is_safe a now \<longleftrightarrow> tx_invalidation_confirmed a
     \<and> (case tx_credential_safe_after a of None \<Rightarrow> False | Some safe_after \<Rightarrow> safe_after \<le> now)"

definition cancel_release :: "uuid \<Rightarrow> DispatchMachine \<Rightarrow> unit effect" where
  "cancel_release transaction_id m =
     attempt_q (attempt m transaction_id) m (\<lambda>a.
     (Ok (), put_attempt transaction_id (a\<lparr>tx_phase := ReleaseCancelled\<rparr>) m))"

definition finalize_and_release :: "uuid \<Rightarrow> DispatchMachine \<Rightarrow> unit effect" where
  "finalize_and_release transaction_id m =
     attempt_q (attempt m transaction_id) m (\<lambda>a.
     attempt_q (ok_or (dm_reservations m (tx_physical a)) InvalidTransition) m (\<lambda>reservation.
     attempt_q (ensure (\<not> (rs_transaction_id reservation \<noteq> transaction_id
       \<or> tx_reservation_generation a \<noteq> Some (rs_generation reservation))) InvalidTransition) m (\<lambda>_.
     (Ok (), put_attempt transaction_id (a\<lparr>tx_phase := TransactionFinal\<rparr>)
        (m\<lparr>dm_reservations := (dm_reservations m)(tx_physical a := None)\<rparr>)))))"

text \<open>The recurring exit \<open>self.cancel_release(id)?; self.commit_time(now); return Err(error)\<close>.\<close>

definition cancel_with :: "uuid \<Rightarrow> i64 \<Rightarrow> DispatchError \<Rightarrow> DispatchMachine \<Rightarrow> 'a effect" where
  "cancel_with transaction_id now error m =
     (case cancel_release transaction_id m of
        (Ok _, m') \<Rightarrow> (Err error, commit_time now m')
      | (Err e, m') \<Rightarrow> (Err e, m'))"

text \<open>\<open>if let Err(error) = r { cancel; return Err(error) }\<close>\<close>

definition or_cancel ::
    "unit dispatch_result \<Rightarrow> uuid \<Rightarrow> i64 \<Rightarrow> DispatchMachine \<Rightarrow> 'a effect \<Rightarrow> 'a effect" where
  "or_cancel r transaction_id now m continuation =
     (case r of Ok _ \<Rightarrow> continuation | Err error \<Rightarrow> cancel_with transaction_id now error m)"


section \<open>Registration, authority and emergency stop\<close>

definition register_destination ::
    "PhysicalResourceId \<Rightarrow> LogicalOwner \<Rightarrow> CredentialProfile \<Rightarrow> DispatchMachine \<Rightarrow> unit effect" where
  "register_destination physical owner credential m =
     attempt_q (ensure (\<not> (\<not> valid_identity_component (ph_cluster_trust_domain physical) 512
       \<or> \<not> valid_identity_component (ph_api_server_identity physical) 512
       \<or> \<not> valid_identity_component (ph_namespace physical) 253
       \<or> \<not> valid_identity_component (ph_deployment_uid physical) 512
       \<or> \<not> valid_identity_component (lo_tenant owner) 253
       \<or> \<not> valid_identity_component (lo_environment owner) 253
       \<or> \<not> valid_identity_component (cp_token_subject credential) 512
       \<or> \<not> valid_identity_component (cp_token_audience credential) 512
       \<or> cp_effective_rbac_commitment credential = 0)) InvalidIdentity) m (\<lambda>_.
     case map_of (dm_registrations m) physical of
       Some current \<Rightarrow>
         if dr_owner current \<noteq> owner \<or> dr_credential current \<noteq> credential
         then (Err AliasConflict, m) else (Ok (), m)
     | None \<Rightarrow> (Ok (), m\<lparr>dm_registrations :=
         (physical, \<lparr>dr_owner = owner, dr_credential = credential\<rparr>) # dm_registrations m\<rparr>))"

definition activate_authority :: "AuthorityVersion \<Rightarrow> DispatchMachine \<Rightarrow> unit effect" where
  "activate_authority authority m =
     (if authority = dm_active_authority m then (Ok (), m)
      else if ver_epoch authority \<le> ver_epoch (dm_active_authority m)
      then (Err AuthorityRollback, m)
      else (Ok (), m\<lparr>dm_active_authority := authority\<rparr>))"

definition set_emergency_stop :: "bool \<Rightarrow> DispatchMachine \<Rightarrow> unit effect" where
  "set_emergency_stop active m =
     (if active \<and> \<not> dm_emergency_stop m
      then attempt_q (ok_or (u64_checked_add (dm_emergency_generation m) 1) ArithmeticOverflow) m
        (\<lambda>generation. (Ok (), m\<lparr>dm_emergency_generation := generation, dm_emergency_stop := active\<rparr>))
      else (Ok (), m\<lparr>dm_emergency_stop := active\<rparr>))"

section \<open>Consumption and reservation\<close>

definition new_attempt ::
    "DispatchMachine \<Rightarrow> LogicalOwner \<Rightarrow> PhysicalResourceId \<Rightarrow> AuthorityVersion \<Rightarrow> ConsumptionBinding
     \<Rightarrow> i64 \<Rightarrow> Attempt" where
  "new_attempt m owner physical authority consumption dispatch_deadline =
     \<lparr>tx_owner = owner, tx_physical = physical, tx_consumed_authority = authority,
      tx_consumption = consumption, tx_emergency_generation = dm_emergency_generation m,
      tx_dispatch_deadline = dispatch_deadline, tx_phase = Consumed,
      tx_reservation_generation = None, tx_lease = None, tx_bound_object_name = None,
      tx_bound_object_uid = None, tx_prepared_execution = None, tx_issue_started_at = None,
      tx_token_digest = None, tx_token_not_before = None, tx_token_expires_at = None,
      tx_service_account_uid = None, tx_credential_id = None, tx_credential_safe_after = None,
      tx_invalidation_confirmed = False, tx_provider_attempt_started_at = None,
      tx_reconciliation_started_at = None, tx_effect_evidence_commitment = None,
      tx_dispatch_claim_token = None\<rparr>"

definition record_consumption_inner ::
    "uuid \<Rightarrow> LogicalOwner \<Rightarrow> PhysicalResourceId \<Rightarrow> AuthorityVersion \<Rightarrow> ConsumptionBinding \<Rightarrow> i64
     \<Rightarrow> i64 \<Rightarrow> i64 \<Rightarrow> DispatchMachine \<Rightarrow> unit effect" where
  "record_consumption_inner transaction_id owner physical authority consumption consumed_at
       observed_at dispatch_deadline m =
     attempt_q (validate_time m observed_at) m (\<lambda>_.
     attempt_q (ensure (\<not> (observed_at < consumed_at \<or> dispatch_deadline \<le> observed_at))
       DeadlineExpired) m (\<lambda>_.
     attempt_q (ok_or (i64_checked_add consumed_at (db_max_dispatch_delay_s (dm_bounds m)))
       ArithmeticOverflow) m (\<lambda>maximum_deadline.
     attempt_q (ensure (\<not> maximum_deadline < dispatch_deadline) DeadlineExpired) m (\<lambda>_.
     attempt_q (ensure (\<not> is_nil transaction_id) InvalidIdentity) m (\<lambda>_.
     attempt_q (ensure (dm_attempts m transaction_id = None) DuplicateTransaction) m (\<lambda>_.
     attempt_q (ensure (\<not> (cb_authorization_id consumption \<in> dm_consumed_authorization_ids m
         \<or> cb_authorization_hash consumption \<in> dm_consumed_authorization_hashes m
         \<or> cb_receipt_commitment consumption \<in> dm_consumed_receipts m)) ConsumptionReplay) m (\<lambda>_.
     attempt_q (ensure (map_option dr_owner (map_of (dm_registrations m) physical) = Some owner)
       RegistrationMismatch) m (\<lambda>_.
     attempt_q (ensure (authority = dm_active_authority m) AuthorityChanged) m (\<lambda>_.
     attempt_q (validate_consumption_binding consumption) m (\<lambda>_.
     (Ok (), commit_time observed_at
       (put_attempt transaction_id
         (new_attempt m owner physical authority consumption dispatch_deadline)
         (m\<lparr>dm_consumed_authorization_ids :=
              insert (cb_authorization_id consumption) (dm_consumed_authorization_ids m),
            dm_consumed_authorization_hashes :=
              insert (cb_authorization_hash consumption) (dm_consumed_authorization_hashes m),
            dm_consumed_receipts :=
              insert (cb_receipt_commitment consumption) (dm_consumed_receipts m)\<rparr>)))))))))))))"

definition record_consumption_from_snapshot ::
    "uuid \<Rightarrow> LogicalOwner \<Rightarrow> PhysicalResourceId \<Rightarrow> AuthorityVersion \<Rightarrow> ConsumptionBinding \<Rightarrow> i64
     \<Rightarrow> i64 \<Rightarrow> i64 \<Rightarrow> DispatchMachine \<Rightarrow> unit effect" where
  "record_consumption_from_snapshot = record_consumption_inner"

definition bound_object_name_for :: "externals \<Rightarrow> uuid \<Rightarrow> string" where
  "bound_object_name_for X transaction_id = ''accordlock-'' @ x_uuid_simple X transaction_id"

definition claim_for ::
    "uuid \<Rightarrow> Attempt \<Rightarrow> string \<Rightarrow> u64 \<Rightarrow> u64 \<Rightarrow> string \<Rightarrow> DispatchClaim" where
  "claim_for transaction_id a worker fence generation bound_object_name =
     \<lparr>dc_transaction_id = transaction_id, dc_physical = tx_physical a,
      dc_consumption = tx_consumption a, dc_worker = worker, dc_fence = fence,
      dc_reservation_generation = generation, dc_bound_object_name = bound_object_name\<rparr>"

definition prepare_dispatch ::
    "externals \<Rightarrow> uuid \<Rightarrow> string \<Rightarrow> i64 \<Rightarrow> DispatchMachine \<Rightarrow> DispatchClaim effect" where
  "prepare_dispatch X transaction_id worker now m =
     attempt_q (ensure (valid_identity_component worker 253) InvalidIdentity) m (\<lambda>_.
     attempt_q (validate_time m now) m (\<lambda>_.
     attempt_q (attempt m transaction_id) m (\<lambda>snapshot.
     attempt_q (ensure (tx_phase snapshot \<in> {Consumed, DispatchWaitingResource})
       InvalidTransition) m (\<lambda>_.
     attempt_q (require_authority m snapshot) m (\<lambda>_.
     attempt_q (require_live_dispatch m snapshot now) m (\<lambda>_.
     attempt_q (ensure (map_option dr_owner (map_of (dm_registrations m) (tx_physical snapshot))
         = Some (tx_owner snapshot)) RegistrationMismatch) m (\<lambda>_.
     case dm_reservations m (tx_physical snapshot) of
       Some reservation \<Rightarrow>
         if rs_transaction_id reservation \<noteq> transaction_id
         then (Err ResourceBusy, commit_time now
           (put_attempt transaction_id (snapshot\<lparr>tx_phase := DispatchWaitingResource\<rparr>) m))
         else (Err InvalidTransition, m)
     | None \<Rightarrow>
       attempt_q (ok_or (u64_checked_add
           (case dm_reservation_generations m (tx_physical snapshot) of None \<Rightarrow> 0 | Some g \<Rightarrow> g) 1)
         ArithmeticOverflow) m (\<lambda>generation.
       attempt_q (ok_or (u64_checked_add (dm_next_fence m) 1) ArithmeticOverflow) m (\<lambda>fence.
       attempt_q (ok_or (i64_checked_add now (db_lease_ttl_s (dm_bounds m))) ArithmeticOverflow) m
         (\<lambda>expires_at.
       let bound_object_name = bound_object_name_for X transaction_id in
       (Ok (claim_for transaction_id snapshot worker fence generation bound_object_name),
        commit_time now
         (put_attempt transaction_id
           (snapshot\<lparr>tx_phase := BoundObjectCreatePending,
              tx_reservation_generation := Some generation,
              tx_bound_object_name := Some bound_object_name,
              tx_lease := Some \<lparr>le_worker = worker, le_fence = fence, le_expires_at = expires_at\<rparr>\<rparr>)
           (m\<lparr>dm_next_fence := fence,
              dm_reservation_generations :=
                (dm_reservation_generations m)(tx_physical snapshot \<mapsto> generation),
              dm_reservations := (dm_reservations m)(tx_physical snapshot \<mapsto>
                \<lparr>rs_transaction_id = transaction_id, rs_generation = generation\<rparr>)\<rparr>)))))))))))))"

definition take_over_expired_lease ::
    "uuid \<Rightarrow> string \<Rightarrow> i64 \<Rightarrow> DispatchMachine \<Rightarrow> DispatchClaim effect" where
  "take_over_expired_lease transaction_id new_worker now m =
     attempt_q (ensure (valid_identity_component new_worker 253) InvalidIdentity) m (\<lambda>_.
     attempt_q (validate_time m now) m (\<lambda>_.
     attempt_q (attempt m transaction_id) m (\<lambda>snapshot.
     attempt_q (ensure (tx_phase snapshot \<in> {BoundObjectCreatePending, BoundObjectCreateUnknown,
         BoundObjectReconciling, CredentialPrepared}) InvalidTransition) m (\<lambda>_.
     let cancels = tx_phase snapshot \<in> {BoundObjectCreatePending, CredentialPrepared} in
     or_cancel (if cancels then require_authority m snapshot else Ok ()) transaction_id now m (
     or_cancel (if cancels then require_live_dispatch m snapshot now else Ok ()) transaction_id now m (
     attempt_q (ok_or (tx_lease snapshot) StaleLease) m (\<lambda>current.
     attempt_q (ensure (\<not> now < le_expires_at current) StaleLease) m (\<lambda>_.
     attempt_q (ok_or (u64_checked_add (dm_next_fence m) 1) ArithmeticOverflow) m (\<lambda>fence.
     attempt_q (ok_or (i64_checked_add now (db_lease_ttl_s (dm_bounds m))) ArithmeticOverflow) m
       (\<lambda>expires_at.
     attempt_q (ok_or (tx_reservation_generation snapshot) InvalidTransition) m (\<lambda>generation.
     attempt_q (ok_or (tx_bound_object_name snapshot) InvalidTransition) m (\<lambda>bound_object_name.
     (Ok (claim_for transaction_id snapshot new_worker fence generation bound_object_name),
      commit_time now
       (put_attempt transaction_id
         (snapshot\<lparr>tx_lease :=
            Some \<lparr>le_worker = new_worker, le_fence = fence, le_expires_at = expires_at\<rparr>\<rparr>)
         (m\<lparr>dm_next_fence := fence\<rparr>)))))))))))))))"

fun recovered_phase :: "LifecyclePhase \<Rightarrow> LifecyclePhase option" where
  "recovered_phase BoundObjectCreateInFlight = Some BoundObjectCreateUnknown"
| "recovered_phase CredentialIssuing = Some CredentialIssueUnknown"
| "recovered_phase CredentialReady = Some CredentialInvalidating"
| "recovered_phase ReleaseCancelled = Some CredentialInvalidating"
| "recovered_phase EffectReleased = Some ExecutionUnknown"
| "recovered_phase Executing = Some ExecutionUnknown"
| "recovered_phase _ = None"

definition recover_expired_lease :: "uuid \<Rightarrow> i64 \<Rightarrow> DispatchMachine \<Rightarrow> unit effect" where
  "recover_expired_lease transaction_id now m =
     attempt_q (validate_time m now) m (\<lambda>_.
     attempt_q (attempt m transaction_id) m (\<lambda>snapshot.
     attempt_q (ok_or (tx_lease snapshot) StaleLease) m (\<lambda>lease.
     attempt_q (ensure (\<not> now < le_expires_at lease) StaleLease) m (\<lambda>_.
     attempt_q (ok_or (recovered_phase (tx_phase snapshot)) InvalidTransition) m (\<lambda>next.
     attempt_q (if tx_credential_safe_after snapshot \<noteq> None then Ok (tx_credential_safe_after snapshot)
         else if tx_phase snapshot = CredentialIssuing
         then and_then (credential_safe_after m now) (\<lambda>t. Ok (Some t))
         else Ok None) m (\<lambda>safe_after.
     (Ok (), commit_time now
       (put_attempt transaction_id
         (snapshot\<lparr>tx_phase := next, tx_credential_safe_after := safe_after\<rparr>) m))))))))"

section \<open>The bound object\<close>

definition begin_bound_object_create ::
    "uuid \<Rightarrow> DispatchClaim \<Rightarrow> i64 \<Rightarrow> DispatchMachine \<Rightarrow> unit effect" where
  "begin_bound_object_create transaction_id claim now m =
     attempt_q (validate_time m now) m (\<lambda>_.
     attempt_q (require_lease m transaction_id claim now) m (\<lambda>_.
     attempt_q (attempt m transaction_id) m (\<lambda>snapshot.
     attempt_q (ensure (tx_phase snapshot = BoundObjectCreatePending) InvalidTransition) m (\<lambda>_.
     or_cancel (require_authority m snapshot) transaction_id now m (
     or_cancel (require_live_dispatch m snapshot now) transaction_id now m (
     (Ok (), commit_time now
       (put_attempt transaction_id (snapshot\<lparr>tx_phase := BoundObjectCreateInFlight\<rparr>) m))))))))"

definition transition_with_lease ::
    "uuid \<Rightarrow> DispatchClaim \<Rightarrow> i64 \<Rightarrow> LifecyclePhase \<Rightarrow> LifecyclePhase \<Rightarrow> DispatchMachine \<Rightarrow> unit effect" where
  "transition_with_lease transaction_id claim now from to m =
     attempt_q (validate_time m now) m (\<lambda>_.
     attempt_q (require_lease m transaction_id claim now) m (\<lambda>_.
     attempt_q (attempt m transaction_id) m (\<lambda>a.
     attempt_q (ensure (tx_phase a = from) InvalidTransition) m (\<lambda>_.
     (Ok (), commit_time now (put_attempt transaction_id (a\<lparr>tx_phase := to\<rparr>) m))))))"

definition mark_bound_object_create_unknown ::
    "uuid \<Rightarrow> DispatchClaim \<Rightarrow> i64 \<Rightarrow> DispatchMachine \<Rightarrow> unit effect" where
  "mark_bound_object_create_unknown transaction_id claim now m =
     transition_with_lease transaction_id claim now BoundObjectCreateInFlight
       BoundObjectCreateUnknown m"

definition begin_bound_object_reconciliation ::
    "uuid \<Rightarrow> DispatchClaim \<Rightarrow> i64 \<Rightarrow> DispatchMachine \<Rightarrow> unit effect" where
  "begin_bound_object_reconciliation transaction_id claim now m =
     transition_with_lease transaction_id claim now BoundObjectCreateUnknown BoundObjectReconciling m"

definition resolve_bound_object ::
    "uuid \<Rightarrow> DispatchClaim \<Rightarrow> i64 \<Rightarrow> BoundObjectObservation \<Rightarrow> DispatchMachine \<Rightarrow> unit effect" where
  "resolve_bound_object transaction_id claim now observation m =
     attempt_q (validate_time m now) m (\<lambda>_.
     attempt_q (require_lease m transaction_id claim now) m (\<lambda>_.
     attempt_q (attempt m transaction_id) m (\<lambda>snapshot.
     attempt_q (ensure (tx_phase snapshot \<in> {BoundObjectCreateInFlight, BoundObjectReconciling})
       InvalidTransition) m (\<lambda>_.
     attempt_q (ok_or (map_of (dm_registrations m) (tx_physical snapshot)) RegistrationMismatch) m
       (\<lambda>registration.
     case observation of
       Matching prepared \<Rightarrow>
         if valid_prepared_execution prepared (cb_effect (tx_consumption snapshot))
             (dr_credential registration)
         then (Ok (), commit_time now (put_attempt transaction_id
           (snapshot\<lparr>tx_bound_object_uid := Some (px_bound_object_uid prepared),
              tx_prepared_execution := Some prepared, tx_phase := CredentialPrepared\<rparr>) m))
         else (Err InvalidCommitment, m)
     | _ \<Rightarrow> (Ok (), commit_time now (put_attempt transaction_id
           (snapshot\<lparr>tx_phase := ManualResolutionRequired\<rparr>) m)))))))"


section \<open>The credential\<close>

definition begin_credential_issue ::
    "uuid \<Rightarrow> DispatchClaim \<Rightarrow> i64 \<Rightarrow> DispatchMachine \<Rightarrow> unit effect" where
  "begin_credential_issue transaction_id claim now m =
     attempt_q (validate_time m now) m (\<lambda>_.
     attempt_q (require_lease m transaction_id claim now) m (\<lambda>_.
     attempt_q (attempt m transaction_id) m (\<lambda>snapshot.
     attempt_q (ensure (\<not> (tx_phase snapshot \<noteq> CredentialPrepared
         \<or> tx_bound_object_uid snapshot = None \<or> tx_prepared_execution snapshot = None))
       InvalidTransition) m (\<lambda>_.
     or_cancel (require_authority m snapshot) transaction_id now m (
     or_cancel (require_live_dispatch m snapshot now) transaction_id now m (
     (Ok (), commit_time now (put_attempt transaction_id
       (snapshot\<lparr>tx_phase := CredentialIssuing, tx_issue_started_at := Some now\<rparr>) m))))))))"

definition mark_credential_issue_unknown ::
    "uuid \<Rightarrow> DispatchClaim \<Rightarrow> i64 \<Rightarrow> DispatchMachine \<Rightarrow> unit effect" where
  "mark_credential_issue_unknown transaction_id claim observed_at m =
     attempt_q (validate_time m observed_at) m (\<lambda>_.
     attempt_q (require_lease m transaction_id claim observed_at) m (\<lambda>_.
     attempt_q (credential_safe_after m observed_at) m (\<lambda>safe_after.
     attempt_q (attempt m transaction_id) m (\<lambda>a.
     attempt_q (ensure (tx_phase a = CredentialIssuing) InvalidTransition) m (\<lambda>_.
     (Ok (), commit_time observed_at (put_attempt transaction_id
       (a\<lparr>tx_phase := CredentialIssueUnknown, tx_credential_safe_after := Some safe_after\<rparr>) m)))))))"

definition issuer_bound_of :: "DispatchMachine \<Rightarrow> i64 \<Rightarrow> i64 option" where
  "issuer_bound_of m issue_started_at =
     Option.bind (i64_checked_add issue_started_at (db_token_lifetime_upper_bound_s (dm_bounds m)))
       (\<lambda>v. i64_checked_add v (db_clock_uncertainty_s (dm_bounds m)))"

definition retain_claims :: "CredentialClaims \<Rightarrow> i64 \<Rightarrow> Attempt \<Rightarrow> Attempt" where
  "retain_claims claims safe_after a =
     a\<lparr>tx_token_digest := Some (cc_token_digest claims),
       tx_token_not_before := Some (cc_not_before claims),
       tx_token_expires_at := Some (cc_expires_at claims),
       tx_service_account_uid := Some (cc_service_account_uid claims),
       tx_credential_id := Some (cc_credential_id claims),
       tx_credential_safe_after := Some safe_after\<rparr>"

definition claims_invalid ::
    "externals \<Rightarrow> CredentialClaims \<Rightarrow> PreparedExecution \<Rightarrow> i64 \<Rightarrow> i64 \<Rightarrow> i64 \<Rightarrow> bool" where
  "claims_invalid X claims prepared earliest_not_before observed_at issuer_bound \<longleftrightarrow>
     cc_token_digest claims = 0
     \<or> \<not> valid_identity_component (cc_subject claims) 512
     \<or> \<not> valid_identity_component (cc_audience claims) 512
     \<or> \<not> valid_identity_component (cc_service_account_uid claims) 512
     \<or> \<not> valid_credential_id X (cc_credential_id claims)
     \<or> cc_subject claims \<noteq> px_token_subject prepared
     \<or> cc_audience claims \<noteq> px_token_audience prepared
     \<or> cc_bound_object_uid claims \<noteq> px_bound_object_uid prepared
     \<or> cc_not_before claims < earliest_not_before
     \<or> observed_at < cc_not_before claims
     \<or> cc_expires_at claims \<le> observed_at
     \<or> issuer_bound < cc_expires_at claims"

definition record_credential_ready ::
    "externals \<Rightarrow> uuid \<Rightarrow> DispatchClaim \<Rightarrow> i64 \<Rightarrow> CredentialClaims \<Rightarrow> DispatchMachine \<Rightarrow> unit effect" where
  "record_credential_ready X transaction_id claim observed_at claims m =
     attempt_q (validate_time m observed_at) m (\<lambda>_.
     attempt_q (require_lease m transaction_id claim observed_at) m (\<lambda>_.
     attempt_q (attempt m transaction_id) m (\<lambda>snapshot.
     attempt_q (ensure (tx_phase snapshot = CredentialIssuing) InvalidTransition) m (\<lambda>_.
     attempt_q (ok_or (tx_issue_started_at snapshot) InvalidTransition) m (\<lambda>issue_started_at.
     attempt_q (ok_or (tx_prepared_execution snapshot) InvalidTransition) m (\<lambda>prepared.
     attempt_q (ok_or (issuer_bound_of m issue_started_at) ArithmeticOverflow) m (\<lambda>issuer_bound.
     attempt_q (ok_or (i64_checked_sub issue_started_at (db_clock_uncertainty_s (dm_bounds m)))
       ArithmeticOverflow) m (\<lambda>earliest_not_before.
     attempt_q (ok_or (i64_checked_add (cc_expires_at claims) (db_clock_uncertainty_s (dm_bounds m)))
       ArithmeticOverflow) m (\<lambda>actual_safe_after.
     let retained = retain_claims claims (max issuer_bound actual_safe_after) snapshot;
         leave = (\<lambda>phase. commit_time observed_at
           (put_attempt transaction_id (retained\<lparr>tx_phase := phase\<rparr>) m))
     in if claims_invalid X claims prepared earliest_not_before observed_at issuer_bound
        then (Err InvalidCredential, leave CredentialInvalidating)
        else case and_then (require_authority m snapshot) (\<lambda>_.
                    require_live_dispatch m snapshot observed_at) of
               Err error \<Rightarrow> (Err error, leave CredentialInvalidating)
             | Ok _ \<Rightarrow> (Ok (), leave CredentialReady))))))))))"

definition quarantine_returned_credential_after_state_rejection ::
    "uuid \<Rightarrow> DispatchClaim \<Rightarrow> CredentialClaims \<Rightarrow> DispatchMachine \<Rightarrow> unit effect" where
  "quarantine_returned_credential_after_state_rejection transaction_id claim claims m =
     attempt_q (require_claim_identity m transaction_id claim) m (\<lambda>_.
     attempt_q (attempt m transaction_id) m (\<lambda>snapshot.
     attempt_q (ensure (tx_phase snapshot = CredentialIssuing) InvalidTransition) m (\<lambda>_.
     attempt_q (ok_or (tx_issue_started_at snapshot) InvalidTransition) m (\<lambda>issue_started_at.
     let issuer_bound = (case issuer_bound_of m issue_started_at of None \<Rightarrow> i64_max | Some b \<Rightarrow> b);
         returned_bound = (case i64_checked_add (cc_expires_at claims)
             (db_clock_uncertainty_s (dm_bounds m)) of None \<Rightarrow> i64_max | Some b \<Rightarrow> b)
     in (Ok (), put_attempt transaction_id
          ((retain_claims claims (max issuer_bound returned_bound) snapshot)
             \<lparr>tx_phase := CredentialInvalidating\<rparr>) m)))))"

definition invalidate_ready_credential_after_state_rejection ::
    "uuid \<Rightarrow> DispatchClaim \<Rightarrow> DispatchMachine \<Rightarrow> unit effect" where
  "invalidate_ready_credential_after_state_rejection transaction_id claim m =
     attempt_q (require_claim_identity m transaction_id claim) m (\<lambda>_.
     attempt_q (attempt m transaction_id) m (\<lambda>a.
     attempt_q (ensure (\<not> (tx_phase a \<noteq> CredentialReady \<or> tx_token_digest a = None
         \<or> tx_token_expires_at a = None \<or> tx_credential_safe_after a = None))
       InvalidTransition) m (\<lambda>_.
     (Ok (), put_attempt transaction_id (a\<lparr>tx_phase := CredentialInvalidating\<rparr>) m))))"

definition finalize_confirmed_non_issuance ::
    "uuid \<Rightarrow> NonIssuanceEvidence \<Rightarrow> i64 \<Rightarrow> DispatchMachine \<Rightarrow> unit effect" where
  "finalize_confirmed_non_issuance transaction_id evidence now m =
     attempt_q (validate_time m now) m (\<lambda>_.
     attempt_q (attempt m transaction_id) m (\<lambda>snapshot.
     attempt_q (ensure (\<not> (tx_phase snapshot \<noteq> ReleaseCancelled
         \<or> tx_issue_started_at snapshot \<noteq> None)) InvalidTransition) m (\<lambda>_.
     attempt_q (require_non_issuance_evidence transaction_id snapshot evidence) m (\<lambda>_.
     case finalize_and_release transaction_id m of
       (Ok _, m') \<Rightarrow> (Ok (), commit_time now m')
     | (Err e, m') \<Rightarrow> (Err e, m')))))"

section \<open>The provider attempt\<close>

definition preflight_provider_attempt ::
    "DispatchMachine \<Rightarrow> uuid \<Rightarrow> DispatchClaim \<Rightarrow> EffectBinding \<Rightarrow> i64 \<Rightarrow> unit dispatch_result" where
  "preflight_provider_attempt m transaction_id claim binding now =
     and_then (validate_time m now) (\<lambda>_.
     and_then (require_lease m transaction_id claim now) (\<lambda>_.
     and_then (attempt m transaction_id) (\<lambda>snapshot.
     and_then (ensure (\<not> (tx_phase snapshot \<noteq> CredentialReady \<or> tx_token_digest snapshot = None))
       InvalidTransition) (\<lambda>_.
     and_then (require_effect_binding snapshot binding) (\<lambda>_.
     and_then (require_authority m snapshot) (\<lambda>_.
     and_then (require_live_dispatch m snapshot now) (\<lambda>_.
     and_then (ok_or (tx_token_expires_at snapshot) InvalidCredential) (\<lambda>token_expires_at.
     and_then (ok_or (i64_checked_add now (db_minimum_remaining_lifetime_s (dm_bounds m)))
       ArithmeticOverflow) (\<lambda>required_until.
     ensure (\<not> token_expires_at < required_until) InvalidCredential)))))))))"

definition release_and_begin_provider_attempt ::
    "uuid \<Rightarrow> DispatchClaim \<Rightarrow> EffectBinding \<Rightarrow> i64 \<Rightarrow> DispatchMachine \<Rightarrow> unit effect" where
  "release_and_begin_provider_attempt transaction_id claim binding now m =
     attempt_q (preflight_provider_attempt m transaction_id claim binding now) m (\<lambda>_.
     attempt_q (attempt m transaction_id) m (\<lambda>a.
     (Ok (), commit_time now (put_attempt transaction_id
       (a\<lparr>tx_phase := Executing, tx_provider_attempt_started_at := Some now\<rparr>) m))))"

definition credential_authority_facts ::
    "DispatchMachine \<Rightarrow> uuid \<Rightarrow> DispatchClaim \<Rightarrow> CredentialAuthorityFacts dispatch_result" where
  "credential_authority_facts m transaction_id claim =
     and_then (require_claim_identity m transaction_id claim) (\<lambda>_.
     and_then (attempt m transaction_id) (\<lambda>a.
     and_then (ensure (tx_phase a = CredentialReady) InvalidTransition) (\<lambda>_.
     and_then (ok_or (tx_token_digest a) InvalidCredential) (\<lambda>token_digest.
     and_then (ok_or (tx_token_not_before a) InvalidCredential) (\<lambda>not_before.
     and_then (ok_or (tx_token_expires_at a) InvalidCredential) (\<lambda>expires_at.
     and_then (ok_or (tx_service_account_uid a) InvalidCredential) (\<lambda>service_account_uid.
     and_then (ok_or (tx_credential_id a) InvalidCredential) (\<lambda>credential_id.
     Ok \<lparr>cf_token_digest = token_digest, cf_not_before = not_before, cf_expires_at = expires_at,
         cf_service_account_uid = service_account_uid, cf_credential_id = credential_id\<rparr>))))))))"

definition force_manual_provider_attempt_uncertainty ::
    "uuid \<Rightarrow> DispatchClaim \<Rightarrow> DispatchMachine \<Rightarrow> unit effect" where
  "force_manual_provider_attempt_uncertainty transaction_id claim m =
     attempt_q (require_claim_identity m transaction_id claim) m (\<lambda>_.
     attempt_q (attempt m transaction_id) m (\<lambda>a.
     attempt_q (ensure (tx_phase a \<in> {CredentialReady, Executing}) InvalidTransition) m (\<lambda>_.
     (Ok (), put_attempt transaction_id (a\<lparr>tx_phase := ManualResolutionRequired\<rparr>) m))))"

definition record_provider_outcome ::
    "externals \<Rightarrow> uuid \<Rightarrow> DispatchClaim \<Rightarrow> i64 \<Rightarrow> ProviderOutcome \<Rightarrow> DispatchMachine \<Rightarrow> unit effect" where
  "record_provider_outcome X transaction_id claim now outcome m =
     attempt_q (validate_time m now) m (\<lambda>_.
     attempt_q (require_lease m transaction_id claim now) m (\<lambda>_.
     attempt_q (attempt m transaction_id) m (\<lambda>snapshot.
     attempt_q (ensure (tx_phase snapshot = Executing) InvalidTransition) m (\<lambda>_.
     attempt_q (case outcome of
         Success evidence \<Rightarrow>
           and_then (ok_or (tx_provider_attempt_started_at snapshot) InvalidEvidence) (\<lambda>started_at.
           and_then (require_exact_effect_evidence X transaction_id snapshot evidence started_at now)
             (\<lambda>commitment. Ok (Executed, Some commitment)))
       | Unknown \<Rightarrow> Ok (ExecutionUnknown, None)) m (\<lambda>(next, evidence_commitment).
     (Ok (), commit_time now (put_attempt transaction_id
       (snapshot\<lparr>tx_phase := next, tx_effect_evidence_commitment := evidence_commitment\<rparr>) m)))))))"

section \<open>Reconciliation and retirement\<close>

definition begin_effect_reconciliation :: "uuid \<Rightarrow> i64 \<Rightarrow> DispatchMachine \<Rightarrow> unit effect" where
  "begin_effect_reconciliation transaction_id now m =
     attempt_q (validate_time m now) m (\<lambda>_.
     attempt_q (attempt m transaction_id) m (\<lambda>a.
     attempt_q (ensure (tx_phase a = ExecutionUnknown) InvalidTransition) m (\<lambda>_.
     (Ok (), commit_time now (put_attempt transaction_id
       (a\<lparr>tx_phase := Reconciling, tx_reconciliation_started_at := Some now\<rparr>) m)))))"

definition resolve_effect_reconciliation ::
    "externals \<Rightarrow> uuid \<Rightarrow> ReconciliationOutcome \<Rightarrow> i64 \<Rightarrow> DispatchMachine \<Rightarrow> unit effect" where
  "resolve_effect_reconciliation X transaction_id outcome now m =
     attempt_q (validate_time m now) m (\<lambda>_.
     attempt_q (attempt m transaction_id) m (\<lambda>snapshot.
     attempt_q (ensure (tx_phase snapshot = Reconciling) InvalidTransition) m (\<lambda>_.
     attempt_q (case outcome of
         ExactEffect evidence \<Rightarrow>
           and_then (ok_or (tx_reconciliation_started_at snapshot) InvalidEvidence) (\<lambda>started_at.
           and_then (require_exact_effect_evidence X transaction_id snapshot evidence started_at now)
             (\<lambda>commitment. Ok (Executed, Some commitment)))
       | _ \<Rightarrow> Ok (ManualResolutionRequired, None)) m (\<lambda>(next, evidence_commitment).
     (Ok (), commit_time now (put_attempt transaction_id
       (snapshot\<lparr>tx_phase := next, tx_effect_evidence_commitment := evidence_commitment\<rparr>) m))))))"

definition invalidation_phases :: "LifecyclePhase set" where
  "invalidation_phases = {CredentialIssueUnknown, CredentialInvalidating, CredentialReady,
     ReleaseCancelled, EffectReleased, Executing, ExecutionUnknown, Reconciling, Executed,
     ExecutionFailed, ManualResolutionRequired}"

definition quarantine_phases :: "LifecyclePhase set" where
  "quarantine_phases =
     {CredentialIssueUnknown, CredentialInvalidating, CredentialReady, ReleaseCancelled}"

definition confirm_credential_invalidation ::
    "uuid \<Rightarrow> CredentialInvalidationEvidence \<Rightarrow> i64 \<Rightarrow> DispatchMachine \<Rightarrow> unit effect" where
  "confirm_credential_invalidation transaction_id evidence now m =
     attempt_q (validate_time m now) m (\<lambda>_.
     attempt_q (attempt m transaction_id) m (\<lambda>snapshot.
     attempt_q (ensure (tx_phase snapshot \<in> invalidation_phases) InvalidTransition) m (\<lambda>_.
     attempt_q (require_credential_invalidation_evidence transaction_id snapshot evidence) m (\<lambda>_.
     let confirmed = snapshot\<lparr>tx_invalidation_confirmed := True\<rparr> in
     (Ok (), commit_time now (put_attempt transaction_id
       (if tx_phase snapshot \<in> quarantine_phases
        then confirmed\<lparr>tx_phase := CredentialQuarantined\<rparr> else confirmed) m))))))"

definition finish_quarantined_credential :: "uuid \<Rightarrow> i64 \<Rightarrow> DispatchMachine \<Rightarrow> unit effect" where
  "finish_quarantined_credential transaction_id now m =
     attempt_q (validate_time m now) m (\<lambda>_.
     attempt_q (attempt m transaction_id) m (\<lambda>snapshot.
     attempt_q (ensure (tx_phase snapshot = CredentialQuarantined) InvalidTransition) m (\<lambda>_.
     attempt_q (ensure (credential_is_safe snapshot now) CredentialStillLive) m (\<lambda>_.
     let m1 = put_attempt transaction_id (snapshot\<lparr>tx_phase := CredentialSafeExpired\<rparr>) m in
     case finalize_and_release transaction_id m1 of
       (Ok _, m') \<Rightarrow> (Ok (), commit_time now m')
     | (Err e, m') \<Rightarrow> (Err e, m')))))"

definition finalize_terminal_effect :: "uuid \<Rightarrow> i64 \<Rightarrow> DispatchMachine \<Rightarrow> unit effect" where
  "finalize_terminal_effect transaction_id now m =
     attempt_q (validate_time m now) m (\<lambda>_.
     attempt_q (attempt m transaction_id) m (\<lambda>snapshot.
     attempt_q (ensure (tx_phase snapshot \<in> {Executed, ExecutionFailed}) InvalidTransition) m (\<lambda>_.
     attempt_q (ensure (credential_is_safe snapshot now) CredentialStillLive) m (\<lambda>_.
     case finalize_and_release transaction_id m of
       (Ok _, m') \<Rightarrow> (Ok (), commit_time now m')
     | (Err e, m') \<Rightarrow> (Err e, m')))))"

section \<open>Queries and the bridge to the state store\<close>

definition phase_of :: "DispatchMachine \<Rightarrow> uuid \<Rightarrow> LifecyclePhase dispatch_result" where
  "phase_of m transaction_id = and_then (attempt m transaction_id) (\<lambda>a. Ok (tx_phase a))"

definition effect_evidence_snapshot ::
    "DispatchMachine \<Rightarrow> uuid \<Rightarrow> EffectEvidenceSnapshot dispatch_result" where
  "effect_evidence_snapshot m transaction_id =
     and_then (attempt m transaction_id) (\<lambda>a.
     Ok \<lparr>es_transaction_id = transaction_id, es_physical = tx_physical a, es_phase = tx_phase a,
         es_evidence_commitment = tx_effect_evidence_commitment a\<rparr>)"

definition resource_is_reserved :: "DispatchMachine \<Rightarrow> PhysicalResourceId \<Rightarrow> bool" where
  "resource_is_reserved m physical \<longleftrightarrow> dm_reservations m physical \<noteq> None"

definition resolve_state_destination ::
    "DispatchMachine \<Rightarrow> LogicalOwner \<Rightarrow> string \<Rightarrow> string \<Rightarrow> string \<Rightarrow> PhysicalResourceId dispatch_result" where
  "resolve_state_destination m owner cluster_identity namespace deployment_uid =
     (case filter (\<lambda>(physical, registration). dr_owner registration = owner
         \<and> ph_cluster_trust_domain physical = cluster_identity
         \<and> ph_namespace physical = namespace
         \<and> ph_deployment_uid physical = deployment_uid) (dm_registrations m) of
        [] \<Rightarrow> Err RegistrationMismatch
      | [(physical, _)] \<Rightarrow> Ok physical
      | _ \<Rightarrow> Err AliasConflict)"

definition accepts_bridge_owner :: "DispatchMachine \<Rightarrow> LogicalOwner \<Rightarrow> bool" where
  "accepts_bridge_owner m owner =
     (case dm_bridge_owner m of None \<Rightarrow> True | Some current \<Rightarrow> current = owner)"

definition bind_bridge_owner :: "LogicalOwner \<Rightarrow> DispatchMachine \<Rightarrow> DispatchMachine" where
  "bind_bridge_owner owner m =
     (if dm_bridge_owner m = None then m\<lparr>dm_bridge_owner := Some owner\<rparr> else m)"

definition bind_dispatch_claim_token ::
    "uuid \<Rightarrow> DispatchClaimToken \<Rightarrow> DispatchMachine \<Rightarrow> unit effect" where
  "bind_dispatch_claim_token transaction_id token m =
     attempt_q (attempt m transaction_id) m (\<lambda>a.
     attempt_q (ensure (\<not> (ck_transaction_id (tk_key token) \<noteq> transaction_id
         \<or> ck_authorization_id (tk_key token) \<noteq> cb_authorization_id (tx_consumption a)
         \<or> sc_tenant (ck_scope (tk_key token)) \<noteq> lo_tenant (tx_owner a)
         \<or> sc_environment (ck_scope (tk_key token)) \<noteq> lo_environment (tx_owner a)
         \<or> tx_dispatch_claim_token a \<noteq> None)) StaleLease) m (\<lambda>_.
     (Ok (), put_attempt transaction_id (a\<lparr>tx_dispatch_claim_token := Some token\<rparr>) m)))"

definition bridge_token_matches_claim ::
    "DispatchMachine \<Rightarrow> DispatchClaimToken \<Rightarrow> DispatchClaim \<Rightarrow> bool" where
  "bridge_token_matches_claim m token claim =
     (case dm_attempts m (dc_transaction_id claim) of
        None \<Rightarrow> False
      | Some a \<Rightarrow> tx_dispatch_claim_token a = Some token
          \<and> ck_transaction_id (tk_key token) = dc_transaction_id claim
          \<and> ck_authorization_id (tk_key token) = cb_authorization_id (dc_consumption claim)
          \<and> tk_worker_id token = dc_worker claim
          \<and> dc_physical claim = tx_physical a \<and> dc_consumption claim = tx_consumption a)"

definition bridge_token_matches_transaction ::
    "DispatchMachine \<Rightarrow> uuid \<Rightarrow> DispatchClaimToken \<Rightarrow> bool" where
  "bridge_token_matches_transaction m transaction_id token =
     (case dm_attempts m transaction_id of
        None \<Rightarrow> False
      | Some a \<Rightarrow> tx_dispatch_claim_token a = Some token
          \<and> ck_transaction_id (tk_key token) = transaction_id
          \<and> ck_authorization_id (tk_key token) = cb_authorization_id (tx_consumption a))"

definition bridge_snapshot_matches ::
    "DispatchMachine \<Rightarrow> uuid \<Rightarrow> LogicalOwner \<Rightarrow> PhysicalResourceId \<Rightarrow> AuthorityVersion
     \<Rightarrow> ConsumptionBinding \<Rightarrow> i64 \<Rightarrow> bool" where
  "bridge_snapshot_matches m transaction_id owner physical authority consumption dispatch_deadline =
     (case dm_attempts m transaction_id of
        None \<Rightarrow> False
      | Some a \<Rightarrow> tx_owner a = owner \<and> tx_physical a = physical
          \<and> tx_consumed_authority a = authority \<and> tx_consumption a = consumption
          \<and> tx_dispatch_deadline a = dispatch_deadline)"

end
