(* ===== verification/Transition_Systems.thy ===== *)
theory Transition_Systems
  imports Main
begin

text \<open>
  Contracts shared by the stateful components. A component provides its step relation and
  the laws of one step; the locales give what follows for whole runs: invariants of
  reachable states, values that only grow, values that never change once set, and keys that
  are accepted at most once.
\<close>

definition reach :: "('s \<Rightarrow> bool) \<Rightarrow> ('s \<Rightarrow> 's \<Rightarrow> bool) \<Rightarrow> 's \<Rightarrow> bool" where
  "reach init step s \<longleftrightarrow> (\<exists>s0. init s0 \<and> step\<^sup>*\<^sup>* s0 s)"

lemma reach_init: "init s \<Longrightarrow> reach init step s"
  by (auto simp: reach_def)

lemma reach_step: "reach init step s \<Longrightarrow> step s s' \<Longrightarrow> reach init step s'"
  by (auto simp: reach_def intro: rtranclp.rtrancl_into_rtrancl)

lemma reach_run: "reach init step s \<Longrightarrow> step\<^sup>*\<^sup>* s s' \<Longrightarrow> reach init step s'"
  by (auto simp: reach_def)

locale invariant_system =
  fixes init :: "'s \<Rightarrow> bool" and step :: "'s \<Rightarrow> 's \<Rightarrow> bool" and inv :: "'s \<Rightarrow> bool"
  assumes init_inv: "init s \<Longrightarrow> inv s"
    and step_inv: "inv s \<Longrightarrow> step s s' \<Longrightarrow> inv s'"
begin

lemma run_inv:
  assumes "step\<^sup>*\<^sup>* s s'" "inv s"
  shows "inv s'"
  using assms by (induction rule: rtranclp_induct) (auto intro: step_inv)

lemma reach_inv: "reach init step s \<Longrightarrow> inv s"
  unfolding reach_def by (blast intro: run_inv init_inv)

end

locale monotone_value =
  fixes step :: "'s \<Rightarrow> 's \<Rightarrow> bool" and measured :: "'s \<Rightarrow> 'v :: preorder"
  assumes step_mono: "step s s' \<Longrightarrow> measured s \<le> measured s'"
begin

lemma run_mono:
  assumes "step\<^sup>*\<^sup>* s s'"
  shows "measured s \<le> measured s'"
  using assms by (induction rule: rtranclp_induct) (auto intro: order.trans step_mono)

end

locale frozen_value =
  fixes step :: "'s \<Rightarrow> 's \<Rightarrow> bool" and lookup :: "'s \<Rightarrow> 'k \<Rightarrow> 'v option"
  assumes step_frozen: "step s s' \<Longrightarrow> lookup s k = Some v \<Longrightarrow> lookup s' k = Some v"
begin

lemma run_frozen:
  assumes "step\<^sup>*\<^sup>* s s'" "lookup s k = Some v"
  shows "lookup s' k = Some v"
  using assms by (induction rule: rtranclp_induct) (auto intro: step_frozen)

end

locale single_use = monotone_value step used
  for step :: "'s \<Rightarrow> 's \<Rightarrow> bool" and used :: "'s \<Rightarrow> 'k set" +
  fixes accept :: "'k \<Rightarrow> 's \<Rightarrow> 's \<Rightarrow> bool"
  assumes accept_fresh: "accept k s s' \<Longrightarrow> k \<notin> used s"
    and accept_uses: "accept k s s' \<Longrightarrow> k \<in> used s'"
begin

lemma accepted_once:
  assumes "accept k s s'" "step\<^sup>*\<^sup>* s' t"
  shows "\<not> accept k t t'"
proof
  assume "accept k t t'"
  then have "k \<notin> used t" by (rule accept_fresh)
  moreover have "k \<in> used s'" using assms(1) by (rule accept_uses)
  moreover have "used s' \<le> used t" using assms(2) by (rule run_mono)
  ultimately show False by auto
qed

end

end
