(* ===== verification/Dispatch_Lifecycle.thy ===== *)
theory Dispatch_Lifecycle
  imports Dispatch_Machine Transition_Systems
begin

text \<open>
  The abstract lifecycle that the dispatch machine implements. \<open>edge\<close> lists the changes one
  attempt can undergo, with the conditions under which the code makes them; \<open>transition\<close>
  lifts them to the machine together with consumption, reservation, takeover and release;
  \<open>dispatch_step\<close> is the machine's own step relation, one rule per method. The refinement
  lemma says that every method performs at most one transition.
\<close>

section \<open>Edges of one attempt\<close>

definition current :: "DispatchMachine \<Rightarrow> Attempt \<Rightarrow> i64 \<Rightarrow> bool" where
  "current m a now \<longleftrightarrow> dm_active_authority m = tx_consumed_authority a \<and> \<not> dm_emergency_stop m
     \<and> tx_emergency_generation a = dm_emergency_generation m \<and> now < tx_dispatch_deadline a"

definition lease_live :: "Attempt \<Rightarrow> i64 \<Rightarrow> bool" where
  "lease_live a now \<longleftrightarrow> (case tx_lease a of None \<Rightarrow> False | Some l \<Rightarrow> now < le_expires_at l)"

text \<open>When the bounds overflow, the recorded time is the largest one.\<close>

definition safe_bound :: "DispatchMachine \<Rightarrow> i64 \<Rightarrow> i64 \<Rightarrow> bool" where
  "safe_bound m expires_at safe_after \<longleftrightarrow>
     expires_at + db_clock_uncertainty_s (dm_bounds m) \<le> safe_after \<or> safe_after = i64_max"

definition lifetime_bound :: "DispatchMachine \<Rightarrow> Attempt \<Rightarrow> i64 \<Rightarrow> bool" where
  "lifetime_bound m a safe_after \<longleftrightarrow>
     (case tx_issue_started_at a of
        None \<Rightarrow> False
      | Some i \<Rightarrow> i + db_token_lifetime_upper_bound_s (dm_bounds m)
          + db_clock_uncertainty_s (dm_bounds m) \<le> safe_after \<or> safe_after = i64_max)"

inductive edge :: "externals \<Rightarrow> DispatchMachine \<Rightarrow> uuid \<Rightarrow> i64 \<Rightarrow> Attempt \<Rightarrow> Attempt \<Rightarrow> bool"
  for X m t now where
  wait: "tx_phase a \<in> {Consumed, DispatchWaitingResource} \<Longrightarrow>
    edge X m t now a (a\<lparr>tx_phase := DispatchWaitingResource\<rparr>)"
| cancel: "tx_phase a \<in> {BoundObjectCreatePending, CredentialPrepared} \<Longrightarrow>
    edge X m t now a (a\<lparr>tx_phase := ReleaseCancelled\<rparr>)"
| create: "tx_phase a = BoundObjectCreatePending \<Longrightarrow> current m a now \<Longrightarrow> lease_live a now \<Longrightarrow>
    edge X m t now a (a\<lparr>tx_phase := BoundObjectCreateInFlight\<rparr>)"
| create_unknown: "tx_phase a = BoundObjectCreateInFlight \<Longrightarrow>
    edge X m t now a (a\<lparr>tx_phase := BoundObjectCreateUnknown\<rparr>)"
| reconcile_object: "tx_phase a = BoundObjectCreateUnknown \<Longrightarrow>
    edge X m t now a (a\<lparr>tx_phase := BoundObjectReconciling\<rparr>)"
| object_matches: "tx_phase a \<in> {BoundObjectCreateInFlight, BoundObjectReconciling} \<Longrightarrow>
    map_of (dm_registrations m) (tx_physical a) = Some r \<Longrightarrow>
    valid_prepared_execution p (cb_effect (tx_consumption a)) (dr_credential r) \<Longrightarrow>
    edge X m t now a (a\<lparr>tx_bound_object_uid := Some (px_bound_object_uid p),
      tx_prepared_execution := Some p, tx_phase := CredentialPrepared\<rparr>)"
| object_unresolved: "tx_phase a \<in> {BoundObjectCreateInFlight, BoundObjectReconciling} \<Longrightarrow>
    edge X m t now a (a\<lparr>tx_phase := ManualResolutionRequired\<rparr>)"
| issue: "tx_phase a = CredentialPrepared \<Longrightarrow> tx_prepared_execution a \<noteq> None \<Longrightarrow>
    current m a now \<Longrightarrow> lease_live a now \<Longrightarrow>
    edge X m t now a (a\<lparr>tx_phase := CredentialIssuing, tx_issue_started_at := Some now\<rparr>)"
| issue_unknown: "tx_phase a = CredentialIssuing \<Longrightarrow>
    tx_credential_safe_after a = Some safe_after
      \<or> safe_after = now + db_token_lifetime_upper_bound_s (dm_bounds m)
          + db_clock_uncertainty_s (dm_bounds m) \<Longrightarrow>
    edge X m t now a
      (a\<lparr>tx_phase := CredentialIssueUnknown, tx_credential_safe_after := Some safe_after\<rparr>)"
| credential_ready: "tx_phase a = CredentialIssuing \<Longrightarrow> current m a now \<Longrightarrow> lease_live a now \<Longrightarrow>
    cc_token_digest c \<noteq> 0 \<Longrightarrow> now < cc_expires_at c \<Longrightarrow> safe_bound m (cc_expires_at c) safe_after \<Longrightarrow>
    lifetime_bound m a safe_after \<Longrightarrow>
    edge X m t now a ((retain_claims c safe_after a)\<lparr>tx_phase := CredentialReady\<rparr>)"
| credential_rejected: "tx_phase a = CredentialIssuing \<Longrightarrow> safe_bound m (cc_expires_at c) safe_after \<Longrightarrow>
    lifetime_bound m a safe_after \<Longrightarrow>
    edge X m t now a ((retain_claims c safe_after a)\<lparr>tx_phase := CredentialInvalidating\<rparr>)"
| invalidate: "tx_phase a \<in> {CredentialReady, ReleaseCancelled} \<Longrightarrow>
    edge X m t now a (a\<lparr>tx_phase := CredentialInvalidating\<rparr>)"
| execute: "tx_phase a = CredentialReady \<Longrightarrow> current m a now \<Longrightarrow> lease_live a now \<Longrightarrow>
    require_effect_binding a b = Ok () \<Longrightarrow> tx_token_expires_at a = Some e \<Longrightarrow>
    now + db_minimum_remaining_lifetime_s (dm_bounds m) \<le> e \<Longrightarrow>
    edge X m t now a (a\<lparr>tx_phase := Executing, tx_provider_attempt_started_at := Some now\<rparr>)"
| manual: "tx_phase a \<in> {CredentialReady, Executing} \<Longrightarrow>
    edge X m t now a (a\<lparr>tx_phase := ManualResolutionRequired\<rparr>)"
| succeed: "tx_phase a = Executing \<Longrightarrow> tx_provider_attempt_started_at a = Some s \<Longrightarrow>
    require_exact_effect_evidence X t a ev s now = Ok c \<Longrightarrow>
    edge X m t now a (a\<lparr>tx_phase := Executed, tx_effect_evidence_commitment := Some c\<rparr>)"
| outcome_unknown: "tx_phase a = Executing \<Longrightarrow>
    edge X m t now a (a\<lparr>tx_phase := ExecutionUnknown, tx_effect_evidence_commitment := None\<rparr>)"
| attempt_lost: "tx_phase a \<in> {EffectReleased, Executing} \<Longrightarrow>
    edge X m t now a (a\<lparr>tx_phase := ExecutionUnknown\<rparr>)"
| reconcile: "tx_phase a = ExecutionUnknown \<Longrightarrow>
    edge X m t now a (a\<lparr>tx_phase := Reconciling, tx_reconciliation_started_at := Some now\<rparr>)"
| reconciled: "tx_phase a = Reconciling \<Longrightarrow> tx_reconciliation_started_at a = Some s \<Longrightarrow>
    require_exact_effect_evidence X t a ev s now = Ok c \<Longrightarrow>
    edge X m t now a (a\<lparr>tx_phase := Executed, tx_effect_evidence_commitment := Some c\<rparr>)"
| unreconciled: "tx_phase a = Reconciling \<Longrightarrow>
    edge X m t now a
      (a\<lparr>tx_phase := ManualResolutionRequired, tx_effect_evidence_commitment := None\<rparr>)"
| quarantine: "tx_phase a \<in> quarantine_phases \<Longrightarrow>
    require_credential_invalidation_evidence t a ce = Ok () \<Longrightarrow>
    edge X m t now a
      (a\<lparr>tx_invalidation_confirmed := True, tx_phase := CredentialQuarantined\<rparr>)"
| confirm: "tx_phase a \<in> invalidation_phases - quarantine_phases \<Longrightarrow>
    require_credential_invalidation_evidence t a ce = Ok () \<Longrightarrow>
    edge X m t now a (a\<lparr>tx_invalidation_confirmed := True\<rparr>)"
| bind_token: "tx_dispatch_claim_token a = None \<Longrightarrow>
    edge X m t now a (a\<lparr>tx_dispatch_claim_token := Some tok\<rparr>)"

section \<open>Transitions of the machine\<close>

text \<open>What finalisation requires of the attempt: either no issuance ever began, or the
  credential was confirmed invalid and its conservative lifetime is over.\<close>

definition retired :: "Attempt \<Rightarrow> i64 \<Rightarrow> bool" where
  "retired a now \<longleftrightarrow>
     tx_phase a = ReleaseCancelled \<and> tx_issue_started_at a = None
     \<or> tx_phase a \<in> {CredentialQuarantined, Executed, ExecutionFailed} \<and> credential_is_safe a now"

definition time_ok :: "DispatchMachine \<Rightarrow> i64 \<Rightarrow> bool" where
  "time_ok m now \<longleftrightarrow> dm_high_water_time m \<le> now \<and> 0 \<le> now"

inductive transition :: "externals \<Rightarrow> DispatchMachine \<Rightarrow> DispatchMachine \<Rightarrow> bool" for X where
  stay: "transition X m m"
| registered: "map_of (dm_registrations m) p = None \<Longrightarrow>
    transition X m (m\<lparr>dm_registrations := (p, r) # dm_registrations m\<rparr>)"
| activated: "ver_epoch (dm_active_authority m) < ver_epoch v \<Longrightarrow>
    transition X m (m\<lparr>dm_active_authority := v\<rparr>)"
| stopped: "dm_emergency_generation m \<le> g \<Longrightarrow>
    (s \<Longrightarrow> \<not> dm_emergency_stop m \<Longrightarrow> dm_emergency_generation m < g) \<Longrightarrow>
    transition X m (m\<lparr>dm_emergency_generation := g, dm_emergency_stop := s\<rparr>)"
| owned: "dm_bridge_owner m = None \<Longrightarrow> transition X m (m\<lparr>dm_bridge_owner := Some w\<rparr>)"
| consumed: "time_ok m now \<Longrightarrow> \<not> is_nil t \<Longrightarrow> dm_attempts m t = None \<Longrightarrow>
    cb_authorization_id c \<notin> dm_consumed_authorization_ids m \<Longrightarrow>
    cb_authorization_hash c \<notin> dm_consumed_authorization_hashes m \<Longrightarrow>
    cb_receipt_commitment c \<notin> dm_consumed_receipts m \<Longrightarrow>
    map_option dr_owner (map_of (dm_registrations m) p) = Some w \<Longrightarrow>
    validate_consumption_binding c = Ok () \<Longrightarrow> now < d \<Longrightarrow>
    transition X m (commit_time now
      (put_attempt t (new_attempt m w p (dm_active_authority m) c d)
        (m\<lparr>dm_consumed_authorization_ids :=
             insert (cb_authorization_id c) (dm_consumed_authorization_ids m),
           dm_consumed_authorization_hashes :=
             insert (cb_authorization_hash c) (dm_consumed_authorization_hashes m),
           dm_consumed_receipts := insert (cb_receipt_commitment c) (dm_consumed_receipts m)\<rparr>)))"
| reserved: "time_ok m now \<Longrightarrow> dm_attempts m t = Some a \<Longrightarrow>
    tx_phase a \<in> {Consumed, DispatchWaitingResource} \<Longrightarrow> current m a now \<Longrightarrow>
    dm_reservations m (tx_physical a) = None \<Longrightarrow>
    u64_checked_add (case dm_reservation_generations m (tx_physical a) of None \<Rightarrow> 0 | Some g \<Rightarrow> g) 1
      = Some generation \<Longrightarrow>
    u64_checked_add (dm_next_fence m) 1 = Some fence \<Longrightarrow>
    expires = now + db_lease_ttl_s (dm_bounds m) \<Longrightarrow>
    transition X m (commit_time now
      (put_attempt t
        (a\<lparr>tx_phase := BoundObjectCreatePending, tx_reservation_generation := Some generation,
           tx_bound_object_name := Some (bound_object_name_for X t),
           tx_lease := Some \<lparr>le_worker = w, le_fence = fence, le_expires_at = expires\<rparr>\<rparr>)
        (m\<lparr>dm_next_fence := fence,
           dm_reservation_generations :=
             (dm_reservation_generations m)(tx_physical a \<mapsto> generation),
           dm_reservations := (dm_reservations m)(tx_physical a \<mapsto>
             \<lparr>rs_transaction_id = t, rs_generation = generation\<rparr>)\<rparr>)))"
| taken_over: "time_ok m now \<Longrightarrow> dm_attempts m t = Some a \<Longrightarrow>
    tx_phase a \<in> {BoundObjectCreatePending, BoundObjectCreateUnknown, BoundObjectReconciling,
      CredentialPrepared} \<Longrightarrow>
    tx_lease a = Some l \<Longrightarrow> le_expires_at l \<le> now \<Longrightarrow>
    u64_checked_add (dm_next_fence m) 1 = Some fence \<Longrightarrow>
    expires = now + db_lease_ttl_s (dm_bounds m) \<Longrightarrow>
    transition X m (commit_time now
      (put_attempt t
        (a\<lparr>tx_lease := Some \<lparr>le_worker = w, le_fence = fence, le_expires_at = expires\<rparr>\<rparr>)
        (m\<lparr>dm_next_fence := fence\<rparr>)))"
| moved: "time_ok m now \<Longrightarrow> dm_attempts m t = Some a \<Longrightarrow> edge X m t now a a' \<Longrightarrow>
    transition X m (commit_time now (put_attempt t a' m))"
| released: "time_ok m now \<Longrightarrow> dm_attempts m t = Some a \<Longrightarrow> retired a now \<Longrightarrow>
    dm_reservations m (tx_physical a) = Some r \<Longrightarrow> rs_transaction_id r = t \<Longrightarrow>
    tx_reservation_generation a = Some (rs_generation r) \<Longrightarrow>
    transition X m (commit_time now
      (put_attempt t (a\<lparr>tx_phase := TransactionFinal\<rparr>)
        (m\<lparr>dm_reservations := (dm_reservations m)(tx_physical a := None)\<rparr>)))"
| stranded: "dm_attempts m t = Some a \<Longrightarrow> tx_phase a = CredentialQuarantined \<Longrightarrow>
    \<not> (\<exists>r. dm_reservations m (tx_physical a) = Some r \<and> rs_transaction_id r = t
        \<and> tx_reservation_generation a = Some (rs_generation r)) \<Longrightarrow>
    transition X m (put_attempt t (a\<lparr>tx_phase := CredentialSafeExpired\<rparr>) m)"


section \<open>The machine's step relation\<close>

inductive dispatch_step :: "externals \<Rightarrow> DispatchMachine \<Rightarrow> DispatchMachine \<Rightarrow> bool" for X where
  s_register: "dispatch_step X m (snd (register_destination p w c m))"
| s_activate: "dispatch_step X m (snd (activate_authority v m))"
| s_emergency: "dispatch_step X m (snd (set_emergency_stop b m))"
| s_consume: "dispatch_step X m (snd (record_consumption_from_snapshot t w p v c ca oa d m))"
| s_prepare: "dispatch_step X m (snd (prepare_dispatch X t worker now m))"
| s_take_over: "dispatch_step X m (snd (take_over_expired_lease t worker now m))"
| s_recover: "dispatch_step X m (snd (recover_expired_lease t now m))"
| s_create: "dispatch_step X m (snd (begin_bound_object_create t cl now m))"
| s_create_unknown: "dispatch_step X m (snd (mark_bound_object_create_unknown t cl now m))"
| s_object_reconcile: "dispatch_step X m (snd (begin_bound_object_reconciliation t cl now m))"
| s_object_resolve: "dispatch_step X m (snd (resolve_bound_object t cl now obs m))"
| s_issue: "dispatch_step X m (snd (begin_credential_issue t cl now m))"
| s_issue_unknown: "dispatch_step X m (snd (mark_credential_issue_unknown t cl now m))"
| s_ready: "dispatch_step X m (snd (record_credential_ready X t cl now claims m))"
| s_quarantine_returned: "dispatch_step X m
    (snd (quarantine_returned_credential_after_state_rejection t cl claims m))"
| s_invalidate_ready: "dispatch_step X m
    (snd (invalidate_ready_credential_after_state_rejection t cl m))"
| s_non_issuance: "dispatch_step X m (snd (finalize_confirmed_non_issuance t ni now m))"
| s_execute: "dispatch_step X m (snd (release_and_begin_provider_attempt t cl b now m))"
| s_manual: "dispatch_step X m (snd (force_manual_provider_attempt_uncertainty t cl m))"
| s_outcome: "dispatch_step X m (snd (record_provider_outcome X t cl now po m))"
| s_reconcile: "dispatch_step X m (snd (begin_effect_reconciliation t now m))"
| s_resolve: "dispatch_step X m (snd (resolve_effect_reconciliation X t ro now m))"
| s_confirm: "dispatch_step X m (snd (confirm_credential_invalidation t ce now m))"
| s_finish: "dispatch_step X m (snd (finish_quarantined_credential t now m))"
| s_finalize: "dispatch_step X m (snd (finalize_terminal_effect t now m))"
| s_bind_owner: "dispatch_step X m (bind_bridge_owner w m)"
| s_bind_token: "dispatch_step X m (snd (bind_dispatch_claim_token t tok m))"

section \<open>Every method performs at most one transition\<close>

lemma attempt_q_simps [simp]: "attempt_q (Ok x) m f = f x" "attempt_q (Err e) m f = (Err e, m)"
  by (simp_all add: attempt_q_def)

text \<open>An effect either leaves the machine alone or makes a transition; a checked prefix keeps
  that, and hands the checked facts to the rest.\<close>

lemma transition_attempt_q:
  assumes "\<And>x. r = Ok x \<Longrightarrow> transition X m (snd (f x))"
  shows "transition X m (snd (attempt_q r m f))"
  using assms by (cases r) (simp_all add: stay)

lemma validate_time_Ok [simp]: "validate_time m now = Ok u \<longleftrightarrow> time_ok m now"
  by (auto simp: validate_time_def ensure_Ok time_ok_def)

lemma attempt_Ok [simp]: "attempt m t = Ok a \<longleftrightarrow> dm_attempts m t = Some a"
  by (simp add: attempt_def ok_or_Ok)

lemma require_lease_Ok:
  "require_lease m t cl now = Ok u \<Longrightarrow> dm_attempts m t = Some a \<Longrightarrow> lease_live a now"
  by (auto simp: require_lease_def result_simps lease_live_def)

lemma current_iff:
  "current m a now \<longleftrightarrow> require_authority m a = Ok () \<and> require_live_dispatch m a now = Ok ()"
  by (auto simp: current_def require_authority_def require_live_dispatch_def result_simps)

lemma transition_cancel_with:
  assumes "dm_attempts m t = Some a" "time_ok m now"
    and "tx_phase a \<in> {BoundObjectCreatePending, CredentialPrepared}"
  shows "transition X m (snd (cancel_with t now e m :: 'b effect))"
proof -
  have "snd (cancel_with t now e m :: 'b effect)
      = commit_time now (put_attempt t (a\<lparr>tx_phase := ReleaseCancelled\<rparr>) m)"
    using assms by (simp add: cancel_with_def cancel_release_def attempt_def)
  then show ?thesis using assms by (auto intro: moved edge.cancel)
qed

lemma transition_or_cancel:
  assumes "r \<noteq> Ok () \<Longrightarrow> dm_attempts m t = Some a \<and> time_ok m now
      \<and> tx_phase a \<in> {BoundObjectCreatePending, CredentialPrepared}"
    and "r = Ok () \<Longrightarrow> transition X m (snd k)"
  shows "transition X m (snd (or_cancel r t now m (k :: 'b effect)))"
proof (cases r)
  case (Err e)
  with assms(1) have "transition X m (snd (cancel_with t now e m :: 'b effect))"
    by (intro transition_cancel_with) auto
  with Err show ?thesis by (simp add: or_cancel_def)
qed (use assms in \<open>simp add: or_cancel_def\<close>)

lemma commit_high_water [simp]: "commit_time (dm_high_water_time m) (put_attempt t a m) = put_attempt t a m"
  by (simp add: commit_time_def put_attempt_def)

text \<open>The methods without a clock argument move an attempt at the current high-water time.\<close>

lemma moved_unclocked:
  assumes "0 \<le> dm_high_water_time m" "dm_attempts m t = Some a"
    and "edge X m t (dm_high_water_time m) a a'"
  shows "transition X m (put_attempt t a' m)"
  using moved [of m "dm_high_water_time m" t a X a'] assms by (simp add: time_ok_def)

lemmas transition_intros = transition_attempt_q transition_or_cancel


lemma register_refines: "transition X m (snd (register_destination p w c m))"
  unfolding register_destination_def
  by (rule transition_attempt_q) (auto intro: stay registered split: option.splits)

lemma activate_refines: "transition X m (snd (activate_authority v m))"
  unfolding activate_authority_def by (auto intro: stay activated)

lemma emergency_refines: "transition X m (snd (set_emergency_stop b m))"
proof (cases "b \<and> \<not> dm_emergency_stop m")
  case True
  show ?thesis
    unfolding set_emergency_stop_def using True
    by (auto simp: ok_or_Ok intro!: transition_attempt_q stopped u64_checked_succ_less
        order.strict_implies_order [OF u64_checked_succ_less])
next
  case False
  then show ?thesis
    using stopped [of m "dm_emergency_generation m" b X] by (auto simp: set_emergency_stop_def)
qed

lemma consume_refines:
  "transition X m (snd (record_consumption_from_snapshot t w p v c ca oa d m))"
  unfolding record_consumption_from_snapshot_def record_consumption_inner_def
  by (intro transition_attempt_q) (auto simp: ensure_Ok not_le intro!: consumed)

lemma prepare_refines: "transition X m (snd (prepare_dispatch X t worker now m))"
  unfolding prepare_dispatch_def
  by (intro transition_attempt_q)
    (auto simp: ensure_Ok ok_or_Ok current_iff Let_def i64_checked_add_Some
      intro!: transition_attempt_q reserved intro: stay moved edge.wait split: option.split)

lemma take_over_refines: "transition X m (snd (take_over_expired_lease t worker now m))"
  unfolding take_over_expired_lease_def Let_def
  by (intro transition_intros)
    (auto simp: ensure_Ok ok_or_Ok i64_checked_add_Some not_less intro!: taken_over split: if_splits)

lemma recover_refines: "transition X m (snd (recover_expired_lease t now m))"
proof -
  have same: "a\<lparr>tx_phase := p, tx_credential_safe_after := tx_credential_safe_after a\<rparr>
      = a\<lparr>tx_phase := p\<rparr>" for a p by simp
  have e: "edge X m t now a (a\<lparr>tx_phase := p, tx_credential_safe_after := s\<rparr>)"
    if "recovered_phase (tx_phase a) = Some p"
      and "(if tx_credential_safe_after a \<noteq> None then Ok (tx_credential_safe_after a)
         else if tx_phase a = CredentialIssuing
         then and_then (credential_safe_after m now) (\<lambda>t. Ok (Some t))
         else Ok None) = Ok s" for a p s
  proof (cases "tx_phase a = CredentialIssuing")
    case True
    from that True obtain y where "p = CredentialIssueUnknown" "s = Some y"
      "tx_credential_safe_after a = Some y
        \<or> y = now + db_token_lifetime_upper_bound_s (dm_bounds m) + db_clock_uncertainty_s (dm_bounds m)"
      by (cases "tx_credential_safe_after a")
        (auto simp: credential_safe_after_def result_simps bind_eq_Some_conv)
    with True show ?thesis by (simp only:) (rule edge.issue_unknown)
  next
    case False
    with that(2) have s: "s = tx_credential_safe_after a" by (auto split: if_splits)
    show ?thesis
      unfolding s same using that(1) False
      by (cases "tx_phase a") (auto intro: edge.intros)
  qed
  show ?thesis
    unfolding recover_expired_lease_def
    by (intro transition_attempt_q) (auto simp: ok_or_Ok intro!: moved e)
qed

lemma create_refines: "transition X m (snd (begin_bound_object_create t cl now m))"
  unfolding begin_bound_object_create_def
  by (intro transition_intros)
    (auto simp: ensure_Ok current_iff dest: require_lease_Ok intro!: moved edge.create)

lemma with_lease_refines:
  assumes "\<And>a. tx_phase a = p \<Longrightarrow> edge X m t now a (a\<lparr>tx_phase := q\<rparr>)"
  shows "transition X m (snd (transition_with_lease t cl now p q m))"
  unfolding transition_with_lease_def
  by (intro transition_attempt_q) (auto simp: ensure_Ok intro!: moved assms)

lemma object_resolve_refines: "transition X m (snd (resolve_bound_object t cl now obs m))"
  unfolding resolve_bound_object_def
  by (intro transition_attempt_q)
    (auto simp: ensure_Ok ok_or_Ok intro!: moved intro: stay edge.object_matches
      edge.object_unresolved split: BoundObjectObservation.split)

lemma issue_refines: "transition X m (snd (begin_credential_issue t cl now m))"
  unfolding begin_credential_issue_def
  by (intro transition_intros)
    (auto simp: ensure_Ok current_iff dest: require_lease_Ok intro!: moved edge.issue)

lemma issue_unknown_refines: "transition X m (snd (mark_credential_issue_unknown t cl now m))"
  unfolding mark_credential_issue_unknown_def
  by (intro transition_attempt_q)
    (auto simp: ensure_Ok credential_safe_after_def result_simps bind_eq_Some_conv
      intro!: moved edge.issue_unknown)

lemma issuer_bound_of_Some:
  "issuer_bound_of m i = Some b \<longleftrightarrow>
     b = i + db_token_lifetime_upper_bound_s (dm_bounds m) + db_clock_uncertainty_s (dm_bounds m)
     \<and> i64_ok (i + db_token_lifetime_upper_bound_s (dm_bounds m)) \<and> i64_ok b"
  by (auto simp: issuer_bound_of_def bind_eq_Some_conv i64_checked_add_Some)

lemma ready_refines: "transition X m (snd (record_credential_ready X t cl now claims m))"
proof -
  have e: "edge X m t now a ((retain_claims claims (max b s) a)\<lparr>tx_phase := CredentialInvalidating\<rparr>)"
      "\<not> claims_invalid X claims p n now b \<Longrightarrow> current m a now \<Longrightarrow> lease_live a now \<Longrightarrow>
       edge X m t now a ((retain_claims claims (max b s) a)\<lparr>tx_phase := CredentialReady\<rparr>)"
    if "tx_phase a = CredentialIssuing" "tx_issue_started_at a = Some i"
      "issuer_bound_of m i = Some b"
      "i64_checked_add (cc_expires_at claims) (db_clock_uncertainty_s (dm_bounds m)) = Some s"
    for a i b n s p
    using that
    by (auto simp: issuer_bound_of_Some i64_checked_add_Some safe_bound_def lifetime_bound_def
        claims_invalid_def intro!: edge.credential_rejected edge.credential_ready)
  show ?thesis
    unfolding record_credential_ready_def Let_def
    by (intro transition_attempt_q)
      (auto simp: ensure_Ok ok_or_Ok current_iff and_then_Ok dest: require_lease_Ok
        intro!: moved e split: result.split)
qed

lemma quarantine_returned_refines:
  assumes "0 \<le> dm_high_water_time m"
  shows "transition X m (snd (quarantine_returned_credential_after_state_rejection t cl claims m))"
  unfolding quarantine_returned_credential_after_state_rejection_def Let_def
  by (intro transition_attempt_q)
    (auto simp: ensure_Ok ok_or_Ok issuer_bound_of_Some i64_checked_add_Some safe_bound_def
      lifetime_bound_def i64_ok_def max_def intro!: moved_unclocked [OF assms] edge.credential_rejected
      split: option.split)

lemma invalidate_ready_refines:
  assumes "0 \<le> dm_high_water_time m"
  shows "transition X m (snd (invalidate_ready_credential_after_state_rejection t cl m))"
  unfolding invalidate_ready_credential_after_state_rejection_def
  by (intro transition_attempt_q)
    (auto simp: ensure_Ok intro!: moved_unclocked [OF assms] edge.invalidate)

lemma released_finalize:
  assumes "dm_attempts m t = Some a" "time_ok m now" "retired a now"
  shows "transition X m (snd (case finalize_and_release t m of
      (Ok u, m') \<Rightarrow> (Ok (), commit_time now m') | (Err e, m') \<Rightarrow> (Err e, m')))"
  using assms
  by (auto simp: finalize_and_release_def attempt_def attempt_q_def ok_or_def ensure_def
      split: option.split intro!: released stay)

lemma non_issuance_refines: "transition X m (snd (finalize_confirmed_non_issuance t ni now m))"
  unfolding finalize_confirmed_non_issuance_def
  by (intro transition_attempt_q)
    (auto simp: ensure_Ok retired_def intro!: released_finalize)

lemma preflight_Ok:
  assumes "preflight_provider_attempt m t cl b now = Ok u" "dm_attempts m t = Some a"
  shows "time_ok m now" "lease_live a now" "tx_phase a = CredentialReady" "current m a now"
    "require_effect_binding a b = Ok ()"
    "\<exists>e. tx_token_expires_at a = Some e \<and> now + db_minimum_remaining_lifetime_s (dm_bounds m) \<le> e"
  using assms
  by (auto simp: preflight_provider_attempt_def and_then_Ok ensure_Ok ok_or_Ok i64_checked_add_Some
      current_iff dest: require_lease_Ok)

lemma execute_refines: "transition X m (snd (release_and_begin_provider_attempt t cl b now m))"
proof -
  have "transition X m (commit_time now (put_attempt t
      (a\<lparr>tx_phase := Executing, tx_provider_attempt_started_at := Some now\<rparr>) m))"
    if pre: "preflight_provider_attempt m t cl b now = Ok u" and a: "dm_attempts m t = Some a" for u a
  proof -
    note p = preflight_Ok [OF pre a]
    obtain e where "tx_token_expires_at a = Some e"
      "now + db_minimum_remaining_lifetime_s (dm_bounds m) \<le> e" using p(6) by blast
    with p a show ?thesis by (intro moved [OF p(1) a] edge.execute)
  qed
  then show ?thesis
    unfolding release_and_begin_provider_attempt_def by (intro transition_attempt_q) auto
qed

lemma manual_refines:
  assumes "0 \<le> dm_high_water_time m"
  shows "transition X m (snd (force_manual_provider_attempt_uncertainty t cl m))"
  unfolding force_manual_provider_attempt_uncertainty_def
  by (intro transition_attempt_q) (auto simp: ensure_Ok intro!: moved_unclocked [OF assms] edge.manual)

lemma outcome_refines: "transition X m (snd (record_provider_outcome X t cl now po m))"
  unfolding record_provider_outcome_def
  by (intro transition_attempt_q)
    (auto simp: ensure_Ok result_simps intro!: moved intro: edge.succeed edge.outcome_unknown
      split: ProviderOutcome.splits)

lemma reconcile_refines: "transition X m (snd (begin_effect_reconciliation t now m))"
  unfolding begin_effect_reconciliation_def
  by (intro transition_attempt_q) (auto simp: ensure_Ok intro!: moved edge.reconcile)

lemma resolve_refines: "transition X m (snd (resolve_effect_reconciliation X t ro now m))"
  unfolding resolve_effect_reconciliation_def
  by (intro transition_attempt_q)
    (auto simp: ensure_Ok result_simps intro!: moved intro: edge.reconciled edge.unreconciled
      split: ReconciliationOutcome.splits)

lemma confirm_refines: "transition X m (snd (confirm_credential_invalidation t ce now m))"
  unfolding confirm_credential_invalidation_def Let_def
  by (intro transition_attempt_q)
    (auto simp: ensure_Ok intro!: moved intro: edge.quarantine edge.confirm)

lemma finish_refines: "transition X m (snd (finish_quarantined_credential t now m))"
proof -
  have "transition X m (snd (case finalize_and_release t
        (put_attempt t (a\<lparr>tx_phase := CredentialSafeExpired\<rparr>) m) of
      (Ok u, m') \<Rightarrow> (Ok (), commit_time now m') | (Err e, m') \<Rightarrow> (Err e, m')))"
    if a: "dm_attempts m t = Some a" "time_ok m now" "tx_phase a = CredentialQuarantined"
      "credential_is_safe a now" for a
  proof (cases "\<exists>r. dm_reservations m (tx_physical a) = Some r \<and> rs_transaction_id r = t
        \<and> tx_reservation_generation a = Some (rs_generation r)")
    case True
    with a released [of m now t a _ X] show ?thesis
      by (auto simp: finalize_and_release_def attempt_def put_attempt_def commit_time_def retired_def
          attempt_q_def ok_or_def ensure_def)
  next
    case False
    with a show ?thesis
      by (auto simp: finalize_and_release_def attempt_def put_attempt_def attempt_q_def ok_or_def
          ensure_def split: option.split
          intro!: stranded [unfolded put_attempt_def])
  qed
  then show ?thesis
    unfolding finish_quarantined_credential_def Let_def
    by (intro transition_attempt_q) (auto simp: ensure_Ok)
qed

lemma finalize_refines: "transition X m (snd (finalize_terminal_effect t now m))"
  unfolding finalize_terminal_effect_def
  by (intro transition_attempt_q) (auto simp: ensure_Ok retired_def intro!: released_finalize)

lemma bind_token_refines:
  assumes "0 \<le> dm_high_water_time m"
  shows "transition X m (snd (bind_dispatch_claim_token t tok m))"
  unfolding bind_dispatch_claim_token_def
  by (intro transition_attempt_q)
    (auto simp: ensure_Ok intro!: moved_unclocked [OF assms] edge.bind_token)

lemma bind_owner_refines: "transition X m (bind_bridge_owner w m)"
  by (auto simp: bind_bridge_owner_def intro: owned stay)

text \<open>Refinement: the step relation of the code is contained in the abstract lifecycle.\<close>

lemma dispatch_step_refines:
  assumes "dispatch_step X m m'" "0 \<le> dm_high_water_time m"
  shows "transition X m m'"
  using assms(1)
  by cases
    (use assms(2) in \<open>auto intro: register_refines activate_refines emergency_refines consume_refines
      prepare_refines take_over_refines recover_refines create_refines object_resolve_refines
      issue_refines issue_unknown_refines ready_refines quarantine_returned_refines
      invalidate_ready_refines non_issuance_refines execute_refines manual_refines outcome_refines
      reconcile_refines resolve_refines confirm_refines finish_refines finalize_refines
      bind_token_refines bind_owner_refines
      simp: mark_bound_object_create_unknown_def begin_bound_object_reconciliation_def
      intro!: with_lease_refines edge.create_unknown edge.reconcile_object\<close>)

end
