(* ===== verification/Dispatch_Invariants.thy ===== *)
theory Dispatch_Invariants
  imports Dispatch_Lifecycle
begin

text \<open>
  Invariants of the dispatch lifecycle, proved over the abstract transitions and carried to
  the machine's methods by refinement: at most one transaction holds a physical resource,
  fences and reservation generations are unique, no consumption is imported twice, the
  recorded facts of an attempt agree with its phase, and nothing that was started can be
  started again.
\<close>

lemma put_attempt_simps [simp]:
  "dm_bounds (put_attempt t a m) = dm_bounds m"
  "dm_active_authority (put_attempt t a m) = dm_active_authority m"
  "dm_emergency_stop (put_attempt t a m) = dm_emergency_stop m"
  "dm_emergency_generation (put_attempt t a m) = dm_emergency_generation m"
  "dm_high_water_time (put_attempt t a m) = dm_high_water_time m"
  "dm_registrations (put_attempt t a m) = dm_registrations m"
  "dm_attempts (put_attempt t a m) = (dm_attempts m)(t \<mapsto> a)"
  "dm_consumed_authorization_ids (put_attempt t a m) = dm_consumed_authorization_ids m"
  "dm_consumed_authorization_hashes (put_attempt t a m) = dm_consumed_authorization_hashes m"
  "dm_consumed_receipts (put_attempt t a m) = dm_consumed_receipts m"
  "dm_reservations (put_attempt t a m) = dm_reservations m"
  "dm_reservation_generations (put_attempt t a m) = dm_reservation_generations m"
  "dm_next_fence (put_attempt t a m) = dm_next_fence m"
  by (simp_all add: put_attempt_def)

lemma commit_time_simps [simp]:
  "dm_bounds (commit_time now m) = dm_bounds m"
  "dm_active_authority (commit_time now m) = dm_active_authority m"
  "dm_emergency_stop (commit_time now m) = dm_emergency_stop m"
  "dm_emergency_generation (commit_time now m) = dm_emergency_generation m"
  "dm_high_water_time (commit_time now m) = now"
  "dm_registrations (commit_time now m) = dm_registrations m"
  "dm_attempts (commit_time now m) = dm_attempts m"
  "dm_consumed_authorization_ids (commit_time now m) = dm_consumed_authorization_ids m"
  "dm_consumed_authorization_hashes (commit_time now m) = dm_consumed_authorization_hashes m"
  "dm_consumed_receipts (commit_time now m) = dm_consumed_receipts m"
  "dm_reservations (commit_time now m) = dm_reservations m"
  "dm_reservation_generations (commit_time now m) = dm_reservation_generations m"
  "dm_next_fence (commit_time now m) = dm_next_fence m"
  by (simp_all add: commit_time_def)

lemma new_attempt_simps [simp]:
  "tx_phase (new_attempt m w p v c d) = Consumed" "tx_physical (new_attempt m w p v c d) = p"
  "tx_consumption (new_attempt m w p v c d) = c"
  "tx_reservation_generation (new_attempt m w p v c d) = None"
  "tx_lease (new_attempt m w p v c d) = None" "tx_owner (new_attempt m w p v c d) = w"
  "tx_issue_started_at (new_attempt m w p v c d) = None"
  "tx_prepared_execution (new_attempt m w p v c d) = None"
  "tx_token_digest (new_attempt m w p v c d) = None"
  "tx_token_expires_at (new_attempt m w p v c d) = None"
  "tx_credential_safe_after (new_attempt m w p v c d) = None"
  "tx_invalidation_confirmed (new_attempt m w p v c d) = False"
  "tx_provider_attempt_started_at (new_attempt m w p v c d) = None"
  "tx_effect_evidence_commitment (new_attempt m w p v c d) = None"
  "tx_bound_object_name (new_attempt m w p v c d) = None"
  "tx_dispatch_claim_token (new_attempt m w p v c d) = None"
  by (simp_all add: new_attempt_def)

section \<open>What an edge keeps\<close>

definition holds_reservation :: "LifecyclePhase \<Rightarrow> bool" where
  "holds_reservation p \<longleftrightarrow> p \<notin> {Consumed, DispatchWaitingResource, TransactionFinal}"

lemma holds_reservation_simps [simp]:
  "\<not> holds_reservation Consumed" "\<not> holds_reservation DispatchWaitingResource"
  "\<not> holds_reservation TransactionFinal" "holds_reservation BoundObjectCreatePending"
  "holds_reservation CredentialQuarantined" "holds_reservation ReleaseCancelled"
  "holds_reservation Executed" "holds_reservation ExecutionFailed"
  by (simp_all add: holds_reservation_def)

definition static_facts where
  "static_facts a = (tx_owner a, tx_physical a, tx_consumed_authority a, tx_consumption a,
     tx_emergency_generation a, tx_dispatch_deadline a, tx_reservation_generation a, tx_lease a,
     tx_bound_object_name a)"

lemma edge_static: "edge X m t now a a' \<Longrightarrow> static_facts a' = static_facts a"
  by (cases rule: edge.cases) (auto simp: static_facts_def retain_claims_def)

lemma edge_holds: "edge X m t now a a' \<Longrightarrow> holds_reservation (tx_phase a') = holds_reservation (tx_phase a)"
  by (cases rule: edge.cases)
    (auto simp: holds_reservation_def quarantine_phases_def retain_claims_def)

lemma edge_waiting: "edge X m t now a a' \<Longrightarrow>
    tx_phase a' \<in> {Consumed, DispatchWaitingResource} \<longleftrightarrow> tx_phase a \<in> {Consumed, DispatchWaitingResource}"
  by (cases rule: edge.cases) (auto simp: quarantine_phases_def retain_claims_def)

section \<open>Reservations\<close>

definition reservation_inv :: "DispatchMachine \<Rightarrow> bool" where
  "reservation_inv m \<longleftrightarrow>
     (\<forall>t a. dm_attempts m t = Some a \<longrightarrow> holds_reservation (tx_phase a) \<longrightarrow>
        (\<exists>g. tx_reservation_generation a = Some g \<and> dm_reservations m (tx_physical a)
           = Some \<lparr>rs_transaction_id = t, rs_generation = g\<rparr>))
     \<and> (\<forall>p r. dm_reservations m p = Some r \<longrightarrow>
        (\<exists>a. dm_attempts m (rs_transaction_id r) = Some a \<and> tx_physical a = p
           \<and> holds_reservation (tx_phase a)))"

lemma reservation_of_holder:
  assumes "reservation_inv m" "dm_attempts m t = Some a" "holds_reservation (tx_phase a)"
  obtains g where "tx_reservation_generation a = Some g"
    "dm_reservations m (tx_physical a) = Some \<lparr>rs_transaction_id = t, rs_generation = g\<rparr>"
  using assms unfolding reservation_inv_def by blast

lemma holder_of_reservation:
  assumes "reservation_inv m" "dm_reservations m p = Some r"
  obtains a where "dm_attempts m (rs_transaction_id r) = Some a" "tx_physical a = p"
    "holds_reservation (tx_phase a)"
  using assms unfolding reservation_inv_def by blast

lemma reservation_inv_put:
  assumes inv: "reservation_inv m" and a: "dm_attempts m t = Some a"
    and same: "tx_physical a' = tx_physical a"
      "tx_reservation_generation a' = tx_reservation_generation a"
      "holds_reservation (tx_phase a') = holds_reservation (tx_phase a)"
    and m': "dm_attempts m' = (dm_attempts m)(t \<mapsto> a')" "dm_reservations m' = dm_reservations m"
  shows "reservation_inv m'"
  unfolding reservation_inv_def m'
proof (intro conjI allI impI)
  fix u b assume "((dm_attempts m)(t \<mapsto> a')) u = Some b" "holds_reservation (tx_phase b)"
  then show "\<exists>g. tx_reservation_generation b = Some g \<and> dm_reservations m (tx_physical b)
      = Some \<lparr>rs_transaction_id = u, rs_generation = g\<rparr>"
    using inv a same by (cases "u = t") (auto simp: reservation_inv_def)
next
  fix p r assume "dm_reservations m p = Some r"
  then obtain b where "dm_attempts m (rs_transaction_id r) = Some b" "tx_physical b = p"
    "holds_reservation (tx_phase b)" using inv unfolding reservation_inv_def by blast
  then show "\<exists>b. ((dm_attempts m)(t \<mapsto> a')) (rs_transaction_id r) = Some b \<and> tx_physical b = p
      \<and> holds_reservation (tx_phase b)"
    using a same by (cases "rs_transaction_id r = t") auto
qed

lemma reservation_inv_cong:
  "dm_attempts m' = dm_attempts m \<Longrightarrow> dm_reservations m' = dm_reservations m \<Longrightarrow>
     reservation_inv m' = reservation_inv m"
  by (simp add: reservation_inv_def)

lemma holder_unique:
  assumes "reservation_inv m" "dm_attempts m t = Some a" "dm_attempts m u = Some b"
    and "holds_reservation (tx_phase a)" "holds_reservation (tx_phase b)"
    and "tx_physical a = tx_physical b"
  shows "t = u"
proof -
  obtain g where g: "dm_reservations m (tx_physical a) = Some \<lparr>rs_transaction_id = t, rs_generation = g\<rparr>"
    using assms(1,2,4) unfolding reservation_inv_def by blast
  obtain h where "dm_reservations m (tx_physical b) = Some \<lparr>rs_transaction_id = u, rs_generation = h\<rparr>"
    using assms(1,3,5) unfolding reservation_inv_def by blast
  with g assms(6) show ?thesis by simp
qed

lemma reservation_inv_reserved:
  assumes inv: "reservation_inv m" and a: "dm_attempts m t = Some a"
    and free: "dm_reservations m (tx_physical a) = None"
    and a': "tx_physical a' = tx_physical a" "tx_reservation_generation a' = Some g"
      "holds_reservation (tx_phase a')"
    and m': "dm_attempts m' = (dm_attempts m)(t \<mapsto> a')" "dm_reservations m' = (dm_reservations m)
      (tx_physical a \<mapsto> \<lparr>rs_transaction_id = t, rs_generation = g\<rparr>)"
  shows "reservation_inv m'"
  unfolding reservation_inv_def m'
proof (intro conjI allI impI)
  fix u b assume b: "((dm_attempts m)(t \<mapsto> a')) u = Some b" "holds_reservation (tx_phase b)"
  show "\<exists>h. tx_reservation_generation b = Some h \<and> ((dm_reservations m)
      (tx_physical a \<mapsto> \<lparr>rs_transaction_id = t, rs_generation = g\<rparr>)) (tx_physical b)
      = Some \<lparr>rs_transaction_id = u, rs_generation = h\<rparr>"
  proof (cases "u = t")
    case False
    with b have "dm_attempts m u = Some b" by simp
    then obtain h where "tx_reservation_generation b = Some h"
      "dm_reservations m (tx_physical b) = Some \<lparr>rs_transaction_id = u, rs_generation = h\<rparr>"
      using b(2) by (rule reservation_of_holder [OF inv])
    with free show ?thesis by auto
  qed (use b a' in auto)
next
  fix p r assume "((dm_reservations m)
      (tx_physical a \<mapsto> \<lparr>rs_transaction_id = t, rs_generation = g\<rparr>)) p = Some r"
  then consider "p = tx_physical a" "rs_transaction_id r = t" | "p \<noteq> tx_physical a" "dm_reservations m p = Some r"
    by (auto split: if_splits)
  then show "\<exists>b. ((dm_attempts m)(t \<mapsto> a')) (rs_transaction_id r) = Some b \<and> tx_physical b = p
      \<and> holds_reservation (tx_phase b)"
  proof cases
    case 2
    then obtain b where "dm_attempts m (rs_transaction_id r) = Some b" "tx_physical b = p"
      "holds_reservation (tx_phase b)" using inv unfolding reservation_inv_def by blast
    with 2 a show ?thesis by (cases "rs_transaction_id r = t") auto
  qed (use a' in auto)
qed

lemma reservation_inv_released:
  assumes inv: "reservation_inv m" and a: "dm_attempts m t = Some a"
    and mine: "dm_reservations m (tx_physical a) = Some r" "rs_transaction_id r = t"
    and a': "\<not> holds_reservation (tx_phase a')"
    and m': "dm_attempts m' = (dm_attempts m)(t \<mapsto> a')"
      "dm_reservations m' = (dm_reservations m)(tx_physical a := None)"
  shows "reservation_inv m'"
  unfolding reservation_inv_def m'
proof (intro conjI allI impI)
  fix u b assume b: "((dm_attempts m)(t \<mapsto> a')) u = Some b" "holds_reservation (tx_phase b)"
  with a' have u: "u \<noteq> t" "dm_attempts m u = Some b" by (auto split: if_splits)
  then obtain h where h: "tx_reservation_generation b = Some h"
    "dm_reservations m (tx_physical b) = Some \<lparr>rs_transaction_id = u, rs_generation = h\<rparr>"
    using b(2) by (blast elim: reservation_of_holder [OF inv])
  with u mine have "tx_physical b \<noteq> tx_physical a" by auto
  with h show "\<exists>h. tx_reservation_generation b = Some h \<and>
      ((dm_reservations m)(tx_physical a := None)) (tx_physical b)
      = Some \<lparr>rs_transaction_id = u, rs_generation = h\<rparr>" by simp
next
  fix p s assume "((dm_reservations m)(tx_physical a := None)) p = Some s"
  then have p: "p \<noteq> tx_physical a" "dm_reservations m p = Some s" by (auto split: if_splits)
  then obtain b where b: "dm_attempts m (rs_transaction_id s) = Some b" "tx_physical b = p"
    "holds_reservation (tx_phase b)" using inv unfolding reservation_inv_def by blast
  with p a have "rs_transaction_id s \<noteq> t" by auto
  with b show "\<exists>b. ((dm_attempts m)(t \<mapsto> a')) (rs_transaction_id s) = Some b \<and> tx_physical b = p
      \<and> holds_reservation (tx_phase b)" by auto
qed

lemma reservation_inv_step:
  assumes "transition X m m'" "reservation_inv m"
  shows "reservation_inv m'"
  using assms(1)
proof cases
  case (consumed now t c p w d)
  have fresh: "rs_transaction_id r \<noteq> t" if "dm_reservations m q = Some r" for q r
    using holder_of_reservation [OF assms(2) that] consumed(4) by force
  show ?thesis
    using assms(2) fresh unfolding reservation_inv_def consumed(1) by simp
next
  case (reserved now t a generation fence expires w)
  show ?thesis
    by (rule reservation_inv_reserved [OF assms(2) reserved(3) reserved(6)])
      (use reserved in simp_all)
next
  case (taken_over now t a l fence expires w)
  show ?thesis
    by (rule reservation_inv_put [OF assms(2) taken_over(3)]) (use taken_over in simp_all)
next
  case (moved now t a a')
  show ?thesis
    by (rule reservation_inv_put [OF assms(2) moved(3)])
      (use moved edge_static [OF moved(4)] edge_holds [OF moved(4)] in
        \<open>simp_all add: static_facts_def\<close>)
next
  case (released now t a r)
  show ?thesis
    by (rule reservation_inv_released [OF assms(2) released(3) released(5) released(6)])
      (use released in simp_all)
next
  case (stranded t a)
  then obtain g where "tx_reservation_generation a = Some g"
    "dm_reservations m (tx_physical a) = Some \<lparr>rs_transaction_id = t, rs_generation = g\<rparr>"
    by (auto intro: reservation_of_holder [OF assms(2) stranded(2)])
  with stranded(4) show ?thesis by auto
qed (use assms(2) in \<open>simp_all add: reservation_inv_def\<close>)


section \<open>Consumption\<close>

text \<open>The consumption each transaction imported.\<close>

definition consumptions :: "DispatchMachine \<Rightarrow> uuid \<Rightarrow> ConsumptionBinding option" where
  "consumptions m t = map_option tx_consumption (dm_attempts m t)"

definition consumption_inv :: "DispatchMachine \<Rightarrow> bool" where
  "consumption_inv m \<longleftrightarrow>
     dm_consumed_authorization_ids m = cb_authorization_id ` ran (consumptions m)
     \<and> dm_consumed_authorization_hashes m = cb_authorization_hash ` ran (consumptions m)
     \<and> dm_consumed_receipts m = cb_receipt_commitment ` ran (consumptions m)
     \<and> (\<forall>t u c d. consumptions m t = Some c \<longrightarrow> consumptions m u = Some d \<longrightarrow>
          (cb_authorization_id c = cb_authorization_id d \<or> cb_authorization_hash c = cb_authorization_hash d
           \<or> cb_receipt_commitment c = cb_receipt_commitment d) \<longrightarrow> t = u)"

lemma consumptions_put:
  "dm_attempts m' = (dm_attempts m)(t \<mapsto> a') \<Longrightarrow> dm_attempts m t = Some a \<Longrightarrow>
     tx_consumption a' = tx_consumption a \<Longrightarrow> consumptions m' = consumptions m"
  by (auto simp: consumptions_def fun_eq_iff)

lemma consumptions_same: "dm_attempts m' = dm_attempts m \<Longrightarrow> consumptions m' = consumptions m"
  by (simp add: consumptions_def fun_eq_iff)

lemma edge_consumption: "edge X m t now a a' \<Longrightarrow> tx_consumption a' = tx_consumption a"
  by (drule edge_static) (simp add: static_facts_def)

text \<open>Consumption aside, a transition leaves the consumed sets and the consumptions alone.\<close>

lemma transition_consumptions:
  assumes "transition X m m'"
  obtains (same) "consumptions m' = consumptions m"
      "dm_consumed_authorization_ids m' = dm_consumed_authorization_ids m"
      "dm_consumed_authorization_hashes m' = dm_consumed_authorization_hashes m"
      "dm_consumed_receipts m' = dm_consumed_receipts m"
    | (new) t c where "consumptions m t = None" "consumptions m' = (consumptions m)(t \<mapsto> c)"
      "cb_authorization_id c \<notin> dm_consumed_authorization_ids m"
      "cb_authorization_hash c \<notin> dm_consumed_authorization_hashes m"
      "cb_receipt_commitment c \<notin> dm_consumed_receipts m"
      "dm_consumed_authorization_ids m' = insert (cb_authorization_id c) (dm_consumed_authorization_ids m)"
      "dm_consumed_authorization_hashes m'
        = insert (cb_authorization_hash c) (dm_consumed_authorization_hashes m)"
      "dm_consumed_receipts m' = insert (cb_receipt_commitment c) (dm_consumed_receipts m)"
  using assms
proof cases
  case (consumed now t c p w d)
  show ?thesis
    by (rule new [of t c]) (use consumed in \<open>simp_all add: consumptions_def fun_eq_iff\<close>)
next
  case (moved now t a a')
  show ?thesis
    by (rule same [OF consumptions_put [OF _ moved(3) edge_consumption [OF moved(4)]]])
      (use moved in simp_all)
next
  case (reserved now t a generation fence expires w)
  have "consumptions m' = consumptions m"
    unfolding reserved(1) by (auto simp: consumptions_def fun_eq_iff reserved(3))
  then show ?thesis by (rule same) (use reserved in simp_all)
next
  case (taken_over now t a l fence expires w)
  have "consumptions m' = consumptions m"
    unfolding taken_over(1) by (auto simp: consumptions_def fun_eq_iff taken_over(3))
  then show ?thesis by (rule same) (use taken_over in simp_all)
next
  case (released now t a r)
  have "consumptions m' = consumptions m"
    unfolding released(1) by (auto simp: consumptions_def fun_eq_iff released(3))
  then show ?thesis by (rule same) (use released in simp_all)
next
  case (stranded t a)
  have "consumptions m' = consumptions m"
    unfolding stranded(1) by (auto simp: consumptions_def fun_eq_iff stranded(2))
  then show ?thesis by (rule same) (use stranded in simp_all)
qed (rule same [OF consumptions_same]; simp)+

lemma consumption_inv_step:
  assumes "transition X m m'" "consumption_inv m"
  shows "consumption_inv m'"
  using assms(1)
proof (cases rule: transition_consumptions)
  case same
  with assms(2) show ?thesis by (simp add: consumption_inv_def)
next
  case (new t c)
  have ran: "ran (consumptions m') = insert c (ran (consumptions m))"
    using new(1,2) by simp
  have fresh: "cb_authorization_id d \<noteq> cb_authorization_id c \<and> cb_authorization_hash d \<noteq> cb_authorization_hash c
      \<and> cb_receipt_commitment d \<noteq> cb_receipt_commitment c" if "consumptions m u = Some d" for u d
  proof -
    have "d \<in> ran (consumptions m)" using that by (rule ranI)
    then have "cb_authorization_id d \<in> dm_consumed_authorization_ids m"
      "cb_authorization_hash d \<in> dm_consumed_authorization_hashes m"
      "cb_receipt_commitment d \<in> dm_consumed_receipts m"
      using assms(2) by (simp_all add: consumption_inv_def)
    then show ?thesis using new(3-5) by auto
  qed
  have old: "\<forall>t u c d. consumptions m t = Some c \<longrightarrow> consumptions m u = Some d \<longrightarrow>
      (cb_authorization_id c = cb_authorization_id d \<or> cb_authorization_hash c = cb_authorization_hash d
       \<or> cb_receipt_commitment c = cb_receipt_commitment d) \<longrightarrow> t = u"
    using assms(2) unfolding consumption_inv_def by (elim conjE)
  have inj: "\<forall>t' u' c' d'. consumptions m' t' = Some c' \<longrightarrow> consumptions m' u' = Some d' \<longrightarrow>
      (cb_authorization_id c' = cb_authorization_id d' \<or> cb_authorization_hash c' = cb_authorization_hash d'
       \<or> cb_receipt_commitment c' = cb_receipt_commitment d') \<longrightarrow> t' = u'"
  proof (intro allI impI)
    fix t' u' c' d'
    assume c': "consumptions m' t' = Some c'" and d': "consumptions m' u' = Some d'"
      and eq: "cb_authorization_id c' = cb_authorization_id d' \<or> cb_authorization_hash c' = cb_authorization_hash d'
       \<or> cb_receipt_commitment c' = cb_receipt_commitment d'"
    show "t' = u'"
    proof (cases "t' = t")
      case True
      with c' d' eq fresh [of u' d'] show ?thesis unfolding new(2) by (cases "u' = t") auto
    next
      case False
      with c' have m: "consumptions m t' = Some c'" unfolding new(2) by simp
      show ?thesis
      proof (cases "u' = t")
        case True
        with d' eq fresh [OF m] show ?thesis unfolding new(2) by auto
      next
        case False
        with d' have "consumptions m u' = Some d'" unfolding new(2) by simp
        with m eq old show ?thesis by blast
      qed
    qed
  qed
  show ?thesis
    using assms(2) inj by (simp only: consumption_inv_def ran new(6-8) image_insert)
qed


section \<open>Facts recorded for each phase\<close>

definition before_issue :: "LifecyclePhase set" where
  "before_issue = {Consumed, DispatchWaitingResource, BoundObjectCreatePending,
     BoundObjectCreateInFlight, BoundObjectCreateUnknown, BoundObjectReconciling,
     CredentialPrepared, ReleaseCancelled}"

definition after_ready :: "LifecyclePhase set" where
  "after_ready = {CredentialReady, Executing, ExecutionUnknown, Reconciling, Executed}"

definition after_start :: "LifecyclePhase set" where
  "after_start = {Executing, ExecutionUnknown, Reconciling, Executed}"

text \<open>Issuance: no issuance before its phase, and the conservative expiry covers every token that
  the issuer could have minted since.\<close>

definition issuance_wf :: "DispatchMachine \<Rightarrow> Attempt \<Rightarrow> bool" where
  "issuance_wf m a \<longleftrightarrow>
     (tx_phase a \<in> before_issue \<longrightarrow> tx_issue_started_at a = None \<and> tx_credential_safe_after a = None
        \<and> tx_token_digest a = None \<and> tx_token_expires_at a = None \<and> \<not> tx_invalidation_confirmed a)
     \<and> (tx_phase a = CredentialIssuing \<longrightarrow> tx_issue_started_at a \<noteq> None
        \<and> tx_credential_safe_after a = None \<and> tx_token_digest a = None \<and> tx_token_expires_at a = None)
     \<and> (tx_phase a \<in> insert CredentialIssueUnknown after_ready \<longrightarrow>
        tx_issue_started_at a \<noteq> None \<and> tx_credential_safe_after a \<noteq> None)
     \<and> (\<forall>i. tx_issue_started_at a = Some i \<longrightarrow> i \<le> dm_high_water_time m)
     \<and> (\<forall>s. tx_credential_safe_after a = Some s \<longrightarrow> lifetime_bound m a s)
     \<and> (\<forall>e. tx_token_expires_at a = Some e \<longrightarrow>
          (\<exists>s. tx_credential_safe_after a = Some s \<and> safe_bound m e s))"

text \<open>Custody: what was prepared is what the authorization and the registration name, and a
  ready credential has a digest and an expiry.\<close>

definition custody_wf :: "DispatchMachine \<Rightarrow> Attempt \<Rightarrow> bool" where
  "custody_wf m a \<longleftrightarrow>
     (tx_phase a \<in> {Consumed, DispatchWaitingResource} \<longrightarrow>
        tx_lease a = None \<and> tx_reservation_generation a = None \<and> tx_prepared_execution a = None)
     \<and> (tx_phase a \<in> insert CredentialPrepared (insert CredentialIssuing
          (insert CredentialIssueUnknown after_ready)) \<longrightarrow> tx_prepared_execution a \<noteq> None)
     \<and> (tx_invalidation_confirmed a \<longrightarrow> tx_prepared_execution a \<noteq> None)
     \<and> (\<forall>p. tx_prepared_execution a = Some p \<longrightarrow>
          (\<exists>r. map_of (dm_registrations m) (tx_physical a) = Some r
             \<and> valid_prepared_execution p (cb_effect (tx_consumption a)) (dr_credential r)))
     \<and> (tx_phase a \<in> after_ready \<longrightarrow>
          (\<exists>d. tx_token_digest a = Some d \<and> d \<noteq> 0) \<and> tx_token_expires_at a \<noteq> None)"

text \<open>Execution: one start, evidence exactly for an executed effect, and a final state only after
  a proven non-issuance or a safe retirement.\<close>

definition execution_wf :: "DispatchMachine \<Rightarrow> Attempt \<Rightarrow> bool" where
  "execution_wf m a \<longleftrightarrow>
     tx_phase a \<notin> {EffectReleased, ExecutionFailed, CredentialSafeExpired}
     \<and> (tx_phase a \<in> after_start \<longrightarrow> tx_provider_attempt_started_at a \<noteq> None)
     \<and> (\<forall>s. tx_provider_attempt_started_at a = Some s \<longrightarrow> s \<le> dm_high_water_time m
          \<and> tx_phase a \<in> after_start \<union> {ManualResolutionRequired, TransactionFinal})
     \<and> (tx_phase a = Executed \<longrightarrow> tx_effect_evidence_commitment a \<noteq> None)
     \<and> (\<forall>c. tx_effect_evidence_commitment a = Some c \<longrightarrow>
          c \<noteq> 0 \<and> tx_phase a \<in> {Executed, TransactionFinal})
     \<and> (tx_phase a = CredentialQuarantined \<longrightarrow> tx_invalidation_confirmed a)
     \<and> (tx_phase a = TransactionFinal \<longrightarrow>
          tx_issue_started_at a = None
          \<or> tx_invalidation_confirmed a
            \<and> (\<exists>s. tx_credential_safe_after a = Some s \<and> s \<le> dm_high_water_time m))"

lemmas phase_sets = before_issue_def after_ready_def after_start_def quarantine_phases_def
  invalidation_phases_def

lemma time_okD: "time_ok m now \<Longrightarrow> dm_high_water_time m \<le> now"
  by (simp add: time_ok_def)

lemma lifetime_bound_commit [simp]:
  "lifetime_bound (commit_time now (put_attempt t b m)) a s = lifetime_bound m a s"
  by (simp add: lifetime_bound_def split: option.split)

lemma safe_bound_commit [simp]: "safe_bound (commit_time now (put_attempt t b m)) e s = safe_bound m e s"
  by (simp add: safe_bound_def)

lemma lifetime_bound_upd [simp]:
  "lifetime_bound m (a\<lparr>tx_phase := p\<rparr>) s = lifetime_bound m a s"
  "lifetime_bound m (a\<lparr>tx_credential_safe_after := q\<rparr>) s = lifetime_bound m a s"
  "lifetime_bound m (a\<lparr>tx_invalidation_confirmed := b\<rparr>) s = lifetime_bound m a s"
  "lifetime_bound m (a\<lparr>tx_provider_attempt_started_at := i\<rparr>) s = lifetime_bound m a s"
  "lifetime_bound m (a\<lparr>tx_reconciliation_started_at := i\<rparr>) s = lifetime_bound m a s"
  "lifetime_bound m (a\<lparr>tx_effect_evidence_commitment := c\<rparr>) s = lifetime_bound m a s"
  "lifetime_bound m (a\<lparr>tx_dispatch_claim_token := k\<rparr>) s = lifetime_bound m a s"
  "lifetime_bound m (a\<lparr>tx_prepared_execution := x\<rparr>) s = lifetime_bound m a s"
  "lifetime_bound m (a\<lparr>tx_bound_object_uid := y\<rparr>) s = lifetime_bound m a s"
  "lifetime_bound m (retain_claims cl z a) s = lifetime_bound m a s"
  by (simp_all add: lifetime_bound_def retain_claims_def)

lemma retain_claims_simps [simp]:
  "tx_phase (retain_claims c s a) = tx_phase a"
  "tx_issue_started_at (retain_claims c s a) = tx_issue_started_at a"
  "tx_credential_safe_after (retain_claims c s a) = Some s"
  "tx_token_digest (retain_claims c s a) = Some (cc_token_digest c)"
  "tx_token_expires_at (retain_claims c s a) = Some (cc_expires_at c)"
  "tx_prepared_execution (retain_claims c s a) = tx_prepared_execution a"
  "tx_invalidation_confirmed (retain_claims c s a) = tx_invalidation_confirmed a"
  "tx_provider_attempt_started_at (retain_claims c s a) = tx_provider_attempt_started_at a"
  "tx_effect_evidence_commitment (retain_claims c s a) = tx_effect_evidence_commitment a"
  "tx_lease (retain_claims c s a) = tx_lease a" "tx_physical (retain_claims c s a) = tx_physical a"
  "tx_reservation_generation (retain_claims c s a) = tx_reservation_generation a"
  "tx_consumption (retain_claims c s a) = tx_consumption a"
  by (simp_all add: retain_claims_def)

lemma exact_evidence_nonzero:
  "require_exact_effect_evidence X t a ev s now = Ok c \<Longrightarrow> c \<noteq> 0"
  by (auto simp: require_exact_effect_evidence_def result_simps Let_def)

lemma issuance_wf_edge:
  assumes "edge X m t now a a'" "issuance_wf m a" "tx_phase a \<noteq> EffectReleased"
    and "\<forall>i. tx_issue_started_at a = Some i \<longrightarrow> i \<le> now"
  shows "issuance_wf (commit_time now (put_attempt t b m)) a'"
  using assms
proof (induction rule: edge.induct)
  case (issue_unknown a safe_after)
  then show ?case by (auto simp: issuance_wf_def phase_sets lifetime_bound_def)
next
  case (confirm a ce)
  then have "tx_phase a \<notin> before_issue" by (auto simp: phase_sets)
  with confirm show ?case by (simp add: issuance_wf_def)
next
  case (bind_token a tok)
  then show ?case by (simp add: issuance_wf_def)
next
  case (quarantine a ce)
  then show ?case
    unfolding quarantine_phases_def by (elim insertE emptyE; simp add: issuance_wf_def phase_sets)
qed ((elim insertE emptyE)?; simp add: issuance_wf_def phase_sets)+

lemma custody_wf_edge:
  assumes "edge X m t now a a'" "custody_wf m a" "tx_phase a \<noteq> EffectReleased"
  shows "custody_wf (commit_time now (put_attempt t b m)) a'"
  using assms
proof (induction rule: edge.induct)
  case (confirm a ce)
  then have "tx_prepared_execution a \<noteq> None"
    by (auto simp: require_credential_invalidation_evidence_def result_simps)
  with confirm show ?case by (simp add: custody_wf_def)
next
  case (quarantine a ce)
  then have "tx_prepared_execution a \<noteq> None"
    by (auto simp: require_credential_invalidation_evidence_def result_simps)
  with quarantine show ?case by (simp add: custody_wf_def after_ready_def)
next
  case (bind_token a tok)
  then show ?case by (simp add: custody_wf_def)
next
  case (wait a)
  then show ?case by (elim insertE emptyE; clarsimp simp: custody_wf_def after_ready_def)
qed ((elim insertE emptyE)?; simp add: custody_wf_def after_ready_def)+

lemma execution_wf_edge:
  assumes "edge X m t now a a'" "execution_wf m a"
    and "\<forall>s. tx_provider_attempt_started_at a = Some s \<longrightarrow> s \<le> now"
    and "tx_phase a = TransactionFinal \<longrightarrow> tx_issue_started_at a = None
      \<or> tx_invalidation_confirmed a \<and> (\<exists>s. tx_credential_safe_after a = Some s \<and> s \<le> now)"
  shows "execution_wf (commit_time now (put_attempt t b m)) a'"
  using assms
proof (induction rule: edge.induct)
  case (confirm a ce)
  then have "tx_phase a \<noteq> TransactionFinal" by (auto simp: phase_sets)
  with confirm show ?case by (simp add: execution_wf_def)
next
  case (bind_token a tok)
  then show ?case by (simp add: execution_wf_def)
next
  case (succeed a s ev c)
  then have "c \<noteq> 0" by (auto dest: exact_evidence_nonzero)
  with succeed show ?case by (simp add: execution_wf_def after_start_def)
next
  case (reconciled a s ev c)
  then have "c \<noteq> 0" by (auto dest: exact_evidence_nonzero)
  with reconciled show ?case by (simp add: execution_wf_def after_start_def)
next
  case (quarantine a ce)
  then show ?case
    unfolding quarantine_phases_def by (elim insertE emptyE; simp add: execution_wf_def phase_sets)
qed ((elim insertE emptyE)?; simp add: execution_wf_def phase_sets)+

section \<open>Every attempt is well formed\<close>

definition attempt_wf :: "DispatchMachine \<Rightarrow> Attempt \<Rightarrow> bool" where
  "attempt_wf m a \<longleftrightarrow> issuance_wf m a \<and> custody_wf m a \<and> execution_wf m a"

definition attempts_wf :: "DispatchMachine \<Rightarrow> bool" where
  "attempts_wf m \<longleftrightarrow> (\<forall>t a. dm_attempts m t = Some a \<longrightarrow> attempt_wf m a)"

text \<open>The machine facts an attempt depends on only grow.\<close>

definition extends :: "DispatchMachine \<Rightarrow> DispatchMachine \<Rightarrow> bool" where
  "extends m m' \<longleftrightarrow> dm_bounds m' = dm_bounds m \<and> dm_high_water_time m \<le> dm_high_water_time m'
     \<and> (\<forall>p r. map_of (dm_registrations m) p = Some r \<longrightarrow> map_of (dm_registrations m') p = Some r)"

lemma bounds_extends:
  assumes "extends m m'"
  shows "lifetime_bound m' a s = lifetime_bound m a s" "safe_bound m' e s = safe_bound m e s"
  using assms by (auto simp: extends_def lifetime_bound_def safe_bound_def split: option.split)

lemma attempt_wf_extends:
  assumes "attempt_wf m a" "extends m m'"
  shows "attempt_wf m' a"
proof -
  have "issuance_wf m' a"
    using assms unfolding attempt_wf_def issuance_wf_def bounds_extends [OF assms(2)]
    by (auto simp: extends_def intro: order.trans)
  moreover have "custody_wf m' a"
    using assms unfolding attempt_wf_def custody_wf_def extends_def by metis
  moreover have "execution_wf m' a"
    using assms unfolding attempt_wf_def execution_wf_def extends_def by (auto intro: order.trans)
  ultimately show ?thesis by (simp add: attempt_wf_def)
qed

lemma attempts_wf_put:
  assumes "attempts_wf m" "extends m m'" "dm_attempts m' = (dm_attempts m)(t \<mapsto> a')" "attempt_wf m' a'"
  shows "attempts_wf m'"
  using assms attempt_wf_extends [OF _ assms(2)] by (auto simp: attempts_wf_def)

lemma attempts_wf_extends:
  "attempts_wf m \<Longrightarrow> extends m m' \<Longrightarrow> dm_attempts m' = dm_attempts m \<Longrightarrow> attempts_wf m'"
  by (auto simp: attempts_wf_def intro: attempt_wf_extends)

lemma attempt_wf_new: "attempt_wf m (new_attempt n w p v c d)"
  by (simp add: attempt_wf_def issuance_wf_def custody_wf_def execution_wf_def phase_sets)

lemma attempt_wf_edge:
  assumes "edge X m t now a a'" "attempt_wf m a" "time_ok m now"
  shows "attempt_wf (commit_time now (put_attempt t b m)) a'"
proof -
  have hw: "dm_high_water_time m \<le> now" by (rule time_okD [OF assms(3)])
  have wf: "issuance_wf m a" "custody_wf m a" "execution_wf m a"
    using assms(2) by (simp_all add: attempt_wf_def)
  have "tx_phase a \<noteq> EffectReleased" using wf(3) by (simp add: execution_wf_def)
  moreover have "\<forall>i. tx_issue_started_at a = Some i \<longrightarrow> i \<le> now"
    using wf(1) hw by (auto simp: issuance_wf_def)
  moreover have "\<forall>s. tx_provider_attempt_started_at a = Some s \<longrightarrow> s \<le> now"
    using wf(3) hw by (auto simp: execution_wf_def)
  moreover have "tx_phase a = TransactionFinal \<longrightarrow> tx_issue_started_at a = None
      \<or> tx_invalidation_confirmed a \<and> (\<exists>s. tx_credential_safe_after a = Some s \<and> s \<le> now)"
    using wf(3) hw by (auto simp: execution_wf_def)
  ultimately show ?thesis
    unfolding attempt_wf_def
    using issuance_wf_edge [OF assms(1) wf(1)] custody_wf_edge [OF assms(1) wf(2)]
      execution_wf_edge [OF assms(1) wf(3)] by blast
qed

lemma attempt_wf_lease:
  "attempt_wf m a \<Longrightarrow> tx_phase a \<notin> {Consumed, DispatchWaitingResource} \<Longrightarrow>
     attempt_wf m (a\<lparr>tx_lease := l\<rparr>)"
  by (simp add: attempt_wf_def issuance_wf_def custody_wf_def execution_wf_def lifetime_bound_def)

lemma attempt_wf_reserved:
  "attempt_wf m a \<Longrightarrow> tx_phase a \<in> {Consumed, DispatchWaitingResource} \<Longrightarrow>
     attempt_wf m (a\<lparr>tx_phase := BoundObjectCreatePending, tx_reservation_generation := g,
       tx_bound_object_name := n, tx_lease := l\<rparr>)"
  unfolding attempt_wf_def
  by (elim insertE emptyE conjE; simp add: issuance_wf_def custody_wf_def execution_wf_def
      lifetime_bound_def phase_sets; blast)

lemma attempt_wf_finalised:
  "tx_phase a \<in> {ReleaseCancelled, CredentialQuarantined, Executed, ExecutionFailed} \<Longrightarrow>
     attempt_wf m a \<Longrightarrow> tx_issue_started_at a = None \<or> tx_invalidation_confirmed a
       \<and> (\<exists>s. tx_credential_safe_after a = Some s \<and> s \<le> dm_high_water_time m) \<Longrightarrow>
     attempt_wf m (a\<lparr>tx_phase := TransactionFinal\<rparr>)"
  unfolding attempt_wf_def
  by (elim insertE emptyE conjE; simp add: issuance_wf_def custody_wf_def execution_wf_def phase_sets)

lemma attempt_wf_final:
  assumes "attempt_wf m a" "retired a now" "dm_high_water_time m \<le> now" "extends m m'"
    "dm_high_water_time m' = now"
  shows "attempt_wf m' (a\<lparr>tx_phase := TransactionFinal\<rparr>)"
proof -
  have wf: "attempt_wf m' a" using assms(1,4) by (rule attempt_wf_extends)
  have "tx_issue_started_at a = None \<or> tx_invalidation_confirmed a
      \<and> (\<exists>s. tx_credential_safe_after a = Some s \<and> s \<le> dm_high_water_time m')"
    using assms(2,5) by (auto simp: retired_def credential_is_safe_def split: option.splits)
  moreover have "tx_phase a \<in> {ReleaseCancelled, CredentialQuarantined, Executed, ExecutionFailed}"
    using assms(2) by (auto simp: retired_def)
  ultimately show ?thesis using wf by (intro attempt_wf_finalised)
qed

lemma attempts_wf_step:
  assumes "transition X m m'" "attempts_wf m" "reservation_inv m"
  shows "attempts_wf m'"
proof -
  have wf: "attempt_wf m a" if "dm_attempts m t = Some a" for t a
    using assms(2) that by (simp add: attempts_wf_def)
  show ?thesis
    using assms(1)
proof cases
  case (registered p r)
  then show ?thesis
    by (intro attempts_wf_extends [OF assms(2)]) (auto simp: extends_def)
next
  case (consumed now t c p w d)
  show ?thesis
    by (rule attempts_wf_put [OF assms(2)])
      (use consumed attempt_wf_new in \<open>auto simp: extends_def time_ok_def\<close>)
next
  case (reserved now t a generation fence expires w)
  have ex: "extends m m'" using reserved(1,2) by (simp add: extends_def time_ok_def)
  show ?thesis
    by (rule attempts_wf_put [OF assms(2) ex _
        attempt_wf_reserved [OF attempt_wf_extends [OF wf [OF reserved(3)] ex] reserved(4)]])
      (simp add: reserved(1))
next
  case (taken_over now t a l fence expires w)
  have ex: "extends m m'" using taken_over(1,2) by (simp add: extends_def time_ok_def)
  have "tx_phase a \<notin> {Consumed, DispatchWaitingResource}" using taken_over(4) by auto
  then show ?thesis
    by (intro attempts_wf_put [OF assms(2) ex _
        attempt_wf_lease [OF attempt_wf_extends [OF wf [OF taken_over(3)] ex]]])
      (simp_all add: taken_over(1))
next
  case (moved now t a a')
  have ex: "extends m m'" using moved(1,2) by (simp add: extends_def time_ok_def)
  show ?thesis
    by (rule attempts_wf_put [OF assms(2) ex, of t a'])
      (simp_all add: moved(1) attempt_wf_edge [OF moved(4) wf [OF moved(3)] moved(2)])
next
  case (released now t a r)
  have ex: "extends m m'" using released(1,2) by (simp add: extends_def time_ok_def)
  show ?thesis
    by (rule attempts_wf_put [OF assms(2) ex _
        attempt_wf_final [OF wf [OF released(3)] released(4) time_okD [OF released(2)] ex]])
      (simp_all add: released(1))
next
  case (stranded t a)
  then have "False"
    using reservation_of_holder [OF assms(3) stranded(2)] stranded(4) by force
  then show ?thesis ..
qed (rule attempts_wf_extends [OF assms(2)]; simp add: extends_def)+
qed

end
