(* ===== verification/Dispatch_Safety.thy ===== *)
theory Dispatch_Safety
  imports Dispatch_Invariants
begin

text \<open>
  Safety of whole runs of the dispatch machine. The machine's step relation is an instance
  of the contracts of \<open>Transition_Systems\<close>: its invariant holds in every reachable state, its
  clock, authority epoch, emergency generation and fence only grow, the start of a provider
  attempt and of an issuance never change once recorded, and every consumption witness is
  accepted at most once.
\<close>

section \<open>Fences and generations\<close>

definition lease_of :: "DispatchMachine \<Rightarrow> uuid \<Rightarrow> u64 option" where
  "lease_of m t = Option.bind (dm_attempts m t) (\<lambda>a. map_option le_fence (tx_lease a))"

definition generation_of :: "DispatchMachine \<Rightarrow> uuid \<Rightarrow> (PhysicalResourceId \<times> u64) option" where
  "generation_of m t = Option.bind (dm_attempts m t)
     (\<lambda>a. map_option (\<lambda>g. (tx_physical a, g)) (tx_reservation_generation a))"

definition fencing_inv :: "DispatchMachine \<Rightarrow> bool" where
  "fencing_inv m \<longleftrightarrow>
     (\<forall>t f. lease_of m t = Some f \<longrightarrow> f \<le> dm_next_fence m)
     \<and> (\<forall>t u f. lease_of m t = Some f \<longrightarrow> lease_of m u = Some f \<longrightarrow> t = u)
     \<and> (\<forall>t p g. generation_of m t = Some (p, g) \<longrightarrow>
          (\<exists>G. dm_reservation_generations m p = Some G \<and> g \<le> G))
     \<and> (\<forall>t u q. generation_of m t = Some q \<longrightarrow> generation_of m u = Some q \<longrightarrow> t = u)"

lemma fencing_invD:
  assumes "fencing_inv m"
  shows "lease_of m t = Some f \<Longrightarrow> f \<le> dm_next_fence m"
    and "lease_of m t = Some f \<Longrightarrow> lease_of m u = Some f \<Longrightarrow> t = u"
    and "generation_of m t = Some (p, g) \<Longrightarrow>
      \<exists>G. dm_reservation_generations m p = Some G \<and> g \<le> G"
    and "generation_of m t = Some q \<Longrightarrow> generation_of m u = Some q \<Longrightarrow> t = u"
  using assms unfolding fencing_inv_def by blast+

lemma lease_of_put:
  "dm_attempts m' = (dm_attempts m)(t \<mapsto> a') \<Longrightarrow>
     lease_of m' = (lease_of m)(t := map_option le_fence (tx_lease a'))"
  by (auto simp: lease_of_def fun_eq_iff)

lemma generation_of_put:
  "dm_attempts m' = (dm_attempts m)(t \<mapsto> a') \<Longrightarrow>
     generation_of m' = (generation_of m)(t := map_option (\<lambda>g. (tx_physical a', g))
       (tx_reservation_generation a'))"
  by (auto simp: generation_of_def fun_eq_iff)

lemma of_same:
  "dm_attempts m' = dm_attempts m \<Longrightarrow> lease_of m' = lease_of m"
  "dm_attempts m' = dm_attempts m \<Longrightarrow> generation_of m' = generation_of m"
  by (simp_all add: lease_of_def generation_of_def fun_eq_iff)

lemma of_kept:
  assumes "dm_attempts m' = (dm_attempts m)(t \<mapsto> a')" "dm_attempts m t = Some a"
    and "tx_physical a' = tx_physical a" "tx_reservation_generation a' = tx_reservation_generation a"
  shows "generation_of m' = generation_of m"
    and "tx_lease a' = tx_lease a \<Longrightarrow> lease_of m' = lease_of m"
  using assms by (auto simp: lease_of_def generation_of_def fun_eq_iff)

lemma fencing_inv_same:
  "fencing_inv m \<Longrightarrow> lease_of m' = lease_of m \<Longrightarrow> generation_of m' = generation_of m \<Longrightarrow>
     dm_next_fence m' = dm_next_fence m \<Longrightarrow>
     dm_reservation_generations m' = dm_reservation_generations m \<Longrightarrow> fencing_inv m'"
  by (simp add: fencing_inv_def)

lemma fencing_inv_fence:
  assumes "fencing_inv m" "lease_of m' = (lease_of m)(t := Some f)" "generation_of m' = generation_of m"
    and "dm_next_fence m < f" "dm_next_fence m' = f"
    and "dm_reservation_generations m' = dm_reservation_generations m"
  shows "fencing_inv m'"
proof -
  have fresh: "g < f" if "lease_of m u = Some g" for u g
    using fencing_invD(1) [OF assms(1) that] assms(4) by (rule order.strict_trans1)
  have "\<forall>u g. lease_of m' u = Some g \<longrightarrow> g \<le> dm_next_fence m'"
    using fresh by (auto simp: assms(2,5) intro: order.strict_implies_order)
  moreover have "\<forall>u v g. lease_of m' u = Some g \<longrightarrow> lease_of m' v = Some g \<longrightarrow> u = v"
    using fencing_invD(2) [OF assms(1)] by (auto simp: assms(2) dest: fresh)
  ultimately show ?thesis using assms(1) by (simp add: fencing_inv_def assms(3,6))
qed

lemma fencing_inv_generation:
  assumes "fencing_inv m" "lease_of m' = lease_of m" "dm_next_fence m' = dm_next_fence m"
    and "generation_of m' = (generation_of m)(t := Some (p, g))"
    and "\<forall>G. dm_reservation_generations m p = Some G \<longrightarrow> G < g"
    and "dm_reservation_generations m' = (dm_reservation_generations m)(p \<mapsto> g)"
  shows "fencing_inv m'"
proof -
  have fresh: "h < g" if "generation_of m u = Some (p, h)" for u h
    using fencing_invD(3) [OF assms(1) that] assms(5) by (auto intro: order.strict_trans1)
  have "\<forall>u q h. generation_of m' u = Some (q, h) \<longrightarrow>
      (\<exists>G. dm_reservation_generations m' q = Some G \<and> h \<le> G)"
    using fencing_invD(3) [OF assms(1)] fresh
    by (auto simp: assms(4,6) intro: order.strict_implies_order)
  moreover have "\<forall>u v q. generation_of m' u = Some q \<longrightarrow> generation_of m' v = Some q \<longrightarrow> u = v"
    using fencing_invD(4) [OF assms(1)] by (auto simp: assms(4) dest: fresh)
  ultimately show ?thesis using assms(1) by (simp add: fencing_inv_def assms(2,3))
qed

lemma fencing_inv_step:
  assumes "transition X m m'" "fencing_inv m"
  shows "fencing_inv m'"
  using assms(1)
proof cases
  case (consumed now t c p w d)
  have "lease_of m' = lease_of m" "generation_of m' = generation_of m"
    using consumed(1,4) by (auto simp: lease_of_def generation_of_def fun_eq_iff)
  then show ?thesis by (rule fencing_inv_same [OF assms(2)]) (simp_all add: consumed(1))
next
  case (reserved now t a generation fence expires w)
  let ?n = "m\<lparr>dm_next_fence := fence, dm_attempts := (dm_attempts m)(t \<mapsto> a\<lparr>tx_lease :=
    Some \<lparr>le_worker = w, le_fence = fence, le_expires_at = expires\<rparr>\<rparr>)\<rparr>"
  have n: "fencing_inv ?n"
    by (rule fencing_inv_fence [OF assms(2), of _ t fence])
      (use reserved(3) u64_checked_succ_less [OF reserved(8)] in
        \<open>auto simp: lease_of_def generation_of_def fun_eq_iff\<close>)
  show ?thesis
  proof (rule fencing_inv_generation [OF n, of _ t "tx_physical a" generation])
    show "\<forall>G. dm_reservation_generations ?n (tx_physical a) = Some G \<longrightarrow> G < generation"
      using u64_checked_succ_less [OF reserved(7)] by auto
  qed (auto simp: reserved(1) lease_of_def generation_of_def fun_eq_iff)
next
  case (taken_over now t a l fence expires w)
  show ?thesis
    by (rule fencing_inv_fence [OF assms(2), of _ t fence])
      (use taken_over(3) u64_checked_succ_less [OF taken_over(7)] in
        \<open>auto simp: taken_over(1) lease_of_def generation_of_def fun_eq_iff\<close>)
next
  case (moved now t a a')
  have st: "tx_physical a' = tx_physical a" "tx_lease a' = tx_lease a"
    "tx_reservation_generation a' = tx_reservation_generation a"
    using edge_static [OF moved(4)] by (simp_all add: static_facts_def)
  have att: "dm_attempts m' = (dm_attempts m)(t \<mapsto> a')" by (simp add: moved(1))
  show ?thesis
    by (rule fencing_inv_same [OF assms(2) of_kept(2) [OF att moved(3)] of_kept(1) [OF att moved(3)]])
      (simp_all add: st, simp_all add: moved(1))
next
  case (released now t a r)
  have "lease_of m' = lease_of m" "generation_of m' = generation_of m"
    using released(3) by (auto simp: released(1) lease_of_def generation_of_def fun_eq_iff)
  then show ?thesis by (rule fencing_inv_same [OF assms(2)]) (simp_all add: released(1))
next
  case (stranded t a)
  have "lease_of m' = lease_of m" "generation_of m' = generation_of m"
    using stranded(2) by (auto simp: stranded(1) lease_of_def generation_of_def fun_eq_iff)
  then show ?thesis by (rule fencing_inv_same [OF assms(2)]) (simp_all add: stranded(1))
qed (use assms(2) in \<open>auto simp: fencing_inv_def lease_of_def generation_of_def\<close>)


section \<open>The invariant of reachable machines\<close>

definition dispatch_init :: "DispatchMachine \<Rightarrow> bool" where
  "dispatch_init m \<longleftrightarrow> (\<exists>b v t. dispatch_new b v t = Ok m)"

definition dispatch_inv :: "DispatchMachine \<Rightarrow> bool" where
  "dispatch_inv m \<longleftrightarrow> reservation_inv m \<and> consumption_inv m \<and> attempts_wf m \<and> fencing_inv m
     \<and> 0 \<le> dm_high_water_time m"

lemma dispatch_init_inv: "dispatch_init m \<Longrightarrow> dispatch_inv m"
  by (auto simp: dispatch_init_def dispatch_new_def result_simps dispatch_inv_def reservation_inv_def
      consumption_inv_def consumptions_def attempts_wf_def fencing_inv_def lease_of_def
      generation_of_def ran_def)

lemma transition_clock:
  assumes "transition X m m'"
  shows "dm_high_water_time m \<le> dm_high_water_time m'"
  using assms by cases (simp_all add: time_ok_def)

lemma dispatch_inv_step:
  assumes "dispatch_inv m" "dispatch_step X m m'"
  shows "dispatch_inv m'"
proof -
  have t: "transition X m m'"
    using assms by (auto simp: dispatch_inv_def intro: dispatch_step_refines)
  then show ?thesis
    using assms(1) transition_clock [OF t]
    by (auto simp: dispatch_inv_def intro: reservation_inv_step consumption_inv_step attempts_wf_step
        fencing_inv_step order.trans)
qed

interpretation dispatch: invariant_system dispatch_init "dispatch_step X" dispatch_inv for X
  by unfold_locales (auto intro: dispatch_init_inv dispatch_inv_step)

abbreviation dispatch_reachable :: "externals \<Rightarrow> DispatchMachine \<Rightarrow> bool" where
  "dispatch_reachable X \<equiv> reach dispatch_init (dispatch_step X)"

lemma reachable_wf:
  assumes "dispatch_reachable X m" "dm_attempts m t = Some a"
  shows "attempt_wf m a"
  using dispatch.reach_inv [OF assms(1)] assms(2) by (simp add: dispatch_inv_def attempts_wf_def)

section \<open>Steps from machines that satisfy the invariant\<close>

definition live_step :: "externals \<Rightarrow> DispatchMachine \<Rightarrow> DispatchMachine \<Rightarrow> bool" where
  "live_step X m m' \<longleftrightarrow> dispatch_inv m \<and> dispatch_step X m m'"

lemma live_run:
  assumes "(dispatch_step X)\<^sup>*\<^sup>* m m'" "dispatch_inv m"
  shows "(live_step X)\<^sup>*\<^sup>* m m'"
  using assms
proof (induction rule: rtranclp_induct)
  case (step y z)
  then have "dispatch_inv y" using dispatch.run_inv by blast
  with step show ?case by (auto simp: live_step_def intro: rtranclp.rtrancl_into_rtrancl)
qed simp

lemma live_transition: "live_step X m m' \<Longrightarrow> transition X m m'"
  by (auto simp: live_step_def dispatch_inv_def intro: dispatch_step_refines)

lemma live_wf: "live_step X m m' \<Longrightarrow> dm_attempts m t = Some a \<Longrightarrow> attempt_wf m a"
  by (simp add: live_step_def dispatch_inv_def attempts_wf_def)

interpretation clock: monotone_value "live_step X" dm_high_water_time for X
  by unfold_locales (rule transition_clock [OF live_transition])

lemma transition_epoch:
  assumes "transition X m m'"
  shows "ver_epoch (dm_active_authority m) \<le> ver_epoch (dm_active_authority m')"
    and "dm_emergency_generation m \<le> dm_emergency_generation m'"
    and "dm_next_fence m \<le> dm_next_fence m'"
  using assms
  by (cases; simp add: order.strict_implies_order order.strict_implies_order [OF u64_checked_succ_less])+

interpretation epoch: monotone_value "live_step X" "\<lambda>m. ver_epoch (dm_active_authority m)" for X
  by unfold_locales (rule transition_epoch(1) [OF live_transition])

interpretation stops: monotone_value "live_step X" dm_emergency_generation for X
  by unfold_locales (rule transition_epoch(2) [OF live_transition])

interpretation fence: monotone_value "live_step X" dm_next_fence for X
  by unfold_locales (rule transition_epoch(3) [OF live_transition])

section \<open>Recorded starts never change\<close>

text \<open>What a transition does to a transaction that already exists.\<close>

lemma transition_attempt:
  assumes "transition X m m'" "dm_attempts m t = Some a"
  obtains (same) "dm_attempts m' t = Some a"
  | (reserve) g n l where "tx_phase a \<in> {Consumed, DispatchWaitingResource}"
      "dm_attempts m' t = Some (a\<lparr>tx_phase := BoundObjectCreatePending,
        tx_reservation_generation := g, tx_bound_object_name := n, tx_lease := l\<rparr>)"
  | (takeover) l where "dm_attempts m' t = Some (a\<lparr>tx_lease := l\<rparr>)"
  | (edge) now a' where "edge X m t now a a'" "dm_attempts m' t = Some a'"
  | (final) now where "retired a now" "dm_attempts m' t = Some (a\<lparr>tx_phase := TransactionFinal\<rparr>)"
  | (strand) "tx_phase a = CredentialQuarantined"
      "dm_attempts m' t = Some (a\<lparr>tx_phase := CredentialSafeExpired\<rparr>)"
  using assms(1)
proof cases
  case (reserved now u b generation fence expires w)
  then show ?thesis using assms(2) same reserve by (cases "u = t") auto
next
  case (taken_over now u b l fence expires w)
  then show ?thesis using assms(2) same takeover by (cases "u = t") auto
next
  case (moved now u b b')
  then show ?thesis using assms(2) same edge by (cases "u = t") auto
next
  case (released now u b r)
  then show ?thesis using assms(2) same final by (cases "u = t") auto
next
  case (stranded u b)
  then show ?thesis using assms(2) same strand by (cases "u = t") auto
next
  case (consumed now u c p w d)
  then show ?thesis using assms(2) same by (cases "u = t") auto
next
  case stay
  with assms(2) same show ?thesis by simp
next
  case (registered p r)
  with assms(2) same show ?thesis by simp
next
  case (activated v)
  with assms(2) same show ?thesis by simp
next
  case (stopped g s)
  have "dm_attempts m' t = Some a" unfolding stopped(1) using assms(2) by simp
  then show ?thesis by (rule same)
next
  case (owned w)
  with assms(2) same show ?thesis by simp
qed

definition provider_start :: "DispatchMachine \<Rightarrow> uuid \<Rightarrow> i64 option" where
  "provider_start m t = Option.bind (dm_attempts m t) tx_provider_attempt_started_at"

definition issue_start :: "DispatchMachine \<Rightarrow> uuid \<Rightarrow> i64 option" where
  "issue_start m t = Option.bind (dm_attempts m t) tx_issue_started_at"

definition effect_evidence :: "DispatchMachine \<Rightarrow> uuid \<Rightarrow> digest32 option" where
  "effect_evidence m t = Option.bind (dm_attempts m t) tx_effect_evidence_commitment"

lemma edge_provider_start:
  "edge X m t now a a' \<Longrightarrow> execution_wf m a \<Longrightarrow> tx_provider_attempt_started_at a = Some s \<Longrightarrow>
     tx_provider_attempt_started_at a' = Some s"
  by (induction rule: edge.induct) (simp_all add: execution_wf_def after_start_def)

lemma edge_issue_start:
  "edge X m t now a a' \<Longrightarrow> issuance_wf m a \<Longrightarrow> tx_issue_started_at a = Some s \<Longrightarrow>
     tx_issue_started_at a' = Some s"
  by (induction rule: edge.induct) (simp_all add: issuance_wf_def before_issue_def)

lemma edge_evidence:
  "edge X m t now a a' \<Longrightarrow> execution_wf m a \<Longrightarrow> tx_effect_evidence_commitment a = Some c \<Longrightarrow>
     tx_effect_evidence_commitment a' = Some c"
  by (induction rule: edge.induct) (simp_all add: execution_wf_def)

interpretation starts: frozen_value "live_step X" provider_start for X
proof
  fix m m' t s
  assume st: "live_step X m m'" and "provider_start m t = Some s"
  then obtain a where a: "dm_attempts m t = Some a" "tx_provider_attempt_started_at a = Some s"
    by (auto simp: provider_start_def bind_eq_Some_conv)
  have "execution_wf m a" using live_wf [OF st a(1)] by (simp add: attempt_wf_def)
  with live_transition [OF st] a(1) show "provider_start m' t = Some s"
    by (cases rule: transition_attempt)
      (auto simp: provider_start_def a(2) dest: edge_provider_start [OF _ _ a(2)])
qed

interpretation issues: frozen_value "live_step X" issue_start for X
proof
  fix m m' t s
  assume st: "live_step X m m'" and "issue_start m t = Some s"
  then obtain a where a: "dm_attempts m t = Some a" "tx_issue_started_at a = Some s"
    by (auto simp: issue_start_def bind_eq_Some_conv)
  have "issuance_wf m a" using live_wf [OF st a(1)] by (simp add: attempt_wf_def)
  with live_transition [OF st] a(1) show "issue_start m' t = Some s"
    by (cases rule: transition_attempt)
      (auto simp: issue_start_def a(2) dest: edge_issue_start [OF _ _ a(2)])
qed

interpretation evidence: frozen_value "live_step X" effect_evidence for X
proof
  fix m m' t s
  assume st: "live_step X m m'" and "effect_evidence m t = Some s"
  then obtain a where a: "dm_attempts m t = Some a" "tx_effect_evidence_commitment a = Some s"
    by (auto simp: effect_evidence_def bind_eq_Some_conv)
  have "execution_wf m a" using live_wf [OF st a(1)] by (simp add: attempt_wf_def)
  with live_transition [OF st] a(1) show "effect_evidence m' t = Some s"
    by (cases rule: transition_attempt)
      (auto simp: effect_evidence_def a(2) dest: edge_evidence [OF _ _ a(2)])
qed


section \<open>Single use\<close>

lemma attempt_q_Ok [result_simps]:
  "attempt_q r m f = (Ok y, m') \<longleftrightarrow> (\<exists>x. r = Ok x \<and> f x = (Ok y, m'))"
  by (cases r) simp_all

definition imports_consumption ::
    "(ConsumptionBinding \<Rightarrow> 'k) \<Rightarrow> 'k \<Rightarrow> DispatchMachine \<Rightarrow> DispatchMachine \<Rightarrow> bool" where
  "imports_consumption key k m m' \<longleftrightarrow> (\<exists>t w p v c ca oa d. key c = k
     \<and> record_consumption_from_snapshot t w p v c ca oa d m = (Ok (), m'))"

lemma record_consumption_Ok:
  assumes "record_consumption_from_snapshot t w p v c ca oa d m = (Ok (), m')"
  shows "cb_authorization_id c \<notin> dm_consumed_authorization_ids m"
    "cb_authorization_hash c \<notin> dm_consumed_authorization_hashes m"
    "cb_receipt_commitment c \<notin> dm_consumed_receipts m"
    "cb_authorization_id c \<in> dm_consumed_authorization_ids m'"
    "cb_authorization_hash c \<in> dm_consumed_authorization_hashes m'"
    "cb_receipt_commitment c \<in> dm_consumed_receipts m'"
  using assms
  by (auto simp: record_consumption_from_snapshot_def record_consumption_inner_def attempt_q_Ok
      ensure_Ok)

lemma live_consumed_mono:
  assumes "live_step X m m'"
  shows "dm_consumed_authorization_ids m \<subseteq> dm_consumed_authorization_ids m'"
    "dm_consumed_authorization_hashes m \<subseteq> dm_consumed_authorization_hashes m'"
    "dm_consumed_receipts m \<subseteq> dm_consumed_receipts m'"
  using live_transition [OF assms] by (cases rule: transition_consumptions; auto)+

interpretation authorization_ids:
  single_use "live_step X" dm_consumed_authorization_ids "imports_consumption cb_authorization_id" for X
  by unfold_locales (use live_consumed_mono record_consumption_Ok in
    \<open>auto simp: imports_consumption_def dest: subsetD\<close>)

interpretation authorization_hashes:
  single_use "live_step X" dm_consumed_authorization_hashes "imports_consumption cb_authorization_hash" for X
  by unfold_locales (use live_consumed_mono record_consumption_Ok in
    \<open>auto simp: imports_consumption_def dest: subsetD\<close>)

interpretation receipts:
  single_use "live_step X" dm_consumed_receipts "imports_consumption cb_receipt_commitment" for X
  by unfold_locales (use live_consumed_mono record_consumption_Ok in
    \<open>auto simp: imports_consumption_def dest: subsetD\<close>)

definition starts_provider :: "uuid \<Rightarrow> DispatchMachine \<Rightarrow> DispatchMachine \<Rightarrow> bool" where
  "starts_provider t m m' \<longleftrightarrow> dispatch_inv m
     \<and> (\<exists>cl b now. release_and_begin_provider_attempt t cl b now m = (Ok (), m'))"

lemma release_and_begin_Ok:
  assumes "release_and_begin_provider_attempt t cl b now m = (Ok (), m')"
  obtains a where "dm_attempts m t = Some a" "tx_phase a = CredentialReady" "current m a now"
    "lease_live a now" "time_ok m now" "require_effect_binding a b = Ok ()"
    "\<exists>e. tx_token_expires_at a = Some e \<and> now + db_minimum_remaining_lifetime_s (dm_bounds m) \<le> e"
    "m' = commit_time now (put_attempt t
      (a\<lparr>tx_phase := Executing, tx_provider_attempt_started_at := Some now\<rparr>) m)"
proof -
  obtain a where pre: "preflight_provider_attempt m t cl b now = Ok ()" and a: "dm_attempts m t = Some a"
    and m': "m' = commit_time now (put_attempt t
      (a\<lparr>tx_phase := Executing, tx_provider_attempt_started_at := Some now\<rparr>) m)"
    using assms by (auto simp: release_and_begin_provider_attempt_def attempt_q_Ok)
  show thesis by (rule that [OF a]) (use preflight_Ok [OF pre a] m' in auto)
qed

interpretation provider_attempts:
  single_use "live_step X" "\<lambda>m. {t. provider_start m t \<noteq> None}" starts_provider for X
proof
  fix m m'
  show "live_step X m m' \<Longrightarrow> {t. provider_start m t \<noteq> None} \<le> {t. provider_start m' t \<noteq> None}"
    by (auto dest: starts.step_frozen)
next
  fix t m m'
  assume "starts_provider t m m'"
  then obtain cl b now where inv: "dispatch_inv m"
    and ok: "release_and_begin_provider_attempt t cl b now m = (Ok (), m')"
    by (auto simp: starts_provider_def)
  from ok obtain a where a: "dm_attempts m t = Some a" "tx_phase a = CredentialReady"
    and m': "m' = commit_time now (put_attempt t
      (a\<lparr>tx_phase := Executing, tx_provider_attempt_started_at := Some now\<rparr>) m)"
    by (rule release_and_begin_Ok)
  have "execution_wf m a" using inv a by (simp add: dispatch_inv_def attempts_wf_def attempt_wf_def)
  with a have "tx_provider_attempt_started_at a = None"
    by (cases "tx_provider_attempt_started_at a") (auto simp: execution_wf_def after_start_def)
  with a show "t \<notin> {t. provider_start m t \<noteq> None}" by (simp add: provider_start_def)
  show "t \<in> {t. provider_start m' t \<noteq> None}" by (simp add: provider_start_def m')
qed

definition starts_issue :: "uuid \<Rightarrow> DispatchMachine \<Rightarrow> DispatchMachine \<Rightarrow> bool" where
  "starts_issue t m m' \<longleftrightarrow> dispatch_inv m
     \<and> (\<exists>cl now. begin_credential_issue t cl now m = (Ok (), m'))"

lemma or_cancel_Ok [result_simps]:
  "or_cancel r t now m k = (Ok y, m') \<longleftrightarrow> r = Ok () \<and> k = (Ok y, m')"
  by (cases r) (auto simp: or_cancel_def cancel_with_def split: result.splits prod.splits)

lemma begin_credential_issue_Ok:
  assumes "begin_credential_issue t cl now m = (Ok (), m')"
  obtains a where "dm_attempts m t = Some a" "tx_phase a = CredentialPrepared" "current m a now"
    "lease_live a now" "m' = commit_time now (put_attempt t
      (a\<lparr>tx_phase := CredentialIssuing, tx_issue_started_at := Some now\<rparr>) m)"
  using assms
  by (auto simp: begin_credential_issue_def attempt_q_Ok or_cancel_Ok ensure_Ok current_iff
      dest: require_lease_Ok)

interpretation issuances:
  single_use "live_step X" "\<lambda>m. {t. issue_start m t \<noteq> None}" starts_issue for X
proof
  fix m m'
  show "live_step X m m' \<Longrightarrow> {t. issue_start m t \<noteq> None} \<le> {t. issue_start m' t \<noteq> None}"
    by (auto dest: issues.step_frozen)
next
  fix t m m'
  assume "starts_issue t m m'"
  then obtain cl now where inv: "dispatch_inv m" and ok: "begin_credential_issue t cl now m = (Ok (), m')"
    by (auto simp: starts_issue_def)
  from ok obtain a where a: "dm_attempts m t = Some a" "tx_phase a = CredentialPrepared"
    and m': "m' = commit_time now (put_attempt t
      (a\<lparr>tx_phase := CredentialIssuing, tx_issue_started_at := Some now\<rparr>) m)"
    by (rule begin_credential_issue_Ok)
  have "issuance_wf m a" using inv a by (simp add: dispatch_inv_def attempts_wf_def attempt_wf_def)
  with a show "t \<notin> {t. issue_start m t \<noteq> None}"
    by (simp add: issue_start_def issuance_wf_def before_issue_def)
  show "t \<in> {t. issue_start m' t \<noteq> None}" by (simp add: issue_start_def m')
qed

section \<open>A cancelled release that recovery strands\<close>

text \<open>
  \<open>recover_expired_lease\<close> moves a cancelled release to invalidation although no credential was
  ever requested. No conservative expiry is recorded, so no later operation can retire the
  attempt, and it keeps its physical resource.
\<close>

definition unretirable :: "uuid \<Rightarrow> DispatchMachine \<Rightarrow> bool" where
  "unretirable t m \<longleftrightarrow> dispatch_inv m \<and> (\<exists>a. dm_attempts m t = Some a
     \<and> tx_phase a \<in> {CredentialInvalidating, CredentialQuarantined}
     \<and> tx_credential_safe_after a = None)"

lemma edge_unretirable:
  "edge X m t now a a' \<Longrightarrow> tx_phase a \<in> {CredentialInvalidating, CredentialQuarantined} \<Longrightarrow>
     tx_credential_safe_after a = None \<Longrightarrow>
     tx_phase a' \<in> {CredentialInvalidating, CredentialQuarantined}
     \<and> tx_credential_safe_after a' = None"
  by (induction rule: edge.induct) (auto simp: invalidation_phases_def)

lemma unretirable_step:
  assumes "unretirable t m" "dispatch_step X m m'"
  shows "unretirable t m'"
proof -
  obtain a where inv: "dispatch_inv m" and a: "dm_attempts m t = Some a"
    "tx_phase a \<in> {CredentialInvalidating, CredentialQuarantined}" "tx_credential_safe_after a = None"
    using assms(1) by (auto simp: unretirable_def)
  have inv': "dispatch_inv m'" using inv assms(2) by (rule dispatch_inv_step)
  then have wf': "\<And>b. dm_attempts m' t = Some b \<Longrightarrow> execution_wf m' b"
    by (simp add: dispatch_inv_def attempts_wf_def attempt_wf_def)
  have "transition X m m'"
    using inv assms(2) by (auto simp: dispatch_inv_def intro: dispatch_step_refines)
  then show ?thesis
    using a(1)
  proof (cases rule: transition_attempt)
    case (edge now a')
    with edge_unretirable [OF edge(1) a(2,3)] inv' show ?thesis by (auto simp: unretirable_def)
  next
    case (final now)
    with a show ?thesis by (auto simp: retired_def credential_is_safe_def)
  next
    case strand
    with wf' [OF strand(2)] show ?thesis by (simp add: execution_wf_def)
  qed (use a inv' in \<open>auto simp: unretirable_def\<close>)
qed

interpretation unretirable: invariant_system "unretirable t" "dispatch_step X" "unretirable t" for t X
  by unfold_locales (auto intro: unretirable_step)

lemma unretirable_holds:
  assumes "unretirable t m" "dm_attempts m t = Some a"
  shows "\<exists>g. dm_reservations m (tx_physical a) = Some \<lparr>rs_transaction_id = t, rs_generation = g\<rparr>"
proof -
  have "holds_reservation (tx_phase a)" "reservation_inv m"
    using assms by (auto simp: unretirable_def holds_reservation_def dispatch_inv_def)
  then show ?thesis using assms(2) by (auto elim: reservation_of_holder)
qed

end
