(* ===== verification/Dispatch_Scenario.thy ===== *)
theory Dispatch_Scenario
  imports Reference_Externals Dispatch_Safety
begin

text \<open>
  Two runs of the dispatch machine on concrete inputs: one from registration to a final
  executed effect, and one that cancels a release and then recovers its expired lease. Every
  state is reached by the machine's own operations.
\<close>

section \<open>Inputs\<close>

definition run_bounds :: DispatchBounds where
  "run_bounds = \<lparr>db_max_dispatch_delay_s = 100, db_token_lifetime_upper_bound_s = 60,
     db_clock_uncertainty_s = 5, db_minimum_remaining_lifetime_s = 10, db_lease_ttl_s = 50\<rparr>"

definition run_authority :: AuthorityVersion where
  "run_authority = \<lparr>ver_root = 3, ver_epoch = 1\<rparr>"

definition run_physical :: PhysicalResourceId where
  "run_physical = \<lparr>ph_cluster_trust_domain = ''cluster'', ph_api_server_identity = ''api'',
     ph_namespace = ''web'', ph_deployment_uid = ''uid''\<rparr>"

definition run_owner :: LogicalOwner where
  "run_owner = \<lparr>lo_tenant = ''acme'', lo_environment = ''prod''\<rparr>"

definition run_credential :: CredentialProfile where
  "run_credential = \<lparr>cp_token_subject = ''subject'', cp_token_audience = ''audience'',
     cp_effective_rbac_commitment = 4\<rparr>"

definition run_consumption :: ConsumptionBinding where
  "run_consumption = \<lparr>cb_authorization_id = 21, cb_authorization_hash = 22, cb_receipt_commitment = 23,
     cb_effect = \<lparr>et_template_hash = 5, et_operation_hash = 6, et_execution_command_commitment = 7,
       et_final_wire_commitment = 8\<rparr>\<rparr>"

definition run_prepared :: PreparedExecution where
  "run_prepared = \<lparr>px_bound_object_uid = ''object'', px_template_hash = 5, px_operation_hash = 6,
     px_token_subject = ''subject'', px_token_audience = ''audience'',
     px_effective_rbac_commitment = 4, px_execution_command_commitment = 7,
     px_final_wire_commitment = 8\<rparr>"

definition run_claims :: CredentialClaims where
  "run_claims = \<lparr>cc_token_digest = 9, cc_subject = ''subject'', cc_audience = ''audience'',
     cc_service_account_uid = ''account'', cc_credential_id = ''AUTHORIZATION_ID=id'',
     cc_bound_object_uid = ''object'', cc_not_before = 1040, cc_expires_at = 1090\<rparr>"

definition run_binding :: EffectBinding where
  "run_binding = \<lparr>eb_template_hash = 5, eb_operation_hash = 6, eb_execution_command_commitment = 7,
     eb_final_wire_commitment = 8, eb_effective_rbac_commitment = 4, eb_token_digest = 9\<rparr>"

definition run_evidence :: ExactEffectEvidence where
  "run_evidence = \<lparr>ee_transaction_id = 1, ee_physical = run_physical, ee_binding = run_binding,
     ee_response_commitment = 10, ee_post_state_commitment = 11, ee_observed_resource_uid = ''uid'',
     ee_observed_resource_version = ''42'', ee_observed_at = 1047,
     ee_observer = \<lparr>ao_identity = ''observer'', ao_authentication_commitment = 12\<rparr>\<rparr>"

definition run_invalidation :: CredentialInvalidationEvidence where
  "run_invalidation = \<lparr>ci_transaction_id = 1, ci_physical = run_physical,
     ci_bound_object_name = ''accordlock-id'', ci_bound_object_uid = ''object'',
     ci_token_digest = Some 9, ci_template_hash = 5, ci_operation_hash = 6,
     ci_execution_command_commitment = 7, ci_final_wire_commitment = 8,
     ci_effective_rbac_commitment = 4, ci_evidence_commitment = 13\<rparr>"

definition run_claim :: DispatchClaim where
  "run_claim = \<lparr>dc_transaction_id = 1, dc_physical = run_physical, dc_consumption = run_consumption,
     dc_worker = ''worker'', dc_fence = 1, dc_reservation_generation = 1,
     dc_bound_object_name = ''accordlock-id''\<rparr>"

section \<open>The states\<close>

text \<open>The machine once the only transaction has reserved its resource.\<close>

definition run_state :: "i64 \<Rightarrow> Attempt \<Rightarrow> DispatchMachine" where
  "run_state now a = \<lparr>dm_bounds = run_bounds, dm_active_authority = run_authority,
     dm_emergency_stop = False, dm_emergency_generation = 0, dm_high_water_time = now,
     dm_registrations = [(run_physical, \<lparr>dr_owner = run_owner, dr_credential = run_credential\<rparr>)],
     dm_attempts = [1 \<mapsto> a], dm_consumed_authorization_ids = {21},
     dm_consumed_authorization_hashes = {22}, dm_consumed_receipts = {23},
     dm_reservations = [run_physical \<mapsto> \<lparr>rs_transaction_id = 1, rs_generation = 1\<rparr>],
     dm_reservation_generations = [run_physical \<mapsto> 1],
     dm_next_fence = 1, dm_bridge_owner = None\<rparr>"

definition run_empty :: DispatchMachine where
  "run_empty = (run_state 1000 undefined)\<lparr>dm_registrations := [], dm_attempts := Map.empty,
     dm_consumed_authorization_ids := {}, dm_consumed_authorization_hashes := {},
     dm_consumed_receipts := {}, dm_reservations := Map.empty,
     dm_reservation_generations := Map.empty, dm_next_fence := 0\<rparr>"

definition run_registered :: DispatchMachine where
  "run_registered = run_empty\<lparr>dm_registrations :=
     [(run_physical, \<lparr>dr_owner = run_owner, dr_credential = run_credential\<rparr>)]\<rparr>"

definition att_consumed :: Attempt where
  "att_consumed = new_attempt run_empty run_owner run_physical run_authority run_consumption 1080"

definition run_consumed :: DispatchMachine where
  "run_consumed = (run_state 1010 att_consumed)\<lparr>dm_reservations := Map.empty,
     dm_reservation_generations := Map.empty, dm_next_fence := 0\<rparr>"

definition att_pending :: "i64 \<Rightarrow> Attempt" where
  "att_pending expires = att_consumed\<lparr>tx_phase := BoundObjectCreatePending,
     tx_reservation_generation := Some 1, tx_bound_object_name := Some ''accordlock-id'',
     tx_lease := Some \<lparr>le_worker = ''worker'', le_fence = 1, le_expires_at = expires\<rparr>\<rparr>"

definition att_creating :: Attempt where
  "att_creating = (att_pending 1070)\<lparr>tx_phase := BoundObjectCreateInFlight\<rparr>"

definition att_prepared :: Attempt where
  "att_prepared = att_creating\<lparr>tx_bound_object_uid := Some ''object'',
     tx_prepared_execution := Some run_prepared, tx_phase := CredentialPrepared\<rparr>"

definition att_issuing :: Attempt where
  "att_issuing = att_prepared\<lparr>tx_phase := CredentialIssuing, tx_issue_started_at := Some 1040\<rparr>"

definition att_ready :: Attempt where
  "att_ready = (retain_claims run_claims 1105 att_issuing)\<lparr>tx_phase := CredentialReady\<rparr>"

definition att_executing :: Attempt where
  "att_executing = att_ready\<lparr>tx_phase := Executing, tx_provider_attempt_started_at := Some 1045\<rparr>"

definition att_executed :: Attempt where
  "att_executed = att_executing\<lparr>tx_phase := Executed,
     tx_effect_evidence_commitment := Some (evidence_commitment ref_externals run_evidence)\<rparr>"

definition att_confirmed :: Attempt where
  "att_confirmed = att_executed\<lparr>tx_invalidation_confirmed := True\<rparr>"

definition run_final :: DispatchMachine where
  "run_final = (run_state 1110 (att_confirmed\<lparr>tx_phase := TransactionFinal\<rparr>))
     \<lparr>dm_reservations := Map.empty\<rparr>"

text \<open>The other run: creation starts after the deadline and is cancelled, then the lease expires.\<close>

definition att_cancelled :: Attempt where
  "att_cancelled = (att_pending 1090)\<lparr>tx_phase := ReleaseCancelled\<rparr>"

definition att_stranded :: Attempt where
  "att_stranded = att_cancelled\<lparr>tx_phase := CredentialInvalidating, tx_credential_safe_after := None\<rparr>"

section \<open>The steps\<close>

lemma run_state_put [simp]:
  "commit_time now (put_attempt 1 a' (run_state t a)) = run_state now a'"
  by (simp add: run_state_def commit_time_def put_attempt_def)

lemma run_state_simps [simp]:
  "dm_bounds (run_state t a) = run_bounds" "dm_active_authority (run_state t a) = run_authority"
  "\<not> dm_emergency_stop (run_state t a)" "dm_emergency_generation (run_state t a) = 0"
  "dm_high_water_time (run_state t a) = t" "dm_attempts (run_state t a) 1 = Some a"
  "dm_registrations (run_state t a)
     = [(run_physical, \<lparr>dr_owner = run_owner, dr_credential = run_credential\<rparr>)]"
  "dm_reservations (run_state t a) run_physical = Some \<lparr>rs_transaction_id = 1, rs_generation = 1\<rparr>"
  by (simp_all add: run_state_def)

lemma run_bounds_simps [simp]:
  "db_max_dispatch_delay_s run_bounds = 100" "db_token_lifetime_upper_bound_s run_bounds = 60"
  "db_clock_uncertainty_s run_bounds = 5" "db_minimum_remaining_lifetime_s run_bounds = 10"
  "db_lease_ttl_s run_bounds = 50"
  by (simp_all add: run_bounds_def)

lemma run_names:
  "valid_identity_component ''cluster'' 512" "valid_identity_component ''api'' 512"
  "valid_identity_component ''web'' 253" "valid_identity_component ''uid'' 512"
  "valid_identity_component ''acme'' 253" "valid_identity_component ''prod'' 253"
  "valid_identity_component ''subject'' 512" "valid_identity_component ''audience'' 512"
  "valid_identity_component ''worker'' 253" "valid_identity_component ''object'' 512"
  "valid_identity_component ''account'' 512" "valid_canonical_opaque ''uid'' 512"
  "valid_canonical_opaque ''42'' 512" "valid_canonical_observer_identity ''observer''"
  by code_simp+

lemmas run_step_defs = attempt_q_def validate_time_def attempt_def require_authority_def
  require_live_dispatch_def require_lease_def require_claim_identity_def run_claim_def or_cancel_def
  arith_defs u64_checked_add_def

lemmas run_attempt_defs = att_consumed_def att_pending_def att_creating_def att_prepared_def
  att_issuing_def att_ready_def att_executing_def att_executed_def att_confirmed_def
  att_cancelled_def att_stranded_def new_attempt_def run_empty_def retain_claims_def

lemma run_new: "dispatch_new run_bounds run_authority 1000 = Ok run_empty"
  by (simp add: dispatch_new_def bounds_validate_def run_empty_def run_state_def)

lemma run_register:
  "register_destination run_physical run_owner run_credential run_empty = (Ok (), run_registered)"
  by (simp add: register_destination_def attempt_q_def run_physical_def run_owner_def
      run_credential_def run_names run_registered_def run_empty_def run_state_def)

lemma run_consume:
  "record_consumption_from_snapshot 1 run_owner run_physical run_authority run_consumption 1000 1010 1080
     run_registered = (Ok (), run_consumed)"
  by (simp add: record_consumption_from_snapshot_def record_consumption_inner_def run_step_defs
      run_registered_def run_empty_def run_state_def run_consumed_def att_consumed_def is_nil_def
      validate_consumption_binding_def validate_effect_template_def run_consumption_def
      commit_time_def put_attempt_def new_attempt_def run_bounds_def)

lemma run_prepare:
  "0 \<le> now \<Longrightarrow> 1010 \<le> now \<Longrightarrow> now < 1080 \<Longrightarrow>
     prepare_dispatch ref_externals 1 ''worker'' now run_consumed
       = (Ok run_claim, run_state now (att_pending (now + 50)))"
  by (simp add: prepare_dispatch_def run_step_defs run_names run_consumed_def run_state_def
      run_attempt_defs bound_object_name_for_def claim_for_def commit_time_def put_attempt_def Let_def)

lemma run_create:
  "begin_bound_object_create 1 run_claim 1030 (run_state 1020 (att_pending 1070))
     = (Ok (), run_state 1030 att_creating)"
  by (simp add: begin_bound_object_create_def run_step_defs run_attempt_defs)

lemma run_resolve:
  "resolve_bound_object 1 run_claim 1035 (Matching run_prepared) (run_state 1030 att_creating)
     = (Ok (), run_state 1035 att_prepared)"
  by (simp add: resolve_bound_object_def run_step_defs run_attempt_defs valid_prepared_execution_def
      run_prepared_def run_names run_consumption_def run_credential_def)

lemma run_issue:
  "begin_credential_issue 1 run_claim 1040 (run_state 1035 att_prepared)
     = (Ok (), run_state 1040 att_issuing)"
  by (simp add: begin_credential_issue_def run_step_defs run_attempt_defs)

lemma run_ready:
  "record_credential_ready ref_externals 1 run_claim 1042 run_claims (run_state 1040 att_issuing)
     = (Ok (), run_state 1042 att_ready)"
  by (simp add: record_credential_ready_def run_step_defs run_attempt_defs issuer_bound_of_def
      claims_invalid_def run_claims_def run_prepared_def run_names valid_credential_id_def Let_def is_nil_def)

lemma run_execute:
  "release_and_begin_provider_attempt 1 run_claim run_binding 1045 (run_state 1042 att_ready)
     = (Ok (), run_state 1045 att_executing)"
  by (simp add: release_and_begin_provider_attempt_def preflight_provider_attempt_def run_step_defs
      run_attempt_defs require_effect_binding_def run_binding_def run_claims_def run_prepared_def
      run_consumption_def Let_def)

lemma run_evidence_nonzero: "evidence_commitment ref_externals run_evidence \<noteq> 0"
  by (simp add: evidence_commitment_def ref_digest_def evidence_material_def run_evidence_def
      run_physical_def run_binding_def update_string_def i64_be_bytes_def Let_def)

lemma run_succeed:
  "record_provider_outcome ref_externals 1 run_claim 1050 (Success run_evidence) (run_state 1045 att_executing)
     = (Ok (), run_state 1050 att_executed)"
  using run_evidence_nonzero
  by (simp add: record_provider_outcome_def run_step_defs run_attempt_defs
      require_exact_effect_evidence_def require_effect_binding_def run_evidence_def run_binding_def
      run_claims_def run_prepared_def run_consumption_def run_physical_def run_names Let_def)

lemma run_confirm:
  "confirm_credential_invalidation 1 run_invalidation 1060 (run_state 1050 att_executed)
     = (Ok (), run_state 1060 att_confirmed)"
  by (simp add: confirm_credential_invalidation_def run_step_defs run_attempt_defs
      invalidation_phases_def quarantine_phases_def require_credential_invalidation_evidence_def
      run_invalidation_def run_claims_def run_prepared_def run_consumption_def Let_def)

lemma run_finalize:
  "finalize_terminal_effect 1 1110 (run_state 1060 att_confirmed) = (Ok (), run_final)"
  by (simp add: finalize_terminal_effect_def finalize_and_release_def run_step_defs run_attempt_defs
      credential_is_safe_def run_claims_def run_final_def run_state_def commit_time_def put_attempt_def)

lemma run_cancel:
  "begin_bound_object_create 1 run_claim 1085 (run_state 1040 (att_pending 1090))
     = (Err DeadlineExpired, run_state 1085 att_cancelled)"
  by (simp add: begin_bound_object_create_def run_step_defs run_attempt_defs cancel_with_def
      cancel_release_def)

lemma run_strand:
  "recover_expired_lease 1 1090 (run_state 1085 att_cancelled) = (Ok (), run_state 1090 att_stranded)"
  by (simp add: recover_expired_lease_def run_step_defs run_attempt_defs)

section \<open>Reachability\<close>

abbreviation run_reaches :: "DispatchMachine \<Rightarrow> bool" where
  "run_reaches \<equiv> dispatch_reachable ref_externals"

lemma run_step:
  assumes "run_reaches m" "e = (r, m')" "dispatch_step ref_externals m (snd e)"
  shows "run_reaches m'"
  using reach_step [OF assms(1,3)] assms(2) by simp

lemma reaches_empty: "run_reaches run_empty"
  using run_new by (intro reach_init) (auto simp: dispatch_init_def)

lemma reaches_registered: "run_reaches run_registered"
  by (rule run_step [OF reaches_empty run_register s_register])

lemma reaches_consumed: "run_reaches run_consumed"
  by (rule run_step [OF reaches_registered run_consume s_consume])

lemma reaches_pending: "run_reaches (run_state 1020 (att_pending 1070))"
  "run_reaches (run_state 1040 (att_pending 1090))"
  using run_step [OF reaches_consumed run_prepare s_prepare, of 1020]
    run_step [OF reaches_consumed run_prepare s_prepare, of 1040] by simp_all

lemma reaches_creating: "run_reaches (run_state 1030 att_creating)"
  by (rule run_step [OF reaches_pending(1) run_create s_create])

lemma reaches_prepared: "run_reaches (run_state 1035 att_prepared)"
  by (rule run_step [OF reaches_creating run_resolve s_object_resolve])

lemma reaches_issuing: "run_reaches (run_state 1040 att_issuing)"
  by (rule run_step [OF reaches_prepared run_issue s_issue])

lemma reaches_ready: "run_reaches (run_state 1042 att_ready)"
  by (rule run_step [OF reaches_issuing run_ready s_ready])

lemma reaches_executing: "run_reaches (run_state 1045 att_executing)"
  by (rule run_step [OF reaches_ready run_execute s_execute])

lemma reaches_executed: "run_reaches (run_state 1050 att_executed)"
  by (rule run_step [OF reaches_executing run_succeed s_outcome])

lemma reaches_confirmed: "run_reaches (run_state 1060 att_confirmed)"
  by (rule run_step [OF reaches_executed run_confirm s_confirm])

lemma reaches_final: "run_reaches run_final"
  by (rule run_step [OF reaches_confirmed run_finalize s_finalize])

lemma reaches_cancelled: "run_reaches (run_state 1085 att_cancelled)"
  by (rule run_step [OF reaches_pending(2) run_cancel s_create])

lemma reaches_stranded: "run_reaches (run_state 1090 att_stranded)"
  by (rule run_step [OF reaches_cancelled run_strand s_recover])

end
