(* ===== verification/Dispatch_Withdrawal.thy ===== *)
theory Dispatch_Withdrawal
  imports Dispatch_Safety
begin

text \<open>
  Withdrawal of permission. An attempt carries the authority and the emergency generation
  under which it was consumed, for ever. Once the machine has moved past either of them, by an
  activation or by an emergency stop, no operation can start the attempt's bound object, its
  credential or its effect again, even after the stop is lifted.
\<close>

section \<open>What an attempt was consumed under\<close>

type_synonym consumed_facts =
  "LogicalOwner \<times> PhysicalResourceId \<times> AuthorityVersion \<times> ConsumptionBinding \<times> u64 \<times> i64"

definition consumed_under :: "Attempt \<Rightarrow> consumed_facts" where
  "consumed_under a = (tx_owner a, tx_physical a, tx_consumed_authority a, tx_consumption a,
     tx_emergency_generation a, tx_dispatch_deadline a)"

definition pinned :: "DispatchMachine \<Rightarrow> uuid \<Rightarrow> consumed_facts option" where
  "pinned m t = map_option consumed_under (dm_attempts m t)"

lemma edge_consumed_under: "edge X m t now a a' \<Longrightarrow> consumed_under a' = consumed_under a"
  by (drule edge_static) (simp add: static_facts_def consumed_under_def)

lemma consumed_under_upd [simp]:
  "consumed_under (a\<lparr>tx_phase := p\<rparr>) = consumed_under a"
  "consumed_under (a\<lparr>tx_lease := l\<rparr>) = consumed_under a"
  "consumed_under (a\<lparr>tx_reservation_generation := g\<rparr>) = consumed_under a"
  "consumed_under (a\<lparr>tx_bound_object_name := n\<rparr>) = consumed_under a"
  by (simp_all add: consumed_under_def)

interpretation pins: frozen_value "live_step X" pinned for X
proof
  fix m m' t v
  assume st: "live_step X m m'" and "pinned m t = Some v"
  then obtain a where a: "dm_attempts m t = Some a" "consumed_under a = v"
    by (auto simp: pinned_def)
  from live_transition [OF st] a(1) show "pinned m' t = Some v"
    by (cases rule: transition_attempt) (simp_all add: pinned_def a(2) edge_consumed_under)
qed

section \<open>Attempts the machine has moved past\<close>

definition pin_inv :: "DispatchMachine \<Rightarrow> bool" where
  "pin_inv m \<longleftrightarrow> (\<forall>t a. dm_attempts m t = Some a \<longrightarrow>
     tx_emergency_generation a \<le> dm_emergency_generation m
     \<and> ver_epoch (tx_consumed_authority a) \<le> ver_epoch (dm_active_authority m))"

lemma new_attempt_under [simp]:
  "tx_emergency_generation (new_attempt m w p v c d) = dm_emergency_generation m"
  "tx_consumed_authority (new_attempt m w p v c d) = v"
  by (simp_all add: new_attempt_def)

text \<open>What holds of an attempt's pinned facts and the machine's current ones carries over a
  transition to every attempt but a freshly consumed one.\<close>

lemma transition_pinned:
  assumes "transition X m m'" "dm_attempts m' t = Some a'"
  obtains (fresh) "tx_emergency_generation a' = dm_emergency_generation m'"
      "tx_consumed_authority a' = dm_active_authority m'"
  | (old) a where "dm_attempts m t = Some a" "consumed_under a' = consumed_under a"
proof (cases "dm_attempts m t")
  case None
  from assms(1) show thesis
  proof cases
    case (consumed now u c p w d)
    with None assms(2) fresh show thesis by (auto split: if_splits)
  next
    case (reserved now u b generation fence expires w)
    with None assms(2) show thesis by (auto split: if_splits)
  next
    case (taken_over now u b l fence expires w)
    with None assms(2) show thesis by (auto split: if_splits)
  next
    case (moved now u b b')
    with None assms(2) show thesis by (auto split: if_splits)
  next
    case (released now u b r)
    with None assms(2) show thesis by (auto split: if_splits)
  next
    case (stranded u b)
    with None assms(2) show thesis by (auto split: if_splits)
  qed (use None assms(2) in simp_all)
next
  case (Some a)
  with assms(1) show thesis
    by (cases rule: transition_attempt)
      (use Some assms(2) old in \<open>auto dest: edge_consumed_under\<close>)
qed

lemma pin_inv_step:
  assumes "transition X m m'" "pin_inv m"
  shows "pin_inv m'"
  unfolding pin_inv_def
proof (intro allI impI)
  fix t a' assume a': "dm_attempts m' t = Some a'"
  show "tx_emergency_generation a' \<le> dm_emergency_generation m'
     \<and> ver_epoch (tx_consumed_authority a') \<le> ver_epoch (dm_active_authority m')"
    using assms(1) a'
  proof (cases rule: transition_pinned)
    case (old a)
    then have "tx_emergency_generation a' \<le> dm_emergency_generation m"
      "ver_epoch (tx_consumed_authority a') \<le> ver_epoch (dm_active_authority m)"
      using assms(2) by (auto simp: pin_inv_def consumed_under_def)
    with transition_epoch [OF assms(1)] show ?thesis by (auto intro: order.trans)
  qed simp
qed

definition withdrawn :: "uuid \<Rightarrow> DispatchMachine \<Rightarrow> bool" where
  "withdrawn t m \<longleftrightarrow> dispatch_inv m \<and> (\<exists>a. dm_attempts m t = Some a
     \<and> (tx_emergency_generation a < dm_emergency_generation m
        \<or> ver_epoch (tx_consumed_authority a) < ver_epoch (dm_active_authority m)))"

lemma withdrawn_step:
  assumes "withdrawn t m" "dispatch_step X m m'"
  shows "withdrawn t m'"
proof -
  have st: "live_step X m m'" using assms by (simp add: withdrawn_def live_step_def)
  obtain a where a: "dm_attempts m t = Some a" and w:
    "tx_emergency_generation a < dm_emergency_generation m
      \<or> ver_epoch (tx_consumed_authority a) < ver_epoch (dm_active_authority m)"
    using assms(1) by (auto simp: withdrawn_def)
  have "pinned m' t = Some (consumed_under a)"
    using pins.step_frozen [OF st] a by (simp add: pinned_def)
  then obtain a' where a': "dm_attempts m' t = Some a'" "consumed_under a' = consumed_under a"
    by (auto simp: pinned_def)
  have "tx_emergency_generation a' < dm_emergency_generation m'
      \<or> ver_epoch (tx_consumed_authority a') < ver_epoch (dm_active_authority m')"
    using w a'(2) transition_epoch [OF live_transition [OF st]]
    by (auto simp: consumed_under_def intro: order.strict_trans2)
  moreover have "dispatch_inv m'" using st dispatch_inv_step by (auto simp: live_step_def)
  ultimately show ?thesis using a'(1) by (auto simp: withdrawn_def)
qed

interpretation withdrawn: invariant_system "withdrawn t" "dispatch_step X" "withdrawn t" for t X
  by unfold_locales (auto intro: withdrawn_step)

interpretation pin_system: invariant_system dispatch_init "dispatch_step X" "\<lambda>m. dispatch_inv m \<and> pin_inv m" for X
proof
  show "dispatch_init m \<Longrightarrow> dispatch_inv m \<and> pin_inv m" for m
    using dispatch_init_inv [of m]
    by (auto simp: pin_inv_def dispatch_init_def dispatch_new_def and_then_Ok ensure_Ok)
next
  show "dispatch_inv m \<and> pin_inv m \<Longrightarrow> dispatch_step X m m' \<Longrightarrow> dispatch_inv m' \<and> pin_inv m'" for m m'
    using dispatch_inv_step [of m X m'] pin_inv_step [of X m m'] dispatch_step_refines [of X m m']
    by (simp add: dispatch_inv_def)
qed

lemma not_current_withdrawn: "withdrawn t m \<Longrightarrow> dm_attempts m t = Some a \<Longrightarrow> \<not> current m a now"
  by (auto simp: withdrawn_def current_def)

section \<open>A withdrawn attempt starts nothing\<close>

definition starts_something :: "externals \<Rightarrow> uuid \<Rightarrow> DispatchMachine \<Rightarrow> bool" where
  "starts_something X t m \<longleftrightarrow>
     (\<exists>w now. is_Ok (fst (prepare_dispatch X t w now m)))
     \<or> (\<exists>cl now. is_Ok (fst (begin_bound_object_create t cl now m)))
     \<or> (\<exists>cl now. is_Ok (fst (begin_credential_issue t cl now m)))
     \<or> (\<exists>cl now c. is_Ok (fst (record_credential_ready X t cl now c m)))
     \<or> (\<exists>cl b now. is_Ok (fst (release_and_begin_provider_attempt t cl b now m)))"

lemma is_Ok_attempt_q [simp]:
  "is_Ok (fst (attempt_q r m f)) \<longleftrightarrow> (\<exists>x. r = Ok x \<and> is_Ok (fst (f x)))"
  by (cases r) simp_all

lemma is_Ok_or_cancel [simp]:
  "is_Ok (fst (or_cancel r t now m k)) \<longleftrightarrow> r = Ok () \<and> is_Ok (fst k)"
  by (cases r) (auto simp: or_cancel_def cancel_with_def split: result.splits prod.splits)

lemma starts_current:
  assumes "starts_something X t m"
  obtains a now where "dm_attempts m t = Some a" "current m a now"
proof -
  have "\<exists>a now. dm_attempts m t = Some a \<and> current m a now"
    using assms unfolding starts_something_def
  proof (elim disjE exE)
    fix w now assume "is_Ok (fst (prepare_dispatch X t w now m))"
    then show ?thesis by (auto simp: prepare_dispatch_def current_iff)
  next
    fix cl now assume "is_Ok (fst (begin_bound_object_create t cl now m))"
    then show ?thesis by (auto simp: begin_bound_object_create_def current_iff)
  next
    fix cl now assume "is_Ok (fst (begin_credential_issue t cl now m))"
    then show ?thesis by (auto simp: begin_credential_issue_def current_iff)
  next
    fix cl now c assume "is_Ok (fst (record_credential_ready X t cl now c m))"
    then show ?thesis
      by (auto simp: record_credential_ready_def current_iff Let_def and_then_Ok
          split: if_splits result.splits)
  next
    fix cl b now assume "is_Ok (fst (release_and_begin_provider_attempt t cl b now m))"
    then show ?thesis
      by (auto simp: release_and_begin_provider_attempt_def preflight_provider_attempt_def
          current_iff and_then_Ok)
  qed
  with that show thesis by blast
qed

lemma withdrawn_starts_nothing: "withdrawn t m \<Longrightarrow> \<not> starts_something X t m"
  by (auto elim!: starts_current dest: not_current_withdrawn)

lemma stop_withdraws:
  assumes "dispatch_inv m" "pin_inv m" "dm_attempts m t = Some a" "\<not> dm_emergency_stop m"
    and "set_emergency_stop True m = (Ok (), m')"
  shows "withdrawn t m'"
proof -
  obtain g where g: "u64_checked_add (dm_emergency_generation m) 1 = Some g"
    "m' = m\<lparr>dm_emergency_generation := g, dm_emergency_stop := True\<rparr>"
    using assms(4,5) by (auto simp: set_emergency_stop_def attempt_q_Ok ok_or_Ok)
  have "dispatch_step undefined m m'"
    using dispatch_step.s_emergency [of undefined m True] assms(5) by simp
  then have "dispatch_inv m'" by (rule dispatch_inv_step [OF assms(1)])
  moreover have "tx_emergency_generation a \<le> dm_emergency_generation m"
    using assms(2,3) by (simp add: pin_inv_def)
  then have "tx_emergency_generation a < g"
    using u64_checked_succ_less [OF g(1)] by (rule order.strict_trans1)
  ultimately show ?thesis using assms(3) by (auto simp: withdrawn_def g(2))
qed

lemma activation_withdraws:
  assumes "dispatch_inv m" "pin_inv m" "dm_attempts m t = Some a"
    and "v \<noteq> dm_active_authority m" "activate_authority v m = (Ok (), m')"
  shows "withdrawn t m'"
proof -
  have m': "m' = m\<lparr>dm_active_authority := v\<rparr>" "ver_epoch (dm_active_authority m) < ver_epoch v"
    using assms(4,5) by (auto simp: activate_authority_def split: if_splits)
  have "dispatch_step undefined m m'"
    using dispatch_step.s_activate [of undefined m v] assms(5) by simp
  then have "dispatch_inv m'" by (rule dispatch_inv_step [OF assms(1)])
  moreover have "ver_epoch (tx_consumed_authority a) \<le> ver_epoch (dm_active_authority m)"
    using assms(2,3) by (simp add: pin_inv_def)
  then have "ver_epoch (tx_consumed_authority a) < ver_epoch v"
    using m'(2) by (rule order.strict_trans1)
  ultimately show ?thesis using assms(3) by (auto simp: withdrawn_def m'(1))
qed

end
