(* ===== verification/Dispatch_Retirement.thy ===== *)
theory Dispatch_Retirement
  imports Dispatch_Safety
begin

text \<open>
  Retirement is possible: an attempt whose release was cancelled before any issuance, and an
  attempt whose effect was executed, can always be brought to their final phase, which frees
  the physical resource. The evidence that the methods demand is built from the attempt.
\<close>

definition named :: "Attempt \<Rightarrow> bool" where
  "named a \<longleftrightarrow> tx_phase a \<in> {Consumed, DispatchWaitingResource} \<or> tx_bound_object_name a \<noteq> None"

definition named_inv :: "DispatchMachine \<Rightarrow> bool" where
  "named_inv m \<longleftrightarrow> (\<forall>t a. dm_attempts m t = Some a \<longrightarrow> named a)"

lemma edge_named:
  assumes "edge X m t now a a'" "named a"
  shows "named a'"
proof -
  have "tx_bound_object_name a' = tx_bound_object_name a"
    using edge_static [OF assms(1)] by (simp add: static_facts_def)
  then show ?thesis using edge_waiting [OF assms(1)] assms(2) by (simp add: named_def)
qed

lemma named_inv_put:
  "named_inv m \<Longrightarrow> dm_attempts m' = (dm_attempts m)(t \<mapsto> a') \<Longrightarrow> named a' \<Longrightarrow> named_inv m'"
  by (auto simp: named_inv_def split: if_splits)

lemma named_inv_step:
  assumes "transition X m m'" "named_inv m"
  shows "named_inv m'"
proof -
  have wf: "named a" if "dm_attempts m t = Some a" for t a
    using assms(2) that by (simp add: named_inv_def)
  show ?thesis
    using assms(1)
  proof cases
    case (consumed now t c p w d)
    show ?thesis
      by (rule named_inv_put [OF assms(2)], simp add: consumed(1), simp add: named_def)
  next
    case (reserved now t a generation fence expires w)
    show ?thesis
      by (rule named_inv_put [OF assms(2)], simp add: reserved(1), simp add: named_def)
  next
    case (taken_over now t a l fence expires w)
    show ?thesis
      by (rule named_inv_put [OF assms(2)], simp add: taken_over(1))
        (use wf [OF taken_over(3)] in \<open>simp add: named_def\<close>)
  next
    case (moved now t a a')
    show ?thesis
      by (rule named_inv_put [OF assms(2) _ edge_named [OF moved(4) wf [OF moved(3)]]])
        (simp add: moved(1))
  next
    case (released now t a r)
    have "tx_phase a \<notin> {Consumed, DispatchWaitingResource}" using released(4) by (auto simp: retired_def)
    with wf [OF released(3)] have "named (a\<lparr>tx_phase := TransactionFinal\<rparr>)" by (simp add: named_def)
    then show ?thesis by (rule named_inv_put [OF assms(2), rotated]) (simp add: released(1))
  next
    case (stranded t a)
    with wf [OF stranded(2)] have "named (a\<lparr>tx_phase := CredentialSafeExpired\<rparr>)" by (simp add: named_def)
    then show ?thesis by (rule named_inv_put [OF assms(2), rotated]) (simp add: stranded(1))
  qed (use assms(2) in \<open>simp_all add: named_inv_def\<close>)
qed

interpretation names: invariant_system dispatch_init "dispatch_step X" "\<lambda>m. dispatch_inv m \<and> named_inv m" for X
proof
  show "dispatch_init m \<Longrightarrow> dispatch_inv m \<and> named_inv m" for m
    using dispatch_init_inv [of m]
    by (auto simp: named_inv_def dispatch_init_def dispatch_new_def and_then_Ok ensure_Ok)
next
  show "dispatch_inv m \<and> named_inv m \<Longrightarrow> dispatch_step X m m' \<Longrightarrow> dispatch_inv m' \<and> named_inv m'" for m m'
    using dispatch_inv_step [of m X m'] named_inv_step [of X m m'] dispatch_step_refines [of X m m']
    by (simp add: dispatch_inv_def)
qed

lemma finalize_and_release_holder:
  assumes "dm_attempts m t = Some a" "tx_reservation_generation a = Some g"
    and "dm_reservations m (tx_physical a) = Some \<lparr>rs_transaction_id = t, rs_generation = g\<rparr>"
  shows "finalize_and_release t m = (Ok (), put_attempt t (a\<lparr>tx_phase := TransactionFinal\<rparr>)
    (m\<lparr>dm_reservations := (dm_reservations m)(tx_physical a := None)\<rparr>))"
  using assms by (simp add: finalize_and_release_def attempt_def)

definition retired_in :: "DispatchMachine \<Rightarrow> uuid \<Rightarrow> PhysicalResourceId \<Rightarrow> bool" where
  "retired_in m t p \<longleftrightarrow> phase_of m t = Ok TransactionFinal \<and> \<not> resource_is_reserved m p"

lemma cancelled_retires:
  assumes "dispatch_reachable X m" "dm_attempts m t = Some a" "tx_phase a = ReleaseCancelled"
    and "dm_high_water_time m \<le> now"
  shows "\<exists>e m'. finalize_confirmed_non_issuance t e now m = (Ok (), m') \<and> retired_in m' t (tx_physical a)"
proof -
  have inv: "dispatch_inv m" "named_inv m" using names.reach_inv [OF assms(1)] by simp_all
  have wf: "attempt_wf m a" by (rule reachable_wf [OF assms(1,2)])
  have "named a" using inv(2) assms(2) by (simp add: named_inv_def)
  then obtain n where n: "tx_bound_object_name a = Some n"
    using assms(3) by (auto simp: named_def)
  have i: "tx_issue_started_at a = None"
    using wf assms(3) by (simp add: attempt_wf_def issuance_wf_def before_issue_def)
  obtain g where g: "tx_reservation_generation a = Some g"
    "dm_reservations m (tx_physical a) = Some \<lparr>rs_transaction_id = t, rs_generation = g\<rparr>"
    using inv(1) assms(2,3) by (auto simp: dispatch_inv_def elim: reservation_of_holder)
  let ?e = "\<lparr>ni_transaction_id = t, ni_physical = tx_physical a, ni_bound_object_name = n,
    ni_bound_object_uid = tx_bound_object_uid a,
    ni_template_hash = et_template_hash (cb_effect (tx_consumption a)),
    ni_operation_hash = et_operation_hash (cb_effect (tx_consumption a)), ni_evidence_commitment = 1\<rparr>"
  have "time_ok m now" using inv(1) assms(4) by (auto simp: time_ok_def dispatch_inv_def)
  then have "finalize_confirmed_non_issuance t ?e now m
      = (Ok (), commit_time now (put_attempt t (a\<lparr>tx_phase := TransactionFinal\<rparr>)
          (m\<lparr>dm_reservations := (dm_reservations m)(tx_physical a := None)\<rparr>)))"
    using assms(2,3) n i finalize_and_release_holder [OF assms(2) g]
    by (simp add: finalize_confirmed_non_issuance_def require_non_issuance_evidence_def attempt_def
        validate_time_def time_ok_def)
  moreover have "retired_in (commit_time now (put_attempt t (a\<lparr>tx_phase := TransactionFinal\<rparr>)
      (m\<lparr>dm_reservations := (dm_reservations m)(tx_physical a := None)\<rparr>))) t (tx_physical a)"
    by (simp add: retired_in_def phase_of_def attempt_def resource_is_reserved_def)
  ultimately show ?thesis by blast
qed

lemma executed_retires:
  assumes "dispatch_reachable X m" "dm_attempts m t = Some a" "tx_phase a = Executed"
    and "dm_high_water_time m \<le> now" "tx_credential_safe_after a = Some s" "now \<le> later" "s \<le> later"
  shows "\<exists>e m1 m2. confirm_credential_invalidation t e now m = (Ok (), m1)
    \<and> finalize_terminal_effect t later m1 = (Ok (), m2) \<and> retired_in m2 t (tx_physical a)"
proof -
  have inv: "dispatch_inv m" "named_inv m" using names.reach_inv [OF assms(1)] by simp_all
  have wf: "attempt_wf m a" by (rule reachable_wf [OF assms(1,2)])
  have "named a" using inv(2) assms(2) by (simp add: named_inv_def)
  then obtain n where n: "tx_bound_object_name a = Some n"
    using assms(3) by (auto simp: named_def)
  obtain p where p: "tx_prepared_execution a = Some p"
    using wf assms(3) by (auto simp: attempt_wf_def custody_wf_def after_ready_def)
  obtain g where g: "tx_reservation_generation a = Some g"
    "dm_reservations m (tx_physical a) = Some \<lparr>rs_transaction_id = t, rs_generation = g\<rparr>"
    using inv(1) assms(2,3) by (auto simp: dispatch_inv_def elim: reservation_of_holder)
  let ?e = "\<lparr>ci_transaction_id = t, ci_physical = tx_physical a, ci_bound_object_name = n,
    ci_bound_object_uid = px_bound_object_uid p, ci_token_digest = tx_token_digest a,
    ci_template_hash = et_template_hash (cb_effect (tx_consumption a)),
    ci_operation_hash = et_operation_hash (cb_effect (tx_consumption a)),
    ci_execution_command_commitment = px_execution_command_commitment p,
    ci_final_wire_commitment = px_final_wire_commitment p,
    ci_effective_rbac_commitment = px_effective_rbac_commitment p, ci_evidence_commitment = 1\<rparr>"
  let ?a = "a\<lparr>tx_invalidation_confirmed := True\<rparr>"
  let ?m = "commit_time now (put_attempt t ?a m)"
  have time: "0 \<le> now" "0 \<le> later" "dm_high_water_time m \<le> now"
    using inv(1) assms(4,6) by (auto simp: dispatch_inv_def)
  have "require_credential_invalidation_evidence t a ?e = Ok ()"
    using n p by (simp add: require_credential_invalidation_evidence_def)
  then have "confirm_credential_invalidation t ?e now m = (Ok (), ?m)"
    using assms(2,3) time
    by (simp add: confirm_credential_invalidation_def attempt_def validate_time_def
        invalidation_phases_def quarantine_phases_def Let_def)
  moreover have "finalize_and_release t ?m = (Ok (), put_attempt t (?a\<lparr>tx_phase := TransactionFinal\<rparr>)
      (?m\<lparr>dm_reservations := (dm_reservations ?m)(tx_physical ?a := None)\<rparr>))"
    by (rule finalize_and_release_holder) (use g in simp_all)
  then have "finalize_terminal_effect t later ?m = (Ok (), commit_time later
      (put_attempt t (?a\<lparr>tx_phase := TransactionFinal\<rparr>)
        (?m\<lparr>dm_reservations := (dm_reservations ?m)(tx_physical a := None)\<rparr>)))"
    using assms(3,5-7) time
    by (simp add: finalize_terminal_effect_def attempt_def validate_time_def credential_is_safe_def)
  moreover have "retired_in (commit_time later (put_attempt t (?a\<lparr>tx_phase := TransactionFinal\<rparr>)
      (?m\<lparr>dm_reservations := (dm_reservations ?m)(tx_physical a := None)\<rparr>))) t (tx_physical a)"
    by (simp add: retired_in_def phase_of_def attempt_def resource_is_reserved_def)
  ultimately show ?thesis by blast
qed

end
