(* ===== verification/Dispatch_Properties.thy ===== *)
theory Dispatch_Properties
  imports Dispatch_Scenario Dispatch_Withdrawal Dispatch_Retirement
begin

text \<open>
  The properties of the dispatch machine, each over the machine's own operations and its
  reachable states, with a witness on the runs of \<open>Dispatch_Scenario\<close>.
\<close>

section \<open>Helpers for the statements\<close>

lemma reachable_live:
  assumes "dispatch_reachable X m" "(dispatch_step X)\<^sup>*\<^sup>* m m'"
  shows "(live_step X)\<^sup>*\<^sup>* m m'"
  using assms(2) dispatch.reach_inv [OF assms(1)] by (rule live_run)

lemma reachable_live_step:
  "dispatch_reachable X m \<Longrightarrow> dispatch_step X m m' \<Longrightarrow> live_step X m m'"
  by (simp add: live_step_def dispatch.reach_inv)

lemma take_over_Ok:
  assumes "take_over_expired_lease t w now m = (Ok cl, m')"
  obtains a l f e g n where "dm_attempts m t = Some a" "tx_lease a = Some l"
    "u64_checked_add (dm_next_fence m) 1 = Some f"
    "tx_reservation_generation a = Some g" "tx_bound_object_name a = Some n"
    "cl = claim_for t a w f g n"
    "m' = commit_time now (put_attempt t
      (a\<lparr>tx_lease := Some \<lparr>le_worker = w, le_fence = f, le_expires_at = e\<rparr>\<rparr>) (m\<lparr>dm_next_fence := f\<rparr>))"
  using assms unfolding take_over_expired_lease_def Let_def attempt_q_Ok or_cancel_Ok ok_or_Ok attempt_Ok
    prod.inject result.inject
  by (elim exE conjE) (rule that; (assumption | rule sym, assumption))

lemma run_state_att [simp]: "dm_attempts (run_state t a) = [1 \<mapsto> a]"
  by (simp add: run_state_def)

text \<open>The run of \<open>Dispatch_Scenario\<close> as a chain of steps.\<close>

lemma scenario_step:
  "e = (r, m') \<Longrightarrow> dispatch_step X m (snd e) \<Longrightarrow> (dispatch_step X)\<^sup>*\<^sup>* m' n \<Longrightarrow> (dispatch_step X)\<^sup>*\<^sup>* m n"
  by (auto intro: converse_rtranclp_into_rtranclp)

lemma executing_to_final: "(dispatch_step ref_externals)\<^sup>*\<^sup>* (run_state 1045 att_executing) run_final"
  by (rule scenario_step [OF run_succeed s_outcome scenario_step [OF run_confirm s_confirm
    scenario_step [OF run_finalize s_finalize rtranclp.rtrancl_refl]]])

lemma issuing_to_final: "(dispatch_step ref_externals)\<^sup>*\<^sup>* (run_state 1040 att_issuing) run_final"
  by (rule scenario_step [OF run_ready s_ready scenario_step [OF run_execute s_execute executing_to_final]])

lemma run_to_final: "(dispatch_step ref_externals)\<^sup>*\<^sup>* run_consumed run_final"
proof -
  have p: "prepare_dispatch ref_externals 1 ''worker'' 1020 run_consumed
      = (Ok run_claim, run_state 1020 (att_pending 1070))"
    using run_prepare [of 1020] by simp
  show ?thesis
    by (rule scenario_step [OF p s_prepare scenario_step [OF run_create s_create
      scenario_step [OF run_resolve s_object_resolve scenario_step [OF run_issue s_issue issuing_to_final]]]])
qed

section \<open>Refinement\<close>

text \<open>C11. Refinement: in every reachable machine, every public method performs at most one
  transition of the abstract lifecycle: registration, activation, stop, consumption,
  reservation, takeover, one edge of one attempt, or release, under the conditions that
  relation states. A rejected call is also covered: it stays, or makes the transition that
  records the rejection.\<close>

theorem dispatch_refines_lifecycle:
  assumes "dispatch_reachable X m" "dispatch_step X m m'"
  shows "transition X m m'"
  using reachable_live_step [OF assms] by (rule live_transition)

theorem dispatch_refines_lifecycle_witness:
  "transition ref_externals (run_state 1042 att_ready) (run_state 1045 att_executing)"
proof -
  have "dispatch_step ref_externals (run_state 1042 att_ready) (run_state 1045 att_executing)"
    using dispatch_step.s_execute [of ref_externals "run_state 1042 att_ready" 1 run_claim run_binding 1045]
      run_execute by simp
  with reaches_ready show ?thesis by (rule dispatch_refines_lifecycle)
qed

section \<open>Exclusion and fencing\<close>

text \<open>C12. Mutual exclusion: in every reachable machine, two attempts that are past reservation and not
  final and that name the same physical resource are the same transaction.\<close>

theorem one_holder_per_resource:
  assumes "dispatch_reachable X m" "dm_attempts m t = Some a" "dm_attempts m u = Some b"
    and "holds_reservation (tx_phase a)" "holds_reservation (tx_phase b)"
    and "tx_physical a = tx_physical b"
  shows "t = u"
proof -
  have "reservation_inv m" using dispatch.reach_inv [OF assms(1)] by (simp add: dispatch_inv_def)
  then show ?thesis using assms(2-6) by (rule holder_unique)
qed

theorem one_holder_per_resource_witness:
  "dm_attempts (run_state 1045 att_executing) (1 :: uuid) = Some att_executing \<and> (1 :: uuid) = 1"
proof -
  have "holds_reservation (tx_phase att_executing)"
    by (simp add: att_executing_def holds_reservation_def)
  then show ?thesis
    using one_holder_per_resource [OF reaches_executing, of 1 att_executing 1 att_executing] by simp
qed

text \<open>Reservations are exact: in every reachable machine a resource is reserved if and only if
  some attempt holds it, and the reservation names that attempt and its generation.\<close>

theorem reservation_iff_holder:
  assumes "dispatch_reachable X m"
  shows "dm_reservations m p = Some r \<longleftrightarrow>
    (\<exists>a. dm_attempts m (rs_transaction_id r) = Some a \<and> tx_physical a = p
       \<and> holds_reservation (tx_phase a) \<and> tx_reservation_generation a = Some (rs_generation r))"
proof -
  have inv: "reservation_inv m" using dispatch.reach_inv [OF assms] by (simp add: dispatch_inv_def)
  show ?thesis
  proof
    assume r: "dm_reservations m p = Some r"
    with inv obtain a where a: "dm_attempts m (rs_transaction_id r) = Some a" "tx_physical a = p"
      "holds_reservation (tx_phase a)" by (rule holder_of_reservation)
    from inv a(1,3) obtain g where "tx_reservation_generation a = Some g"
      "dm_reservations m (tx_physical a) = Some \<lparr>rs_transaction_id = rs_transaction_id r, rs_generation = g\<rparr>"
      by (rule reservation_of_holder)
    with a r show "\<exists>a. dm_attempts m (rs_transaction_id r) = Some a \<and> tx_physical a = p
       \<and> holds_reservation (tx_phase a) \<and> tx_reservation_generation a = Some (rs_generation r)"
      by (cases r) auto
  next
    assume "\<exists>a. dm_attempts m (rs_transaction_id r) = Some a \<and> tx_physical a = p
       \<and> holds_reservation (tx_phase a) \<and> tx_reservation_generation a = Some (rs_generation r)"
    with inv show "dm_reservations m p = Some r"
      by (auto elim: reservation_of_holder)
  qed
qed

theorem reservation_iff_holder_witness:
  "\<exists>a. dm_attempts (run_state 1045 att_executing) 1 = Some a \<and> tx_physical a = run_physical
     \<and> holds_reservation (tx_phase a) \<and> tx_reservation_generation a = Some 1"
  using reservation_iff_holder [OF reaches_executing, of run_physical
      "\<lparr>rs_transaction_id = 1, rs_generation = 1\<rparr>"] by simp

text \<open>Fences are unique: in every reachable machine no two transactions hold a lease with the
  same fence, no fence exceeds the machine's counter, and no two transactions share a
  reservation generation of one resource.\<close>

theorem fences_are_unique:
  assumes "dispatch_reachable X m"
  shows "(\<forall>t f. lease_of m t = Some f \<longrightarrow> f \<le> dm_next_fence m)
    \<and> (\<forall>t u f. lease_of m t = Some f \<longrightarrow> lease_of m u = Some f \<longrightarrow> t = u)
    \<and> (\<forall>t u q. generation_of m t = Some q \<longrightarrow> generation_of m u = Some q \<longrightarrow> t = u)"
proof -
  have inv: "fencing_inv m" using dispatch.reach_inv [OF assms] by (simp add: dispatch_inv_def)
  show ?thesis
    by (intro conjI allI impI; (rule fencing_invD(1) [OF inv] fencing_invD(2) [OF inv]
      fencing_invD(4) [OF inv]; assumption))
qed

theorem fences_are_unique_witness: "(1 :: u64) \<le> dm_next_fence (run_state 1045 att_executing)"
proof -
  have "lease_of (run_state 1045 att_executing) 1 = Some 1"
    by (simp add: lease_of_def run_attempt_defs)
  then show ?thesis using fences_are_unique [OF reaches_executing] by blast
qed

text \<open>C18. Takeover fences the old worker out: when a worker takes over an expired lease, every claim
  that the machine accepted for the transaction before is refused afterwards.\<close>

theorem takeover_fences_old_claim:
  assumes "dispatch_reachable X m" "take_over_expired_lease t w now m = (Ok cl', m')"
    and "require_claim_identity m t cl = Ok ()"
  shows "require_claim_identity m' t cl = Err StaleLease \<and> require_claim_identity m' t cl' = Ok ()"
proof -
  from assms(2) obtain a l f e g n where a: "dm_attempts m t = Some a" "tx_lease a = Some l"
    and f: "u64_checked_add (dm_next_fence m) 1 = Some f"
    and g: "tx_reservation_generation a = Some g" "tx_bound_object_name a = Some n"
    and cl': "cl' = claim_for t a w f g n"
    and m': "m' = commit_time now (put_attempt t
      (a\<lparr>tx_lease := Some \<lparr>le_worker = w, le_fence = f, le_expires_at = e\<rparr>\<rparr>) (m\<lparr>dm_next_fence := f\<rparr>))"
    by (rule take_over_Ok)
  have "lease_of m t = Some (le_fence l)" using a by (simp add: lease_of_def)
  then have "le_fence l \<le> dm_next_fence m"
    using dispatch.reach_inv [OF assms(1)] by (auto simp: dispatch_inv_def dest: fencing_invD(1))
  then have "le_fence l < f" using u64_checked_succ_less [OF f] by (rule order.strict_trans1)
  moreover have "dc_fence cl = le_fence l"
    using assms(3) a by (auto simp: require_claim_identity_def result_simps)
  ultimately have "f \<noteq> dc_fence cl" by auto
  then show ?thesis
    using g by (simp add: require_claim_identity_def attempt_def m' cl' claim_for_def)
qed

theorem takeover_fences_old_claim_witness:
  "\<exists>cl' m'. take_over_expired_lease 1 ''worker'' 1075 (run_state 1020 (att_pending 1070)) = (Ok cl', m')
     \<and> require_claim_identity m' 1 run_claim = Err StaleLease"
proof -
  obtain cl' m' where t: "take_over_expired_lease 1 ''worker'' 1075 (run_state 1020 (att_pending 1070))
      = (Ok cl', m')"
    by (simp add: take_over_expired_lease_def run_step_defs run_attempt_defs run_names Let_def
        run_state_def)
  moreover have "require_claim_identity (run_state 1020 (att_pending 1070)) 1 run_claim = Ok ()"
    by (simp add: run_step_defs run_attempt_defs)
  ultimately show ?thesis using takeover_fences_old_claim [OF reaches_pending(1)] by blast
qed

section \<open>At most once\<close>

text \<open>C14. No replay: once a reachable machine has imported a consumption, no later state of the run
  imports a consumption that shares its authorization identifier, its authorization hash or
  its receipt commitment, whatever the other arguments are.\<close>

theorem consumption_imported_once:
  assumes "dispatch_reachable X m"
    and "record_consumption_from_snapshot t w p v c ca oa d m = (Ok (), m1)"
    and "(dispatch_step X)\<^sup>*\<^sup>* m1 m2"
    and "cb_authorization_id c' = cb_authorization_id c
      \<or> cb_authorization_hash c' = cb_authorization_hash c
      \<or> cb_receipt_commitment c' = cb_receipt_commitment c"
  shows "record_consumption_from_snapshot t' w' p' v' c' ca' oa' d' m2 \<noteq> (Ok (), m3)"
proof
  assume again: "record_consumption_from_snapshot t' w' p' v' c' ca' oa' d' m2 = (Ok (), m3)"
  have "dispatch_step X m m1"
    using dispatch_step.s_consume [of X m t w p v c ca oa d] assms(2) by simp
  then have run: "(live_step X)\<^sup>*\<^sup>* m1 m2"
    using reach_step [OF assms(1)] assms(3) by (blast intro: reachable_live)
  have "imports_consumption key (key c) m m1" "imports_consumption key (key c') m2 m3"
    for key :: "ConsumptionBinding \<Rightarrow> 'k"
    unfolding imports_consumption_def using assms(2) again by blast+
  then show False
    using assms(4) authorization_ids.accepted_once [OF _ run] authorization_hashes.accepted_once [OF _ run]
      receipts.accepted_once [OF _ run] by metis
qed

theorem consumption_imported_once_witness:
  "record_consumption_from_snapshot 2 run_owner run_physical run_authority
     (run_consumption\<lparr>cb_authorization_id := 99\<rparr>) 1000 1120 1130 run_final \<noteq> (Ok (), run_final)"
proof -
  have run: "(dispatch_step ref_externals)\<^sup>*\<^sup>* run_consumed run_final" by (rule run_to_final)
  show ?thesis
    by (rule consumption_imported_once [OF reaches_registered run_consume run]) simp
qed

text \<open>C13. The effect is attempted at most once: once a provider attempt of a transaction has
  started, no later state of the run starts another one for it, and the recorded start time
  never changes.\<close>

theorem provider_attempt_at_most_once:
  assumes "dispatch_reachable X m"
    and "release_and_begin_provider_attempt t cl b now m = (Ok (), m1)"
    and "(dispatch_step X)\<^sup>*\<^sup>* m1 m2"
  shows "provider_start m2 t = Some now
    \<and> (\<forall>cl' b' now' m3. release_and_begin_provider_attempt t cl' b' now' m2 \<noteq> (Ok (), m3))"
proof -
  have st: "dispatch_step X m m1"
    using dispatch_step.s_execute [of X m t cl b now] assms(2) by simp
  then have r1: "dispatch_reachable X m1" by (rule reach_step [OF assms(1)])
  have run: "(live_step X)\<^sup>*\<^sup>* m1 m2" by (rule reachable_live [OF r1 assms(3)])
  have start: "starts_provider t m m1"
    using assms(2) dispatch.reach_inv [OF assms(1)] by (auto simp: starts_provider_def)
  have "provider_start m1 t = Some now"
    using assms(2) by (elim release_and_begin_Ok) (simp add: provider_start_def)
  then have "provider_start m2 t = Some now" by (rule starts.run_frozen [OF run])
  moreover have "dispatch_inv m2"
    using dispatch.reach_inv reach_run [OF r1 assms(3)] by blast
  then have "\<forall>cl' b' now' m3. release_and_begin_provider_attempt t cl' b' now' m2 \<noteq> (Ok (), m3)"
    using provider_attempts.accepted_once [OF start run] by (auto simp: starts_provider_def)
  ultimately show ?thesis by blast
qed

theorem provider_attempt_at_most_once_witness:
  "provider_start run_final 1 = Some 1045
    \<and> (\<forall>cl' b' now' m3. release_and_begin_provider_attempt 1 cl' b' now' run_final \<noteq> (Ok (), m3))"
  by (rule provider_attempt_at_most_once [OF reaches_ready run_execute executing_to_final])

text \<open>A credential is requested at most once per transaction: once its issuance has started, no
  later state of the run starts it again, and the recorded start time never changes.\<close>

theorem credential_issued_at_most_once:
  assumes "dispatch_reachable X m" "begin_credential_issue t cl now m = (Ok (), m1)"
    and "(dispatch_step X)\<^sup>*\<^sup>* m1 m2"
  shows "issue_start m2 t = Some now
    \<and> (\<forall>cl' now' m3. begin_credential_issue t cl' now' m2 \<noteq> (Ok (), m3))"
proof -
  have st: "dispatch_step X m m1"
    using dispatch_step.s_issue [of X m t cl now] assms(2) by simp
  then have r1: "dispatch_reachable X m1" by (rule reach_step [OF assms(1)])
  have run: "(live_step X)\<^sup>*\<^sup>* m1 m2" by (rule reachable_live [OF r1 assms(3)])
  have start: "starts_issue t m m1"
    using assms(2) dispatch.reach_inv [OF assms(1)] by (auto simp: starts_issue_def)
  have "issue_start m1 t = Some now"
    using assms(2) by (elim begin_credential_issue_Ok) (simp add: issue_start_def)
  then have "issue_start m2 t = Some now" by (rule issues.run_frozen [OF run])
  moreover have "dispatch_inv m2"
    using dispatch.reach_inv reach_run [OF r1 assms(3)] by blast
  then have "\<forall>cl' now' m3. begin_credential_issue t cl' now' m2 \<noteq> (Ok (), m3)"
    using issuances.accepted_once [OF start run] by (auto simp: starts_issue_def)
  ultimately show ?thesis by blast
qed

theorem credential_issued_at_most_once_witness:
  "issue_start run_final 1 = Some 1040
    \<and> (\<forall>cl' now' m3. begin_credential_issue 1 cl' now' run_final \<noteq> (Ok (), m3))"
  by (rule credential_issued_at_most_once [OF reaches_prepared run_issue issuing_to_final])

section \<open>Withdrawal\<close>

text \<open>The clock, the authority epoch, the emergency generation and the fence counter never go
  back over any run of the machine.\<close>

theorem counters_never_go_back:
  assumes "dispatch_reachable X m" "(dispatch_step X)\<^sup>*\<^sup>* m m'"
  shows "dm_high_water_time m \<le> dm_high_water_time m'
    \<and> ver_epoch (dm_active_authority m) \<le> ver_epoch (dm_active_authority m')
    \<and> dm_emergency_generation m \<le> dm_emergency_generation m'
    \<and> dm_next_fence m \<le> dm_next_fence m'"
proof -
  have run: "(live_step X)\<^sup>*\<^sup>* m m'" by (rule reachable_live [OF assms])
  show ?thesis
    by (intro conjI clock.run_mono [OF run] epoch.run_mono [OF run] stops.run_mono [OF run]
        fence.run_mono [OF run])
qed

theorem counters_never_go_back_witness:
  "dm_high_water_time run_consumed \<le> dm_high_water_time run_final"
  using counters_never_go_back [OF reaches_consumed run_to_final] by blast

text \<open>C16. An emergency stop is permanent for the attempts it found: after it, in every later state of
  the run, even once the stop is lifted, no attempt that existed then can reserve, create its
  bound object, begin or accept a credential, or start its effect.\<close>

theorem emergency_stop_is_permanent:
  assumes "dispatch_reachable X m" "dm_attempts m t = Some a" "\<not> dm_emergency_stop m"
    and "set_emergency_stop True m = (Ok (), m1)" "(dispatch_step X)\<^sup>*\<^sup>* m1 m2"
  shows "\<not> starts_something X t m2"
proof -
  have "withdrawn t m1"
    using pin_system.reach_inv [OF assms(1)] assms(2-4) by (blast intro: stop_withdraws)
  then have "withdrawn t m2" by (rule withdrawn.run_inv [OF assms(5)])
  then show ?thesis by (rule withdrawn_starts_nothing)
qed

theorem emergency_stop_is_permanent_witness:
  "\<exists>m1. set_emergency_stop True (run_state 1042 att_ready) = (Ok (), m1)
     \<and> \<not> starts_something ref_externals 1 (snd (set_emergency_stop False m1))"
proof -
  obtain m1 where m1: "set_emergency_stop True (run_state 1042 att_ready) = (Ok (), m1)"
    by (simp add: set_emergency_stop_def u64_checked_add_def)
  have "(dispatch_step ref_externals)\<^sup>*\<^sup>* m1 (snd (set_emergency_stop False m1))"
    by (intro r_into_rtranclp dispatch_step.s_emergency)
  with emergency_stop_is_permanent [OF reaches_ready _ _ m1, of 1 att_ready] m1 show ?thesis by simp
qed

text \<open>A new authority withdraws every attempt consumed under an older one: after an activation
  that changes the authority, no attempt that existed then can make progress towards an
  effect in any later state of the run.\<close>

theorem activation_is_permanent:
  assumes "dispatch_reachable X m" "dm_attempts m t = Some a" "v \<noteq> dm_active_authority m"
    and "activate_authority v m = (Ok (), m1)" "(dispatch_step X)\<^sup>*\<^sup>* m1 m2"
  shows "\<not> starts_something X t m2"
proof -
  have "withdrawn t m1"
    using pin_system.reach_inv [OF assms(1)] assms(2-4) by (blast intro: activation_withdraws)
  then have "withdrawn t m2" by (rule withdrawn.run_inv [OF assms(5)])
  then show ?thesis by (rule withdrawn_starts_nothing)
qed

theorem activation_is_permanent_witness:
  "\<exists>m1. activate_authority \<lparr>ver_root = 9, ver_epoch = 2\<rparr> (run_state 1042 att_ready) = (Ok (), m1)
     \<and> \<not> starts_something ref_externals 1 m1"
proof -
  let ?v = "\<lparr>ver_root = 9, ver_epoch = 2\<rparr> :: AuthorityVersion"
  have v: "?v \<noteq> run_authority" by (simp add: run_authority_def)
  then obtain m1 where m1: "activate_authority ?v (run_state 1042 att_ready) = (Ok (), m1)"
    by (simp add: activate_authority_def) (simp add: run_authority_def word_le_nat_alt)
  with activation_is_permanent [OF reaches_ready _ _ m1 rtranclp.rtrancl_refl, of 1 att_ready] v
  show ?thesis by simp
qed

section \<open>The effect\<close>

lemma claim_identity_iff:
  "dm_attempts m t = Some a \<Longrightarrow> require_lease m t cl now = Ok () \<longleftrightarrow>
    (\<exists>l g n. tx_lease a = Some l \<and> now < le_expires_at l \<and> tx_reservation_generation a = Some g
      \<and> tx_bound_object_name a = Some n
      \<and> cl = \<lparr>dc_transaction_id = t, dc_physical = tx_physical a, dc_consumption = tx_consumption a,
          dc_worker = le_worker l, dc_fence = le_fence l, dc_reservation_generation = g, dc_bound_object_name = n\<rparr>)"
  by (cases cl) (auto simp: require_lease_def require_claim_identity_def result_simps not_le)

lemma effect_binding_iff:
  "require_effect_binding a b = Ok () \<longleftrightarrow> (\<exists>p d. tx_prepared_execution a = Some p \<and> tx_token_digest a = Some d
      \<and> b = \<lparr>eb_template_hash = et_template_hash (cb_effect (tx_consumption a)),
          eb_operation_hash = et_operation_hash (cb_effect (tx_consumption a)),
          eb_execution_command_commitment = et_execution_command_commitment (cb_effect (tx_consumption a)),
          eb_final_wire_commitment = et_final_wire_commitment (cb_effect (tx_consumption a)),
          eb_effective_rbac_commitment = px_effective_rbac_commitment p, eb_token_digest = d\<rparr>
      \<and> px_execution_command_commitment p = et_execution_command_commitment (cb_effect (tx_consumption a))
      \<and> px_final_wire_commitment p = et_final_wire_commitment (cb_effect (tx_consumption a)))"
  by (cases b) (auto simp: require_effect_binding_def result_simps Let_def)

lemma preflight_iff:
  assumes "dm_attempts m t = Some a"
  shows "preflight_provider_attempt m t cl b now = Ok () \<longleftrightarrow> time_ok m now \<and> require_lease m t cl now = Ok ()
    \<and> tx_phase a = CredentialReady \<and> require_effect_binding a b = Ok () \<and> current m a now
    \<and> (\<exists>e. tx_token_expires_at a = Some e \<and> i64_ok (now + db_minimum_remaining_lifetime_s (dm_bounds m))
        \<and> now + db_minimum_remaining_lifetime_s (dm_bounds m) \<le> e)"
  using assms by (auto simp: preflight_provider_attempt_def result_simps current_iff effect_binding_iff not_less)

text \<open>C15. An effect starts exactly with everything in place. A release succeeds if and only if the attempt's
  credential was accepted, its lease is live and the presented claim is that lease's own, field by field; the
  active authority and the emergency generation are those of the consumption, no stop is in force and the
  deadline has not passed; the clock does not go back; the binding equals the consumed authorization in its
  template, operation, execution command and final wire, the prepared execution carries the same command and
  wire, and the binding names its access rights and the accepted token; and the token outlives the configured
  margin. The machine then records the start and nothing else.\<close>

theorem release_requires_everything:
  "release_and_begin_provider_attempt t cl b now m = (Ok (), m') \<longleftrightarrow>
    (\<exists>a l g n p d e. dm_attempts m t = Some a \<and> tx_phase a = CredentialReady
      \<and> tx_lease a = Some l \<and> now < le_expires_at l
      \<and> tx_reservation_generation a = Some g \<and> tx_bound_object_name a = Some n
      \<and> cl = \<lparr>dc_transaction_id = t, dc_physical = tx_physical a, dc_consumption = tx_consumption a,
          dc_worker = le_worker l, dc_fence = le_fence l, dc_reservation_generation = g, dc_bound_object_name = n\<rparr>
      \<and> dm_active_authority m = tx_consumed_authority a \<and> \<not> dm_emergency_stop m
      \<and> tx_emergency_generation a = dm_emergency_generation m \<and> now < tx_dispatch_deadline a
      \<and> dm_high_water_time m \<le> now \<and> 0 \<le> now
      \<and> tx_prepared_execution a = Some p \<and> tx_token_digest a = Some d \<and> tx_token_expires_at a = Some e
      \<and> b = \<lparr>eb_template_hash = et_template_hash (cb_effect (tx_consumption a)),
          eb_operation_hash = et_operation_hash (cb_effect (tx_consumption a)),
          eb_execution_command_commitment = et_execution_command_commitment (cb_effect (tx_consumption a)),
          eb_final_wire_commitment = et_final_wire_commitment (cb_effect (tx_consumption a)),
          eb_effective_rbac_commitment = px_effective_rbac_commitment p, eb_token_digest = d\<rparr>
      \<and> px_execution_command_commitment p = et_execution_command_commitment (cb_effect (tx_consumption a))
      \<and> px_final_wire_commitment p = et_final_wire_commitment (cb_effect (tx_consumption a))
      \<and> i64_ok (now + db_minimum_remaining_lifetime_s (dm_bounds m))
      \<and> now + db_minimum_remaining_lifetime_s (dm_bounds m) \<le> e
      \<and> m' = commit_time now (put_attempt t
          (a\<lparr>tx_phase := Executing, tx_provider_attempt_started_at := Some now\<rparr>) m))"
    (is "_ \<longleftrightarrow> ?R")
proof -
  have "release_and_begin_provider_attempt t cl b now m = (Ok (), m') \<longleftrightarrow>
      (\<exists>a. dm_attempts m t = Some a \<and> preflight_provider_attempt m t cl b now = Ok ()
        \<and> m' = commit_time now (put_attempt t
            (a\<lparr>tx_phase := Executing, tx_provider_attempt_started_at := Some now\<rparr>) m))"
    by (auto simp: release_and_begin_provider_attempt_def attempt_q_Ok)
  also have "\<dots> \<longleftrightarrow> ?R"
    by (intro iff_exI) (auto simp: preflight_iff claim_identity_iff effect_binding_iff current_def time_ok_def)
  finally show ?thesis .
qed

theorem release_requires_everything_witness:
  "\<exists>a. dm_attempts (run_state 1042 att_ready) 1 = Some a \<and> tx_phase a = CredentialReady
    \<and> 1045 < tx_dispatch_deadline a"
  using run_execute unfolding release_requires_everything by blast

text \<open>C36. An executed effect has its evidence: in every reachable machine an attempt in phase
  Executed carries a non-zero evidence commitment, a recorded provider start, an issued
  credential and a prepared execution that matches its authorization and registration; and
  in every later state of the run the commitment is still the same.\<close>

theorem executed_has_permanent_evidence:
  assumes "dispatch_reachable X m" "dm_attempts m t = Some a" "tx_phase a = Executed"
  shows "\<exists>c s p r. tx_effect_evidence_commitment a = Some c \<and> c \<noteq> 0
    \<and> tx_provider_attempt_started_at a = Some s \<and> s \<le> dm_high_water_time m
    \<and> tx_issue_started_at a \<noteq> None \<and> tx_prepared_execution a = Some p
    \<and> map_of (dm_registrations m) (tx_physical a) = Some r
    \<and> valid_prepared_execution p (cb_effect (tx_consumption a)) (dr_credential r)
    \<and> (\<forall>m'. (dispatch_step X)\<^sup>*\<^sup>* m m' \<longrightarrow> effect_evidence m' t = Some c)"
proof -
  have wf: "issuance_wf m a" "custody_wf m a" "execution_wf m a"
    using reachable_wf [OF assms(1,2)] by (simp_all add: attempt_wf_def)
  obtain c s where c: "tx_effect_evidence_commitment a = Some c" "c \<noteq> 0"
    "tx_provider_attempt_started_at a = Some s" "s \<le> dm_high_water_time m"
    using wf(3) assms(3) by (auto simp: execution_wf_def after_start_def)
  have i: "tx_issue_started_at a \<noteq> None" using wf(1) assms(3) by (simp add: issuance_wf_def after_ready_def)
  obtain p r where p: "tx_prepared_execution a = Some p"
    "map_of (dm_registrations m) (tx_physical a) = Some r"
    "valid_prepared_execution p (cb_effect (tx_consumption a)) (dr_credential r)"
    using wf(2) assms(3) by (auto simp: custody_wf_def after_ready_def)
  have "effect_evidence m' t = Some c" if "(dispatch_step X)\<^sup>*\<^sup>* m m'" for m'
    using evidence.run_frozen [OF reachable_live [OF assms(1) that], of t c] assms(2) c(1)
    by (simp add: effect_evidence_def)
  with c i p show ?thesis by blast
qed

theorem executed_has_permanent_evidence_witness:
  "\<exists>c. tx_effect_evidence_commitment att_executed = Some c \<and> c \<noteq> 0
    \<and> effect_evidence run_final 1 = Some c"
proof -
  have run: "(dispatch_step ref_externals)\<^sup>*\<^sup>* (run_state 1050 att_executed) run_final"
    by (rule scenario_step [OF run_confirm s_confirm scenario_step [OF run_finalize s_finalize
      rtranclp.rtrancl_refl]])
  have "tx_phase att_executed = Executed" by (simp add: att_executed_def)
  from executed_has_permanent_evidence [OF reaches_executed _ this, of 1] run show ?thesis by auto
qed

text \<open>The evidence commitment binds the evidence: two pieces of evidence on whose material
  SHA-256 does not collide have the same commitment if and only if they are equal in every
  field.\<close>

theorem evidence_commitment_binds:
  assumes "evidence_ok e" "evidence_ok f"
    and "no_collision (x_sha256 X) (evidence_material e) (evidence_material f)"
  shows "evidence_commitment X e = evidence_commitment X f \<longleftrightarrow> e = f"
  using assms evidence_material_inj [OF assms(1,2)] by (auto simp: evidence_commitment_def)

theorem evidence_commitment_binds_witness:
  "evidence_commitment ref_externals run_evidence
     \<noteq> evidence_commitment ref_externals (run_evidence\<lparr>ee_observed_resource_version := ''4200''\<rparr>)"
proof -
  let ?f = "run_evidence\<lparr>ee_observed_resource_version := ''4200''\<rparr>"
  have ok: "evidence_ok run_evidence" "evidence_ok ?f"
    by (simp_all add: evidence_ok_def run_evidence_def run_physical_def str_ok_def arith_defs)
  have "no_collision (x_sha256 ref_externals) (evidence_material run_evidence) (evidence_material ?f)"
    unfolding ref_externals_simps
    by (rule ref_digest_no_collision)
      (simp_all add: evidence_material_def run_evidence_def run_physical_def run_binding_def
        update_string_def i64_be_bytes_def Let_def)
  from evidence_commitment_binds [OF ok this] show ?thesis by (simp add: run_evidence_def)
qed

section \<open>Retirement\<close>

text \<open>C17. A final transaction leaves no live credential: in every reachable machine an attempt in
  phase TransactionFinal either never started an issuance, or its credential was confirmed
  invalid and the clock has passed a time that covers both the returned token's expiry and
  the longest token the issuer could have minted, with the clock uncertainty added.\<close>

theorem final_leaves_no_credential:
  assumes "dispatch_reachable X m" "dm_attempts m t = Some a" "tx_phase a = TransactionFinal"
  shows "tx_issue_started_at a = None
    \<or> tx_invalidation_confirmed a \<and> (\<exists>s i. tx_credential_safe_after a = Some s \<and> s \<le> dm_high_water_time m
        \<and> tx_issue_started_at a = Some i
        \<and> (s = i64_max \<or> i + db_token_lifetime_upper_bound_s (dm_bounds m)
             + db_clock_uncertainty_s (dm_bounds m) \<le> s)
        \<and> (\<forall>e. tx_token_expires_at a = Some e \<longrightarrow>
             s = i64_max \<or> e + db_clock_uncertainty_s (dm_bounds m) \<le> s))"
proof (cases "tx_issue_started_at a")
  case (Some i)
  have wf: "issuance_wf m a" "execution_wf m a"
    using reachable_wf [OF assms(1,2)] by (simp_all add: attempt_wf_def)
  obtain s where s: "tx_invalidation_confirmed a" "tx_credential_safe_after a = Some s"
    "s \<le> dm_high_water_time m"
    using wf(2) assms(3) Some by (auto simp: execution_wf_def)
  have "lifetime_bound m a s" using wf(1) s(2) by (simp add: issuance_wf_def)
  moreover have "\<forall>e. tx_token_expires_at a = Some e \<longrightarrow> safe_bound m e s"
    using wf(1) s(2) by (auto simp: issuance_wf_def)
  ultimately show ?thesis
    using s Some by (auto simp: lifetime_bound_def safe_bound_def)
qed simp

theorem final_leaves_no_credential_witness:
  "\<exists>a. dm_attempts run_final 1 = Some a \<and> tx_invalidation_confirmed a"
proof -
  let ?a = "att_confirmed\<lparr>tx_phase := TransactionFinal\<rparr>"
  have a: "dm_attempts run_final 1 = Some ?a" by (simp add: run_final_def)
  have "tx_issue_started_at ?a \<noteq> None" by (simp add: run_attempt_defs)
  with final_leaves_no_credential [OF reaches_final a] a show ?thesis by auto
qed

text \<open>C37. Retirement is always possible: in every reachable machine a cancelled release can be
  finalised at any time the clock allows, and an executed attempt can be confirmed and then
  finalised at any later time past its conservative expiry; both reach the final phase and
  free the physical resource.\<close>

theorem retirement_is_possible:
  assumes "dispatch_reachable X m" "dm_attempts m t = Some a" "dm_high_water_time m \<le> now"
  shows "(tx_phase a = ReleaseCancelled \<longrightarrow>
      (\<exists>e m'. finalize_confirmed_non_issuance t e now m = (Ok (), m') \<and> retired_in m' t (tx_physical a)))
    \<and> (tx_phase a = Executed \<longrightarrow> (\<exists>s. tx_credential_safe_after a = Some s
      \<and> (\<forall>later \<ge> max now s. \<exists>e m1 m2. confirm_credential_invalidation t e now m = (Ok (), m1)
          \<and> finalize_terminal_effect t later m1 = (Ok (), m2) \<and> retired_in m2 t (tx_physical a))))"
proof (intro conjI impI)
  assume "tx_phase a = ReleaseCancelled"
  then show "\<exists>e m'. finalize_confirmed_non_issuance t e now m = (Ok (), m') \<and> retired_in m' t (tx_physical a)"
    using assms by (intro cancelled_retires)
next
  assume ph: "tx_phase a = Executed"
  have "issuance_wf m a" using reachable_wf [OF assms(1,2)] by (simp add: attempt_wf_def)
  then obtain s where "tx_credential_safe_after a = Some s"
    using ph by (auto simp: issuance_wf_def after_ready_def)
  with ph assms show "\<exists>s. tx_credential_safe_after a = Some s
      \<and> (\<forall>later \<ge> max now s. \<exists>e m1 m2. confirm_credential_invalidation t e now m = (Ok (), m1)
          \<and> finalize_terminal_effect t later m1 = (Ok (), m2) \<and> retired_in m2 t (tx_physical a))"
    by (intro exI [of _ s] conjI allI impI executed_retires [of X]) auto
qed

theorem retirement_is_possible_witness:
  "\<exists>e m'. finalize_confirmed_non_issuance 1 e 1086 (run_state 1085 att_cancelled) = (Ok (), m')
     \<and> retired_in m' 1 run_physical"
proof -
  have "tx_phase att_cancelled = ReleaseCancelled" "tx_physical att_cancelled = run_physical"
    by (simp_all add: run_attempt_defs)
  then show ?thesis
    using retirement_is_possible [OF reaches_cancelled, of 1 att_cancelled 1086] by simp
qed

text \<open>C38. A cancelled release that lease recovery reaches first is stranded: if
  recover_expired_lease succeeds on an attempt in phase ReleaseCancelled, then in every later
  state of the run the attempt is not final and its physical resource is still reserved for
  it, so no other transaction can ever use that resource.\<close>

theorem recovery_strands_cancelled_release:
  assumes "dispatch_reachable X m" "dm_attempts m t = Some a" "tx_phase a = ReleaseCancelled"
    and "recover_expired_lease t now m = (Ok (), m1)" "(dispatch_step X)\<^sup>*\<^sup>* m1 m2"
  shows "phase_of m2 t \<noteq> Ok TransactionFinal \<and> resource_is_reserved m2 (tx_physical a)"
proof -
  have st: "dispatch_step X m m1"
    using dispatch_step.s_recover [of X m t now] assms(4) by simp
  have inv1: "dispatch_inv m1" using dispatch.reach_inv reach_step [OF assms(1) st] by blast
  have safe: "tx_credential_safe_after a = None"
    using reachable_wf [OF assms(1,2)] assms(3) by (simp add: attempt_wf_def issuance_wf_def before_issue_def)
  then have "m1 = commit_time now (put_attempt t
      (a\<lparr>tx_phase := CredentialInvalidating, tx_credential_safe_after := None\<rparr>) m)"
    using assms(2-4) by (auto simp: recover_expired_lease_def attempt_q_Ok ensure_Ok ok_or_Ok)
  then have un1: "unretirable t m1" and pin1: "pinned m1 t = Some (consumed_under a)"
    using inv1 by (simp_all add: unretirable_def pinned_def consumed_under_def)
  have un2: "unretirable t m2" by (rule unretirable.run_inv [OF assms(5) un1])
  have "pinned m2 t = Some (consumed_under a)"
    by (rule pins.run_frozen [OF live_run [OF assms(5) inv1] pin1])
  then obtain b where b: "dm_attempts m2 t = Some b" "tx_physical b = tx_physical a"
    by (auto simp: pinned_def consumed_under_def)
  have "tx_phase b \<noteq> TransactionFinal" using un2 b(1) by (auto simp: unretirable_def)
  moreover have "resource_is_reserved m2 (tx_physical a)"
    using unretirable_holds [OF un2 b(1)] b(2) by (auto simp: resource_is_reserved_def)
  ultimately show ?thesis using b(1) by (simp add: phase_of_def attempt_def)
qed

theorem recovery_strands_cancelled_release_witness:
  "recover_expired_lease 1 1090 (run_state 1085 att_cancelled) = (Ok (), run_state 1090 att_stranded)
    \<and> {m2. (dispatch_step ref_externals)\<^sup>*\<^sup>* (run_state 1090 att_stranded) m2}
         \<subseteq> {m2. resource_is_reserved m2 run_physical}"
proof -
  have "tx_phase att_cancelled = ReleaseCancelled" "tx_physical att_cancelled = run_physical"
    by (simp_all add: run_attempt_defs)
  then show ?thesis
    using recovery_strands_cancelled_release [OF reaches_cancelled _ _ run_strand, of att_cancelled]
      run_strand by auto
qed

text \<open>The phases EffectReleased, ExecutionFailed and CredentialSafeExpired never occur in a
  reachable machine: a release starts its provider attempt in the same operation, an unknown
  outcome goes to reconciliation or to manual resolution, and an expired quarantine is final
  at once.\<close>

theorem no_intermediate_phases:
  assumes "dispatch_reachable X m" "phase_of m t = Ok ph"
  shows "ph \<notin> {EffectReleased, ExecutionFailed, CredentialSafeExpired}"
proof -
  obtain a where "dm_attempts m t = Some a" "tx_phase a = ph"
    using assms(2) by (auto simp: phase_of_def and_then_Ok)
  then show ?thesis
    using reachable_wf [OF assms(1), of t a] by (simp add: attempt_wf_def execution_wf_def)
qed

theorem no_intermediate_phases_witness:
  "phase_of (run_state 1045 att_executing) 1 = Ok Executing
    \<and> Executing \<notin> {EffectReleased, ExecutionFailed, CredentialSafeExpired}"
proof -
  have "phase_of (run_state 1045 att_executing) 1 = Ok Executing"
    by (simp add: phase_of_def attempt_def att_executing_def)
  then show ?thesis using no_intermediate_phases [OF reaches_executing] by blast
qed

end
