(* ===== verification/State_Acquisition.thy ===== *)
theory State_Acquisition
  imports State_Validation Dispatch_Model
begin

text \<open>
  Dispatch claims, acquisitions and credential bindings of \<^verbatim>\<open>accordlock-state\<close>: the records of
  \<^verbatim>\<open>model.rs\<close> and \<^verbatim>\<open>acquisition.rs\<close> that the store keeps for a claimed dispatch, and the
  commitments that freeze a credential into a provider attempt.
\<close>

record EksCredentialLifecyclePolicy =
  lp_requested_expiration_seconds :: i64
  lp_server_lifetime_hard_max_seconds :: i64
  lp_clock_uncertainty_seconds :: i64
  lp_deletion_propagation_hard_max_seconds :: i64

record DispatchAcquisitionAuthority =
  aq_claim :: DispatchClaimToken
  aq_acquisition_id :: uuid
  aq_lease_fence :: u64
  aq_worker_id :: string
  aq_acquired_at :: i64
  aq_lease_until :: i64
  aq_dispatch_deadline :: i64
  aq_control_submission_id :: "uuid option"

record DispatchCredentialBinding =
  bi_binding_version :: int
  bi_key :: ConsumeKey
  bi_claim_id :: uuid
  bi_fence :: u64
  bi_state_instance_id :: uuid
  bi_acquisition_id :: "uuid option"
  bi_acquisition_lease_fence :: "u64 option"
  bi_acquisition_worker_id :: "string option"
  bi_acquisition_acquired_at :: "i64 option"
  bi_acquisition_lease_until :: "i64 option"
  bi_dispatch_deadline :: "i64 option"
  bi_control_submission_id :: "uuid option"
  bi_credential_review_id :: "uuid option"
  bi_credential_review_commitment :: "digest32 option"
  bi_token_digest :: digest32
  bi_service_account_uid :: string
  bi_credential_id :: string
  bi_not_before :: i64
  bi_expires_at :: i64
  bi_commitment :: digest32

record ClaimedDispatch =
  cd_snapshot :: DispatchSnapshot
  cd_token :: DispatchClaimToken

record DispatchAttemptAcquisition =
  aa_acquisition_id :: uuid
  aa_lease_fence :: u64
  aa_worker_id :: string
  aa_acquired_at :: i64
  aa_lease_until :: i64
  aa_dispatch_deadline :: i64
  aa_control_submission_id :: "uuid option"
  aa_credential_review_id :: "uuid option"
  aa_credential_lifecycle_policy :: "EksCredentialLifecyclePolicy option"
  aa_destination_activation_commitment :: "digest32 option"

record AttemptInFlight =
  af_snapshot :: DispatchSnapshot
  af_token :: DispatchClaimToken
  af_started_at :: i64
  af_acquisition :: DispatchAttemptAcquisition

section \<open>Credential bindings\<close>

definition credential_invalid ::
    "externals \<Rightarrow> digest32 \<Rightarrow> string \<Rightarrow> string \<Rightarrow> i64 \<Rightarrow> i64 \<Rightarrow> bool" where
  "credential_invalid X token_digest service_account_uid credential_id not_before expires_at \<longleftrightarrow>
     token_digest = 0 \<or> \<not> valid_physical_identity_component service_account_uid 512
     \<or> \<not> valid_kubernetes_credential_id X credential_id \<or> not_before < 0 \<or> expires_at \<le> not_before"

definition binding_new ::
    "externals \<Rightarrow> DispatchClaimToken \<Rightarrow> digest32 \<Rightarrow> string \<Rightarrow> string \<Rightarrow> i64 \<Rightarrow> i64
     \<Rightarrow> (DispatchCredentialBinding, StateError) result" where
  "binding_new X token token_digest service_account_uid credential_id not_before expires_at =
     and_then (ensure (\<not> credential_invalid X token_digest service_account_uid credential_id
         not_before expires_at)
       (InvalidRecord ''dispatch credential identity or lifetime is invalid'')) (\<lambda>_.
     and_then (frame_text (sc_tenant (ck_scope (tk_key token)))) (\<lambda>tenant.
     and_then (frame_text (sc_environment (ck_scope (tk_key token)))) (\<lambda>environment.
     and_then (frame_text service_account_uid) (\<lambda>account.
     and_then (frame_text credential_id) (\<lambda>credential.
     let bytes = str_bytes ''accordlock:v1:dispatch-credential-binding'' @ [0] @ tenant @ environment
           @ uuid_bytes (ck_transaction_id (tk_key token))
           @ uuid_bytes (ck_authorization_id (tk_key token))
           @ uuid_bytes (tk_claim_id token) @ be_bytes 8 (unat (tk_fence token))
           @ uuid_bytes (tk_state_instance_id token) @ digest_bytes token_digest
           @ account @ credential @ i64_be_bytes not_before @ i64_be_bytes expires_at
     in Ok \<lparr>bi_binding_version = 1, bi_key = tk_key token, bi_claim_id = tk_claim_id token,
          bi_fence = tk_fence token, bi_state_instance_id = tk_state_instance_id token,
          bi_acquisition_id = None, bi_acquisition_lease_fence = None,
          bi_acquisition_worker_id = None, bi_acquisition_acquired_at = None,
          bi_acquisition_lease_until = None, bi_dispatch_deadline = None,
          bi_control_submission_id = None, bi_credential_review_id = None,
          bi_credential_review_commitment = None, bi_token_digest = token_digest,
          bi_service_account_uid = service_account_uid, bi_credential_id = credential_id,
          bi_not_before = not_before, bi_expires_at = expires_at,
          bi_commitment = x_sha256 X bytes\<rparr>)))))"

definition bind_authenticated_credential ::
    "externals \<Rightarrow> DispatchClaimToken \<Rightarrow> digest32 \<Rightarrow> string \<Rightarrow> string \<Rightarrow> i64 \<Rightarrow> i64
     \<Rightarrow> (DispatchCredentialBinding, StateError) result" where
  "bind_authenticated_credential = binding_new"

definition acquisition_material ::
    "DispatchAcquisitionAuthority \<Rightarrow> digest32 \<Rightarrow> string \<Rightarrow> string \<Rightarrow> i64 \<Rightarrow> i64
     \<Rightarrow> (bytes, StateError) result" where
  "acquisition_material authority token_digest service_account_uid credential_id not_before expires_at =
     (let token = aq_claim authority; physical = tk_physical_resource token in
     and_then (frame_text (sc_tenant (ck_scope (tk_key token)))) (\<lambda>tenant.
     and_then (frame_text (sc_environment (ck_scope (tk_key token)))) (\<lambda>environment.
     and_then (frame_text (tk_worker_id token)) (\<lambda>worker.
     and_then (frame_text (pk_cluster_identity physical)) (\<lambda>cluster.
     and_then (frame_text (pk_namespace physical)) (\<lambda>namespace.
     and_then (frame_text (pk_deployment_uid physical)) (\<lambda>deployment.
     and_then (frame_text (aq_worker_id authority)) (\<lambda>acquirer.
     and_then (frame_text service_account_uid) (\<lambda>account.
     and_then (frame_text credential_id) (\<lambda>credential.
     Ok (str_bytes ''accordlock:v2:dispatch-credential-binding'' @ [0] @ tenant @ environment
       @ uuid_bytes (ck_transaction_id (tk_key token)) @ uuid_bytes (ck_authorization_id (tk_key token))
       @ uuid_bytes (tk_claim_id token) @ worker @ be_bytes 8 (unat (tk_fence token))
       @ i64_be_bytes (tk_claimed_at token) @ i64_be_bytes (tk_lease_until token)
       @ uuid_bytes (tk_state_instance_id token) @ cluster @ namespace @ deployment
       @ uuid_bytes (aq_acquisition_id authority) @ be_bytes 8 (unat (aq_lease_fence authority))
       @ acquirer @ i64_be_bytes (aq_acquired_at authority) @ i64_be_bytes (aq_lease_until authority)
       @ i64_be_bytes (aq_dispatch_deadline authority)
       @ (case aq_control_submission_id authority of
            Some submission_id \<Rightarrow> 1 # uuid_bytes submission_id
          | None \<Rightarrow> [0])
       @ digest_bytes token_digest @ account @ credential
       @ i64_be_bytes not_before @ i64_be_bytes expires_at)))))))))))"

definition new_for_acquisition ::
    "externals \<Rightarrow> DispatchAcquisitionAuthority \<Rightarrow> digest32 \<Rightarrow> string \<Rightarrow> string \<Rightarrow> i64 \<Rightarrow> i64
     \<Rightarrow> (DispatchCredentialBinding, StateError) result" where
  "new_for_acquisition X authority token_digest service_account_uid credential_id not_before expires_at =
     (let token = aq_claim authority in
     and_then (ensure (\<not> (credential_invalid X token_digest service_account_uid credential_id
           not_before expires_at
         \<or> is_nil (aq_acquisition_id authority) \<or> aq_lease_fence authority = 0
         \<or> aq_worker_id authority = [] \<or> aq_acquired_at authority < 0
         \<or> aq_lease_until authority \<le> aq_acquired_at authority
         \<or> aq_dispatch_deadline authority < aq_lease_until authority))
       (InvalidRecord ''dispatch acquisition credential identity or lifetime is invalid'')) (\<lambda>_.
     and_then (acquisition_material authority token_digest service_account_uid credential_id
         not_before expires_at) (\<lambda>bytes.
     Ok \<lparr>bi_binding_version = 2, bi_key = tk_key token, bi_claim_id = tk_claim_id token,
         bi_fence = tk_fence token, bi_state_instance_id = tk_state_instance_id token,
         bi_acquisition_id = Some (aq_acquisition_id authority),
         bi_acquisition_lease_fence = Some (aq_lease_fence authority),
         bi_acquisition_worker_id = Some (aq_worker_id authority),
         bi_acquisition_acquired_at = Some (aq_acquired_at authority),
         bi_acquisition_lease_until = Some (aq_lease_until authority),
         bi_dispatch_deadline = Some (aq_dispatch_deadline authority),
         bi_control_submission_id = aq_control_submission_id authority,
         bi_credential_review_id = None, bi_credential_review_commitment = None,
         bi_token_digest = token_digest, bi_service_account_uid = service_account_uid,
         bi_credential_id = credential_id, bi_not_before = not_before, bi_expires_at = expires_at,
         bi_commitment = x_sha256 X bytes\<rparr>)))"

definition matches_token :: "DispatchCredentialBinding \<Rightarrow> DispatchClaimToken \<Rightarrow> bool" where
  "matches_token b token \<longleftrightarrow> bi_key b = tk_key token \<and> bi_claim_id b = tk_claim_id token
     \<and> bi_fence b = tk_fence token \<and> bi_state_instance_id b = tk_state_instance_id token"

definition matches_acquisition :: "DispatchCredentialBinding \<Rightarrow> DispatchAcquisitionAuthority \<Rightarrow> bool" where
  "matches_acquisition b authority \<longleftrightarrow>
     bi_binding_version b = 2 \<and> matches_token b (aq_claim authority)
     \<and> bi_acquisition_id b = Some (aq_acquisition_id authority)
     \<and> bi_acquisition_lease_fence b = Some (aq_lease_fence authority)
     \<and> bi_acquisition_worker_id b = Some (aq_worker_id authority)
     \<and> bi_acquisition_acquired_at b = Some (aq_acquired_at authority)
     \<and> bi_acquisition_lease_until b = Some (aq_lease_until authority)
     \<and> bi_dispatch_deadline b = Some (aq_dispatch_deadline authority)
     \<and> bi_control_submission_id b = aq_control_submission_id authority"

definition matches_review ::
    "DispatchCredentialBinding \<Rightarrow> DispatchAcquisitionAuthority \<Rightarrow> uuid \<Rightarrow> digest32 \<Rightarrow> bool" where
  "matches_review b authority review_id review_commitment \<longleftrightarrow>
     matches_acquisition b authority \<and> bi_credential_review_id b = Some review_id
     \<and> bi_credential_review_commitment b = Some review_commitment"

definition into_v2 ::
    "externals \<Rightarrow> DispatchCredentialBinding \<Rightarrow> DispatchAcquisitionAuthority
     \<Rightarrow> (DispatchCredentialBinding, StateError) result" where
  "into_v2 X b authority =
     and_then (ensure (matches_token b (aq_claim authority)) DispatchAcquisitionMismatch) (\<lambda>_.
     new_for_acquisition X authority (bi_token_digest b) (bi_service_account_uid b)
       (bi_credential_id b) (bi_not_before b) (bi_expires_at b))"

definition attempt_acquisition :: "DispatchAcquisitionAuthority \<Rightarrow> DispatchAttemptAcquisition" where
  "attempt_acquisition authority =
     \<lparr>aa_acquisition_id = aq_acquisition_id authority, aa_lease_fence = aq_lease_fence authority,
      aa_worker_id = aq_worker_id authority, aa_acquired_at = aq_acquired_at authority,
      aa_lease_until = aq_lease_until authority, aa_dispatch_deadline = aq_dispatch_deadline authority,
      aa_control_submission_id = aq_control_submission_id authority, aa_credential_review_id = None,
      aa_credential_lifecycle_policy = None, aa_destination_activation_commitment = None\<rparr>"

definition attempt_in_flight_new ::
    "DispatchSnapshot \<Rightarrow> DispatchAcquisitionAuthority \<Rightarrow> i64 \<Rightarrow> AttemptInFlight" where
  "attempt_in_flight_new snapshot authority started_at =
     \<lparr>af_snapshot = snapshot, af_token = aq_claim authority, af_started_at = started_at,
      af_acquisition = attempt_acquisition authority\<rparr>"

lemma into_v2_matches:
  "into_v2 X b authority = Ok c \<Longrightarrow> matches_acquisition c authority"
  by (auto simp: into_v2_def new_for_acquisition_def matches_acquisition_def matches_token_def
      result_simps Let_def)

end
