(* ===== verification/State_Control.thy ===== *)
theory State_Control
  imports State_Acquisition
begin

text \<open>
  The control-plane records of \<^verbatim>\<open>accordlock-state/src/control.rs\<close> that the store keeps for a
  submission: its stored intake, its work queue and claims, its status history and the receipts
  of finished phases.
\<close>

datatype ControlStatusCode =
    Accepted | Authorized | ControlDenied | ManualResolutionRequired | AuthorizationIssued
  | DispatchPending | FailedClosed

datatype ControlWorkerRole = Evaluator | Issuer | Consumer

datatype ControlDecisionReason =
    ControlAllow | DecisionIngressExpired | DecisionAuthorityChanged | KernelDeny
  | DecisionGrantUnavailable | GrantAmbiguous

datatype ControlWorkFinalizationReason =
    FinalIngressExpired | FinalAuthorityChanged | FinalGrantUnavailable | FinalAuthorizationExpired
  | DispatchWindowExpired

datatype ControlStatusReason =
    Decision ControlDecisionReason
  | Finalization ControlWorkFinalizationReason

record ControlStatusSnapshot =
  sn_submission_id :: uuid
  sn_receipt_id :: uuid
  sn_status :: ControlStatusCode
  sn_reason :: "ControlStatusReason option"
  sn_revision :: u64
  sn_observed_at :: i64

record ControlWorkFinalizationReceipt =
  fr_submission_id :: uuid
  fr_phase :: ControlWorkPhase
  fr_reason :: ControlWorkFinalizationReason
  fr_finalized_at :: i64

record ControlPhaseCompletionReceipt =
  pc_submission_id :: uuid
  pc_claim_id :: uuid
  pc_fence :: u64
  pc_worker_id :: string
  pc_phase :: ControlWorkPhase
  pc_completed_at :: i64
  pc_decision_id :: uuid
  pc_consume_key :: "ConsumeKey option"

record StoredControlSubmission =
  ss_state_instance_id :: uuid
  ss_submission_id :: uuid
  ss_receipt_id :: uuid
  ss_evaluation_nonce :: uuid
  ss_replay_scope :: string
  ss_key_id :: string
  ss_nonce :: uuid
  ss_canonical_payload_commitment :: digest32
  ss_first_wire_commitment :: digest32
  ss_first_wire_json :: bytes
  ss_canonical_claims :: bytes
  ss_cose_sign1 :: bytes
  ss_proposal :: AgentProposal
  ss_proposal_commitment :: digest32
  ss_tenant :: string
  ss_environment :: string
  ss_actor :: string
  ss_audience :: string
  ss_ingress_issued_at :: i64
  ss_ingress_expires_at :: i64
  ss_accepted_at :: i64
  ss_key_public_key :: digest32
  ss_key_not_before :: i64
  ss_key_expires_at :: i64
  ss_maximum_lifetime_seconds :: i64
  ss_ingress_authority_domain :: AuthorityDomainState

definition submission_scope :: "StoredControlSubmission \<Rightarrow> Scope" where
  "submission_scope s = \<lparr>sc_tenant = ss_tenant s, sc_environment = ss_environment s\<rparr>"

record MemoryControlQueue =
  mq_phase :: ControlWorkPhase
  mq_active_claim_id :: "uuid option"

record MemoryControlClaim =
  cm_submission_id :: uuid
  cm_phase :: ControlWorkPhase
  cm_worker_id :: string
  cm_role :: ControlWorkerRole
  cm_claim_id :: uuid
  cm_fence :: u64
  cm_claimed_at :: i64
  cm_lease_until :: i64
  cm_completed :: bool
  cm_completed_at :: "i64 option"
  cm_finalized_decision :: "uuid option"
  cm_finalized_work :: "ControlWorkFinalizationReceipt option"

end
