(* ===== verification/State_Store.thy ===== *)
theory State_Store
  imports State_Control "HOL-Library.DAList"
begin

text \<open>
  The in-memory store of \<^verbatim>\<open>accordlock-state/src/memory.rs\<close>: authority activation, grants,
  issued authorizations, consumption, recovery, dispatch snapshots, claims and provider
  attempts. One mutex serialises the operations, so each is a function from the state to a
  result and the state after it; the trusted clock sample, or the clock's failure, is an
  argument. Hash maps are partial functions, or association lists where the code walks over
  all entries.
\<close>

section \<open>State\<close>

datatype MemoryDispatchClaimState =
  Claimed | AttemptInFlightState | RecoveryNoSend | RecoveryRetired | Disposed | Terminal

record MemoryDispatchClaim =
  mc_token :: DispatchClaimToken
  mc_state :: MemoryDispatchClaimState
  mc_attempt_started_at :: "i64 option"
  mc_attempt_acquisition :: "DispatchAttemptAcquisition option"
  mc_credential :: "DispatchCredentialBinding option"
  mc_credential_review_id :: "uuid option"
  mc_recovery_safe_after :: "i64 option"
  mc_recovery_retired_at :: "i64 option"
  mc_terminalization_id :: "uuid option"

datatype MemoryDispatchAcquisitionKind = ControlQueue | ControlBootstrapV13 | LegacyBootstrap

record MemoryDispatchAcquisition =
  ma_token :: DispatchClaimToken
  ma_acquisition_id :: uuid
  ma_lease_fence :: u64
  ma_worker_id :: string
  ma_acquired_at :: i64
  ma_lease_until :: i64
  ma_dispatch_deadline :: i64
  ma_control_submission_id :: "uuid option"
  ma_selection_kind :: MemoryDispatchAcquisitionKind

type_synonym authorization_key = "Scope \<times> uuid"

datatype IngressReplayScope = IngressReplayScope string

type_synonym replay_key = "IngressReplayScope \<times> string \<times> uuid"

text \<open>The fields of the state that these operations read or write. Of the dispositions only the
  identifiers matter here.\<close>

record MemoryState =
  ms_authorities :: "Scope \<Rightarrow> AuthorityVector option"
  ms_high_water :: "Scope \<Rightarrow> i64 option"
  ms_grants :: "(authorization_key \<times> GrantSnapshot) list"
  ms_authorizations :: "authorization_key \<Rightarrow> IssuedAuthorizationRecord option"
  ms_transactions :: "authorization_key \<Rightarrow> uuid option"
  ms_receipts :: "authorization_key \<Rightarrow> ConsumptionReceipt option"
  ms_outbox :: "authorization_key \<Rightarrow> OutboxEntry option"
  ms_dispatch_claims :: "authorization_key \<Rightarrow> MemoryDispatchClaim option"
  ms_dispatch_claim_ids :: "uuid \<Rightarrow> authorization_key option"
  ms_dispatch_acquisitions :: "uuid \<Rightarrow> MemoryDispatchAcquisition option"
  ms_latest_dispatch_acquisition :: "authorization_key \<Rightarrow> uuid option"
  ms_dispatch_dispositions :: "uuid set"
  ms_physical_reservations :: "PhysicalResourceKey \<Rightarrow> authorization_key option"
  ms_ingress_replay_high_water :: "IngressReplayScope \<Rightarrow> i64 option"
  ms_ingress_replay_nonces :: "(replay_key, i64) alist"
  ms_ingress_replay_v13_nonces :: "replay_key set"
  ms_control_submissions :: "uuid \<Rightarrow> StoredControlSubmission option"
  ms_control_by_request :: "authorization_key \<Rightarrow> uuid option"
  ms_control_by_evaluation_nonce :: "uuid \<Rightarrow> uuid option"
  ms_control_statuses :: "uuid \<Rightarrow> ControlStatusSnapshot option"
  ms_control_events :: "uuid \<Rightarrow> ControlStatusSnapshot list option"
  ms_control_queue :: "uuid \<Rightarrow> MemoryControlQueue option"
  ms_control_claims :: "(uuid \<times> MemoryControlClaim) list"
  ms_control_issuances :: "(uuid \<times> IssuedAuthorizationRecord) list"
  ms_control_consumptions :: "uuid \<Rightarrow> ConsumeSuccess option"
  ms_next_dispatch_fence :: u64
  ms_next_dispatch_acquisition_fence :: u64

definition memory_default :: MemoryState where
  "memory_default =
     \<lparr>ms_authorities = Map.empty, ms_high_water = Map.empty, ms_grants = [],
      ms_authorizations = Map.empty, ms_transactions = Map.empty, ms_receipts = Map.empty,
      ms_outbox = Map.empty, ms_dispatch_claims = Map.empty, ms_dispatch_claim_ids = Map.empty,
      ms_dispatch_acquisitions = Map.empty, ms_latest_dispatch_acquisition = Map.empty,
      ms_dispatch_dispositions = {}, ms_physical_reservations = Map.empty,
      ms_ingress_replay_high_water = Map.empty, ms_ingress_replay_nonces = DAList.empty,
      ms_ingress_replay_v13_nonces = {}, ms_control_submissions = Map.empty,
      ms_control_by_request = Map.empty, ms_control_by_evaluation_nonce = Map.empty,
      ms_control_statuses = Map.empty, ms_control_events = Map.empty, ms_control_queue = Map.empty,
      ms_control_claims = [], ms_control_issuances = [], ms_control_consumptions = Map.empty,
      ms_next_dispatch_fence = 0, ms_next_dispatch_acquisition_fence = 0\<rparr>"

type_synonym 'a state_result = "('a, StateError) result"
type_synonym 'a store_effect = "'a state_result \<times> MemoryState"

text \<open>\<open>r?\<close> in a method that has not changed the state, or has changed it to \<open>st\<close>.\<close>

definition try_q :: "'a state_result \<Rightarrow> MemoryState \<Rightarrow> ('a \<Rightarrow> 'b store_effect) \<Rightarrow> 'b store_effect" where
  "try_q r st f = (case r of Ok x \<Rightarrow> f x | Err e \<Rightarrow> (Err e, st))"

definition set_high_water :: "Scope \<Rightarrow> i64 \<Rightarrow> MemoryState \<Rightarrow> MemoryState" where
  "set_high_water scope t st = st\<lparr>ms_high_water := (ms_high_water st)(scope \<mapsto> t)\<rparr>"

definition check_high_water :: "MemoryState \<Rightarrow> Scope \<Rightarrow> i64 \<Rightarrow> unit state_result" where
  "check_high_water st scope t =
     (case ms_high_water st scope of
        None \<Rightarrow> Ok ()
      | Some h \<Rightarrow> ensure (\<not> t < h) (ClockRollback t h))"

text \<open>The recurring match: a temporal rejection of this sample advances the high-water mark before
  it is returned, any other error leaves the state alone.\<close>

definition or_observe ::
    "'a state_result \<Rightarrow> Scope \<Rightarrow> i64 \<Rightarrow> MemoryState \<Rightarrow> ('a \<Rightarrow> 'b store_effect) \<Rightarrow> 'b store_effect" where
  "or_observe r scope t st f =
     (case r of
        Ok x \<Rightarrow> f x
      | Err e \<Rightarrow> (Err e,
          if is_temporal_rejection_for_sample e t then set_high_water scope t st else st))"

section \<open>Authority\<close>

definition compare_and_activate_authority ::
    "Scope \<Rightarrow> AuthorityVector option \<Rightarrow> AuthorityVector \<Rightarrow> MemoryState \<Rightarrow> unit store_effect" where
  "compare_and_activate_authority scope expected next st =
     try_q (scope_validate scope) st (\<lambda>_.
     try_q (state_validate_authority_vector next) st (\<lambda>_.
     let activated = st\<lparr>ms_authorities := (ms_authorities st)(scope \<mapsto> next)\<rparr> in
     case (ms_authorities st scope, expected) of
       (None, None) \<Rightarrow> (Ok (), activated)
     | (Some current, Some e) \<Rightarrow>
         if current = e
         then try_q (ensure_monotone_authority current next) st (\<lambda>_. (Ok (), activated))
         else (Err AuthorityCompareFailed, st)
     | _ \<Rightarrow> (Err AuthorityCompareFailed, st)))"

definition active_authority :: "Scope \<Rightarrow> MemoryState \<Rightarrow> AuthorityVector state_result" where
  "active_authority scope st =
     and_then (scope_validate scope) (\<lambda>_. ok_or (ms_authorities st scope) AuthorityNotInitialized)"

section \<open>Grants\<close>

definition register_grant ::
    "externals \<Rightarrow> GrantRegistration \<Rightarrow> i64 state_result \<Rightarrow> MemoryState \<Rightarrow> unit store_effect" where
  "register_grant X grant clock st =
     try_q (registration_validate X grant) st (\<lambda>_.
     let scope = registration_scope grant; key = (scope, cg_grant_id (gr_grant grant)) in
     try_q (ok_or (ms_authorities st scope) AuthorityNotInitialized) st (\<lambda>active.
     try_q (ensure (\<not> list_ex (\<lambda>((s, _), _). s = scope) (ms_grants st)) GrantAlreadyExists) st (\<lambda>_.
     try_q clock st (\<lambda>observed_time.
     try_q (check_high_water st scope observed_time) st (\<lambda>_.
     let snapshot = \<lparr>gs_registration = grant, gs_uses = 0, gs_revoked = False\<rparr> in
     or_observe (validate_current_grant X active snapshot observed_time) scope observed_time st (\<lambda>_.
     (Ok (), (set_high_water scope observed_time st)
        \<lparr>ms_grants := AList.update key snapshot (ms_grants st)\<rparr>)))))))"

definition grant_snapshot :: "Scope \<Rightarrow> uuid \<Rightarrow> MemoryState \<Rightarrow> GrantSnapshot state_result" where
  "grant_snapshot scope grant_id st =
     and_then (scope_validate scope) (\<lambda>_.
     ok_or (map_of (ms_grants st) (scope, grant_id)) GrantNotFound)"

definition issuance_snapshot ::
    "externals \<Rightarrow> Scope \<Rightarrow> uuid \<Rightarrow> i64 state_result \<Rightarrow> MemoryState \<Rightarrow> IssuanceSnapshot store_effect" where
  "issuance_snapshot X scope grant_id clock st =
     try_q (scope_validate scope) st (\<lambda>_.
     try_q (ok_or (ms_authorities st scope) AuthorityNotInitialized) st (\<lambda>active.
     try_q (ok_or (map_of (ms_grants st) (scope, grant_id)) GrantNotFound) st (\<lambda>grant.
     try_q clock st (\<lambda>observed_time.
     try_q (check_high_water st scope observed_time) st (\<lambda>_.
     or_observe (validate_current_grant X active grant observed_time) scope observed_time st (\<lambda>_.
     (Ok \<lparr>is_scope = scope, is_registration = gs_registration grant, is_issued_at = observed_time\<rparr>,
      set_high_water scope observed_time st)))))))"

definition revoke_grant ::
    "externals \<Rightarrow> Scope \<Rightarrow> uuid \<Rightarrow> AuthorityVector \<Rightarrow> AuthorityVector \<Rightarrow> MemoryState \<Rightarrow> unit store_effect" where
  "revoke_grant X scope grant_id expected_authority next_authority st =
     try_q (scope_validate scope) st (\<lambda>_.
     try_q (ok_or (ms_authorities st scope) AuthorityNotInitialized) st (\<lambda>active.
     try_q (ensure (active = expected_authority) AuthorityCompareFailed) st (\<lambda>_.
     try_q (validate_revocation_transition X grant_id expected_authority next_authority) st (\<lambda>_.
     try_q (ok_or (map_of (ms_grants st) (scope, grant_id)) GrantNotFound) st (\<lambda>grant.
     (Ok (), st\<lparr>ms_grants := AList.update (scope, grant_id) (grant\<lparr>gs_revoked := True\<rparr>) (ms_grants st),
        ms_authorities := (ms_authorities st)(scope \<mapsto> next_authority)\<rparr>))))))"

section \<open>Control ownership\<close>

text \<open>The gate between the stores of the control plane and the legacy paths. A consumption that the
  control plane owns must have its control link, its queue, its status history and one completed
  claim; the receipt of that claim comes from \<open>memory_control_phase_completed\<close>, which audits the
  signed intake, decision and issuance behind it and only reads the control-plane tables. Its
  answer is the argument \<open>phase_completed\<close>, and every property holds whatever it answers.\<close>

type_synonym control_lineage =
  "MemoryState \<Rightarrow> MemoryControlClaim \<Rightarrow> ControlPhaseCompletionReceipt state_result"

fun agree_owner :: "uuid option \<Rightarrow> uuid list \<Rightarrow> uuid option state_result" where
  "agree_owner owner [] = Ok owner"
| "agree_owner owner (candidate # rest) =
     (if owner \<noteq> None \<and> owner \<noteq> Some candidate
      then Err (InvalidRecord ''control authorization ownership indexes disagree'')
      else agree_owner (Some candidate) rest)"

definition memory_control_owner_for_authorization ::
    "MemoryState \<Rightarrow> IssuedAuthorizationRecord \<Rightarrow> uuid option state_result" where
  "memory_control_owner_for_authorization st issued =
     (let scope = issued_scope issued; authorization = ir_authorization issued;
          request_owner = ms_control_by_request st (scope, xa_request_id authorization);
          evaluation_owner = ms_control_by_evaluation_nonce st (xa_evaluation_nonce authorization);
          issuance_owners = map fst (filter (\<lambda>(_, stored). stored = issued) (ms_control_issuances st)) in
     and_then (ensure (\<not> 1 < length issuance_owners)
       (InvalidRecord ''authorization is linked to multiple control submissions'')) (\<lambda>_.
     and_then (agree_owner None (List.map_filter id
         [request_owner, evaluation_owner,
          (case issuance_owners of [] \<Rightarrow> None | i # _ \<Rightarrow> Some i)])) (\<lambda>owner.
     case owner of
       None \<Rightarrow> Ok None
     | Some submission_id \<Rightarrow>
         and_then (ok_or (ms_control_submissions st submission_id)
           (InvalidRecord ''control-owned authorization lacks its immutable submission'')) (\<lambda>submission.
         and_then (ensure (\<not> (submission_scope submission \<noteq> scope
             \<or> ap_request_id (ss_proposal submission) \<noteq> xa_request_id authorization
             \<or> ss_evaluation_nonce submission \<noteq> xa_evaluation_nonce authorization
             \<or> map_of (ms_control_issuances st) submission_id \<noteq> Some issued))
           (InvalidRecord ''control-owned authorization has incomplete ISSUE lineage'')) (\<lambda>_.
         Ok (Some submission_id))))))"

definition completed_consume_claim :: "uuid \<Rightarrow> MemoryControlClaim \<Rightarrow> bool" where
  "completed_consume_claim submission_id c \<longleftrightarrow>
     cm_submission_id c = submission_id \<and> cm_phase c = PhaseConsume \<and> cm_completed c
     \<and> cm_finalized_work c = None \<and> cm_finalized_decision c = None"

definition validate_memory_control_consumption_lineage_if_owned ::
    "control_lineage \<Rightarrow> externals \<Rightarrow> MemoryState \<Rightarrow> ConsumeKey \<Rightarrow> IssuedAuthorizationRecord
     \<Rightarrow> ConsumptionReceipt \<Rightarrow> OutboxEntry \<Rightarrow> unit state_result" where
  "validate_memory_control_consumption_lineage_if_owned phase_completed X st key issued receipt outbox =
     and_then (memory_control_owner_for_authorization st issued) (\<lambda>owner.
     case owner of
       None \<Rightarrow> Ok ()
     | Some submission_id \<Rightarrow>
         and_then (validate_recovered_consumption X key issued receipt outbox) (\<lambda>success.
         and_then (ensure (ms_control_consumptions st submission_id = Some success)
           (InvalidRecord ''control-owned consumption lacks its atomic control link'')) (\<lambda>_.
         and_then (ok_or (ms_control_queue st submission_id) ControlWorkNotFound) (\<lambda>queue.
         and_then (ensure (\<not> (mq_phase queue \<noteq> PhaseDone \<or> mq_active_claim_id queue \<noteq> None))
           (InvalidRecord ''control-owned consumption is not terminal in its work queue'')) (\<lambda>_.
         and_then (ok_or (ms_control_submissions st submission_id) ControlSubmissionMismatch) (\<lambda>submission.
         and_then (ok_or (ms_control_statuses st submission_id) ControlStatusNotFound) (\<lambda>status.
         and_then (ensure (\<not> (sn_receipt_id status \<noteq> ss_receipt_id submission
             \<or> sn_status status \<noteq> DispatchPending
             \<or> (case ms_control_events st submission_id of
                  None \<Rightarrow> True | Some [] \<Rightarrow> True | Some events \<Rightarrow> last events \<noteq> status)))
           (InvalidRecord ''control-owned consumption status lineage is incomplete'')) (\<lambda>_.
         case filter (completed_consume_claim submission_id) (map snd (ms_control_claims st)) of
           [] \<Rightarrow> Err (InvalidRecord ''control-owned consumption lacks its completed CONSUME claim'')
         | [claim] \<Rightarrow>
             and_then (phase_completed st claim) (\<lambda>completion.
             ensure (\<not> (pc_consume_key completion \<noteq> Some key
                 \<or> pc_completed_at completion \<noteq> cr_consumed_at receipt))
               (InvalidRecord
                 ''control-owned consumption completion does not match its durable tuple''))
         | _ \<Rightarrow> Err (InvalidRecord
             ''control-owned consumption has multiple completed CONSUME claims'')))))))))"

section \<open>Issuance and consumption\<close>

definition record_issued_authorization ::
    "externals \<Rightarrow> IssuedAuthorizationRecord \<Rightarrow> i64 state_result \<Rightarrow> MemoryState \<Rightarrow> unit store_effect" where
  "record_issued_authorization X stored clock st =
     try_q (issued_validate X stored) st (\<lambda>_.
     let scope = issued_scope stored; a = ir_authorization stored in
     try_q (scope_validate scope) st (\<lambda>_.
     try_q (ensure (\<not> (ms_control_by_request st (scope, xa_request_id a) \<noteq> None
         \<or> ms_control_by_evaluation_nonce st (xa_evaluation_nonce a) \<noteq> None)) ControlWorkMismatch) st (\<lambda>_.
     try_q (ok_or (ms_authorities st scope) AuthorityNotInitialized) st (\<lambda>active.
     try_q (ensure (active = xa_authority a) AuthorityMismatch) st (\<lambda>_.
     try_q (ok_or (map_of (ms_grants st) (scope, xa_grant_id a)) GrantNotFound) st (\<lambda>grant.
     try_q (validate_grant_for_authorization (gs_registration grant) a) st (\<lambda>_.
     try_q (ensure (\<not> (ms_authorizations st (scope, xa_authorization_id a) \<noteq> None
         \<or> ms_transactions st (scope, ir_transaction_id stored) \<noteq> None)) AuthorizationAlreadyExists) st (\<lambda>_.
     try_q clock st (\<lambda>observed_time.
     try_q (check_high_water st scope observed_time) st (\<lambda>_.
     or_observe (validate_current_grant X active grant observed_time) scope observed_time st (\<lambda>_.
     let observed = set_high_water scope observed_time st in
     if observed_time < xa_issued_at a \<or> xa_consume_before a \<le> observed_time
     then (Err (AuthorizationExpired observed_time (xa_consume_before a)), observed)
     else (Ok (), observed
       \<lparr>ms_transactions := (ms_transactions st)((scope, ir_transaction_id stored) \<mapsto> xa_authorization_id a),
        ms_authorizations := (ms_authorizations st)((scope, xa_authorization_id a) \<mapsto> stored)\<rparr>))))))))))))"

definition receipt_for ::
    "IssuedAuthorizationRecord \<Rightarrow> AuthorityVector \<Rightarrow> i64 \<Rightarrow> i64 \<Rightarrow> ConsumptionReceipt" where
  "receipt_for issued active observed_time dispatch_deadline =
     \<lparr>cr_schema_version = xa_schema_version (ir_authorization issued),
      cr_transaction_id = ir_transaction_id issued,
      cr_authorization_id = xa_authorization_id (ir_authorization issued),
      cr_consumed_at = observed_time, cr_dispatch_deadline = dispatch_deadline,
      cr_authority = active, cr_authorization_hash = ir_authorization_hash issued\<rparr>"

definition outbox_for :: "Scope \<Rightarrow> IssuedAuthorizationRecord \<Rightarrow> ConsumptionReceipt \<Rightarrow> OutboxEntry" where
  "outbox_for scope issued receipt =
     \<lparr>ob_scope = scope, ob_transaction_id = ir_transaction_id issued,
      ob_authorization_id = xa_authorization_id (ir_authorization issued),
      ob_dispatch_deadline = cr_dispatch_deadline receipt, ob_status = PendingWitness,
      ob_receipt = receipt\<rparr>"

definition control_linked :: "MemoryState \<Rightarrow> ConsumeKey \<Rightarrow> IssuedAuthorizationRecord \<Rightarrow> bool" where
  "control_linked st key issued \<longleftrightarrow>
     ms_control_by_request st (ck_scope key, xa_request_id (ir_authorization issued)) \<noteq> None
     \<or> ms_control_by_evaluation_nonce st (xa_evaluation_nonce (ir_authorization issued)) \<noteq> None
     \<or> list_ex (\<lambda>(_, control). issued_scope control = ck_scope key
         \<and> xa_authorization_id (ir_authorization control) = ck_authorization_id key
         \<and> ir_transaction_id control = ck_transaction_id key) (ms_control_issuances st)"

definition consume :: "externals \<Rightarrow> ConsumeKey \<Rightarrow> i64 state_result \<Rightarrow> MemoryState \<Rightarrow> ConsumeSuccess store_effect" where
  "consume X key clock st =
     try_q (key_validate key) st (\<lambda>_.
     let scope = ck_scope key; authorization_key = (scope, ck_authorization_id key) in
     try_q (ok_or (ms_authorizations st authorization_key) AuthorizationNotFound) st (\<lambda>issued.
     try_q (ensure (ir_transaction_id issued = ck_transaction_id key) TransactionMismatch) st (\<lambda>_.
     try_q (ok_or (ms_transactions st (scope, ck_transaction_id key)) AuthorizationNotFound) st (\<lambda>indexed.
     try_q (ensure (indexed = ck_authorization_id key) TransactionMismatch) st (\<lambda>_.
     try_q (ensure (\<not> control_linked st key issued) ControlWorkMismatch) st (\<lambda>_.
     try_q (ensure (ms_receipts st authorization_key = None) AlreadyConsumed) st (\<lambda>_.
     try_q (ok_or (ms_authorities st scope) AuthorityNotInitialized) st (\<lambda>active.
     let grant_key = (scope, xa_grant_id (ir_authorization issued)) in
     try_q (ok_or (map_of (ms_grants st) grant_key) GrantNotFound) st (\<lambda>grant.
     try_q clock st (\<lambda>observed_time.
     or_observe (validate_consumption X active grant issued observed_time (ms_high_water st scope))
       scope observed_time st (\<lambda>dispatch_deadline.
     let receipt = receipt_for issued active observed_time dispatch_deadline;
         outbox = outbox_for scope issued receipt in
     try_q (ok_or (u32_checked_add (gs_uses grant) 1) GrantExhausted) st (\<lambda>uses.
     (Ok \<lparr>ok_receipt = receipt, ok_outbox = outbox, ok_issued = issued\<rparr>,
      (set_high_water scope observed_time st)
        \<lparr>ms_grants := AList.update grant_key (grant\<lparr>gs_uses := uses\<rparr>) (ms_grants st),
         ms_receipts := (ms_receipts st)(authorization_key \<mapsto> receipt),
         ms_outbox := (ms_outbox st)(authorization_key \<mapsto> outbox)\<rparr>)))))))))))))"

definition recover_exact ::
    "control_lineage \<Rightarrow> externals \<Rightarrow> ConsumeKey \<Rightarrow> MemoryState \<Rightarrow> ConsumeSuccess state_result" where
  "recover_exact lineage X key st =
     and_then (key_validate key) (\<lambda>_.
     let authorization_key = (ck_scope key, ck_authorization_id key) in
     and_then (ok_or (ms_authorizations st authorization_key) AuthorizationNotFound) (\<lambda>issued.
     and_then (ensure (ir_transaction_id issued = ck_transaction_id key) TransactionMismatch) (\<lambda>_.
     and_then (ok_or (ms_transactions st (ck_scope key, ck_transaction_id key)) TransactionMismatch) (\<lambda>indexed.
     and_then (ensure (indexed = ck_authorization_id key) TransactionMismatch) (\<lambda>_.
     and_then (ok_or (ms_receipts st authorization_key) ConsumptionNotFound) (\<lambda>receipt.
     and_then (ok_or (ms_outbox st authorization_key) ConsumptionNotFound) (\<lambda>outbox.
     and_then (validate_recovered_consumption X key issued receipt outbox) (\<lambda>success.
     and_then (validate_memory_control_consumption_lineage_if_owned lineage X st key issued receipt outbox)
       (\<lambda>_. Ok success)))))))))"

definition not_recoverable :: "StateError \<Rightarrow> bool" where
  "not_recoverable e \<longleftrightarrow> e = ConsumptionNotFound \<or> e = AuthorizationNotFound"

text \<open>The method takes the mutex up to three times; \<open>others1\<close> and \<open>others2\<close> are what concurrent callers
  do to the state in between.\<close>

definition consume_or_recover ::
    "control_lineage \<Rightarrow> externals \<Rightarrow> ConsumeKey \<Rightarrow> i64 state_result \<Rightarrow> (MemoryState \<Rightarrow> MemoryState)
     \<Rightarrow> (MemoryState \<Rightarrow> MemoryState) \<Rightarrow> MemoryState \<Rightarrow> ConsumeSuccess store_effect" where
  "consume_or_recover lineage X key clock others1 others2 st =
     (case recover_exact lineage X key st of
        Ok success \<Rightarrow> (Ok success, st)
      | Err error \<Rightarrow>
          if \<not> not_recoverable error then (Err error, st)
          else case consume X key clock (others1 st) of
                 (Err AlreadyConsumed, st') \<Rightarrow>
                   (case recover_exact lineage X key (others2 st') of
                      Err e \<Rightarrow>
                        if not_recoverable e
                        then (Err (InvalidRecord
                          ''consumed authorization lacks its exact receipt and outbox tuple''), others2 st')
                        else (Err e, others2 st')
                    | Ok success \<Rightarrow> (Ok success, others2 st'))
               | result \<Rightarrow> result)"

definition consumption_receipt :: "ConsumeKey \<Rightarrow> MemoryState \<Rightarrow> ConsumptionReceipt state_result" where
  "consumption_receipt key st =
     and_then (key_validate key) (\<lambda>_.
     ok_or (case ms_receipts st (ck_scope key, ck_authorization_id key) of
        Some receipt \<Rightarrow> if cr_transaction_id receipt = ck_transaction_id key then Some receipt else None
      | None \<Rightarrow> None) ConsumptionNotFound)"

definition outbox_entry :: "ConsumeKey \<Rightarrow> MemoryState \<Rightarrow> OutboxEntry state_result" where
  "outbox_entry key st =
     and_then (key_validate key) (\<lambda>_.
     ok_or (case ms_outbox st (ck_scope key, ck_authorization_id key) of
        Some entry \<Rightarrow> if ob_transaction_id entry = ck_transaction_id key then Some entry else None
      | None \<Rightarrow> None) ConsumptionNotFound)"

definition time_high_water :: "Scope \<Rightarrow> MemoryState \<Rightarrow> i64 option state_result" where
  "time_high_water scope st = and_then (scope_validate scope) (\<lambda>_. Ok (ms_high_water st scope))"

section \<open>Dispatch\<close>

definition memory_dispatch_snapshot_at_high_water ::
    "control_lineage \<Rightarrow> externals \<Rightarrow> MemoryState \<Rightarrow> ConsumeKey \<Rightarrow> i64 \<Rightarrow> i64 option
     \<Rightarrow> DispatchSnapshot state_result" where
  "memory_dispatch_snapshot_at_high_water lineage X st key observed_time high_water =
     (let scope = ck_scope key; authorization_key = (scope, ck_authorization_id key) in
     and_then (ok_or (ms_authorizations st authorization_key) AuthorizationNotFound) (\<lambda>issued.
     and_then (ensure (ir_transaction_id issued = ck_transaction_id key) TransactionMismatch) (\<lambda>_.
     and_then (ok_or (ms_transactions st (scope, ck_transaction_id key)) TransactionMismatch) (\<lambda>indexed.
     and_then (ensure (indexed = ck_authorization_id key) TransactionMismatch) (\<lambda>_.
     and_then (ok_or (ms_authorities st scope) AuthorityNotInitialized) (\<lambda>authority.
     and_then (ok_or (map_of (ms_grants st) (scope, xa_grant_id (ir_authorization issued)))
       GrantNotFound) (\<lambda>grant.
     and_then (ensure (gs_uses grant \<noteq> 0) GrantNotConsumed) (\<lambda>_.
     and_then (ok_or (ms_receipts st authorization_key) ConsumptionNotFound) (\<lambda>receipt.
     and_then (ok_or (ms_outbox st authorization_key) ConsumptionNotFound) (\<lambda>outbox.
     and_then (validate_memory_control_consumption_lineage_if_owned lineage X st key issued receipt outbox)
       (\<lambda>_.
     validate_dispatch_snapshot X key authority grant issued receipt outbox observed_time
       high_water)))))))))))"

definition memory_dispatch_snapshot ::
    "control_lineage \<Rightarrow> externals \<Rightarrow> MemoryState \<Rightarrow> ConsumeKey \<Rightarrow> i64 \<Rightarrow> DispatchSnapshot state_result" where
  "memory_dispatch_snapshot lineage X st key observed_time =
     memory_dispatch_snapshot_at_high_water lineage X st key observed_time
       (ms_high_water st (ck_scope key))"

definition memory_dispatch_snapshot_with_high_water ::
    "control_lineage \<Rightarrow> externals \<Rightarrow> MemoryState \<Rightarrow> ConsumeKey \<Rightarrow> i64 \<Rightarrow> DispatchSnapshot store_effect" where
  "memory_dispatch_snapshot_with_high_water lineage X st key observed_time =
     (let result = memory_dispatch_snapshot lineage X st key observed_time;
          observation_is_monotone = (case ms_high_water st (ck_scope key) of
            None \<Rightarrow> True | Some h \<Rightarrow> h \<le> observed_time);
          must_persist = (case result of
            Ok _ \<Rightarrow> True | Err error \<Rightarrow> is_temporal_rejection_for_sample error observed_time)
      in (result,
          if observation_is_monotone \<and> must_persist
          then set_high_water (ck_scope key) observed_time st else st))"

definition dispatch_snapshot ::
    "control_lineage \<Rightarrow> externals \<Rightarrow> ConsumeKey \<Rightarrow> i64 state_result \<Rightarrow> MemoryState
     \<Rightarrow> DispatchSnapshot store_effect" where
  "dispatch_snapshot lineage X key clock st =
     try_q (key_validate key) st (\<lambda>_.
     try_q clock st (\<lambda>observed_time.
     memory_dispatch_snapshot_with_high_water lineage X st key observed_time))"

text \<open>Continue with the snapshot in the state it left behind.\<close>

definition with_snapshot ::
    "DispatchSnapshot store_effect \<Rightarrow> (DispatchSnapshot \<Rightarrow> MemoryState \<Rightarrow> 'b store_effect) \<Rightarrow> 'b store_effect" where
  "with_snapshot r f = (case r of (Ok x, st) \<Rightarrow> f x st | (Err e, st) \<Rightarrow> (Err e, st))"

definition new_dispatch_claim :: "DispatchClaimToken \<Rightarrow> MemoryDispatchClaim" where
  "new_dispatch_claim token =
     \<lparr>mc_token = token, mc_state = Claimed, mc_attempt_started_at = None,
      mc_attempt_acquisition = None, mc_credential = None, mc_credential_review_id = None,
      mc_recovery_safe_after = None, mc_recovery_retired_at = None, mc_terminalization_id = None\<rparr>"

definition claim_dispatch ::
    "control_lineage \<Rightarrow> externals \<Rightarrow> uuid \<Rightarrow> DispatchClaimRequest \<Rightarrow> i64 state_result \<Rightarrow> MemoryState
     \<Rightarrow> ClaimedDispatch store_effect" where
  "claim_dispatch lineage X state_instance_id request clock st =
     try_q (claim_request_validate request) st (\<lambda>_.
     let key = cl_key request; claim_key = (ck_scope key, ck_authorization_id key) in
     try_q (ok_or (ms_authorizations st claim_key) AuthorizationNotFound) st (\<lambda>issued.
     try_q (memory_control_owner_for_authorization st issued) st (\<lambda>owner.
     try_q (ensure (owner = None) DispatchAcquisitionRequired) st (\<lambda>_.
     case ms_dispatch_claims st claim_key of
       Some existing \<Rightarrow>
         (Err (if tk_key (mc_token existing) = key \<and> tk_claim_id (mc_token existing) = cl_claim_id request
                 \<and> tk_worker_id (mc_token existing) = cl_worker_id request
               then DispatchClaimOutcomeUnknown else DispatchAlreadyClaimed), st)
     | None \<Rightarrow>
       try_q (ensure (ms_dispatch_claim_ids st (cl_claim_id request) = None) DispatchAlreadyClaimed) st (\<lambda>_.
       try_q (ensure (\<not> (ms_dispatch_acquisitions st (cl_claim_id request) \<noteq> None
           \<or> cl_claim_id request \<in> ms_dispatch_dispositions st)) DispatchAlreadyClaimed) st (\<lambda>_.
       try_q clock st (\<lambda>observed_time.
       with_snapshot (memory_dispatch_snapshot_with_high_water lineage X st key observed_time)
         (\<lambda>snapshot st.
       try_q (from_authorization (ir_authorization (ds_issued snapshot))) st (\<lambda>physical_resource.
       try_q (ensure (ms_physical_reservations st physical_resource = None)
         PhysicalResourceAlreadyReserved) st (\<lambda>_.
       try_q (ok_or (i64_checked_add observed_time DISPATCH_CLAIM_LEASE_SECONDS) DeadlineOverflow) st
         (\<lambda>lease_cap.
       let deadline = cr_dispatch_deadline (ds_receipt snapshot); lease_until = min lease_cap deadline in
       try_q (ensure (\<not> lease_until \<le> observed_time) (DispatchDeadlineExpired observed_time deadline)) st
         (\<lambda>_.
       try_q (ok_or (u64_checked_add (ms_next_dispatch_fence st) 1) DispatchFenceExhausted) st (\<lambda>fence.
       try_q (ok_or (u64_checked_add (ms_next_dispatch_acquisition_fence st) 1)
         DispatchAcquisitionFenceExhausted) st (\<lambda>lease_fence.
       try_q (memory_control_owner_for_authorization st (ds_issued snapshot)) st
         (\<lambda>control_submission_id.
       let token = \<lparr>tk_key = key, tk_physical_resource = physical_resource,
             tk_claim_id = cl_claim_id request, tk_worker_id = cl_worker_id request, tk_fence = fence,
             tk_claimed_at = observed_time, tk_lease_until = lease_until,
             tk_state_instance_id = state_instance_id\<rparr>;
           acquisition = \<lparr>ma_token = token, ma_acquisition_id = cl_claim_id request,
             ma_lease_fence = lease_fence, ma_worker_id = cl_worker_id request,
             ma_acquired_at = observed_time, ma_lease_until = lease_until,
             ma_dispatch_deadline = deadline, ma_control_submission_id = control_submission_id,
             ma_selection_kind = LegacyBootstrap\<rparr>
       in (Ok \<lparr>cd_snapshot = snapshot, cd_token = token\<rparr>,
         st\<lparr>ms_next_dispatch_fence := fence, ms_next_dispatch_acquisition_fence := lease_fence,
            ms_dispatch_claim_ids := (ms_dispatch_claim_ids st)(cl_claim_id request \<mapsto> claim_key),
            ms_physical_reservations := (ms_physical_reservations st)(physical_resource \<mapsto> claim_key),
            ms_dispatch_claims := (ms_dispatch_claims st)(claim_key \<mapsto> new_dispatch_claim token),
            ms_dispatch_acquisitions :=
              (ms_dispatch_acquisitions st)(cl_claim_id request \<mapsto> acquisition),
            ms_latest_dispatch_acquisition :=
              (ms_latest_dispatch_acquisition st)(claim_key \<mapsto> cl_claim_id request)\<rparr>))))))))))))))))"

definition require_memory_bootstrap_acquisition ::
    "MemoryState \<Rightarrow> DispatchClaimToken \<Rightarrow> MemoryDispatchAcquisition state_result" where
  "require_memory_bootstrap_acquisition st token =
     and_then (ok_or (ms_latest_dispatch_acquisition st
         (ck_scope (tk_key token), ck_authorization_id (tk_key token)))
       DispatchAcquisitionMismatch) (\<lambda>acquisition_id.
     and_then (ok_or (ms_dispatch_acquisitions st acquisition_id) DispatchAcquisitionMismatch) (\<lambda>acquisition.
     and_then (ensure (\<not> (ma_control_submission_id acquisition \<noteq> None
         \<or> ma_selection_kind acquisition \<noteq> LegacyBootstrap)) DispatchAcquisitionRequired) (\<lambda>_.
     and_then (ensure (\<not> (ma_token acquisition \<noteq> token \<or> acquisition_id \<noteq> tk_claim_id token))
       DispatchAcquisitionMismatch) (\<lambda>_.
     Ok acquisition))))"

definition memory_dispatch_acquisition_authority ::
    "MemoryDispatchAcquisition \<Rightarrow> DispatchAcquisitionAuthority" where
  "memory_dispatch_acquisition_authority a =
     \<lparr>aq_claim = ma_token a, aq_acquisition_id = ma_acquisition_id a,
      aq_lease_fence = ma_lease_fence a, aq_worker_id = ma_worker_id a,
      aq_acquired_at = ma_acquired_at a, aq_lease_until = ma_lease_until a,
      aq_dispatch_deadline = ma_dispatch_deadline a,
      aq_control_submission_id = ma_control_submission_id a\<rparr>"

text \<open>The opening checks that \<open>revalidate_dispatch_claim\<close> and \<open>mark_attempt_in_flight\<close> share.\<close>

definition require_live_claim ::
    "uuid \<Rightarrow> MemoryState \<Rightarrow> DispatchClaimToken \<Rightarrow> MemoryDispatchClaim state_result" where
  "require_live_claim state_instance_id st token =
     (let claim_key = (ck_scope (tk_key token), ck_authorization_id (tk_key token)) in
     and_then (ensure (tk_state_instance_id token = state_instance_id) DispatchClaimMismatch) (\<lambda>_.
     and_then (ok_or (ms_dispatch_claims st claim_key) DispatchClaimNotFound) (\<lambda>claim.
     and_then (ensure (mc_token claim = token) DispatchClaimMismatch) (\<lambda>_.
     and_then (ensure (ms_physical_reservations st (tk_physical_resource token) = Some claim_key)
       DispatchClaimMismatch) (\<lambda>_.
     and_then (ensure (mc_state claim \<noteq> AttemptInFlightState) DispatchAttemptOutcomeUnknown) (\<lambda>_.
     Ok claim))))))"

definition revalidate_dispatch_claim ::
    "control_lineage \<Rightarrow> externals \<Rightarrow> uuid \<Rightarrow> DispatchClaimToken \<Rightarrow> i64 state_result \<Rightarrow> MemoryState
     \<Rightarrow> DispatchSnapshot store_effect" where
  "revalidate_dispatch_claim lineage X state_instance_id token clock st =
     try_q (key_validate (tk_key token)) st (\<lambda>_.
     try_q (require_live_claim state_instance_id st token) st (\<lambda>_.
     try_q (require_memory_bootstrap_acquisition st token) st (\<lambda>_.
     try_q clock st (\<lambda>observed_time.
     with_snapshot (memory_dispatch_snapshot_with_high_water lineage X st (tk_key token) observed_time)
       (\<lambda>snapshot st.
     try_q (from_authorization (ir_authorization (ds_issued snapshot))) st (\<lambda>physical.
     try_q (ensure (physical = tk_physical_resource token) DispatchClaimMismatch) st (\<lambda>_.
     try_q (ensure (\<not> tk_lease_until token \<le> observed_time)
       (DispatchClaimLeaseExpired observed_time (tk_lease_until token))) st (\<lambda>_.
     (Ok snapshot, st)))))))))"

definition mark_attempt_in_flight ::
    "control_lineage \<Rightarrow> externals \<Rightarrow> uuid \<Rightarrow> DispatchClaimToken \<Rightarrow> DispatchCredentialBinding
     \<Rightarrow> i64 state_result \<Rightarrow> MemoryState \<Rightarrow> AttemptInFlight store_effect" where
  "mark_attempt_in_flight lineage X state_instance_id token credential clock st =
     try_q (key_validate (tk_key token)) st (\<lambda>_.
     try_q (ensure (matches_token credential token) DispatchClaimMismatch) st (\<lambda>_.
     try_q (require_live_claim state_instance_id st token) st (\<lambda>_.
     try_q (require_memory_bootstrap_acquisition st token) st (\<lambda>acquisition.
     let authority = memory_dispatch_acquisition_authority acquisition in
     try_q (into_v2 X credential authority) st (\<lambda>credential.
     try_q clock st (\<lambda>observed_time.
     with_snapshot (memory_dispatch_snapshot_with_high_water lineage X st (tk_key token) observed_time)
       (\<lambda>snapshot st.
     try_q (from_authorization (ir_authorization (ds_issued snapshot))) st (\<lambda>physical.
     try_q (ensure (physical = tk_physical_resource token) DispatchClaimMismatch) st (\<lambda>_.
     try_q (ensure (\<not> tk_lease_until token \<le> observed_time)
       (DispatchClaimLeaseExpired observed_time (tk_lease_until token))) st (\<lambda>_.
     try_q (ensure (\<not> (observed_time < bi_not_before credential \<or> bi_expires_at credential \<le> observed_time))
       DispatchCredentialExpired) st (\<lambda>_.
     let claim_key = (ck_scope (tk_key token), ck_authorization_id (tk_key token)) in
     try_q (ok_or (ms_dispatch_claims st claim_key) DispatchClaimNotFound) st (\<lambda>claim.
     (Ok (attempt_in_flight_new snapshot authority observed_time),
      st\<lparr>ms_dispatch_claims := (ms_dispatch_claims st)(claim_key \<mapsto>
         claim\<lparr>mc_state := AttemptInFlightState, mc_attempt_started_at := Some observed_time,
           mc_attempt_acquisition := Some (attempt_acquisition authority),
           mc_credential := Some credential\<rparr>)\<rparr>)))))))))))))"

end
