(* ===== verification/Ingress_Replay.thy ===== *)
theory Ingress_Replay
  imports State_Store
begin

text \<open>
  The replay ledger of the authenticated ingress, \<^verbatim>\<open>accordlock-state/src/ingress_replay.rs\<close> and its
  in-memory implementation: a clock mark per audience, the nonces seen with their signed expiry,
  and the bounded garbage collection of expired ones. The map of nonces is an association list with
  distinct keys, because the collection walks over its entries.
\<close>

definition MAX_INGRESS_REPLAY_SCOPE_BYTES :: nat where
  "MAX_INGRESS_REPLAY_SCOPE_BYTES = 4096"

definition MAX_INGRESS_REPLAY_GC_BATCH :: u32 where
  "MAX_INGRESS_REPLAY_GC_BATCH = 1000"

definition ingress_replay_scope_new :: "string \<Rightarrow> IngressReplayScope state_result" where
  "ingress_replay_scope_new value =
     and_then (ensure (valid_text MAX_INGRESS_REPLAY_SCOPE_BYTES value)
       (InvalidRecord ''ingress replay scope is not canonical'')) (\<lambda>_.
     Ok (IngressReplayScope value))"

record IngressNonceConsumption =
  nc_scope :: IngressReplayScope
  nc_key_id :: string
  nc_nonce :: uuid
  nc_expires_unix_s :: i64
  nc_observed_unix_s :: i64

definition ingress_nonce_consumption_new ::
    "IngressReplayScope \<Rightarrow> string \<Rightarrow> uuid \<Rightarrow> i64 \<Rightarrow> i64 \<Rightarrow> IngressNonceConsumption state_result" where
  "ingress_nonce_consumption_new scope key_id nonce expires_unix_s observed_unix_s =
     and_then (ensure (\<not> (\<not> valid_text MAX_KEY_ID_BYTES key_id \<or> is_nil nonce
         \<or> observed_unix_s < 0 \<or> expires_unix_s \<le> observed_unix_s))
       (InvalidRecord ''ingress nonce-consumption request is invalid'')) (\<lambda>_.
     Ok \<lparr>nc_scope = scope, nc_key_id = key_id, nc_nonce = nonce,
         nc_expires_unix_s = expires_unix_s, nc_observed_unix_s = observed_unix_s\<rparr>)"

datatype IngressReplayDecision = Consumed | AlreadyUsed

definition validate_observed_time :: "i64 \<Rightarrow> unit state_result" where
  "validate_observed_time t = ensure (\<not> t < 0) ClockBeforeUnixEpoch"

definition valid_gc_limit :: "u32 \<Rightarrow> bool" where
  "valid_gc_limit limit \<longleftrightarrow> 0 < limit \<and> limit \<le> MAX_INGRESS_REPLAY_GC_BATCH"

text \<open>\<open>entry(scope).or_insert(0)\<close> leaves the inserted entry behind even when the sample is refused.\<close>

definition observe_ingress_time :: "IngressReplayScope \<Rightarrow> i64 \<Rightarrow> MemoryState \<Rightarrow> unit store_effect" where
  "observe_ingress_time scope observed_unix_s st =
     try_q (validate_observed_time observed_unix_s) st (\<lambda>_.
     let high_water = (case ms_ingress_replay_high_water st scope of None \<Rightarrow> 0 | Some h \<Rightarrow> h);
         entered = st\<lparr>ms_ingress_replay_high_water :=
           (ms_ingress_replay_high_water st)(scope \<mapsto> high_water)\<rparr> in
     if observed_unix_s < high_water
     then (Err (ClockRollback observed_unix_s high_water), entered)
     else (Ok (), entered\<lparr>ms_ingress_replay_high_water :=
       (ms_ingress_replay_high_water st)(scope \<mapsto> observed_unix_s)\<rparr>))"

definition consume_ingress_nonce ::
    "IngressNonceConsumption \<Rightarrow> MemoryState \<Rightarrow> IngressReplayDecision store_effect" where
  "consume_ingress_nonce request st =
     try_q (validate_observed_time (nc_observed_unix_s request)) st (\<lambda>_.
     let prior_high_water = (case ms_ingress_replay_high_water st (nc_scope request) of
           None \<Rightarrow> 0 | Some h \<Rightarrow> h) in
     try_q (ensure (\<not> nc_observed_unix_s request < prior_high_water)
       (ClockRollback (nc_observed_unix_s request) prior_high_water)) st (\<lambda>_.
     let replay_key = (nc_scope request, nc_key_id request, nc_nonce request);
         observed = st\<lparr>ms_ingress_replay_high_water :=
           (ms_ingress_replay_high_water st)(nc_scope request \<mapsto> nc_observed_unix_s request)\<rparr> in
     if replay_key \<in> ms_ingress_replay_v13_nonces st then (Ok AlreadyUsed, observed)
     else if (case DAList.lookup (ms_ingress_replay_nonces st) replay_key of
          None \<Rightarrow> False | Some expires_unix_s \<Rightarrow> nc_observed_unix_s request < expires_unix_s)
     then (Ok AlreadyUsed, observed)
     else (Ok Consumed, observed\<lparr>ms_ingress_replay_nonces :=
       DAList.update replay_key (nc_expires_unix_s request) (ms_ingress_replay_nonces st)\<rparr>)))"

definition expired_nonces :: "IngressReplayScope \<Rightarrow> i64 \<Rightarrow> MemoryState \<Rightarrow> (i64 \<times> string \<times> uuid) list" where
  "expired_nonces scope high_water st =
     sort (List.map_filter (\<lambda>((candidate_scope, key_id, nonce), expires_unix_s).
       if candidate_scope = scope \<and> expires_unix_s \<le> high_water
         \<and> (candidate_scope, key_id, nonce) \<notin> ms_ingress_replay_v13_nonces st
       then Some (expires_unix_s, key_id, nonce) else None) (DAList.impl_of (ms_ingress_replay_nonces st)))"

text \<open>Both conversions between \<open>u32\<close> and \<open>usize\<close> succeed, because the limit is at most a thousand.\<close>

definition prune_expired_ingress_nonces ::
    "IngressReplayScope \<Rightarrow> u32 \<Rightarrow> MemoryState \<Rightarrow> u32 store_effect" where
  "prune_expired_ingress_nonces scope limit st =
     try_q (ensure (valid_gc_limit limit)
       (InvalidRecord ''ingress replay GC batch is outside the bounded profile'')) st (\<lambda>_.
     try_q (ok_or (ms_ingress_replay_high_water st scope)
       (InvalidRecord ''ingress replay scope is not initialized'')) st (\<lambda>high_water.
     let selected = take (unat limit) (expired_nonces scope high_water st) in
     (Ok (word_of_nat (length selected)),
      st\<lparr>ms_ingress_replay_nonces :=
        fold (\<lambda>(_, key_id, nonce). DAList.delete (scope, key_id, nonce)) selected
          (ms_ingress_replay_nonces st)\<rparr>)))"

section \<open>Facts\<close>

lemma lookup_delete_all:
  "DAList.lookup (fold (\<lambda>(_, key_id, nonce). DAList.delete (scope, key_id, nonce)) xs al) k =
     (if k \<in> (\<lambda>(_, i, n). (scope, i, n)) ` set xs then None else DAList.lookup al k)"
  by (induction xs arbitrary: al) auto

lemma expired_nonces_lookup:
  "(e, i, n) \<in> set (expired_nonces scope h st) \<Longrightarrow>
   DAList.lookup (ms_ingress_replay_nonces st) (scope, i, n) = Some e \<and> e \<le> h"
  by (auto simp: expired_nonces_def List.map_filter_def DAList.lookup.rep_eq
      split: if_splits intro: map_of_is_SomeI)

lemma expired_nonces_iff:
  "(e, i, n) \<in> set (expired_nonces scope h st) \<longleftrightarrow>
   DAList.lookup (ms_ingress_replay_nonces st) (scope, i, n) = Some e \<and> e \<le> h
   \<and> (scope, i, n) \<notin> ms_ingress_replay_v13_nonces st"
proof -
  have d: "distinct (map fst (DAList.impl_of (ms_ingress_replay_nonces st)))" using impl_of by auto
  have "DAList.lookup (ms_ingress_replay_nonces st) (scope, i, n) = Some e \<longleftrightarrow>
      ((scope, i, n), e) \<in> set (DAList.impl_of (ms_ingress_replay_nonces st))"
    unfolding DAList.lookup.rep_eq by (rule map_of_eq_Some_iff [OF d])
  then show ?thesis by (force simp: expired_nonces_def List.map_filter_def split: if_splits)
qed

lemma expired_nonces_distinct: "distinct (expired_nonces scope h st)"
proof -
  have d: "distinct (map fst (DAList.impl_of (ms_ingress_replay_nonces st)))" using impl_of by auto
  have "distinct (map (\<lambda>((_, i, n), e). (e, i, n))
      (filter (\<lambda>((s, i, n), e). s = scope \<and> e \<le> h \<and> (s, i, n) \<notin> ms_ingress_replay_v13_nonces st) al))"
    if "distinct (map fst al)" for al :: "(replay_key \<times> i64) list"
    using that by (induction al) (force split: if_splits)+
  moreover have "List.map_filter (\<lambda>((s, i, n), e). if s = scope \<and> e \<le> h \<and> (s, i, n) \<notin> V then Some (e, i, n) else None) al
      = map (\<lambda>((_, i, n), e). (e, i, n)) (filter (\<lambda>((s, i, n), e). s = scope \<and> e \<le> h \<and> (s, i, n) \<notin> V) al)"
    for V and al :: "(replay_key \<times> i64) list"
    by (induction al) (simp_all add: List.map_filter_simps split: prod.split)
  ultimately show ?thesis using d unfolding expired_nonces_def by simp
qed

text \<open>One collection removes the first \<open>limit\<close> expired nonces and nothing else.\<close>

lemma prune_effect:
  assumes "ms_ingress_replay_high_water st scope = Some h" "valid_gc_limit limit"
    "prune_expired_ingress_nonces scope limit st = (r, st')"
  shows "r = Ok (word_of_nat (min (length (expired_nonces scope h st)) (unat limit)))"
    "ms_ingress_replay_high_water st' = ms_ingress_replay_high_water st"
    "ms_ingress_replay_v13_nonces st' = ms_ingress_replay_v13_nonces st"
    "length (expired_nonces scope h st') = length (expired_nonces scope h st) - unat limit"
    "DAList.lookup (ms_ingress_replay_nonces st') (s, i, n) = (case DAList.lookup (ms_ingress_replay_nonces st) (s, i, n) of
       None \<Rightarrow> None
     | Some e \<Rightarrow> if s = scope \<and> (e, i, n) \<in> set (take (unat limit) (expired_nonces scope h st)) then None else Some e)"
proof -
  let ?xs = "expired_nonces scope h st" and ?l = "unat limit"
  have st': "st' = st\<lparr>ms_ingress_replay_nonces :=
      fold (\<lambda>(_, key_id, nonce). DAList.delete (scope, key_id, nonce)) (take ?l ?xs) (ms_ingress_replay_nonces st)\<rparr>"
    and r: "r = Ok (word_of_nat (length (take ?l ?xs)))"
    using assms by (auto simp: prune_expired_ingress_nonces_def try_q_def)
  show "r = Ok (word_of_nat (min (length ?xs) ?l))" using r by simp
  show "ms_ingress_replay_high_water st' = ms_ingress_replay_high_water st"
    "ms_ingress_replay_v13_nonces st' = ms_ingress_replay_v13_nonces st" by (simp_all add: st')
  show look: "DAList.lookup (ms_ingress_replay_nonces st') (s, i, n) = (case DAList.lookup (ms_ingress_replay_nonces st) (s, i, n) of
       None \<Rightarrow> None | Some e \<Rightarrow> if s = scope \<and> (e, i, n) \<in> set (take ?l ?xs) then None else Some e)" for s i n
  proof -
    have "(s, i, n) \<in> (\<lambda>(_, i, n). (scope, i, n)) ` set (take ?l ?xs) \<longleftrightarrow> s = scope \<and> (\<exists>e. (e, i, n) \<in> set (take ?l ?xs))"
      by force
    moreover have "DAList.lookup (ms_ingress_replay_nonces st) (scope, i, n) = Some e" if "(e, i, n) \<in> set (take ?l ?xs)" for e
      using expired_nonces_iff [of e i n scope h st] in_set_takeD [OF that] by simp
    ultimately show ?thesis by (auto simp: st' lookup_delete_all split: option.split)
  qed
  have "set (expired_nonces scope h st') = set ?xs - set (take ?l ?xs)"
  proof (rule set_eqI)
    fix x :: "i64 \<times> string \<times> uuid"
    obtain e i n where x: "x = (e, i, n)" by (cases x)
    show "x \<in> set (expired_nonces scope h st') \<longleftrightarrow> x \<in> set ?xs - set (take ?l ?xs)"
      using look [of scope i n] unfolding x expired_nonces_iff Diff_iff
      by (auto simp: st' split: option.splits if_splits)
  qed
  also have "\<dots> = set (drop ?l ?xs)"
  proof -
    have "distinct (take ?l ?xs @ drop ?l ?xs)" using expired_nonces_distinct by simp
    then have "set (take ?l ?xs) \<inter> set (drop ?l ?xs) = {}" unfolding distinct_append by blast
    moreover have "set ?xs = set (take ?l ?xs) \<union> set (drop ?l ?xs)" by (metis append_take_drop_id set_append)
    ultimately show ?thesis by blast
  qed
  finally have "length (expired_nonces scope h st') = length (drop ?l ?xs)"
    by (metis distinct_card distinct_drop expired_nonces_distinct)
  then show "length (expired_nonces scope h st') = length ?xs - ?l" by simp
qed

end
