(* ===== verification/Store_Changes.thy ===== *)
theory Store_Changes
  imports Ingress_Replay
begin

text \<open>
  The in-memory store as a transition system. \<open>store_step\<close> is one call of a store operation with
  any arguments and any answer of the clock. \<open>store_change\<close> is the abstract specification: the
  seven atomic changes the store may make, each with its guard. Every operation is a sequence of
  these changes, on its error paths too, so the invariants are proved for the changes only.
\<close>

section \<open>Results of composed operations\<close>

lemma try_q_Ok [result_simps]:
  "try_q r st f = (Ok y, st') \<longleftrightarrow> (\<exists>x. r = Ok x \<and> f x = (Ok y, st'))"
  by (cases r) (auto simp: try_q_def)

lemma or_observe_Ok [result_simps]:
  "or_observe r scope t st f = (Ok y, st') \<longleftrightarrow> (\<exists>x. r = Ok x \<and> f x = (Ok y, st'))"
  by (cases r) (auto simp: or_observe_def)

lemma with_snapshot_Ok [result_simps]:
  "with_snapshot p f = (Ok y, st') \<longleftrightarrow> (\<exists>x st. p = (Ok x, st) \<and> f x st = (Ok y, st'))"
  by (cases p; cases "fst p") (auto simp: with_snapshot_def)

lemma check_high_water_Ok [result_simps]:
  "check_high_water st scope t = Ok u \<longleftrightarrow> (\<forall>h. ms_high_water st scope = Some h \<longrightarrow> h \<le> t)"
  by (auto simp: check_high_water_def result_simps split: option.split)

lemma check_clock_Ok [result_simps]:
  "check_clock t hw = Ok u \<longleftrightarrow> 0 \<le> t \<and> (\<forall>h. hw = Some h \<longrightarrow> h \<le> t)"
  by (auto simp: check_clock_def result_simps split: option.split)

lemma check_clock_not_temporal:
  "check_clock t hw = Err e \<Longrightarrow> \<not> is_temporal_rejection_for_sample e t'"
  by (auto simp: check_clock_def result_simps and_then_def ensure_def split: option.splits if_splits)

lemma set_high_water_fields [simp]:
  "ms_high_water (set_high_water scope t st) = (ms_high_water st)(scope \<mapsto> t)"
  "ms_authorities (set_high_water scope t st) = ms_authorities st"
  "ms_grants (set_high_water scope t st) = ms_grants st"
  "ms_authorizations (set_high_water scope t st) = ms_authorizations st"
  "ms_transactions (set_high_water scope t st) = ms_transactions st"
  "ms_receipts (set_high_water scope t st) = ms_receipts st"
  "ms_outbox (set_high_water scope t st) = ms_outbox st"
  "ms_dispatch_claims (set_high_water scope t st) = ms_dispatch_claims st"
  "ms_dispatch_claim_ids (set_high_water scope t st) = ms_dispatch_claim_ids st"
  "ms_dispatch_acquisitions (set_high_water scope t st) = ms_dispatch_acquisitions st"
  "ms_latest_dispatch_acquisition (set_high_water scope t st) = ms_latest_dispatch_acquisition st"
  "ms_dispatch_dispositions (set_high_water scope t st) = ms_dispatch_dispositions st"
  "ms_physical_reservations (set_high_water scope t st) = ms_physical_reservations st"
  "ms_control_submissions (set_high_water scope t st) = ms_control_submissions st"
  "ms_control_by_request (set_high_water scope t st) = ms_control_by_request st"
  "ms_control_by_evaluation_nonce (set_high_water scope t st) = ms_control_by_evaluation_nonce st"
  "ms_control_issuances (set_high_water scope t st) = ms_control_issuances st"
  "ms_ingress_replay_high_water (set_high_water scope t st) = ms_ingress_replay_high_water st"
  "ms_ingress_replay_nonces (set_high_water scope t st) = ms_ingress_replay_nonces st"
  "ms_ingress_replay_v13_nonces (set_high_water scope t st) = ms_ingress_replay_v13_nonces st"
  "ms_control_statuses (set_high_water scope t st) = ms_control_statuses st"
  "ms_control_events (set_high_water scope t st) = ms_control_events st"
  "ms_control_queue (set_high_water scope t st) = ms_control_queue st"
  "ms_control_claims (set_high_water scope t st) = ms_control_claims st"
  "ms_control_consumptions (set_high_water scope t st) = ms_control_consumptions st"
  "ms_next_dispatch_fence (set_high_water scope t st) = ms_next_dispatch_fence st"
  "ms_next_dispatch_acquisition_fence (set_high_water scope t st) = ms_next_dispatch_acquisition_fence st"
  by (simp_all add: set_high_water_def)

section \<open>Steps\<close>

text \<open>A new store is empty but for the control-plane tables, which the operations here only read.\<close>

definition store_init :: "MemoryState \<Rightarrow> bool" where
  "store_init st \<longleftrightarrow> st = memory_default
     \<lparr>ms_ingress_replay_v13_nonces := ms_ingress_replay_v13_nonces st,
      ms_control_submissions := ms_control_submissions st,
      ms_control_by_request := ms_control_by_request st,
      ms_control_by_evaluation_nonce := ms_control_by_evaluation_nonce st,
      ms_control_statuses := ms_control_statuses st, ms_control_events := ms_control_events st,
      ms_control_queue := ms_control_queue st, ms_control_claims := ms_control_claims st,
      ms_control_issuances := ms_control_issuances st,
      ms_control_consumptions := ms_control_consumptions st\<rparr>"

inductive store_step :: "control_lineage \<Rightarrow> externals \<Rightarrow> uuid \<Rightarrow> MemoryState \<Rightarrow> MemoryState \<Rightarrow> bool"
  for lineage X inst where
  step_activate: "compare_and_activate_authority scope expected next st = (u, st')
    \<Longrightarrow> store_step lineage X inst st st'"
| step_register: "register_grant X grant clock st = (u, st') \<Longrightarrow> store_step lineage X inst st st'"
| step_issuance: "issuance_snapshot X scope grant_id clock st = (s, st')
    \<Longrightarrow> store_step lineage X inst st st'"
| step_revoke: "revoke_grant X scope grant_id expected next st = (u, st')
    \<Longrightarrow> store_step lineage X inst st st'"
| step_issue: "record_issued_authorization X stored clock st = (u, st')
    \<Longrightarrow> store_step lineage X inst st st'"
| step_consume: "consume X key clock st = (c, st') \<Longrightarrow> store_step lineage X inst st st'"
| step_recover: "consume_or_recover lineage X key clock id id st = (c, st')
    \<Longrightarrow> store_step lineage X inst st st'"
| step_snapshot: "dispatch_snapshot lineage X key clock st = (d, st')
    \<Longrightarrow> store_step lineage X inst st st'"
| step_claim: "claim_dispatch lineage X inst request clock st = (cd, st')
    \<Longrightarrow> store_step lineage X inst st st'"
| step_revalidate: "revalidate_dispatch_claim lineage X inst token clock st = (d, st')
    \<Longrightarrow> store_step lineage X inst st st'"
| step_ingress_time: "observe_ingress_time replay_scope t st = (u, st')
    \<Longrightarrow> store_step lineage X inst st st'"
| step_nonce: "consume_ingress_nonce nonce st = (n, st') \<Longrightarrow> store_step lineage X inst st st'"
| step_prune: "prune_expired_ingress_nonces replay_scope limit st = (w, st')
    \<Longrightarrow> store_step lineage X inst st st'"
| step_attempt: "mark_attempt_in_flight lineage X inst token credential clock st = (f, st')
    \<Longrightarrow> store_step lineage X inst st st'"

section \<open>Atomic changes\<close>

definition issued_key :: "IssuedAuthorizationRecord \<Rightarrow> authorization_key" where
  "issued_key i = (issued_scope i, xa_authorization_id (ir_authorization i))"

definition grant_key_of :: "IssuedAuthorizationRecord \<Rightarrow> authorization_key" where
  "grant_key_of i = (issued_scope i, xa_grant_id (ir_authorization i))"

definition key_of :: "ConsumeKey \<Rightarrow> authorization_key" where
  "key_of key = (ck_scope key, ck_authorization_id key)"

definition claim_in_window :: "uuid \<Rightarrow> DispatchClaimToken \<Rightarrow> ConsumptionReceipt \<Rightarrow> bool" where
  "claim_in_window inst token receipt \<longleftrightarrow>
     tk_state_instance_id token = inst
     \<and> cr_consumed_at receipt \<le> tk_claimed_at token \<and> tk_claimed_at token < tk_lease_until token
     \<and> tk_lease_until token \<le> cr_dispatch_deadline receipt
     \<and> tk_lease_until token \<le> tk_claimed_at token + DISPATCH_CLAIM_LEASE_SECONDS"

definition attempt_in_window :: "DispatchClaimToken \<Rightarrow> DispatchCredentialBinding \<Rightarrow> i64 \<Rightarrow> bool" where
  "attempt_in_window token credential t \<longleftrightarrow>
     matches_token credential token \<and> t < tk_lease_until token
     \<and> bi_not_before credential \<le> t \<and> t < bi_expires_at credential"

inductive store_change :: "externals \<Rightarrow> uuid \<Rightarrow> MemoryState \<Rightarrow> MemoryState \<Rightarrow> bool"
  for X inst where
  change_observe:
    "check_high_water st scope t = Ok () \<Longrightarrow> store_change X inst st (set_high_water scope t st)"
| change_authority:
    "state_validate_authority_vector next = Ok () \<Longrightarrow>
     (\<And>current. ms_authorities st scope = Some current \<Longrightarrow> ensure_monotone_authority current next = Ok ())
     \<Longrightarrow> store_change X inst st (st\<lparr>ms_authorities := (ms_authorities st)(scope \<mapsto> next)\<rparr>)"
| change_grant:
    "registration_validate X grant = Ok () \<Longrightarrow>
     \<not> list_ex (\<lambda>((s, _), _). s = registration_scope grant) (ms_grants st) \<Longrightarrow>
     store_change X inst st (st\<lparr>ms_grants :=
       AList.update (registration_scope grant, cg_grant_id (gr_grant grant))
         \<lparr>gs_registration = grant, gs_uses = 0, gs_revoked = False\<rparr> (ms_grants st)\<rparr>)"
| change_revoke:
    "map_of (ms_grants st) gk = Some g \<Longrightarrow>
     store_change X inst st (st\<lparr>ms_grants := AList.update gk (g\<lparr>gs_revoked := True\<rparr>) (ms_grants st)\<rparr>)"
| change_issue:
    "issued_validate X i = Ok () \<Longrightarrow> scope_validate (issued_scope i) = Ok () \<Longrightarrow>
     map_of (ms_grants st) (grant_key_of i) = Some g \<Longrightarrow>
     validate_grant_for_authorization (gs_registration g) (ir_authorization i) = Ok () \<Longrightarrow>
     ms_authorizations st (issued_key i) = None \<Longrightarrow>
     ms_transactions st (issued_scope i, ir_transaction_id i) = None \<Longrightarrow>
     store_change X inst st (st
       \<lparr>ms_transactions := (ms_transactions st)
          ((issued_scope i, ir_transaction_id i) \<mapsto> xa_authorization_id (ir_authorization i)),
        ms_authorizations := (ms_authorizations st)(issued_key i \<mapsto> i)\<rparr>)"
| change_consume:
    "key_validate key = Ok () \<Longrightarrow> ms_authorizations st (key_of key) = Some i \<Longrightarrow>
     ir_transaction_id i = ck_transaction_id key \<Longrightarrow> \<not> control_linked st key i \<Longrightarrow>
     ms_receipts st (key_of key) = None \<Longrightarrow> ms_high_water st (ck_scope key) = Some t \<Longrightarrow>
     map_of (ms_grants st) (ck_scope key, xa_grant_id (ir_authorization i)) = Some g \<Longrightarrow>
     validate_consumption X active g i t hw = Ok d \<Longrightarrow>
     u32_checked_add (gs_uses g) 1 = Some uses \<Longrightarrow> receipt = receipt_for i active t d \<Longrightarrow>
     store_change X inst st (st
       \<lparr>ms_grants := AList.update (ck_scope key, xa_grant_id (ir_authorization i))
          (g\<lparr>gs_uses := uses\<rparr>) (ms_grants st),
        ms_receipts := (ms_receipts st)(key_of key \<mapsto> receipt),
        ms_outbox := (ms_outbox st)(key_of key \<mapsto> outbox_for (ck_scope key) i receipt)\<rparr>)"
| change_claim:
    "ms_authorizations st (key_of key) = Some i \<Longrightarrow> ir_transaction_id i = ck_transaction_id key \<Longrightarrow>
     ms_receipts st (key_of key) = Some receipt \<Longrightarrow> ms_high_water st (ck_scope key) = Some (tk_claimed_at token)
     \<Longrightarrow> ms_dispatch_claims st (key_of key) = None \<Longrightarrow>
     ms_dispatch_claim_ids st (tk_claim_id token) = None \<Longrightarrow>
     ms_dispatch_acquisitions st (tk_claim_id token) = None \<Longrightarrow>
     tk_key token = key \<Longrightarrow> claim_in_window inst token receipt \<Longrightarrow>
     from_authorization (ir_authorization i) = Ok (tk_physical_resource token) \<Longrightarrow>
     ms_physical_reservations st (tk_physical_resource token) = None \<Longrightarrow>
     u64_checked_add (ms_next_dispatch_fence st) 1 = Some (tk_fence token) \<Longrightarrow>
     u64_checked_add (ms_next_dispatch_acquisition_fence st) 1 = Some (ma_lease_fence a) \<Longrightarrow>
     store_change X inst st (st
       \<lparr>ms_next_dispatch_fence := tk_fence token,
        ms_next_dispatch_acquisition_fence := ma_lease_fence a,
        ms_dispatch_claim_ids := (ms_dispatch_claim_ids st)(tk_claim_id token \<mapsto> key_of key),
        ms_physical_reservations :=
          (ms_physical_reservations st)(tk_physical_resource token \<mapsto> key_of key),
        ms_dispatch_claims := (ms_dispatch_claims st)(key_of key \<mapsto> new_dispatch_claim token),
        ms_dispatch_acquisitions := (ms_dispatch_acquisitions st)(tk_claim_id token \<mapsto> a),
        ms_latest_dispatch_acquisition :=
          (ms_latest_dispatch_acquisition st)(key_of key \<mapsto> tk_claim_id token)\<rparr>)"
| change_attempt:
    "ms_dispatch_claims st k = Some claim \<Longrightarrow> mc_state claim \<noteq> AttemptInFlightState \<Longrightarrow>
     attempt_in_window (mc_token claim) credential t \<Longrightarrow> ms_high_water st (fst k) = Some t \<Longrightarrow>
     store_change X inst st (st\<lparr>ms_dispatch_claims := (ms_dispatch_claims st)(k \<mapsto>
       claim\<lparr>mc_state := AttemptInFlightState, mc_attempt_started_at := Some t,
         mc_attempt_acquisition := Some acquisition, mc_credential := Some credential\<rparr>)\<rparr>)"
| change_ingress_time:
    "(\<And>h. ms_ingress_replay_high_water st scope' = Some h \<Longrightarrow> h \<le> t) \<Longrightarrow>
     store_change X inst st (st\<lparr>ms_ingress_replay_high_water :=
       (ms_ingress_replay_high_water st)(scope' \<mapsto> t)\<rparr>)"
| change_nonce:
    "ms_ingress_replay_high_water st (fst rk) = Some t \<Longrightarrow>
     (\<And>e. DAList.lookup (ms_ingress_replay_nonces st) rk = Some e \<Longrightarrow> e \<le> t) \<Longrightarrow>
     store_change X inst st (st\<lparr>ms_ingress_replay_nonces :=
       DAList.update rk expiry (ms_ingress_replay_nonces st)\<rparr>)"
| change_prune:
    "ms_ingress_replay_high_water st scope' = Some h \<Longrightarrow>
     (\<And>rk. DAList.lookup nonces rk = DAList.lookup (ms_ingress_replay_nonces st) rk
        \<or> (\<exists>e \<le> h. fst rk = scope' \<and> DAList.lookup (ms_ingress_replay_nonces st) rk = Some e)) \<Longrightarrow>
     store_change X inst st (st\<lparr>ms_ingress_replay_nonces := nonces\<rparr>)"

abbreviation changes :: "externals \<Rightarrow> uuid \<Rightarrow> MemoryState \<Rightarrow> MemoryState \<Rightarrow> bool" where
  "changes X inst \<equiv> (store_change X inst)\<^sup>*\<^sup>*"

section \<open>Every operation is a sequence of changes\<close>

named_theorems change_intros \<open>closure of change sequences under the combinators\<close>

lemma changes_refl [change_intros]: "changes X inst st st"
  by simp

lemma changes_snoc: "changes X inst st0 st \<Longrightarrow> store_change X inst st st' \<Longrightarrow> changes X inst st0 st'"
  by simp

lemma try_q_changes [change_intros]:
  "(\<And>x. r = Ok x \<Longrightarrow> changes X inst st0 (snd (f x))) \<Longrightarrow> changes X inst st0 st
   \<Longrightarrow> changes X inst st0 (snd (try_q r st f))"
  by (cases r) (simp_all add: try_q_def)

lemma observe_changes:
  "changes X inst st0 st \<Longrightarrow> check_high_water st scope t = Ok () \<Longrightarrow>
   changes X inst st0 (set_high_water scope t st)"
  by (blast intro: changes_snoc change_observe)

lemma or_observe_changes:
  "(\<And>x. r = Ok x \<Longrightarrow> changes X inst st0 (snd (f x))) \<Longrightarrow> changes X inst st0 st \<Longrightarrow>
   (\<And>e. r = Err e \<Longrightarrow> is_temporal_rejection_for_sample e t \<Longrightarrow> check_high_water st scope t = Ok ())
   \<Longrightarrow> changes X inst st0 (snd (or_observe r scope t st f))"
  by (cases r) (auto simp: or_observe_def intro: observe_changes)

lemma with_snapshot_changes:
  "(\<And>x st. p = (Ok x, st) \<Longrightarrow> changes X inst st0 st \<Longrightarrow> changes X inst st0 (snd (f x st))) \<Longrightarrow>
   changes X inst st0 (snd p) \<Longrightarrow> changes X inst st0 (snd (with_snapshot p f))"
  by (cases p; cases "fst p") (auto simp: with_snapshot_def)

lemma option_changes:
  "(\<And>y. v = Some y \<Longrightarrow> changes X inst st0 (snd (g y))) \<Longrightarrow> (v = None \<Longrightarrow> changes X inst st0 (snd n)) \<Longrightarrow>
   changes X inst st0 (snd (case v of None \<Rightarrow> n | Some y \<Rightarrow> g y))"
  by (cases v) simp_all

lemma activate_changes: "changes X inst st (snd (compare_and_activate_authority scope expected next st))"
proof -
  have "changes X inst st (st\<lparr>ms_authorities := (ms_authorities st)(scope \<mapsto> next)\<rparr>)"
    if "state_validate_authority_vector next = Ok ()"
      "\<And>current. ms_authorities st scope = Some current \<Longrightarrow> ensure_monotone_authority current next = Ok ()"
    using that by (blast intro: changes_snoc changes_refl change_authority)
  then show ?thesis
    unfolding compare_and_activate_authority_def Let_def
    by (intro change_intros) (auto split: option.splits intro!: try_q_changes changes_refl)
qed

lemma register_changes: "changes X inst st (snd (register_grant X grant clock st))"
proof -
  have "changes X inst st ((set_high_water (registration_scope grant) t st)
      \<lparr>ms_grants := AList.update (registration_scope grant, cg_grant_id (gr_grant grant))
         \<lparr>gs_registration = grant, gs_uses = 0, gs_revoked = False\<rparr> (ms_grants st)\<rparr>)"
    if "registration_validate X grant = Ok ()" "check_high_water st (registration_scope grant) t = Ok ()"
      "\<not> list_ex (\<lambda>((s, _), _). s = registration_scope grant) (ms_grants st)" for t
    using changes_snoc [OF observe_changes [OF changes_refl that(2)] change_grant [of X grant]] that
    by simp
  then show ?thesis
    unfolding register_grant_def Let_def
    by (intro change_intros or_observe_changes) (auto simp: ensure_Ok)
qed

lemma issuance_changes: "changes X inst st (snd (issuance_snapshot X scope grant_id clock st))"
  unfolding issuance_snapshot_def
  by (intro change_intros or_observe_changes) (auto intro: observe_changes)

lemma revoke_changes: "changes X inst st (snd (revoke_grant X scope grant_id expected next st))"
proof -
  have "changes X inst st (st\<lparr>ms_grants := AList.update (scope, grant_id) (g\<lparr>gs_revoked := True\<rparr>) (ms_grants st),
      ms_authorities := (ms_authorities st)(scope \<mapsto> next)\<rparr>)"
    if "ms_authorities st scope = Some expected" "map_of (ms_grants st) (scope, grant_id) = Some g"
      "validate_revocation_transition X grant_id expected next = Ok ()" for g
  proof -
    have m: "ensure_monotone_authority expected next = Ok ()"
      using that(3) by (simp add: validate_revocation_transition_def result_simps)
    then have "state_validate_authority_vector next = Ok ()"
      by (auto simp: ensure_monotone_authority_def result_simps)
    then show ?thesis
      using changes_snoc [OF changes_snoc [OF changes_refl change_revoke [OF that(2)]]
          change_authority [of "next" _ scope]] m that(1) by simp
  qed
  then show ?thesis
    unfolding revoke_grant_def by (intro change_intros) (auto simp: result_simps)
qed

lemma issue_changes: "changes X inst st (snd (record_issued_authorization X i clock st))"
proof -
  have "changes X inst st ((set_high_water (issued_scope i) t st)
      \<lparr>ms_transactions := (ms_transactions st)
          ((issued_scope i, ir_transaction_id i) \<mapsto> xa_authorization_id (ir_authorization i)),
       ms_authorizations := (ms_authorizations st)
          ((issued_scope i, xa_authorization_id (ir_authorization i)) \<mapsto> i)\<rparr>)"
    if "issued_validate X i = Ok ()" "scope_validate (issued_scope i) = Ok ()"
      "check_high_water st (issued_scope i) t = Ok ()"
      "map_of (ms_grants st) (issued_scope i, xa_grant_id (ir_authorization i)) = Some g"
      "validate_grant_for_authorization (gs_registration g) (ir_authorization i) = Ok ()"
      "ms_authorizations st (issued_scope i, xa_authorization_id (ir_authorization i)) = None"
      "ms_transactions st (issued_scope i, ir_transaction_id i) = None" for t g
    using changes_snoc [OF observe_changes [OF changes_refl that(3)] change_issue [of X i _ g]] that
    by (simp add: issued_key_def grant_key_of_def)
  then show ?thesis
    unfolding record_issued_authorization_def Let_def
    by (intro change_intros or_observe_changes) (auto simp: ensure_Ok ok_or_Ok intro: observe_changes)
qed

text \<open>A rejection for this sample comes after the clock checks, so the sample is not a rollback.\<close>

lemma validate_consumption_clock:
  "validate_consumption X active g i t hw = Err e \<Longrightarrow> is_temporal_rejection_for_sample e t
   \<Longrightarrow> check_clock t hw = Ok ()"
  by (cases "check_clock t hw") (auto simp: validate_consumption_def dest: check_clock_not_temporal)

lemma check_clock_high_water:
  "check_clock t (ms_high_water st scope) = Ok u \<Longrightarrow> check_high_water st scope t = Ok ()"
  by (simp add: result_simps)

lemma validate_consumption_check_clock:
  "validate_consumption X active g i t hw = Ok d \<Longrightarrow> check_clock t hw = Ok ()"
  by (auto simp: validate_consumption_def result_simps)

lemma consume_changes: "changes X inst st (snd (consume X key clock st))"
proof -
  have "changes X inst st ((set_high_water (ck_scope key) t st)
      \<lparr>ms_grants := AList.update (ck_scope key, xa_grant_id (ir_authorization i)) (g\<lparr>gs_uses := uses\<rparr>)
         (ms_grants st),
       ms_receipts := (ms_receipts st)((ck_scope key, ck_authorization_id key) \<mapsto> receipt_for i active t d),
       ms_outbox := (ms_outbox st)((ck_scope key, ck_authorization_id key)
         \<mapsto> outbox_for (ck_scope key) i (receipt_for i active t d))\<rparr>)"
    if "key_validate key = Ok ()"
      "ms_authorizations st (ck_scope key, ck_authorization_id key) = Some i"
      "ir_transaction_id i = ck_transaction_id key" "\<not> control_linked st key i"
      "ms_receipts st (ck_scope key, ck_authorization_id key) = None"
      "map_of (ms_grants st) (ck_scope key, xa_grant_id (ir_authorization i)) = Some g"
      "validate_consumption X active g i t (ms_high_water st (ck_scope key)) = Ok d"
      "u32_checked_add (gs_uses g) 1 = Some uses" for i g t active d uses
  proof -
    have "check_high_water st (ck_scope key) t = Ok ()"
      by (rule check_clock_high_water [OF validate_consumption_check_clock [OF that(7)]])
    from changes_snoc [OF observe_changes [OF changes_refl this]
        change_consume [of key _ i t g X active "ms_high_water st (ck_scope key)" d uses]] that
    show ?thesis by (simp add: key_of_def control_linked_def)
  qed
  then show ?thesis
    unfolding consume_def Let_def
    by (intro change_intros or_observe_changes)
      (auto simp: ensure_Ok ok_or_Ok intro: check_clock_high_water validate_consumption_clock)
qed

lemma recover_changes: "changes X inst st (snd (consume_or_recover lineage X key clock id id st))"
  using consume_changes [of X inst st key clock]
  by (auto simp: consume_or_recover_def split: result.split prod.split StateError.split)

text \<open>What a dispatch snapshot taken at \<open>t\<close> says of the state.\<close>

definition snapshot_of :: "externals \<Rightarrow> MemoryState \<Rightarrow> ConsumeKey \<Rightarrow> i64 \<Rightarrow> DispatchSnapshot \<Rightarrow> bool" where
  "snapshot_of X st key t s \<longleftrightarrow>
     ms_authorizations st (key_of key) = Some (ds_issued s)
     \<and> ir_transaction_id (ds_issued s) = ck_transaction_id key
     \<and> ms_receipts st (key_of key) = Some (ds_receipt s) \<and> ms_outbox st (key_of key) = Some (ds_outbox s)
     \<and> ms_authorities st (ck_scope key) = Some (ds_authority s)
     \<and> ds_authority s = xa_authority (ir_authorization (ds_issued s))
     \<and> ds_scope s = ck_scope key \<and> ds_checked_at s = t
     \<and> cr_consumed_at (ds_receipt s) \<le> t \<and> t < cr_dispatch_deadline (ds_receipt s)
     \<and> (\<exists>g. map_of (ms_grants st) (ck_scope key, xa_grant_id (ir_authorization (ds_issued s))) = Some g
          \<and> \<not> gs_revoked g \<and> gs_uses g \<noteq> 0)"

lemma dispatch_snapshot_of:
  "memory_dispatch_snapshot lineage X st key t = Ok s
   \<Longrightarrow> check_clock t (ms_high_water st (ck_scope key)) = Ok () \<and> snapshot_of X st key t s"
  by (auto simp: memory_dispatch_snapshot_def memory_dispatch_snapshot_at_high_water_def
      validate_dispatch_snapshot_def and_then_Ok ok_or_Ok ensure_Ok Let_def snapshot_of_def key_of_def
      not_less not_le split: option.splits)

lemma snapshot_with_high_water_Ok:
  assumes "memory_dispatch_snapshot_with_high_water lineage X st key t = (Ok s, st')"
  shows "st' = set_high_water (ck_scope key) t st" "check_high_water st (ck_scope key) t = Ok ()"
    "snapshot_of X st key t s"
proof -
  have s: "memory_dispatch_snapshot lineage X st key t = Ok s"
    and st': "st' = set_high_water (ck_scope key) t st \<or> st' = st"
    and m: "(case ms_high_water st (ck_scope key) of None \<Rightarrow> True | Some h \<Rightarrow> h \<le> t)
      \<Longrightarrow> st' = set_high_water (ck_scope key) t st"
    using assms by (auto simp: memory_dispatch_snapshot_with_high_water_def Let_def split: if_splits)
  from dispatch_snapshot_of [OF s] show "snapshot_of X st key t s"
    and c: "check_high_water st (ck_scope key) t = Ok ()"
    by (auto intro: check_clock_high_water)
  show "st' = set_high_water (ck_scope key) t st"
    using c m by (auto simp: result_simps split: option.splits)
qed

lemma snapshot_changes:
  "changes X inst st (snd (memory_dispatch_snapshot_with_high_water lineage X st key t))"
proof -
  let ?m = "case ms_high_water st (ck_scope key) of None \<Rightarrow> True | Some h \<Rightarrow> h \<le> t"
  have "changes X inst st (set_high_water (ck_scope key) t st)" if ?m
    by (rule observe_changes [OF changes_refl])
      (use that in \<open>auto simp: result_simps split: option.splits\<close>)
  then show ?thesis by (auto simp: memory_dispatch_snapshot_with_high_water_def Let_def)
qed

lemma dispatch_snapshot_changes: "changes X inst st (snd (dispatch_snapshot lineage X key clock st))"
  unfolding dispatch_snapshot_def by (intro change_intros snapshot_changes)

lemma revalidate_changes:
  "changes X inst st (snd (revalidate_dispatch_claim lineage X inst token clock st))"
  unfolding revalidate_dispatch_claim_def
  by (intro change_intros with_snapshot_changes snapshot_changes)
    (simp_all add: changes_refl)

definition claim_token ::
    "uuid \<Rightarrow> DispatchClaimRequest \<Rightarrow> PhysicalResourceKey \<Rightarrow> u64 \<Rightarrow> i64 \<Rightarrow> i64 \<Rightarrow> DispatchClaimToken" where
  "claim_token inst request physical fence t lease_until =
     \<lparr>tk_key = cl_key request, tk_physical_resource = physical, tk_claim_id = cl_claim_id request,
      tk_worker_id = cl_worker_id request, tk_fence = fence, tk_claimed_at = t,
      tk_lease_until = lease_until, tk_state_instance_id = inst\<rparr>"

lemma claim_changes:
  "changes X inst st (snd (claim_dispatch lineage X inst request clock st))"
proof -
  let ?key = "cl_key request"
  have "changes X inst st (st1
      \<lparr>ms_next_dispatch_fence := fence, ms_next_dispatch_acquisition_fence := lease_fence,
       ms_dispatch_claim_ids := (ms_dispatch_claim_ids st1)
         (cl_claim_id request \<mapsto> (ck_scope ?key, ck_authorization_id ?key)),
       ms_physical_reservations := (ms_physical_reservations st1)
         (physical \<mapsto> (ck_scope ?key, ck_authorization_id ?key)),
       ms_dispatch_claims := (ms_dispatch_claims st1)
         ((ck_scope ?key, ck_authorization_id ?key) \<mapsto> new_dispatch_claim token),
       ms_dispatch_acquisitions := (ms_dispatch_acquisitions st1)(cl_claim_id request \<mapsto> a),
       ms_latest_dispatch_acquisition := (ms_latest_dispatch_acquisition st1)
         ((ck_scope ?key, ck_authorization_id ?key) \<mapsto> cl_claim_id request)\<rparr>)"
    if s: "memory_dispatch_snapshot_with_high_water lineage X st ?key t = (Ok s, st1)"
      and token: "token = claim_token inst request physical fence t
        (min lease_cap (cr_dispatch_deadline (ds_receipt s)))"
      and free: "ms_dispatch_claims st (ck_scope ?key, ck_authorization_id ?key) = None"
        "ms_dispatch_claim_ids st (cl_claim_id request) = None"
        "ms_dispatch_acquisitions st (cl_claim_id request) = None"
        "ms_physical_reservations st1 physical = None"
      and p: "from_authorization (ir_authorization (ds_issued s)) = Ok physical"
      and l: "i64_checked_add t DISPATCH_CLAIM_LEASE_SECONDS = Some lease_cap"
        "\<not> min lease_cap (cr_dispatch_deadline (ds_receipt s)) \<le> t"
      and f: "u64_checked_add (ms_next_dispatch_fence st1) 1 = Some fence"
        "u64_checked_add (ms_next_dispatch_acquisition_fence st1) 1 = Some lease_fence"
        "ma_lease_fence a = lease_fence"
    for s st1 t token physical fence lease_cap lease_fence a
  proof -
    note sn = snapshot_with_high_water_Ok [OF s]
    have w: "claim_in_window inst token (ds_receipt s)"
      using sn(3) l by (auto simp: claim_in_window_def token claim_token_def snapshot_of_def result_simps)
    show ?thesis
      using changes_snoc [OF observe_changes [OF changes_refl sn(2)]
          change_claim [of _ ?key "ds_issued s" "ds_receipt s" token inst a X]]
        w sn(3) free p f unfolding sn(1)
      by (simp add: snapshot_of_def token claim_token_def key_of_def)
  qed
  note claimed = this
  show ?thesis
    unfolding claim_dispatch_def Let_def
    by (intro change_intros option_changes with_snapshot_changes snapshot_changes;
        simp only: snd_conv changes_refl; (assumption | rule claimed)?)
      (auto simp: result_simps claim_token_def)
qed

lemma require_live_claim_Ok:
  "require_live_claim inst st token = Ok claim \<longleftrightarrow>
     tk_state_instance_id token = inst \<and> ms_dispatch_claims st (key_of (tk_key token)) = Some claim
     \<and> mc_token claim = token \<and> mc_state claim \<noteq> AttemptInFlightState
     \<and> ms_physical_reservations st (tk_physical_resource token) = Some (key_of (tk_key token))"
  by (auto simp: require_live_claim_def key_of_def and_then_Ok ok_or_Ok ensure_Ok Let_def)

lemma into_v2_token: "into_v2 X b (memory_dispatch_acquisition_authority a) = Ok c \<Longrightarrow>
    matches_token c (ma_token a)"
  by (drule into_v2_matches) (simp add: matches_acquisition_def memory_dispatch_acquisition_authority_def)

lemma bootstrap_acquisition_token:
  "require_memory_bootstrap_acquisition st token = Ok a \<Longrightarrow> ma_token a = token"
  by (auto simp: require_memory_bootstrap_acquisition_def and_then_Ok ok_or_Ok ensure_Ok)

lemma attempt_changes:
  "changes X inst st (snd (mark_attempt_in_flight lineage X inst token credential clock st))"
proof -
  have "changes X inst st (st1\<lparr>ms_dispatch_claims := (ms_dispatch_claims st1)
      ((ck_scope (tk_key token), ck_authorization_id (tk_key token)) \<mapsto>
         claim\<lparr>mc_state := AttemptInFlightState, mc_attempt_started_at := Some t,
           mc_attempt_acquisition := Some acquisition, mc_credential := Some c\<rparr>)\<rparr>)"
    if s: "memory_dispatch_snapshot_with_high_water lineage X st (tk_key token) t = (Ok s, st1)"
      and live: "require_live_claim inst st token = Ok claim0"
      and claim: "ms_dispatch_claims st1 (ck_scope (tk_key token), ck_authorization_id (tk_key token)) = Some claim"
      and a: "require_memory_bootstrap_acquisition st token = Ok a"
      and c: "into_v2 X credential (memory_dispatch_acquisition_authority a) = Ok c"
      and w: "\<not> tk_lease_until token \<le> t" "\<not> (t < bi_not_before c \<or> bi_expires_at c \<le> t)"
    for s st1 t claim0 claim a c acquisition
  proof -
    note sn = snapshot_with_high_water_Ok [OF s]
    have "attempt_in_window token c t"
      using w into_v2_token [OF c] bootstrap_acquisition_token [OF a] by (simp add: attempt_in_window_def)
    then show ?thesis
      using changes_snoc [OF observe_changes [OF changes_refl sn(2)]
          change_attempt [of _ "key_of (tk_key token)" claim c t X inst acquisition]]
        live claim unfolding sn(1) by (simp add: require_live_claim_Ok key_of_def)
  qed
  note attempted = this
  show ?thesis
    unfolding mark_attempt_in_flight_def Let_def
    by (intro change_intros with_snapshot_changes snapshot_changes;
        simp only: snd_conv changes_refl; (assumption | rule attempted)?)
      (auto simp: ensure_Ok ok_or_Ok)
qed

lemma ingress_time_changes: "changes X inst st (snd (observe_ingress_time scope t st))"
proof -
  have "changes X inst st (st\<lparr>ms_ingress_replay_high_water :=
      (ms_ingress_replay_high_water st)(scope \<mapsto> t')\<rparr>)"
    if "(case ms_ingress_replay_high_water st scope of None \<Rightarrow> 0 | Some h \<Rightarrow> h) \<le> t'" for t'
    using that by (intro changes_snoc [OF changes_refl change_ingress_time]) simp
  then show ?thesis unfolding observe_ingress_time_def Let_def
    by (intro change_intros) (simp add: not_less)
qed

lemma nonce_changes: "changes X inst st (snd (consume_ingress_nonce request st))"
proof -
  let ?scope = "nc_scope request" and ?t = "nc_observed_unix_s request"
  let ?rk = "(?scope, nc_key_id request, nc_nonce request)"
  let ?st = "st\<lparr>ms_ingress_replay_high_water := (ms_ingress_replay_high_water st)(?scope \<mapsto> ?t)\<rparr>"
  have observed: "changes X inst st ?st"
    if "\<not> ?t < (case ms_ingress_replay_high_water st ?scope of None \<Rightarrow> 0 | Some h \<Rightarrow> h)"
    using that by (intro changes_snoc [OF changes_refl change_ingress_time]) simp
  have "changes X inst st (?st\<lparr>ms_ingress_replay_nonces :=
      DAList.update ?rk (nc_expires_unix_s request) (ms_ingress_replay_nonces st)\<rparr>)"
    if "\<not> ?t < (case ms_ingress_replay_high_water st ?scope of None \<Rightarrow> 0 | Some h \<Rightarrow> h)"
      "\<not> (case DAList.lookup (ms_ingress_replay_nonces st) ?rk of None \<Rightarrow> False | Some e \<Rightarrow> ?t < e)"
    using changes_snoc [OF observed [OF that(1)] change_nonce [of ?st ?rk ?t X inst "nc_expires_unix_s request"]] that(2)
    by (cases "DAList.lookup (ms_ingress_replay_nonces st) ?rk") simp_all
  with observed show ?thesis unfolding consume_ingress_nonce_def Let_def
    by (intro change_intros) (auto simp: ensure_Ok)
qed

lemma prune_changes: "changes X inst st (snd (prune_expired_ingress_nonces scope limit st))"
  unfolding prune_expired_ingress_nonces_def Let_def
  by (intro change_intros, unfold snd_conv, rule changes_snoc [OF changes_refl change_prune])
    (auto simp: ok_or_Ok lookup_delete_all dest!: in_set_takeD expired_nonces_lookup intro: exI)

lemmas operation_changes = ingress_time_changes nonce_changes prune_changes activate_changes register_changes issuance_changes revoke_changes
  issue_changes consume_changes recover_changes dispatch_snapshot_changes claim_changes
  revalidate_changes attempt_changes

text \<open>The store refines its specification.\<close>

lemma store_step_changes: "store_step lineage X inst st st' \<Longrightarrow> changes X inst st st'"
  by (induction rule: store_step.induct) (metis operation_changes snd_conv)+

lemma store_run_changes: "(store_step lineage X inst)\<^sup>*\<^sup>* st st' \<Longrightarrow> changes X inst st st'"
  by (induction rule: rtranclp_induct) (auto dest: store_step_changes)

end
