(* ===== verification/Store_Invariants.thy ===== *)
theory Store_Invariants
  imports Store_Changes Transition_Systems
begin

text \<open>
  The invariant of the store: authorizations are verified, indexed and covered by a registered
  grant; a scope has one grant and its use counter is the number of receipts under it; every
  receipt is backed by its authorization and its outbox entry; claims, reservations and fences
  agree. It is proved for the atomic changes and so for every operation.
\<close>

section \<open>The invariant\<close>

definition consume_key_of :: "IssuedAuthorizationRecord \<Rightarrow> ConsumeKey" where
  "consume_key_of i = \<lparr>ck_scope = issued_scope i, ck_transaction_id = ir_transaction_id i,
     ck_authorization_id = xa_authorization_id (ir_authorization i)\<rparr>"

definition issued_inv :: "externals \<Rightarrow> MemoryState \<Rightarrow> bool" where
  "issued_inv X st \<longleftrightarrow> (\<forall>k i. ms_authorizations st k = Some i \<longrightarrow>
     k = issued_key i \<and> ms_transactions st (issued_scope i, ir_transaction_id i) = Some (snd k)
     \<and> issued_validate X i = Ok () \<and> scope_validate (issued_scope i) = Ok ()
     \<and> (\<exists>g. map_of (ms_grants st) (grant_key_of i) = Some g
          \<and> validate_grant_for_authorization (gs_registration g) (ir_authorization i) = Ok ()))"

definition grant_inv :: "externals \<Rightarrow> MemoryState \<Rightarrow> bool" where
  "grant_inv X st \<longleftrightarrow> distinct (map (fst \<circ> fst) (ms_grants st))
     \<and> (\<forall>k g. map_of (ms_grants st) k = Some g \<longrightarrow>
          k = (registration_scope (gs_registration g), cg_grant_id (gr_grant (gs_registration g)))
          \<and> registration_validate X (gs_registration g) = Ok ())"

definition receipt_intact :: "IssuedAuthorizationRecord \<Rightarrow> ConsumptionReceipt \<Rightarrow> bool" where
  "receipt_intact i r \<longleftrightarrow> (let a = ir_authorization i in
     r = receipt_for i (xa_authority a) (cr_consumed_at r) (cr_dispatch_deadline r)
     \<and> compute_dispatch_deadline (cr_consumed_at r) (xa_consume_before a) (xa_dispatch_deadline_policy a)
       = Ok (cr_dispatch_deadline r)
     \<and> xa_not_before a \<le> cr_consumed_at r \<and> cr_consumed_at r < xa_consume_before a)"

definition receipt_inv :: "externals \<Rightarrow> MemoryState \<Rightarrow> bool" where
  "receipt_inv X st \<longleftrightarrow> dom (ms_outbox st) = dom (ms_receipts st)
     \<and> (\<forall>k r. ms_receipts st k = Some r \<longrightarrow> (\<exists>i h. ms_authorizations st k = Some i
          \<and> ms_outbox st k = Some (outbox_for (fst k) i r) \<and> receipt_intact i r
          \<and> key_validate (consume_key_of i) = Ok () \<and> \<not> control_linked st (consume_key_of i) i
          \<and> ms_high_water st (fst k) = Some h \<and> cr_consumed_at r \<le> h))"

definition consumed_under :: "MemoryState \<Rightarrow> authorization_key \<Rightarrow> authorization_key set" where
  "consumed_under st gk = {k. ms_receipts st k \<noteq> None
     \<and> (\<exists>i. ms_authorizations st k = Some i \<and> grant_key_of i = gk)}"

definition uses_inv :: "MemoryState \<Rightarrow> bool" where
  "uses_inv st \<longleftrightarrow> finite (dom (ms_receipts st))
     \<and> (\<forall>gk g. map_of (ms_grants st) gk = Some g \<longrightarrow>
          unat (gs_uses g) = card (consumed_under st gk)
          \<and> gs_uses g \<le> cg_maximum_uses (gr_grant (gs_registration g)))"

definition claim_backed :: "uuid \<Rightarrow> MemoryState \<Rightarrow> authorization_key \<Rightarrow> MemoryDispatchClaim \<Rightarrow> bool" where
  "claim_backed inst st k c \<longleftrightarrow> (let token = mc_token c in
     (\<exists>i r h. ms_authorizations st k = Some i \<and> ms_receipts st k = Some r
        \<and> tk_key token = consume_key_of i \<and> k = key_of (tk_key token) \<and> claim_in_window inst token r
        \<and> from_authorization (ir_authorization i) = Ok (tk_physical_resource token)
        \<and> ms_high_water st (fst k) = Some h \<and> tk_claimed_at token \<le> h)
     \<and> ms_physical_reservations st (tk_physical_resource token) = Some k
     \<and> ms_dispatch_claim_ids st (tk_claim_id token) = Some k
     \<and> tk_fence token \<le> ms_next_dispatch_fence st)"

definition claim_inv :: "uuid \<Rightarrow> MemoryState \<Rightarrow> bool" where
  "claim_inv inst st \<longleftrightarrow>
     (\<forall>k c. ms_dispatch_claims st k = Some c \<longrightarrow> claim_backed inst st k c)
     \<and> (\<forall>k k' c c'. ms_dispatch_claims st k = Some c \<longrightarrow> ms_dispatch_claims st k' = Some c'
          \<longrightarrow> tk_fence (mc_token c) = tk_fence (mc_token c') \<longrightarrow> k = k')"

definition attempt_inv :: "MemoryState \<Rightarrow> bool" where
  "attempt_inv st \<longleftrightarrow> (\<forall>k c. ms_dispatch_claims st k = Some c \<longrightarrow>
     (case mc_attempt_started_at c of
        None \<Rightarrow> mc_state c = Claimed
      | Some t \<Rightarrow> mc_state c = AttemptInFlightState \<and> tk_claimed_at (mc_token c) \<le> t
          \<and> (\<exists>b. mc_credential c = Some b \<and> attempt_in_window (mc_token c) b t)))"

definition store_inv :: "externals \<Rightarrow> uuid \<Rightarrow> MemoryState \<Rightarrow> bool" where
  "store_inv X inst st \<longleftrightarrow> issued_inv X st \<and> grant_inv X st \<and> receipt_inv X st \<and> uses_inv st
     \<and> claim_inv inst st \<and> attempt_inv st"

section \<open>Preservation\<close>

lemma map_of_update [simp]: "map_of (AList.update k v al) = (map_of al)(k \<mapsto> v)"
  by (rule update_conv')

lemma update_scopes:
  "map (fst \<circ> fst) (AList.update (s, i) v al) =
     (if (s, i) \<in> fst ` set al then map (fst \<circ> fst) al else map (fst \<circ> fst) al @ [s])"
  by (metis (no_types, lifting) update_keys fst_conv list.map(1,2) list.set_map map_append map_map)

lemma issued_invD:
  assumes "issued_inv X st" "ms_authorizations st k = Some i"
  shows "k = issued_key i" "ms_transactions st (issued_scope i, ir_transaction_id i) = Some (snd k)"
    "issued_validate X i = Ok ()" "scope_validate (issued_scope i) = Ok ()"
    "\<exists>g. map_of (ms_grants st) (grant_key_of i) = Some g
      \<and> validate_grant_for_authorization (gs_registration g) (ir_authorization i) = Ok ()"
  using assms unfolding issued_inv_def by blast+

lemma grant_invD:
  assumes "grant_inv X st" "map_of (ms_grants st) k = Some g"
  shows "k = (registration_scope (gs_registration g), cg_grant_id (gr_grant (gs_registration g)))"
    "registration_validate X (gs_registration g) = Ok ()"
  using assms unfolding grant_inv_def by blast+

lemma issued_inv_change:
  assumes "store_change X inst st st'" "issued_inv X st"
  shows "issued_inv X st'"
  using assms
proof (cases rule: store_change.cases)
  case (change_grant grant)
  have "map_of (ms_grants st) (registration_scope grant, i) = None" for i
    using change_grant(3) by (force simp: map_of_eq_None_iff list_ex_iff)
  then show ?thesis using assms(2) change_grant(1) by (fastforce simp: issued_inv_def)
next
  case (change_revoke gk g)
  then show ?thesis using assms(2) by (fastforce simp: issued_inv_def)
next
  case (change_consume key i t g active hw d uses receipt)
  then show ?thesis using assms(2) by (fastforce simp: issued_inv_def)
next
  case (change_issue i g)
  then show ?thesis using issued_invD [OF assms(2)]
    unfolding issued_inv_def by (auto simp: issued_key_def simp del: split_paired_All) (metis option.distinct(1))
qed (simp_all add: issued_inv_def)

lemma grant_inv_change:
  assumes "store_change X inst st st'" "grant_inv X st"
  shows "grant_inv X st'"
  using assms
proof (cases rule: store_change.cases)
  case (change_grant grant)
  have "registration_scope grant \<notin> fst ` fst ` set (ms_grants st)"
    using change_grant(3) by (auto simp: list_ex_iff)
  then show ?thesis using assms(2) change_grant(1,2)
    by (auto simp: grant_inv_def update_scopes image_image simp del: map_map)
next
  case (change_revoke gk g)
  then have "gk \<in> fst ` set (ms_grants st)" by (metis map_of_eq_None_iff option.distinct(1))
  then show ?thesis using assms(2) change_revoke
    by (cases gk) (auto simp: grant_inv_def update_scopes)
next
  case (change_consume key i t g active hw d uses receipt)
  then have "(ck_scope key, xa_grant_id (ir_authorization i)) \<in> fst ` set (ms_grants st)"
    by (metis map_of_eq_None_iff option.distinct(1))
  then show ?thesis using assms(2) change_consume by (auto simp: grant_inv_def update_scopes)
qed (auto simp: grant_inv_def)

lemma validate_consumption_Ok:
  assumes "validate_consumption X active g i t hw = Ok d"
  shows "receipt_intact i (receipt_for i active t d)" "active = xa_authority (ir_authorization i)"
    "gs_uses g < cg_maximum_uses (gr_grant (gs_registration g))" "\<not> gs_revoked g"
  using assms by (auto simp: validate_consumption_def validate_current_grant_def and_then_Ok ensure_Ok
      Let_def receipt_intact_def receipt_for_def)

lemma control_linked_frozen:
  "ms_control_by_request st' = ms_control_by_request st \<Longrightarrow>
   ms_control_by_evaluation_nonce st' = ms_control_by_evaluation_nonce st \<Longrightarrow>
   ms_control_issuances st' = ms_control_issuances st \<Longrightarrow> control_linked st' = control_linked st"
  by (intro ext) (simp add: control_linked_def)

lemma key_of_issued:
  "key_of key = issued_key i \<Longrightarrow> ir_transaction_id i = ck_transaction_id key \<Longrightarrow> key = consume_key_of i"
  by (simp add: key_of_def issued_key_def consume_key_of_def)

lemma receipt_inv_change:
  assumes "store_change X inst st st'" "receipt_inv X st" "issued_inv X st"
  shows "receipt_inv X st'"
  using assms(1)
proof (cases rule: store_change.cases)
  case (change_observe scope t)
  then show ?thesis using assms(2) control_linked_frozen [of st' st]
    by (fastforce simp: receipt_inv_def result_simps)
next
  case (change_consume key i t g active hw d uses receipt)
  have "key_of key = issued_key i" using issued_invD(1) [OF assms(3)] change_consume(3) by simp
  then have k: "key = consume_key_of i" by (rule key_of_issued) (rule change_consume)
  have "receipt_intact i receipt" "cr_consumed_at receipt = t"
    using validate_consumption_Ok [OF change_consume(9)] change_consume by (simp_all add: receipt_for_def)
  then show ?thesis using assms(2) change_consume control_linked_frozen [of st' st]
    by (auto simp: receipt_inv_def k key_of_def)
next
  case (change_issue i g)
  have "ms_receipts st (issued_key i) = None"
    using assms(2) change_issue(6) unfolding receipt_inv_def
    by (metis option.distinct(1) option.exhaust)
  then show ?thesis using assms(2) change_issue control_linked_frozen [of st' st]
    by (auto simp: receipt_inv_def simp del: split_paired_All)
qed (use assms(2) control_linked_frozen [of st' st] in \<open>auto simp: receipt_inv_def\<close>)

lemma receipt_invD:
  assumes "receipt_inv X st" "ms_receipts st k = Some r"
  obtains i h where "ms_authorizations st k = Some i" "ms_outbox st k = Some (outbox_for (fst k) i r)"
    "receipt_intact i r" "key_validate (consume_key_of i) = Ok ()"
    "\<not> control_linked st (consume_key_of i) i" "ms_high_water st (fst k) = Some h" "cr_consumed_at r \<le> h"
  using assms unfolding receipt_inv_def by blast

lemma consumed_under_same:
  "ms_receipts st' = ms_receipts st \<Longrightarrow> ms_authorizations st' = ms_authorizations st
   \<Longrightarrow> consumed_under st' gk = consumed_under st gk"
  by (simp add: consumed_under_def)

lemma consumed_under_consume:
  assumes "ms_receipts st' = (ms_receipts st)(k \<mapsto> r)" "ms_authorizations st' = ms_authorizations st"
    "ms_authorizations st k = Some i"
  shows "consumed_under st' gk
    = (if gk = grant_key_of i then insert k (consumed_under st gk) else consumed_under st gk)"
  using assms by (auto simp: consumed_under_def)

lemma uses_inv_change:
  assumes "store_change X inst st st'" "uses_inv st" "receipt_inv X st" "issued_inv X st"
  shows "uses_inv st'"
  using assms(1)
proof (cases rule: store_change.cases)
  case (change_grant grant)
  let ?gk = "(registration_scope grant, cg_grant_id (gr_grant grant))"
  have "map_of (ms_grants st) ?gk = None"
    using change_grant(3) by (force simp: map_of_eq_None_iff list_ex_iff)
  then have "consumed_under st ?gk = {}"
    using issued_invD(5) [OF assms(4)] by (fastforce simp: consumed_under_def)
  then show ?thesis using assms(2) change_grant(1) consumed_under_same [of st' st]
    by (auto simp: uses_inv_def simp del: split_paired_All)
next
  case (change_revoke gk g)
  then show ?thesis using assms(2) consumed_under_same [of st' st]
    by (auto simp: uses_inv_def simp del: split_paired_All)
next
  case (change_issue i g)
  have "ms_receipts st (issued_key i) = None"
    using change_issue(6) receipt_invD [OF assms(3)] by (metis option.distinct(1) option.exhaust)
  then have "consumed_under st' gk = consumed_under st gk" for gk
    by (auto simp: consumed_under_def change_issue(1))
  then show ?thesis using assms(2) change_issue(1) by (simp add: uses_inv_def)
next
  case (change_consume key i t g active hw d uses receipt)
  let ?gk = "(ck_scope key, xa_grant_id (ir_authorization i))"
  have gk: "?gk = grant_key_of i"
    using issued_invD(1) [OF assms(4) change_consume(3)]
    by (simp add: grant_key_of_def key_of_def issued_key_def)
  have fin: "finite (consumed_under st ?gk)"
    using assms(2) by (auto simp: uses_inv_def consumed_under_def dom_def intro: rev_finite_subset)
  have new: "key_of key \<notin> consumed_under st ?gk" using change_consume(6) by (simp add: consumed_under_def)
  have less: "gs_uses g < cg_maximum_uses (gr_grant (gs_registration g))"
    by (rule validate_consumption_Ok(3) [OF change_consume(9)])
  have u: "unat uses = unat (gs_uses g) + 1"
    using change_consume(10) by (auto simp: u32_checked_add_def unat_word_ariths split: if_splits)
  have bound: "uses \<le> cg_maximum_uses (gr_grant (gs_registration g))"
    using less u by (simp add: word_le_nat_alt word_less_nat_alt)
  have "unat (gs_uses g) = card (consumed_under st ?gk)"
    using assms(2) change_consume(8) by (auto simp: uses_inv_def simp del: split_paired_All)
  then have "unat uses = card (insert (key_of key) (consumed_under st ?gk))"
    using fin new u by simp
  moreover have "consumed_under st' k
      = (if k = ?gk then insert (key_of key) (consumed_under st k) else consumed_under st k)" for k
    unfolding gk by (rule consumed_under_consume) (use change_consume in simp_all)
  ultimately show ?thesis
    using assms(2) bound by (auto simp: uses_inv_def change_consume(1) simp del: split_paired_All)
qed (use assms(2) consumed_under_same [of st' st] in \<open>simp_all add: uses_inv_def\<close>)

lemma map_le_Some: "m \<subseteq>\<^sub>m m' \<Longrightarrow> m k = Some v \<Longrightarrow> m' k = Some v"
  by (metis domI map_le_def)

text \<open>A claim stays backed when the facts it rests on only grow.\<close>

lemma claim_backed_mono:
  assumes "claim_backed inst st k c" "mc_token c' = mc_token c"
    "ms_authorizations st \<subseteq>\<^sub>m ms_authorizations st'" "ms_receipts st \<subseteq>\<^sub>m ms_receipts st'"
    "ms_physical_reservations st \<subseteq>\<^sub>m ms_physical_reservations st'"
    "ms_dispatch_claim_ids st \<subseteq>\<^sub>m ms_dispatch_claim_ids st'"
    "ms_next_dispatch_fence st \<le> ms_next_dispatch_fence st'"
    "\<And>scope h. ms_high_water st scope = Some h \<Longrightarrow> \<exists>h'. ms_high_water st' scope = Some h' \<and> h \<le> h'"
  shows "claim_backed inst st' k c'"
proof -
  obtain i r h where *: "ms_authorizations st k = Some i" "ms_receipts st k = Some r"
    "tk_key (mc_token c) = consume_key_of i" "k = key_of (tk_key (mc_token c))"
    "claim_in_window inst (mc_token c) r"
    "from_authorization (ir_authorization i) = Ok (tk_physical_resource (mc_token c))"
    "ms_high_water st (fst k) = Some h" "tk_claimed_at (mc_token c) \<le> h"
    using assms(1) unfolding claim_backed_def Let_def by blast
  obtain h' where h': "ms_high_water st' (fst k) = Some h'" "h \<le> h'"
    using assms(8) *(7) by blast
  have "ms_authorizations st' k = Some i" "ms_receipts st' k = Some r"
    using * assms(3,4) by (auto intro: map_le_Some)
  moreover have "ms_physical_reservations st' (tk_physical_resource (mc_token c)) = Some k"
    "ms_dispatch_claim_ids st' (tk_claim_id (mc_token c)) = Some k"
    "tk_fence (mc_token c) \<le> ms_next_dispatch_fence st'"
    using assms(1,5,6,7) by (auto simp: claim_backed_def Let_def intro: map_le_Some)
  ultimately show ?thesis using * h' order.trans [OF *(8) h'(2)]
    unfolding claim_backed_def Let_def assms(2) by blast
qed

text \<open>Every change only extends the facts that claims rest on.\<close>

lemma change_extends_maps:
  "store_change X inst st st' \<Longrightarrow> ms_authorizations st \<subseteq>\<^sub>m ms_authorizations st'
   \<and> ms_receipts st \<subseteq>\<^sub>m ms_receipts st' \<and> ms_transactions st \<subseteq>\<^sub>m ms_transactions st'
   \<and> ms_physical_reservations st \<subseteq>\<^sub>m ms_physical_reservations st'
   \<and> ms_dispatch_claim_ids st \<subseteq>\<^sub>m ms_dispatch_claim_ids st'"
  by (induction rule: store_change.induct) (auto simp: map_le_def)

lemma change_high_water:
  "store_change X inst st st' \<Longrightarrow> ms_high_water st scope = Some h \<Longrightarrow>
   \<exists>h'. ms_high_water st' scope = Some h' \<and> h \<le> h'"
  by (induction rule: store_change.induct) (auto simp: result_simps)

lemma change_fence: "store_change X inst st st' \<Longrightarrow> ms_next_dispatch_fence st \<le> ms_next_dispatch_fence st'"
  by (induction rule: store_change.induct) (auto dest: u64_checked_succ_less)

lemma change_control: "store_change X inst st st' \<Longrightarrow> control_linked st' = control_linked st"
  by (induction rule: store_change.induct) (rule control_linked_frozen; simp)+

lemmas change_extends = change_extends_maps change_high_water change_fence

lemma claim_inv_change:
  assumes "store_change X inst st st'" "claim_inv inst st" "issued_inv X st"
  shows "claim_inv inst st'"
proof -
  have keep: "claim_backed inst st' k c'"
    if "ms_dispatch_claims st k = Some c" "mc_token c' = mc_token c" for k c c'
    using that assms(2) change_extends [OF assms(1)]
    by (intro claim_backed_mono [of inst st k c c' st']) (auto simp: claim_inv_def simp del: split_paired_All)
  have fence: "tk_fence (mc_token c) \<le> ms_next_dispatch_fence st" if "ms_dispatch_claims st k = Some c" for k c
    using that assms(2) by (auto simp: claim_inv_def claim_backed_def Let_def simp del: split_paired_All)
  from assms(1) show ?thesis
  proof (cases rule: store_change.cases)
    case (change_claim key i receipt token a)
    have "key_of key = issued_key i" by (rule issued_invD(1) [OF assms(3) change_claim(2)])
    then have "key = consume_key_of i" by (rule key_of_issued) (rule change_claim)
    then have "claim_backed inst st' (key_of key) (new_dispatch_claim token)"
      using change_claim
      by (auto simp: claim_backed_def new_dispatch_claim_def consume_key_of_def key_of_def)
    moreover have "tk_fence (mc_token c) \<noteq> tk_fence token" if "ms_dispatch_claims st k = Some c" for k c
      using fence [OF that] u64_checked_succ_less [OF change_claim(13)] by simp
    moreover have "ms_dispatch_claims st' = (ms_dispatch_claims st)(key_of key \<mapsto> new_dispatch_claim token)"
      using change_claim(1) by simp
    moreover have "mc_token (new_dispatch_claim token) = token" by (simp add: new_dispatch_claim_def)
    ultimately show ?thesis
      using assms(2) keep unfolding claim_inv_def by (simp del: split_paired_All) metis
  next
    case (change_attempt k claim credential t acquisition)
    show ?thesis
      using assms(2) keep change_attempt(1,2) unfolding claim_inv_def
      by (auto simp del: split_paired_All)
  qed (use assms(2) keep in \<open>auto simp: claim_inv_def simp del: split_paired_All\<close>)
qed

lemma attempt_inv_change:
  assumes "store_change X inst st st'" "attempt_inv st" "claim_inv inst st"
  shows "attempt_inv st'"
  using assms(1)
proof (cases rule: store_change.cases)
  case (change_claim key i receipt token a)
  then show ?thesis using assms(2)
    by (auto simp: attempt_inv_def new_dispatch_claim_def simp del: split_paired_All)
next
  case (change_attempt k claim credential t acquisition)
  have "tk_claimed_at (mc_token claim) \<le> t"
    using assms(3) change_attempt(2,5)
    by (fastforce simp: claim_inv_def claim_backed_def Let_def simp del: split_paired_All)
  then show ?thesis using assms(2) change_attempt
    by (auto simp: attempt_inv_def simp del: split_paired_All)
qed (use assms(2) in \<open>auto simp: attempt_inv_def simp del: split_paired_All\<close>)

lemma store_inv_change: "store_change X inst st st' \<Longrightarrow> store_inv X inst st \<Longrightarrow> store_inv X inst st'"
  unfolding store_inv_def
  by (blast intro: issued_inv_change grant_inv_change receipt_inv_change uses_inv_change
      claim_inv_change attempt_inv_change)

lemma store_inv_init: "store_init st \<Longrightarrow> store_inv X inst st"
  unfolding store_init_def
  by (erule ssubst) (simp add: store_inv_def memory_default_def issued_inv_def grant_inv_def receipt_inv_def
      uses_inv_def claim_inv_def attempt_inv_def)

section \<open>Reachable stores\<close>

interpretation store: invariant_system store_init "store_change X inst" "store_inv X inst" for X inst
  by unfold_locales (auto intro: store_inv_init store_inv_change)

abbreviation store_reachable :: "control_lineage \<Rightarrow> externals \<Rightarrow> uuid \<Rightarrow> MemoryState \<Rightarrow> bool" where
  "store_reachable lineage X inst \<equiv> reach store_init (store_step lineage X inst)"

lemma reachable_inv: "store_reachable lineage X inst st \<Longrightarrow> store_inv X inst st"
  using store.reach_inv store_run_changes unfolding reach_def by blast

end
