(* ===== verification/Store_Safety.thy ===== *)
theory Store_Safety
  imports Store_Invariants
begin

text \<open>
  What the store keeps along every run: authorizations, receipts and grant registrations are
  never changed, revocation is permanent, the clock mark and the authority only move forward.
\<close>

section \<open>Values that never change\<close>

interpretation authorizations: frozen_value "store_change X inst" ms_authorizations for X inst
  by unfold_locales (blast dest: change_extends_maps intro: map_le_Some)

interpretation receipts: frozen_value "store_change X inst" ms_receipts for X inst
  by unfold_locales (blast dest: change_extends_maps intro: map_le_Some)

definition grant_registered :: "MemoryState \<Rightarrow> authorization_key \<Rightarrow> GrantRegistration option" where
  "grant_registered st gk = map_option gs_registration (map_of (ms_grants st) gk)"

definition grant_revoked :: "MemoryState \<Rightarrow> authorization_key \<Rightarrow> unit option" where
  "grant_revoked st gk = (case map_of (ms_grants st) gk of
     Some g \<Rightarrow> if gs_revoked g then Some () else None | None \<Rightarrow> None)"

lemma new_grant_key:
  "\<not> list_ex (\<lambda>((s, _), _). s = scope) gs \<Longrightarrow> map_of gs (scope, i) = None"
  by (force simp: map_of_eq_None_iff list_ex_iff)

interpretation registrations: frozen_value "store_change X inst" grant_registered for X inst
proof
  fix st st' gk r
  assume "store_change X inst st st'" "grant_registered st gk = Some r"
  then show "grant_registered st' gk = Some r"
    by (induction rule: store_change.induct) (auto simp: grant_registered_def new_grant_key)
qed

interpretation revocations: frozen_value "store_change X inst" grant_revoked for X inst
proof
  fix st st' gk u
  assume "store_change X inst st st'" "grant_revoked st gk = Some u"
  then show "grant_revoked st' gk = Some u"
    by (induction rule: store_change.induct)
      (auto simp: grant_revoked_def new_grant_key split: option.splits if_splits)
qed

lemma run_high_water:
  assumes "changes X inst st st'" "ms_high_water st scope = Some h"
  shows "\<exists>h'. ms_high_water st' scope = Some h' \<and> h \<le> h'"
  using assms
proof (induction rule: rtranclp_induct)
  case (step st1 st2)
  then obtain h1 where "ms_high_water st1 scope = Some h1" "h \<le> h1" by blast
  with change_high_water [OF step.hyps(2)] show ?case by (meson order.trans)
qed auto

section \<open>Authority\<close>

definition domain_le :: "AuthorityDomainState \<Rightarrow> AuthorityDomainState \<Rightarrow> bool" where
  "domain_le old new \<longleftrightarrow> new = old \<or> ads_epoch old < ads_epoch new"

definition authority_le :: "AuthorityVector \<Rightarrow> AuthorityVector \<Rightarrow> bool" where
  "authority_le a b \<longleftrightarrow> list_all2 domain_le (domains a) (domains b)"

lemma domain_le_trans: "domain_le a b \<Longrightarrow> domain_le b c \<Longrightarrow> domain_le a c"
  by (auto simp: domain_le_def)

lemma domain_le_antisym: "domain_le a b \<Longrightarrow> domain_le b a \<Longrightarrow> a = b"
  by (auto simp: domain_le_def)

lemma authority_le_refl [simp]: "authority_le a a"
  by (simp add: authority_le_def domain_le_def list_all2_same)

lemma authority_le_trans: "authority_le a b \<Longrightarrow> authority_le b c \<Longrightarrow> authority_le a c"
  unfolding authority_le_def by (rule list_all2_trans [of domain_le domain_le domain_le])
    (auto intro: domain_le_trans)

lemma authority_le_antisym: "authority_le a b \<Longrightarrow> authority_le b a \<Longrightarrow> a = b"
proof -
  assume "authority_le a b" "authority_le b a"
  then have "domains a = domains b"
    unfolding authority_le_def by (rule list_all2_antisym [of domain_le domain_le, rotated])
      (auto intro: domain_le_antisym)
  then show "a = b" by (cases a; cases b) (simp add: domains_def)
qed

lemma ensure_monotone_authority_le:
  "ensure_monotone_authority a b = Ok u \<Longrightarrow> authority_le a b"
  by (auto simp: ensure_monotone_authority_def and_then_Ok ensure_Ok authority_le_def domains_def
      domain_regresses_def domain_le_def not_less not_le)

lemma run_authority:
  assumes "changes X inst st st'" "ms_authorities st scope = Some a"
  shows "\<exists>a'. ms_authorities st' scope = Some a' \<and> authority_le a a'"
  using assms
proof (induction rule: rtranclp_induct)
  case (step st1 st2)
  then obtain a1 where a1: "ms_authorities st1 scope = Some a1" "authority_le a a1" by blast
  from step.hyps(2) have "\<exists>a2. ms_authorities st2 scope = Some a2 \<and> authority_le a1 a2"
    using a1(1) by (induction rule: store_change.induct) (auto intro: ensure_monotone_authority_le)
  with a1(2) show ?case by (blast intro: authority_le_trans)
qed auto

section \<open>One grant per scope\<close>

lemma one_grant_per_scope:
  assumes "grant_inv X st" "map_of (ms_grants st) (scope, a) = Some g" "map_of (ms_grants st) (scope, b) = Some g'"
  shows "a = b"
proof -
  have "((scope, a), g) \<in> set (ms_grants st)" "((scope, b), g') \<in> set (ms_grants st)"
    using assms(2,3) by (auto dest: map_of_SomeD)
  moreover have "inj_on (fst \<circ> fst) (set (ms_grants st))"
    using assms(1) by (simp add: grant_inv_def distinct_map)
  ultimately have "((scope, a), g) = ((scope, b), g')"
    by (auto dest!: inj_onD [of _ _ "((scope, a), g)" "((scope, b), g')"])
  then show ?thesis by simp
qed

lemma receipts_under_grant:
  assumes "store_inv X inst st" "map_of (ms_grants st) (scope, gid) = Some g"
  shows "consumed_under st (scope, gid) = {k. fst k = scope \<and> ms_receipts st k \<noteq> None}"
proof -
  have inv: "issued_inv X st" "grant_inv X st" "receipt_inv X st"
    using assms(1) by (simp_all add: store_inv_def)
  have "\<exists>i. ms_authorizations st k = Some i \<and> grant_key_of i = (scope, gid)"
    if k: "fst k = scope" and r: "ms_receipts st k = Some r" for k r
  proof -
    obtain i where i: "ms_authorizations st k = Some i" using receipt_invD [OF inv(3) r] by blast
    from issued_invD(5,1) [OF inv(1) i] obtain g' where
      "map_of (ms_grants st) (grant_key_of i) = Some g'" "k = issued_key i" by blast
    with k have "map_of (ms_grants st) (scope, xa_grant_id (ir_authorization i)) = Some g'"
      by (auto simp: grant_key_of_def issued_key_def)
    from one_grant_per_scope [OF inv(2) this assms(2)] i k show ?thesis
      using \<open>k = issued_key i\<close> by (auto simp: grant_key_of_def issued_key_def)
  qed
  moreover have "fst k = scope" if "ms_authorizations st k = Some i" "grant_key_of i = (scope, gid)" for k i
    using issued_invD(1) [OF inv(1) that(1)] that(2) by (simp add: grant_key_of_def issued_key_def)
  ultimately show ?thesis by (auto simp: consumed_under_def)
qed

section \<open>Consumption\<close>

lemma not_linked_no_owner:
  assumes "\<not> control_linked st (consume_key_of i) i"
  shows "memory_control_owner_for_authorization st i = Ok None"
proof -
  have "filter (\<lambda>(_, stored). stored = i) (ms_control_issuances st) = []"
    using assms by (auto simp: filter_empty_conv control_linked_def consume_key_of_def list_ex_iff)
  then show ?thesis using assms
    by (simp add: memory_control_owner_for_authorization_def control_linked_def consume_key_of_def
        map_filter_def)
qed

lemma key_of_consume_key [simp]: "key_of (consume_key_of i) = issued_key i"
  by (simp add: key_of_def consume_key_of_def issued_key_def)

text \<open>A stored receipt is always recovered as it was returned.\<close>

lemma recover_consumed:
  assumes "store_inv X inst st" "ms_authorizations st (issued_key i) = Some i"
    "ms_receipts st (issued_key i) = Some r"
  shows "recover_exact lineage X (consume_key_of i) st
    = Ok \<lparr>ok_receipt = r, ok_outbox = outbox_for (issued_scope i) i r, ok_issued = i\<rparr>"
proof -
  have inv: "issued_inv X st" "receipt_inv X st" using assms(1) by (simp_all add: store_inv_def)
  have o: "ms_outbox st (issued_key i) = Some (outbox_for (issued_scope i) i r)"
    and r: "receipt_intact i r" and k: "key_validate (consume_key_of i) = Ok ()"
    and c: "memory_control_owner_for_authorization st i = Ok None"
    using receipt_invD [OF inv(2) assms(3)] assms(2) not_linked_no_owner
    by (auto simp: issued_key_def)
  note i = issued_invD [OF inv(1) assms(2)]
  have "validate_recovered_consumption X (consume_key_of i) i r (outbox_for (issued_scope i) i r)
      = Ok \<lparr>ok_receipt = r, ok_outbox = outbox_for (issued_scope i) i r, ok_issued = i\<rparr>"
  proof -
    obtain t d where td: "r = receipt_for i (xa_authority (ir_authorization i)) t d"
      and d: "compute_dispatch_deadline t (xa_consume_before (ir_authorization i))
        (xa_dispatch_deadline_policy (ir_authorization i)) = Ok d"
      and w: "xa_not_before (ir_authorization i) \<le> t" "t < xa_consume_before (ir_authorization i)"
      using r by (auto simp: receipt_intact_def Let_def)
    show ?thesis unfolding validate_recovered_consumption_def td
      using d w i(3) k by (simp add: receipt_for_def outbox_for_def consume_key_of_def Let_def)
  qed
  then show ?thesis
    using i(2) assms(2,3) k c o
    by (simp add: recover_exact_def validate_memory_control_consumption_lineage_if_owned_def
        consume_key_of_def issued_key_def)
qed

lemma consume_again:
  assumes "store_inv X inst st" "ms_authorizations st (issued_key i) = Some i"
    "ms_receipts st (issued_key i) = Some r"
  shows "consume X (consume_key_of i) clock st = (Err AlreadyConsumed, st)"
proof -
  have inv: "issued_inv X st" "receipt_inv X st" using assms(1) by (simp_all add: store_inv_def)
  have "key_validate (consume_key_of i) = Ok ()" "\<not> control_linked st (consume_key_of i) i"
    using receipt_invD [OF inv(2) assms(3)] assms(2) by auto
  then show ?thesis
    using issued_invD(2) [OF inv(1) assms(2)] assms(2,3)
    by (simp add: consume_def try_q_def consume_key_of_def issued_key_def)
qed

text \<open>What an accepted consumption read and wrote.\<close>

lemma consume_Ok:
  assumes "consume X key clock st = (Ok s, st')"
  obtains i active g t d where "ms_authorizations st (key_of key) = Some i"
    "ir_transaction_id i = ck_transaction_id key" "clock = Ok t" "ms_receipts st (key_of key) = None"
    "ms_authorities st (ck_scope key) = Some active"
    "map_of (ms_grants st) (ck_scope key, xa_grant_id (ir_authorization i)) = Some g"
    "validate_consumption X active g i t (ms_high_water st (ck_scope key)) = Ok d"
    "ms_authorizations st' = ms_authorizations st"
    "ms_receipts st' (key_of key) = Some (receipt_for i active t d)"
    "s = \<lparr>ok_receipt = receipt_for i active t d,
        ok_outbox = outbox_for (ck_scope key) i (receipt_for i active t d), ok_issued = i\<rparr>"
  using assms unfolding consume_def Let_def key_of_def
  by (auto simp: try_q_Ok or_observe_Ok ensure_Ok ok_or_Ok)

lemma reachable_run:
  "store_reachable lineage X inst st \<Longrightarrow> (store_step lineage X inst)\<^sup>*\<^sup>* st st'
   \<Longrightarrow> store_inv X inst st'"
  by (blast intro: reach_run reachable_inv)

lemma reachable_step_run:
  "store_reachable lineage X inst st \<Longrightarrow> store_step lineage X inst st st1 \<Longrightarrow>
   (store_step lineage X inst)\<^sup>*\<^sup>* st1 st2 \<Longrightarrow> store_inv X inst st2"
  by (blast intro: reach_step reachable_run)

section \<open>What the gates require\<close>

lemma is_Ok_fst: "is_Ok (fst e) \<longleftrightarrow> (\<exists>x st. e = (Ok x, st))"
  by (cases e) (auto simp: is_Ok_def)


text \<open>The facts a successful operation on a scope has checked: its grant is live and the active
  authority is the one the authorization was signed under.\<close>

definition scope_open :: "MemoryState \<Rightarrow> Scope \<Rightarrow> AuthorityVector \<Rightarrow> bool" where
  "scope_open st scope authority \<longleftrightarrow> ms_authorities st scope = Some authority
     \<and> (\<exists>gid g. map_of (ms_grants st) (scope, gid) = Some g \<and> \<not> gs_revoked g)"

lemma consume_scope_open:
  "consume X key clock st = (Ok s, st') \<Longrightarrow>
   \<exists>i. ms_authorizations st (key_of key) = Some i \<and> scope_open st (ck_scope key) (xa_authority (ir_authorization i))"
  by (elim consume_Ok) (auto simp: scope_open_def dest: validate_consumption_Ok)

lemma snapshot_scope_open:
  "snapshot_of X st key t s \<Longrightarrow>
   \<exists>i. ms_authorizations st (key_of key) = Some i \<and> scope_open st (ck_scope key) (xa_authority (ir_authorization i))"
  by (auto simp: snapshot_of_def scope_open_def)

lemma dispatch_snapshot_Ok:
  "dispatch_snapshot lineage X key clock st = (Ok s, st') \<Longrightarrow> \<exists>t. clock = Ok t \<and> snapshot_of X st key t s"
  by (auto simp: dispatch_snapshot_def try_q_Ok dest: snapshot_with_high_water_Ok)

lemma claim_dispatch_Ok:
  "claim_dispatch lineage X inst request clock st = (Ok c, st') \<Longrightarrow>
   \<exists>t. clock = Ok t \<and> snapshot_of X st (cl_key request) t (cd_snapshot c)
     \<and> ms_dispatch_claims st (key_of (cl_key request)) = None
     \<and> tk_key (cd_token c) = cl_key request
     \<and> ms_dispatch_claims st' (key_of (cl_key request)) = Some (new_dispatch_claim (cd_token c))"
  unfolding claim_dispatch_def Let_def
  by (auto simp: try_q_Ok with_snapshot_Ok ensure_Ok ok_or_Ok key_of_def split: option.splits
      dest!: snapshot_with_high_water_Ok(3))

lemma revalidate_Ok:
  "revalidate_dispatch_claim lineage X inst token clock st = (Ok s, st') \<Longrightarrow>
   \<exists>t. clock = Ok t \<and> snapshot_of X st (tk_key token) t s \<and> t < tk_lease_until token
     \<and> (\<exists>c. require_live_claim inst st token = Ok c)"
  unfolding revalidate_dispatch_claim_def
  by (auto simp: try_q_Ok with_snapshot_Ok ensure_Ok ok_or_Ok dest!: snapshot_with_high_water_Ok(3))

lemma mark_attempt_Ok:
  "mark_attempt_in_flight lineage X inst token credential clock st = (Ok f, st') \<Longrightarrow>
   \<exists>t. clock = Ok t \<and> snapshot_of X st (tk_key token) t (af_snapshot f) \<and> t < tk_lease_until token
     \<and> af_started_at f = t \<and> (\<exists>c. require_live_claim inst st token = Ok c)
     \<and> (\<exists>c. ms_dispatch_claims st' (key_of (tk_key token)) = Some c \<and> mc_attempt_started_at c = Some t)"
  unfolding mark_attempt_in_flight_def Let_def
  by (auto simp: try_q_Ok with_snapshot_Ok ensure_Ok ok_or_Ok attempt_in_flight_new_def key_of_def
      dest!: snapshot_with_high_water_Ok(3))

text \<open>A started attempt and its claim are never changed.\<close>

definition attempt_of :: "MemoryState \<Rightarrow> authorization_key \<Rightarrow> (DispatchClaimToken \<times> i64) option" where
  "attempt_of st k = (case ms_dispatch_claims st k of
     Some c \<Rightarrow> (case mc_attempt_started_at c of
       Some t \<Rightarrow> if mc_state c = AttemptInFlightState then Some (mc_token c, t) else None | None \<Rightarrow> None)
   | None \<Rightarrow> None)"

interpretation attempts: frozen_value "store_change X inst" attempt_of for X inst
proof
  fix st st' k v
  assume "store_change X inst st st'" "attempt_of st k = Some v"
  then show "attempt_of st' k = Some v"
    by (induction rule: store_change.induct) (auto simp: attempt_of_def split: option.splits if_splits)
qed

text \<open>The token of a claim is never changed.\<close>

definition token_of :: "MemoryState \<Rightarrow> authorization_key \<Rightarrow> DispatchClaimToken option" where
  "token_of st k = map_option mc_token (ms_dispatch_claims st k)"

interpretation tokens: frozen_value "store_change X inst" token_of for X inst
proof
  fix st st' k v
  assume "store_change X inst st st'" "token_of st k = Some v"
  then show "token_of st' k = Some v"
    by (induction rule: store_change.induct) (auto simp: token_of_def)
qed

text \<open>A claim is granted only for a free resource and an unused identifier, under a new fence.\<close>

lemma claim_dispatch_free:
  assumes "claim_dispatch lineage X inst request clock st = (Ok c, st')"
  shows "ms_physical_reservations st (tk_physical_resource (cd_token c)) = None"
    "ms_dispatch_claim_ids st (tk_claim_id (cd_token c)) = None"
    "ms_next_dispatch_fence st < tk_fence (cd_token c)"
  using assms unfolding claim_dispatch_def Let_def
  by (auto simp: try_q_Ok with_snapshot_Ok ensure_Ok ok_or_Ok set_high_water_def split: option.splits
      dest!: snapshot_with_high_water_Ok(1) intro: u64_checked_succ_less)

lemma mark_attempt_started:
  assumes "mark_attempt_in_flight lineage X inst token credential clock st = (Ok f, st')"
  shows "attempt_of st' (key_of (tk_key token)) = Some (token, af_started_at f)"
proof -
  have "memory_dispatch_snapshot_with_high_water lineage X st key t = (Ok s, st1)
      \<Longrightarrow> ms_dispatch_claims st1 = ms_dispatch_claims st" for key t s st1
    by (drule snapshot_with_high_water_Ok(1)) simp
  then show ?thesis using assms unfolding mark_attempt_in_flight_def Let_def
    by (auto simp: try_q_Ok with_snapshot_Ok ensure_Ok ok_or_Ok attempt_of_def require_live_claim_Ok key_of_def
        attempt_in_flight_new_def memory_dispatch_acquisition_authority_def)
qed

text \<open>One revoked grant closes its scope.\<close>

lemma revoked_scope:
  assumes "grant_inv X st" "grant_revoked st (scope, grant_id) = Some ()"
  shows "\<not> scope_open st scope a" "list_ex (\<lambda>((s, _), _). s = scope) (ms_grants st)"
    "map_of (ms_grants st) (scope, gid) = Some g \<Longrightarrow> validate_current_grant X a g t \<noteq> Ok ()"
proof -
  from assms(2) obtain g0 where g: "map_of (ms_grants st) (scope, grant_id) = Some g0" "gs_revoked g0"
    by (auto simp: grant_revoked_def split: option.splits if_splits)
  have closed: "gs_revoked g'" if "map_of (ms_grants st) (scope, gid') = Some g'" for gid' g'
    using one_grant_per_scope [OF assms(1) that g(1)] that g by simp
  then show "\<not> scope_open st scope a" by (auto simp: scope_open_def)
  have "((scope, grant_id), g0) \<in> set (ms_grants st)" using g(1) by (rule map_of_SomeD)
  then show "list_ex (\<lambda>((s, _), _). s = scope) (ms_grants st)" by (force simp: list_ex_iff)
  show "validate_current_grant X a g t \<noteq> Ok ()" if "map_of (ms_grants st) (scope, gid) = Some g"
    using closed [OF that] by (auto simp: validate_current_grant_def and_then_Ok ensure_Ok Let_def)
qed

section \<open>When a consumption is accepted\<close>

lemma issued_validate_policy:
  "issued_validate X i = Ok () \<Longrightarrow> is_Ok (validate_deadline_policy (xa_dispatch_deadline_policy (ir_authorization i)))"
  unfolding issued_validate_def Let_def by (auto simp: and_then_Ok simp del: validate_deadline_policy_Ok)

lemma deadline_bounds_weaken:
  "list_all (\<lambda>b. t < b) (deadline_bounds t cb p) \<Longrightarrow> cb \<le> cb' \<Longrightarrow> list_all (\<lambda>b. t < b) (deadline_bounds t cb' p)"
  by (auto simp: deadline_bounds_def)

lemma validate_consumption_iff:
  assumes "issued_validate X i = Ok ()" "registration_validate X (gs_registration g) = Ok ()"
    "validate_grant_for_authorization (gs_registration g) (ir_authorization i) = Ok ()"
  shows "is_Ok (validate_consumption X active g i t hw) \<longleftrightarrow>
    active = xa_authority (ir_authorization i) \<and> \<not> gs_revoked g
    \<and> gs_uses g < cg_maximum_uses (gr_grant (gs_registration g))
    \<and> check_clock t hw = Ok () \<and> xa_not_before (ir_authorization i) \<le> t
    \<and> i64_ok (t + dp_max_dispatch_delay_seconds (xa_dispatch_deadline_policy (ir_authorization i)))
    \<and> list_all (\<lambda>b. t < b) (deadline_bounds t (xa_consume_before (ir_authorization i))
        (xa_dispatch_deadline_policy (ir_authorization i)))"
    (is "_ \<longleftrightarrow> ?spec")
proof -
  let ?a = "ir_authorization i" and ?r = "gs_registration g"
  have m: "gr_authority ?r = xa_authority ?a" "gr_dispatch_deadline_policy ?r = xa_dispatch_deadline_policy ?a"
    "cg_not_before (gr_grant ?r) \<le> xa_not_before ?a" "xa_consume_before ?a \<le> cg_expires_at (gr_grant ?r)"
    using assms(3) by (auto simp: validate_grant_for_authorization_def ensure_Ok Let_def)
  have "is_Ok (compute_dispatch_deadline t cb (xa_dispatch_deadline_policy ?a)) \<longleftrightarrow>
      0 \<le> t \<and> i64_ok (t + dp_max_dispatch_delay_seconds (xa_dispatch_deadline_policy ?a))
      \<and> list_all (\<lambda>b. t < b) (deadline_bounds t cb (xa_dispatch_deadline_policy ?a))" for cb
    using issued_validate_policy [OF assms(1)] by (auto simp: is_Ok_def compute_dispatch_deadline_Ok)
  note deadline = this [unfolded is_Ok_def]
  show ?thesis
  proof
    assume "is_Ok (validate_consumption X active g i t hw)"
    then obtain d where "validate_consumption X active g i t hw = Ok d" by (auto simp: is_Ok_def)
    then show ?spec
      using deadline [of "xa_consume_before ?a"]
      by (auto simp: validate_consumption_def validate_current_grant_def and_then_Ok ensure_Ok Let_def not_less not_le)
  next
    assume spec: ?spec
    then have w: "t < xa_consume_before ?a" by (simp add: deadline_bounds_def)
    have "0 \<le> t" using spec by (simp add: check_clock_Ok)
    then obtain d d' where "compute_dispatch_deadline t (xa_consume_before ?a) (xa_dispatch_deadline_policy ?a) = Ok d"
      "compute_dispatch_deadline t (cg_expires_at (gr_grant ?r)) (xa_dispatch_deadline_policy ?a) = Ok d'"
      using deadline spec deadline_bounds_weaken [OF _ m(4)] by blast
    then show "is_Ok (validate_consumption X active g i t hw)"
      using spec m w assms \<open>0 \<le> t\<close>
      by (auto simp: is_Ok_def validate_consumption_def validate_current_grant_def and_then_Ok ensure_Ok Let_def)
  qed
qed

section \<open>Final rejections\<close>

text \<open>Rejections for this sample that no later sample can undo.\<close>

fun expired_at :: "StateError \<Rightarrow> i64 \<Rightarrow> bool" where
  "expired_at (AuthorizationExpired observed _) t = (observed = t)"
| "expired_at (GrantExpired observed _) t = (observed = t)"
| "expired_at (DependencyExpired observed _) t = (observed = t)"
| "expired_at (EmptyDispatchWindow observed _) t = (observed = t)"
| "expired_at _ t = False"

lemma expired_is_temporal: "expired_at e t \<Longrightarrow> is_temporal_rejection_for_sample e t"
  by (cases e) auto

lemma and_then_Err: "and_then r f = Err e \<longleftrightarrow> r = Err e \<or> (\<exists>x. r = Ok x \<and> f x = Err e)"
  by (cases r) simp_all

lemma ok_or_Err: "ok_or v e = Err e' \<longleftrightarrow> v = None \<and> e' = e"
  by (cases v) auto

lemma try_q_Err: "try_q r st f = (Err e, st') \<longleftrightarrow> r = Err e \<and> st' = st \<or> (\<exists>x. r = Ok x \<and> f x = (Err e, st'))"
  by (cases r) (auto simp: try_q_def)

lemma or_observe_Err: "or_observe r scope t st f = (Err e, st') \<longleftrightarrow>
    r = Err e \<and> st' = (if is_temporal_rejection_for_sample e t then set_high_water scope t st else st)
    \<or> (\<exists>x. r = Ok x \<and> f x = (Err e, st'))"
  by (cases r) (auto simp: or_observe_def)

lemma validate_deadline_policy_Err:
  "validate_deadline_policy p = Err e \<Longrightarrow> \<not> expired_at e t"
  by (auto simp: validate_deadline_policy_def and_then_Err ensure_Err)

lemma expiry_loop_Err: "list_all (\<lambda>b. t < b) es \<Longrightarrow> expiry_loop t d es \<noteq> Err e"
  by (induction es arbitrary: d) auto

lemma compute_deadline_not_expired:
  assumes "list_all (\<lambda>b. t < b) (deadline_bounds t cb p)" "compute_dispatch_deadline t cb p = Err e"
  shows "\<not> expired_at e t"
proof
  assume x: "expired_at e t"
  have b: "t < cb" "t < dp_profile_hard_cap p" "list_all (\<lambda>b. t < b) (dp_immutable_dependency_expiries p)"
    "t < t + dp_max_dispatch_delay_seconds p"
    using assms(1) by (simp_all add: deadline_bounds_def)
  from assms(2) x obtain d where "expiry_loop t (min (min (t + dp_max_dispatch_delay_seconds p) cb) (dp_profile_hard_cap p))
      (dp_immutable_dependency_expiries p) = Ok d" "d \<le> t"
    using b expiry_loop_Err [OF b(3)]
    by (auto simp: compute_dispatch_deadline_def and_then_Err ensure_Err ok_or_Err ok_or_Ok i64_checked_add_Some
        dest: validate_deadline_policy_Err)
  then have "fold min (dp_immutable_dependency_expiries p)
      (min (min (t + dp_max_dispatch_delay_seconds p) cb) (dp_profile_hard_cap p)) \<le> t"
    by (simp add: expiry_loop_Ok)
  moreover have "t < fold min es m" if "t < m" "list_all (\<lambda>b. t < b) es" for m es
    using that by (induction es arbitrary: m) auto
  ultimately show False using b by (meson leD min_less_iff_conj)
qed

lemma validate_consumption_not_expired:
  assumes "issued_validate X i = Ok ()" "registration_validate X (gs_registration g) = Ok ()"
    "validate_grant_for_authorization (gs_registration g) (ir_authorization i) = Ok ()"
    "list_all (\<lambda>b. t < b) (deadline_bounds t (xa_consume_before (ir_authorization i))
        (xa_dispatch_deadline_policy (ir_authorization i)))"
    "validate_consumption X active g i t hw = Err e"
  shows "\<not> expired_at e t"
proof -
  let ?a = "ir_authorization i" and ?r = "gs_registration g"
  have m: "gr_dispatch_deadline_policy ?r = xa_dispatch_deadline_policy ?a"
    "xa_consume_before ?a \<le> cg_expires_at (gr_grant ?r)"
    using assms(3) by (auto simp: validate_grant_for_authorization_def ensure_Ok Let_def)
  have w: "t < xa_consume_before ?a" using assms(4) by (simp add: deadline_bounds_def)
  have "\<not> expired_at e' t" if "compute_dispatch_deadline t cb (xa_dispatch_deadline_policy ?a) = Err e'"
    "xa_consume_before ?a \<le> cb" for cb e'
    using compute_deadline_not_expired [OF deadline_bounds_weaken [OF assms(4) that(2)] that(1)] .
  moreover have "\<not> expired_at e' t" if "check_clock t hw = Err e'" for e'
    using check_clock_not_temporal [OF that] expired_is_temporal by blast
  ultimately show ?thesis
    using assms(1,2,3,5) m w
    unfolding validate_consumption_def validate_current_grant_def Let_def and_then_Err ensure_Err
    by auto
qed

lemma consume_expired:
  assumes "consume X key (Ok t) st = (Err e, st')" "expired_at e t"
  shows "\<exists>i active g. ms_authorizations st (key_of key) = Some i
    \<and> map_of (ms_grants st) (ck_scope key, xa_grant_id (ir_authorization i)) = Some g
    \<and> validate_consumption X active g i t (ms_high_water st (ck_scope key)) = Err e
    \<and> ms_high_water st' (ck_scope key) = Some t"
proof -
  have "\<not> expired_at e' t" if "key_validate key = Err e'" for e'
    using that by (auto simp: key_validate_def scope_validate_def and_then_Err ensure_Err)
  then show ?thesis using assms expired_is_temporal [OF assms(2)]
    unfolding consume_def Let_def key_of_def
    by (auto simp: try_q_Err ensure_Err ok_or_Err ok_or_Ok or_observe_Err u32_checked_succ
        dest: validate_consumption_Ok(3))
qed

lemma consume_enabled:
  assumes "ms_authorizations st (key_of key) = Some i" "key = consume_key_of i" "\<not> control_linked st key i"
    "ms_authorities st (ck_scope key) = Some active" "map_of (ms_grants st) (grant_key_of i) = Some g"
    "is_Ok (validate_consumption X active g i t (ms_high_water st (ck_scope key)))"
    "key_validate key = Ok ()" "ms_receipts st (key_of key) = None"
    "ms_transactions st (issued_scope i, ir_transaction_id i) = Some (snd (key_of key))"
  shows "is_Ok (fst (consume X key (Ok t) st))"
proof -
  obtain d where d: "validate_consumption X active g i t (ms_high_water st (ck_scope key)) = Ok d"
    using assms(6) by (auto simp: is_Ok_def)
  have u: "u32_checked_add (gs_uses g) 1 = Some (gs_uses g + 1)"
    by (rule u32_checked_succ [OF validate_consumption_Ok(3) [OF d]])
  have k: "ck_scope key = issued_scope i" "ck_transaction_id key = ir_transaction_id i"
    "ck_authorization_id key = xa_authorization_id (ir_authorization i)"
    by (simp_all add: assms(2) consume_key_of_def)
  show ?thesis unfolding consume_def
    using assms(1,3,4,5,7,8,9) d u k
    by (simp add: try_q_def or_observe_def key_of_def grant_key_of_def Let_def)
qed

section \<open>Ingress nonces\<close>

text \<open>A nonce with a signed expiry is spent when the ledger holds it with an expiry at least as late,
  or when the audience's clock mark has reached that expiry. The collection removes only the second
  kind, so a spent nonce stays spent.\<close>

definition nonce_spent :: "MemoryState \<Rightarrow> replay_key \<times> i64 \<Rightarrow> unit option" where
  "nonce_spent st = (\<lambda>(rk, expiry).
     if (\<exists>e \<ge> expiry. DAList.lookup (ms_ingress_replay_nonces st) rk = Some e)
       \<or> (\<exists>h \<ge> expiry. ms_ingress_replay_high_water st (fst rk) = Some h)
     then Some () else None)"

lemma nonce_spent_Some:
  "nonce_spent st (rk, expiry) = Some u \<longleftrightarrow>
     (\<exists>e \<ge> expiry. DAList.lookup (ms_ingress_replay_nonces st) rk = Some e)
     \<or> (\<exists>h \<ge> expiry. ms_ingress_replay_high_water st (fst rk) = Some h)"
  by (simp add: nonce_spent_def)

lemma nonce_spent_change:
  assumes "store_change X inst st st'" "nonce_spent st (rk, expiry) = Some u"
  shows "nonce_spent st' (rk, expiry) = Some u"
  using assms
proof (cases rule: store_change.cases)
  case (change_ingress_time scope t)
  then show ?thesis using assms(2) by (fastforce simp: nonce_spent_Some)
next
  case (change_nonce k t e)
  then show ?thesis using assms(2) by (fastforce simp: nonce_spent_Some lookup_update)
next
  case (change_prune scope h nonces)
  then show ?thesis using assms(2) change_prune(3) [of rk] by (fastforce simp: nonce_spent_Some)
qed (simp_all add: nonce_spent_Some)

interpretation nonces: frozen_value "store_change X inst" nonce_spent for X inst
proof
  fix st st' k u
  assume "store_change X inst st st'" "nonce_spent st k = Some u"
  then show "nonce_spent st' k = Some u" by (cases k) (auto intro: nonce_spent_change)
qed

lemma consume_nonce_spends:
  "consume_ingress_nonce r st = (Ok Consumed, st') \<Longrightarrow>
   nonce_spent st' ((nc_scope r, nc_key_id r, nc_nonce r), nc_expires_unix_s r) = Some ()"
  by (auto simp: consume_ingress_nonce_def try_q_Ok Let_def nonce_spent_Some split: if_splits)

lemma spent_nonce_refused:
  assumes "nonce_spent st ((nc_scope r, nc_key_id r, nc_nonce r), expiry) = Some ()"
    "nc_observed_unix_s r < expiry"
  shows "fst (consume_ingress_nonce r st) \<noteq> Ok Consumed"
proof
  assume "fst (consume_ingress_nonce r st) = Ok Consumed"
  then obtain st' where "consume_ingress_nonce r st = (Ok Consumed, st')" by (metis prod.collapse)
  then show False using assms
    by (auto simp: consume_ingress_nonce_def try_q_Ok Let_def ensure_Ok nonce_spent_Some split: if_splits)
qed

end
