(* ===== verification/Store_Scenario.thy ===== *)
theory Store_Scenario
  imports Store_Safety State_Scenario
begin

text \<open>
  A concrete run of the store under the concrete external operations: authority is activated, the
  sample grant registered, the sample authorization recorded, consumed, claimed and marked in
  flight; and, from the same states, an expiry and a revocation.
\<close>

section \<open>States\<close>

definition scope0 :: Scope where
  "scope0 = \<lparr>sc_tenant = ''acme'', sc_environment = ''prod''\<rparr>"

definition key0 :: ConsumeKey where
  "key0 = \<lparr>ck_scope = scope0, ck_transaction_id = derived_id, ck_authorization_id = derived_id\<rparr>"

definition refuse_lineage :: control_lineage where
  "refuse_lineage = (\<lambda>_ _. Err ControlWorkMismatch)"

abbreviation demo_step :: "MemoryState \<Rightarrow> MemoryState \<Rightarrow> bool" where
  "demo_step \<equiv> store_step refuse_lineage ref_externals 7"

definition store_active :: MemoryState where
  "store_active = memory_default\<lparr>ms_authorities := [scope0 \<mapsto> sample_authority]\<rparr>"

definition store_granted :: MemoryState where
  "store_granted = store_active\<lparr>ms_high_water := [scope0 \<mapsto> 1010],
     ms_grants := [((scope0, 41), sample_granted)]\<rparr>"

definition store_issued :: MemoryState where
  "store_issued = store_granted\<lparr>ms_transactions := [(scope0, derived_id) \<mapsto> derived_id],
     ms_authorizations := [(scope0, derived_id) \<mapsto> sample_issued]\<rparr>"

definition receipt0 :: ConsumptionReceipt where
  "receipt0 = receipt_for sample_issued sample_authority 1010 1070"

definition success0 :: ConsumeSuccess where
  "success0 = \<lparr>ok_receipt = receipt0, ok_outbox = outbox_for scope0 sample_issued receipt0,
     ok_issued = sample_issued\<rparr>"

definition used_grant :: GrantSnapshot where
  "used_grant = sample_granted\<lparr>gs_uses := 1\<rparr>"

definition store_consumed :: MemoryState where
  "store_consumed = store_issued\<lparr>ms_grants := [((scope0, 41), used_grant)],
     ms_receipts := [(scope0, derived_id) \<mapsto> receipt0],
     ms_outbox := [(scope0, derived_id) \<mapsto> outbox_for scope0 sample_issued receipt0]\<rparr>"

lemmas store_defs = store_active_def store_granted_def store_issued_def store_consumed_def memory_default_def

section \<open>Up to consumption\<close>

lemma scope0_validate [simp]: "scope_validate scope0 = Ok ()"
  by code_simp

lemma key0_validate [simp]: "key_validate key0 = Ok ()"
  by code_simp

lemma sample_issued_fields [simp]:
  "ir_authorization sample_issued = sample_authorization" "ir_transaction_id sample_issued = derived_id"
  "issued_scope sample_issued = scope0" "registration_scope sample_registration = scope0"
  "cg_grant_id (gr_grant sample_registration) = 41" "gs_registration sample_granted = sample_registration"
  by (simp_all add: ir_authorization_def sample_issued_def sample_signed_authorization_def scope0_def
      issued_scope_def sample_authorization_def sample_template_def registration_scope_def
      sample_registration_def sample_grant_def sample_granted_def)

lemma sample_authorization_fields [simp]:
  "xa_authorization_id sample_authorization = derived_id" "xa_grant_id sample_authorization = 41"
  "xa_request_id sample_authorization = 11" "xa_evaluation_nonce sample_authorization = 12"
  "xa_authority sample_authorization = sample_authority" "xa_issued_at sample_authorization = 1010"
  "xa_not_before sample_authorization = 1010" "xa_consume_before sample_authorization = 1200"
  "xa_dispatch_deadline_policy sample_authorization = sample_deadlines"
  by (simp_all add: sample_authorization_def)

lemma sample_authority_valid: "state_validate_authority_vector sample_authority = Ok ()"
  by (simp add: state_validate_authority_vector_def domains_def sample_authority_def domain_at_def is_nil_def)

lemma demo_activate:
  "compare_and_activate_authority scope0 None sample_authority memory_default = (Ok (), store_active)"
  by (simp add: compare_and_activate_authority_def try_q_def sample_authority_valid store_defs)

lemma demo_register:
  "register_grant ref_externals sample_registration (Ok 1010) store_active = (Ok (), store_granted)"
proof -
  have "\<lparr>gs_registration = sample_registration, gs_uses = 0, gs_revoked = False\<rparr> = sample_granted"
    by (simp add: sample_granted_def)
  then show ?thesis
    using sample_registration_validate sample_current_grant
    by (simp add: register_grant_def try_q_def or_observe_def check_high_water_def store_defs set_high_water_def)
qed

lemma demo_issue:
  "record_issued_authorization ref_externals sample_issued (Ok 1010) store_granted = (Ok (), store_issued)"
  using sample_issued_validate sample_current_grant sample_grant_matches
  by (simp add: record_issued_authorization_def try_q_def or_observe_def check_high_water_def store_defs
      set_high_water_def)

lemma sample_consumption_at:
  "validate_consumption ref_externals sample_authority sample_granted sample_issued 1010 (Some 1010) = Ok 1070"
  using sample_consumption by (simp add: validate_consumption_def check_clock_def)

lemma demo_consume: "consume ref_externals key0 (Ok 1010) store_issued = (Ok success0, store_consumed)"
  using sample_consumption_at key0_validate
  by (simp add: consume_def try_q_def or_observe_def store_defs set_high_water_def control_linked_def key0_def
      u32_checked_add_def receipt0_def success0_def used_grant_def sample_granted_def Let_def)

lemma demo_expired:
  "consume ref_externals key0 (Ok 1200) store_issued
     = (Err (AuthorizationExpired 1200 1200), set_high_water scope0 1200 store_issued)"
proof -
  have "validate_consumption ref_externals sample_authority sample_granted sample_issued 1200 (Some 1010)
      = Err (AuthorizationExpired 1200 1200)"
    using sample_issued_validate sample_grant_matches
    by (simp add: validate_consumption_def check_clock_def)
  then show ?thesis using key0_validate
    by (simp add: consume_def try_q_def or_observe_def store_defs set_high_water_def control_linked_def key0_def)
qed

section \<open>Reachability\<close>

lemma store_init_default: "store_init memory_default"
  by (simp add: store_init_def memory_default_def)

lemma reach_active: "store_reachable refuse_lineage ref_externals 7 store_active"
  using reach_init [where init = store_init, OF store_init_default] step_activate [OF demo_activate]
  by (rule reach_step)

lemma reach_granted: "store_reachable refuse_lineage ref_externals 7 store_granted"
  by (rule reach_step [OF reach_active step_register [OF demo_register]])

lemma reach_issued: "store_reachable refuse_lineage ref_externals 7 store_issued"
  by (rule reach_step [OF reach_granted step_issue [OF demo_issue]])

lemma reach_consumed: "store_reachable refuse_lineage ref_externals 7 store_consumed"
  by (rule reach_step [OF reach_issued step_consume [OF demo_consume]])

section \<open>Claim and attempt\<close>

definition physical0 :: PhysicalResourceKey where
  "physical0 = \<lparr>pk_cluster_identity = ''cluster'', pk_namespace = ''web'', pk_deployment_uid = ''uid''\<rparr>"

definition request0 :: DispatchClaimRequest where
  "request0 = \<lparr>cl_key = key0, cl_claim_id = 71, cl_worker_id = ''worker-1''\<rparr>"

definition snapshot0 :: "i64 \<Rightarrow> DispatchSnapshot" where
  "snapshot0 t = \<lparr>ds_scope = scope0, ds_checked_at = t, ds_authority = sample_authority,
     ds_issued = sample_issued, ds_receipt = receipt0,
     ds_outbox = outbox_for scope0 sample_issued receipt0\<rparr>"

definition token0 :: DispatchClaimToken where
  "token0 = claim_token 7 request0 physical0 1 1012 1042"

definition acquisition0 :: MemoryDispatchAcquisition where
  "acquisition0 = \<lparr>ma_token = token0, ma_acquisition_id = 71, ma_lease_fence = 1, ma_worker_id = ''worker-1'',
     ma_acquired_at = 1012, ma_lease_until = 1042, ma_dispatch_deadline = 1070,
     ma_control_submission_id = None, ma_selection_kind = LegacyBootstrap\<rparr>"

definition store_claimed :: MemoryState where
  "store_claimed = store_consumed\<lparr>ms_high_water := [scope0 \<mapsto> 1012],
     ms_next_dispatch_fence := 1, ms_next_dispatch_acquisition_fence := 1,
     ms_dispatch_claim_ids := [71 \<mapsto> (scope0, derived_id)], ms_physical_reservations := [physical0 \<mapsto> (scope0, derived_id)],
     ms_dispatch_claims := [(scope0, derived_id) \<mapsto> new_dispatch_claim token0],
     ms_dispatch_acquisitions := [71 \<mapsto> acquisition0],
     ms_latest_dispatch_acquisition := [(scope0, derived_id) \<mapsto> 71]\<rparr>"

definition credential0 :: DispatchCredentialBinding where
  "credential0 = un_Ok (binding_new ref_externals token0 5 ''account'' ''AUTHORIZATION_ID=id'' 1000 1060)"

definition credential1 :: DispatchCredentialBinding where
  "credential1 = un_Ok (into_v2 ref_externals credential0 (memory_dispatch_acquisition_authority acquisition0))"

definition store_attempted :: MemoryState where
  "store_attempted = store_claimed\<lparr>ms_high_water := [scope0 \<mapsto> 1015],
     ms_dispatch_claims := [(scope0, derived_id) \<mapsto> (new_dispatch_claim token0)
       \<lparr>mc_state := AttemptInFlightState, mc_attempt_started_at := Some 1015,
        mc_attempt_acquisition := Some (attempt_acquisition (memory_dispatch_acquisition_authority acquisition0)),
        mc_credential := Some credential1\<rparr>]\<rparr>"

definition attempt0 :: AttemptInFlight where
  "attempt0 = attempt_in_flight_new (snapshot0 1015) (memory_dispatch_acquisition_authority acquisition0) 1015"

lemma sample_recovered:
  "validate_recovered_consumption ref_externals key0 sample_issued receipt0
     (outbox_for scope0 sample_issued receipt0) = Ok success0"
  using sample_issued_validate sample_deadline key0_validate
  by (simp add: validate_recovered_consumption_def key0_def receipt0_def receipt_for_def outbox_for_def
      success0_def Let_def)

lemma sample_snapshot:
  assumes "1010 \<le> t" "t < 1070" "hw = None \<or> (\<exists>h. hw = Some h \<and> h \<le> t)"
  shows "validate_dispatch_snapshot ref_externals key0 sample_authority used_grant sample_issued receipt0
     (outbox_for scope0 sample_issued receipt0) t hw = Ok (snapshot0 t)"
proof -
  have g: "gs_registration used_grant = sample_registration" "gs_uses used_grant = 1" "\<not> gs_revoked used_grant"
    by (simp_all add: used_grant_def sample_granted_def)
  have "cg_maximum_uses (gr_grant sample_registration) = 2" "gr_authority sample_registration = sample_authority"
    by (simp_all add: sample_registration_def sample_grant_def)
  moreover have "check_clock t hw = Ok ()" using assms by (auto simp: check_clock_def)
  moreover have "cr_consumed_at receipt0 = 1010" "cr_dispatch_deadline receipt0 = 1070"
    "cr_authority receipt0 = sample_authority" "ck_scope key0 = scope0"
    by (simp_all add: receipt0_def receipt_for_def key0_def)
  moreover have "find (\<lambda>e. e \<le> t) (dp_immutable_dependency_expiries sample_deadlines) = None"
    using assms by (simp add: sample_deadlines_def)
  ultimately show ?thesis
    using assms g sample_recovered sample_registration_validate sample_grant_matches sample_deadline_policy
    by (simp add: validate_dispatch_snapshot_def validate_dispatch_immutable_facts_def snapshot0_def word_less_nat_alt)
qed

lemma demo_snapshot:
  assumes "ms_authorizations st = [(scope0, derived_id) \<mapsto> sample_issued]" "ms_transactions st = [(scope0, derived_id) \<mapsto> derived_id]"
    "ms_authorities st = [scope0 \<mapsto> sample_authority]" "ms_grants st = [((scope0, 41), used_grant)]"
    "ms_receipts st = [(scope0, derived_id) \<mapsto> receipt0]"
    "ms_outbox st = [(scope0, derived_id) \<mapsto> outbox_for scope0 sample_issued receipt0]"
    "ms_control_by_request st = Map.empty" "ms_control_by_evaluation_nonce st = Map.empty"
    "ms_control_issuances st = []"
    "ms_high_water st scope0 = Some h" "1010 \<le> t" "t < 1070" "h \<le> t"
  shows "memory_dispatch_snapshot_with_high_water lin ref_externals st key0 t
    = (Ok (snapshot0 t), set_high_water scope0 t st)"
proof -
  have k: "ck_scope key0 = scope0" "ck_authorization_id key0 = derived_id" "ck_transaction_id key0 = derived_id"
    by (simp_all add: key0_def)
  have "gs_uses used_grant = 1" by (simp add: used_grant_def)
  moreover have "memory_control_owner_for_authorization st sample_issued = Ok None"
    using assms by (simp add: memory_control_owner_for_authorization_def map_filter_def)
  ultimately have "memory_dispatch_snapshot lin ref_externals st key0 t = Ok (snapshot0 t)"
    using assms k sample_snapshot [of t "Some h"]
    by (simp add: memory_dispatch_snapshot_def memory_dispatch_snapshot_at_high_water_def
        validate_memory_control_consumption_lineage_if_owned_def)
  then show ?thesis using assms(10,13) k by (simp add: memory_dispatch_snapshot_with_high_water_def)
qed

lemma key0_fields [simp]:
  "ck_scope key0 = scope0" "ck_authorization_id key0 = derived_id" "ck_transaction_id key0 = derived_id"
  by (simp_all add: key0_def)

lemma request0_validate: "claim_request_validate request0 = Ok ()"
  by code_simp

lemma sample_physical: "from_authorization sample_authorization = Ok physical0"
  by (simp add: sample_from_authorization physical0_def)

lemma no_owner [simp]:
  "ms_control_by_request st = Map.empty \<Longrightarrow> ms_control_by_evaluation_nonce st = Map.empty \<Longrightarrow>
   ms_control_issuances st = [] \<Longrightarrow> memory_control_owner_for_authorization st i = Ok None"
  by (simp add: memory_control_owner_for_authorization_def map_filter_def)

lemma consumed_fields [simp]:
  "ms_authorizations store_consumed = [(scope0, derived_id) \<mapsto> sample_issued]"
  "ms_transactions store_consumed = [(scope0, derived_id) \<mapsto> derived_id]"
  "ms_authorities store_consumed = [scope0 \<mapsto> sample_authority]"
  "ms_grants store_consumed = [((scope0, 41), used_grant)]"
  "ms_receipts store_consumed = [(scope0, derived_id) \<mapsto> receipt0]"
  "ms_outbox store_consumed = [(scope0, derived_id) \<mapsto> outbox_for scope0 sample_issued receipt0]"
  "ms_control_by_request store_consumed = Map.empty" "ms_control_by_evaluation_nonce store_consumed = Map.empty"
  "ms_control_issuances store_consumed = []" "ms_high_water store_consumed = [scope0 \<mapsto> 1010]"
  "ms_dispatch_claims store_consumed = Map.empty" "ms_dispatch_claim_ids store_consumed = Map.empty"
  "ms_dispatch_acquisitions store_consumed = Map.empty" "ms_dispatch_dispositions store_consumed = {}"
  "ms_physical_reservations store_consumed = Map.empty" "ms_next_dispatch_fence store_consumed = 0"
  "ms_next_dispatch_acquisition_fence store_consumed = 0"
  "ms_latest_dispatch_acquisition store_consumed = Map.empty"
  by (simp_all add: store_defs)

lemma snapshot0_fields [simp]:
  "ds_issued (snapshot0 t) = sample_issued" "cr_dispatch_deadline (ds_receipt (snapshot0 t)) = 1070"
  by (simp_all add: snapshot0_def receipt0_def receipt_for_def)

lemma demo_claim:
  "claim_dispatch refuse_lineage ref_externals 7 request0 (Ok 1012) store_consumed
     = (Ok \<lparr>cd_snapshot = snapshot0 1012, cd_token = token0\<rparr>, store_claimed)"
proof -
  have s: "memory_dispatch_snapshot_with_high_water refuse_lineage ref_externals store_consumed key0 1012
      = (Ok (snapshot0 1012), set_high_water scope0 1012 store_consumed)"
    by (rule demo_snapshot [of _ 1010]) simp_all
  have r: "cl_key request0 = key0" "cl_claim_id request0 = 71" "cl_worker_id request0 = ''worker-1''"
    by (simp_all add: request0_def)
  have "u64_checked_add 0 1 = Some 1" "i64_checked_add 1012 DISPATCH_CLAIM_LEASE_SECONDS = Some 1042" by code_simp+
  moreover have "set_high_water scope0 1012 store_consumed = store_consumed\<lparr>ms_high_water := [scope0 \<mapsto> 1012]\<rparr>"
    by (simp add: set_high_water_def)
  ultimately show ?thesis using s request0_validate sample_physical r
    by (simp add: claim_dispatch_def try_q_def with_snapshot_def store_claimed_def acquisition0_def token0_def
        claim_token_def Let_def)
qed

lemma claimed_fields [simp]:
  "ms_authorizations store_claimed = [(scope0, derived_id) \<mapsto> sample_issued]"
  "ms_transactions store_claimed = [(scope0, derived_id) \<mapsto> derived_id]"
  "ms_authorities store_claimed = [scope0 \<mapsto> sample_authority]"
  "ms_grants store_claimed = [((scope0, 41), used_grant)]"
  "ms_receipts store_claimed = [(scope0, derived_id) \<mapsto> receipt0]"
  "ms_outbox store_claimed = [(scope0, derived_id) \<mapsto> outbox_for scope0 sample_issued receipt0]"
  "ms_control_by_request store_claimed = Map.empty" "ms_control_by_evaluation_nonce store_claimed = Map.empty"
  "ms_control_issuances store_claimed = []" "ms_high_water store_claimed = [scope0 \<mapsto> 1012]"
  "ms_dispatch_claims store_claimed = [(scope0, derived_id) \<mapsto> new_dispatch_claim token0]"
  "ms_physical_reservations store_claimed = [physical0 \<mapsto> (scope0, derived_id)]"
  "ms_dispatch_acquisitions store_claimed = [71 \<mapsto> acquisition0]"
  "ms_latest_dispatch_acquisition store_claimed = [(scope0, derived_id) \<mapsto> 71]"
  by (simp_all add: store_claimed_def)

lemma token0_fields [simp]:
  "tk_key token0 = key0" "tk_claim_id token0 = 71" "tk_physical_resource token0 = physical0"
  "tk_state_instance_id token0 = 7" "tk_lease_until token0 = 1042" "tk_fence token0 = 1"
  "tk_worker_id token0 = ''worker-1''" "tk_claimed_at token0 = 1012"
  by (simp_all add: token0_def claim_token_def request0_def)

lemma sample_credential_valid:
  "\<not> credential_invalid ref_externals 5 ''account'' ''AUTHORIZATION_ID=id'' 1000 1060"
  by code_simp

lemma demo_binding: "binding_new ref_externals token0 5 ''account'' ''AUTHORIZATION_ID=id'' 1000 1060 = Ok credential0"
  using sample_credential_valid
  by (simp add: credential0_def binding_new_def frame_text_def frame_def Let_def scope0_def)

lemma binding_new_fields:
  "binding_new X token digest account credential nb ea = Ok c \<Longrightarrow>
   matches_token c token \<and> bi_token_digest c = digest \<and> bi_service_account_uid c = account
   \<and> bi_credential_id c = credential \<and> bi_not_before c = nb \<and> bi_expires_at c = ea"
  by (auto simp: binding_new_def and_then_Ok Let_def matches_token_def)

lemmas credential0_fields = binding_new_fields [OF demo_binding]

lemma demo_into_v2:
  "into_v2 ref_externals credential0 (memory_dispatch_acquisition_authority acquisition0) = Ok credential1"
  and credential1_window: "bi_not_before credential1 = 1000" "bi_expires_at credential1 = 1060"
proof -
  have "\<exists>c. into_v2 ref_externals credential0 (memory_dispatch_acquisition_authority acquisition0) = Ok c
      \<and> bi_not_before c = 1000 \<and> bi_expires_at c = 1060"
    using sample_credential_valid
    by (simp add: into_v2_def credential0_fields new_for_acquisition_def acquisition_material_def
        memory_dispatch_acquisition_authority_def acquisition0_def frame_text_def frame_def Let_def is_nil_def
        scope0_def physical0_def)
  then show "into_v2 ref_externals credential0 (memory_dispatch_acquisition_authority acquisition0) = Ok credential1"
    "bi_not_before credential1 = 1000" "bi_expires_at credential1 = 1060"
    by (auto simp: credential1_def)
qed

lemma demo_attempt:
  "mark_attempt_in_flight refuse_lineage ref_externals 7 token0 credential0 (Ok 1015) store_claimed
     = (Ok attempt0, store_attempted)"
proof -
  have s: "memory_dispatch_snapshot_with_high_water refuse_lineage ref_externals store_claimed key0 1015
      = (Ok (snapshot0 1015), set_high_water scope0 1015 store_claimed)"
    by (rule demo_snapshot [of _ 1012]) simp_all
  have "require_live_claim 7 store_claimed token0 = Ok (new_dispatch_claim token0)"
    by (simp add: require_live_claim_def new_dispatch_claim_def)
  moreover have "require_memory_bootstrap_acquisition store_claimed token0 = Ok acquisition0"
    by (simp add: require_memory_bootstrap_acquisition_def acquisition0_def)
  moreover have "set_high_water scope0 1015 store_claimed = store_claimed\<lparr>ms_high_water := [scope0 \<mapsto> 1015]\<rparr>"
    by (simp add: set_high_water_def)
  ultimately show ?thesis using s sample_physical demo_into_v2 credential1_window credential0_fields
    by (simp add: mark_attempt_in_flight_def try_q_def with_snapshot_def store_attempted_def attempt0_def Let_def)
qed

lemma reach_claimed: "store_reachable refuse_lineage ref_externals 7 store_claimed"
  by (rule reach_step [OF reach_consumed step_claim [OF demo_claim]])

lemma demo_to_claimed: "demo_step\<^sup>*\<^sup>* store_consumed store_claimed"
  using step_claim [OF demo_claim] by (rule r_into_rtranclp)

section \<open>Revocation\<close>

definition revoked_authority :: AuthorityVector where
  "revoked_authority = sample_authority\<lparr>av_revocation := \<lparr>ads_root = grant_revocation_root ref_externals 41,
     ads_epoch = 5, ads_activation_id = 32\<rparr>\<rparr>"

definition store_revoked :: MemoryState where
  "store_revoked = store_consumed\<lparr>ms_grants := [((scope0, 41), used_grant\<lparr>gs_revoked := True\<rparr>)],
     ms_authorities := [scope0 \<mapsto> revoked_authority]\<rparr>"

lemma revocation_transition:
  "validate_revocation_transition ref_externals 41 sample_authority revoked_authority = Ok ()"
  by (simp add: validate_revocation_transition_def ensure_monotone_authority_def
      state_validate_authority_vector_def domains_def revoked_authority_def sample_authority_def domain_at_def
      is_nil_def domain_regresses_def revocation_step_def upt_rec)

lemma demo_revoke:
  "revoke_grant ref_externals scope0 41 sample_authority revoked_authority store_consumed = (Ok (), store_revoked)"
  by (simp add: revoke_grant_def try_q_def revocation_transition store_revoked_def)

section \<open>An ingress nonce\<close>

definition nonce0 :: IngressNonceConsumption where
  "nonce0 = \<lparr>nc_scope = IngressReplayScope ''audience'', nc_key_id = ''key'', nc_nonce = 9,
     nc_expires_unix_s = 1100, nc_observed_unix_s = 1000\<rparr>"

definition store_nonce :: MemoryState where
  "store_nonce = memory_default\<lparr>ms_ingress_replay_high_water := [IngressReplayScope ''audience'' \<mapsto> 1000],
     ms_ingress_replay_nonces := DAList.update (IngressReplayScope ''audience'', ''key'', 9) 1100 DAList.empty\<rparr>"

lemma demo_nonce: "consume_ingress_nonce nonce0 memory_default = (Ok Consumed, store_nonce)"
  by (simp add: consume_ingress_nonce_def try_q_def validate_observed_time_def memory_default_def
      store_nonce_def nonce0_def)

end
