(* ===== verification/Store_Properties.thy ===== *)
theory Store_Properties
  imports Store_Scenario
begin

text \<open>
  The properties of the store, over its own operations and its reachable states, whatever the
  control-plane lineage answers, with witnesses on the run of \<open>Store_Scenario\<close>.
\<close>

section \<open>Consumption\<close>

text \<open>What a successful consumption left behind, after any further run.\<close>

lemma consumed_forever:
  assumes "store_reachable lin X inst st" "consume X key clock st = (Ok s, st1)"
    "(store_step lin X inst)\<^sup>*\<^sup>* st1 st2"
  obtains i r where "key = consume_key_of i" "ms_authorizations st (issued_key i) = Some i"
    "ms_receipts st (issued_key i) = None" "key_validate key = Ok ()"
    "ms_authorizations st2 (issued_key i) = Some i" "ms_receipts st2 (issued_key i) = Some r"
    "s = \<lparr>ok_receipt = r, ok_outbox = outbox_for (issued_scope i) i r, ok_issued = i\<rparr>" "store_inv X inst st2"
proof -
  obtain i active t d where i: "ms_authorizations st (key_of key) = Some i"
    "ir_transaction_id i = ck_transaction_id key" "ms_authorizations st1 = ms_authorizations st"
    "ms_receipts st (key_of key) = None"
    "ms_receipts st1 (key_of key) = Some (receipt_for i active t d)"
    and s: "s = \<lparr>ok_receipt = receipt_for i active t d,
      ok_outbox = outbox_for (ck_scope key) i (receipt_for i active t d), ok_issued = i\<rparr>"
    using assms(2) by (rule consume_Ok) blast
  have "issued_inv X st" using reachable_inv [OF assms(1)] by (simp add: store_inv_def)
  then have k: "key_of key = issued_key i" by (rule issued_invD(1)) (rule i(1))
  then have key: "key = consume_key_of i" using i(2) by (rule key_of_issued)
  note run = store_run_changes [OF assms(3)]
  show thesis
  proof (rule that [OF key])
    show "ms_authorizations st2 (issued_key i) = Some i"
      using authorizations.run_frozen [OF run] i(1,3) unfolding k by simp
    show "ms_receipts st2 (issued_key i) = Some (receipt_for i active t d)"
      using receipts.run_frozen [OF run] i(5) unfolding k by simp
    show "store_inv X inst st2"
      by (rule reachable_step_run [OF assms(1) step_consume [OF assms(2)] assms(3)])
    show "key_validate key = Ok ()"
      using assms(2) unfolding consume_def by (auto simp: try_q_Ok)
  qed (use i(1,4) s key k in \<open>simp_all add: consume_key_of_def\<close>)
qed

text \<open>C4. An authorization is consumed exactly once. After a successful \<open>consume\<close>, whatever operations
  follow, another \<open>consume\<close> of the same key is refused as already consumed and changes nothing, while
  \<open>recover_exact\<close> and \<open>consume_or_recover\<close> return the very receipt, outbox entry and authorization of
  the first call.\<close>

theorem consumption_is_exactly_once:
  assumes "store_reachable lin X inst st" "consume X key clock st = (Ok s, st1)"
    "(store_step lin X inst)\<^sup>*\<^sup>* st1 st2"
  shows "consume X key clock' st2 = (Err AlreadyConsumed, st2)
    \<and> recover_exact lin X key st2 = Ok s
    \<and> consume_or_recover lin X key clock' others1 others2 st2 = (Ok s, st2)"
  using assms
proof (rule consumed_forever)
  fix i r
  assume key: "key = consume_key_of i"
    and s: "s = \<lparr>ok_receipt = r, ok_outbox = outbox_for (issued_scope i) i r, ok_issued = i\<rparr>"
    and st2: "store_inv X inst st2" "ms_authorizations st2 (issued_key i) = Some i"
      "ms_receipts st2 (issued_key i) = Some r"
  show ?thesis
    using consume_again [OF st2, of clock'] recover_consumed [OF st2, of lin]
    unfolding key s by (simp add: consume_or_recover_def)
qed

theorem consumption_is_exactly_once_witness:
  "consume ref_externals key0 (Ok 1020) store_claimed = (Err AlreadyConsumed, store_claimed)
   \<and> recover_exact refuse_lineage ref_externals key0 store_claimed = Ok success0
   \<and> consume_or_recover refuse_lineage ref_externals key0 (Ok 1020) id id store_claimed = (Ok success0, store_claimed)"
  by (rule consumption_is_exactly_once [OF reach_issued demo_consume demo_to_claimed])

lemma not_yet_consumed:
  assumes "store_inv X inst st" "key_validate key = Ok ()" "ms_receipts st (key_of key) = None"
    "\<And>i. ms_authorizations st (key_of key) = Some i \<Longrightarrow> key = consume_key_of i"
  shows "\<exists>e. recover_exact lin X key st = Err e \<and> not_recoverable e"
proof (cases "ms_authorizations st (key_of key)")
  case None
  then show ?thesis using assms(2) by (simp add: recover_exact_def key_of_def not_recoverable_def)
next
  case (Some i)
  have "issued_inv X st" using assms(1) by (simp add: store_inv_def)
  from issued_invD(2) [OF this Some] assms(2,3) Some show ?thesis
    unfolding assms(4) [OF Some]
    by (simp add: recover_exact_def key_of_def consume_key_of_def not_recoverable_def)
qed

text \<open>C32. The loser of a race gets the winner's result. \<open>consume_or_recover\<close> takes the store's mutex up to
  three times. When another caller consumes the key after the first look and before the own attempt, the
  call still succeeds and returns the very result of the other caller, whatever its own clock answers and
  whatever else runs in between.\<close>

theorem racing_consumers_agree:
  assumes "store_reachable lin X inst st" "(store_step lin X inst)\<^sup>*\<^sup>* st sta"
    "consume X key clock0 sta = (Ok s, stb)" "(store_step lin X inst)\<^sup>*\<^sup>* stb (others1 st)"
    "\<And>z. (store_step lin X inst)\<^sup>*\<^sup>* z (others2 z)"
  shows "\<exists>st'. consume_or_recover lin X key clock others1 others2 st = (Ok s, st')
    \<and> (store_step lin X inst)\<^sup>*\<^sup>* (others1 st) st'"
proof (rule consumed_forever [OF reach_run [OF assms(1,2)] assms(3,4)])
  fix i r
  assume key: "key = consume_key_of i" and v: "key_validate key = Ok ()"
    and sta: "ms_authorizations sta (issued_key i) = Some i" "ms_receipts sta (issued_key i) = None"
    and s: "s = \<lparr>ok_receipt = r, ok_outbox = outbox_for (issued_scope i) i r, ok_issued = i\<rparr>"
    and st1: "store_inv X inst (others1 st)" "ms_authorizations (others1 st) (issued_key i) = Some i"
      "ms_receipts (others1 st) (issued_key i) = Some r"
  let ?st2 = "others2 (others1 st)"
  note before = store_run_changes [OF assms(2)] and after = store_run_changes [OF assms(5) [of "others1 st"]]
  have "\<exists>e. recover_exact lin X key st = Err e \<and> not_recoverable e"
  proof (rule not_yet_consumed [OF reachable_inv [OF assms(1)] v])
    show "ms_receipts st (key_of key) = None"
      using receipts.run_frozen [OF before, of "issued_key i"] sta(2)
      by (cases "ms_receipts st (issued_key i)") (auto simp: key)
    show "key = consume_key_of j" if "ms_authorizations st (key_of key) = Some j" for j
      using authorizations.run_frozen [OF before that] sta(1) by (simp add: key)
  qed
  moreover have "consume X key clock (others1 st) = (Err AlreadyConsumed, others1 st)"
    unfolding key by (rule consume_again [OF st1])
  moreover have "recover_exact lin X key ?st2 = Ok s"
    unfolding key s
  proof (rule recover_consumed)
    show "store_inv X inst ?st2" by (rule store.run_inv [OF after st1(1)])
    show "ms_authorizations ?st2 (issued_key i) = Some i" by (rule authorizations.run_frozen [OF after st1(2)])
    show "ms_receipts ?st2 (issued_key i) = Some r" by (rule receipts.run_frozen [OF after st1(3)])
  qed
  ultimately have "consume_or_recover lin X key clock others1 others2 st = (Ok s, ?st2)"
    by (auto simp: consume_or_recover_def)
  with assms(5) [of "others1 st"] show ?thesis by blast
qed

theorem racing_consumers_agree_witness:
  "\<exists>st'. consume_or_recover refuse_lineage ref_externals key0 (Ok 1010) (\<lambda>_. store_claimed) id store_issued
     = (Ok success0, st')"
proof -
  from racing_consumers_agree [where ?others1.0 = "\<lambda>_. store_claimed" and ?others2.0 = id,
      OF reach_issued rtranclp.rtrancl_refl demo_consume demo_to_claimed]
  show ?thesis by auto
qed

text \<open>C21. A scope never holds more receipts than its grant allows: the use counter of the grant is
  the number of authorizations consumed in the scope, and it is at most the grant's maximum.\<close>

theorem grant_budget_is_respected:
  assumes "store_reachable lin X inst st" "grant_snapshot scope grant_id st = Ok g"
  shows "finite {k. fst k = scope \<and> ms_receipts st k \<noteq> None}
    \<and> card {k. fst k = scope \<and> ms_receipts st k \<noteq> None} = unat (gs_uses g)
    \<and> gs_uses g \<le> cg_maximum_uses (gr_grant (gs_registration g))"
proof -
  have inv: "store_inv X inst st" by (rule reachable_inv [OF assms(1)])
  have g: "map_of (ms_grants st) (scope, grant_id) = Some g"
    using assms(2) by (auto simp: grant_snapshot_def and_then_Ok ok_or_Ok)
  have "uses_inv st" using inv by (simp add: store_inv_def)
  then have "finite (dom (ms_receipts st))" "unat (gs_uses g) = card (consumed_under st (scope, grant_id))"
    "gs_uses g \<le> cg_maximum_uses (gr_grant (gs_registration g))"
    using g unfolding uses_inv_def by blast+
  moreover have "finite {k. fst k = scope \<and> ms_receipts st k \<noteq> None}"
    using calculation(1) by (rule rev_finite_subset) auto
  ultimately show ?thesis by (simp add: receipts_under_grant [OF inv g])
qed

theorem grant_budget_is_respected_witness:
  "card {k. fst k = scope0 \<and> ms_receipts store_consumed k \<noteq> None} = 1
   \<and> gs_uses used_grant \<le> cg_maximum_uses (gr_grant (gs_registration used_grant))"
proof -
  have "grant_snapshot scope0 41 store_consumed = Ok used_grant" by (simp add: grant_snapshot_def)
  from grant_budget_is_respected [OF reach_consumed this] show ?thesis by (simp add: used_grant_def)
qed

text \<open>C27. Every stored receipt is backed: its authorization is stored and its signature verified, the
  consumption lies in the authorization's window, the dispatch deadline is the earliest of the delay,
  the authorization's expiry, the profile cap and every dependency expiry, and lies after the
  consumption, the outbox holds the same facts, and the clock mark of the scope is not behind it.\<close>

theorem receipts_are_backed:
  assumes "store_reachable lin X inst st" "consumption_receipt key st = Ok r"
  shows "\<exists>i h. ms_authorizations st (key_of key) = Some i \<and> key = consume_key_of i
    \<and> issued_validate X i = Ok () \<and> cr_authorization_hash r = ir_authorization_hash i
    \<and> cr_authority r = xa_authority (ir_authorization i)
    \<and> xa_not_before (ir_authorization i) \<le> cr_consumed_at r
    \<and> cr_consumed_at r < cr_dispatch_deadline r
    \<and> cr_dispatch_deadline r = Min (set (deadline_bounds (cr_consumed_at r)
        (xa_consume_before (ir_authorization i)) (xa_dispatch_deadline_policy (ir_authorization i))))
    \<and> outbox_entry key st = Ok (outbox_for (ck_scope key) i r)
    \<and> time_high_water (ck_scope key) st = Ok (Some h) \<and> cr_consumed_at r \<le> h"
proof -
  have inv: "issued_inv X st" "receipt_inv X st"
    using reachable_inv [OF assms(1)] by (simp_all add: store_inv_def)
  have k: "key_validate key = Ok ()" "ms_receipts st (key_of key) = Some r"
    "cr_transaction_id r = ck_transaction_id key"
    using assms(2) by (auto simp: consumption_receipt_def and_then_Ok ok_or_Ok key_of_def
        split: option.splits if_splits)
  from inv(2) k(2) obtain i h where i: "ms_authorizations st (key_of key) = Some i"
    "ms_outbox st (key_of key) = Some (outbox_for (fst (key_of key)) i r)"
    and r: "receipt_intact i r" and h: "ms_high_water st (fst (key_of key)) = Some h" "cr_consumed_at r \<le> h"
    by (rule receipt_invD)
  have rf: "r = receipt_for i (xa_authority (ir_authorization i)) (cr_consumed_at r) (cr_dispatch_deadline r)"
    and d: "compute_dispatch_deadline (cr_consumed_at r) (xa_consume_before (ir_authorization i))
      (xa_dispatch_deadline_policy (ir_authorization i)) = Ok (cr_dispatch_deadline r)"
    and w: "xa_not_before (ir_authorization i) \<le> cr_consumed_at r"
    using r by (simp_all add: receipt_intact_def Let_def)
  have f: "cr_transaction_id r = ir_transaction_id i" "cr_authorization_hash r = ir_authorization_hash i"
    "cr_authority r = xa_authority (ir_authorization i)"
    by (subst rf, simp add: receipt_for_def)+
  have key: "key = consume_key_of i"
    using issued_invD(1) [OF inv(1) i(1)] f(1) k(3) by (intro key_of_issued) simp_all
  have min: "cr_dispatch_deadline r = Min (set (deadline_bounds (cr_consumed_at r)
      (xa_consume_before (ir_authorization i)) (xa_dispatch_deadline_policy (ir_authorization i))))"
    and later: "list_all (\<lambda>b. cr_consumed_at r < b) (deadline_bounds (cr_consumed_at r)
      (xa_consume_before (ir_authorization i)) (xa_dispatch_deadline_policy (ir_authorization i)))"
    using d by (simp_all add: compute_dispatch_deadline_Ok)
  have "cr_dispatch_deadline r \<in> set (deadline_bounds (cr_consumed_at r)
      (xa_consume_before (ir_authorization i)) (xa_dispatch_deadline_policy (ir_authorization i)))"
    unfolding min by (rule Min_in) (simp_all add: deadline_bounds_def)
  then have "cr_consumed_at r < cr_dispatch_deadline r" using later by (simp add: list_all_iff)
  moreover have "outbox_entry key st = Ok (outbox_for (ck_scope key) i r)"
    using i(2) k(1,3) f(1) by (simp add: outbox_entry_def key_of_def outbox_for_def)
  moreover have "time_high_water (ck_scope key) st = Ok (Some h)"
    using k(1) h(1) by (auto simp: time_high_water_def key_validate_def key_of_def and_then_Ok)
  ultimately show ?thesis using i(1) key issued_invD(3) [OF inv(1) i(1)] f w min h(2) by blast
qed

theorem receipts_are_backed_witness:
  "\<exists>i. ms_authorizations store_consumed (key_of key0) = Some i \<and> issued_validate ref_externals i = Ok ()
    \<and> cr_consumed_at receipt0 < cr_dispatch_deadline receipt0
    \<and> outbox_entry key0 store_consumed = Ok (outbox_for scope0 i receipt0)"
proof -
  have "consumption_receipt key0 store_consumed = Ok receipt0"
    by (simp add: consumption_receipt_def receipt0_def receipt_for_def)
  from receipts_are_backed [OF reach_consumed this] show ?thesis
    unfolding key0_fields(1) by blast
qed

text \<open>C26. \<open>consume\<close> succeeds at \<open>t\<close> exactly when the key is well formed and names a recorded authorization
  that is not consumed and not owned by the control plane, the active authority is the one it was
  signed under, its grant is not revoked and not used up, and \<open>t\<close> is not before the clock mark or the
  authorization's start and lies before every bound of the dispatch deadline. Every other check of the
  code is implied by what the store already checked when it recorded grant and authorization.\<close>

theorem consumption_accepts_exactly:
  assumes "store_reachable lin X inst st"
  shows "is_Ok (fst (consume X key (Ok t) st)) \<longleftrightarrow>
    key_validate key = Ok () \<and> ms_receipts st (key_of key) = None
    \<and> check_clock t (ms_high_water st (ck_scope key)) = Ok ()
    \<and> (\<exists>i g. ms_authorizations st (key_of key) = Some i \<and> key = consume_key_of i
        \<and> \<not> control_linked st key i
        \<and> ms_authorities st (ck_scope key) = Some (xa_authority (ir_authorization i))
        \<and> map_of (ms_grants st) (grant_key_of i) = Some g \<and> \<not> gs_revoked g
        \<and> gs_uses g < cg_maximum_uses (gr_grant (gs_registration g))
        \<and> xa_not_before (ir_authorization i) \<le> t
        \<and> i64_ok (t + dp_max_dispatch_delay_seconds (xa_dispatch_deadline_policy (ir_authorization i)))
        \<and> list_all (\<lambda>b. t < b) (deadline_bounds t (xa_consume_before (ir_authorization i))
            (xa_dispatch_deadline_policy (ir_authorization i))))" (is "?L \<longleftrightarrow> ?R")
proof -
  have inv: "issued_inv X st" "grant_inv X st" using reachable_inv [OF assms] by (simp_all add: store_inv_def)
  have spec: "is_Ok (validate_consumption X active g i t hw) \<longleftrightarrow>
      active = xa_authority (ir_authorization i) \<and> \<not> gs_revoked g
      \<and> gs_uses g < cg_maximum_uses (gr_grant (gs_registration g))
      \<and> check_clock t hw = Ok () \<and> xa_not_before (ir_authorization i) \<le> t
      \<and> i64_ok (t + dp_max_dispatch_delay_seconds (xa_dispatch_deadline_policy (ir_authorization i)))
      \<and> list_all (\<lambda>b. t < b) (deadline_bounds t (xa_consume_before (ir_authorization i))
          (xa_dispatch_deadline_policy (ir_authorization i)))"
    if "ms_authorizations st (key_of key) = Some i" "map_of (ms_grants st) (grant_key_of i) = Some g" for i g active hw
    using issued_invD(3,5) [OF inv(1) that(1)] grant_invD(2) [OF inv(2) that(2)] that(2)
    by (intro validate_consumption_iff) auto
  show ?thesis
  proof
    assume ?L
    then obtain s st' where ok: "consume X key (Ok t) st = (Ok s, st')" by (auto simp: is_Ok_fst)
    then obtain i active g d where i: "ms_authorizations st (key_of key) = Some i"
      "ir_transaction_id i = ck_transaction_id key" "ms_receipts st (key_of key) = None"
      "ms_authorities st (ck_scope key) = Some active"
      "map_of (ms_grants st) (ck_scope key, xa_grant_id (ir_authorization i)) = Some g"
      "validate_consumption X active g i t (ms_high_water st (ck_scope key)) = Ok d"
      by (elim consume_Ok) auto
    have k: "key = consume_key_of i" using issued_invD(1) [OF inv(1) i(1)] i(2) by (rule key_of_issued)
    then have g: "map_of (ms_grants st) (grant_key_of i) = Some g"
      using i(5) by (simp add: grant_key_of_def consume_key_of_def)
    have "key_validate key = Ok ()" "\<not> control_linked st key i"
      using ok i(1) unfolding consume_def Let_def key_of_def by (auto simp: try_q_Ok ensure_Ok ok_or_Ok)
    then show ?R using spec [OF i(1) g] i k g by (auto simp: is_Ok_def)
  next
    assume R: ?R
    then obtain i g where i: "ms_authorizations st (key_of key) = Some i" "key = consume_key_of i"
      "\<not> control_linked st key i" "ms_authorities st (ck_scope key) = Some (xa_authority (ir_authorization i))"
      "map_of (ms_grants st) (grant_key_of i) = Some g"
      and ok: "is_Ok (validate_consumption X (xa_authority (ir_authorization i)) g i t
        (ms_high_water st (ck_scope key)))"
      using spec by blast
    then show ?L
      using R consume_enabled [OF i(1,2,3,4,5)] issued_invD(2) [OF inv(1) i(1)] by blast
  qed
qed

theorem consumption_accepts_exactly_witness:
  "is_Ok (fst (consume ref_externals key0 (Ok 1010) store_issued))
   \<and> ms_receipts store_issued (key_of key0) = None
   \<and> (\<exists>i g. ms_authorizations store_issued (key_of key0) = Some i \<and> key0 = consume_key_of i
       \<and> map_of (ms_grants store_issued) (grant_key_of i) = Some g \<and> \<not> gs_revoked g)"
proof -
  have "is_Ok (fst (consume ref_externals key0 (Ok 1010) store_issued))" by (simp add: demo_consume)
  moreover note consumption_accepts_exactly [OF reach_issued, THEN iffD1, OF this]
  ultimately show ?thesis by blast
qed

text \<open>C29. An expiry is final. When \<open>consume\<close> rejects a key at \<open>t\<close> because the authorization, the grant, a
  dependency or the whole dispatch window has expired, no later call consumes it, whatever the clock
  answers then: the rejection has moved the scope's clock mark to \<open>t\<close>, and an earlier sample is refused.\<close>

theorem expiry_is_final:
  assumes "store_reachable lin X inst st" "consume X key (Ok t) st = (Err e, st1)" "expired_at e t"
    "(store_step lin X inst)\<^sup>*\<^sup>* st1 st2"
  shows "\<not> is_Ok (fst (consume X key clock st2))"
proof
  assume "is_Ok (fst (consume X key clock st2))"
  then obtain s st3 where ok: "consume X key clock st2 = (Ok s, st3)" by (auto simp: is_Ok_fst)
  obtain i active g where i: "ms_authorizations st (key_of key) = Some i"
    "map_of (ms_grants st) (ck_scope key, xa_grant_id (ir_authorization i)) = Some g"
    and v: "validate_consumption X active g i t (ms_high_water st (ck_scope key)) = Err e"
    and h: "ms_high_water st1 (ck_scope key) = Some t"
    using consume_expired [OF assms(2,3)] by blast
  have st: "store_inv X inst st" by (rule reachable_inv [OF assms(1)])
  then have inv: "issued_inv X st" "grant_inv X st" by (simp_all add: store_inv_def)
  have "store_step lin X inst st st1" by (rule step_consume [OF assms(2)])
  then have run: "changes X inst st1 st2" "changes X inst st st2"
    using store_run_changes [OF assms(4)] by (auto dest: store_step_changes)
  have "ms_authorizations st2 (key_of key) = Some i" by (rule authorizations.run_frozen [OF run(2) i(1)])
  with ok obtain active2 g2 t2 d where t2: "validate_consumption X active2 g2 i t2 (ms_high_water st2 (ck_scope key)) = Ok d"
    by (elim consume_Ok) auto
  obtain h2 where "ms_high_water st2 (ck_scope key) = Some h2" "t \<le> h2" using run_high_water [OF run(1) h] by blast
  then have "t \<le> t2" using validate_consumption_check_clock [OF t2] by (auto simp: check_clock_Ok)
  moreover have "list_all (\<lambda>b. t2 < b) (deadline_bounds t2 (xa_consume_before (ir_authorization i))
      (xa_dispatch_deadline_policy (ir_authorization i)))"
    using t2 by (auto simp: validate_consumption_def and_then_Ok Let_def compute_dispatch_deadline_Ok)
  ultimately have "list_all (\<lambda>b. t < b) (deadline_bounds t (xa_consume_before (ir_authorization i))
      (xa_dispatch_deadline_policy (ir_authorization i)))"
    by (auto simp: deadline_bounds_def list_all_iff)
  moreover have "map_of (ms_grants st) (grant_key_of i) = Some g"
    using i issued_invD(1) [OF inv(1) i(1)] by (simp add: grant_key_of_def issued_key_def key_of_def)
  then have "registration_validate X (gs_registration g) = Ok ()"
    "validate_grant_for_authorization (gs_registration g) (ir_authorization i) = Ok ()"
    using grant_invD(2) [OF inv(2)] issued_invD(5) [OF inv(1) i(1)] by auto
  ultimately show False
    using validate_consumption_not_expired [OF issued_invD(3) [OF inv(1) i(1)] _ _ _ v] assms(3) by blast
qed

theorem expiry_is_final_witness:
  "\<not> is_Ok (fst (consume ref_externals key0 (Ok 1010) (set_high_water scope0 1200 store_issued)))"
  by (rule expiry_is_final [OF reach_issued demo_expired _ rtranclp.rtrancl_refl]) simp

section \<open>Revocation and authority\<close>

text \<open>C5. Revoking the grant of a scope closes the scope for good: from then on no grant is registered,
  no authorization is recorded or consumed, no dispatch snapshot is taken, nothing is claimed and no
  provider attempt starts there, whatever operations ran in between.\<close>

theorem revocation_closes_the_scope:
  assumes "store_reachable lin X inst st" "revoke_grant X scope grant_id expected next st = (Ok (), st1)"
    "(store_step lin X inst)\<^sup>*\<^sup>* st1 st2"
  shows "(registration_scope r = scope \<longrightarrow> \<not> is_Ok (fst (register_grant X r clock st2)))
    \<and> \<not> is_Ok (fst (issuance_snapshot X scope gid clock st2))
    \<and> (issued_scope i = scope \<longrightarrow> \<not> is_Ok (fst (record_issued_authorization X i clock st2)))
    \<and> (ck_scope key = scope \<longrightarrow> \<not> is_Ok (fst (consume X key clock st2))
        \<and> \<not> is_Ok (fst (dispatch_snapshot lin X key clock st2))
        \<and> (cl_key request = key \<longrightarrow> \<not> is_Ok (fst (claim_dispatch lin X inst request clock st2)))
        \<and> (tk_key token = key \<longrightarrow> \<not> is_Ok (fst (revalidate_dispatch_claim lin X inst token clock st2))
          \<and> \<not> is_Ok (fst (mark_attempt_in_flight lin X inst token credential clock st2))))"
proof -
  have "grant_revoked st1 (scope, grant_id) = Some ()"
    using assms(2) by (auto simp: revoke_grant_def try_q_Ok grant_revoked_def)
  then have rv: "grant_revoked st2 (scope, grant_id) = Some ()"
    by (rule revocations.run_frozen [OF store_run_changes [OF assms(3)]])
  have "store_inv X inst st2"
    by (rule reachable_step_run [OF assms(1) step_revoke [OF assms(2)] assms(3)])
  then have "grant_inv X st2" by (simp add: store_inv_def)
  note closed = revoked_scope [OF this rv]
  have "\<not> is_Ok (fst (register_grant X r clock st2))" if "registration_scope r = scope"
    using closed(2) that by (auto simp: is_Ok_fst register_grant_def Let_def try_q_Ok or_observe_Ok ensure_Ok)
  moreover have "\<not> is_Ok (fst (issuance_snapshot X scope gid clock st2))"
    using closed(3) by (auto simp: is_Ok_fst issuance_snapshot_def try_q_Ok or_observe_Ok ok_or_Ok)
  moreover have "\<not> is_Ok (fst (record_issued_authorization X i clock st2))" if "issued_scope i = scope"
    using closed(3) that by (auto simp: is_Ok_fst record_issued_authorization_def Let_def try_q_Ok or_observe_Ok ok_or_Ok)
  moreover have "\<not> is_Ok (fst (consume X key clock st2))" if "ck_scope key = scope"
    using closed(1) that by (auto simp: is_Ok_fst dest!: consume_scope_open)
  moreover have "\<not> snapshot_of X st2 key t s" if "ck_scope key = scope" for t s
    using closed(1) that by (auto dest!: snapshot_scope_open)
  ultimately show ?thesis
    by (auto simp: is_Ok_fst
        dest!: dispatch_snapshot_Ok claim_dispatch_Ok revalidate_Ok mark_attempt_Ok)
qed

theorem revocation_closes_the_scope_witness:
  "\<not> is_Ok (fst (register_grant ref_externals sample_registration (Ok 1020) store_revoked))
   \<and> \<not> is_Ok (fst (record_issued_authorization ref_externals sample_issued (Ok 1020) store_revoked))
   \<and> \<not> is_Ok (fst (dispatch_snapshot refuse_lineage ref_externals key0 (Ok 1020) store_revoked))
   \<and> \<not> is_Ok (fst (mark_attempt_in_flight refuse_lineage ref_externals 7 token0 credential0 (Ok 1020) store_revoked))"
  using revocation_closes_the_scope [OF reach_consumed demo_revoke rtranclp.rtrancl_refl,
      of sample_registration "Ok 1020" _ sample_issued key0 _ token0 credential0] by simp

text \<open>C28. The authority of a scope only moves forward and never returns: every domain keeps its state or
  moves to a larger epoch, so once the active authority has changed it is never the old one again,
  and an authorization signed under the old one is neither consumed nor dispatched any more.\<close>

theorem superseded_authority_is_dead:
  assumes "active_authority scope st = Ok a" "(store_step lin X inst)\<^sup>*\<^sup>* st st1"
    "active_authority scope st1 = Ok a1" "a1 \<noteq> a" "(store_step lin X inst)\<^sup>*\<^sup>* st1 st2"
    "ck_scope key = scope" "ms_authorizations st2 (key_of key) = Some i"
    "xa_authority (ir_authorization i) = a"
  shows "authority_le a a1 \<and> (\<exists>a2. active_authority scope st2 = Ok a2 \<and> a2 \<noteq> a \<and> authority_le a1 a2)
    \<and> \<not> is_Ok (fst (consume X key clock st2))
    \<and> \<not> is_Ok (fst (dispatch_snapshot lin X key clock st2))
    \<and> (cl_key request = key \<longrightarrow> \<not> is_Ok (fst (claim_dispatch lin X inst request clock st2)))
    \<and> (tk_key token = key \<longrightarrow> \<not> is_Ok (fst (mark_attempt_in_flight lin X inst token credential clock st2)))"
proof -
  have a: "ms_authorities st scope = Some a" "ms_authorities st1 scope = Some a1"
    "scope_validate scope = Ok ()"
    using assms(1,3) by (auto simp: active_authority_def and_then_Ok ok_or_Ok)
  have le: "authority_le a a1"
    using run_authority [OF store_run_changes [OF assms(2)] a(1)] a(2) by auto
  obtain a2 where a2: "ms_authorities st2 scope = Some a2" "authority_le a1 a2"
    using run_authority [OF store_run_changes [OF assms(5)] a(2)] by auto
  have ne: "a2 \<noteq> a" using authority_le_antisym [OF le] a2(2) assms(4) by auto
  then have no: "\<not> scope_open st2 scope a" using a2(1) by (simp add: scope_open_def)
  have "\<not> is_Ok (fst (consume X key clock st2))"
    using no assms(6,7,8) by (auto simp: is_Ok_fst dest!: consume_scope_open)
  moreover have "\<not> snapshot_of X st2 key t s" for t s
    using no assms(6,7,8) by (auto dest!: snapshot_scope_open)
  moreover have "active_authority scope st2 = Ok a2" using a(3) a2(1) by (simp add: active_authority_def)
  ultimately show ?thesis using le a2(2) ne
    by (auto simp: is_Ok_fst dest!: dispatch_snapshot_Ok claim_dispatch_Ok mark_attempt_Ok)
qed

theorem superseded_authority_is_dead_witness:
  "authority_le sample_authority revoked_authority
   \<and> \<not> is_Ok (fst (consume ref_externals key0 (Ok 1020) store_revoked))
   \<and> \<not> is_Ok (fst (claim_dispatch refuse_lineage ref_externals 7 request0 (Ok 1020) store_revoked))"
proof -
  have st: "(store_step refuse_lineage ref_externals 7)\<^sup>*\<^sup>* store_consumed store_revoked"
    using step_revoke [OF demo_revoke] by (rule r_into_rtranclp)
  have a: "active_authority scope0 store_consumed = Ok sample_authority"
    "active_authority scope0 store_revoked = Ok revoked_authority"
    by (simp_all add: active_authority_def store_revoked_def)
  have "revoked_authority \<noteq> sample_authority"
    by (simp add: revoked_authority_def sample_authority_def domain_at_def)
  moreover have "ms_authorizations store_revoked (key_of key0) = Some sample_issued"
    by (simp add: key_of_def store_revoked_def)
  ultimately show ?thesis
    using superseded_authority_is_dead [OF a(1) st a(2) _ rtranclp.rtrancl_refl, of key0 sample_issued "Ok 1020" request0]
    by (simp add: request0_def)
qed

section \<open>Claims and provider attempts\<close>

text \<open>C30. A claim is exclusive. After a successful \<open>claim_dispatch\<close> the physical resource stays reserved for its
  authorization in every run of the modelled operations, to which the operations that retire a claim and free
  its resource do not belong; so no later claim in such a run is granted the same resource or the same claim
  identifier, and each has a greater fence. The claim belongs to a consumed authorization for that resource,
  starts after the consumption, and its lease ends by the dispatch deadline and within thirty seconds.\<close>

theorem claims_are_exclusive:
  assumes "store_reachable lin X inst st" "claim_dispatch lin X inst request clock st = (Ok c, st1)"
    "(store_step lin X inst)\<^sup>*\<^sup>* st1 st2"
  shows "ms_physical_reservations st2 (tk_physical_resource (cd_token c)) = Some (key_of (cl_key request))
    \<and> (\<forall>request' clock' c' st3. claim_dispatch lin X inst request' clock' st2 = (Ok c', st3) \<longrightarrow>
        tk_physical_resource (cd_token c') \<noteq> tk_physical_resource (cd_token c)
        \<and> tk_claim_id (cd_token c') \<noteq> tk_claim_id (cd_token c) \<and> tk_fence (cd_token c) < tk_fence (cd_token c'))
    \<and> (\<exists>i r. ms_authorizations st2 (key_of (cl_key request)) = Some i \<and> ms_receipts st2 (key_of (cl_key request)) = Some r
        \<and> from_authorization (ir_authorization i) = Ok (tk_physical_resource (cd_token c))
        \<and> cr_consumed_at r \<le> tk_claimed_at (cd_token c)
        \<and> tk_claimed_at (cd_token c) < tk_lease_until (cd_token c)
        \<and> tk_lease_until (cd_token c) \<le> cr_dispatch_deadline r
        \<and> tk_lease_until (cd_token c) \<le> tk_claimed_at (cd_token c) + 30)"
proof -
  let ?k = "key_of (cl_key request)" and ?t = "cd_token c"
  have "token_of st1 ?k = Some ?t"
    using claim_dispatch_Ok [OF assms(2)] by (auto simp: token_of_def new_dispatch_claim_def)
  from tokens.run_frozen [OF store_run_changes [OF assms(3)] this]
  obtain d where d: "ms_dispatch_claims st2 ?k = Some d" "mc_token d = ?t" by (auto simp: token_of_def)
  have "claim_inv inst st2"
    using reachable_step_run [OF assms(1) step_claim [OF assms(2)] assms(3)] by (simp add: store_inv_def)
  then have "claim_backed inst st2 ?k d" using d(1) unfolding claim_inv_def by blast
  then have b: "ms_physical_reservations st2 (tk_physical_resource ?t) = Some ?k"
    "ms_dispatch_claim_ids st2 (tk_claim_id ?t) = Some ?k" "tk_fence ?t \<le> ms_next_dispatch_fence st2"
    "\<exists>i r. ms_authorizations st2 ?k = Some i \<and> ms_receipts st2 ?k = Some r
      \<and> from_authorization (ir_authorization i) = Ok (tk_physical_resource ?t) \<and> claim_in_window inst ?t r"
    unfolding claim_backed_def Let_def d(2) by blast+
  have "tk_physical_resource (cd_token c') \<noteq> tk_physical_resource ?t \<and> tk_claim_id (cd_token c') \<noteq> tk_claim_id ?t
      \<and> tk_fence ?t < tk_fence (cd_token c')"
    if "claim_dispatch lin X inst request' clock' st2 = (Ok c', st3)" for request' clock' c' st3
    using claim_dispatch_free [OF that] b(1-3) by (auto intro: order.strict_trans1)
  moreover have "\<exists>i r. ms_authorizations st2 ?k = Some i \<and> ms_receipts st2 ?k = Some r
      \<and> from_authorization (ir_authorization i) = Ok (tk_physical_resource ?t)
      \<and> cr_consumed_at r \<le> tk_claimed_at ?t \<and> tk_claimed_at ?t < tk_lease_until ?t
      \<and> tk_lease_until ?t \<le> cr_dispatch_deadline r \<and> tk_lease_until ?t \<le> tk_claimed_at ?t + 30"
    using b(4) unfolding claim_in_window_def DISPATCH_CLAIM_LEASE_SECONDS_def by blast
  ultimately show ?thesis using b(1) by blast
qed

theorem claims_are_exclusive_witness:
  "ms_physical_reservations store_attempted physical0 = Some (scope0, derived_id)
    \<and> (\<exists>i r. ms_authorizations store_attempted (scope0, derived_id) = Some i
      \<and> ms_receipts store_attempted (scope0, derived_id) = Some r
      \<and> from_authorization (ir_authorization i) = Ok physical0 \<and> cr_consumed_at r \<le> 1012 \<and> 1042 \<le> cr_dispatch_deadline r)"
proof -
  have "demo_step\<^sup>*\<^sup>* store_claimed store_attempted" using step_attempt [OF demo_attempt] by (rule r_into_rtranclp)
  note W = claims_are_exclusive [OF reach_consumed demo_claim this]
  have "key_of (cl_key request0) = (scope0, derived_id)" by (simp add: request0_def key0_def key_of_def)
  moreover have "tk_physical_resource token0 = physical0" "tk_claimed_at token0 = 1012" "tk_lease_until token0 = 1042"
    by (simp_all add: token0_def claim_token_def)
  ultimately show ?thesis using W by auto
qed

text \<open>C31. The provider is called at most once for an authorization. Once a provider attempt has started,
  neither a new claim for the authorization nor another attempt on it succeeds, whatever runs in
  between; and the stored attempt started inside the claim's lease and inside the validity of the
  credential it is bound to.\<close>

theorem store_attempt_at_most_once:
  assumes "store_reachable lin X inst st"
    "mark_attempt_in_flight lin X inst token credential clock st = (Ok f, st1)"
    "(store_step lin X inst)\<^sup>*\<^sup>* st1 st2"
    "key_of (tk_key token') = key_of (tk_key token)" "key_of (cl_key request) = key_of (tk_key token)"
  shows "\<not> is_Ok (fst (mark_attempt_in_flight lin X inst token' credential' clock' st2))
    \<and> \<not> is_Ok (fst (claim_dispatch lin X inst request clock' st2))
    \<and> (\<exists>c b. ms_dispatch_claims st2 (key_of (tk_key token)) = Some c \<and> mc_token c = token
        \<and> mc_attempt_started_at c = Some (af_started_at f) \<and> mc_credential c = Some b
        \<and> matches_token b token
        \<and> tk_claimed_at token \<le> af_started_at f \<and> af_started_at f < tk_lease_until token
        \<and> bi_not_before b \<le> af_started_at f \<and> af_started_at f < bi_expires_at b)"
proof -
  let ?k = "key_of (tk_key token)" and ?t = "af_started_at f"
  have "attempt_of st2 ?k = Some (token, ?t)"
    by (rule attempts.run_frozen [OF store_run_changes [OF assms(3)] mark_attempt_started [OF assms(2)]])
  then obtain c where c: "ms_dispatch_claims st2 ?k = Some c" "mc_token c = token"
    "mc_attempt_started_at c = Some ?t"
    by (auto simp: attempt_of_def split: option.splits if_splits)
  have inv: "store_inv X inst st2"
    by (rule reachable_step_run [OF assms(1) step_attempt [OF assms(2)] assms(3)])
  then have "attempt_inv st2" by (simp add: store_inv_def)
  then obtain b where b: "mc_state c = AttemptInFlightState" "tk_claimed_at token \<le> ?t"
    "mc_credential c = Some b" "attempt_in_window token b ?t"
    using c unfolding attempt_inv_def by fastforce
  have "\<not> is_Ok (fst (mark_attempt_in_flight lin X inst token' credential' clock' st2))"
    using c(1) b(1) assms(4) by (auto simp: is_Ok_fst require_live_claim_Ok dest!: mark_attempt_Ok)
  moreover have "\<not> is_Ok (fst (claim_dispatch lin X inst request clock' st2))"
    using c(1) assms(5) by (auto simp: is_Ok_fst dest!: claim_dispatch_Ok)
  moreover have "matches_token b token" "?t < tk_lease_until token" "bi_not_before b \<le> ?t" "?t < bi_expires_at b"
    using b(4) by (simp_all add: attempt_in_window_def)
  ultimately show ?thesis using c b(2,3) by blast
qed

theorem store_attempt_at_most_once_witness:
  "\<not> is_Ok (fst (mark_attempt_in_flight refuse_lineage ref_externals 7 token0 credential0 (Ok 1020) store_attempted))
   \<and> \<not> is_Ok (fst (claim_dispatch refuse_lineage ref_externals 7 request0 (Ok 1020) store_attempted))
   \<and> (\<exists>c. ms_dispatch_claims store_attempted (scope0, derived_id) = Some c \<and> mc_attempt_started_at c = Some 1015)"
proof -
  have "key_of (cl_key request0) = key_of (tk_key token0)" by (simp add: request0_def)
  from store_attempt_at_most_once [OF reach_claimed demo_attempt rtranclp.rtrancl_refl refl this]
  show ?thesis by (simp add: key_of_def attempt0_def attempt_in_flight_new_def) blast
qed

section \<open>Ingress\<close>

text \<open>A signed ingress envelope is accepted at most once per audience, key and nonce: after its nonce
  was consumed, a later presentation that expires no later is never consumed again, whatever store
  operations run in between, the collection of expired nonces included. It is refused as already
  used or, once the clock mark has passed its expiry, as a clock rollback.\<close>

theorem ingress_nonce_single_use:
  assumes "consume_ingress_nonce r st = (Ok Consumed, st1)" "(store_step lin X inst)\<^sup>*\<^sup>* st1 st2"
    "ingress_nonce_consumption_new (nc_scope r) (nc_key_id r) (nc_nonce r) expires observed = Ok r'"
    "expires \<le> nc_expires_unix_s r"
  shows "(\<exists>st3. consume_ingress_nonce r' st2 = (Ok AlreadyUsed, st3))
    \<or> (\<exists>h. consume_ingress_nonce r' st2 = (Err (ClockRollback observed h), st2) \<and> observed < h)"
proof -
  have r': "nc_scope r' = nc_scope r" "nc_key_id r' = nc_key_id r" "nc_nonce r' = nc_nonce r"
    "nc_observed_unix_s r' = observed" "0 \<le> observed" "observed < nc_expires_unix_s r"
    using assms(3,4) by (auto simp: ingress_nonce_consumption_new_def and_then_Ok ensure_Ok)
  have "nonce_spent st2 ((nc_scope r, nc_key_id r, nc_nonce r), nc_expires_unix_s r) = Some ()"
    by (rule nonces.run_frozen [OF store_run_changes [OF assms(2)] consume_nonce_spends [OF assms(1)]])
  then have "fst (consume_ingress_nonce r' st2) \<noteq> Ok Consumed"
    using r' by (intro spent_nonce_refused [of _ _ "nc_expires_unix_s r"]) simp_all
  then show ?thesis
    using r'(4,5) by (auto simp: consume_ingress_nonce_def validate_observed_time_def try_q_def Let_def
        ensure_def split: if_splits option.splits)
qed

theorem ingress_nonce_single_use_witness:
  "\<exists>st3. consume_ingress_nonce nonce0 store_nonce = (Ok AlreadyUsed, st3)"
proof -
  have "ingress_nonce_consumption_new (nc_scope nonce0) (nc_key_id nonce0) (nc_nonce nonce0) 1100 1000 = Ok nonce0"
    by code_simp
  from ingress_nonce_single_use [where lin = refuse_lineage and X = ref_externals and inst = 7,
      OF demo_nonce rtranclp.rtrancl_refl this]
  show ?thesis by (simp add: store_nonce_def nonce0_def consume_ingress_nonce_def try_q_def validate_observed_time_def
        Let_def memory_default_def)
qed

text \<open>C33. Collecting expired nonces ends. Each call of \<open>prune_expired_ingress_nonces\<close> removes as many expired
  nonces of the audience as its limit allows, so enough calls leave none and the next one removes nothing;
  nonces that have not expired, nonces of other audiences and those of the previous ledger format are kept
  as they were.\<close>

theorem collection_terminates:
  assumes "ms_ingress_replay_high_water st scope = Some h" "valid_gc_limit limit"
    "length (expired_nonces scope h st) \<le> k * unat limit"
    "st' = ((\<lambda>z. snd (prune_expired_ingress_nonces scope limit z)) ^^ k) st"
  shows "expired_nonces scope h st' = [] \<and> fst (prune_expired_ingress_nonces scope limit st') = Ok 0
    \<and> DAList.lookup (ms_ingress_replay_nonces st') (s, i, n) =
      (case DAList.lookup (ms_ingress_replay_nonces st) (s, i, n) of
         None \<Rightarrow> None
       | Some e \<Rightarrow> if s = scope \<and> e \<le> h \<and> (s, i, n) \<notin> ms_ingress_replay_v13_nonces st then None else Some e)"
  using assms
proof (induction k arbitrary: st)
  case 0
  then have e: "expired_nonces scope h st = []" "st' = st" by simp_all
  have "fst (prune_expired_ingress_nonces scope limit st) = Ok 0"
    using prune_effect(1) [OF 0(1,2) surjective_pairing] e by simp
  moreover have "\<not> (s = scope \<and> e \<le> h \<and> (s, i, n) \<notin> ms_ingress_replay_v13_nonces st)"
    if "DAList.lookup (ms_ingress_replay_nonces st) (s, i, n) = Some e" for e
    using expired_nonces_iff [of e i n scope h st] that e(1) by auto
  ultimately show ?case using e by (auto split: option.split)
next
  case (Suc k)
  let ?st = "snd (prune_expired_ingress_nonces scope limit st)"
  note p = prune_effect [OF Suc.prems(1,2) surjective_pairing]
  have "expired_nonces scope h st' = [] \<and> fst (prune_expired_ingress_nonces scope limit st') = Ok 0
    \<and> DAList.lookup (ms_ingress_replay_nonces st') (s, i, n) =
      (case DAList.lookup (ms_ingress_replay_nonces ?st) (s, i, n) of
         None \<Rightarrow> None
       | Some e \<Rightarrow> if s = scope \<and> e \<le> h \<and> (s, i, n) \<notin> ms_ingress_replay_v13_nonces ?st then None else Some e)"
    by (rule Suc.IH)
      (use Suc.prems p(2,4) in \<open>simp_all add: funpow_swap1 [of "\<lambda>z. snd (prune_expired_ingress_nonces scope limit z)"]\<close>)
  then show ?case unfolding p(3,5) using expired_nonces_iff [of _ i n scope h st]
    by (auto split: option.splits if_splits dest!: in_set_takeD)
qed

theorem collection_terminates_witness:
  "expired_nonces (IngressReplayScope ''audience'') 1100 ((\<lambda>z. snd (prune_expired_ingress_nonces
     (IngressReplayScope ''audience'') 1 z)) (snd (observe_ingress_time (IngressReplayScope ''audience'') 1100 store_nonce))) = []"
proof -
  let ?s = "IngressReplayScope ''audience''" and ?st = "snd (observe_ingress_time (IngressReplayScope ''audience'') 1100 store_nonce)"
  have "ms_ingress_replay_high_water ?st ?s = Some 1100" "valid_gc_limit 1" "length (expired_nonces ?s 1100 ?st) \<le> 1 * unat (1 :: u32)"
    by code_simp+
  from collection_terminates [OF this refl] show ?thesis by simp
qed

end
