(* ===== verification/Issuance.thy ===== *)
theory Issuance
  imports State_Store
begin

unbundle bit_operations_syntax

text \<open>
  The authorization issuer, \<^verbatim>\<open>accordlock-issuance/src/lib.rs\<close>: it takes a proposal with a signed
  evaluation and a grant identifier, checks the evaluation against the current grant and authority
  from the store, derives the identifiers, signs the execution authorization and records it.
\<close>

section \<open>Data\<close>

record IssuanceSuccess =
  ix_signed_authorization :: SignedAuthorization
  ix_consume_key :: ConsumeKey

record PreparedIssuance =
  pi_record :: IssuedAuthorizationRecord
  pi_success :: IssuanceSuccess

text \<open>The issuer without the store it holds, which is passed explicitly.\<close>

record AuthorizationIssuer =
  iu_evaluator :: CoseVerifier
  iu_authorization_signer :: SigningIdentity

text \<open>Where the code keeps the printed text of an underlying error, the model keeps the error.\<close>

datatype IssuanceError =
    EvaluationDenied
  | EvaluationSignature CryptoError
  | EvaluationPayloadMismatch
  | KeySeparationRequired
  | EvaluatorAuthorityMismatch
  | AuthorizationSignerAuthorityMismatch
  | GrantScopeMismatch
  | IssuanceWorkMismatch
  | ControlIssuanceOutcomeUnknown uuid
  | ControlIssuanceFinalized uuid ControlWorkFinalizationReason i64
  | IssuanceCanonical CanonicalError
  | AuthorizationSignature CryptoError
  | IssuanceState StateError

section \<open>Derived identifiers\<close>

definition uuid_from_bytes :: "bytes \<Rightarrow> uuid" where
  "uuid_from_bytes bs = word_of_nat (foldl (\<lambda>n b. 256 * n + unat b) 0 bs)"

definition hash_component :: "bytes \<Rightarrow> bytes" where
  "hash_component c = be_bytes 8 (min (length c) (2 ^ 64 - 1)) @ c"

definition uuid_material :: "string \<Rightarrow> Scope \<Rightarrow> uuid \<Rightarrow> uuid \<Rightarrow> uuid \<Rightarrow> bytes" where
  "uuid_material domain scope request_id evaluation_nonce grant_id =
     hash_component (str_bytes domain) @ hash_component (str_bytes (sc_tenant scope))
     @ hash_component (str_bytes (sc_environment scope))
     @ uuid_bytes request_id @ uuid_bytes evaluation_nonce @ uuid_bytes grant_id"

definition derive_uuid :: "externals \<Rightarrow> string \<Rightarrow> Scope \<Rightarrow> uuid \<Rightarrow> uuid \<Rightarrow> uuid \<Rightarrow> uuid" where
  "derive_uuid X domain scope request_id evaluation_nonce grant_id =
     (let digest = x_sha256 X (uuid_material domain scope request_id evaluation_nonce grant_id);
          bytes = take 16 (digest_bytes digest);
          bytes = bytes[6 := ((bytes ! 6) AND 0x0f) OR 0x80];
          bytes = bytes[8 := ((bytes ! 8) AND 0x3f) OR 0x80]
      in uuid_from_bytes bytes)"

section \<open>Issuing\<close>

definition grant_allows :: "CapabilityGrant \<Rightarrow> AgentProposal \<Rightarrow> bool" where
  "grant_allows grant proposal \<longleftrightarrow> (let template = ap_template proposal in
     cg_holder grant = ap_actor proposal \<and> cg_tenant grant = ap_tenant proposal
     \<and> cg_operation grant = dt_operation template \<and> cg_repository grant = dt_repository template
     \<and> cg_audience grant = dt_audience template
     \<and> cg_cluster_identity grant = dt_cluster_identity template
     \<and> cg_namespace grant = dt_namespace template
     \<and> cg_deployment_uid grant = dt_deployment_uid template
     \<and> cg_container grant = dt_container template
     \<and> cg_image_repository grant = dt_image_repository template)"

definition issued_authorization ::
    "AgentProposal \<Rightarrow> EvaluationAttestation \<Rightarrow> uuid \<Rightarrow> uuid \<Rightarrow> IssuanceSnapshot \<Rightarrow> i64
     \<Rightarrow> ExecutionAuthorization" where
  "issued_authorization proposal evaluation authorization_id grant_id snapshot consume_before =
     \<lparr>xa_schema_version = EXECUTION_AUTHORIZATION_SCHEMA_VERSION,
      xa_authorization_id = authorization_id,
      xa_evaluation_nonce = at_evaluation_nonce evaluation, xa_request_id = ap_request_id proposal,
      xa_tenant = ap_tenant proposal, xa_holder = ap_actor proposal,
      xa_audience = cg_audience (gr_grant (is_registration snapshot)),
      xa_issued_at = is_issued_at snapshot, xa_not_before = is_issued_at snapshot,
      xa_consume_before = consume_before,
      xa_dispatch_deadline_policy = gr_dispatch_deadline_policy (is_registration snapshot),
      xa_grant_id = grant_id, xa_template = ap_template proposal,
      xa_template_hash = at_template_hash evaluation, xa_evidence_root = at_evidence_root evaluation,
      xa_principals = at_principals evaluation, xa_policy_root = at_policy_root evaluation,
      xa_authority = at_authority evaluation\<rparr>"

definition prepare_issuance ::
    "externals \<Rightarrow> AuthorizationIssuer \<Rightarrow> AgentProposal \<Rightarrow> SignedEvaluation \<Rightarrow> Scope \<Rightarrow> uuid
     \<Rightarrow> IssuanceSnapshot \<Rightarrow> (PreparedIssuance, IssuanceError) result" where
  "prepare_issuance X issuer proposal signed_evaluation scope grant_id snapshot =
     (let evaluator = iu_evaluator issuer; signer = iu_authorization_signer issuer;
          signer_public_key = public_key_bytes X signer; registration = is_registration snapshot;
          grant = gr_grant registration; issued_at = is_issued_at snapshot;
          evaluation = sv_attestation signed_evaluation in
     and_then (ensure (cv_key evaluator \<noteq> signer_public_key) KeySeparationRequired) (\<lambda>_.
     and_then (map_err EvaluationSignature
       (evaluator_verifier_root X (cv_key_id evaluator) (cv_key evaluator))) (\<lambda>evaluator_root.
     and_then (ensure (evaluator_root = ads_root (av_kernel_configuration (gr_authority registration)))
       EvaluatorAuthorityMismatch) (\<lambda>_.
     and_then (map_err AuthorizationSignature
       (authorization_signer_root X (si_key_id signer) signer_public_key)) (\<lambda>signer_root.
     and_then (ensure (signer_root = ads_root (av_signer (gr_authority registration)))
       AuthorizationSignerAuthorityMismatch) (\<lambda>_.
     and_then (map_err EvaluationSignature
       (verify_cose X (sv_cose_sign1 signed_evaluation) EVALUATION_DOMAIN evaluator)) (\<lambda>signed_payload.
     and_then (map_err IssuanceCanonical
       (canonical_bytes (x_cbor X) (VAttestation evaluation))) (\<lambda>expected_payload.
     and_then (ensure (signed_payload = expected_payload) EvaluationPayloadMismatch) (\<lambda>_.
     and_then (ensure (at_outcome evaluation = Allow) EvaluationDenied) (\<lambda>_.
     and_then (ensure (\<not> (at_schema_version evaluation \<noteq> EVALUATION_ATTESTATION_SCHEMA_VERSION
         \<or> at_reasons evaluation \<noteq> [Allowed]
         \<or> at_policy_root evaluation \<noteq> ads_root (av_policy (at_authority evaluation))
         \<or> issued_at < at_evaluated_at evaluation
         \<or> at_consume_before evaluation \<le> at_evaluated_at evaluation
         \<or> at_authority evaluation \<noteq> gr_authority registration
         \<or> at_request_id evaluation \<noteq> ap_request_id proposal
         \<or> at_tenant evaluation \<noteq> ap_tenant proposal
         \<or> at_actor evaluation \<noteq> ap_actor proposal)) EvaluationPayloadMismatch) (\<lambda>_.
     and_then (ensure (\<not> (is_scope snapshot \<noteq> scope \<or> sc_tenant scope \<noteq> ap_tenant proposal
         \<or> sc_environment scope \<noteq> dt_environment (ap_template proposal))) EvaluationPayloadMismatch) (\<lambda>_.
     and_then (map_err IssuanceCanonical
       (canonical_hash (x_cbor X) (x_sha256 X) (VTemplate (ap_template proposal)))) (\<lambda>template_hash.
     and_then (ensure (template_hash = at_template_hash evaluation) EvaluationPayloadMismatch) (\<lambda>_.
     and_then (ensure (grant_allows grant proposal) GrantScopeMismatch) (\<lambda>_.
     let consume_before = min (at_consume_before evaluation) (cg_expires_at grant) in
     and_then (map_err IssuanceState (compute_dispatch_deadline issued_at consume_before
       (gr_dispatch_deadline_policy registration))) (\<lambda>_.
     let authorization_id = derive_uuid X ''accordlock:v1:authorization-id'' scope
           (ap_request_id proposal) (at_evaluation_nonce evaluation) grant_id;
         transaction_id = derive_uuid X ''accordlock:v1:authorization-transaction'' scope
           (ap_request_id proposal) (at_evaluation_nonce evaluation) grant_id;
         authorization = issued_authorization proposal evaluation authorization_id grant_id snapshot
           consume_before in
     and_then (map_err IssuanceCanonical
       (canonical_bytes (x_cbor X) (VAuthorization authorization))) (\<lambda>payload.
     and_then (map_err AuthorizationSignature
       (sign_cose X payload EXECUTION_AUTHORIZATION_DOMAIN signer)) (\<lambda>cose_sign1.
     let signed_authorization = \<lparr>sx_authorization = authorization, sx_cose_sign1 = cose_sign1\<rparr> in
     and_then (map_err IssuanceState (issued_new X transaction_id signed_authorization
       (si_key_id signer) signer_public_key)) (\<lambda>issued.
     Ok \<lparr>pi_record = issued,
         pi_success = \<lparr>ix_signed_authorization = signed_authorization,
           ix_consume_key = \<lparr>ck_scope = scope, ck_transaction_id = transaction_id,
             ck_authorization_id = authorization_id\<rparr>\<rparr>\<rparr>)))))))))))))))))))"

text \<open>The snapshot and the record are two calls of the store; \<open>others\<close> is what concurrent callers do
  to the state in between.\<close>

definition issue ::
    "externals \<Rightarrow> AuthorizationIssuer \<Rightarrow> AgentProposal \<Rightarrow> SignedEvaluation \<Rightarrow> Scope \<Rightarrow> uuid
     \<Rightarrow> i64 state_result \<Rightarrow> i64 state_result \<Rightarrow> (MemoryState \<Rightarrow> MemoryState) \<Rightarrow> MemoryState
     \<Rightarrow> (IssuanceSuccess, IssuanceError) result \<times> MemoryState" where
  "issue X issuer proposal signed_evaluation scope grant_id clock1 clock2 others st =
     (case issuance_snapshot X scope grant_id clock1 st of
        (Err e, st') \<Rightarrow> (Err (IssuanceState e), st')
      | (Ok snapshot, st') \<Rightarrow>
          (case prepare_issuance X issuer proposal signed_evaluation scope grant_id snapshot of
             Err e \<Rightarrow> (Err e, others st')
           | Ok prepared \<Rightarrow>
               (case record_issued_authorization X (pi_record prepared) clock2 (others st') of
                  (Err e, st'') \<Rightarrow> (Err (IssuanceState e), st'')
                | (Ok _, st'') \<Rightarrow> (Ok (pi_success prepared), st''))))"

section \<open>Durable work\<close>

record ControlIssuanceWork =
  iw_lease :: ControlWorkLease
  iw_scope :: Scope
  iw_proposal :: AgentProposal
  iw_signed_evaluation :: SignedEvaluation
  iw_selected_grant_id :: uuid
  iw_decision_id :: uuid

datatype ControlIssuanceCommitOutcome =
    Committed | Recovered | Finalized ControlWorkFinalizationReceipt | OutcomeUnknown uuid

text \<open>The code is generic in the control-plane state; its answers to the two calls are the arguments
  \<open>snapshot\<close> and \<open>commit\<close>.\<close>

definition issue_or_recover ::
    "externals \<Rightarrow> AuthorizationIssuer \<Rightarrow> (ControlIssuanceWork \<Rightarrow> IssuanceSnapshot state_result)
     \<Rightarrow> (ControlIssuanceWork \<Rightarrow> IssuedAuthorizationRecord \<Rightarrow> ControlIssuanceCommitOutcome state_result)
     \<Rightarrow> ControlIssuanceWork \<Rightarrow> (IssuanceSuccess, IssuanceError) result" where
  "issue_or_recover X issuer control_issuance_snapshot record_and_link work =
     and_then (map_err IssuanceState (control_issuance_snapshot work)) (\<lambda>snapshot.
     and_then (ensure (\<not> (is_scope snapshot \<noteq> iw_scope work
         \<or> is_issued_at snapshot \<noteq> wl_claimed_at (iw_lease work)
         \<or> cg_grant_id (gr_grant (is_registration snapshot)) \<noteq> iw_selected_grant_id work))
       IssuanceWorkMismatch) (\<lambda>_.
     and_then (prepare_issuance X issuer (iw_proposal work) (iw_signed_evaluation work) (iw_scope work)
       (iw_selected_grant_id work) snapshot) (\<lambda>prepared.
     let submission_id = wl_submission_id (iw_lease work) in
     and_then (map_err IssuanceState (record_and_link work (pi_record prepared))) (\<lambda>outcome.
     case outcome of
       Committed \<Rightarrow> Ok (pi_success prepared)
     | Recovered \<Rightarrow> Ok (pi_success prepared)
     | Finalized receipt \<Rightarrow>
         if fr_submission_id receipt = submission_id
         then Err (ControlIssuanceFinalized submission_id (fr_reason receipt) (fr_finalized_at receipt))
         else Err IssuanceWorkMismatch
     | OutcomeUnknown observed \<Rightarrow>
         if observed = submission_id then Err (ControlIssuanceOutcomeUnknown submission_id)
         else Err IssuanceWorkMismatch))))"

end
