(* ===== verification/Issuance_Flow.thy ===== *)
theory Issuance_Flow
  imports Issuance Store_Safety Kernel_Decision
begin

text \<open>
  The path from the kernel to the store: which checks an issuance has passed, what an issued
  authorization takes from the evaluation behind it, and the runs of a store to which authorizations
  are added by the issuer only, together with the payloads the kernel's evaluator signed. The issuer
  ties an attestation to the kernel by the signature it verifies and the payload it compares.
  \<open>approved_by\<close> is the link kept for every stored authorization.
\<close>

section \<open>What a prepared issuance has checked\<close>

text \<open>The payload that the evaluator's signature on an attestation covers.\<close>

definition canonical_payload :: "externals \<Rightarrow> EvaluationAttestation \<Rightarrow> (bytes, CryptoError) result" where
  "canonical_payload X evaluation =
     (case canonical_bytes (x_cbor X) (VAttestation evaluation) of Ok b \<Rightarrow> Ok b | Err _ \<Rightarrow> Err Cose)"

lemma prepare_issuance_Ok:
  assumes "prepare_issuance X issuer proposal sv scope grant_id snapshot = Ok prepared"
  obtains evaluation h cb authorization_id transaction_id where
    "evaluation = sv_attestation sv" "at_outcome evaluation = Allow"
    "canonical_hash (x_cbor X) (x_sha256 X) (VTemplate (ap_template proposal)) = Ok (at_template_hash evaluation)"
    "at_evaluated_at evaluation \<le> is_issued_at snapshot" "at_request_id evaluation = ap_request_id proposal"
    "at_tenant evaluation = ap_tenant proposal" "at_actor evaluation = ap_actor proposal"
    "at_authority evaluation = gr_authority (is_registration snapshot)"
    "sc_tenant scope = ap_tenant proposal" "sc_environment scope = dt_environment (ap_template proposal)"
    "cb = min (at_consume_before evaluation) (cg_expires_at (gr_grant (is_registration snapshot)))"
    "authorization_id = derive_uuid X ''accordlock:v1:authorization-id'' scope
       (ap_request_id proposal) (at_evaluation_nonce evaluation) grant_id"
    "transaction_id = derive_uuid X ''accordlock:v1:authorization-transaction'' scope
       (ap_request_id proposal) (at_evaluation_nonce evaluation) grant_id"
    "ir_authorization (pi_record prepared)
       = issued_authorization proposal evaluation authorization_id grant_id snapshot cb"
    "ir_transaction_id (pi_record prepared) = transaction_id"
    "ix_signed_authorization (pi_success prepared) = ir_signed_authorization (pi_record prepared)"
    "ix_consume_key (pi_success prepared) = \<lparr>ck_scope = scope, ck_transaction_id = transaction_id,
       ck_authorization_id = authorization_id\<rparr>"
    "verify_cose X (sv_cose_sign1 sv) EVALUATION_DOMAIN (iu_evaluator issuer) = canonical_payload X evaluation"
    "is_Ok (canonical_payload X evaluation)"
  using assms unfolding prepare_issuance_def Let_def issued_new_def
  by (auto simp: and_then_Ok map_err_Ok ensure_Ok ir_authorization_def not_less canonical_payload_def)

text \<open>The key returned to the caller is the key of the record.\<close>

lemma prepared_key:
  assumes "prepare_issuance X issuer proposal sv scope grant_id snapshot = Ok prepared"
  shows "ix_consume_key (pi_success prepared) = consume_key_of (pi_record prepared)"
    "issued_scope (pi_record prepared) = scope"
  using assms
  by (elim prepare_issuance_Ok,
      simp add: consume_key_of_def issued_scope_def issued_authorization_def)+

lemma record_issued_authorizations:
  assumes "record_issued_authorization X i clock st = (r, st')"
  shows "ms_authorizations st' = ms_authorizations st
    \<or> ms_authorizations st' = (ms_authorizations st)(issued_key i \<mapsto> i)"
  using assms unfolding record_issued_authorization_def Let_def try_q_def or_observe_def issued_key_def
  by (auto split: result.splits if_splits)

section \<open>Approval\<close>

text \<open>Two values whose canonical encodings differ and have the same digest.\<close>

definition hash_collision :: "externals \<Rightarrow> canonical_value \<Rightarrow> canonical_value \<Rightarrow> bool" where
  "hash_collision X v w \<longleftrightarrow> (\<exists>x y. canonical_bytes (x_cbor X) v = Ok x \<and> canonical_bytes (x_cbor X) w = Ok y
     \<and> x \<noteq> y \<and> x_sha256 X x = x_sha256 X y)"

lemma same_hash:
  assumes "cbor_encoder (x_cbor X)" "value_ok v" "value_ok w"
    "canonical_hash (x_cbor X) (x_sha256 X) v = Ok h" "canonical_hash (x_cbor X) (x_sha256 X) w = Ok h"
  shows "same_value v w \<or> hash_collision X v w"
proof -
  obtain x y where b: "canonical_bytes (x_cbor X) v = Ok x" "canonical_bytes (x_cbor X) w = Ok y"
    "x_sha256 X x = x_sha256 X y"
    using assms(4,5) by (auto simp: canonical_hash_def and_then_Ok)
  show ?thesis
  proof (cases "x = y")
    case True
    with b assms(2,3) show ?thesis by (blast intro: cbor_encoder.canonical_bytes_determine [OF assms(1)])
  qed (use b in \<open>auto simp: hash_collision_def\<close>)
qed

text \<open>The authorization carries out what the kernel allowed: the request, the caller, the authority and
  the deployment template are those of an evaluation that satisfies the specification, it is not older
  than that evaluation and does not outlive the session or any item of evidence.\<close>

definition approved_by ::
    "externals \<Rightarrow> AgentProposal \<Rightarrow> TrustedEvidenceSet \<Rightarrow> KernelContext \<Rightarrow> ExecutionAuthorization \<Rightarrow> bool" where
  "approved_by X proposal evidence context a \<longleftrightarrow>
     allow_spec X proposal evidence context
     \<and> xa_request_id a = ap_request_id proposal \<and> xa_tenant a = kl_tenant (kc_caller context)
     \<and> xa_holder a = kl_actor (kc_caller context) \<and> xa_authority a = kc_active_authority context
     \<and> (xa_template a = ap_template proposal
        \<or> hash_collision X (VTemplate (xa_template a)) (VTemplate (ap_template proposal)))
     \<and> kc_now context \<le> xa_issued_at a \<and> xa_consume_before a \<le> kc_ingress_expires_at context
     \<and> list_all (\<lambda>s. xa_consume_before a \<le> ea_valid_until (se_assertion s)) (te_evidence evidence)"

lemma prepared_approved:
  assumes "cbor_encoder (x_cbor X)" "registry_new X domain entries = Ok (kc_attester_registry context)"
    "evaluate_inner X evaluated evidence context = Ok (sv_attestation sv)"
    "prepare_issuance X issuer proposal sv scope grant_id snapshot = Ok prepared"
    "value_ok (VTemplate (ap_template evaluated))" "value_ok (VTemplate (ap_template proposal))"
  shows "approved_by X evaluated evidence context (ir_authorization (pi_record prepared))"
proof -
  let ?att = "sv_attestation sv" and ?a = "ir_authorization (pi_record prepared)"
  note inner = assms(3)
  have att: "at_request_id ?att = ap_request_id evaluated" "at_tenant ?att = kl_tenant (kc_caller context)"
    "at_actor ?att = kl_actor (kc_caller context)" "at_authority ?att = kc_active_authority context"
    "at_evaluated_at ?att = kc_now context"
    "canonical_hash (x_cbor X) (x_sha256 X) (VTemplate (ap_template evaluated)) = Ok (at_template_hash ?att)"
    using inner by (elim evaluate_inner_Ok; simp)+
  have a: "at_outcome ?att = Allow" "xa_request_id ?a = at_request_id ?att" "xa_tenant ?a = at_tenant ?att"
    "xa_holder ?a = at_actor ?att" "xa_authority ?a = at_authority ?att" "xa_template ?a = ap_template proposal"
    "at_evaluated_at ?att \<le> xa_issued_at ?a" "xa_consume_before ?a \<le> at_consume_before ?att"
    "canonical_hash (x_cbor X) (x_sha256 X) (VTemplate (ap_template proposal)) = Ok (at_template_hash ?att)"
    using assms(4) by (elim prepare_issuance_Ok; simp add: issued_authorization_def)+
  have "allow_spec X evaluated evidence context"
    using evaluate_inner_outcome [OF inner registry_new_wf [OF assms(2)]] a(1) by simp
  moreover have "xa_template ?a = ap_template evaluated
      \<or> hash_collision X (VTemplate (xa_template ?a)) (VTemplate (ap_template evaluated))"
    using same_hash [OF assms(1,6,5) a(9) att(6)] a(6) by simp
  moreover have "xa_consume_before ?a \<le> kc_ingress_expires_at context"
    "list_all (\<lambda>s. xa_consume_before ?a \<le> ea_valid_until (se_assertion s)) (te_evidence evidence)"
    using consume_before_bounds [OF inner] a(1,8) by (force simp: list_all_iff)+
  ultimately show ?thesis using a att by (simp add: approved_by_def)
qed

section \<open>A store fed by the issuer\<close>

text \<open>The runtime: the store, and the payloads on which the kernel's evaluator has put its signature.\<close>

record RuntimeState =
  rt_store :: MemoryState
  rt_signed :: "bytes list"

text \<open>The evaluator's key is not forged: an envelope that verifies under it carries a payload that the
  evaluator has signed. The caller of the issuer chooses the envelope and the attestation beside it freely.\<close>

definition unforged :: "externals \<Rightarrow> CoseVerifier \<Rightarrow> bytes list \<Rightarrow> bytes \<Rightarrow> bool" where
  "unforged X evaluator payloads cose \<longleftrightarrow>
     (\<forall>payload. verify_cose X cose EVALUATION_DOMAIN evaluator = Ok payload \<longrightarrow> payload \<in> set payloads)"

text \<open>The runtime uses every modelled operation of the store, but authorizations are recorded by the issuer
  only. The evaluator signs what the kernel evaluated, for a caller or for durable control work. The issuer
  is called with any proposal, any signed evaluation and the snapshot of any earlier moment. The conditions
  \<open>value_ok\<close> bound sizes by what memory holds.\<close>

inductive runtime_step ::
    "control_lineage \<Rightarrow> externals \<Rightarrow> uuid \<Rightarrow> AuthorizationIssuer \<Rightarrow> RuntimeState \<Rightarrow> RuntimeState \<Rightarrow> bool"
  for lin X inst issuer where
  runtime_store: "store_step lin X inst (rt_store rt) st' \<Longrightarrow> ms_authorizations st' = ms_authorizations (rt_store rt) \<Longrightarrow>
    runtime_step lin X inst issuer rt (rt\<lparr>rt_store := st'\<rparr>)"
| runtime_evaluate: "registry_new X domain entries = Ok (kc_attester_registry context) \<Longrightarrow>
    evaluate X evaluated evidence context = Ok (sv_attestation ev) \<Longrightarrow>
    sign_evaluation X (sv_attestation ev) evaluator = Ok ev \<Longrightarrow>
    canonical_payload X (sv_attestation ev) = Ok payload \<Longrightarrow>
    value_ok (VTemplate (ap_template evaluated)) \<Longrightarrow> value_ok (VAttestation (sv_attestation ev)) \<Longrightarrow>
    runtime_step lin X inst issuer rt (rt\<lparr>rt_signed := payload # rt_signed rt\<rparr>)"
| runtime_evaluate_control: "registry_new X domain entries = Ok (kc_attester_registry context) \<Longrightarrow>
    evaluate_control X context evidence evaluator = Ok (work, ev) \<Longrightarrow>
    canonical_payload X (sv_attestation ev) = Ok payload \<Longrightarrow>
    value_ok (VTemplate (ap_template (kc_proposal context))) \<Longrightarrow> value_ok (VAttestation (sv_attestation ev)) \<Longrightarrow>
    runtime_step lin X inst issuer rt (rt\<lparr>rt_signed := payload # rt_signed rt\<rparr>)"
| runtime_issue: "unforged X (iu_evaluator issuer) (rt_signed rt) (sv_cose_sign1 sv) \<Longrightarrow>
    value_ok (VTemplate (ap_template proposal)) \<Longrightarrow> value_ok (VAttestation (sv_attestation sv)) \<Longrightarrow>
    prepare_issuance X issuer proposal sv scope grant_id snapshot = Ok prepared \<Longrightarrow>
    record_issued_authorization X (pi_record prepared) clock (rt_store rt) = (r, st') \<Longrightarrow>
    runtime_step lin X inst issuer rt (rt\<lparr>rt_store := st'\<rparr>)"

text \<open>What the log holds: canonical bytes of results of the kernel's evaluation.\<close>

definition kernel_payload :: "externals \<Rightarrow> bytes \<Rightarrow> bool" where
  "kernel_payload X payload \<longleftrightarrow> (\<exists>domain entries context evaluated evidence att.
     registry_new X domain entries = Ok (kc_attester_registry context)
     \<and> evaluate_inner X evaluated evidence context = Ok att \<and> canonical_payload X att = Ok payload
     \<and> value_ok (VTemplate (ap_template evaluated)) \<and> value_ok (VAttestation att))"

definition approved_inv :: "externals \<Rightarrow> RuntimeState \<Rightarrow> bool" where
  "approved_inv X rt \<longleftrightarrow> list_all (kernel_payload X) (rt_signed rt)
     \<and> (\<forall>k i. ms_authorizations (rt_store rt) k = Some i \<longrightarrow>
          (\<exists>proposal evidence context. approved_by X proposal evidence context (ir_authorization i)))"

text \<open>The signature that the issuer verifies and its comparison of the payload tie the attestation to the
  kernel's evaluation.\<close>

lemma verified_evaluation:
  assumes X: "cbor_encoder (x_cbor X)" and log: "list_all (kernel_payload X) payloads"
    and sv: "unforged X (iu_evaluator issuer) payloads (sv_cose_sign1 sv)" "value_ok (VAttestation (sv_attestation sv))"
    and p: "prepare_issuance X issuer proposal sv scope grant_id snapshot = Ok prepared"
  obtains domain entries "context" evaluated evidence where
    "registry_new X domain entries = Ok (kc_attester_registry context)"
    "evaluate_inner X evaluated evidence context = Ok (sv_attestation sv)" "value_ok (VTemplate (ap_template evaluated))"
proof -
  have "verify_cose X (sv_cose_sign1 sv) EVALUATION_DOMAIN (iu_evaluator issuer) = canonical_payload X (sv_attestation sv)"
    "is_Ok (canonical_payload X (sv_attestation sv))"
    using p by (elim prepare_issuance_Ok; simp)+
  then obtain payload where c: "canonical_payload X (sv_attestation sv) = Ok payload" and "payload \<in> set payloads"
    using sv(1) by (auto simp: unforged_def is_Ok_def)
  then obtain domain entries "context" evaluated evidence att where
    k: "registry_new X domain entries = Ok (kc_attester_registry context)"
      "evaluate_inner X evaluated evidence context = Ok att" "canonical_payload X att = Ok payload"
      "value_ok (VTemplate (ap_template evaluated))" "value_ok (VAttestation att)"
    using log unfolding list_all_iff kernel_payload_def by blast
  have "same_value (VAttestation att) (VAttestation (sv_attestation sv))"
    using c k(3,5) sv(2) by (intro cbor_encoder.canonical_bytes_determine [OF X, where b = payload])
      (auto simp: canonical_payload_def split: result.splits)
  with k that show thesis by simp
qed

lemma runtime_store_run_step: "runtime_step lin X inst issuer rt rt' \<Longrightarrow> (store_step lin X inst)\<^sup>*\<^sup>* (rt_store rt) (rt_store rt')"
  by (induction rule: runtime_step.induct) (auto intro: step_issue)

lemma runtime_store_run:
  "(runtime_step lin X inst issuer)\<^sup>*\<^sup>* rt rt' \<Longrightarrow> (store_step lin X inst)\<^sup>*\<^sup>* (rt_store rt) (rt_store rt')"
  by (induction rule: rtranclp_induct) (auto dest: runtime_store_run_step)

lemma approved_step:
  assumes "cbor_encoder (x_cbor X)" "approved_inv X rt" "runtime_step lin X inst issuer rt rt'"
  shows "approved_inv X rt'"
  using assms(3)
proof (cases rule: runtime_step.cases)
  case (runtime_store st')
  with assms(2) show ?thesis by (simp add: approved_inv_def)
next
  case (runtime_evaluate domain entries "context" evaluated evidence ev evaluator payload)
  have "evaluate_inner X evaluated evidence context = Ok (sv_attestation ev)"
    using runtime_evaluate(3) by (simp add: evaluate_def and_then_Ok)
  then have "kernel_payload X payload" using runtime_evaluate unfolding kernel_payload_def by blast
  with assms(2) runtime_evaluate(1) show ?thesis by (simp add: approved_inv_def)
next
  case (runtime_evaluate_control domain entries "context" evidence evaluator work ev payload)
  have "evaluate_inner X (kc_proposal context) evidence context = Ok (sv_attestation ev)"
    using runtime_evaluate_control(3) by (auto simp: evaluate_control_def sign_evaluation_def result_simps)
  then have "kernel_payload X payload" using runtime_evaluate_control unfolding kernel_payload_def by blast
  with assms(2) runtime_evaluate_control(1) show ?thesis by (simp add: approved_inv_def)
next
  case (runtime_issue sv proposal scope grant_id snapshot prepared clock r st')
  have log: "list_all (kernel_payload X) (rt_signed rt)" using assms(2) by (simp add: approved_inv_def)
  obtain domain entries "context" evaluated evidence where e:
    "registry_new X domain entries = Ok (kc_attester_registry context)"
    "evaluate_inner X evaluated evidence context = Ok (sv_attestation sv)" "value_ok (VTemplate (ap_template evaluated))"
    by (rule verified_evaluation [OF assms(1) log runtime_issue(2,4,5)])
  have "\<exists>proposal evidence context. approved_by X proposal evidence context (ir_authorization (pi_record prepared))"
    using prepared_approved [OF assms(1) e(1,2) runtime_issue(5) e(3) runtime_issue(3)] by blast
  moreover have "ms_authorizations (rt_store rt) k = Some i \<or> i = pi_record prepared"
    if "ms_authorizations (rt_store rt') k = Some i" for k i
    using record_issued_authorizations [OF runtime_issue(6)] that runtime_issue(1) by (auto split: if_splits)
  moreover have "rt_signed rt' = rt_signed rt" using runtime_issue(1) by simp
  ultimately show ?thesis using assms(2) unfolding approved_inv_def by metis
qed

definition runtime_init :: "RuntimeState \<Rightarrow> bool" where
  "runtime_init rt \<longleftrightarrow> store_init (rt_store rt) \<and> rt_signed rt = []"

lemma approved_init: "runtime_init rt \<Longrightarrow> approved_inv X rt"
proof -
  have "ms_authorizations st = Map.empty" if "store_init st" for st
    using that unfolding store_init_def by (erule_tac ssubst) (simp add: memory_default_def)
  then show "runtime_init rt \<Longrightarrow> approved_inv X rt" by (auto simp: runtime_init_def approved_inv_def)
qed

interpretation runtime: invariant_system runtime_init "runtime_step lin X inst issuer"
    "\<lambda>rt. cbor_encoder (x_cbor X) \<longrightarrow> approved_inv X rt" for lin X inst issuer
  by unfold_locales (blast intro: approved_init approved_step)+

abbreviation runtime_reachable ::
    "control_lineage \<Rightarrow> externals \<Rightarrow> uuid \<Rightarrow> AuthorizationIssuer \<Rightarrow> RuntimeState \<Rightarrow> bool" where
  "runtime_reachable lin X inst issuer \<equiv> reach runtime_init (runtime_step lin X inst issuer)"

lemma runtime_reachable_store:
  "runtime_reachable lin X inst issuer rt \<Longrightarrow> store_reachable lin X inst (rt_store rt)"
  unfolding reach_def runtime_init_def by (blast intro: runtime_store_run)

lemma reachable_approved:
  assumes "runtime_reachable lin X inst issuer rt" "cbor_encoder (x_cbor X)" "ms_authorizations (rt_store rt) k = Some i"
  shows "\<exists>proposal evidence context. approved_by X proposal evidence context (ir_authorization i)"
  using runtime.reach_inv [OF assms(1)] assms(2,3) unfolding approved_inv_def by blast

text \<open>The issuer's own operation, with the concurrent callers of the runtime, is a run of it.\<close>

lemma issue_is_run:
  assumes "unforged X (iu_evaluator issuer) (rt_signed rt) (sv_cose_sign1 sv)"
    "value_ok (VTemplate (ap_template proposal))" "value_ok (VAttestation (sv_attestation sv))"
    "\<And>s. (runtime_step lin X inst issuer)\<^sup>*\<^sup>* (rt\<lparr>rt_store := s\<rparr>) (rt\<lparr>rt_store := others s\<rparr>)"
    "issue X issuer proposal sv scope grant_id clock1 clock2 others (rt_store rt) = (r, st')"
  shows "(runtime_step lin X inst issuer)\<^sup>*\<^sup>* rt (rt\<lparr>rt_store := st'\<rparr>)"
proof -
  obtain q st1 where q: "issuance_snapshot X scope grant_id clock1 (rt_store rt) = (q, st1)" by fastforce
  have "ms_authorizations st1 = ms_authorizations (rt_store rt)"
    using q unfolding issuance_snapshot_def try_q_def or_observe_def
    by (auto split: result.splits if_splits)
  then have s: "runtime_step lin X inst issuer rt (rt\<lparr>rt_store := st1\<rparr>)"
    using step_issuance [OF q] by (rule runtime_store [rotated])
  show ?thesis
  proof (cases "\<exists>snapshot prepared. q = Ok snapshot
      \<and> prepare_issuance X issuer proposal sv scope grant_id snapshot = Ok prepared")
    case True
    then obtain snapshot prepared where p: "q = Ok snapshot"
      "prepare_issuance X issuer proposal sv scope grant_id snapshot = Ok prepared" by blast
    obtain u where "record_issued_authorization X (pi_record prepared) clock2 (others st1) = (u, st')"
      using assms(5) q p by (fastforce simp: issue_def split: prod.splits result.splits)
    then have "runtime_step lin X inst issuer (rt\<lparr>rt_store := others st1\<rparr>) (rt\<lparr>rt_store := st'\<rparr>)"
      using runtime_issue [of X issuer "rt\<lparr>rt_store := others st1\<rparr>" sv proposal scope grant_id snapshot prepared clock2 u st' lin inst]
        assms(1-3) p(2) by simp
    with s assms(4) [of st1] show ?thesis by (meson converse_rtranclp_into_rtranclp rtranclp.rtrancl_into_rtrancl)
  next
    case False
    then have "st' = st1 \<or> st' = others st1"
      using assms(5) q by (auto simp: issue_def split: result.splits)
    with s assms(4) [of st1] show ?thesis by (blast intro: converse_rtranclp_into_rtranclp)
  qed
qed

section \<open>What a successful issue did\<close>

text \<open>The identifiers are derived from the scope, the request, the evaluation nonce and the grant.\<close>

definition authorization_id_for :: "externals \<Rightarrow> Scope \<Rightarrow> AgentProposal \<Rightarrow> SignedEvaluation \<Rightarrow> uuid \<Rightarrow> uuid" where
  "authorization_id_for X scope proposal sv grant_id =
     derive_uuid X ''accordlock:v1:authorization-id'' scope (ap_request_id proposal)
       (at_evaluation_nonce (sv_attestation sv)) grant_id"

lemma issue_Ok:
  assumes "issue X issuer proposal sv scope grant_id clock1 clock2 others st = (Ok s, st')"
  obtains snapshot st1 prepared where
    "issuance_snapshot X scope grant_id clock1 st = (Ok snapshot, st1)"
    "prepare_issuance X issuer proposal sv scope grant_id snapshot = Ok prepared"
    "record_issued_authorization X (pi_record prepared) clock2 (others st1) = (Ok (), st')"
    "s = pi_success prepared"
  using assms unfolding issue_def by (auto split: prod.splits result.splits)

lemma record_issued_Ok:
  assumes "record_issued_authorization X i clock st = (Ok u, st')"
  obtains t active g where "clock = Ok t" "issued_validate X i = Ok ()" "scope_validate (issued_scope i) = Ok ()"
    "ms_control_by_request st (issued_scope i, xa_request_id (ir_authorization i)) = None"
    "ms_control_by_evaluation_nonce st (xa_evaluation_nonce (ir_authorization i)) = None"
    "ms_authorizations st (issued_key i) = None" "xa_issued_at (ir_authorization i) \<le> t"
    "ms_authorities st (issued_scope i) = Some (xa_authority (ir_authorization i))"
    "map_of (ms_grants st) (grant_key_of i) = Some g"
    "validate_grant_for_authorization (gs_registration g) (ir_authorization i) = Ok ()"
    "validate_current_grant X (xa_authority (ir_authorization i)) g t = Ok ()"
    "st' = (set_high_water (issued_scope i) t st)
       \<lparr>ms_transactions := (ms_transactions st)((issued_scope i, ir_transaction_id i) \<mapsto> xa_authorization_id (ir_authorization i)),
        ms_authorizations := (ms_authorizations st)(issued_key i \<mapsto> i)\<rparr>"
  using assms unfolding record_issued_authorization_def Let_def issued_key_def grant_key_of_def
  by (auto simp: try_q_Ok or_observe_Ok ensure_Ok ok_or_Ok not_less split: if_splits)

lemma prepared_authorization_id:
  assumes "prepare_issuance X issuer proposal sv scope grant_id snapshot = Ok prepared"
  shows "issued_key (pi_record prepared) = (scope, authorization_id_for X scope proposal sv grant_id)"
  using assms
  by (elim prepare_issuance_Ok)
    (simp add: issued_key_def issued_scope_def issued_authorization_def authorization_id_for_def)

lemma issue_records:
  assumes "issue X issuer proposal sv scope grant_id clock1 clock2 others st = (Ok s, st')"
  shows "\<exists>i. ms_authorizations st' (scope, authorization_id_for X scope proposal sv grant_id) = Some i
    \<and> issued_key i = (scope, authorization_id_for X scope proposal sv grant_id)
    \<and> ix_signed_authorization s = ir_signed_authorization i \<and> ix_consume_key s = consume_key_of i"
proof -
  obtain snapshot st1 prepared where p: "prepare_issuance X issuer proposal sv scope grant_id snapshot = Ok prepared"
    "record_issued_authorization X (pi_record prepared) clock2 (others st1) = (Ok (), st')"
    "s = pi_success prepared"
    using assms by (rule issue_Ok)
  have "ms_authorizations st' (issued_key (pi_record prepared)) = Some (pi_record prepared)"
    using p(2) by (elim record_issued_Ok) simp
  moreover have "ix_signed_authorization s = ir_signed_authorization (pi_record prepared)"
    using p(1) unfolding p(3) by (elim prepare_issuance_Ok)
  ultimately show ?thesis
    using prepared_authorization_id [OF p(1)] prepared_key(1) [OF p(1)] p(3) by auto
qed

lemma issue_refused:
  assumes "ms_authorizations st (scope, authorization_id_for X scope proposal sv grant_id) \<noteq> None"
    "\<And>s. (store_step lin X inst)\<^sup>*\<^sup>* s (others s)"
  shows "\<not> is_Ok (fst (issue X issuer proposal sv scope grant_id clock1 clock2 others st))"
proof
  assume "is_Ok (fst (issue X issuer proposal sv scope grant_id clock1 clock2 others st))"
  then obtain snapshot st1 prepared st' where p:
    "issuance_snapshot X scope grant_id clock1 st = (Ok snapshot, st1)"
    "prepare_issuance X issuer proposal sv scope grant_id snapshot = Ok prepared"
    "record_issued_authorization X (pi_record prepared) clock2 (others st1) = (Ok (), st')"
    by (auto simp: is_Ok_fst elim: issue_Ok)
  have "store_step lin X inst st st1" by (rule step_issuance [OF p(1)])
  then have "(store_step lin X inst)\<^sup>*\<^sup>* st (others st1)"
    using assms(2) by (rule converse_rtranclp_into_rtranclp)
  from authorizations.run_frozen [OF store_run_changes [OF this]] assms(1)
  have "ms_authorizations (others st1) (issued_key (pi_record prepared)) \<noteq> None"
    by (auto simp: prepared_authorization_id [OF p(2)])
  with p(3) show False by (auto elim: record_issued_Ok)
qed

lemma issued_validate_ids:
  "issued_validate X i = Ok () \<Longrightarrow> \<not> is_nil (ir_transaction_id i) \<and> \<not> is_nil (xa_authorization_id (ir_authorization i))
     \<and> xa_issued_at (ir_authorization i) \<le> xa_not_before (ir_authorization i)"
  by (auto simp: issued_validate_def and_then_Ok ensure_Ok Let_def)

text \<open>A recorded authorization that the control plane does not own can be consumed in its window.\<close>

lemma recorded_consumable:
  assumes "store_inv X inst st" "record_issued_authorization X i (Ok t1) st = (Ok u, st')"
    "list_all (\<lambda>(_, c). consume_key_of c \<noteq> consume_key_of i) (ms_control_issuances st)"
    "xa_not_before (ir_authorization i) \<le> t" "t1 \<le> t"
    "i64_ok (t + dp_max_dispatch_delay_seconds (xa_dispatch_deadline_policy (ir_authorization i)))"
    "list_all (\<lambda>b. t < b) (deadline_bounds t (xa_consume_before (ir_authorization i))
       (xa_dispatch_deadline_policy (ir_authorization i)))"
  shows "is_Ok (fst (consume X (consume_key_of i) (Ok t) st'))"
  using assms(2)
proof (rule record_issued_Ok)
  fix t0 g
  assume t0: "Ok t1 = Ok t0" and v: "issued_validate X i = Ok ()" "scope_validate (issued_scope i) = Ok ()"
    and c: "ms_control_by_request st (issued_scope i, xa_request_id (ir_authorization i)) = None"
      "ms_control_by_evaluation_nonce st (xa_evaluation_nonce (ir_authorization i)) = None"
    and fresh: "ms_authorizations st (issued_key i) = None"
    and a: "ms_authorities st (issued_scope i) = Some (xa_authority (ir_authorization i))"
    and g: "map_of (ms_grants st) (grant_key_of i) = Some g"
      "validate_grant_for_authorization (gs_registration g) (ir_authorization i) = Ok ()"
      "validate_current_grant X (xa_authority (ir_authorization i)) g t0 = Ok ()"
    and st': "st' = (set_high_water (issued_scope i) t0 st)
       \<lparr>ms_transactions := (ms_transactions st)((issued_scope i, ir_transaction_id i) \<mapsto> xa_authorization_id (ir_authorization i)),
        ms_authorizations := (ms_authorizations st)(issued_key i \<mapsto> i)\<rparr>"
  let ?key = "consume_key_of i"
  have inv: "receipt_inv X st" "grant_inv X st" using assms(1) by (simp_all add: store_inv_def)
  have receipt: "ms_receipts st (issued_key i) = None"
    using fresh by (cases "ms_receipts st (issued_key i)") (auto elim: receipt_invD [OF inv(1)])
  have live: "\<not> gs_revoked g" "gs_uses g < cg_maximum_uses (gr_grant (gs_registration g))"
    using g(3) by (auto simp: validate_current_grant_def and_then_Ok ensure_Ok Let_def not_le)
  have "0 \<le> t0" using g(3) by (auto simp: validate_current_grant_def and_then_Ok ensure_Ok Let_def not_less)
  then have "check_clock t (Some t0) = Ok ()" using t0 assms(5) by (simp add: check_clock_Ok)
  then have ok: "is_Ok (validate_consumption X (xa_authority (ir_authorization i)) g i t (Some t0))"
    using validate_consumption_iff [OF v(1) grant_invD(2) [OF inv(2) g(1)] g(2)] live assms(4,6,7) by simp
  show ?thesis
  proof (rule consume_enabled [where i = i and g = g and active = "xa_authority (ir_authorization i)"])
    show "\<not> control_linked st' ?key i"
      using c assms(3) by (auto simp: st' control_linked_def consume_key_of_def list_all_iff list_ex_iff)
    show "is_Ok (validate_consumption X (xa_authority (ir_authorization i)) g i t (ms_high_water st' (ck_scope ?key)))"
      using ok by (simp add: st' consume_key_of_def)
    show "key_validate ?key = Ok ()"
      using v issued_validate_ids [OF v(1)] by (simp add: key_validate_def consume_key_of_def)
  qed (use a g receipt in \<open>simp_all add: st' consume_key_of_def issued_key_def key_of_def\<close>)
qed

end
