(* ===== verification/Issuance_Scenario.thy ===== *)
theory Issuance_Scenario
  imports Issuance_Flow Store_Scenario
begin

text \<open>
  The concrete run from the kernel to the store: the sample evidence is evaluated, the attestation
  signed, the sample authorization issued for it, consumed, claimed and marked in flight.
\<close>

section \<open>The evaluation\<close>

definition sample_attestation :: EvaluationAttestation where
  "sample_attestation =
     \<lparr>at_schema_version = EVALUATION_ATTESTATION_SCHEMA_VERSION, at_request_id = 11,
      at_evaluation_nonce = 12, at_tenant = ''acme'', at_actor = ''agent'', at_evaluated_at = 1000,
      at_outcome = Allow, at_reasons = [Allowed], at_template_hash = 232, at_evidence_root = 3155,
      at_principals = [''principal''], at_policy_root = 61, at_authority = sample_authority,
      at_consume_before = 1200\<rparr>"

lemma authenticated_registered:
  "authenticate_item X r input proposal s = Ok e \<Longrightarrow>
   r (ea_issuer (se_assertion s), ea_key_id (se_assertion s)) = Some e"
  by (auto simp: authenticate_item_def and_then_Ok ok_or_Ok Let_def split: option.splits)

lemma verify_loop_principals:
  assumes "\<And>k e. r k = Some e \<Longrightarrow> ra_principal_id e = p"
    "v \<in> set (fst (verify_loop X r input context proposal seen ss))"
  shows "va_principal_id v = p"
  using assms(2)
proof (induction ss arbitrary: seen)
  case (Cons s ss)
  let ?seen = "insert (ea_evidence_id (se_assertion s)) seen"
  obtain vs rs where l: "verify_loop X r input context proposal ?seen ss = (vs, rs)" by fastforce
  have "va_principal_id v = p" if "v \<in> set vs" using Cons.IH [of ?seen] that l by simp
  with Cons.prems l show ?case
    by (auto simp: Let_def assms(1) [OF authenticated_registered] split: if_splits result.splits)
qed simp

lemma sample_principals:
  assumes "verify_evidence ref_externals sample_evidence sample_context sample_proposal = (vs, rs)" "v \<in> set vs"
  shows "va_principal_id v = ''principal''"
proof -
  obtain r where r: "index_registry ref_externals Map.empty {} [sample_attester] = Some r"
    using assms by (auto simp: verify_evidence_def split: option.splits)
  then have "r = [entry_identity sample_attester \<mapsto> sample_attester]" by (auto split: if_splits)
  then have p: "r k = Some e \<Longrightarrow> ra_principal_id e = ''principal''" for k e
    by (auto simp: sample_attester_def split: if_splits)
  show ?thesis
    by (rule verify_loop_principals [of r "''principal''" v ref_externals sample_evidence sample_context
          sample_proposal "{}" "te_evidence sample_evidence", OF p])
      (use assms r in \<open>simp_all add: verify_evidence_def\<close>)
qed

lemma sample_assertions:
  "ea_valid_until (se_assertion s) = 1400" if "s \<in> set (te_evidence sample_evidence)"
  using that by (auto simp: sample_evidence_def sample_signed_def sample_assertion_def)

lemmas encoded_length = length_concat length_rfc8949 head_width_def head_info_def

lemma sample_assertion_length:
  "length (concat (map rfc8949 (encode_assertion (sample_assertion i (sample_payloads ! 0))))) = 757"
  "length (concat (map rfc8949 (encode_assertion (sample_assertion i (sample_payloads ! Suc 0))))) = 826"
  "length (concat (map rfc8949 (encode_assertion (sample_assertion i (sample_payloads ! 2))))) = 752"
  "length (concat (map rfc8949 (encode_assertion (sample_assertion i (sample_payloads ! 3))))) = 790"
  by (simp_all add: encoded_length encode_assertion_def sample_assertion_def sample_payloads_def
      encode_authority_def domains_def encode_domain_def sample_authority_def domain_at_def)

lemma sample_evidence_root:
  "evidence_root rfc8949 ref_digest (map se_assertion (te_evidence sample_evidence)) = 3155"
proof -
  have "sort_key ea_evidence_id (map se_assertion (te_evidence sample_evidence))
      = map se_assertion (te_evidence sample_evidence)"
    by (simp add: sample_evidence_def sample_signed_def sample_assertion_def word_le_nat_alt)
  then show ?thesis
    by (simp add: evidence_root_def sample_evidence_def sample_signed_def ref_digest_def Let_def
       sample_assertion_length length_rfc8949 head_width_def head_info_def EVIDENCE_ROOT_DOMAIN_def array_len_def)
qed

lemma sort_dedup_same:
  assumes "xs \<noteq> []" "\<And>x. x \<in> set xs \<Longrightarrow> x = a"
  shows "sort_dedup xs = [a]"
proof -
  have "set (sort_dedup xs) = {a}" using assms by (cases xs) auto
  moreover have "distinct (sort_dedup xs)"
    using sort_dedup_strict [of xs] by (simp add: strict_sorted_iff)
  ultimately have "length (sort_dedup xs) = 1" by (metis One_nat_def card.empty card.insert distinct_card
        empty_iff finite.emptyI)
  then obtain y where "sort_dedup xs = [y]" by (auto simp: length_Suc_conv)
  with \<open>set (sort_dedup xs) = {a}\<close> show ?thesis by (auto simp del: set_sort_dedup)
qed

lemma sample_evaluate:
  "evaluate ref_externals sample_proposal sample_evidence sample_context = Ok sample_attestation"
proof -
  obtain att where att: "evaluate_inner ref_externals sample_proposal sample_evidence sample_context = Ok att"
    using sample_within evaluate_inner_total by (metis result.collapse(1))
  have allow: "at_outcome att = Allow"
    using evaluate_inner_outcome [OF att] registry_new_wf [OF sample_registry_new] sample_allow_spec by simp
  have sat: "i64_saturating_add 1000 300 = 1300" by code_simp
  obtain vs where v: "verify_evidence ref_externals sample_evidence sample_context sample_proposal = (vs, [])"
    and f: "at_reasons att = [Allowed]"
      "at_consume_before att = Min (set (map (\<lambda>v. ea_valid_until (va_assertion v)) vs @ [1300, 1200]))"
      "at_principals att = sort_dedup (map va_principal_id vs)"
      "at_evidence_root att = evidence_root rfc8949 ref_digest (map va_assertion vs)"
      "at_policy_root att = 61" "at_template_hash att = 232" "at_request_id att = 11"
      "at_authority att = sample_authority" "at_evaluation_nonce att = 12" "at_evaluated_at att = 1000"
      "at_tenant att = ''acme''" "at_actor att = ''agent''"
    using att allow sample_policy_root sample_template_hash
    by (elim evaluate_inner_Ok) (simp add: sample_proposal_def sample_policy_def sat)
  have vs: "map va_assertion vs = map se_assertion (te_evidence sample_evidence)"
    using verify_evidence_keeps [of ref_externals sample_evidence sample_context sample_proposal] v by simp
  have ne: "vs \<noteq> []" using vs by (auto simp: sample_evidence_def)
  have "ea_valid_until (va_assertion v) = 1400" if "v \<in> set vs" for v
  proof -
    have "va_assertion v \<in> se_assertion ` set (te_evidence sample_evidence)"
      using vs that by (metis imageI list.set_map)
    then show ?thesis by (auto simp: sample_assertions)
  qed
  then have "at_consume_before att = 1200" using f(2) ne by (auto simp: Min_insert2 image_constant_conv)
  moreover have "at_principals att = [''principal'']"
    unfolding f(3) by (rule sort_dedup_same) (use ne sample_principals [OF v] in auto)
  moreover have "at_evidence_root att = 3155" unfolding f(4) vs by (rule sample_evidence_root)
  moreover have "at_schema_version att = EVALUATION_ATTESTATION_SCHEMA_VERSION"
    using att by (auto simp: evaluate_inner_def and_then_Ok Let_def v)
  ultimately have "att = sample_attestation"
    using f allow by (intro EvaluationAttestation.equality) (simp_all add: sample_attestation_def)
  with att show ?thesis by (simp add: evaluate_def sample_context_def)
qed

section \<open>The issuance\<close>

definition sample_issuer :: AuthorizationIssuer where
  "sample_issuer = \<lparr>iu_evaluator = \<lparr>cv_key_id = ''evaluator'', cv_key = 22\<rparr>,
     iu_authorization_signer = sample_signer\<rparr>"

definition sample_attestation_bytes :: bytes where
  "sample_attestation_bytes = ok_bytes (canonical_bytes rfc8949 (VAttestation sample_attestation))"

definition sample_signed_evaluation :: SignedEvaluation where
  "sample_signed_evaluation = \<lparr>sv_attestation = sample_attestation, sv_cose_sign1 =
     ok_bytes (sign_cose ref_externals sample_attestation_bytes EVALUATION_DOMAIN sample_evaluator)\<rparr>"

definition sample_issuance_snapshot :: IssuanceSnapshot where
  "sample_issuance_snapshot = \<lparr>is_scope = scope0, is_registration = sample_registration, is_issued_at = 1010\<rparr>"

definition sample_prepared :: PreparedIssuance where
  "sample_prepared = \<lparr>pi_record = sample_issued, pi_success =
     \<lparr>ix_signed_authorization = sample_signed_authorization, ix_consume_key = key0\<rparr>\<rparr>"

lemma sample_attestation_canonical:
  "canonical_bytes rfc8949 (VAttestation sample_attestation) = Ok sample_attestation_bytes"
  by (simp add: sample_attestation_bytes_def ok_bytes_def canonical_bytes_def attestation_tokens_def
      sample_attestation_def require_sorted_unique_def some_window_ge_iff)

lemma sample_attestation_length: "length sample_attestation_bytes \<le> 5000"
proof -
  obtain ts where ts: "attestation_tokens sample_attestation = Ok ts"
    and b: "sample_attestation_bytes = concat (map rfc8949 ts)"
    using sample_attestation_canonical by (auto simp: canonical_bytes_def and_then_Ok)
  have "sum_list (map (\<lambda>t. 9 + length (token_body t)) ts) \<le> 5000"
    using ts by (auto simp: attestation_tokens_def sample_attestation_def and_then_Ok counted_def
        encode_sorted_strings_def encode_authority_def domains_def encode_domain_def sample_authority_def
        domain_at_def EVALUATION_DOMAIN_def sort_dedup_def)
  then show ?thesis unfolding b using length_encoded [of ts] by linarith
qed

lemma sample_evaluation_signed:
  "sign_cose ref_externals sample_attestation_bytes EVALUATION_DOMAIN sample_evaluator
     = Ok (sv_cose_sign1 sample_signed_evaluation)"
  "verify_cose ref_externals (sv_cose_sign1 sample_signed_evaluation) EVALUATION_DOMAIN
     \<lparr>cv_key_id = ''evaluator'', cv_key = 22\<rparr> = Ok sample_attestation_bytes"
proof -
  have "valid_text MAX_KEY_ID_BYTES (si_key_id sample_evaluator)" "valid_text MAX_DOMAIN_BYTES EVALUATION_DOMAIN"
    by code_simp+
  moreover have "length sample_attestation_bytes \<le> MAX_COSE_PAYLOAD_BYTES"
    using sample_attestation_length by (simp add: MAX_COSE_PAYLOAD_BYTES_def)
  ultimately obtain c where c: "sign_cose ref_externals sample_attestation_bytes EVALUATION_DOMAIN sample_evaluator = Ok c"
    by (rule ref_sign_cose) (simp_all add: sample_evaluator_def)
  then show s: "sign_cose ref_externals sample_attestation_bytes EVALUATION_DOMAIN sample_evaluator
      = Ok (sv_cose_sign1 sample_signed_evaluation)"
    by (simp add: sample_signed_evaluation_def ok_bytes_def)
  have "identity_verifier ref_externals sample_evaluator = \<lparr>cv_key_id = ''evaluator'', cv_key = 22\<rparr>"
    by (simp add: identity_verifier_def sample_evaluator_def public_key_bytes_def)
  with verify_of_sign [OF ref_cose_roundtrip ref_signature_correct s]
  show "verify_cose ref_externals (sv_cose_sign1 sample_signed_evaluation) EVALUATION_DOMAIN
     \<lparr>cv_key_id = ''evaluator'', cv_key = 22\<rparr> = Ok sample_attestation_bytes" by simp
qed

lemma sample_derived_ids:
  "derive_uuid ref_externals ''accordlock:v1:authorization-id'' scope0 11 12 41 = derived_id"
  "derive_uuid ref_externals ''accordlock:v1:authorization-transaction'' scope0 11 12 41 = derived_id"
  by code_simp+

lemma sample_issued_authorization:
  "issued_authorization sample_proposal sample_attestation derived_id 41 sample_issuance_snapshot 1200
     = sample_authorization"
  by (simp add: issued_authorization_def sample_authorization_def sample_attestation_def sample_proposal_def
      sample_issuance_snapshot_def sample_registration_def sample_grant_def EXECUTION_AUTHORIZATION_SCHEMA_VERSION_def)

lemma sample_authorization_signed:
  "sign_cose ref_externals sample_authorization_bytes EXECUTION_AUTHORIZATION_DOMAIN sample_signer
     = Ok (sx_cose_sign1 sample_signed_authorization)"
proof -
  have "valid_text MAX_KEY_ID_BYTES (si_key_id sample_signer)"
    "valid_text MAX_DOMAIN_BYTES EXECUTION_AUTHORIZATION_DOMAIN" by code_simp+
  moreover have "length sample_authorization_bytes \<le> MAX_COSE_PAYLOAD_BYTES"
    using sample_authorization_length by (simp add: MAX_COSE_PAYLOAD_BYTES_def)
  ultimately obtain c where "sign_cose ref_externals sample_authorization_bytes
      EXECUTION_AUTHORIZATION_DOMAIN sample_signer = Ok c"
    by (rule ref_sign_cose) (simp_all add: sample_signer_def)
  then show ?thesis by (simp add: sample_signed_authorization_def ok_bytes_def)
qed

lemma sample_issued_new:
  "issued_new ref_externals derived_id sample_signed_authorization ''signer'' 21 = Ok sample_issued"
proof -
  have "sx_authorization sample_signed_authorization = sample_authorization"
    by (simp add: sample_signed_authorization_def)
  then show ?thesis using sample_authorization_hash sample_issued_validate
    by (simp add: issued_new_def sample_issued_def)
qed

lemma sample_grant_allows: "grant_allows sample_grant sample_proposal"
  by (simp add: grant_allows_def sample_grant_def sample_proposal_def sample_template_def)

lemma sample_prepare:
  "prepare_issuance ref_externals sample_issuer sample_proposal sample_signed_evaluation scope0 41
     sample_issuance_snapshot = Ok sample_prepared"
proof -
  have i: "iu_evaluator sample_issuer = \<lparr>cv_key_id = ''evaluator'', cv_key = 22\<rparr>"
    "iu_authorization_signer sample_issuer = sample_signer" "si_key_id sample_signer = ''signer''"
    "public_key_bytes ref_externals sample_signer = 21"
    by (simp_all add: sample_issuer_def sample_signer_def public_key_bytes_def)
  have s: "is_registration sample_issuance_snapshot = sample_registration" "is_issued_at sample_issuance_snapshot = 1010"
    "is_scope sample_issuance_snapshot = scope0" "gr_grant sample_registration = sample_grant"
    "gr_authority sample_registration = sample_authority" "cg_expires_at sample_grant = 1400"
    "gr_dispatch_deadline_policy sample_registration = sample_deadlines"
    by (simp_all add: sample_issuance_snapshot_def sample_registration_def sample_grant_def)
  have a: "sv_attestation sample_signed_evaluation = sample_attestation" by (simp add: sample_signed_evaluation_def)
  have p: "ap_request_id sample_proposal = 11" "ap_tenant sample_proposal = ''acme''" "ap_actor sample_proposal = ''agent''"
    "sc_tenant scope0 = ''acme''" "sc_environment scope0 = ''prod''" "dt_environment sample_template = ''prod''"
    by (simp_all add: sample_proposal_def scope0_def sample_template_def)
  have t: "at_outcome sample_attestation = Allow" "at_schema_version sample_attestation = EVALUATION_ATTESTATION_SCHEMA_VERSION"
    "at_reasons sample_attestation = [Allowed]" "at_policy_root sample_attestation = 61"
    "at_authority sample_attestation = sample_authority" "at_evaluated_at sample_attestation = 1000"
    "at_consume_before sample_attestation = 1200" "at_request_id sample_attestation = 11"
    "at_tenant sample_attestation = ''acme''" "at_actor sample_attestation = ''agent''"
    "at_template_hash sample_attestation = 232" "at_evaluation_nonce sample_attestation = 12"
    by (simp_all add: sample_attestation_def)
  have r: "ads_root (av_kernel_configuration sample_authority) = 103" "ads_root (av_signer sample_authority) = 102"
    by (simp_all add: sample_authority_def)
  have z: "\<lparr>sx_authorization = sample_authorization, sx_cose_sign1 = sx_cose_sign1 sample_signed_authorization\<rparr>
      = sample_signed_authorization"
    by (simp add: sample_signed_authorization_def)
  show ?thesis
    unfolding prepare_issuance_def Let_def i s a
    by (simp add: sample_evaluator_root sample_signer_root r sample_evaluation_signed(2)
        sample_attestation_canonical t p sample_template_hash sample_grant_allows sample_deadline
        sample_derived_ids sample_issued_authorization sample_authorization_canonical
        sample_authorization_signed z sample_issued_new sample_prepared_def key0_def)
qed

lemma demo_issuance_snapshot:
  "issuance_snapshot ref_externals scope0 41 (Ok 1010) store_granted = (Ok sample_issuance_snapshot, store_granted)"
  using sample_current_grant
  by (simp add: issuance_snapshot_def try_q_def or_observe_def check_high_water_def store_defs set_high_water_def
      sample_issuance_snapshot_def)

lemma demo_issue_flow:
  "issue ref_externals sample_issuer sample_proposal sample_signed_evaluation scope0 41 (Ok 1010) (Ok 1010) id
     store_granted = (Ok (pi_success sample_prepared), store_issued)"
proof -
  have "pi_record sample_prepared = sample_issued" by (simp add: sample_prepared_def)
  then show ?thesis by (simp add: issue_def demo_issuance_snapshot sample_prepare demo_issue)
qed

section \<open>The run\<close>

lemma rfc_encoder: "cbor_encoder (x_cbor ref_externals)"
  using rfc.cbor_encoder_axioms by simp

lemma sample_template_ok: "value_ok (VTemplate (ap_template sample_proposal))"
  by (simp add: template_ok_def sample_template_def str_ok_def opt_str_ok_def DEPLOY_EKS_IMAGE_V1_def arith_defs)

lemma sample_attestation_ok: "value_ok (VAttestation sample_attestation)"
  by (simp add: attestation_ok_def sample_attestation_def strs_ok_def str_ok_def arith_defs)

abbreviation demo_runtime :: "RuntimeState \<Rightarrow> RuntimeState \<Rightarrow> bool" where
  "demo_runtime \<equiv> runtime_step refuse_lineage ref_externals 7 sample_issuer"

text \<open>The runtime with a store, after the evaluator signed the sample attestation.\<close>

definition evaluated_runtime :: "MemoryState \<Rightarrow> RuntimeState" where
  "evaluated_runtime st = \<lparr>rt_store = st, rt_signed = [sample_attestation_bytes]\<rparr>"

lemma evaluated_runtime_simps [simp]:
  "rt_store (evaluated_runtime st) = st" "rt_signed (evaluated_runtime st) = [sample_attestation_bytes]"
  "(evaluated_runtime st)\<lparr>rt_store := st'\<rparr> = evaluated_runtime st'"
  by (simp_all add: evaluated_runtime_def)

lemma runtime_evaluated: "runtime_reachable refuse_lineage ref_externals 7 sample_issuer (evaluated_runtime memory_default)"
proof -
  let ?rt = "\<lparr>rt_store = memory_default, rt_signed = []\<rparr>"
  have a: "sv_attestation sample_signed_evaluation = sample_attestation" by (simp add: sample_signed_evaluation_def)
  have "runtime_init ?rt" by (simp add: runtime_init_def store_init_default)
  moreover have "demo_runtime ?rt (?rt\<lparr>rt_signed := sample_attestation_bytes # rt_signed ?rt\<rparr>)"
  proof (rule runtime_evaluate [OF sample_registry_new [folded sample_simps(3)]])
    show "evaluate ref_externals sample_proposal sample_evidence sample_context = Ok (sv_attestation sample_signed_evaluation)"
      by (simp add: sample_evaluate a)
    show "sign_evaluation ref_externals (sv_attestation sample_signed_evaluation) sample_evaluator = Ok sample_signed_evaluation"
      by (simp add: sign_evaluation_def a sample_attestation_canonical sample_evaluation_signed(1))
  qed (use sample_template_ok sample_attestation_ok in
      \<open>simp_all add: canonical_payload_def sample_attestation_canonical a\<close>)
  ultimately show ?thesis
    unfolding evaluated_runtime_def by (auto intro: reach_step [OF reach_init])
qed

lemma runtime_granted: "runtime_reachable refuse_lineage ref_externals 7 sample_issuer (evaluated_runtime store_granted)"
proof -
  have "demo_runtime (evaluated_runtime memory_default) (evaluated_runtime store_active)"
    using runtime_store [of refuse_lineage ref_externals 7 "evaluated_runtime memory_default" store_active sample_issuer]
      step_activate [OF demo_activate] by (simp add: store_defs)
  moreover have "demo_runtime (evaluated_runtime store_active) (evaluated_runtime store_granted)"
    using runtime_store [of refuse_lineage ref_externals 7 "evaluated_runtime store_active" store_granted sample_issuer]
      step_register [OF demo_register] by (simp add: store_defs)
  ultimately show ?thesis using runtime_evaluated by (blast intro: reach_step)
qed

lemma demo_issue_run: "demo_runtime\<^sup>*\<^sup>* (evaluated_runtime store_granted) (evaluated_runtime store_issued)"
proof -
  have "unforged ref_externals (iu_evaluator sample_issuer) [sample_attestation_bytes] (sv_cose_sign1 sample_signed_evaluation)"
    using sample_evaluation_signed(2) by (simp add: unforged_def sample_issuer_def)
  then show ?thesis
    using issue_is_run [of ref_externals sample_issuer "evaluated_runtime store_granted" sample_signed_evaluation sample_proposal
        refuse_lineage 7 id scope0 41 "Ok 1010" "Ok 1010"] demo_issue_flow sample_template_ok sample_attestation_ok
    by (simp add: sample_signed_evaluation_def)
qed

lemma runtime_claimed: "runtime_reachable refuse_lineage ref_externals 7 sample_issuer (evaluated_runtime store_claimed)"
proof -
  have "demo_runtime (evaluated_runtime store_issued) (evaluated_runtime store_consumed)"
    using runtime_store [of refuse_lineage ref_externals 7 "evaluated_runtime store_issued" store_consumed sample_issuer]
      step_consume [OF demo_consume] by (simp add: store_defs)
  moreover have "demo_runtime (evaluated_runtime store_consumed) (evaluated_runtime store_claimed)"
    using runtime_store [of refuse_lineage ref_externals 7 "evaluated_runtime store_consumed" store_claimed sample_issuer]
      step_claim [OF demo_claim] by simp
  ultimately show ?thesis
    using reach_run [OF runtime_granted demo_issue_run] by (blast intro: reach_step)
qed

end
