(* ===== verification/Issuance_Properties.thy ===== *)
theory Issuance_Properties
  imports Issuance_Scenario
begin

text \<open>
  What the issuer and the store guarantee together: nothing reaches a provider that the kernel did
  not allow, one evaluation is turned into one authorization, and an issued authorization can be
  consumed.
\<close>

section \<open>From the evaluation to the attempt\<close>

text \<open>C1. Nothing is executed that the kernel did not allow. In a runtime whose authorizations come from the issuer
  and in which the evaluator's signature cannot be forged, while the issuer may be handed any proposal and any
  signed evaluation, when \<open>mark_attempt_in_flight\<close> lets an attempt start, some evaluation satisfied the kernel's
  specification for the same request, caller, authority and deployment template (unless SHA-256 collides on
  the two templates), that authority is still the active one, and at the time of the attempt the session
  and every item of evidence of that evaluation are still valid. The issuer's check of the signature and its
  comparison of the signed payload are what ties the attestation to the kernel.\<close>

theorem attempts_are_approved:
  assumes "cbor_encoder (x_cbor X)" "runtime_reachable lin X inst issuer rt"
    "mark_attempt_in_flight lin X inst token credential clock (rt_store rt) = (Ok f, st')"
  shows "\<exists>proposal evidence context.
    approved_by X proposal evidence context (ir_authorization (ds_issued (af_snapshot f)))
    \<and> ms_authorities (rt_store rt) (ck_scope (tk_key token)) = Some (kc_active_authority context)
    \<and> kc_now context \<le> af_started_at f \<and> af_started_at f < kc_ingress_expires_at context
    \<and> list_all (\<lambda>s. af_started_at f < ea_valid_until (se_assertion s)) (te_evidence evidence)"
proof -
  let ?i = "ds_issued (af_snapshot f)" and ?r = "ds_receipt (af_snapshot f)"
  have s: "snapshot_of X (rt_store rt) (tk_key token) (af_started_at f) (af_snapshot f)"
    using mark_attempt_Ok [OF assms(3)] by auto
  then have i: "ms_authorizations (rt_store rt) (key_of (tk_key token)) = Some ?i"
    "ms_receipts (rt_store rt) (key_of (tk_key token)) = Some ?r"
    "ms_authorities (rt_store rt) (ck_scope (tk_key token)) = Some (xa_authority (ir_authorization ?i))"
    "cr_consumed_at ?r \<le> af_started_at f" "af_started_at f < cr_dispatch_deadline ?r"
    by (auto simp: snapshot_of_def)
  have "store_inv X inst (rt_store rt)" by (rule reachable_inv [OF runtime_reachable_store [OF assms(2)]])
  then have inv: "receipt_inv X (rt_store rt)" "issued_inv X (rt_store rt)" by (simp_all add: store_inv_def)
  have w: "xa_issued_at (ir_authorization ?i) \<le> af_started_at f"
    "af_started_at f < xa_consume_before (ir_authorization ?i)"
  proof -
    have k: "receipt_intact ?i ?r" using receipt_invD [OF inv(1) i(2)] i(1) by auto
    then have "xa_not_before (ir_authorization ?i) \<le> cr_consumed_at ?r"
      "cr_dispatch_deadline ?r \<le> xa_consume_before (ir_authorization ?i)"
      by (auto simp: receipt_intact_def Let_def compute_dispatch_deadline_Ok deadline_bounds_def)
    moreover have "xa_issued_at (ir_authorization ?i) \<le> xa_not_before (ir_authorization ?i)"
      using issued_validate_ids [OF issued_invD(3) [OF inv(2) i(1)]] by simp
    ultimately show "xa_issued_at (ir_authorization ?i) \<le> af_started_at f"
      "af_started_at f < xa_consume_before (ir_authorization ?i)" using i(4,5) by auto
  qed
  obtain proposal evidence "context" where
    a: "approved_by X proposal evidence context (ir_authorization ?i)"
    using reachable_approved [OF assms(2,1) i(1)] by blast
  then have "ms_authorities (rt_store rt) (ck_scope (tk_key token)) = Some (kc_active_authority context)"
    "kc_now context \<le> af_started_at f" "af_started_at f < kc_ingress_expires_at context"
    "list_all (\<lambda>s. af_started_at f < ea_valid_until (se_assertion s)) (te_evidence evidence)"
    using i(3) w by (auto simp: approved_by_def list_all_iff)
  with a show ?thesis by blast
qed

theorem attempts_are_approved_witness:
  "\<exists>proposal evidence context.
    approved_by ref_externals proposal evidence context sample_authorization
    \<and> kc_now context \<le> 1015 \<and> 1015 < kc_ingress_expires_at context"
proof -
  have "ds_issued (af_snapshot attempt0) = sample_issued" "af_started_at attempt0 = 1015"
    by (simp_all add: attempt0_def attempt_in_flight_new_def)
  with attempts_are_approved [OF rfc_encoder runtime_claimed, of _ _ _ attempt0] demo_attempt show ?thesis by fastforce
qed

section \<open>Issuing once\<close>

text \<open>C6. One evaluation gives at most one authorization: after a successful \<open>issue\<close>, whatever follows, every
  other call for the same scope, request, evaluation nonce and grant is refused, whatever the rest of its
  arguments, and the authorization returned by the first call is still the one stored.\<close>

theorem issuance_is_single_use:
  assumes "issue X issuer proposal sv scope grant_id clock1 clock2 others st = (Ok s, st1)"
    "(store_step lin X inst)\<^sup>*\<^sup>* st1 st2"
    "ap_request_id proposal' = ap_request_id proposal"
    "at_evaluation_nonce (sv_attestation sv') = at_evaluation_nonce (sv_attestation sv)"
    "\<And>s. (store_step lin X inst)\<^sup>*\<^sup>* s (others' s)"
  shows "\<not> is_Ok (fst (issue X issuer' proposal' sv' scope grant_id clock1' clock2' others' st2))
    \<and> (\<exists>i. ms_authorizations st2 (key_of (ix_consume_key s)) = Some i
        \<and> ix_signed_authorization s = ir_signed_authorization i)"
proof -
  let ?k = "(scope, authorization_id_for X scope proposal sv grant_id)"
  obtain i where i: "ms_authorizations st1 ?k = Some i" "ix_signed_authorization s = ir_signed_authorization i"
    "ix_consume_key s = consume_key_of i" "issued_key i = ?k"
    using issue_records [OF assms(1)] by blast
  have st2: "ms_authorizations st2 ?k = Some i"
    by (rule authorizations.run_frozen [OF store_run_changes [OF assms(2)] i(1)])
  have "authorization_id_for X scope proposal' sv' grant_id = authorization_id_for X scope proposal sv grant_id"
    using assms(3,4) by (simp add: authorization_id_for_def)
  with st2 have "\<not> is_Ok (fst (issue X issuer' proposal' sv' scope grant_id clock1' clock2' others' st2))"
    by (intro issue_refused [OF _ assms(5)]) simp
  with st2 i show ?thesis by auto
qed

theorem issuance_is_single_use_witness:
  "\<not> is_Ok (fst (issue ref_externals sample_issuer sample_proposal sample_signed_evaluation scope0 41
     (Ok 1020) (Ok 1020) id store_claimed))"
proof -
  have "demo_step\<^sup>*\<^sup>* store_issued store_claimed"
    using step_consume [OF demo_consume] demo_to_claimed by (rule converse_rtranclp_into_rtranclp)
  from issuance_is_single_use [OF demo_issue_flow this] show ?thesis by simp
qed

text \<open>C22. An issued authorization can be used: right after a successful \<open>issue\<close>, when the control plane holds
  no issuance under its key, \<open>consume\<close> of the returned key succeeds at every time that is not before the time
  of the recording and lies before every bound of the dispatch deadline.\<close>

theorem issued_is_consumable:
  assumes "store_reachable lin X inst st" "\<And>s. (store_step lin X inst)\<^sup>*\<^sup>* s (others s)"
    "issue X issuer proposal sv scope grant_id clock1 (Ok t1) others st = (Ok s, st1)"
    "list_all (\<lambda>(_, c). consume_key_of c \<noteq> ix_consume_key s) (ms_control_issuances st1)"
    "a = sx_authorization (ix_signed_authorization s)" "t1 \<le> t"
    "i64_ok (t + dp_max_dispatch_delay_seconds (xa_dispatch_deadline_policy a))"
    "list_all (\<lambda>b. t < b) (deadline_bounds t (xa_consume_before a) (xa_dispatch_deadline_policy a))"
  shows "is_Ok (fst (consume X (ix_consume_key s) (Ok t) st1))"
proof -
  obtain snapshot st0 prepared where p: "issuance_snapshot X scope grant_id clock1 st = (Ok snapshot, st0)"
    "prepare_issuance X issuer proposal sv scope grant_id snapshot = Ok prepared"
    "record_issued_authorization X (pi_record prepared) (Ok t1) (others st0) = (Ok (), st1)"
    "s = pi_success prepared"
    using assms(3) by (rule issue_Ok)
  let ?i = "pi_record prepared"
  have a: "ir_authorization ?i = a" "xa_not_before a = xa_issued_at a"
    using p(2) unfolding assms(5) p(4)
    by (elim prepare_issuance_Ok; simp add: ir_authorization_def issued_authorization_def)+
  have key: "ix_consume_key s = consume_key_of ?i" using prepared_key(1) [OF p(2)] p(4) by simp
  have "store_inv X inst (others st0)"
    by (rule reachable_step_run [OF assms(1) step_issuance [OF p(1)] assms(2)])
  moreover have "ms_control_issuances st1 = ms_control_issuances (others st0)" "xa_issued_at a \<le> t1"
    using p(3) a by (auto elim!: record_issued_Ok)
  ultimately show ?thesis
    unfolding key using assms(4,6,7,8) a key by (intro recorded_consumable [OF _ p(3)]) auto
qed

theorem issued_is_consumable_witness:
  "is_Ok (fst (consume ref_externals key0 (Ok 1040) store_issued))"
proof -
  have k: "ix_consume_key (pi_success sample_prepared) = key0"
    "sx_authorization (ix_signed_authorization (pi_success sample_prepared)) = sample_authorization"
    by (simp_all add: sample_prepared_def sample_signed_authorization_def)
  have "list_all (\<lambda>(_, c). consume_key_of c \<noteq> key0) (ms_control_issuances store_issued)" by (simp add: store_defs)
  moreover have "i64_ok (1040 + dp_max_dispatch_delay_seconds sample_deadlines)"
    "list_all (\<lambda>b. 1040 < b) (deadline_bounds 1040 1200 sample_deadlines)" by code_simp+
  ultimately show ?thesis
    using issued_is_consumable [OF reach_granted _ demo_issue_flow, of sample_authorization 1040]
    by (simp add: k)
qed

end
