(* ===== verification/Json_Documents.thy ===== *)
theory Json_Documents
  imports Complex_Main Runtime_Prelude "HOL-Library.AList"
begin

text \<open>
  JSON documents as \<^verbatim>\<open>serde_json\<close> represents them, their paths, and the facts that comparing two
  documents path by path needs. An object is a \<open>BTreeMap\<close>: its entries are sorted by key without
  duplicates (\<open>json_wf\<close>), so equal objects are equal lists. A path is a list of keys; \<open>walk\<close> follows
  one, \<open>set_at\<close> replaces what is there, and \<open>node\<close> is what a document shows at one path without
  looking below it. Two documents are equal when they show the same at every path.
\<close>

section \<open>Documents\<close>

text \<open>Finite floating-point numbers are compared by value, so they are kept as rationals.\<close>

datatype JsonNumber = PosInt u64 | NegInt i64 | Float rat

datatype Value =
    JNull
  | JBool bool
  | JNumber JsonNumber
  | JString string
  | JArray "Value list"
  | JObject "(string \<times> Value) list"

fun as_str :: "Value \<Rightarrow> string option" where
  "as_str (JString s) = Some s"
| "as_str _ = None"

fun as_u64 :: "Value \<Rightarrow> u64 option" where
  "as_u64 (JNumber (PosInt n)) = Some n"
| "as_u64 _ = None"

fun json_wf :: "Value \<Rightarrow> bool" where
  "json_wf (JArray vs) \<longleftrightarrow> list_all json_wf vs"
| "json_wf (JObject m) \<longleftrightarrow> sorted_wrt (<) (map fst m) \<and> list_all (\<lambda>(_, v). json_wf v) m"
| "json_wf _ \<longleftrightarrow> True"

section \<open>Paths\<close>

definition digit_char :: "nat \<Rightarrow> char" where
  "digit_char n = char_of (48 + n)"

fun decimal :: "nat \<Rightarrow> string" where
  "decimal n = (if n < 10 then [digit_char n] else decimal (n div 10) @ [digit_char (n mod 10)])"

declare decimal.simps [simp del]

text \<open>The element of an array that a key of a path denotes: the key is the decimal index.\<close>

fun element_at :: "nat \<Rightarrow> string \<Rightarrow> Value list \<Rightarrow> Value option" where
  "element_at i k [] = None"
| "element_at i k (v # vs) = (if decimal i = k then Some v else element_at (Suc i) k vs)"

fun child :: "Value \<Rightarrow> string \<Rightarrow> Value option" where
  "child (JObject m) k = map_of m k"
| "child (JArray vs) k = element_at 0 k vs"
| "child _ k = None"

fun walk :: "Value \<Rightarrow> string list \<Rightarrow> Value option" where
  "walk v [] = Some v"
| "walk v (k # ks) = (case child v k of Some c \<Rightarrow> walk c ks | None \<Rightarrow> None)"

fun replace_element :: "nat \<Rightarrow> string \<Rightarrow> (Value \<Rightarrow> Value) \<Rightarrow> Value list \<Rightarrow> Value list" where
  "replace_element i k f [] = []"
| "replace_element i k f (v # vs) =
     (if decimal i = k then f v # vs else v # replace_element (Suc i) k f vs)"

fun replace_child :: "string \<Rightarrow> (Value \<Rightarrow> Value) \<Rightarrow> Value \<Rightarrow> Value" where
  "replace_child k f (JObject m) = JObject (AList.map_entry k f m)"
| "replace_child k f (JArray vs) = JArray (replace_element 0 k f vs)"
| "replace_child k f v = v"

fun set_at :: "string list \<Rightarrow> Value \<Rightarrow> Value \<Rightarrow> Value" where
  "set_at [] new v = new"
| "set_at (k # ks) new v = replace_child k (set_at ks new) v"

section \<open>Pointers\<close>

text \<open>\<open>value.replace('~', "~0").replace('/', "~1")\<close>\<close>

definition escape_pointer :: "string \<Rightarrow> string" where
  "escape_pointer s = concat (map (\<lambda>c. if c = CHR ''/'' then ''~1'' else [c])
     (concat (map (\<lambda>c. if c = CHR ''~'' then ''~0'' else [c]) s)))"

definition pointer_text :: "string list \<Rightarrow> string" where
  "pointer_text ks = concat (map (\<lambda>k. CHR ''/'' # escape_pointer k) ks)"

text \<open>What the code uses of \<^verbatim>\<open>serde_json\<close> and \<^verbatim>\<open>hex\<close>: lookup by a JSON pointer, compact serialization and
  lower-case hexadecimal text.\<close>

record document_externals =
  j_pointer :: "Value \<Rightarrow> string \<Rightarrow> Value option"
  j_to_vec :: "Value \<Rightarrow> bytes option"
  j_hex :: "bytes \<Rightarrow> string"

text \<open>RFC 6901: an escaped path leads to what its keys lead to.\<close>

definition rfc6901 :: "document_externals \<Rightarrow> bool" where
  "rfc6901 J \<longleftrightarrow> (\<forall>v ks. j_pointer J v (pointer_text ks) = walk v ks)"

section \<open>Decimal indices\<close>

lemma digit_char_inj: "m < 10 \<Longrightarrow> n < 10 \<Longrightarrow> digit_char m = digit_char n \<longleftrightarrow> m = n"
  by (simp add: digit_char_def char_of_eq_iff take_bit_eq_mod)

lemma decimal_not_Nil [simp]: "decimal n \<noteq> []" "[] \<noteq> decimal n"
  by (subst decimal.simps, simp)+

lemma decimal_inj [simp]: "decimal m = decimal n \<longleftrightarrow> m = n"
proof (induction m arbitrary: n rule: less_induct)
  case (less m)
  show ?case
  proof
    assume eq: "decimal m = decimal n"
    show "m = n"
    proof (cases "m < 10 \<or> n < 10")
      case True
      with eq show ?thesis
        by (subst (asm) (1 2) decimal.simps) (auto simp: digit_char_inj split: if_splits)
    next
      case False
      with eq have "decimal (m div 10) = decimal (n div 10)" "digit_char (m mod 10) = digit_char (n mod 10)"
        by (subst (asm) (1 2) decimal.simps, simp)+
      then have "m div 10 = n div 10" "m mod 10 = n mod 10"
        using less [of "m div 10" "n div 10"] False by (simp_all add: digit_char_inj)
      then show ?thesis by (metis div_mult_mod_eq)
    qed
  qed simp
qed

lemma element_at_Some:
  "element_at i k vs = Some v \<longleftrightarrow> (\<exists>j < length vs. k = decimal (i + j) \<and> vs ! j = v)"
proof (induction vs arbitrary: i)
  case (Cons w vs)
  show ?case
  proof (cases "decimal i = k")
    case True
    then have "(\<exists>j < length (w # vs). k = decimal (i + j) \<and> (w # vs) ! j = v) \<longleftrightarrow> w = v" by auto
    then show ?thesis using True by simp
  next
    case False
    have "(\<exists>j < length (w # vs). k = decimal (i + j) \<and> (w # vs) ! j = v)
        \<longleftrightarrow> (\<exists>j < length vs. k = decimal (Suc i + j) \<and> vs ! j = v)" (is "?L \<longleftrightarrow> ?R")
    proof
      assume ?L
      then obtain j where j: "j < length (w # vs)" "k = decimal (i + j)" "(w # vs) ! j = v" by blast
      with False obtain l where "j = Suc l" by (cases j) auto
      with j show ?R by auto
    next
      assume ?R
      then obtain j where "j < length vs" "k = decimal (Suc i + j)" "vs ! j = v" by blast
      then show ?L by (intro exI [of _ "Suc j"]) simp
    qed
    then show ?thesis using False Cons.IH by simp
  qed
qed simp

lemma element_at_None: "element_at i k vs = None \<longleftrightarrow> (\<forall>j < length vs. k \<noteq> decimal (i + j))"
  using element_at_Some [of i k vs] by (metis not_Some_eq)

lemma element_decimal: "element_at 0 (decimal i) vs = (if i < length vs then Some (vs ! i) else None)"
  by (auto simp: element_at_Some element_at_None)

lemma element_at_replace [simp]:
  "element_at i k (replace_element i k' f vs) =
     (if k = k' then map_option f (element_at i k vs) else element_at i k vs)"
  by (induction i k' f vs rule: replace_element.induct) auto

lemma length_replace_element [simp]: "length (replace_element i k f vs) = length vs"
  by (induction i k f vs rule: replace_element.induct) auto

section \<open>What a document shows at a path\<close>

datatype shape = Scalar Value | Elements nat | Keys "string set"

fun shape_of :: "Value \<Rightarrow> shape" where
  "shape_of (JArray vs) = Elements (length vs)"
| "shape_of (JObject m) = Keys (fst ` set m)"
| "shape_of v = Scalar v"

definition node :: "Value \<Rightarrow> string list \<Rightarrow> shape option" where
  "node v ks = map_option shape_of (walk v ks)"

lemma node_Nil [simp]: "node v [] = Some (shape_of v)"
  by (simp add: node_def)

lemma node_Cons: "node v (k # ks) = (case child v k of Some c \<Rightarrow> node c ks | None \<Rightarrow> None)"
  by (simp add: node_def split: option.split)

lemma child_size: "child v k = Some c \<Longrightarrow> size c < size v"
proof (cases v)
  case (JArray vs)
  assume "child v k = Some c"
  then have "c \<in> set vs" using JArray by (auto simp: element_at_Some)
  then show ?thesis using JArray size_list_estimation' [of c vs "size c" size] by auto
next
  case (JObject m)
  assume "child v k = Some c"
  then have "(k, c) \<in> set m" using JObject by (auto dest: map_of_SomeD)
  then have "size c \<le> size_list (size_prod (\<lambda>_. 0) size) m"
    by (intro size_list_estimation' [of "(k, c)"]) simp_all
  then show ?thesis using JObject by simp
qed simp_all

lemma walk_append: "walk v (ks @ ls) = (case walk v ks of Some c \<Rightarrow> walk c ls | None \<Rightarrow> None)"
  by (induction v ks rule: walk.induct) (auto split: option.split)

lemma wf_child: "json_wf v \<Longrightarrow> child v k = Some c \<Longrightarrow> json_wf c"
  by (cases v) (auto simp: element_at_Some list_all_iff dest!: map_of_SomeD)

lemma assoc_list_rebuild: "distinct (map fst m) \<Longrightarrow> m = map (\<lambda>k. (k, the (map_of m k))) (map fst m)"
  by (auto simp: comp_def intro!: map_idI [symmetric])

lemma children_equal:
  assumes "json_wf a" "json_wf b" "shape_of a = shape_of b" "\<And>k. child a k = child b k"
  shows "a = b"
proof (cases a)
  case (JArray vs)
  then obtain ws where b: "b = JArray ws" "length vs = length ws" using assms(3) by (cases b) auto
  have "vs ! i = ws ! i" if "i < length vs" for i
    using assms(4) [of "decimal i"] element_at_Some [of 0 "decimal i" vs "vs ! i"]
      element_at_Some [of 0 "decimal i" ws "vs ! i"] that JArray b by auto
  then show ?thesis using JArray b by (simp add: list_eq_iff_nth_eq)
next
  case (JObject m)
  then obtain n where b: "b = JObject n" using assms(3) by (cases b) auto
  have s: "sorted_wrt (<) (map fst m)" "sorted_wrt (<) (map fst n)"
    using assms(1,2) JObject b by simp_all
  have "map fst m = map fst n"
    using s assms(3) JObject b by (intro strict_sorted_equal) simp_all
  moreover have "map_of m = map_of n" using assms(4) JObject b by auto
  ultimately show ?thesis
    using assoc_list_rebuild [of m] assoc_list_rebuild [of n] s JObject b by (simp add: strict_sorted_iff)
qed (use assms(3) in \<open>cases b; simp\<close>)+

text \<open>Extensionality: equal at every path, equal.\<close>

lemma node_ext:
  assumes "json_wf a" "json_wf b" "\<And>ks. node a ks = node b ks"
  shows "a = b"
  using assms
proof (induction "size a" arbitrary: a b rule: less_induct)
  case less
  have s: "shape_of a = shape_of b" using less.prems(3) [of "[]"] by simp
  show ?case
  proof (rule children_equal [OF less.prems(1,2) s])
    fix k
    have n: "(case child a k of Some c \<Rightarrow> node c ks | None \<Rightarrow> None)
        = (case child b k of Some c \<Rightarrow> node c ks | None \<Rightarrow> None)" for ks
      using less.prems(3) [of "k # ks"] by (simp add: node_Cons)
    show "child a k = child b k"
    proof (cases "child a k")
      case None
      then show ?thesis using n [of "[]"] by (auto split: option.splits)
    next
      case (Some c)
      then obtain d where d: "child b k = Some d" using n [of "[]"] by (auto split: option.splits)
      have "c = d"
        using less.hyps [OF child_size [OF Some]] n Some d wf_child less.prems(1,2) by auto
      then show ?thesis using Some d by simp
    qed
  qed
qed

section \<open>Replacing a text\<close>

lemma map_entry_keys: "map fst (AList.map_entry k f m) = map fst m"
  by (induction m) auto

lemma map_of_map_entry: "map_of (AList.map_entry k f m) k' = (if k' = k then map_option f (map_of m k) else map_of m k')"
  by (induction m) auto

lemma child_replace [simp]:
  "child (replace_child k f v) k' = (if k' = k then map_option f (child v k) else child v k')"
  by (cases v) (auto simp: map_of_map_entry)

lemma shape_replace [simp]: "shape_of (replace_child k f v) = shape_of v"
proof (cases v)
  case (JObject m)
  then show ?thesis using arg_cong [OF map_entry_keys [of k f m], of set] by simp
qed simp_all

lemma node_set_at:
  assumes "walk v p = Some (JString s)"
  shows "node (set_at p (JString t) v) ks = (if ks = p then Some (Scalar (JString t)) else node v ks)"
  using assms
proof (induction p arbitrary: v ks)
  case Nil
  then show ?case by (cases ks) (simp_all add: node_def)
next
  case (Cons k p)
  then obtain c where c: "child v k = Some c" "walk c p = Some (JString s)" by (auto split: option.splits)
  show ?case
  proof (cases ks)
    case (Cons k' ls)
    then show ?thesis using Cons.IH [OF c(2), of ls] c(1) by (auto simp: node_Cons)
  qed simp
qed

text \<open>A replaced text changes nothing at the paths that do not lead to it.\<close>

lemma walk_set_at_off:
  assumes "walk v p = Some (JString s)" "take (length ks) p \<noteq> ks"
  shows "walk (set_at p (JString t) v) ks = walk v ks"
  using assms
proof (induction p arbitrary: v ks)
  case Nil
  then show ?case by (cases ks) simp_all
next
  case (Cons k p)
  then obtain c where c: "child v k = Some c" "walk c p = Some (JString s)" by (auto split: option.splits)
  show ?case
  proof (cases ks)
    case (Cons k' ls)
    then show ?thesis using Cons.IH [OF c(2), of ls] Cons.prems(2) c(1) by auto
  qed (use Cons.prems in simp)
qed

lemma walk_set_at_other:
  assumes "walk v p = Some (JString s)" "walk v q = Some (JString r)" "p \<noteq> q"
  shows "walk (set_at p (JString t) v) q = Some (JString r)"
proof -
  have "node (set_at p (JString t) v) q = Some (Scalar (JString r))"
    using node_set_at [OF assms(1), of t q] assms(2,3) by (simp add: node_def)
  then obtain w where "walk (set_at p (JString t) v) q = Some w" "shape_of w = Scalar (JString r)"
    by (auto simp: node_def)
  then show ?thesis by (cases w) auto
qed

lemma wf_replace_element: "list_all json_wf vs \<Longrightarrow> (\<And>v. json_wf v \<Longrightarrow> json_wf (f v)) \<Longrightarrow> list_all json_wf (replace_element i k f vs)"
  by (induction i k f vs rule: replace_element.induct) auto

lemma wf_map_entry: "list_all (\<lambda>(_, v). json_wf v) m \<Longrightarrow> (\<And>v. json_wf v \<Longrightarrow> json_wf (f v))
    \<Longrightarrow> list_all (\<lambda>(_, v). json_wf v) (AList.map_entry k f m)"
  by (induction m) auto

lemma json_wf_set_at: "json_wf v \<Longrightarrow> json_wf new \<Longrightarrow> json_wf (set_at p new v)"
proof (induction p arbitrary: v)
  case (Cons k p)
  then show ?case by (cases v) (auto simp: map_entry_keys intro: wf_replace_element wf_map_entry)
qed simp

section \<open>Differences\<close>

lemma size_element: "i < length vs \<Longrightarrow> size (vs ! i) \<le> size_list size vs" for vs :: "Value list"
  using size_list_estimation' [OF nth_mem, of i vs "size (vs ! i)" size] by simp

text \<open>The outermost paths at which two documents differ.\<close>

function differences :: "Value \<Rightarrow> Value \<Rightarrow> string list list" where
  "differences (JObject m) (JObject n) = concat (map (\<lambda>k. case (map_of m k, map_of n k) of
       (Some a, Some b) \<Rightarrow> map ((#) k) (differences a b)
     | _ \<Rightarrow> [[k]]) (sort_dedup (map fst m @ map fst n)))"
| "differences (JArray vs) (JArray ws) = concat (map (\<lambda>i.
     if i < length vs \<and> i < length ws then map ((#) (decimal i)) (differences (vs ! i) (ws ! i))
     else [[decimal i]]) [0..<max (length vs) (length ws)])"
| "\<lbrakk>\<nexists>m n. a = JObject m \<and> b = JObject n; \<nexists>vs ws. a = JArray vs \<and> b = JArray ws\<rbrakk>
     \<Longrightarrow> differences a b = (if a \<noteq> b then [[]] else [])"
  by (atomize_elim, force) auto
termination
proof (relation "measure (\<lambda>(a, _). size a)")
  show "wf (measure (\<lambda>(a :: Value, _ :: Value). size a))" by simp
qed (use child_size [of "JObject _"] in \<open>auto simp: less_Suc_eq_le size_element\<close>)

text \<open>Below documents of the same kind, the differences are those of the children.\<close>

definition same_kind :: "Value \<Rightarrow> Value \<Rightarrow> bool" where
  "same_kind a b \<longleftrightarrow> (\<exists>m n. a = JObject m \<and> b = JObject n) \<or> (\<exists>vs ws. a = JArray vs \<and> b = JArray ws)"

lemma differences_Nil: "[] \<in> set (differences a b) \<longleftrightarrow> \<not> same_kind a b \<and> a \<noteq> b"
  by (cases "(a, b)" rule: differences.cases) (auto simp: same_kind_def split: option.splits)

lemma headed_concat:
  assumes "\<And>x p. p \<in> set (F x) \<Longrightarrow> \<exists>q. p = h x # q"
  shows "k # ks \<in> set (concat (map F xs)) \<longleftrightarrow> (\<exists>x \<in> set xs. h x = k \<and> k # ks \<in> set (F x))"
  using assms by fastforce

lemma differences_Cons:
  assumes "same_kind a b"
  shows "k # ks \<in> set (differences a b) \<longleftrightarrow> (case (child a k, child b k) of
      (Some c, Some d) \<Rightarrow> ks \<in> set (differences c d)
    | (None, None) \<Rightarrow> False
    | _ \<Rightarrow> ks = [])"
proof -
  consider (object) m n where "a = JObject m" "b = JObject n" | (array) vs ws where "a = JArray vs" "b = JArray ws"
    using assms by (auto simp: same_kind_def)
  then show ?thesis
  proof cases
    case object
    let ?F = "\<lambda>k. case (map_of m k, map_of n k) of (Some a, Some b) \<Rightarrow> map ((#) k) (differences a b) | _ \<Rightarrow> [[k]]"
    have "k # ks \<in> set (differences a b) \<longleftrightarrow> k \<in> set (map fst m @ map fst n) \<and> k # ks \<in> set (?F k)"
      unfolding object differences.simps by (subst headed_concat [of ?F id]) (auto split: option.splits)
    moreover have "k \<in> set (map fst m @ map fst n) \<longleftrightarrow> map_of m k \<noteq> None \<or> map_of n k \<noteq> None"
      by (simp add: map_of_eq_None_iff)
    ultimately show ?thesis using object
      by (cases "map_of m k"; cases "map_of n k") auto
  next
    case array
    let ?F = "\<lambda>i. if i < length vs \<and> i < length ws then map ((#) (decimal i)) (differences (vs ! i) (ws ! i))
      else [[decimal i]]"
    have d: "k # ks \<in> set (differences a b) \<longleftrightarrow>
        (\<exists>i \<in> set [0..<max (length vs) (length ws)]. decimal i = k \<and> k # ks \<in> set (?F i))"
      unfolding array differences.simps by (rule headed_concat) (auto split: if_splits)
    show ?thesis
    proof (cases "\<exists>i. k = decimal i")
      case True
      then obtain i where "k = decimal i" by blast
      then have "k # ks \<in> set (differences a b) \<longleftrightarrow> i < max (length vs) (length ws) \<and> k # ks \<in> set (?F i)"
        unfolding d by auto
      then show ?thesis using array \<open>k = decimal i\<close>
        by (cases "i < length vs"; cases "i < length ws") (auto simp: element_decimal)
    next
      case False
      then have "element_at 0 k us = None" for us by (auto simp: element_at_None)
      then show ?thesis using array False d by auto
    qed
  qed
qed


lemma differences_other_kind: "\<not> same_kind a b \<Longrightarrow> differences a b = (if a \<noteq> b then [[]] else [])"
  by (rule differences.simps(3)) (auto simp: same_kind_def)

lemma shape_other_kind: "\<not> same_kind a b \<Longrightarrow> shape_of a = shape_of b \<Longrightarrow> a = b"
  by (cases a; cases b) (auto simp: same_kind_def)

lemma differences_shown: "d \<in> set (differences a b) \<Longrightarrow> node a d \<noteq> node b d"
proof (induction d arbitrary: a b)
  case Nil
  then show ?case using shape_other_kind by (auto simp: differences_Nil)
next
  case (Cons k d)
  then have "same_kind a b" by (cases "same_kind a b") (auto simp: differences_other_kind split: if_splits)
  with Cons show ?case
    by (auto simp: differences_Cons node_Cons split: option.splits)
qed

lemma shown_is_diff:
  assumes "node a ks \<noteq> node b ks"
  shows "\<exists>d \<in> set (differences a b). prefix d ks \<or> (\<exists>k. d = ks @ [k] \<and> (walk a d = None \<or> walk b d = None))"
  using assms
proof (induction ks arbitrary: a b)
  case Nil
  show ?case
  proof (cases "same_kind a b")
    case True
    have "\<exists>k. (child a k = None) \<noteq> (child b k = None)"
    proof (cases "\<exists>m n. a = JObject m \<and> b = JObject n")
      case True
      then obtain m n where "a = JObject m" "b = JObject n" by blast
      then show ?thesis using Nil by (auto simp: map_of_eq_None_iff)
    next
      case False
      with True obtain vs ws where v: "a = JArray vs" "b = JArray ws" by (auto simp: same_kind_def)
      then have "length vs \<noteq> length ws" using Nil by simp
      then show ?thesis using v
        by (intro exI [of _ "decimal (min (length vs) (length ws))"]) (auto simp: element_decimal min_def)
    qed
    then obtain k where k: "(child a k = None) \<noteq> (child b k = None)" by blast
    then have "[k] \<in> set (differences a b)" using differences_Cons [OF True, of k "[]"] by (auto split: option.splits)
    with k show ?thesis by (intro bexI [of _ "[k]"]) (auto split: option.splits)
  next
    case False
    then have "[] \<in> set (differences a b)" using Nil by (auto simp: differences_Nil)
    then show ?thesis by force
  qed
next
  case (Cons k ks)
  show ?case
  proof (cases "same_kind a b")
    case True
    note d = differences_Cons [OF True, of k]
    show ?thesis
    proof (cases "child a k = None \<or> child b k = None")
      case True
      then have "[k] \<in> set (differences a b)" using d [of "[]"] Cons.prems by (auto simp: node_Cons split: option.splits)
      then show ?thesis by (intro bexI [of _ "[k]"]) simp_all
    next
      case False
      then obtain c e where c: "child a k = Some c" "child b k = Some e" by auto
      then obtain q where q: "q \<in> set (differences c e)"
        "prefix q ks \<or> (\<exists>k. q = ks @ [k] \<and> (walk c q = None \<or> walk e q = None))"
        using Cons.IH [of c e] Cons.prems by (auto simp: node_Cons)
      have "k # q \<in> set (differences a b)" using d [of q] q(1) c by simp
      then show ?thesis using q(2) c by (intro bexI [of _ "k # q"]) auto
    qed
  next
    case False
    then have "[] \<in> set (differences a b)" using Cons.prems by (auto simp: differences_Nil)
    then show ?thesis by (intro bexI [of _ "[]"]) simp_all
  qed
qed

text \<open>Writing several texts.\<close>

definition write_texts :: "(string list \<times> string) list \<Rightarrow> Value \<Rightarrow> Value" where
  "write_texts ps v = fold (\<lambda>(p, t). set_at p (JString t)) ps v"

lemma node_write_texts:
  assumes "distinct (map fst ps)" "\<And>p t. (p, t) \<in> set ps \<Longrightarrow> \<exists>s. walk v p = Some (JString s)"
  shows "node (write_texts ps v) ks = (case map_of ps ks of Some t \<Rightarrow> Some (Scalar (JString t)) | None \<Rightarrow> node v ks)"
  using assms
proof (induction ps arbitrary: v)
  case Nil
  then show ?case by (simp add: write_texts_def)
next
  case (Cons pt ps)
  obtain p t where pt: "pt = (p, t)" by (cases pt)
  obtain s where s: "walk v p = Some (JString s)" using Cons.prems(2) pt by auto
  let ?v = "set_at p (JString t) v"
  have "\<exists>r. walk ?v q = Some (JString r)" if q: "(q, u) \<in> set ps" for q u
  proof -
    obtain r where "walk v q = Some (JString r)" using Cons.prems(2) q by auto
    moreover have "p \<noteq> q" using Cons.prems(1) pt q by force
    ultimately show ?thesis using walk_set_at_other [OF s] by blast
  qed
  then have "node (write_texts ps ?v) ks
      = (case map_of ps ks of Some t \<Rightarrow> Some (Scalar (JString t)) | None \<Rightarrow> node ?v ks)"
    using Cons.IH [of ?v] Cons.prems(1) by simp
  moreover have "map_of ps p = None" using Cons.prems(1) pt by (simp add: map_of_eq_None_iff)
  ultimately show ?case using node_set_at [OF s, of t ks] pt
    by (auto simp: write_texts_def split: option.split)
qed

lemma json_wf_write_texts: "json_wf v \<Longrightarrow> json_wf (write_texts ps v)"
proof (induction ps arbitrary: v)
  case (Cons pt ps)
  then show ?case using json_wf_set_at [of v "JString (snd pt)" "fst pt"]
    by (simp add: write_texts_def split_beta)
qed (simp add: write_texts_def)

lemma walk_below_text: "walk v p = Some (JString s) \<Longrightarrow> prefix p ks \<Longrightarrow> ks \<noteq> p \<Longrightarrow> walk v ks = None"
proof -
  assume w: "walk v p = Some (JString s)" and "prefix p ks" "ks \<noteq> p"
  then obtain k zs where "ks = p @ k # zs" by (metis append_Nil2 neq_Nil_conv prefix_def)
  then show "walk v ks = None" using w by (simp add: walk_append)
qed

text \<open>Two documents with texts at the paths \<open>ps\<close> differ at no other path exactly when writing the texts of
  the second into the first gives the second.\<close>

lemma differences_within:
  assumes "json_wf a" "json_wf b" "distinct (map fst ps)"
    "\<And>p t. (p, t) \<in> set ps \<Longrightarrow> \<exists>s. walk a p = Some (JString s)"
    "\<And>p t. (p, t) \<in> set ps \<Longrightarrow> walk b p = Some (JString t)"
  shows "set (differences a b) \<subseteq> fst ` set ps \<longleftrightarrow> b = write_texts ps a"
proof
  have w: "node (write_texts ps a) ks
      = (case map_of ps ks of Some t \<Rightarrow> Some (Scalar (JString t)) | None \<Rightarrow> node a ks)" for ks
    by (rule node_write_texts [OF assms(3)]) (use assms(4) in blast)
  show "set (differences a b) \<subseteq> fst ` set ps" if "b = write_texts ps a"
  proof
    fix d assume "d \<in> set (differences a b)"
    then have "map_of ps d \<noteq> None" using differences_shown [of d a b] w [of d] that by (auto split: option.splits)
    then show "d \<in> fst ` set ps" by (simp add: map_of_eq_None_iff)
  qed
  assume sub: "set (differences a b) \<subseteq> fst ` set ps"
  have same: "node a ks = node b ks" if "ks \<notin> fst ` set ps" for ks
  proof (rule ccontr)
    assume "node a ks \<noteq> node b ks"
    then obtain d where d: "d \<in> set (differences a b)"
      "prefix d ks \<or> (\<exists>k. d = ks @ [k] \<and> (walk a d = None \<or> walk b d = None))"
      using shown_is_diff by blast
    then obtain t where "(d, t) \<in> set ps" using sub by auto
    then obtain s where "walk a d = Some (JString s)" "walk b d = Some (JString t)" using assms(4,5) by blast
    moreover have "ks \<noteq> d" using that \<open>(d, t) \<in> set ps\<close> by force
    ultimately have "walk a ks = None" "walk b ks = None" using d(2) walk_below_text by auto
    then show False using \<open>node a ks \<noteq> node b ks\<close> by (simp add: node_def)
  qed
  show "b = write_texts ps a"
  proof (rule node_ext [OF assms(2) json_wf_write_texts [OF assms(1)]])
    fix ks
    show "node b ks = node (write_texts ps a) ks"
    proof (cases "map_of ps ks")
      case None
      moreover from None have "ks \<notin> fst ` set ps" by (simp add: map_of_eq_None_iff)
      ultimately show ?thesis using w [of ks] same [of ks] by simp
    next
      case (Some t)
      then have "walk b ks = Some (JString t)" using assms(5) by (blast dest: map_of_SomeD)
      then have "node b ks = Some (Scalar (JString t))" by (simp add: node_def)
      then show ?thesis using w [of ks] Some by simp
    qed
  qed
qed

section \<open>Reading a pointer\<close>

text \<open>\<open>str::split\<close> at a character.\<close>

fun split_on :: "char \<Rightarrow> string \<Rightarrow> string list" where
  "split_on c [] = [[]]"
| "split_on c (x # xs) = (if x = c then [] # split_on c xs
     else case split_on c xs of y # ys \<Rightarrow> (x # y) # ys | [] \<Rightarrow> [[x]])"

fun unescape_pointer :: "string \<Rightarrow> string" where
  "unescape_pointer (a # b # s) = (if a = CHR ''~'' \<and> b = CHR ''1'' then CHR ''/'' # unescape_pointer s
     else if a = CHR ''~'' \<and> b = CHR ''0'' then CHR ''~'' # unescape_pointer s
     else a # unescape_pointer (b # s))"
| "unescape_pointer s = s"

definition pointer_steps :: "string \<Rightarrow> string list option" where
  "pointer_steps p = (case p of [] \<Rightarrow> Some []
     | c # s \<Rightarrow> if c = CHR ''/'' then Some (map unescape_pointer (split_on CHR ''/'' s)) else None)"

lemma escape_pointer_simps [simp]:
  "escape_pointer [] = []"
  "escape_pointer (c # s) = (if c = CHR ''~'' then ''~0'' else if c = CHR ''/'' then ''~1'' else [c]) @ escape_pointer s"
  by (simp_all add: escape_pointer_def)

lemma slash_escaped [simp]: "CHR ''/'' \<notin> set (escape_pointer s)"
  by (induction s) auto

lemma unescape_plain: "a \<noteq> CHR ''~'' \<Longrightarrow> unescape_pointer (a # s) = a # unescape_pointer s"
  by (cases s) simp_all

lemma unescape_escape [simp]: "unescape_pointer (escape_pointer s) = s"
  by (induction s) (auto simp: unescape_plain)

lemma split_on_append:
  assumes "c \<notin> set x"
  shows "split_on c x = [x]" "split_on c (x @ c # r) = x # split_on c r"
  using assms by (induction x) auto

lemma split_pointer_text: "split_on CHR ''/'' (escape_pointer k @ pointer_text ks) = map escape_pointer (k # ks)"
proof (induction ks arbitrary: k)
  case Nil
  then show ?case by (simp add: pointer_text_def split_on_append)
next
  case (Cons l ks)
  then show ?case using split_on_append(2) [OF slash_escaped, of k "escape_pointer l @ pointer_text ks"]
    by (simp add: pointer_text_def)
qed

lemma pointer_steps_text [simp]: "pointer_steps (pointer_text ks) = Some ks"
proof (cases ks)
  case (Cons k ls)
  have "pointer_text ks = CHR ''/'' # escape_pointer k @ pointer_text ls" by (simp add: Cons pointer_text_def)
  then show ?thesis by (simp add: pointer_steps_def split_pointer_text comp_def Cons)
qed (simp add: pointer_steps_def pointer_text_def)

lemma pointer_text_inj [simp]: "pointer_text ks = pointer_text ls \<longleftrightarrow> ks = ls"
  by (metis option.inject pointer_steps_text)

text \<open>A lookup that satisfies the law.\<close>

lemma rfc6901_steps:
  "(\<And>v p. j_pointer J v p = (case pointer_steps p of Some ks \<Rightarrow> walk v ks | None \<Rightarrow> None)) \<Longrightarrow> rfc6901 J"
  by (simp add: rfc6901_def)

end
