(* ===== verification/Kubernetes_Projection.thy ===== *)
theory Kubernetes_Projection
  imports Json_Documents Cose_Crypto State_Model
begin

text \<open>
  The Kubernetes mutation profile, \<^verbatim>\<open>accordlock-k8s/src/lib.rs\<close>: the JSON Patch that a deployment
  template stands for with its commitments, and the checks of a Deployment before and after it. The
  rollout checks over Pods and ReplicaSets are not part of it.
\<close>

section \<open>Data\<close>

definition TRANSACTION_ANNOTATION :: string where
  "TRANSACTION_ANNOTATION = ''accordlock.io/transaction-id''"

definition AUTHORIZATION_ANNOTATION :: string where
  "AUTHORIZATION_ANNOTATION = ''accordlock.io/authorization-id''"

definition OPERATION_ANNOTATION :: string where
  "OPERATION_ANNOTATION = ''accordlock.io/operation-hash''"

definition DEPLOYMENT_REVISION_ANNOTATION :: string where
  "DEPLOYMENT_REVISION_ANNOTATION = ''deployment.kubernetes.io/revision''"

record PreparedPatch =
  pp_operation_hash :: digest32
  pp_patch :: Value
  pp_execution_command_commitment :: digest32
  pp_final_wire_commitment :: digest32

datatype ProjectionError =
    MissingField string
  | Precondition string
  | UnauthorizedDelta string
  | AuthorizedValueMismatch string
  | ProjectionCanonical CanonicalError
  | Serialization
  | InvalidTemplate string

type_synonym 'a projection = "('a, ProjectionError) result"

section \<open>Names\<close>

definition dns_char :: "char \<Rightarrow> bool" where
  "dns_char c \<longleftrightarrow> ascii_lower c \<or> ascii_digit c \<or> c = CHR ''-''"

definition validate_dns_label :: "string \<Rightarrow> string \<Rightarrow> unit projection" where
  "validate_dns_label field value =
     ensure (\<not> (value = [] \<or> 63 < length value \<or> \<not> list_all dns_char value
         \<or> \<not> (value \<noteq> [] \<and> ascii_alphanumeric (hd value))
         \<or> \<not> (value \<noteq> [] \<and> ascii_alphanumeric (last value))))
       (InvalidTemplate (field @ '' is not a DNS label''))"

definition validate_dns_subdomain :: "string \<Rightarrow> string \<Rightarrow> unit projection" where
  "validate_dns_subdomain field value =
     ensure (\<not> (value = [] \<or> 253 < length value
         \<or> list_ex (\<lambda>label. \<not> is_Ok (validate_dns_label field label)) (split_on CHR ''.'' value)))
       (InvalidTemplate (field @ '' is not a DNS subdomain''))"

definition invalid_image_repository :: ProjectionError where
  "invalid_image_repository =
     InvalidTemplate ''image repository is outside the conservative OCI/Docker name grammar''"

text \<open>\<open>while bytes.get(index).is_some_and(p) { index += 1 }\<close>\<close>

function skip_while :: "(char \<Rightarrow> bool) \<Rightarrow> string \<Rightarrow> nat \<Rightarrow> nat" where
  "skip_while p bytes index =
     (if index < length bytes \<and> p (bytes ! index) then skip_while p bytes (Suc index) else index)"
  by pat_completeness auto
termination by (relation "measure (\<lambda>(_, bytes, index). length bytes - index)") auto

declare skip_while.simps [simp del]

definition lowercase_or_digit :: "char \<Rightarrow> bool" where
  "lowercase_or_digit c \<longleftrightarrow> ascii_lower c \<or> ascii_digit c"

definition consume_ascii_lowercase_or_digit :: "string \<Rightarrow> nat \<Rightarrow> bool \<times> nat" where
  "consume_ascii_lowercase_or_digit bytes index =
     (let stop = skip_while lowercase_or_digit bytes index in (stop \<noteq> index, stop))"

lemma skip_while_ge: "index \<le> skip_while p bytes index"
proof (induction p bytes index rule: skip_while.induct)
  case (1 p bytes index)
  then show ?case by (subst skip_while.simps) (auto simp: le_Suc_eq intro: Suc_leD)
qed

text \<open>The separator at an index: the index after it, or nothing when there is none.\<close>

definition skip_separator :: "string \<Rightarrow> nat \<Rightarrow> nat option" where
  "skip_separator bytes index =
     (if bytes ! index = CHR ''.'' then Some (Suc index)
      else if bytes ! index = CHR ''_'' then
        Some (if Suc index < length bytes \<and> bytes ! Suc index = CHR ''_'' then index + 2 else Suc index)
      else if bytes ! index = CHR ''-'' then Some (skip_while (\<lambda>c. c = CHR ''-'') bytes index)
      else None)"

lemma skip_separator_ge:
  assumes "skip_separator bytes index = Some j" "index < length bytes"
  shows "index < j"
proof (cases "bytes ! index = CHR ''-''")
  case True
  then have "j = skip_while (\<lambda>c. c = CHR ''-'') bytes (Suc index)"
    using assms by (simp add: skip_separator_def skip_while.simps [of _ bytes index])
  then show ?thesis using skip_while_ge [of "Suc index"] by (simp add: Suc_le_lessD)
qed (use assms in \<open>auto simp: skip_separator_def split: if_splits\<close>)

lemma component_progress:
  assumes "index < length bytes" "skip_separator bytes index = Some j"
    "(ok, k) = consume_ascii_lowercase_or_digit bytes j"
  shows "length bytes - k < length bytes - index"
proof -
  have "index < j" by (rule skip_separator_ge [OF assms(2,1)])
  moreover have "j \<le> k"
    using assms(3) skip_while_ge [of j] by (auto simp: consume_ascii_lowercase_or_digit_def Let_def)
  ultimately show ?thesis using assms(1) by simp
qed

function path_component_loop :: "string \<Rightarrow> nat \<Rightarrow> bool" where
  "path_component_loop bytes index =
     (if index < length bytes then
        (case skip_separator bytes index of
           None \<Rightarrow> False
         | Some j \<Rightarrow> (case consume_ascii_lowercase_or_digit bytes j of
             (ok, k) \<Rightarrow> if \<not> ok then False else path_component_loop bytes k))
      else True)"
  by pat_completeness auto
termination by (relation "measure (\<lambda>(bytes, index). length bytes - index)") (auto dest: component_progress)

declare path_component_loop.simps [simp del]

definition is_repository_path_component :: "string \<Rightarrow> bool" where
  "is_repository_path_component component =
     (case consume_ascii_lowercase_or_digit component 0 of
        (ok, index) \<Rightarrow> if \<not> ok then False else path_component_loop component index)"

definition digits_value :: "string \<Rightarrow> nat" where
  "digits_value s = foldl (\<lambda>n c. 10 * n + (of_char c - 48)) 0 s"

text \<open>\<open>registry.split_once(':')\<close>\<close>

definition split_once :: "char \<Rightarrow> string \<Rightarrow> (string \<times> string) option" where
  "split_once c s = (if c \<in> set s
     then Some (takeWhile (\<lambda>x. x \<noteq> c) s, tl (dropWhile (\<lambda>x. x \<noteq> c) s)) else None)"

definition validate_registry_component :: "string \<Rightarrow> unit projection" where
  "validate_registry_component registry =
     and_then (case split_once CHR '':'' registry of
         Some (host, port) \<Rightarrow>
           and_then (ensure (\<not> (port = [] \<or> CHR '':'' \<in> set port \<or> \<not> list_all ascii_digit port))
             invalid_image_repository) (\<lambda>_.
           and_then (ensure (digits_value port < 2 ^ 16) invalid_image_repository) (\<lambda>_.
           and_then (ensure (digits_value port \<noteq> 0) invalid_image_repository) (\<lambda>_. Ok host)))
       | None \<Rightarrow> Ok registry) (\<lambda>host.
     ensure (\<not> (host = [] \<or> 253 < length host
         \<or> list_ex (\<lambda>label. \<not> is_Ok (validate_dns_label ''image registry'' label)) (split_on CHR ''.'' host)))
       invalid_image_repository)"

definition validate_image_repository :: "string \<Rightarrow> unit projection" where
  "validate_image_repository repository =
     and_then (ensure (\<not> (repository = [] \<or> 255 < length repository \<or> \<not> is_ascii repository
         \<or> trim repository \<noteq> repository \<or> CHR ''@'' \<in> set repository)) invalid_image_repository) (\<lambda>_.
     let components = split_on CHR ''/'' repository in
     and_then (ensure (\<not> list_ex (\<lambda>c. c = []) components) invalid_image_repository) (\<lambda>_.
     let first_is_registry = 1 < length components
           \<and> (CHR ''.'' \<in> set (components ! 0) \<or> CHR '':'' \<in> set (components ! 0)
              \<or> components ! 0 = ''localhost'');
         path_start = (if first_is_registry then 1 else 0) in
     and_then (if first_is_registry then validate_registry_component (components ! 0) else Ok ()) (\<lambda>_.
     ensure (\<not> list_ex (\<lambda>c. \<not> is_repository_path_component c) (drop path_start components))
       invalid_image_repository)))"

section \<open>The template\<close>

definition required_prior_annotation :: "string \<Rightarrow> string option \<Rightarrow> string projection" where
  "required_prior_annotation key value = ok_or value
     (InvalidTemplate (''reserved annotation '' @ [CHR 0x22] @ key @ [CHR 0x22] @ '' must be pre-provisioned''))"

definition validate_executable_template :: "DeploymentTemplate \<Rightarrow> unit projection" where
  "validate_executable_template t =
     and_then (ensure (dt_operation t = ''DEPLOY_EKS_IMAGE_V1'')
       (InvalidTemplate ''operation is not DEPLOY_EKS_IMAGE_V1'')) (\<lambda>_.
     and_then (validate_dns_label ''namespace'' (dt_namespace t)) (\<lambda>_.
     and_then (validate_dns_subdomain ''deployment'' (dt_deployment t)) (\<lambda>_.
     and_then (validate_dns_label ''container'' (dt_container t)) (\<lambda>_.
     and_then (ensure (trim (dt_deployment_uid t) \<noteq> []) (InvalidTemplate ''deployment UID is empty'')) (\<lambda>_.
     and_then (ensure (trim (dt_resource_version t) \<noteq> []) (InvalidTemplate ''resourceVersion is empty'')) (\<lambda>_.
     and_then (validate_image_repository (dt_image_repository t)) (\<lambda>_.
     and_then (required_prior_annotation TRANSACTION_ANNOTATION (dt_prior_transaction_annotation t)) (\<lambda>_.
     and_then (required_prior_annotation AUTHORIZATION_ANNOTATION (dt_prior_authorization_annotation t)) (\<lambda>_.
     and_then (required_prior_annotation OPERATION_ANNOTATION (dt_prior_operation_hash_annotation t)) (\<lambda>_.
     Ok ()))))))))))"

section \<open>Commitments\<close>

definition digest_text :: "document_externals \<Rightarrow> digest32 \<Rightarrow> string" where
  "digest_text J d = ''sha256:'' @ j_hex J (digest_bytes d)"

definition image_reference :: "document_externals \<Rightarrow> string \<Rightarrow> digest32 \<Rightarrow> string" where
  "image_reference J repository digest = repository @ ''@'' @ digest_text J digest"

definition operation_hash ::
    "externals \<Rightarrow> DeploymentTemplate \<Rightarrow> uuid \<Rightarrow> uuid \<Rightarrow> digest32 projection" where
  "operation_hash X t transaction_id authorization_id =
     and_then (map_err ProjectionCanonical (canonical_bytes (x_cbor X) (VTemplate t))) (\<lambda>template_bytes.
     Ok (x_sha256 X (str_bytes ''accordlock:v1:deploy-operation'' @ [0] @ template_bytes
       @ uuid_bytes transaction_id @ uuid_bytes authorization_id)))"

text \<open>\<open>u64::try_from(value.len()).unwrap_or(u64::MAX).to_be_bytes()\<close> and the value.\<close>

definition length_prefixed :: "bytes \<Rightarrow> bytes" where
  "length_prefixed v = be_bytes 8 (min (length v) (2 ^ 64 - 1)) @ v"

definition wire_commitment :: "externals \<Rightarrow> string \<Rightarrow> string \<Rightarrow> string \<Rightarrow> bytes \<Rightarrow> digest32" where
  "wire_commitment X method path content_type body =
     x_sha256 X (str_bytes ''accordlock:v1:provider-wire'' @ [0]
       @ concat (map (\<lambda>v. length_prefixed (str_bytes v)) [method, path, content_type])
       @ length_prefixed body)"

definition native_execution_command_commitment ::
    "externals \<Rightarrow> string \<Rightarrow> string \<Rightarrow> string \<Rightarrow> bytes \<Rightarrow> digest32" where
  "native_execution_command_commitment X method path content_type body =
     x_sha256 X (str_bytes ''accordlock:v1:k8s-native-patch-command'' @ [0]
       @ concat (map (\<lambda>v. length_prefixed (str_bytes v))
           [''accordlock-k8s-native-client/v1'', method, path, content_type])
       @ length_prefixed body)"

definition serialize_patch_body :: "document_externals \<Rightarrow> Value \<Rightarrow> bytes projection" where
  "serialize_patch_body J patch = ok_or (j_to_vec J patch) Serialization"

definition patch_wire_body :: "document_externals \<Rightarrow> PreparedPatch \<Rightarrow> bytes projection" where
  "patch_wire_body J prepared = serialize_patch_body J (pp_patch prepared)"

section \<open>The patch\<close>

definition patch_op :: "string \<Rightarrow> string \<Rightarrow> string \<Rightarrow> Value" where
  "patch_op op path value =
     JObject [(''op'', JString op), (''path'', JString path), (''value'', JString value)]"

definition annotation_test :: "string \<Rightarrow> string \<Rightarrow> Value" where
  "annotation_test path prior = patch_op ''test'' path prior"

definition annotation_write :: "string \<Rightarrow> string \<Rightarrow> Value" where
  "annotation_write path value = patch_op ''replace'' path value"

definition annotation_path :: "string \<Rightarrow> string" where
  "annotation_path key = ''/metadata/annotations/'' @ escape_pointer key"

definition container_base :: "DeploymentTemplate \<Rightarrow> string" where
  "container_base t = ''/spec/template/spec/containers/'' @ decimal (unat (dt_container_index t))"

definition prepare_patch ::
    "externals \<Rightarrow> document_externals \<Rightarrow> DeploymentTemplate \<Rightarrow> uuid \<Rightarrow> uuid \<Rightarrow> PreparedPatch projection" where
  "prepare_patch X J t transaction_id authorization_id =
     and_then (validate_executable_template t) (\<lambda>_.
     and_then (operation_hash X t transaction_id authorization_id) (\<lambda>operation_hash.
     let transaction_path = annotation_path TRANSACTION_ANNOTATION;
         authorization_path = annotation_path AUTHORIZATION_ANNOTATION;
         operation_path = annotation_path OPERATION_ANNOTATION in
     and_then (required_prior_annotation TRANSACTION_ANNOTATION (dt_prior_transaction_annotation t)) (\<lambda>prior_transaction.
     and_then (required_prior_annotation AUTHORIZATION_ANNOTATION (dt_prior_authorization_annotation t)) (\<lambda>prior_authorization.
     and_then (required_prior_annotation OPERATION_ANNOTATION (dt_prior_operation_hash_annotation t)) (\<lambda>prior_operation.
     let patch = JArray
           [patch_op ''test'' ''/metadata/uid'' (dt_deployment_uid t),
            patch_op ''test'' ''/metadata/resourceVersion'' (dt_resource_version t),
            patch_op ''test'' (container_base t @ ''/name'') (dt_container t),
            patch_op ''test'' (container_base t @ ''/image'')
              (image_reference J (dt_image_repository t) (dt_prior_image_digest t)),
            annotation_test transaction_path prior_transaction,
            annotation_test authorization_path prior_authorization,
            annotation_test operation_path prior_operation,
            patch_op ''replace'' (container_base t @ ''/image'')
              (image_reference J (dt_image_repository t) (dt_image_digest t)),
            annotation_write transaction_path (x_uuid_string X transaction_id),
            annotation_write authorization_path (x_uuid_string X authorization_id),
            annotation_write operation_path (digest_text J operation_hash)] in
     and_then (serialize_patch_body J patch) (\<lambda>wire_body.
     let provider_path = ''/apis/apps/v1/namespaces/'' @ dt_namespace t @ ''/deployments/'' @ dt_deployment t in
     Ok \<lparr>pp_operation_hash = operation_hash, pp_patch = patch,
         pp_execution_command_commitment = native_execution_command_commitment X ''PATCH'' provider_path
           ''application/json-patch+json'' wire_body,
         pp_final_wire_commitment = wire_commitment X ''PATCH'' provider_path
           ''application/json-patch+json'' wire_body\<rparr>))))))"

section \<open>Reading a Deployment\<close>

definition required_string :: "document_externals \<Rightarrow> Value \<Rightarrow> string \<Rightarrow> string projection" where
  "required_string J v pointer =
     ok_or (Option.bind (j_pointer J v pointer) as_str) (MissingField pointer)"

definition require_string :: "document_externals \<Rightarrow> Value \<Rightarrow> string \<Rightarrow> string \<Rightarrow> unit projection" where
  "require_string J v pointer expected =
     and_then (required_string J v pointer) (\<lambda>actual. ensure (actual = expected) (Precondition pointer))"

definition required_u64 :: "document_externals \<Rightarrow> Value \<Rightarrow> string \<Rightarrow> u64 projection" where
  "required_u64 J v pointer =
     ok_or (Option.bind (j_pointer J v pointer) as_u64) (MissingField pointer)"

definition require_annotation :: "document_externals \<Rightarrow> Value \<Rightarrow> string \<Rightarrow> string \<Rightarrow> unit projection" where
  "require_annotation J v key expected =
     (let pointer = annotation_path key in
      ensure (Option.bind (j_pointer J v pointer) as_str = Some expected) (AuthorizedValueMismatch pointer))"

definition require_optional_annotation ::
    "document_externals \<Rightarrow> Value \<Rightarrow> string \<Rightarrow> string option \<Rightarrow> unit projection" where
  "require_optional_annotation J v key expected =
     (let pointer = annotation_path key in
      ensure (Option.bind (j_pointer J v pointer) as_str = expected) (Precondition pointer))"

definition validate_preconditions :: "document_externals \<Rightarrow> Value \<Rightarrow> DeploymentTemplate \<Rightarrow> unit projection" where
  "validate_preconditions J current t =
     and_then (validate_executable_template t) (\<lambda>_.
     and_then (require_string J current ''/apiVersion'' ''apps/v1'') (\<lambda>_.
     and_then (require_string J current ''/kind'' ''Deployment'') (\<lambda>_.
     and_then (require_string J current ''/metadata/name'' (dt_deployment t)) (\<lambda>_.
     and_then (require_string J current ''/metadata/namespace'' (dt_namespace t)) (\<lambda>_.
     and_then (require_string J current ''/metadata/uid'' (dt_deployment_uid t)) (\<lambda>_.
     and_then (require_string J current ''/metadata/resourceVersion'' (dt_resource_version t)) (\<lambda>_.
     and_then (require_string J current (container_base t @ ''/name'') (dt_container t)) (\<lambda>_.
     and_then (require_string J current (container_base t @ ''/image'')
       (image_reference J (dt_image_repository t) (dt_prior_image_digest t))) (\<lambda>_.
     and_then (require_optional_annotation J current TRANSACTION_ANNOTATION (dt_prior_transaction_annotation t)) (\<lambda>_.
     and_then (require_optional_annotation J current AUTHORIZATION_ANNOTATION (dt_prior_authorization_annotation t)) (\<lambda>_.
     and_then (require_optional_annotation J current OPERATION_ANNOTATION (dt_prior_operation_hash_annotation t)) (\<lambda>_.
     Ok ()))))))))))))"

section \<open>Comparing Deployments\<close>

text \<open>\<open>get_mut(key).and_then(Value::as_object_mut)\<close> followed by removals.\<close>

definition update_object :: "((string \<times> Value) list \<Rightarrow> (string \<times> Value) list) \<Rightarrow> Value \<Rightarrow> Value" where
  "update_object f v = (case v of JObject m \<Rightarrow> JObject (f m) | _ \<Rightarrow> v)"

definition remove_keys :: "string list \<Rightarrow> (string \<times> Value) list \<Rightarrow> (string \<times> Value) list" where
  "remove_keys ks m = filter (\<lambda>(k, _). k \<notin> set ks) m"

definition authorized_projection :: "Value \<Rightarrow> Value" where
  "authorized_projection v = update_object (AList.map_entry ''metadata''
     (update_object (remove_keys [''resourceVersion'', ''generation'', ''managedFields'']))) v"

definition eventual_projection :: "Value \<Rightarrow> Value" where
  "eventual_projection v = update_object (\<lambda>m. AList.map_entry ''metadata''
     (update_object (\<lambda>metadata. AList.map_entry ''annotations''
        (update_object (remove_keys [DEPLOYMENT_REVISION_ANNOTATION]))
        (remove_keys [''resourceVersion'', ''managedFields''] metadata)))
     (remove_keys [''status''] m)) v"

text \<open>The source inserts into a sorted set; here the insertions are listed in order.\<close>

function collect_changed_paths :: "string \<Rightarrow> Value \<Rightarrow> Value \<Rightarrow> string list" where
  "collect_changed_paths base (JObject old_map) (JObject new_map) =
     concat (map (\<lambda>key. let path = base @ ''/'' @ escape_pointer key in
       case (map_of old_map key, map_of new_map key) of
         (Some old, Some new) \<Rightarrow> collect_changed_paths path old new
       | _ \<Rightarrow> [path]) (sort_dedup (map fst old_map @ map fst new_map)))"
| "collect_changed_paths base (JArray old_values) (JArray new_values) =
     concat (map (\<lambda>index. let path = base @ ''/'' @ decimal index in
       if index < length old_values \<and> index < length new_values
       then collect_changed_paths path (old_values ! index) (new_values ! index)
       else [path]) [0..<max (length old_values) (length new_values)])"
| "\<lbrakk>\<nexists>m n. old = JObject m \<and> new = JObject n; \<nexists>vs ws. old = JArray vs \<and> new = JArray ws\<rbrakk>
     \<Longrightarrow> collect_changed_paths base old new = (if old \<noteq> new then [base] else [])"
  by (atomize_elim, force) auto
termination
proof (relation "measure (\<lambda>(_, old, _). size old)")
  show "wf (measure (\<lambda>(_ :: string, old :: Value, _ :: Value). size old))" by simp
qed (use child_size [of "JObject _"] in \<open>auto simp: less_Suc_eq_le size_element\<close>)

lemma collect_changed_paths_code [code]:
  "collect_changed_paths base old new = (case (old, new) of
     (JObject old_map, JObject new_map) \<Rightarrow>
       concat (map (\<lambda>key. let path = base @ ''/'' @ escape_pointer key in
         case (map_of old_map key, map_of new_map key) of
           (Some old, Some new) \<Rightarrow> collect_changed_paths path old new
         | _ \<Rightarrow> [path]) (sort_dedup (map fst old_map @ map fst new_map)))
   | (JArray old_values, JArray new_values) \<Rightarrow>
       concat (map (\<lambda>index. let path = base @ ''/'' @ decimal index in
         if index < length old_values \<and> index < length new_values
         then collect_changed_paths path (old_values ! index) (new_values ! index)
         else [path]) [0..<max (length old_values) (length new_values)])
   | _ \<Rightarrow> if old \<noteq> new then [base] else [])"
  by (cases old; cases new) simp_all

definition changed_paths :: "Value \<Rightarrow> Value \<Rightarrow> string list" where
  "changed_paths old new = sort_dedup (collect_changed_paths [] old new)"

definition validate_effect_projection ::
    "externals \<Rightarrow> document_externals \<Rightarrow> Value \<Rightarrow> Value \<Rightarrow> DeploymentTemplate \<Rightarrow> uuid \<Rightarrow> uuid \<Rightarrow> digest32
     \<Rightarrow> unit projection" where
  "validate_effect_projection X J old observed t transaction_id authorization_id op_hash =
     and_then (validate_preconditions J old t) (\<lambda>_.
     and_then (require_string J observed ''/metadata/uid'' (dt_deployment_uid t)) (\<lambda>_.
     let image_path = container_base t @ ''/image'';
         allowed = [image_path, annotation_path TRANSACTION_ANNOTATION,
           annotation_path AUTHORIZATION_ANNOTATION, annotation_path OPERATION_ANNOTATION];
         changed = changed_paths (authorized_projection old) (authorized_projection observed) in
     and_then (case find (\<lambda>path. path \<notin> set allowed) changed of
         Some path \<Rightarrow> Err (UnauthorizedDelta path) | None \<Rightarrow> Ok ()) (\<lambda>_.
     and_then (require_string J observed image_path
       (image_reference J (dt_image_repository t) (dt_image_digest t))) (\<lambda>_.
     and_then (require_annotation J observed TRANSACTION_ANNOTATION (x_uuid_string X transaction_id)) (\<lambda>_.
     and_then (require_annotation J observed AUTHORIZATION_ANNOTATION (x_uuid_string X authorization_id)) (\<lambda>_.
     and_then (require_annotation J observed OPERATION_ANNOTATION (digest_text J op_hash)) (\<lambda>_.
     Ok ())))))))"

definition validate_admission_candidate ::
    "externals \<Rightarrow> document_externals \<Rightarrow> Value \<Rightarrow> Value \<Rightarrow> DeploymentTemplate \<Rightarrow> uuid \<Rightarrow> uuid \<Rightarrow> digest32
     \<Rightarrow> unit projection" where
  "validate_admission_candidate = validate_effect_projection"

definition validate_server_transition :: "document_externals \<Rightarrow> Value \<Rightarrow> Value \<Rightarrow> unit projection" where
  "validate_server_transition J old new =
     and_then (required_string J old ''/metadata/resourceVersion'') (\<lambda>old_resource_version.
     and_then (required_string J new ''/metadata/resourceVersion'') (\<lambda>new_resource_version.
     and_then (ensure (\<not> (new_resource_version = [] \<or> old_resource_version = new_resource_version))
       (Precondition ''/metadata/resourceVersion transition'')) (\<lambda>_.
     and_then (required_u64 J old ''/metadata/generation'') (\<lambda>old_generation.
     and_then (required_u64 J new ''/metadata/generation'') (\<lambda>new_generation.
     ensure (u64_checked_add old_generation 1 = Some new_generation)
       (Precondition ''/metadata/generation transition''))))))"

definition validate_authorized_delta ::
    "externals \<Rightarrow> document_externals \<Rightarrow> Value \<Rightarrow> Value \<Rightarrow> DeploymentTemplate \<Rightarrow> uuid \<Rightarrow> uuid \<Rightarrow> digest32
     \<Rightarrow> unit projection" where
  "validate_authorized_delta X J old persisted_response t transaction_id authorization_id op_hash =
     and_then (validate_effect_projection X J old persisted_response t transaction_id authorization_id
       op_hash) (\<lambda>_.
     validate_server_transition J old persisted_response)"

definition validate_eventual_controller_projection ::
    "externals \<Rightarrow> document_externals \<Rightarrow> Value \<Rightarrow> Value \<Rightarrow> DeploymentTemplate \<Rightarrow> uuid \<Rightarrow> uuid \<Rightarrow> digest32
     \<Rightarrow> unit projection" where
  "validate_eventual_controller_projection X J persisted_response eventual t transaction_id authorization_id
     op_hash =
     and_then (require_string J eventual ''/apiVersion'' ''apps/v1'') (\<lambda>_.
     and_then (require_string J eventual ''/kind'' ''Deployment'') (\<lambda>_.
     and_then (require_string J eventual ''/metadata/name'' (dt_deployment t)) (\<lambda>_.
     and_then (require_string J eventual ''/metadata/namespace'' (dt_namespace t)) (\<lambda>_.
     and_then (require_string J eventual ''/metadata/uid'' (dt_deployment_uid t)) (\<lambda>_.
     and_then (required_u64 J persisted_response ''/metadata/generation'') (\<lambda>persisted_generation.
     and_then (required_u64 J eventual ''/metadata/generation'') (\<lambda>eventual_generation.
     and_then (ensure (eventual_generation = persisted_generation)
       (UnauthorizedDelta ''/metadata/generation'')) (\<lambda>_.
     and_then (required_string J eventual ''/metadata/resourceVersion'') (\<lambda>resource_version.
     and_then (ensure (resource_version \<noteq> []) (Precondition ''/metadata/resourceVersion'')) (\<lambda>_.
     let changed = changed_paths (eventual_projection persisted_response) (eventual_projection eventual) in
     and_then (case changed of path # _ \<Rightarrow> Err (UnauthorizedDelta path) | [] \<Rightarrow> Ok ()) (\<lambda>_.
     and_then (require_string J eventual (container_base t @ ''/image'')
       (image_reference J (dt_image_repository t) (dt_image_digest t))) (\<lambda>_.
     and_then (require_annotation J eventual TRANSACTION_ANNOTATION (x_uuid_string X transaction_id)) (\<lambda>_.
     and_then (require_annotation J eventual AUTHORIZATION_ANNOTATION (x_uuid_string X authorization_id)) (\<lambda>_.
     and_then (require_annotation J eventual OPERATION_ANNOTATION (digest_text J op_hash)) (\<lambda>_.
     Ok ())))))))))))))))"

end
