(* ===== verification/Kubernetes_Rollout.thy ===== *)
theory Kubernetes_Rollout
  imports Kubernetes_Projection
begin

text \<open>
  The rollout checks of \<^verbatim>\<open>accordlock-k8s/src/lib.rs\<close>: a settled Deployment against the Pods and ReplicaSets
  observed with it. Loops over lists carry the index of the item for the error messages, as
  \<open>iter().enumerate()\<close> does, and the sets of names, identifiers and hashes seen so far.
\<close>

type_synonym json_map = "(string \<times> Value) list"

section \<open>Reading\<close>

fun as_object :: "Value \<Rightarrow> json_map option" where
  "as_object (JObject m) = Some m"
| "as_object _ = None"

fun as_array :: "Value \<Rightarrow> Value list option" where
  "as_array (JArray vs) = Some vs"
| "as_array _ = None"

fun as_bool :: "Value \<Rightarrow> bool option" where
  "as_bool (JBool b) = Some b"
| "as_bool _ = None"

definition get_field :: "Value \<Rightarrow> string \<Rightarrow> Value option" where
  "get_field v k = Option.bind (as_object v) (\<lambda>m. map_of m k)"

definition get_str :: "Value \<Rightarrow> string \<Rightarrow> string option" where
  "get_str v k = Option.bind (get_field v k) as_str"

text \<open>\<open>map.get(key).and_then(Value::as_str).filter(|value| !value.is_empty())\<close>\<close>

definition non_empty_label :: "json_map \<Rightarrow> string \<Rightarrow> string option" where
  "non_empty_label m k = (case Option.bind (map_of m k) as_str of Some s \<Rightarrow> if s = [] then None else Some s | None \<Rightarrow> None)"

definition required_non_empty_string :: "document_externals \<Rightarrow> Value \<Rightarrow> string \<Rightarrow> string projection" where
  "required_non_empty_string J v pointer =
     and_then (required_string J v pointer) (\<lambda>actual.
     and_then (ensure (trim actual \<noteq> []) (Precondition pointer)) (\<lambda>_. Ok actual))"

definition require_not_terminating :: "document_externals \<Rightarrow> Value \<Rightarrow> string \<Rightarrow> unit projection" where
  "require_not_terminating J v pointer =
     ensure (\<not> (case j_pointer J v pointer of Some w \<Rightarrow> w \<noteq> JNull | None \<Rightarrow> False)) (Precondition pointer)"

definition optional_u64_or_zero :: "document_externals \<Rightarrow> Value \<Rightarrow> string \<Rightarrow> u64 projection" where
  "optional_u64_or_zero J v pointer =
     (case j_pointer J v pointer of
        None \<Rightarrow> Ok 0
      | Some JNull \<Rightarrow> Ok 0
      | Some w \<Rightarrow> ok_or (as_u64 w) (MissingField pointer))"

definition object_at :: "document_externals \<Rightarrow> Value \<Rightarrow> string \<Rightarrow> string \<Rightarrow> json_map projection" where
  "object_at J v pointer missing = ok_or (Option.bind (j_pointer J v pointer) as_object) (MissingField missing)"

definition array_at :: "document_externals \<Rightarrow> Value \<Rightarrow> string \<Rightarrow> string \<Rightarrow> Value list projection" where
  "array_at J v pointer missing = ok_or (Option.bind (j_pointer J v pointer) as_array) (MissingField missing)"

definition item_path :: "nat \<Rightarrow> string \<Rightarrow> string" where
  "item_path index rest = ''/items/'' @ decimal index @ rest"

definition u64_len :: "'a list \<Rightarrow> string \<Rightarrow> u64 projection" where
  "u64_len xs what = (if length xs < 2 ^ 64 then Ok (word_of_nat (length xs))
     else Err (Precondition (what @ '' count exceeds u64'')))"

section \<open>Status\<close>

primrec require_counts ::
    "document_externals \<Rightarrow> Value \<Rightarrow> u64 \<Rightarrow> string \<Rightarrow> string list \<Rightarrow> unit projection" where
  "require_counts J v expected path [] = Ok ()"
| "require_counts J v expected path (field # names) =
     and_then (optional_u64_or_zero J v (''/status/'' @ field)) (\<lambda>count.
     and_then (ensure (count = expected) (Precondition (path @ ''/status/'' @ field))) (\<lambda>_.
     require_counts J v expected path names))"

definition validate_deployment_rollout_status :: "document_externals \<Rightarrow> Value \<Rightarrow> u64 \<Rightarrow> unit projection" where
  "validate_deployment_rollout_status J deployment desired_replicas =
     and_then (required_u64 J deployment ''/metadata/generation'') (\<lambda>generation.
     and_then (required_u64 J deployment ''/status/observedGeneration'') (\<lambda>observed.
     and_then (ensure (observed = generation) (Precondition ''/status/observedGeneration'')) (\<lambda>_.
     and_then (require_counts J deployment desired_replicas []
       [''replicas'', ''updatedReplicas'', ''readyReplicas'', ''availableReplicas'']) (\<lambda>_.
     and_then (optional_u64_or_zero J deployment ''/status/unavailableReplicas'') (\<lambda>unavailable.
     ensure (unavailable = 0) (Precondition ''/status/unavailableReplicas''))))))"

definition validate_replica_set_rollout_status ::
    "document_externals \<Rightarrow> Value \<Rightarrow> u64 \<Rightarrow> nat \<Rightarrow> unit projection" where
  "validate_replica_set_rollout_status J replica_set expected_replicas index =
     and_then (required_u64 J replica_set ''/spec/replicas'') (\<lambda>replicas.
     and_then (ensure (replicas = expected_replicas) (Precondition (item_path index ''/spec/replicas''))) (\<lambda>_.
     and_then (required_u64 J replica_set ''/metadata/generation'') (\<lambda>generation.
     and_then (required_u64 J replica_set ''/status/observedGeneration'') (\<lambda>observed.
     and_then (ensure (observed = generation)
       (Precondition (item_path index ''/status/observedGeneration''))) (\<lambda>_.
     require_counts J replica_set expected_replicas (item_path index [])
       [''replicas'', ''fullyLabeledReplicas'', ''readyReplicas'', ''availableReplicas''])))))"

definition validate_running_ready_pod :: "document_externals \<Rightarrow> Value \<Rightarrow> nat \<Rightarrow> unit projection" where
  "validate_running_ready_pod J pod index =
     and_then (require_string J pod ''/status/phase'' ''Running'') (\<lambda>_.
     and_then (array_at J pod ''/status/conditions'' (item_path index ''/status/conditions'')) (\<lambda>conditions.
     let ready_conditions = filter (\<lambda>c. get_str c ''type'' = Some ''Ready'') conditions in
     ensure (\<not> (length ready_conditions \<noteq> 1 \<or> get_str (ready_conditions ! 0) ''status'' \<noteq> Some ''True''))
       (Precondition (item_path index ''/status/conditions/Ready''))))"

section \<open>Labels and owners\<close>

primrec require_labels :: "json_map \<Rightarrow> nat \<Rightarrow> json_map \<Rightarrow> unit projection" where
  "require_labels labels index [] = Ok ()"
| "require_labels labels index (entry # selector) =
     and_then (ensure (map_of labels (fst entry) = Some (snd entry))
       (AuthorizedValueMismatch (item_path index (''/metadata/labels/'' @ escape_pointer (fst entry))))) (\<lambda>_.
     require_labels labels index selector)"

definition validate_pod_controller_owner :: "document_externals \<Rightarrow> Value \<Rightarrow> nat \<Rightarrow> unit projection" where
  "validate_pod_controller_owner J pod index =
     and_then (array_at J pod ''/metadata/ownerReferences'' (item_path index ''/metadata/ownerReferences'')) (\<lambda>owners.
     let controllers = filter (\<lambda>owner. Option.bind (get_field owner ''controller'') as_bool = Some True) owners in
     ensure (\<not> (length controllers \<noteq> 1
         \<or> get_str (controllers ! 0) ''apiVersion'' \<noteq> Some ''apps/v1''
         \<or> get_str (controllers ! 0) ''kind'' \<noteq> Some ''ReplicaSet''
         \<or> get_str (controllers ! 0) ''name'' \<in> {None, Some []}
         \<or> get_str (controllers ! 0) ''uid'' \<in> {None, Some []}))
       (Precondition (item_path index ''/metadata/ownerReferences'')))"

definition validate_strict_controller_owner ::
    "document_externals \<Rightarrow> Value \<Rightarrow> string \<Rightarrow> string \<Rightarrow> string \<Rightarrow> string \<Rightarrow> unit projection" where
  "validate_strict_controller_owner J v object_path expected_kind expected_name expected_uid =
     (let owner_path = object_path @ ''/metadata/ownerReferences'' in
     and_then (array_at J v ''/metadata/ownerReferences'' owner_path) (\<lambda>owners.
     and_then (ensure (length owners = 1) (Precondition owner_path)) (\<lambda>_.
     let owner = owners ! 0;
         exact = get_str owner ''apiVersion'' = Some ''apps/v1'' \<and> get_str owner ''kind'' = Some expected_kind
           \<and> get_str owner ''name'' = Some expected_name \<and> get_str owner ''uid'' = Some expected_uid
           \<and> Option.bind (get_field owner ''controller'') as_bool = Some True in
     ensure (\<not> (\<not> exact \<or> expected_name = [] \<or> expected_uid = []))
       (Precondition (object_path @ ''/metadata/ownerReferences/0'')))))"

definition strict_match_labels :: "document_externals \<Rightarrow> Value \<Rightarrow> string \<Rightarrow> json_map projection" where
  "strict_match_labels J v selector_pointer =
     and_then (object_at J v selector_pointer selector_pointer) (\<lambda>selector.
     and_then (ensure (\<not> (length selector \<noteq> 1 \<or> map_of selector ''matchLabels'' = None))
       (Precondition (selector_pointer @ '' is outside the strict matchLabels-only profile''))) (\<lambda>_.
     ok_or (case Option.bind (map_of selector ''matchLabels'') as_object of
         Some labels \<Rightarrow> if labels = [] then None else Some labels
       | None \<Rightarrow> None) (MissingField (selector_pointer @ ''/matchLabels''))))"

definition validate_replica_set_template_hash ::
    "document_externals \<Rightarrow> Value \<Rightarrow> json_map \<Rightarrow> json_map \<Rightarrow> nat \<Rightarrow> string projection" where
  "validate_replica_set_template_hash J replica_set selector template_labels index =
     and_then (required_non_empty_string J replica_set ''/metadata/labels/pod-template-hash'') (\<lambda>metadata_hash.
     let selector_hash = non_empty_label selector ''pod-template-hash'';
         template_hash = non_empty_label template_labels ''pod-template-hash'' in
     and_then (ensure (\<not> (selector_hash \<noteq> Some metadata_hash \<or> template_hash \<noteq> Some metadata_hash))
       (Precondition (item_path index ''/pod-template-hash linkage''))) (\<lambda>_.
     Ok metadata_hash))"

text \<open>\<open>BTreeMap::insert\<close>\<close>

fun object_insert :: "string \<Rightarrow> Value \<Rightarrow> json_map \<Rightarrow> json_map" where
  "object_insert k v [] = [(k, v)]"
| "object_insert k v ((l, w) # m) =
     (if k = l then (k, v) # m else if k < l then (k, v) # (l, w) # m else (l, w) # object_insert k v m)"

definition validate_replica_set_selector :: "json_map \<Rightarrow> json_map \<Rightarrow> string \<Rightarrow> nat \<Rightarrow> unit projection" where
  "validate_replica_set_selector replica_set_selector deployment_selector template_hash index =
     ensure (replica_set_selector = object_insert ''pod-template-hash'' (JString template_hash) deployment_selector)
       (Precondition (item_path index ''/spec/selector/matchLabels''))"

definition validate_strict_pod_metadata ::
    "document_externals \<Rightarrow> Value \<Rightarrow> nat \<Rightarrow> json_map \<Rightarrow> json_map \<Rightarrow> string \<Rightarrow> unit projection" where
  "validate_strict_pod_metadata J pod index deployment_selector replica_set_template_labels expected_template_hash =
     and_then (object_at J pod ''/metadata/labels'' (item_path index ''/metadata/labels'')) (\<lambda>labels.
     and_then (ensure (labels = replica_set_template_labels)
       (AuthorizedValueMismatch (item_path index ''/metadata/labels''))) (\<lambda>_.
     and_then (ensure (Option.bind (map_of labels ''pod-template-hash'') as_str = Some expected_template_hash)
       (AuthorizedValueMismatch (item_path index ''/metadata/labels/pod-template-hash''))) (\<lambda>_.
     require_labels labels index deployment_selector)))"

definition validate_active_pod_metadata ::
    "document_externals \<Rightarrow> Value \<Rightarrow> nat \<Rightarrow> string \<Rightarrow> json_map \<Rightarrow> string projection" where
  "validate_active_pod_metadata J pod index namespace selector =
     and_then (require_string J pod ''/apiVersion'' ''v1'') (\<lambda>_.
     and_then (require_string J pod ''/kind'' ''Pod'') (\<lambda>_.
     and_then (require_string J pod ''/metadata/namespace'' namespace) (\<lambda>_.
     and_then (object_at J pod ''/metadata/labels'' (item_path index ''/metadata/labels'')) (\<lambda>labels.
     and_then (require_labels labels index selector) (\<lambda>_.
     and_then (ok_or (non_empty_label labels ''pod-template-hash'')
       (MissingField (item_path index ''/metadata/labels/pod-template-hash''))) (\<lambda>pod_template_hash.
     and_then (validate_pod_controller_owner J pod index) (\<lambda>_.
     and_then (validate_running_ready_pod J pod index) (\<lambda>_.
     Ok pod_template_hash))))))))"

section \<open>Pod specifications\<close>

definition is_standard_runtime_toleration :: "Value \<Rightarrow> bool" where
  "is_standard_runtime_toleration v =
     (case as_object v of
        None \<Rightarrow> False
      | Some m \<Rightarrow>
          if length m \<noteq> 4 \<or> Option.bind (map_of m ''effect'') as_str \<noteq> Some ''NoExecute''
             \<or> Option.bind (map_of m ''operator'') as_str \<noteq> Some ''Exists''
             \<or> Option.bind (map_of m ''tolerationSeconds'') as_u64 \<noteq> Some 300
          then False
          else Option.bind (map_of m ''key'') as_str
             \<in> {Some ''node.kubernetes.io/not-ready'', Some ''node.kubernetes.io/unreachable''})"

definition pod_spec_projection :: "json_map \<Rightarrow> bool \<Rightarrow> bool \<Rightarrow> Value projection" where
  "pod_spec_projection spec observed_pod remove_scheduled_node_name =
     (let projection = (if observed_pod \<and> remove_scheduled_node_name then remove_keys [''nodeName''] spec else spec) in
      case map_of projection ''tolerations'' of
        None \<Rightarrow> Ok (JObject projection)
      | Some value \<Rightarrow>
          and_then (ok_or (as_array value) (MissingField ''/spec/tolerations'')) (\<lambda>values.
          let kept = (if observed_pod then filter (\<lambda>t. \<not> is_standard_runtime_toleration t) values else values) in
          Ok (JObject (if kept = [] then remove_keys [''tolerations''] projection
            else AList.map_entry ''tolerations'' (\<lambda>_. JArray kept) projection))))"

text \<open>The comparison of a Pod with its template, and the first path at which they differ.\<close>

definition compare_pod_spec :: "document_externals \<Rightarrow> Value \<Rightarrow> nat \<Rightarrow> json_map \<Rightarrow> unit projection" where
  "compare_pod_spec J pod index template_spec =
     and_then (object_at J pod ''/spec'' (item_path index ''/spec'')) (\<lambda>pod_spec.
     and_then (pod_spec_projection template_spec False False) (\<lambda>template_projection.
     and_then (pod_spec_projection pod_spec True (map_of template_spec ''nodeName'' = None)) (\<lambda>observed_projection.
     if template_projection \<noteq> observed_projection
     then Err (UnauthorizedDelta
       (case sort_dedup (collect_changed_paths (item_path index ''/spec'') template_projection observed_projection) of
          path # _ \<Rightarrow> path | [] \<Rightarrow> item_path index ''/spec''))
     else Ok ())))"

section \<open>The compatibility check\<close>

fun active_pods_loop ::
    "document_externals \<Rightarrow> string \<Rightarrow> json_map \<Rightarrow> json_map \<Rightarrow> nat \<Rightarrow> Value list \<Rightarrow> string list
     \<Rightarrow> string list projection" where
  "active_pods_loop J namespace selector template_spec index [] hashes = Ok hashes"
| "active_pods_loop J namespace selector template_spec index (pod # pods) hashes =
     and_then (validate_active_pod_metadata J pod index namespace selector) (\<lambda>hash.
     and_then (compare_pod_spec J pod index template_spec) (\<lambda>_.
     active_pods_loop J namespace selector template_spec (Suc index) pods (List.insert hash hashes)))"

definition validate_rollout_pods :: "document_externals \<Rightarrow> Value \<Rightarrow> Value \<Rightarrow> unit projection" where
  "validate_rollout_pods J eventual_deployment observed_pods =
     and_then (require_string J observed_pods ''/apiVersion'' ''v1'') (\<lambda>_.
     and_then (require_string J observed_pods ''/kind'' ''List'') (\<lambda>_.
     and_then (required_u64 J eventual_deployment ''/spec/replicas'') (\<lambda>desired_replicas.
     and_then (validate_deployment_rollout_status J eventual_deployment desired_replicas) (\<lambda>_.
     and_then (required_string J eventual_deployment ''/metadata/namespace'') (\<lambda>namespace.
     and_then (object_at J eventual_deployment ''/spec/template/spec'' ''/spec/template/spec'') (\<lambda>template_spec.
     and_then (object_at J eventual_deployment ''/spec/selector/matchLabels'' ''/spec/selector/matchLabels'') (\<lambda>selector.
     and_then (array_at J observed_pods ''/items'' ''/items'') (\<lambda>items.
     let active = filter (\<lambda>pod. case j_pointer J pod ''/metadata/deletionTimestamp'' of
           None \<Rightarrow> True | Some w \<Rightarrow> w = JNull) items in
     and_then (u64_len active ''active Pod'') (\<lambda>active_count.
     and_then (ensure (active_count = desired_replicas)
       (Precondition (''active Pod count '' @ decimal (unat active_count) @ '' differs from desired replicas ''
          @ decimal (unat desired_replicas)))) (\<lambda>_.
     and_then (active_pods_loop J namespace selector template_spec 0 active []) (\<lambda>hashes.
     ensure (\<not> (desired_replicas \<noteq> 0 \<and> length hashes \<noteq> 1))
       (Precondition ''active Pods do not share one pod-template-hash''))))))))))))"

section \<open>The ownership check\<close>

record StrictReplicaSet =
  srs_name :: string
  srs_uid :: string
  srs_template_hash :: string
  srs_template_labels :: json_map
  srs_template_spec :: json_map

definition template_labels :: "json_map \<Rightarrow> string \<Rightarrow> json_map projection" where
  "template_labels template missing =
     ok_or (Option.bind (Option.bind (Option.bind (map_of template ''metadata'') as_object)
       (\<lambda>metadata. map_of metadata ''labels'')) as_object) (MissingField missing)"

definition template_spec_of :: "json_map \<Rightarrow> string \<Rightarrow> json_map projection" where
  "template_spec_of template missing =
     ok_or (Option.bind (map_of template ''spec'') as_object) (MissingField missing)"

definition normalized_controller_template :: "json_map \<Rightarrow> Value projection" where
  "normalized_controller_template template =
     and_then (template_labels template ''template metadata labels'') (\<lambda>labels.
     Ok (JObject (AList.map_entry ''metadata'' (update_object (AList.map_entry ''labels''
       (update_object (remove_keys [''pod-template-hash''])))) template)))"

text \<open>What the loop over ReplicaSets needs of the Deployment.\<close>

record DeploymentFacts =
  df_name :: string
  df_namespace :: string
  df_uid :: string
  df_replicas :: u64
  df_selector :: json_map
  df_projection :: Value

record ReplicaSetScan =
  sc_names :: "string list"
  sc_uids :: "string list"
  sc_hashes :: "string list"
  sc_current :: "StrictReplicaSet option"

definition scan_replica_set ::
    "document_externals \<Rightarrow> DeploymentFacts \<Rightarrow> nat \<Rightarrow> Value \<Rightarrow> ReplicaSetScan \<Rightarrow> ReplicaSetScan projection" where
  "scan_replica_set J d index replica_set scan =
     and_then (require_string J replica_set ''/apiVersion'' ''apps/v1'') (\<lambda>_.
     and_then (require_string J replica_set ''/kind'' ''ReplicaSet'') (\<lambda>_.
     and_then (require_string J replica_set ''/metadata/namespace'' (df_namespace d)) (\<lambda>_.
     and_then (required_non_empty_string J replica_set ''/metadata/name'') (\<lambda>replica_set_name.
     and_then (required_non_empty_string J replica_set ''/metadata/uid'') (\<lambda>replica_set_uid.
     and_then (ensure (\<not> (replica_set_name \<in> set (sc_names scan) \<or> replica_set_uid \<in> set (sc_uids scan)))
       (Precondition (item_path index '' duplicates a ReplicaSet name or UID''))) (\<lambda>_.
     and_then (require_not_terminating J replica_set ''/metadata/deletionTimestamp'') (\<lambda>_.
     and_then (validate_strict_controller_owner J replica_set (item_path index []) ''Deployment'' (df_name d) (df_uid d)) (\<lambda>_.
     and_then (strict_match_labels J replica_set ''/spec/selector'') (\<lambda>selector.
     and_then (object_at J replica_set ''/spec/template'' (item_path index ''/spec/template'')) (\<lambda>template.
     and_then (template_labels template (item_path index ''/spec/template/metadata/labels'')) (\<lambda>labels.
     and_then (template_spec_of template (item_path index ''/spec/template/spec'')) (\<lambda>spec.
     and_then (validate_replica_set_template_hash J replica_set selector labels index) (\<lambda>hash.
     and_then (ensure (hash \<notin> set (sc_hashes scan))
       (Precondition (item_path index '' duplicates a pod-template-hash''))) (\<lambda>_.
     and_then (validate_replica_set_selector selector (df_selector d) hash index) (\<lambda>_.
     and_then (normalized_controller_template template) (\<lambda>projection.
     let seen = scan\<lparr>sc_names := replica_set_name # sc_names scan, sc_uids := replica_set_uid # sc_uids scan,
           sc_hashes := hash # sc_hashes scan\<rparr> in
     if projection = df_projection d
     then and_then (validate_replica_set_rollout_status J replica_set (df_replicas d) index) (\<lambda>_.
       and_then (ensure (sc_current scan = None)
         (Precondition ''multiple ReplicaSets reproduce the current Deployment template'')) (\<lambda>_.
       Ok (seen\<lparr>sc_current := Some \<lparr>srs_name = replica_set_name, srs_uid = replica_set_uid,
         srs_template_hash = hash, srs_template_labels = labels, srs_template_spec = spec\<rparr>\<rparr>)))
     else and_then (validate_replica_set_rollout_status J replica_set 0 index) (\<lambda>_.
       Ok seen)))))))))))))))))"

fun scan_replica_sets ::
    "document_externals \<Rightarrow> DeploymentFacts \<Rightarrow> nat \<Rightarrow> Value list \<Rightarrow> ReplicaSetScan \<Rightarrow> ReplicaSetScan projection" where
  "scan_replica_sets J d index [] scan = Ok scan"
| "scan_replica_sets J d index (replica_set # replica_sets) scan =
     and_then (scan_replica_set J d index replica_set scan) (scan_replica_sets J d (Suc index) replica_sets)"

definition check_pod ::
    "document_externals \<Rightarrow> DeploymentFacts \<Rightarrow> StrictReplicaSet \<Rightarrow> nat \<Rightarrow> Value \<Rightarrow> string list \<Rightarrow> string list
     \<Rightarrow> (string \<times> string) projection" where
  "check_pod J d current index pod names uids =
     and_then (require_string J pod ''/apiVersion'' ''v1'') (\<lambda>_.
     and_then (require_string J pod ''/kind'' ''Pod'') (\<lambda>_.
     and_then (require_string J pod ''/metadata/namespace'' (df_namespace d)) (\<lambda>_.
     and_then (required_non_empty_string J pod ''/metadata/name'') (\<lambda>pod_name.
     and_then (required_non_empty_string J pod ''/metadata/uid'') (\<lambda>pod_uid.
     and_then (ensure (\<not> (pod_name \<in> set names \<or> pod_uid \<in> set uids))
       (Precondition (item_path index '' duplicates a Pod name or UID''))) (\<lambda>_.
     and_then (validate_strict_controller_owner J pod (item_path index []) ''ReplicaSet'' (srs_name current) (srs_uid current)) (\<lambda>_.
     and_then (validate_strict_pod_metadata J pod index (df_selector d) (srs_template_labels current)
       (srs_template_hash current)) (\<lambda>_.
     and_then (compare_pod_spec J pod index (srs_template_spec current)) (\<lambda>_.
     and_then (validate_running_ready_pod J pod index) (\<lambda>_.
     Ok (pod_name, pod_uid)))))))))))"

fun check_pods ::
    "document_externals \<Rightarrow> DeploymentFacts \<Rightarrow> StrictReplicaSet \<Rightarrow> nat \<Rightarrow> Value list \<Rightarrow> string list \<Rightarrow> string list
     \<Rightarrow> unit projection" where
  "check_pods J d current index [] names uids = Ok ()"
| "check_pods J d current index (pod # pods) names uids =
     and_then (check_pod J d current index pod names uids) (\<lambda>(pod_name, pod_uid).
     check_pods J d current (Suc index) pods (pod_name # names) (pod_uid # uids))"

primrec require_none_terminating :: "document_externals \<Rightarrow> Value list \<Rightarrow> unit projection" where
  "require_none_terminating J [] = Ok ()"
| "require_none_terminating J (pod # pods) =
     and_then (require_not_terminating J pod ''/metadata/deletionTimestamp'') (\<lambda>_.
     require_none_terminating J pods)"

definition deployment_facts :: "document_externals \<Rightarrow> Value \<Rightarrow> DeploymentFacts projection" where
  "deployment_facts J eventual_deployment =
     and_then (require_string J eventual_deployment ''/apiVersion'' ''apps/v1'') (\<lambda>_.
     and_then (require_string J eventual_deployment ''/kind'' ''Deployment'') (\<lambda>_.
     and_then (required_non_empty_string J eventual_deployment ''/metadata/name'') (\<lambda>name.
     and_then (required_non_empty_string J eventual_deployment ''/metadata/namespace'') (\<lambda>namespace.
     and_then (required_non_empty_string J eventual_deployment ''/metadata/uid'') (\<lambda>uid.
     and_then (require_not_terminating J eventual_deployment ''/metadata/deletionTimestamp'') (\<lambda>_.
     and_then (required_u64 J eventual_deployment ''/spec/replicas'') (\<lambda>desired_replicas.
     and_then (validate_deployment_rollout_status J eventual_deployment desired_replicas) (\<lambda>_.
     and_then (strict_match_labels J eventual_deployment ''/spec/selector'') (\<lambda>selector.
     and_then (object_at J eventual_deployment ''/spec/template'' ''/spec/template'') (\<lambda>template.
     and_then (template_labels template ''/spec/template/metadata/labels'') (\<lambda>labels.
     and_then (ensure (map_of labels ''pod-template-hash'' = None)
       (Precondition ''/spec/template/metadata/labels/pod-template-hash is controller-reserved'')) (\<lambda>_.
     and_then (template_spec_of template ''/spec/template/spec'') (\<lambda>_.
     and_then (normalized_controller_template template) (\<lambda>projection.
     Ok \<lparr>df_name = name, df_namespace = namespace, df_uid = uid, df_replicas = desired_replicas,
         df_selector = selector, df_projection = projection\<rparr>))))))))))))))"

definition validate_rollout_ownership_strict ::
    "document_externals \<Rightarrow> Value \<Rightarrow> Value \<Rightarrow> Value \<Rightarrow> unit projection" where
  "validate_rollout_ownership_strict J eventual_deployment observed_replica_sets observed_pods =
     and_then (deployment_facts J eventual_deployment) (\<lambda>d.
     and_then (require_string J observed_replica_sets ''/apiVersion'' ''v1'') (\<lambda>_.
     and_then (require_string J observed_replica_sets ''/kind'' ''List'') (\<lambda>_.
     and_then (array_at J observed_replica_sets ''/items'' ''/items'') (\<lambda>replica_sets.
     and_then (ensure (replica_sets \<noteq> []) (Precondition ''ReplicaSet snapshot is empty'')) (\<lambda>_.
     and_then (scan_replica_sets J d 0 replica_sets
       \<lparr>sc_names = [], sc_uids = [], sc_hashes = [], sc_current = None\<rparr>) (\<lambda>scan.
     and_then (ok_or (sc_current scan)
       (Precondition ''no ReplicaSet reproduces the current Deployment template'')) (\<lambda>current.
     and_then (require_string J observed_pods ''/apiVersion'' ''v1'') (\<lambda>_.
     and_then (require_string J observed_pods ''/kind'' ''List'') (\<lambda>_.
     and_then (array_at J observed_pods ''/items'' ''/items'') (\<lambda>pods.
     and_then (require_none_terminating J pods) (\<lambda>_.
     and_then (u64_len pods ''Pod'') (\<lambda>pod_count.
     and_then (ensure (pod_count = df_replicas d)
       (Precondition (''Pod count '' @ decimal (unat pod_count) @ '' differs from desired replicas ''
          @ decimal (unat (df_replicas d))))) (\<lambda>_.
     check_pods J d current 0 pods [] [])))))))))))))"

end
