(* ===== verification/Kubernetes_Delta.thy ===== *)
theory Kubernetes_Delta
  imports Kubernetes_Projection
begin

text \<open>
  What the Deployment checks mean on documents. \<open>effect_texts\<close> are the four texts a template writes;
  \<open>write_texts\<close> of them is the authorized effect, \<open>apply_patch\<close> what an API server does with the test
  and replace operations of a JSON Patch (RFC 6902).
\<close>

section \<open>Keys behind the pointers\<close>

definition image_keys :: "DeploymentTemplate \<Rightarrow> string list" where
  "image_keys t = [''spec'', ''template'', ''spec'', ''containers'', decimal (unat (dt_container_index t)), ''image'']"

definition annotation_keys :: "string \<Rightarrow> string list" where
  "annotation_keys key = [''metadata'', ''annotations'', key]"

lemma escape_digits: "list_all ascii_digit s \<Longrightarrow> escape_pointer s = s"
  by (induction s) (auto simp: ascii_digit_def)

lemma decimal_digits: "list_all ascii_digit (decimal n)"
proof (induction n rule: less_induct)
  case (less n)
  have d: "ascii_digit (digit_char m)" if "m < 10" for m
  proof -
    have "m \<in> set [0..<10]" using that by simp
    moreover have "list_all (\<lambda>m. ascii_digit (digit_char m)) [0..<10]" by code_simp
    ultimately show ?thesis by (simp add: list_all_iff del: upt_Suc)
  qed
  show ?case using less [of "n div 10"] by (subst decimal.simps) (auto simp: d)
qed

lemma escape_decimal [simp]: "escape_pointer (decimal n) = decimal n"
  by (rule escape_digits [OF decimal_digits])

lemma pointer_paths:
  "''/apiVersion'' = pointer_text [''apiVersion'']" "''/kind'' = pointer_text [''kind'']"
  "''/metadata/name'' = pointer_text [''metadata'', ''name'']"
  "''/metadata/namespace'' = pointer_text [''metadata'', ''namespace'']"
  "''/metadata/uid'' = pointer_text [''metadata'', ''uid'']"
  "''/metadata/resourceVersion'' = pointer_text [''metadata'', ''resourceVersion'']"
  "''/metadata/generation'' = pointer_text [''metadata'', ''generation'']"
  "container_base t @ ''/image'' = pointer_text (image_keys t)"
  "container_base t @ ''/name'' = pointer_text (butlast (image_keys t) @ [''name''])"
  "annotation_path key = pointer_text (annotation_keys key)"
  by (simp_all add: pointer_text_def container_base_def image_keys_def annotation_path_def annotation_keys_def)

lemma collect_changed_differences:
  "collect_changed_paths base a b = map (\<lambda>ks. base @ pointer_text ks) (differences a b)"
proof (induction base a b rule: collect_changed_paths.induct)
  case (1 base m n)
  then show ?case
    by (auto simp: map_concat pointer_text_def Let_def intro!: arg_cong [of _ _ concat] map_cong split: option.split)
next
  case (2 base vs ws)
  then show ?case
    by (auto simp: map_concat pointer_text_def Let_def intro!: arg_cong [of _ _ concat] map_cong)
next
  case (3 a b base)
  then show ?case by (simp add: pointer_text_def)
qed

lemma set_changed_paths: "set (changed_paths a b) = pointer_text ` set (differences a b)"
  by (auto simp: changed_paths_def collect_changed_differences)

section \<open>Reading through the law\<close>

lemma bind_as_str: "Option.bind x as_str = Some s \<longleftrightarrow> x = Some (JString s)"
  by (cases "(x, s)" rule: prod.exhaust) (auto simp: Option.bind_eq_Some_conv elim: as_str.elims)

lemma require_string_Ok:
  "rfc6901 J \<Longrightarrow> require_string J v (pointer_text ks) s = Ok u \<longleftrightarrow> walk v ks = Some (JString s)"
  by (auto simp: require_string_def required_string_def rfc6901_def and_then_Ok ok_or_Ok ensure_Ok bind_as_str)

lemma require_annotation_Ok:
  "rfc6901 J \<Longrightarrow> require_annotation J v key s = Ok u \<longleftrightarrow> walk v (annotation_keys key) = Some (JString s)"
  by (auto simp: require_annotation_def rfc6901_def pointer_paths ensure_Ok bind_as_str Let_def)

lemma require_optional_annotation_Ok:
  "rfc6901 J \<Longrightarrow> require_optional_annotation J v key (Some s) = Ok u \<longleftrightarrow> walk v (annotation_keys key) = Some (JString s)"
  by (auto simp: require_optional_annotation_def rfc6901_def pointer_paths ensure_Ok bind_as_str Let_def)

lemmas reading = require_string_Ok require_annotation_Ok require_optional_annotation_Ok

lemma executable_prior:
  assumes "validate_executable_template t = Ok u"
  obtains a b c where "dt_prior_transaction_annotation t = Some a" "dt_prior_authorization_annotation t = Some b"
    "dt_prior_operation_hash_annotation t = Some c"
  using assms by (auto simp: validate_executable_template_def required_prior_annotation_def and_then_Ok ok_or_Ok)

text \<open>The preconditions, as facts about the document.\<close>

lemma validate_preconditions_Ok:
  assumes "rfc6901 J"
  shows "validate_preconditions J v t = Ok () \<longleftrightarrow> validate_executable_template t = Ok ()
    \<and> walk v [''apiVersion''] = Some (JString ''apps/v1'') \<and> walk v [''kind''] = Some (JString ''Deployment'')
    \<and> walk v [''metadata'', ''name''] = Some (JString (dt_deployment t))
    \<and> walk v [''metadata'', ''namespace''] = Some (JString (dt_namespace t))
    \<and> walk v [''metadata'', ''uid''] = Some (JString (dt_deployment_uid t))
    \<and> walk v [''metadata'', ''resourceVersion''] = Some (JString (dt_resource_version t))
    \<and> walk v (butlast (image_keys t) @ [''name'']) = Some (JString (dt_container t))
    \<and> walk v (image_keys t) = Some (JString (image_reference J (dt_image_repository t) (dt_prior_image_digest t)))
    \<and> map_option JString (dt_prior_transaction_annotation t) = walk v (annotation_keys TRANSACTION_ANNOTATION)
    \<and> map_option JString (dt_prior_authorization_annotation t) = walk v (annotation_keys AUTHORIZATION_ANNOTATION)
    \<and> map_option JString (dt_prior_operation_hash_annotation t) = walk v (annotation_keys OPERATION_ANNOTATION)"
proof (cases "validate_executable_template t = Ok ()")
  case True
  then obtain a b c where "dt_prior_transaction_annotation t = Some a" "dt_prior_authorization_annotation t = Some b"
    "dt_prior_operation_hash_annotation t = Some c" by (rule executable_prior)
  then show ?thesis
    unfolding validate_preconditions_def pointer_paths
    by (simp add: and_then_Ok True reading [OF assms] eq_commute [of "Some (JString _)"])
next
  case False
  then show ?thesis by (simp add: validate_preconditions_def and_then_Ok)
qed

section \<open>The projection\<close>

lemma map_of_remove_keys: "map_of (remove_keys ks m) k = (if k \<in> set ks then None else map_of m k)"
  by (induction m) (auto simp: remove_keys_def)

lemma remove_keys_map_entry:
  "k \<notin> set ks \<Longrightarrow> remove_keys ks (AList.map_entry k f m) = AList.map_entry k f (remove_keys ks m)"
  by (induction m) (auto simp: remove_keys_def)

lemma map_entry_commute:
  "k \<noteq> l \<Longrightarrow> AList.map_entry k f (AList.map_entry l g m) = AList.map_entry l g (AList.map_entry k f m)"
  by (induction m) auto

lemma map_entry_same: "AList.map_entry k f (AList.map_entry k g m) = AList.map_entry k (f \<circ> g) m"
  by (induction m) auto

definition server_fields :: "string list" where
  "server_fields = [''resourceVersion'', ''generation'', ''managedFields'']"

lemma authorized_child:
  "child (authorized_projection v) k =
     (case v of JObject m \<Rightarrow> (if k = ''metadata'' then map_option (update_object (remove_keys server_fields)) (map_of m k)
        else map_of m k) | _ \<Rightarrow> child v k)"
  by (cases v) (auto simp: authorized_projection_def update_object_def map_of_map_entry server_fields_def)

text \<open>Texts outside the fields that the API server manages.\<close>

definition outside :: "string list \<Rightarrow> bool" where
  "outside ks \<longleftrightarrow> (case ks of k # l # _ \<Rightarrow> k = ''metadata'' \<longrightarrow> l \<notin> set server_fields | _ \<Rightarrow> False)"

lemma walk_authorized:
  assumes "outside ks"
  shows "walk (authorized_projection v) ks = walk v ks"
proof -
  obtain k l ls where ks: "ks = k # l # ls" and l: "k = ''metadata'' \<longrightarrow> l \<notin> set server_fields"
    using assms by (auto simp: outside_def split: list.splits)
  have "child (update_object (remove_keys server_fields) w) l = child w l" if "k = ''metadata''" for w
    using l that by (cases w) (auto simp: update_object_def map_of_remove_keys)
  then show ?thesis using authorized_child [of v k] unfolding ks
    by (cases v) (auto simp: update_object_def authorized_projection_def split: option.splits if_splits)
qed

lemma set_at_outside:
  assumes "outside ks"
  shows "authorized_projection (set_at ks new v) = set_at ks new (authorized_projection v)"
proof -
  obtain k l ls where ks: "ks = k # l # ls" and l: "k = ''metadata'' \<longrightarrow> l \<notin> set server_fields"
    using assms by (auto simp: outside_def split: list.splits)
  let ?f = "update_object (remove_keys server_fields)"
  have f: "?f (set_at (l # ls) new w) = set_at (l # ls) new (?f w)" if "k = ''metadata''" for w
    using l that by (cases w) (auto simp: update_object_def remove_keys_map_entry)
  show ?thesis
  proof (cases v)
    case (JObject m)
    show ?thesis
    proof (cases "k = ''metadata''")
      case True
      then have "?f \<circ> set_at (l # ls) new = set_at (l # ls) new \<circ> ?f" using f by (simp only: comp_def)
      then show ?thesis using JObject True unfolding ks
        by (simp add: authorized_projection_def update_object_def map_entry_same flip: server_fields_def)
    next
      case False
      then show ?thesis using JObject unfolding ks
        by (simp add: authorized_projection_def update_object_def map_entry_commute)
    qed
  qed (simp_all add: ks authorized_projection_def update_object_def)
qed

lemma remove_keys_sorted: "sorted_wrt (<) (map fst m) \<Longrightarrow> sorted_wrt (<) (map fst (remove_keys ks m))"
  by (induction m) (auto simp: remove_keys_def)

lemma wf_remove_keys: "json_wf (JObject m) \<Longrightarrow> json_wf (JObject (remove_keys ks m))"
  using remove_keys_sorted [of m ks] by (auto simp: list_all_iff remove_keys_def)

lemma wf_update_entry:
  assumes "json_wf (JObject m)" "\<And>v. json_wf v \<Longrightarrow> json_wf (f v)"
  shows "json_wf (JObject (AList.map_entry k f m))"
  using assms wf_map_entry [of m f k] by (simp add: map_entry_keys)

lemma wf_update_object: "json_wf v \<Longrightarrow> (\<And>m. json_wf (JObject m) \<Longrightarrow> json_wf (JObject (f m))) \<Longrightarrow> json_wf (update_object f v)"
  by (cases v) (auto simp: update_object_def simp del: json_wf.simps(2))

lemma json_wf_authorized: "json_wf v \<Longrightarrow> json_wf (authorized_projection v)"
  unfolding authorized_projection_def by (intro wf_update_object wf_update_entry wf_remove_keys)

lemma json_wf_eventual: "json_wf v \<Longrightarrow> json_wf (eventual_projection v)"
  unfolding eventual_projection_def by (intro wf_update_object wf_update_entry wf_remove_keys)

section \<open>The authorized effect\<close>

definition effect_texts ::
    "externals \<Rightarrow> document_externals \<Rightarrow> DeploymentTemplate \<Rightarrow> uuid \<Rightarrow> uuid \<Rightarrow> digest32
     \<Rightarrow> (string list \<times> string) list" where
  "effect_texts X J t transaction_id authorization_id op_hash =
     [(image_keys t, image_reference J (dt_image_repository t) (dt_image_digest t)),
      (annotation_keys TRANSACTION_ANNOTATION, x_uuid_string X transaction_id),
      (annotation_keys AUTHORIZATION_ANNOTATION, x_uuid_string X authorization_id),
      (annotation_keys OPERATION_ANNOTATION, digest_text J op_hash)]"

lemmas annotation_names = TRANSACTION_ANNOTATION_def AUTHORIZATION_ANNOTATION_def OPERATION_ANNOTATION_def

lemma effect_distinct: "distinct (map fst (effect_texts X J t tx au oh))"
  by (simp add: effect_texts_def image_keys_def annotation_keys_def annotation_names)

lemma effect_outside: "(p, s) \<in> set (effect_texts X J t tx au oh) \<Longrightarrow> outside p"
  by (auto simp: effect_texts_def outside_def image_keys_def annotation_keys_def server_fields_def annotation_names)

lemma effect_prior:
  assumes "rfc6901 J" "validate_preconditions J v t = Ok ()" "(p, s) \<in> set (effect_texts X J t tx au oh)"
  shows "\<exists>r. walk v p = Some (JString r)"
proof -
  have pre: "validate_executable_template t = Ok ()"
    "walk v (image_keys t) = Some (JString (image_reference J (dt_image_repository t) (dt_prior_image_digest t)))"
    "map_option JString (dt_prior_transaction_annotation t) = walk v (annotation_keys TRANSACTION_ANNOTATION)"
    "map_option JString (dt_prior_authorization_annotation t) = walk v (annotation_keys AUTHORIZATION_ANNOTATION)"
    "map_option JString (dt_prior_operation_hash_annotation t) = walk v (annotation_keys OPERATION_ANNOTATION)"
    using validate_preconditions_Ok [OF assms(1)] assms(2) by blast+
  obtain a b c where "dt_prior_transaction_annotation t = Some a" "dt_prior_authorization_annotation t = Some b"
    "dt_prior_operation_hash_annotation t = Some c" using pre(1) by (rule executable_prior)
  then show ?thesis using pre(2-5) assms(3) by (auto simp: effect_texts_def eq_commute [of "Some (JString _)"])
qed

lemma node_text: "node v p = Some (Scalar (JString s)) \<longleftrightarrow> walk v p = Some (JString s)"
proof
  assume "node v p = Some (Scalar (JString s))"
  then obtain w where "walk v p = Some w" "shape_of w = Scalar (JString s)" by (auto simp: node_def)
  then show "walk v p = Some (JString s)" by (cases w) auto
qed (simp add: node_def)

lemma walk_write_texts:
  assumes "distinct (map fst ps)" "\<And>p t. (p, t) \<in> set ps \<Longrightarrow> \<exists>s. walk v p = Some (JString s)"
  shows "(p, t) \<in> set ps \<Longrightarrow> walk (write_texts ps v) p = Some (JString t)"
    "q \<notin> fst ` set ps \<Longrightarrow> walk (write_texts ps v) q = Some (JString r) \<longleftrightarrow> walk v q = Some (JString r)"
proof -
  have n: "node (write_texts ps v) ks = (case map_of ps ks of Some t \<Rightarrow> Some (Scalar (JString t)) | None \<Rightarrow> node v ks)" for ks
    by (rule node_write_texts [OF assms(1)]) (use assms(2) in blast)
  show "walk (write_texts ps v) p = Some (JString t)" if "(p, t) \<in> set ps"
    using n [of p] that assms(1) by (simp flip: node_text)
  show "walk (write_texts ps v) q = Some (JString r) \<longleftrightarrow> walk v q = Some (JString r)" if "q \<notin> fst ` set ps"
    using n [of q] that map_of_eq_None_iff [of ps q] by (simp flip: node_text)
qed

lemma authorized_write_texts:
  "list_all (outside \<circ> fst) ps
    \<Longrightarrow> authorized_projection (write_texts ps v) = write_texts ps (authorized_projection v)"
proof (induction ps arbitrary: v)
  case (Cons pt ps)
  then have "authorized_projection (write_texts ps (set_at (fst pt) (JString (snd pt)) v))
      = write_texts ps (set_at (fst pt) (JString (snd pt)) (authorized_projection v))"
    using set_at_outside [of "fst pt" "JString (snd pt)" v] by simp
  then show ?case by (simp add: write_texts_def split_beta)
qed (simp add: write_texts_def)

section \<open>The effect check\<close>

lemma find_None_subset: "find (\<lambda>x. x \<notin> A) xs = None \<longleftrightarrow> set xs \<subseteq> A"
  by (auto simp: find_None_iff)

lemma allowed_paths:
  "set (changed_paths a b) \<subseteq> set [container_base t @ ''/image'', annotation_path TRANSACTION_ANNOTATION,
      annotation_path AUTHORIZATION_ANNOTATION, annotation_path OPERATION_ANNOTATION]
    \<longleftrightarrow> set (differences a b) \<subseteq> fst ` set (effect_texts X J t tx au oh)"
proof -
  note set_changed_paths [of a b]
  moreover have "set [container_base t @ ''/image'', annotation_path TRANSACTION_ANNOTATION,
      annotation_path AUTHORIZATION_ANNOTATION, annotation_path OPERATION_ANNOTATION]
    = pointer_text ` fst ` set (effect_texts X J t tx au oh)"
    by (simp add: pointer_paths effect_texts_def)
  moreover have "inj pointer_text" by (simp add: inj_on_def)
  ultimately show ?thesis by (simp only: inj_image_subset_iff)
qed

lemma case_find_Ok: "(case x of Some p \<Rightarrow> Err (f p) | None \<Rightarrow> Ok ()) = Ok u \<longleftrightarrow> x = None"
  by (cases x) auto

lemma effect_check_Ok:
  assumes "rfc6901 J"
  shows "validate_effect_projection X J old observed t tx au oh = Ok () \<longleftrightarrow>
    validate_preconditions J old t = Ok ()
    \<and> walk observed [''metadata'', ''uid''] = Some (JString (dt_deployment_uid t))
    \<and> set (differences (authorized_projection old) (authorized_projection observed))
        \<subseteq> fst ` set (effect_texts X J t tx au oh)
    \<and> (\<forall>(p, s) \<in> set (effect_texts X J t tx au oh). walk observed p = Some (JString s))"
  unfolding validate_effect_projection_def Let_def and_then_Ok case_find_Ok find_None_subset
    allowed_paths [of _ _ t X J tx au oh]
  unfolding pointer_paths(5,8) reading [OF assms] by (auto simp: effect_texts_def)

text \<open>A document passes exactly when, the fields of the API server aside, it is the old document with the
  four texts of the effect written into it.\<close>

lemma effect_check_exact:
  assumes J: "rfc6901 J" and wf: "json_wf old" "json_wf observed"
  shows "validate_effect_projection X J old observed t tx au oh = Ok () \<longleftrightarrow>
    validate_preconditions J old t = Ok ()
    \<and> authorized_projection observed = write_texts (effect_texts X J t tx au oh) (authorized_projection old)"
proof (cases "validate_preconditions J old t = Ok ()")
  case True
  let ?E = "effect_texts X J t tx au oh" and ?old = "authorized_projection old" and ?new = "authorized_projection observed"
  have prior: "\<exists>r. walk ?old p = Some (JString r)" if "(p, s) \<in> set ?E" for p s
    using effect_prior [OF J True that] walk_authorized [OF effect_outside [OF that]] by simp
  have texts: "walk observed p = walk ?new p" if "(p, s) \<in> set ?E" for p s
    using walk_authorized [OF effect_outside [OF that]] by simp
  have uid: "outside [''metadata'', ''uid'']" "[''metadata'', ''uid''] \<notin> fst ` set ?E"
    by (simp_all add: outside_def server_fields_def effect_texts_def image_keys_def annotation_keys_def)
  have old_uid: "walk ?old [''metadata'', ''uid''] = Some (JString (dt_deployment_uid t))"
    using validate_preconditions_Ok [OF J] True walk_authorized [OF uid(1)] by simp
  have written: "(p, s) \<in> set ?E \<Longrightarrow> walk (write_texts ?E ?old) p = Some (JString s)"
    "q \<notin> fst ` set ?E \<Longrightarrow> walk (write_texts ?E ?old) q = Some (JString r) \<longleftrightarrow> walk ?old q = Some (JString r)" for p s q r
    using walk_write_texts [OF effect_distinct [of X J t tx au oh], of ?old] prior by blast+
  have within: "set (differences ?old ?new) \<subseteq> fst ` set ?E \<longleftrightarrow> ?new = write_texts ?E ?old"
    if "\<And>p s. (p, s) \<in> set ?E \<Longrightarrow> walk ?new p = Some (JString s)"
    by (rule differences_within [OF json_wf_authorized [OF wf(1)] json_wf_authorized [OF wf(2)] effect_distinct])
      (use prior that in blast)+
  have "(set (differences ?old ?new) \<subseteq> fst ` set ?E \<and> (\<forall>(p, s) \<in> set ?E. walk observed p = Some (JString s))
      \<and> walk observed [''metadata'', ''uid''] = Some (JString (dt_deployment_uid t))) \<longleftrightarrow> ?new = write_texts ?E ?old"
  proof (intro iffI conjI)
    assume a: "set (differences ?old ?new) \<subseteq> fst ` set ?E \<and> (\<forall>(p, s) \<in> set ?E. walk observed p = Some (JString s))
      \<and> walk observed [''metadata'', ''uid''] = Some (JString (dt_deployment_uid t))"
    then show "?new = write_texts ?E ?old" using within texts by fastforce
  next
    assume new: "?new = write_texts ?E ?old"
    show all: "\<forall>(p, s) \<in> set ?E. walk observed p = Some (JString s)" using written(1) texts new by auto
    show "set (differences ?old ?new) \<subseteq> fst ` set ?E" using within texts all new by fastforce
    show "walk observed [''metadata'', ''uid''] = Some (JString (dt_deployment_uid t))"
      using written(2) [OF uid(2), of "dt_deployment_uid t"] old_uid new walk_authorized [OF uid(1), of observed] by simp
  qed
  then show ?thesis using effect_check_Ok [OF J] True by blast
qed (use effect_check_Ok [OF J] in blast)

section \<open>Applying a JSON Patch\<close>

text \<open>RFC 6902, the two operations the code emits: a test compares, a replacement needs a target, and the
  first failure aborts the patch.\<close>

definition apply_op :: "Value \<Rightarrow> Value \<Rightarrow> Value option" where
  "apply_op entry v = (case (child entry ''op'', child entry ''path'', child entry ''value'') of
     (Some (JString op), Some (JString path), Some w) \<Rightarrow>
       (case pointer_steps path of
          None \<Rightarrow> None
        | Some ks \<Rightarrow>
            if op = ''test'' then (if walk v ks = Some w then Some v else None)
            else if op = ''replace'' then (if walk v ks = None then None else Some (set_at ks w v))
            else None)
   | _ \<Rightarrow> None)"

primrec apply_ops :: "Value list \<Rightarrow> Value \<Rightarrow> Value option" where
  "apply_ops [] v = Some v"
| "apply_ops (entry # entries) v = Option.bind (apply_op entry v) (apply_ops entries)"

definition apply_patch :: "Value \<Rightarrow> Value \<Rightarrow> Value option" where
  "apply_patch patch v = (case patch of JArray entries \<Rightarrow> apply_ops entries v | _ \<Rightarrow> None)"

lemma apply_test:
  "apply_op (patch_op ''test'' (pointer_text ks) s) v = (if walk v ks = Some (JString s) then Some v else None)"
  by (simp add: apply_op_def patch_op_def)

lemma apply_replace:
  "apply_op (patch_op ''replace'' (pointer_text ks) s) v =
    (if walk v ks = None then None else Some (set_at ks (JString s) v))"
  by (simp add: apply_op_def patch_op_def)

lemma apply_tests:
  "apply_ops (map (\<lambda>(ks, s). patch_op ''test'' (pointer_text ks) s) ts @ entries) v =
    (if list_all (\<lambda>(ks, s). walk v ks = Some (JString s)) ts then apply_ops entries v else None)"
  by (induction ts) (auto simp: apply_test)

lemma apply_replacements:
  assumes "distinct (map fst ps)" "list_all (\<lambda>(p, t). \<exists>s. walk v p = Some (JString s)) ps"
  shows "apply_ops (map (\<lambda>(ks, s). patch_op ''replace'' (pointer_text ks) s) ps) v = Some (write_texts ps v)"
  using assms
proof (induction ps arbitrary: v)
  case (Cons pt ps)
  obtain p t where pt: "pt = (p, t)" by (cases pt)
  then obtain s where s: "walk v p = Some (JString s)" using Cons.prems(2) by auto
  have "list_all (\<lambda>(q, t). \<exists>s. walk (set_at p (JString t') v) q = Some (JString s)) ps" for t'
    using Cons.prems pt walk_set_at_other [OF s] by (force simp: list_all_iff)
  then show ?case using Cons.IH Cons.prems(1) pt s by (simp add: apply_replace write_texts_def)
qed (simp add: write_texts_def)

text \<open>What a patch tests before it writes.\<close>

definition tested_texts :: "document_externals \<Rightarrow> DeploymentTemplate \<Rightarrow> (string list \<times> string) list" where
  "tested_texts J t =
     [([''metadata'', ''uid''], dt_deployment_uid t),
      ([''metadata'', ''resourceVersion''], dt_resource_version t),
      (butlast (image_keys t) @ [''name''], dt_container t),
      (image_keys t, image_reference J (dt_image_repository t) (dt_prior_image_digest t)),
      (annotation_keys TRANSACTION_ANNOTATION, the (dt_prior_transaction_annotation t)),
      (annotation_keys AUTHORIZATION_ANNOTATION, the (dt_prior_authorization_annotation t)),
      (annotation_keys OPERATION_ANNOTATION, the (dt_prior_operation_hash_annotation t))]"

lemma prepare_patch_Ok:
  assumes "prepare_patch X J t tx au = Ok p"
  shows "validate_executable_template t = Ok ()" "operation_hash X t tx au = Ok (pp_operation_hash p)"
    "pp_patch p = JArray (map (\<lambda>(ks, s). patch_op ''test'' (pointer_text ks) s) (tested_texts J t)
       @ map (\<lambda>(ks, s). patch_op ''replace'' (pointer_text ks) s)
           (effect_texts X J t tx au (pp_operation_hash p)))"
  using assms unfolding prepare_patch_def Let_def
  by (auto simp: and_then_Ok required_prior_annotation_def ok_or_Ok tested_texts_def effect_texts_def
      annotation_test_def annotation_write_def pointer_paths)

text \<open>The server applies a prepared patch exactly to the documents that show what it tests, and then it
  writes the effect and nothing else.\<close>

lemma patch_effect:
  assumes "prepare_patch X J t tx au = Ok p"
  shows "apply_patch (pp_patch p) v =
    (if list_all (\<lambda>(ks, s). walk v ks = Some (JString s)) (tested_texts J t)
     then Some (write_texts (effect_texts X J t tx au (pp_operation_hash p)) v) else None)"
proof -
  have "list_all (\<lambda>(q, s). \<exists>r. walk v q = Some (JString r)) (effect_texts X J t tx au (pp_operation_hash p))"
    if "list_all (\<lambda>(ks, s). walk v ks = Some (JString s)) (tested_texts J t)"
    using that by (simp add: tested_texts_def effect_texts_def)
  then show ?thesis
    using apply_replacements [OF effect_distinct, of v X J t tx au "pp_operation_hash p"]
    by (simp add: apply_patch_def prepare_patch_Ok(3) [OF assms] apply_tests)
qed

lemma preconditions_tested:
  assumes "rfc6901 J" "validate_preconditions J v t = Ok ()"
  shows "list_all (\<lambda>(ks, s). walk v ks = Some (JString s)) (tested_texts J t)"
proof -
  have pre: "validate_executable_template t = Ok ()" using validate_preconditions_Ok [OF assms(1)] assms(2) by blast
  obtain a b c where "dt_prior_transaction_annotation t = Some a" "dt_prior_authorization_annotation t = Some b"
    "dt_prior_operation_hash_annotation t = Some c" using pre by (rule executable_prior)
  then show ?thesis using validate_preconditions_Ok [OF assms(1)] assms(2)
    by (auto simp: tested_texts_def eq_commute [of "Some (JString _)"])
qed

section \<open>The controller's projection\<close>

lemma authorized_other: "k \<noteq> ''metadata'' \<Longrightarrow> child (authorized_projection v) k = child v k"
  using authorized_child [of v k] by (cases v) auto

text \<open>Outside the metadata, the effect is the image.\<close>

lemma effect_other:
  assumes "k \<noteq> ''metadata''"
  shows "child (write_texts (effect_texts X J t tx au oh) (authorized_projection v)) k = child (set_at (image_keys t)
      (JString (image_reference J (dt_image_repository t) (dt_image_digest t))) v) k"
  using assms authorized_other [of "''spec''" v] authorized_other [OF assms, of v]
  by (simp add: write_texts_def effect_texts_def annotation_keys_def image_keys_def)

lemma eventual_child:
  assumes "k \<noteq> ''metadata''" "k \<noteq> ''status''"
  shows "child (eventual_projection v) k = child v k"
  using assms by (cases v) (auto simp: eventual_projection_def update_object_def map_of_map_entry map_of_remove_keys)

lemma differences_empty:
  assumes "json_wf a" "json_wf b"
  shows "differences a b = [] \<longleftrightarrow> a = b"
  using differences_within [OF assms, of "[]"] by (auto simp: write_texts_def)

lemma changed_paths_empty:
  assumes "json_wf a" "json_wf b"
  shows "changed_paths a b = [] \<longleftrightarrow> a = b"
proof -
  have "changed_paths a b = [] \<longleftrightarrow> differences a b = []"
    using set_changed_paths [of a b] by (simp flip: set_empty)
  then show ?thesis using differences_empty [OF assms] by simp
qed

lemma j_pointer_walk: "rfc6901 J \<Longrightarrow> j_pointer J v (pointer_text ks) = walk v ks"
  by (simp add: rfc6901_def)

lemma case_first_Ok: "(case xs of path # _ \<Rightarrow> Err (f path) | [] \<Rightarrow> Ok ()) = Ok u \<longleftrightarrow> xs = []"
  by (cases xs) auto

lemma eventual_check_exact:
  assumes J: "rfc6901 J" and wf: "json_wf persisted" "json_wf eventual"
  shows "validate_eventual_controller_projection X J persisted eventual t tx au oh = Ok () \<longleftrightarrow>
    walk eventual [''apiVersion''] = Some (JString ''apps/v1'') \<and> walk eventual [''kind''] = Some (JString ''Deployment'')
    \<and> walk eventual [''metadata'', ''name''] = Some (JString (dt_deployment t))
    \<and> walk eventual [''metadata'', ''namespace''] = Some (JString (dt_namespace t))
    \<and> walk eventual [''metadata'', ''uid''] = Some (JString (dt_deployment_uid t))
    \<and> Option.bind (walk eventual [''metadata'', ''generation'']) as_u64 \<noteq> None
    \<and> Option.bind (walk eventual [''metadata'', ''generation'']) as_u64
        = Option.bind (walk persisted [''metadata'', ''generation'']) as_u64
    \<and> Option.bind (walk eventual [''metadata'', ''resourceVersion'']) as_str \<notin> {None, Some []}
    \<and> eventual_projection persisted = eventual_projection eventual
    \<and> (\<forall>(p, s) \<in> set (effect_texts X J t tx au oh). walk eventual p = Some (JString s))"
  unfolding validate_eventual_controller_projection_def Let_def and_then_Ok case_first_Ok
    changed_paths_empty [OF json_wf_eventual [OF wf(1)] json_wf_eventual [OF wf(2)]]
    required_u64_def required_string_def ok_or_Ok ensure_Ok pointer_paths j_pointer_walk [OF J] reading [OF J]
  by (auto simp: effect_texts_def simp del: walk.simps)

lemma generation_advances:
  assumes "rfc6901 J" "validate_server_transition J old new = Ok ()"
  obtains g where "Option.bind (walk old [''metadata'', ''generation'']) as_u64 = Some g" "unat g < 2 ^ 64 - 1"
    "Option.bind (walk new [''metadata'', ''generation'']) as_u64 = Some (g + 1)"
proof -
  from assms(2) obtain g h where "Option.bind (walk old [''metadata'', ''generation'']) as_u64 = Some g"
    "Option.bind (walk new [''metadata'', ''generation'']) as_u64 = Some h" "u64_checked_add g 1 = Some h"
    unfolding validate_server_transition_def required_u64_def pointer_paths j_pointer_walk [OF assms(1)]
    by (auto simp: and_then_Ok ok_or_Ok ensure_Ok simp del: walk.simps)
  then show thesis using that [of g] by (auto simp: u64_checked_add_def split: if_splits)
qed

lemma eventual_delta:
  assumes "rfc6901 J" "json_wf old" "json_wf persisted" "json_wf eventual"
    and "validate_authorized_delta X J old persisted t tx au oh = Ok ()"
    and "validate_eventual_controller_projection X J persisted eventual t tx au oh = Ok ()"
    and "k \<noteq> ''metadata''" "k \<noteq> ''status''"
  shows "child eventual k = child (set_at (image_keys t)
      (JString (image_reference J (dt_image_repository t) (dt_image_digest t))) old) k
    \<and> (\<exists>g. Option.bind (walk old [''metadata'', ''generation'']) as_u64 = Some g \<and> unat g < 2 ^ 64 - 1
        \<and> Option.bind (walk eventual [''metadata'', ''generation'']) as_u64 = Some (g + 1))"
proof
  let ?E = "effect_texts X J t tx au oh"
  have delta: "validate_effect_projection X J old persisted t tx au oh = Ok ()" "validate_server_transition J old persisted = Ok ()"
    using assms(5) by (auto simp: validate_authorized_delta_def and_then_Ok)
  have "authorized_projection persisted = write_texts ?E (authorized_projection old)"
    using effect_check_exact [OF assms(1-3)] delta(1) by blast
  then have "child persisted k = child (write_texts ?E (authorized_projection old)) k"
    using authorized_other [OF assms(7), of persisted] by simp
  moreover have "child eventual k = child persisted k"
    using eventual_check_exact [OF assms(1,3,4)] assms(6) eventual_child [OF assms(7,8)] by metis
  ultimately show "child eventual k = child (set_at (image_keys t)
      (JString (image_reference J (dt_image_repository t) (dt_image_digest t))) old) k"
    using effect_other [OF assms(7)] authorized_other [OF assms(7), of old] by simp
  show "\<exists>g. Option.bind (walk old [''metadata'', ''generation'']) as_u64 = Some g \<and> unat g < 2 ^ 64 - 1
        \<and> Option.bind (walk eventual [''metadata'', ''generation'']) as_u64 = Some (g + 1)"
  proof -
    obtain g where "Option.bind (walk old [''metadata'', ''generation'']) as_u64 = Some g" "unat g < 2 ^ 64 - 1"
      "Option.bind (walk persisted [''metadata'', ''generation'']) as_u64 = Some (g + 1)"
      by (rule generation_advances [OF assms(1) delta(2)])
    moreover have "Option.bind (walk eventual [''metadata'', ''generation'']) as_u64
        = Option.bind (walk persisted [''metadata'', ''generation'']) as_u64"
      using eventual_check_exact [OF assms(1,3,4)] assms(6) by blast
    ultimately show ?thesis by metis
  qed
qed

end
