(* ===== verification/Kubernetes_Ownership.thy ===== *)
theory Kubernetes_Ownership
  imports Kubernetes_Rollout Kubernetes_Delta
begin

text \<open>
  What an accepted rollout means: the chain of controllers from the Deployment over one ReplicaSet to the
  Pods, and that the Pods run the specification of the Deployment.
\<close>

section \<open>Specification\<close>

definition controlled_by :: "Value \<Rightarrow> string \<Rightarrow> string \<Rightarrow> string \<Rightarrow> bool" where
  "controlled_by v kind name uid \<longleftrightarrow> (case walk v [''metadata'', ''ownerReferences''] of
     Some (JArray [owner]) \<Rightarrow> get_str owner ''kind'' = Some kind \<and> get_str owner ''name'' = Some name
       \<and> get_str owner ''uid'' = Some uid \<and> get_field owner ''controller'' = Some (JBool True)
   | _ \<Rightarrow> False)"

definition replicas_of :: "Value \<Rightarrow> u64 option" where
  "replicas_of v = Option.bind (walk v [''spec'', ''replicas'']) as_u64"

definition items_of :: "Value \<Rightarrow> Value list" where
  "items_of v = (case walk v [''items''] of Some (JArray vs) \<Rightarrow> vs | _ \<Rightarrow> [])"

definition uid_of :: "Value \<Rightarrow> string option" where
  "uid_of v = Option.bind (walk v [''metadata'', ''uid'']) as_str"

definition name_of :: "Value \<Rightarrow> string option" where
  "name_of v = Option.bind (walk v [''metadata'', ''name'']) as_str"

text \<open>The Pod template of a Deployment or ReplicaSet, the label of the controller aside.\<close>

definition template_of :: "Value \<Rightarrow> Value option" where
  "template_of v = (case walk v [''spec'', ''template''] of
     Some (JObject m) \<Rightarrow> (case normalized_controller_template m of Ok p \<Rightarrow> Some p | Err _ \<Rightarrow> None) | _ \<Rightarrow> None)"

text \<open>A Pod runs a specification: equal up to the node it was scheduled on and the two standard
  tolerations.\<close>

definition runs_spec :: "Value \<Rightarrow> json_map \<Rightarrow> bool" where
  "runs_spec pod spec \<longleftrightarrow> (case walk pod [''spec''] of
     Some (JObject m) \<Rightarrow> is_Ok (pod_spec_projection spec False False)
       \<and> pod_spec_projection m True (map_of spec ''nodeName'' = None) = pod_spec_projection spec False False
   | _ \<Rightarrow> False)"

section \<open>Reading\<close>

lemma rollout_paths:
  "''/items'' = pointer_text [''items'']" "''/spec'' = pointer_text [''spec'']"
  "''/spec/replicas'' = pointer_text [''spec'', ''replicas'']"
  "''/spec/template'' = pointer_text [''spec'', ''template'']"
  "''/metadata/ownerReferences'' = pointer_text [''metadata'', ''ownerReferences'']"
  by (simp_all add: pointer_text_def)

lemma as_object_Some: "as_object v = Some m \<longleftrightarrow> v = JObject m"
  by (cases v) auto

lemma as_array_Some: "as_array v = Some vs \<longleftrightarrow> v = JArray vs"
  by (cases v) auto

lemma as_bool_Some: "as_bool v = Some b \<longleftrightarrow> v = JBool b"
  by (cases v) auto

lemma object_at_Ok: "rfc6901 J \<Longrightarrow> object_at J v (pointer_text ks) e = Ok m \<longleftrightarrow> walk v ks = Some (JObject m)"
  by (auto simp: object_at_def ok_or_Ok j_pointer_walk Option.bind_eq_Some_conv as_object_Some)

lemma array_at_Ok: "rfc6901 J \<Longrightarrow> array_at J v (pointer_text ks) e = Ok vs \<longleftrightarrow> walk v ks = Some (JArray vs)"
  by (auto simp: array_at_def ok_or_Ok j_pointer_walk Option.bind_eq_Some_conv as_array_Some)

lemma required_u64_Ok:
  "rfc6901 J \<Longrightarrow> required_u64 J v (pointer_text ks) = Ok n \<longleftrightarrow> Option.bind (walk v ks) as_u64 = Some n"
  by (simp add: required_u64_def ok_or_Ok j_pointer_walk)

lemma required_name_Ok:
  "rfc6901 J \<Longrightarrow> required_non_empty_string J v ''/metadata/name'' = Ok s \<Longrightarrow> name_of v = Some s"
  "rfc6901 J \<Longrightarrow> required_non_empty_string J v ''/metadata/uid'' = Ok s \<Longrightarrow> uid_of v = Some s"
  unfolding required_non_empty_string_def required_string_def pointer_paths name_of_def uid_of_def
  by (auto simp: and_then_Ok ok_or_Ok j_pointer_walk simp del: walk.simps)

section \<open>The steps\<close>

lemma owner_Ok:
  assumes "rfc6901 J" "validate_strict_controller_owner J v path kind name uid = Ok ()"
  shows "controlled_by v kind name uid"
proof -
  obtain owners where "walk v [''metadata'', ''ownerReferences''] = Some (JArray owners)" "length owners = 1"
    "get_str (owners ! 0) ''kind'' = Some kind" "get_str (owners ! 0) ''name'' = Some name"
    "get_str (owners ! 0) ''uid'' = Some uid"
    "Option.bind (get_field (owners ! 0) ''controller'') as_bool = Some True"
    using assms(2) unfolding validate_strict_controller_owner_def Let_def rollout_paths array_at_Ok [OF assms(1)]
    by (auto simp: and_then_Ok array_at_Ok [OF assms(1)] ensure_Ok simp del: walk.simps)
  then show ?thesis
    by (cases owners) (auto simp: controlled_by_def Option.bind_eq_Some_conv as_bool_Some simp del: walk.simps)
qed

lemma status_replicas:
  assumes "rfc6901 J" "validate_replica_set_rollout_status J v n i = Ok ()"
  shows "replicas_of v = Some n"
  using assms(2) unfolding validate_replica_set_rollout_status_def rollout_paths replicas_of_def
  by (auto simp: and_then_Ok required_u64_Ok [OF assms(1)] ensure_Ok simp del: walk.simps)

lemma normalized_spec:
  "normalized_controller_template m = Ok p \<Longrightarrow> child p ''spec'' = map_of m ''spec''"
  by (auto simp: normalized_controller_template_def and_then_Ok map_of_map_entry)

lemma template_spec_of_Ok: "template_spec_of m e = Ok spec \<longleftrightarrow> map_of m ''spec'' = Some (JObject spec)"
  by (auto simp: template_spec_of_def ok_or_Ok Option.bind_eq_Some_conv as_object_Some)

text \<open>The facts that one ReplicaSet adds to a scan.\<close>

definition scanned :: "DeploymentFacts \<Rightarrow> Value \<Rightarrow> ReplicaSetScan \<Rightarrow> ReplicaSetScan \<Rightarrow> bool" where
  "scanned d v scan scan' \<longleftrightarrow> (\<exists>name uid. name_of v = Some name \<and> uid_of v = Some uid
     \<and> uid \<notin> set (sc_uids scan) \<and> sc_uids scan' = uid # sc_uids scan
     \<and> controlled_by v ''Deployment'' (df_name d) (df_uid d)
     \<and> (if template_of v = Some (df_projection d)
        then replicas_of v = Some (df_replicas d) \<and> sc_current scan = None
          \<and> (\<exists>r. sc_current scan' = Some r \<and> srs_name r = name \<and> srs_uid r = uid
               \<and> child (df_projection d) ''spec'' = Some (JObject (srs_template_spec r)))
        else replicas_of v = Some 0 \<and> sc_current scan' = sc_current scan))"

lemma scan_replica_set_Ok:
  assumes "rfc6901 J" "scan_replica_set J d i v scan = Ok scan'"
  shows "scanned d v scan scan'"
proof -
  obtain name uid template spec projection where
    n: "required_non_empty_string J v ''/metadata/name'' = Ok name" "required_non_empty_string J v ''/metadata/uid'' = Ok uid"
    and u: "uid \<notin> set (sc_uids scan)" "sc_uids scan' = uid # sc_uids scan"
    and o: "validate_strict_controller_owner J v (item_path i []) ''Deployment'' (df_name d) (df_uid d) = Ok ()"
    and t: "object_at J v ''/spec/template'' (item_path i ''/spec/template'') = Ok template"
      "template_spec_of template (item_path i ''/spec/template/spec'') = Ok spec"
      "normalized_controller_template template = Ok projection"
    and c: "if projection = df_projection d
      then validate_replica_set_rollout_status J v (df_replicas d) i = Ok () \<and> sc_current scan = None
        \<and> (\<exists>r. sc_current scan' = Some r \<and> srs_name r = name \<and> srs_uid r = uid \<and> srs_template_spec r = spec)
      else validate_replica_set_rollout_status J v 0 i = Ok () \<and> sc_current scan' = sc_current scan"
    using assms(2) unfolding scan_replica_set_def Let_def
    by (auto simp: and_then_Ok ensure_Ok split: if_splits dest: arg_cong [of _ _ sc_current])
  have w: "walk v [''spec'', ''template''] = Some (JObject template)"
    using t(1) unfolding rollout_paths object_at_Ok [OF assms(1)] .
  then have "template_of v = Some projection" using t(3) by (simp add: template_of_def del: walk.simps)
  moreover have "child projection ''spec'' = Some (JObject spec)"
    using normalized_spec [OF t(3)] t(2) by (simp add: template_spec_of_Ok)
  ultimately show ?thesis
    using required_name_Ok [OF assms(1)] n u owner_Ok [OF assms(1) o] c status_replicas [OF assms(1)]
    by (auto simp: scanned_def split: if_splits)
qed

section \<open>The loops\<close>

definition current_of :: "DeploymentFacts \<Rightarrow> Value list \<Rightarrow> Value list" where
  "current_of d vs = filter (\<lambda>v. template_of v = Some (df_projection d)) vs"

lemma scan_replica_sets_Ok:
  assumes "rfc6901 J" "scan_replica_sets J d i vs scan = Ok scan'"
  shows "(\<forall>v \<in> set vs. controlled_by v ''Deployment'' (df_name d) (df_uid d) \<and> uid_of v \<notin> Some ` set (sc_uids scan)
      \<and> replicas_of v = Some (if template_of v = Some (df_projection d) then df_replicas d else 0))
    \<and> distinct (map uid_of vs)
    \<and> (case sc_current scan of
        Some r \<Rightarrow> current_of d vs = [] \<and> sc_current scan' = Some r
      | None \<Rightarrow> (case sc_current scan' of
          None \<Rightarrow> current_of d vs = []
        | Some r \<Rightarrow> \<exists>v. current_of d vs = [v] \<and> name_of v = Some (srs_name r) \<and> uid_of v = Some (srs_uid r)
            \<and> child (df_projection d) ''spec'' = Some (JObject (srs_template_spec r))))"
  using assms(2)
proof (induction vs arbitrary: i scan)
  case (Cons v vs)
  then obtain mid where mid: "scan_replica_set J d i v scan = Ok mid" "scan_replica_sets J d (Suc i) vs mid = Ok scan'"
    by (auto simp: and_then_Ok)
  have step: "scanned d v scan mid" by (rule scan_replica_set_Ok [OF assms(1) mid(1)])
  show ?case
  proof (cases "template_of v = Some (df_projection d)")
    case True
    then show ?thesis using step Cons.IH [OF mid(2)] by (auto simp: scanned_def current_of_def)
  next
    case False
    then show ?thesis using step Cons.IH [OF mid(2)]
      by (auto simp: scanned_def current_of_def split: option.splits)
  qed
qed (auto simp: current_of_def split: option.splits)

lemma compare_pod_spec_Ok:
  assumes "rfc6901 J" "compare_pod_spec J pod i spec = Ok ()"
  shows "runs_spec pod spec"
  using assms(2) unfolding compare_pod_spec_def rollout_paths(2) object_at_Ok [OF assms(1)]
  by (auto simp: and_then_Ok object_at_Ok [OF assms(1)] runs_spec_def simp del: walk.simps split: if_splits)

lemma check_pods_Ok:
  assumes "rfc6901 J" "check_pods J d r i pods names uids = Ok ()"
  shows "(\<forall>pod \<in> set pods. controlled_by pod ''ReplicaSet'' (srs_name r) (srs_uid r)
      \<and> runs_spec pod (srs_template_spec r) \<and> uid_of pod \<notin> Some ` set uids)
    \<and> distinct (map uid_of pods)"
  using assms(2)
proof (induction pods arbitrary: i names uids)
  case (Cons pod pods)
  then obtain name uid where c: "check_pod J d r i pod names uids = Ok (name, uid)"
    "check_pods J d r (Suc i) pods (name # names) (uid # uids) = Ok ()" by (auto simp: and_then_Ok)
  have "required_non_empty_string J pod ''/metadata/uid'' = Ok uid" "uid \<notin> set uids"
    "validate_strict_controller_owner J pod (item_path i []) ''ReplicaSet'' (srs_name r) (srs_uid r) = Ok ()"
    "compare_pod_spec J pod i (srs_template_spec r) = Ok ()"
    using c(1) by (auto simp: check_pod_def and_then_Ok ensure_Ok)
  then have "uid_of pod = Some uid" "uid \<notin> set uids" "controlled_by pod ''ReplicaSet'' (srs_name r) (srs_uid r)"
    "runs_spec pod (srs_template_spec r)"
    using required_name_Ok(2) owner_Ok compare_pod_spec_Ok assms(1) by blast+
  then show ?case using Cons.IH [OF c(2)] by auto
qed simp

section \<open>The chain\<close>

lemma deployment_facts_Ok:
  assumes "rfc6901 J" "deployment_facts J v = Ok d"
  shows "name_of v = Some (df_name d)" "uid_of v = Some (df_uid d)" "replicas_of v = Some (df_replicas d)"
    "template_of v = Some (df_projection d)" "child (df_projection d) ''spec'' = walk v [''spec'', ''template'', ''spec'']"
proof -
  obtain template where f: "required_non_empty_string J v ''/metadata/name'' = Ok (df_name d)"
    "required_non_empty_string J v ''/metadata/uid'' = Ok (df_uid d)"
    "required_u64 J v ''/spec/replicas'' = Ok (df_replicas d)"
    "object_at J v ''/spec/template'' ''/spec/template'' = Ok template"
    "normalized_controller_template template = Ok (df_projection d)"
    using assms(2) by (auto simp: deployment_facts_def and_then_Ok)
  show "name_of v = Some (df_name d)" "uid_of v = Some (df_uid d)" using required_name_Ok [OF assms(1)] f by blast+
  show "replicas_of v = Some (df_replicas d)"
    using f(3) unfolding rollout_paths required_u64_Ok [OF assms(1)] replicas_of_def .
  have w: "walk v [''spec'', ''template''] = Some (JObject template)"
    using f(4) unfolding rollout_paths object_at_Ok [OF assms(1)] .
  then show "template_of v = Some (df_projection d)" using f(5) by (simp add: template_of_def del: walk.simps)
  show "child (df_projection d) ''spec'' = walk v [''spec'', ''template'', ''spec'']"
    using normalized_spec [OF f(5)] w walk_append [of v "[''spec'', ''template'']" "[''spec'']"]
    by (simp split: option.splits)
qed

text \<open>An accepted rollout: the ReplicaSets all belong to the Deployment, exactly one of them reproduces its
  template and has the desired replicas while the others have none, and the Pods, as many as desired and no
  two the same, all belong to that one and run the specification of the Deployment.\<close>

definition ownership_chain :: "Value \<Rightarrow> Value list \<Rightarrow> Value list \<Rightarrow> bool" where
  "ownership_chain deployment replica_sets pods \<longleftrightarrow>
     (\<exists>name uid n spec current. name_of deployment = Some name \<and> uid_of deployment = Some uid
        \<and> replicas_of deployment = Some n \<and> walk deployment [''spec'', ''template'', ''spec''] = Some (JObject spec)
        \<and> (\<forall>v \<in> set replica_sets. controlled_by v ''Deployment'' name uid
            \<and> replicas_of v = Some (if v = current then n else 0))
        \<and> current \<in> set replica_sets \<and> template_of current = template_of deployment
        \<and> distinct (map uid_of replica_sets) \<and> distinct (map uid_of pods) \<and> length pods = unat n
        \<and> (\<forall>pod \<in> set pods. controlled_by pod ''ReplicaSet'' (the (name_of current)) (the (uid_of current))
            \<and> runs_spec pod spec))"

lemma current_of_single: "current_of d vs = [c] \<Longrightarrow> c \<in> set vs \<and> (\<forall>v \<in> set vs. template_of v = Some (df_projection d) \<longleftrightarrow> v = c)"
proof -
  assume "current_of d vs = [c]"
  then have "set (current_of d vs) = {c}" by simp
  then show ?thesis by (auto simp: current_of_def)
qed

lemma rollout_chain:
  assumes "rfc6901 J" "validate_rollout_ownership_strict J deployment sets pods = Ok ()"
  shows "ownership_chain deployment (items_of sets) (items_of pods)"
proof -
  obtain d vs scan r ps n where f: "deployment_facts J deployment = Ok d" "array_at J sets ''/items'' ''/items'' = Ok vs"
    "scan_replica_sets J d 0 vs \<lparr>sc_names = [], sc_uids = [], sc_hashes = [], sc_current = None\<rparr> = Ok scan"
    "sc_current scan = Some r" "array_at J pods ''/items'' ''/items'' = Ok ps" "u64_len ps ''Pod'' = Ok n"
    "n = df_replicas d" "check_pods J d r 0 ps [] [] = Ok ()"
    using assms(2) by (auto simp: validate_rollout_ownership_strict_def and_then_Ok ensure_Ok ok_or_Ok)
  have items: "items_of sets = vs" "items_of pods = ps"
    using f(2,5) unfolding rollout_paths array_at_Ok [OF assms(1)] items_of_def by (simp_all del: walk.simps)
  have "length ps < 2 ^ 64" "df_replicas d = word_of_nat (length ps)"
    using f(6,7) by (auto simp: u64_len_def split: if_splits)
  then have len: "length ps = unat (df_replicas d)" by (simp add: unsigned_of_nat take_bit_nat_eq_self)
  obtain c where c: "current_of d vs = [c]" "name_of c = Some (srs_name r)" "uid_of c = Some (srs_uid r)"
    "child (df_projection d) ''spec'' = Some (JObject (srs_template_spec r))"
    using scan_replica_sets_Ok [OF assms(1) f(3)] f(4) by auto
  note facts = deployment_facts_Ok [OF assms(1) f(1)]
  show ?thesis unfolding ownership_chain_def items
    using scan_replica_sets_Ok [OF assms(1) f(3)] check_pods_Ok [OF assms(1) f(8)] facts len c current_of_single [OF c(1)]
    by (intro exI [of _ "df_name d"] exI [of _ "df_uid d"] exI [of _ "df_replicas d"]
        exI [of _ "srs_template_spec r"] exI [of _ c]) (simp del: walk.simps)
qed

section \<open>What the Pods run\<close>

lemma projection_child:
  assumes "pod_spec_projection m observed_pod b = Ok p" "k \<noteq> ''nodeName''" "k \<noteq> ''tolerations''"
  shows "child p k = map_of m k"
  using assms by (auto simp: pod_spec_projection_def Let_def and_then_Ok map_of_remove_keys map_of_map_entry
      split: option.splits if_splits)

lemma runs_spec_child:
  assumes "runs_spec pod spec" "k \<noteq> ''nodeName''" "k \<noteq> ''tolerations''"
  shows "walk pod (''spec'' # k # ks) = walk (JObject spec) (k # ks)"
proof -
  obtain m p where m: "child pod ''spec'' = Some (JObject m)" "pod_spec_projection spec False False = Ok p"
    "pod_spec_projection m True (map_of spec ''nodeName'' = None) = Ok p"
    using assms(1)
    by (cases "pod_spec_projection spec False False") (auto simp: runs_spec_def split: option.splits Value.splits)
  then have "map_of m k = map_of spec k" using projection_child assms(2,3) by metis
  then show ?thesis using m(1) by simp
qed

end
