(* ===== verification/Kubernetes_Scenario.thy ===== *)
theory Kubernetes_Scenario
  imports Kubernetes_Ownership Kernel_Scenario
begin

text \<open>
  A Deployment before and after an authorized change, with the ReplicaSet and the Pod of its rollout, and a
  lookup that satisfies the law for JSON pointers.
\<close>

definition hex_digit :: "nat \<Rightarrow> char" where
  "hex_digit n = (if n < 10 then char_of (48 + n) else char_of (87 + n))"

definition ref_documents :: document_externals where
  "ref_documents =
     \<lparr>j_pointer = (\<lambda>v p. case pointer_steps p of Some ks \<Rightarrow> walk v ks | None \<Rightarrow> None),
      j_to_vec = (\<lambda>_. Some [1]),
      j_hex = (\<lambda>bs. concat (map (\<lambda>b. [hex_digit (unat b div 16), hex_digit (unat b mod 16)]) bs))\<rparr>"

lemma ref_documents_law: "rfc6901 ref_documents"
  by (rule rfc6901_steps) (simp add: ref_documents_def)

definition live_template :: DeploymentTemplate where
  "live_template = sample_template\<lparr>dt_prior_transaction_annotation := Some ''tx0'',
     dt_prior_authorization_annotation := Some ''auth0'', dt_prior_operation_hash_annotation := Some ''op0''\<rparr>"

definition sha256_text :: "string \<Rightarrow> string" where
  "sha256_text s = ''sha256:'' @ replicate (64 - length s) CHR ''0'' @ s"

text \<open>A settled Deployment with its ReplicaSet and Pod.\<close>

definition container_spec :: "string \<Rightarrow> Value" where
  "container_spec img = JObject [(''containers'', JArray [JObject [(''image'', JString img), (''name'', JString ''app'')]])]"

definition labels_with :: "string option \<Rightarrow> Value" where
  "labels_with hash = JObject ((''app'', JString ''web'') # (case hash of Some h \<Rightarrow> [(''pod-template-hash'', JString h)] | None \<Rightarrow> []))"

definition owner_reference :: "string \<Rightarrow> string \<Rightarrow> string \<Rightarrow> Value" where
  "owner_reference kind name uid = JArray [JObject [(''apiVersion'', JString ''apps/v1''), (''controller'', JBool True),
     (''kind'', JString kind), (''name'', JString name), (''uid'', JString uid)]]"

definition number :: "u64 \<Rightarrow> Value" where
  "number n = JNumber (PosInt n)"

definition rollout_spec :: "string option \<Rightarrow> string \<Rightarrow> Value" where
  "rollout_spec hash img = JObject [(''replicas'', number 1), (''selector'', JObject [(''matchLabels'', labels_with hash)]),
     (''template'', JObject [(''metadata'', JObject [(''labels'', labels_with hash)]), (''spec'', container_spec img)])]"

definition rollout_status :: "u64 \<Rightarrow> string \<Rightarrow> Value" where
  "rollout_status generation third = JObject [(''availableReplicas'', number 1), (''observedGeneration'', number generation),
     (''readyReplicas'', number 1), (''replicas'', number 1), (third, number 1)]"

definition rollout_deployment :: "string \<Rightarrow> u64 \<Rightarrow> u64 \<Rightarrow> string \<Rightarrow> string \<Rightarrow> string \<Rightarrow> string \<Rightarrow> Value" where
  "rollout_deployment version generation observed transaction authorization operation img = JObject
     [(''apiVersion'', JString ''apps/v1''), (''kind'', JString ''Deployment''),
      (''metadata'', JObject
        [(''annotations'', JObject [(AUTHORIZATION_ANNOTATION, JString authorization),
            (OPERATION_ANNOTATION, JString operation), (TRANSACTION_ANNOTATION, JString transaction)]),
         (''generation'', number generation), (''name'', JString ''app''),
         (''namespace'', JString ''web''), (''resourceVersion'', JString version), (''uid'', JString ''uid'')]),
      (''spec'', rollout_spec None img), (''status'', rollout_status observed ''updatedReplicas'')]"

definition rollout_sets :: Value where
  "rollout_sets = JObject [(''apiVersion'', JString ''v1''), (''items'', JArray [JObject
     [(''apiVersion'', JString ''apps/v1''), (''kind'', JString ''ReplicaSet''),
      (''metadata'', JObject [(''generation'', number 1), (''labels'', labels_with (Some ''h'')), (''name'', JString ''app-h''),
         (''namespace'', JString ''web''), (''ownerReferences'', owner_reference ''Deployment'' ''app'' ''uid''), (''uid'', JString ''rs'')]),
      (''spec'', rollout_spec (Some ''h'') (''registry/app@'' @ sha256_text ''7'')),
      (''status'', rollout_status 1 ''fullyLabeledReplicas'')]]), (''kind'', JString ''List'')]"

definition rollout_pods :: Value where
  "rollout_pods = JObject [(''apiVersion'', JString ''v1''), (''items'', JArray [JObject
     [(''apiVersion'', JString ''v1''), (''kind'', JString ''Pod''),
      (''metadata'', JObject [(''labels'', labels_with (Some ''h'')), (''name'', JString ''app-h-1''),
         (''namespace'', JString ''web''), (''ownerReferences'', owner_reference ''ReplicaSet'' ''app-h'' ''rs''), (''uid'', JString ''pod'')]),
      (''spec'', JObject [(''containers'', JArray [JObject [(''image'', JString (''registry/app@'' @ sha256_text ''7'')),
         (''name'', JString ''app'')]]), (''nodeName'', JString ''node-1'')]),
      (''status'', JObject [(''conditions'', JArray [JObject [(''status'', JString ''True''), (''type'', JString ''Ready'')]]),
         (''phase'', JString ''Running'')])]]), (''kind'', JString ''List'')]"

text \<open>Before the change, in the response to the patch, and once the controller has settled.\<close>

definition live_document :: Value where
  "live_document = rollout_deployment ''41'' 6 6 ''tx0'' ''auth0'' ''op0'' (''registry/app@'' @ sha256_text ''5'')"

definition changed_document :: Value where
  "changed_document = rollout_deployment ''42'' 7 6 ''id'' ''id'' (sha256_text ''63'') (''registry/app@'' @ sha256_text ''7'')"

definition settled_document :: Value where
  "settled_document = rollout_deployment ''43'' 7 7 ''id'' ''id'' (sha256_text ''63'') (''registry/app@'' @ sha256_text ''7'')"

lemma documents_wf: "json_wf live_document" "json_wf changed_document" "json_wf settled_document"
  by code_simp+

lemma live_preconditions: "validate_preconditions ref_documents live_document live_template = Ok ()"
  by code_simp

lemma live_effect:
  "authorized_projection changed_document
    = write_texts (effect_texts ref_externals ref_documents live_template 1 1 99) (authorized_projection live_document)"
  by code_simp

lemma live_delta:
  "validate_authorized_delta ref_externals ref_documents live_document changed_document live_template 1 1 99 = Ok ()"
proof -
  have "validate_server_transition ref_documents live_document changed_document = Ok ()" by code_simp
  moreover have "validate_effect_projection ref_externals ref_documents live_document changed_document live_template 1 1 99 = Ok ()"
    using effect_check_exact [OF ref_documents_law documents_wf(1,2)] live_preconditions live_effect by blast
  ultimately show ?thesis by (simp add: validate_authorized_delta_def)
qed

lemma live_eventual:
  "validate_eventual_controller_projection ref_externals ref_documents changed_document settled_document
     live_template 1 1 99 = Ok ()"
  by (subst eventual_check_exact [OF ref_documents_law documents_wf(2,3)]; code_simp)

lemma live_patch: "\<exists>p. prepare_patch ref_externals ref_documents live_template 1 1 = Ok p"
proof -
  have "is_Ok (canonical_bytes rfc8949 (VTemplate live_template))" by code_simp
  then obtain h where "operation_hash ref_externals live_template 1 1 = Ok h"
    by (cases "canonical_bytes rfc8949 (VTemplate live_template)") (auto simp: operation_hash_def)
  moreover have "validate_executable_template live_template = Ok ()" by code_simp
  ultimately show ?thesis
    by (simp add: prepare_patch_def required_prior_annotation_def live_template_def serialize_patch_body_def
        ref_documents_def Let_def)
qed

lemma live_rollout: "validate_rollout_ownership_strict ref_documents settled_document rollout_sets rollout_pods = Ok ()"
  by code_simp

end
