(* ===== verification/Kubernetes_Grammar.thy ===== *)
theory Kubernetes_Grammar
  imports Kubernetes_Projection
begin

text \<open>
  The grammar of a repository path component, and that the index-based scanner of the code recognises
  exactly its words: runs of lower-case letters and digits, with a dot, one or two underscores or any
  number of dashes between two runs.
\<close>

definition alnum_run :: "string \<Rightarrow> bool" where
  "alnum_run r \<longleftrightarrow> r \<noteq> [] \<and> list_all lowercase_or_digit r"

definition name_separator :: "string \<Rightarrow> bool" where
  "name_separator s \<longleftrightarrow> s = ''.'' \<or> s = ''_'' \<or> s = ''__'' \<or> (s \<noteq> [] \<and> list_all (\<lambda>c. c = CHR ''-'') s)"

inductive path_component :: "string \<Rightarrow> bool" where
  run: "alnum_run r \<Longrightarrow> path_component r"
| more: "\<lbrakk>alnum_run r; name_separator s; path_component p\<rbrakk> \<Longrightarrow> path_component (r @ s @ p)"

text \<open>What may follow a run.\<close>

inductive path_rest :: "string \<Rightarrow> bool" where
  stop: "path_rest []"
| step: "\<lbrakk>name_separator s; alnum_run r; path_rest p\<rbrakk> \<Longrightarrow> path_rest (s @ r @ p)"

lemma component_rest: "path_component w \<longleftrightarrow> (\<exists>r p. w = r @ p \<and> alnum_run r \<and> path_rest p)"
proof
  show "path_component w \<Longrightarrow> \<exists>r p. w = r @ p \<and> alnum_run r \<and> path_rest p"
  proof (induction rule: path_component.induct)
    case (run r)
    then show ?case using path_rest.stop by force
  next
    case (more r s p)
    then show ?case using path_rest.step by blast
  qed
next
  have "alnum_run r \<Longrightarrow> path_component (r @ p)" if "path_rest p" for r p
    using that
  proof (induction arbitrary: r rule: path_rest.induct)
    case (step s r' p)
    then show ?case using path_component.more [of r s "r' @ p"] by simp
  qed (simp add: path_component.run)
  then show "\<exists>r p. w = r @ p \<and> alnum_run r \<and> path_rest p \<Longrightarrow> path_component w" by blast
qed

section \<open>Scanning\<close>

lemma skip_while_drop:
  "skip_while p bytes index = index + length (takeWhile p (drop index bytes))"
proof (induction p bytes index rule: skip_while.induct)
  case (1 p bytes index)
  then show ?case
    by (cases "index < length bytes"; subst skip_while.simps)
      (auto simp: not_less Cons_nth_drop_Suc [symmetric])
qed

lemma consume_drop:
  "consume_ascii_lowercase_or_digit bytes index =
     (let r = takeWhile lowercase_or_digit (drop index bytes) in (r \<noteq> [], index + length r))"
  by (auto simp: consume_ascii_lowercase_or_digit_def skip_while_drop Let_def)

lemma alnum_not_separator:
  "\<not> lowercase_or_digit CHR ''.''" "\<not> lowercase_or_digit CHR ''_''" "\<not> lowercase_or_digit CHR ''-''"
  by (simp_all add: lowercase_or_digit_def ascii_lower_def ascii_digit_def)

lemma separator_head: "name_separator s \<Longrightarrow> \<exists>c s'. s = c # s' \<and> \<not> lowercase_or_digit c"
  by (cases s) (auto simp: name_separator_def alnum_not_separator)

lemma rest_head: "path_rest p \<Longrightarrow> p = [] \<or> (\<exists>c q. p = c # q \<and> \<not> lowercase_or_digit c)"
  by (erule path_rest.cases) (auto dest!: separator_head)

lemma run_rest:
  assumes "alnum_run r" "path_rest p"
  shows "takeWhile lowercase_or_digit (r @ p) = r"
proof -
  have "\<And>x. x \<in> set r \<Longrightarrow> lowercase_or_digit x" using assms(1) by (simp add: alnum_run_def list_all_iff)
  then have "takeWhile lowercase_or_digit (r @ p) = r @ takeWhile lowercase_or_digit p"
    by (rule takeWhile_append2)
  moreover have "takeWhile lowercase_or_digit p = []" using rest_head [OF assms(2)] by auto
  ultimately show ?thesis by simp
qed

text \<open>The separator the scanner skips is a separator of the grammar, and the only one that a run can follow.\<close>

lemma separator_sound:
  assumes "skip_separator bytes index = Some j" "index < length bytes"
  shows "\<exists>s. name_separator s \<and> drop index bytes = s @ drop j bytes \<and> j = index + length s"
proof -
  note drop = Cons_nth_drop_Suc [symmetric]
  let ?d = "takeWhile (\<lambda>c. c = CHR ''-'') (drop index bytes)"
  consider "j = Suc index" "name_separator [bytes ! index]"
    | "j = index + 2" "bytes ! index = CHR ''_''" "Suc index < length bytes" "bytes ! Suc index = CHR ''_''"
    | "j = index + length ?d" "bytes ! index = CHR ''-''"
    using assms(1) by (auto simp: skip_separator_def skip_while_drop name_separator_def split: if_splits)
  then show ?thesis
  proof cases
    case 1
    then show ?thesis using assms(2) by (intro exI [of _ "[bytes ! index]"]) (simp add: drop)
  next
    case 2
    then show ?thesis using assms(2) by (intro exI [of _ "''__''"]) (simp add: drop name_separator_def)
  next
    case 3
    have "drop index bytes = ?d @ dropWhile (\<lambda>c. c = CHR ''-'') (drop index bytes)" by simp
    moreover have "dropWhile (\<lambda>c. c = CHR ''-'') (drop index bytes) = drop j bytes"
      by (simp add: 3 dropWhile_eq_drop add.commute)
    moreover have "?d \<noteq> []" using assms(2) 3 by (simp add: drop)
    then have "name_separator ?d" by (auto simp: name_separator_def list_all_iff dest: set_takeWhileD)
    ultimately show ?thesis using 3 by (intro exI [of _ ?d]) simp
  qed
qed

lemma separator_complete:
  assumes "drop index bytes = s @ c # q" "name_separator s" "lowercase_or_digit c"
  shows "skip_separator bytes index = Some (index + length s)"
proof -
  have nth: "bytes ! (index + i) = (s @ c # q) ! i" "index + i < length bytes" if "i < length (s @ c # q)" for i
  proof -
    have l: "length bytes - index = length (s @ c # q)" using assms(1) by (metis length_drop)
    then show "index + i < length bytes" using that by linarith
    then show "bytes ! (index + i) = (s @ c # q) ! i" using assms(1) by (metis nth_drop less_imp_le_nat add_leD1)
  qed
  have c: "c \<noteq> CHR ''_''" "c \<noteq> CHR ''-''" using assms(3) alnum_not_separator by auto
  consider "s = ''.''" | "s = ''_''" | "s = ''__''" | "s \<noteq> []" "\<forall>x \<in> set s. x = CHR ''-''"
    using assms(2) by (auto simp: name_separator_def list_all_iff)
  then show ?thesis
  proof cases
    case 4
    then have "takeWhile (\<lambda>c. c = CHR ''-'') (drop index bytes) = s"
      using c by (simp add: assms(1))
    moreover have "bytes ! index = CHR ''-''" using nth [of 0] 4 by (cases s) auto
    ultimately show ?thesis by (simp add: skip_separator_def skip_while_drop)
  qed (use nth [of 0] nth [of 1] c in \<open>auto simp: skip_separator_def\<close>)
qed

section \<open>The scanner recognises the grammar\<close>

lemma loop_sound: "path_component_loop bytes index \<Longrightarrow> path_rest (drop index bytes)"
proof (induction bytes index rule: path_component_loop.induct)
  case (1 bytes index)
  show ?case
  proof (cases "index < length bytes")
    case True
    then obtain j where j: "skip_separator bytes index = Some j"
      using "1.prems" by (subst (asm) path_component_loop.simps) (auto split: option.splits)
    obtain s where s: "name_separator s" "drop index bytes = s @ drop j bytes"
      using separator_sound [OF j True] by blast
    let ?r = "takeWhile lowercase_or_digit (drop j bytes)"
    have c: "consume_ascii_lowercase_or_digit bytes j = (?r \<noteq> [], j + length ?r)" by (simp add: consume_drop Let_def)
    have r: "?r \<noteq> []" "path_component_loop bytes (j + length ?r)"
      using "1.prems" True j c by (subst (asm) path_component_loop.simps, simp split: if_splits)+
    then have "path_rest (drop (j + length ?r) bytes)" using "1.IH" [OF True j c [symmetric]] by simp
    moreover have "alnum_run ?r" using r by (auto simp: alnum_run_def list_all_iff dest: set_takeWhileD)
    moreover have "drop j bytes = ?r @ drop (j + length ?r) bytes"
      using takeWhile_dropWhile_id [of lowercase_or_digit "drop j bytes"]
      by (simp add: dropWhile_eq_drop add.commute)
    ultimately show ?thesis using path_rest.step [OF s(1)] s(2) by metis
  qed (simp add: path_rest.stop)
qed

lemma loop_complete: "path_rest x \<Longrightarrow> drop index bytes = x \<Longrightarrow> path_component_loop bytes index"
proof (induction arbitrary: index rule: path_rest.induct)
  case stop
  then show ?case by (subst path_component_loop.simps) simp
next
  case (step s r p)
  obtain c r' where r: "r = c # r'" "lowercase_or_digit c" using step.hyps(2) by (cases r) (auto simp: alnum_run_def)
  have j: "skip_separator bytes index = Some (index + length s)"
    by (rule separator_complete [OF _ step.hyps(1) r(2)]) (simp add: step.prems r)
  have d: "drop (index + length s) bytes = r @ p"
    using drop_drop [of "length s" index bytes] by (simp add: step.prems add.commute)
  have "consume_ascii_lowercase_or_digit bytes (index + length s) = (True, index + length s + length r)"
    using run_rest [OF step.hyps(2,3)] r by (simp add: consume_drop Let_def d)
  moreover have "path_component_loop bytes (index + length s + length r)"
    using step.IH drop_drop [of "length r" "index + length s" bytes] by (simp add: d add.commute)
  moreover have "index < length bytes" using step.prems r by (metis append_is_Nil_conv drop_eq_Nil2 list.discI not_le)
  ultimately show ?case using j by (subst path_component_loop.simps) simp
qed

lemma scanner_recognises: "is_repository_path_component w \<longleftrightarrow> path_component w"
proof -
  let ?r = "takeWhile lowercase_or_digit w"
  have scan: "is_repository_path_component w \<longleftrightarrow> ?r \<noteq> [] \<and> path_component_loop w (length ?r)"
    by (simp add: is_repository_path_component_def consume_drop Let_def)
  show ?thesis
  proof
    assume "is_repository_path_component w"
    then have "?r \<noteq> []" "path_rest (drop (length ?r) w)" using scan loop_sound by auto
    moreover have "alnum_run ?r" using calculation by (auto simp: alnum_run_def list_all_iff dest: set_takeWhileD)
    moreover have "w = ?r @ drop (length ?r) w" by (metis dropWhile_eq_drop takeWhile_dropWhile_id)
    ultimately show "path_component w" using component_rest by blast
  next
    assume "path_component w"
    then obtain r p where w: "w = r @ p" "alnum_run r" "path_rest p" using component_rest by blast
    then have "?r = r" using run_rest by simp
    moreover have "r \<noteq> []" using w by (simp add: alnum_run_def)
    ultimately show "is_repository_path_component w" using scan loop_complete [OF w(3), of "length r" w] w by simp
  qed
qed

end
