(* ===== verification/Kubernetes_Properties.thy ===== *)
theory Kubernetes_Properties
  imports Kubernetes_Scenario Kubernetes_Grammar
begin

text \<open>
  The properties of the Kubernetes mutation profile, each with a use on the documents of the scenario.
\<close>

text \<open>C9. Admission accepts a candidate Deployment exactly when the old document satisfies the preconditions
  of the template and, apart from the metadata fields the API server manages, the candidate is the old
  document with the new image and the three reserved annotations written into it: nothing else may be
  added, removed or changed, and none of the four may be missing.\<close>

theorem admission_accepts_exactly:
  assumes "rfc6901 J" "json_wf old" "json_wf candidate"
  shows "validate_admission_candidate X J old candidate t tx au oh = Ok () \<longleftrightarrow>
    validate_preconditions J old t = Ok ()
    \<and> authorized_projection candidate = write_texts (effect_texts X J t tx au oh) (authorized_projection old)"
  unfolding validate_admission_candidate_def using assms by (rule effect_check_exact)

theorem admission_accepts_exactly_witness:
  "validate_admission_candidate ref_externals ref_documents live_document changed_document live_template 1 1 99 = Ok ()
    \<and> validate_admission_candidate ref_externals ref_documents live_document live_document live_template 1 1 99 \<noteq> Ok ()"
proof -
  have "authorized_projection live_document
    \<noteq> write_texts (effect_texts ref_externals ref_documents live_template 1 1 99) (authorized_projection live_document)"
    unfolding live_effect [symmetric] by code_simp
  then show ?thesis
    using admission_accepts_exactly [OF ref_documents_law documents_wf(1,2)]
      admission_accepts_exactly [OF ref_documents_law documents_wf(1,1)] live_preconditions live_effect by blast
qed

text \<open>C10. An API server applies a prepared patch to a document exactly when the document shows the uid,
  resource version, container name, image and annotations the template pins, and the result is the document
  with the four authorized texts written into it. Where the preconditions hold it is applied, and admission
  accepts the result.\<close>

theorem patch_realizes_effect:
  assumes "prepare_patch X J t tx au = Ok p"
  shows "apply_patch (pp_patch p) v =
      (if list_all (\<lambda>(ks, s). walk v ks = Some (JString s)) (tested_texts J t)
       then Some (write_texts (effect_texts X J t tx au (pp_operation_hash p)) v) else None)
    \<and> (rfc6901 J \<and> json_wf v \<and> validate_preconditions J v t = Ok () \<longrightarrow>
       (\<exists>new. apply_patch (pp_patch p) v = Some new
          \<and> validate_admission_candidate X J v new t tx au (pp_operation_hash p) = Ok ()))"
proof (intro conjI impI)
  let ?E = "effect_texts X J t tx au (pp_operation_hash p)"
  show effect: "apply_patch (pp_patch p) v =
      (if list_all (\<lambda>(ks, s). walk v ks = Some (JString s)) (tested_texts J t) then Some (write_texts ?E v) else None)"
    by (rule patch_effect [OF assms])
  assume v: "rfc6901 J \<and> json_wf v \<and> validate_preconditions J v t = Ok ()"
  have "list_all (outside \<circ> fst) ?E" by (auto simp: list_all_iff intro: effect_outside)
  then have "validate_effect_projection X J v (write_texts ?E v) t tx au (pp_operation_hash p) = Ok ()"
    using v effect_check_exact [of J v "write_texts ?E v"] authorized_write_texts [of ?E v] json_wf_write_texts [of v ?E]
    by simp
  then show "\<exists>new. apply_patch (pp_patch p) v = Some new
      \<and> validate_admission_candidate X J v new t tx au (pp_operation_hash p) = Ok ()"
    using effect preconditions_tested [of J v t] v by (simp add: validate_admission_candidate_def)
qed

theorem patch_realizes_effect_witness:
  "\<exists>p new. prepare_patch ref_externals ref_documents live_template 1 1 = Ok p
    \<and> apply_patch (pp_patch p) live_document = Some new
    \<and> validate_admission_candidate ref_externals ref_documents live_document new live_template 1 1 (pp_operation_hash p) = Ok ()"
proof -
  obtain p where p: "prepare_patch ref_externals ref_documents live_template 1 1 = Ok p" using live_patch by blast
  then show ?thesis
    using patch_realizes_effect [OF p, of live_document] ref_documents_law documents_wf(1) live_preconditions by blast
qed

text \<open>When the API server's response passes the authorized delta and the settled Deployment passes the
  controller projection, every top-level field of the settled Deployment other than metadata and status, its
  specification among them, is the old one with only the authorized image replaced, and the generation is
  the successor of the old one, so no other change of the specification came in between.\<close>

theorem deployed_spec_is_authorized:
  assumes "rfc6901 J" "json_wf old" "json_wf persisted" "json_wf eventual"
    and "validate_authorized_delta X J old persisted t tx au oh = Ok ()"
    and "validate_eventual_controller_projection X J persisted eventual t tx au oh = Ok ()"
    and "k \<noteq> ''metadata''" "k \<noteq> ''status''"
  shows "child eventual k = child (set_at (image_keys t)
      (JString (image_reference J (dt_image_repository t) (dt_image_digest t))) old) k
    \<and> (\<exists>g. Option.bind (walk old [''metadata'', ''generation'']) as_u64 = Some g \<and> unat g < 2 ^ 64 - 1
        \<and> Option.bind (walk eventual [''metadata'', ''generation'']) as_u64 = Some (g + 1))"
  using assms by (rule eventual_delta)

theorem deployed_spec_is_authorized_witness:
  "child settled_document ''spec'' = child (set_at (image_keys live_template)
     (JString (image_reference ref_documents ''registry/app'' 7)) live_document) ''spec''"
proof -
  have "dt_image_repository live_template = ''registry/app''" "dt_image_digest live_template = 7"
    by (simp_all add: live_template_def sample_template_def)
  then show ?thesis
    using deployed_spec_is_authorized [OF ref_documents_law documents_wf live_delta live_eventual, of "''spec''"]
    by simp
qed

text \<open>C20. The index-based scanner of repository path components accepts exactly the words of the grammar:
  runs of lower-case letters and digits separated by one dot, one or two underscores, or dashes.\<close>

theorem repository_scanner_is_grammar: "is_repository_path_component w \<longleftrightarrow> path_component w"
  by (rule scanner_recognises)

text \<open>C19. A rollout that passes the strict ownership check is a complete chain: every ReplicaSet is
  controlled by exactly this Deployment, exactly one of them reproduces its Pod template and has the desired
  replicas while all others have none, and the Pods, exactly as many as desired and pairwise distinct, are
  all controlled by that ReplicaSet and run the Deployment's Pod specification.\<close>

theorem rollout_is_owned:
  assumes "rfc6901 J" "validate_rollout_ownership_strict J deployment replica_sets pods = Ok ()"
  shows "ownership_chain deployment (items_of replica_sets) (items_of pods)"
  using assms by (rule rollout_chain)

theorem rollout_is_owned_witness:
  "ownership_chain settled_document (items_of rollout_sets) (items_of rollout_pods) \<and> length (items_of rollout_pods) = 1"
  using rollout_is_owned [OF ref_documents_law live_rollout] by (simp add: items_of_def rollout_pods_def)

text \<open>C2. From the authorization to the running workload: when the response to the patch, the settled
  Deployment and its rollout all pass their checks, every Pod runs the authorized image in the authorized
  container and nothing else that the Deployment did not have before the change. Each field of the Pod
  specification but the node name and the tolerations, which scheduling sets, is the old one with only that
  image replaced, the list of containers included: at every path that does not lead to the image the Pod shows
  what the old template showed, and nothing where it showed nothing. So no container is added or removed, and no
  command, environment or security context differs.\<close>

theorem pods_run_authorized_image:
  assumes "rfc6901 J" "json_wf old" "json_wf persisted" "json_wf eventual"
    and "validate_authorized_delta X J old persisted t tx au oh = Ok ()"
    and "validate_eventual_controller_projection X J persisted eventual t tx au oh = Ok ()"
    and "validate_rollout_ownership_strict J eventual replica_sets pods = Ok ()"
    and "pod \<in> set (items_of pods)"
  shows "walk pod (''spec'' # drop 3 (image_keys t))
      = Some (JString (image_reference J (dt_image_repository t) (dt_image_digest t)))
    \<and> (\<forall>k. k \<notin> {''nodeName'', ''tolerations''} \<longrightarrow>
         walk pod [''spec'', k] = walk (set_at (image_keys t)
           (JString (image_reference J (dt_image_repository t) (dt_image_digest t))) old) [''spec'', ''template'', ''spec'', k])
    \<and> (\<forall>k ks. k \<notin> {''nodeName'', ''tolerations''} \<and> take (Suc (length ks)) (drop 3 (image_keys t)) \<noteq> k # ks \<longrightarrow>
         walk pod (''spec'' # k # ks) = walk old (''spec'' # ''template'' # ''spec'' # k # ks))"
proof -
  let ?img = "JString (image_reference J (dt_image_repository t) (dt_image_digest t))"
  obtain spec where spec: "walk eventual [''spec'', ''template'', ''spec''] = Some (JObject spec)" "runs_spec pod spec"
    using rollout_chain [OF assms(1,7)] assms(8) unfolding ownership_chain_def by blast
  have "child eventual ''spec'' = child (set_at (image_keys t) ?img old) ''spec''"
    using eventual_delta [OF assms(1-6), of "''spec''"] by simp
  then have same: "walk eventual (''spec'' # ks) = walk (set_at (image_keys t) ?img old) (''spec'' # ks)" for ks
    by simp
  have run: "walk pod (''spec'' # k # ks) = walk (set_at (image_keys t) ?img old) (''spec'' # ''template'' # ''spec'' # k # ks)"
    if "k \<notin> {''nodeName'', ''tolerations''}" for k ks
    using runs_spec_child [OF spec(2), of k ks] that walk_append [of eventual "[''spec'', ''template'', ''spec'']" "k # ks"]
      spec(1) same [of "''template'' # ''spec'' # k # ks"] by simp
  obtain r where pre: "walk old (image_keys t) = Some (JString r)"
    using assms(5) effect_check_Ok [OF assms(1)] validate_preconditions_Ok [OF assms(1)]
    by (auto simp: validate_authorized_delta_def and_then_Ok)
  then have "walk (set_at (image_keys t) ?img old) (image_keys t) = Some ?img"
    by (auto simp: node_set_at simp flip: node_text)
  then have image: "walk pod (''spec'' # drop 3 (image_keys t)) = Some ?img"
    using run [of "''containers''"] by (simp add: image_keys_def del: walk.simps)
  have "walk pod (''spec'' # k # ks) = walk old (''spec'' # ''template'' # ''spec'' # k # ks)"
    if "k \<notin> {''nodeName'', ''tolerations''}" "take (Suc (length ks)) (drop 3 (image_keys t)) \<noteq> k # ks" for k ks
    unfolding run [OF that(1)]
    by (rule walk_set_at_off [OF pre]) (use that(2) in \<open>simp add: image_keys_def\<close>)
  with image run show ?thesis by blast
qed

theorem pods_run_authorized_image_witness:
  "walk (hd (items_of rollout_pods)) [''spec'', ''containers'', ''0'', ''image'']
      = Some (JString (''registry/app@'' @ sha256_text ''7''))
    \<and> walk (hd (items_of rollout_pods)) [''spec'', ''containers'', ''0'', ''name'']
      = walk live_document [''spec'', ''template'', ''spec'', ''containers'', ''0'', ''name'']
    \<and> walk (hd (items_of rollout_pods)) [''spec'', ''containers'', ''1'']
      = walk live_document [''spec'', ''template'', ''spec'', ''containers'', ''1'']"
proof -
  have "hd (items_of rollout_pods) \<in> set (items_of rollout_pods)" by (simp add: items_of_def rollout_pods_def)
  note P = pods_run_authorized_image [OF ref_documents_law documents_wf live_delta live_eventual live_rollout this]
  have keys: "drop 3 (image_keys live_template) = [''containers'', ''0'', ''image'']" by code_simp
  have "image_reference ref_documents (dt_image_repository live_template) (dt_image_digest live_template)
      = ''registry/app@'' @ sha256_text ''7''" by code_simp
  then have "walk (hd (items_of rollout_pods)) [''spec'', ''containers'', ''0'', ''image'']
      = Some (JString (''registry/app@'' @ sha256_text ''7''))" using conjunct1 [OF P] by (simp add: keys del: walk.simps)
  moreover note off = conjunct2 [OF conjunct2 [OF P], rule_format, of "''containers''"]
  have "walk (hd (items_of rollout_pods)) [''spec'', ''containers'', ''0'', ''name'']
      = walk live_document [''spec'', ''template'', ''spec'', ''containers'', ''0'', ''name'']"
    "walk (hd (items_of rollout_pods)) [''spec'', ''containers'', ''1'']
      = walk live_document [''spec'', ''template'', ''spec'', ''containers'', ''1'']"
    by (rule off; simp add: keys del: walk.simps)+
  ultimately show ?thesis by blast
qed

end
