(* ===== verification/Ingress_Requests.thy ===== *)
theory Ingress_Requests
  imports Kernel_Evaluation Json_Documents
begin

text \<open>
  The authenticated ingress, \<^verbatim>\<open>accordlock-ingress/src/lib.rs\<close>, without its replay guard: the claims a caller
  signs and their canonical bytes, the two commitments of an envelope, the activated registry of ingress
  keys, the checks of a signature and of the bound claims, and the verifier that is frozen for an accepted
  envelope. Reading JSON text is the work of \<^verbatim>\<open>serde_json\<close>: its readers are parameters. Messages that the
  libraries produce are not kept in the errors.
\<close>

section \<open>Constants\<close>

definition INGRESS_REQUEST_DOMAIN :: string where
  "INGRESS_REQUEST_DOMAIN = ''accordlock:v2:authenticated-ingress-request''"

definition INGRESS_SCHEMA_VERSION :: u16 where
  "INGRESS_SCHEMA_VERSION = 2"

definition INGRESS_CLAIMS_DOMAIN :: string where
  "INGRESS_CLAIMS_DOMAIN = ''accordlock:v2:ingress-claims''"

definition MAX_INGRESS_JSON_BYTES :: nat where
  "MAX_INGRESS_JSON_BYTES = 65536"

definition INGRESS_REGISTRY_ROOT_DOMAIN :: bytes where
  "INGRESS_REGISTRY_ROOT_DOMAIN = str_bytes ''accordlock:v2:activated-ingress-profile'' @ [0]"

definition INGRESS_CANONICAL_PAYLOAD_COMMITMENT_DOMAIN :: string where
  "INGRESS_CANONICAL_PAYLOAD_COMMITMENT_DOMAIN = ''accordlock:v2:durable-ingress-canonical-payload''"

definition INGRESS_WIRE_COMMITMENT_DOMAIN :: string where
  "INGRESS_WIRE_COMMITMENT_DOMAIN = ''accordlock:v1:durable-ingress-wire-image''"

definition MAX_REGISTERED_INGRESS_KEYS :: nat where
  "MAX_REGISTERED_INGRESS_KEYS = 256"

definition MAX_AUDIENCES_PER_INGRESS_KEY :: nat where
  "MAX_AUDIENCES_PER_INGRESS_KEY = 64"

definition MAX_INGRESS_TEXT_BYTES :: nat where
  "MAX_INGRESS_TEXT_BYTES = 4096"

datatype IngressError =
    RequestTooLarge
  | MalformedJson
  | IngressInvalidConfiguration string
  | IngressRegistryRootMismatch
  | IngressCanonical
  | UnknownKey
  | KeyNotCurrent
  | SignatureInvalid
  | PayloadMismatch
  | UnsupportedSchemaVersion
  | InvalidNonce
  | IngressAudienceMismatch
  | AudienceNotAllowed
  | InvalidValidityWindow
  | InvalidTrustedTime
  | RequestOutsideKeyValidity
  | LifetimeTooLong
  | IngressNotYetValid
  | IngressRequestExpired
  | CallerBindingMismatch
  | Replay
  | ReplayStateUnavailable
  | HistoricalRecoveryMismatch

type_synonym 'a ingress_result = "('a, IngressError) result"

definition ingress_valid_text :: "string \<Rightarrow> bool" where
  "ingress_valid_text s = valid_text MAX_INGRESS_TEXT_BYTES s"

section \<open>Claims\<close>

record IngressClaims =
  ic_schema_version :: u16
  ic_audience :: string
  ic_issued_at :: i64
  ic_expires_at :: i64
  ic_nonce :: uuid
  ic_proposal :: AgentProposal

text \<open>Every \<open>CanonicalEncode\<close> error of the proposal becomes the ingress error \<open>Canonical\<close>.\<close>

definition claims_canonical_bytes :: "externals \<Rightarrow> IngressClaims \<Rightarrow> bytes ingress_result" where
  "claims_canonical_bytes X c =
     and_then (map_err (\<lambda>_. IngressCanonical) (canonical_bytes (x_cbor X) (VProposal (ic_proposal c)))) (\<lambda>proposal.
     Ok (concat (map (x_cbor X)
       [CArray 7, CInt (uint (ic_schema_version c)), CStr (ic_audience c), CInt (ic_issued_at c),
        CInt (ic_expires_at c), CBytes (uuid_bytes (ic_nonce c)), CBytes proposal, CStr INGRESS_CLAIMS_DOMAIN])))"

record SignedIngressRequest =
  sr_key_id :: string
  sr_claims :: IngressClaims
  sr_cose_sign1 :: bytes

definition sign_ingress_request ::
    "externals \<Rightarrow> IngressClaims \<Rightarrow> SigningIdentity \<Rightarrow> SignedIngressRequest ingress_result" where
  "sign_ingress_request X claims signer =
     and_then (claims_canonical_bytes X claims) (\<lambda>payload.
     and_then (map_err (\<lambda>_. IngressCanonical) (sign_cose X payload INGRESS_REQUEST_DOMAIN signer)) (\<lambda>cose_sign1.
     Ok \<lparr>sr_key_id = si_key_id signer, sr_claims = claims, sr_cose_sign1 = cose_sign1\<rparr>))"

section \<open>Reading an envelope\<close>

text \<open>\<^verbatim>\<open>serde_json\<close> reads a text as a document, in which an object may still repeat a key, and as the typed
  request.\<close>

record ingress_reader =
  ir_document :: "bytes \<Rightarrow> Value option"
  ir_request :: "bytes \<Rightarrow> SignedIngressRequest option"

fun visit_any :: "Value \<Rightarrow> bool"
  and visit_seq :: "Value list \<Rightarrow> bool"
  and visit_map :: "string list \<Rightarrow> (string \<times> Value) list \<Rightarrow> bool" where
  "visit_any (JArray vs) = visit_seq vs"
| "visit_any (JObject m) = visit_map [] m"
| "visit_any v = True"
| "visit_seq [] = True"
| "visit_seq (v # vs) = (visit_any v \<and> visit_seq vs)"
| "visit_map keys [] = True"
| "visit_map keys ((key, v) # m) = (key \<notin> set keys \<and> visit_any v \<and> visit_map (key # keys) m)"

definition read_envelope :: "ingress_reader \<Rightarrow> bytes \<Rightarrow> SignedIngressRequest ingress_result" where
  "read_envelope R wire =
     and_then (ensure (\<not> length wire > MAX_INGRESS_JSON_BYTES) RequestTooLarge) (\<lambda>_.
     and_then (ensure (case ir_document R wire of Some v \<Rightarrow> visit_any v | None \<Rightarrow> False) MalformedJson) (\<lambda>_.
     ok_or (ir_request R wire) MalformedJson))"

section \<open>Commitments and probes\<close>

definition canonical_payload_commitment ::
    "externals \<Rightarrow> string \<Rightarrow> bytes \<Rightarrow> bytes \<Rightarrow> digest32" where
  "canonical_payload_commitment X key_id canonical_claims cose_sign1 =
     x_sha256 X (concat (map (x_cbor X) [CArray 4, CStr key_id, CBytes canonical_claims, CBytes cose_sign1,
       CStr INGRESS_CANONICAL_PAYLOAD_COMMITMENT_DOMAIN]))"

definition wire_image_commitment :: "externals \<Rightarrow> bytes \<Rightarrow> digest32" where
  "wire_image_commitment X wire_json =
     x_sha256 X (concat (map (x_cbor X) [CArray 2, CBytes wire_json, CStr INGRESS_WIRE_COMMITMENT_DOMAIN]))"

record IngressRecoveryProbe =
  rp_request :: SignedIngressRequest
  rp_canonical_claims :: bytes
  rp_canonical_payload_commitment :: digest32
  rp_wire_commitment :: digest32
  rp_wire_json :: bytes

definition parse_bytes :: "externals \<Rightarrow> ingress_reader \<Rightarrow> bytes \<Rightarrow> IngressRecoveryProbe ingress_result" where
  "parse_bytes X R wire_bytes =
     and_then (read_envelope R wire_bytes) (\<lambda>request.
     and_then (claims_canonical_bytes X (sr_claims request)) (\<lambda>canonical_claims.
     Ok \<lparr>rp_request = request, rp_canonical_claims = canonical_claims,
         rp_canonical_payload_commitment =
           canonical_payload_commitment X (sr_key_id request) canonical_claims (sr_cose_sign1 request),
         rp_wire_commitment = wire_image_commitment X wire_bytes, rp_wire_json = wire_bytes\<rparr>))"

definition verify_probe_signature ::
    "externals \<Rightarrow> IngressRecoveryProbe \<Rightarrow> string \<Rightarrow> digest32 \<Rightarrow> unit ingress_result" where
  "verify_probe_signature X probe key_id public_key =
     and_then (ensure (sr_key_id (rp_request probe) = key_id) HistoricalRecoveryMismatch) (\<lambda>_.
     and_then (map_err (\<lambda>_. SignatureInvalid) (from_public_key X key_id public_key)) (\<lambda>verifier.
     and_then (map_err (\<lambda>_. SignatureInvalid)
       (verify_cose X (sr_cose_sign1 (rp_request probe)) INGRESS_REQUEST_DOMAIN verifier)) (\<lambda>signed_payload.
     ensure (signed_payload = rp_canonical_claims probe) PayloadMismatch)))"

definition validate_bound_claims ::
    "IngressClaims \<Rightarrow> string \<Rightarrow> string \<Rightarrow> string \<Rightarrow> i64 \<Rightarrow> i64 \<Rightarrow> i64 \<Rightarrow> unit ingress_result" where
  "validate_bound_claims claims expected_audience tenant actor key_not_before key_expires_at
       maximum_lifetime_seconds =
     and_then (ensure (ic_schema_version claims = INGRESS_SCHEMA_VERSION) UnsupportedSchemaVersion) (\<lambda>_.
     and_then (ensure (\<not> is_nil (ic_nonce claims)) InvalidNonce) (\<lambda>_.
     and_then (ensure (\<not> (ic_audience claims \<noteq> expected_audience
         \<or> dt_audience (ap_template (ic_proposal claims)) \<noteq> expected_audience)) IngressAudienceMismatch) (\<lambda>_.
     and_then (ok_or (i64_checked_sub (ic_expires_at claims) (ic_issued_at claims)) InvalidValidityWindow) (\<lambda>lifetime.
     and_then (ensure (\<not> lifetime \<le> 0) InvalidValidityWindow) (\<lambda>_.
     and_then (ensure (\<not> (ic_issued_at claims < key_not_before \<or> ic_expires_at claims > key_expires_at))
       RequestOutsideKeyValidity) (\<lambda>_.
     and_then (ensure (\<not> lifetime > maximum_lifetime_seconds) LifetimeTooLong) (\<lambda>_.
     ensure (\<not> (ap_tenant (ic_proposal claims) \<noteq> tenant \<or> ap_actor (ic_proposal claims) \<noteq> actor))
       CallerBindingMismatch)))))))"

section \<open>The registry of keys\<close>

datatype IngressKeyStatus = IngressActive | IngressDisabled | IngressRevoked

fun ingress_status_code :: "IngressKeyStatus \<Rightarrow> u8" where
  "ingress_status_code IngressActive = 0"
| "ingress_status_code IngressDisabled = 1"
| "ingress_status_code IngressRevoked = 2"

text \<open>The set of audiences is a \<open>BTreeSet\<close>: its elements in ascending order.\<close>

record RegisteredIngressKey =
  rk_key_id :: string
  rk_public_key :: digest32
  rk_tenant :: string
  rk_actor :: string
  rk_allowed_audiences :: "string list"
  rk_not_before :: i64
  rk_expires_at :: i64
  rk_status :: IngressKeyStatus

definition ingress_validate_authority_domain :: "AuthorityDomainState \<Rightarrow> unit ingress_result" where
  "ingress_validate_authority_domain d =
     ensure (\<not> (ads_root d = 0 \<or> ads_epoch d = 0 \<or> is_nil (ads_activation_id d)))
       (IngressInvalidConfiguration ''ingress registry authority state is malformed'')"

definition registration_malformed :: "RegisteredIngressKey \<Rightarrow> bool" where
  "registration_malformed e \<longleftrightarrow>
     \<not> ingress_valid_text (rk_key_id e) \<or> \<not> ingress_valid_text (rk_tenant e) \<or> \<not> ingress_valid_text (rk_actor e)
     \<or> rk_allowed_audiences e = [] \<or> length (rk_allowed_audiences e) > MAX_AUDIENCES_PER_INGRESS_KEY
     \<or> list_ex (\<lambda>a. \<not> ingress_valid_text a) (rk_allowed_audiences e)
     \<or> rk_not_before e < 0 \<or> rk_not_before e \<ge> rk_expires_at e"

fun registrations_loop ::
    "externals \<Rightarrow> string option \<Rightarrow> digest32 list \<Rightarrow> RegisteredIngressKey list \<Rightarrow> unit ingress_result" where
  "registrations_loop X previous_key_id public_keys [] = Ok ()"
| "registrations_loop X previous_key_id public_keys (e # es) =
     and_then (ensure (\<not> registration_malformed e)
       (IngressInvalidConfiguration ''invalid ingress registration'')) (\<lambda>_.
     and_then (map_err (\<lambda>_. IngressInvalidConfiguration ''invalid ingress verification key or key ID'')
       (from_public_key X (rk_key_id e) (rk_public_key e))) (\<lambda>_.
     and_then (ensure (\<not> (case previous_key_id of Some p \<Rightarrow> p \<ge> rk_key_id e | None \<Rightarrow> False))
       (IngressInvalidConfiguration ''ingress registrations must be strictly sorted by key ID'')) (\<lambda>_.
     and_then (ensure (rk_public_key e \<notin> set public_keys)
       (IngressInvalidConfiguration ''one ingress public key cannot identify multiple registrations'')) (\<lambda>_.
     registrations_loop X (Some (rk_key_id e)) (rk_public_key e # public_keys) es))))"

definition registration_tokens :: "RegisteredIngressKey \<Rightarrow> cbor_token list" where
  "registration_tokens e =
     [CArray 9, CStr (rk_key_id e), CBytes (digest_bytes (rk_public_key e)), CStr (rk_tenant e), CStr (rk_actor e)]
     @ counted CStr (rk_allowed_audiences e)
     @ [CInt (rk_not_before e), CInt (rk_expires_at e), CInt (uint (ingress_status_code (rk_status e))), CInt 1]"

definition canonical_registry_material ::
    "externals \<Rightarrow> string \<Rightarrow> i64 \<Rightarrow> RegisteredIngressKey list \<Rightarrow> bytes ingress_result" where
  "canonical_registry_material X expected_audience maximum_lifetime_seconds entries =
     and_then (ensure (\<not> (\<not> ingress_valid_text expected_audience \<or> maximum_lifetime_seconds \<le> 0
         \<or> entries = [] \<or> length entries > MAX_REGISTERED_INGRESS_KEYS))
       (IngressInvalidConfiguration ''ingress profile audience/lifetime/registry is invalid'')) (\<lambda>_.
     and_then (registrations_loop X None [] entries) (\<lambda>_.
     Ok (concat (map (x_cbor X)
       ([CArray 4, CStr expected_audience, CInt maximum_lifetime_seconds, CArray (array_len (length entries))]
        @ concat (map registration_tokens entries) @ [CInt 2])))))"

definition ingress_compute_root ::
    "externals \<Rightarrow> string \<Rightarrow> i64 \<Rightarrow> RegisteredIngressKey list \<Rightarrow> digest32 ingress_result" where
  "ingress_compute_root X expected_audience maximum_lifetime_seconds entries =
     and_then (canonical_registry_material X expected_audience maximum_lifetime_seconds entries) (\<lambda>encoded.
     Ok (x_sha256 X (INGRESS_REGISTRY_ROOT_DOMAIN @ encoded)))"

record ActivatedIngressRegistry =
  ar_authority_domain :: AuthorityDomainState
  ar_expected_audience :: string
  ar_maximum_lifetime_seconds :: i64
  ar_entries :: "RegisteredIngressKey list"

definition ingress_registry_new ::
    "externals \<Rightarrow> AuthorityDomainState \<Rightarrow> string \<Rightarrow> i64 \<Rightarrow> RegisteredIngressKey list
     \<Rightarrow> ActivatedIngressRegistry ingress_result" where
  "ingress_registry_new X authority_domain expected_audience maximum_lifetime_seconds entries =
     and_then (ingress_validate_authority_domain authority_domain) (\<lambda>_.
     and_then (ingress_compute_root X expected_audience maximum_lifetime_seconds entries) (\<lambda>root.
     and_then (ensure (root = ads_root authority_domain) IngressRegistryRootMismatch) (\<lambda>_.
     Ok \<lparr>ar_authority_domain = authority_domain, ar_expected_audience = expected_audience,
         ar_maximum_lifetime_seconds = maximum_lifetime_seconds, ar_entries = entries\<rparr>)))"

section \<open>Frozen verifiers\<close>

record FrozenIngressVerifier =
  fz_canonical_payload_commitment :: digest32
  fz_key_id :: string
  fz_public_key :: digest32
  fz_tenant :: string
  fz_actor :: string
  fz_audience :: string
  fz_key_not_before :: i64
  fz_key_expires_at :: i64
  fz_maximum_lifetime_seconds :: i64
  fz_authority_domain :: AuthorityDomainState

definition from_persisted ::
    "externals \<Rightarrow> digest32 \<Rightarrow> string \<Rightarrow> digest32 \<Rightarrow> string \<Rightarrow> string \<Rightarrow> string \<Rightarrow> i64 \<Rightarrow> i64 \<Rightarrow> i64
     \<Rightarrow> AuthorityDomainState \<Rightarrow> FrozenIngressVerifier ingress_result" where
  "from_persisted X commitment key_id public_key tenant actor audience key_not_before key_expires_at
       maximum_lifetime_seconds authority_domain =
     and_then (ensure (\<not> (commitment = 0 \<or> \<not> ingress_valid_text key_id \<or> \<not> ingress_valid_text tenant
         \<or> \<not> ingress_valid_text actor \<or> \<not> ingress_valid_text audience \<or> key_not_before < 0
         \<or> key_expires_at \<le> key_not_before \<or> maximum_lifetime_seconds \<le> 0))
       (IngressInvalidConfiguration ''frozen ingress verifier material is malformed'')) (\<lambda>_.
     and_then (ingress_validate_authority_domain authority_domain) (\<lambda>_.
     and_then (map_err (\<lambda>_. IngressInvalidConfiguration ''frozen ingress verification key is malformed'')
       (from_public_key X key_id public_key)) (\<lambda>_.
     Ok \<lparr>fz_canonical_payload_commitment = commitment, fz_key_id = key_id, fz_public_key = public_key,
         fz_tenant = tenant, fz_actor = actor, fz_audience = audience, fz_key_not_before = key_not_before,
         fz_key_expires_at = key_expires_at, fz_maximum_lifetime_seconds = maximum_lifetime_seconds,
         fz_authority_domain = authority_domain\<rparr>)))"

record VerifiedHistoricalIngress =
  vh_request :: SignedIngressRequest
  vh_canonical_payload_commitment :: digest32
  vh_wire_commitment :: digest32
  vh_authority_domain :: AuthorityDomainState

definition verify_historical ::
    "externals \<Rightarrow> IngressRecoveryProbe \<Rightarrow> FrozenIngressVerifier \<Rightarrow> VerifiedHistoricalIngress ingress_result" where
  "verify_historical X probe frozen =
     and_then (ensure (\<not> (rp_canonical_payload_commitment probe \<noteq> fz_canonical_payload_commitment frozen
         \<or> sr_key_id (rp_request probe) \<noteq> fz_key_id frozen)) HistoricalRecoveryMismatch) (\<lambda>_.
     and_then (verify_probe_signature X probe (fz_key_id frozen) (fz_public_key frozen)) (\<lambda>_.
     and_then (validate_bound_claims (sr_claims (rp_request probe)) (fz_audience frozen) (fz_tenant frozen)
       (fz_actor frozen) (fz_key_not_before frozen) (fz_key_expires_at frozen)
       (fz_maximum_lifetime_seconds frozen)) (\<lambda>_.
     Ok \<lparr>vh_request = rp_request probe,
         vh_canonical_payload_commitment = rp_canonical_payload_commitment probe,
         vh_wire_commitment = rp_wire_commitment probe, vh_authority_domain = fz_authority_domain frozen\<rparr>)))"

end
