(* ===== verification/Ingress_Guards.thy ===== *)
theory Ingress_Guards
  imports Ingress_Requests Store_Safety
begin

text \<open>
  The authenticator of \<^verbatim>\<open>accordlock-ingress/src/lib.rs\<close> over a replay guard. The trait \<open>ReplayGuard\<close> is the locale
  \<open>replay_guard\<close>; its implementations are the guard in memory and, in \<^verbatim>\<open>accordlock-ingress-state/src/lib.rs\<close>,
  the guard on the transactional state, which shares the state with every other operation of the store.
  The authenticator takes the two operations of its guard as arguments.
\<close>

section \<open>Guards\<close>

datatype ReplayScope = ReplayScope string

definition replay_scope_new :: "string \<Rightarrow> ReplayScope ingress_result" where
  "replay_scope_new audience =
     and_then (ensure (ingress_valid_text audience)
       (IngressInvalidConfiguration ''replay audience scope must be exact canonical security text'')) (\<lambda>_.
     Ok (ReplayScope audience))"

datatype ReplayGuardError = GuardAlreadyUsed | GuardUnavailable

type_synonym 'g observe_op = "ReplayScope \<Rightarrow> i64 \<Rightarrow> 'g \<Rightarrow> (unit, ReplayGuardError) result \<times> 'g"
type_synonym 'g consume_op = "ReplayScope \<Rightarrow> string \<Rightarrow> uuid \<Rightarrow> i64 \<Rightarrow> i64 \<Rightarrow> 'g \<Rightarrow> (unit, ReplayGuardError) result \<times> 'g"

record MemoryReplayState =
  mr_used :: "ReplayScope \<times> string \<times> uuid \<Rightarrow> i64 option"
  mr_high_water :: "ReplayScope \<Rightarrow> i64 option"

definition memory_replay_default :: MemoryReplayState where
  "memory_replay_default = \<lparr>mr_used = Map.empty, mr_high_water = Map.empty\<rparr>"

definition memory_observe_time :: "MemoryReplayState observe_op" where
  "memory_observe_time scope now st =
     (if now < 0 then (Err GuardUnavailable, st)
      else if (case mr_high_water st scope of Some high_water \<Rightarrow> now < high_water | None \<Rightarrow> False)
      then (Err GuardUnavailable, st)
      else (Ok (), st\<lparr>mr_high_water := (mr_high_water st)(scope \<mapsto> now)\<rparr>))"

definition memory_consume :: "MemoryReplayState consume_op" where
  "memory_consume scope key_id nonce expires_at now st =
     (if now < 0 \<or> expires_at \<le> now \<or> is_nil nonce \<or> key_id = [] \<or> length key_id > MAX_KEY_ID_BYTES
         \<or> trim key_id \<noteq> key_id \<or> has_control key_id
         \<or> (case mr_high_water st scope of Some high_water \<Rightarrow> now < high_water | None \<Rightarrow> False)
      then (Err GuardUnavailable, st)
      else
        let observed = st\<lparr>mr_high_water := (mr_high_water st)(scope \<mapsto> now)\<rparr>;
            replay_key = (scope, key_id, nonce) in
        if (case mr_used st replay_key of Some stored_expiry \<Rightarrow> now < stored_expiry | None \<Rightarrow> False)
        then (Err GuardAlreadyUsed, observed)
        else (Ok (), observed\<lparr>mr_used := (mr_used st)(replay_key \<mapsto> expires_at)\<rparr>))"

definition durable_scope :: "ReplayScope \<Rightarrow> (IngressReplayScope, ReplayGuardError) result" where
  "durable_scope scope = (case scope of ReplayScope s \<Rightarrow> map_err (\<lambda>_. GuardUnavailable) (ingress_replay_scope_new s))"

definition map_consumption_decision ::
    "(IngressReplayDecision, StateError) result \<Rightarrow> (unit, ReplayGuardError) result" where
  "map_consumption_decision decision =
     (case decision of
        Ok Consumed \<Rightarrow> Ok ()
      | Ok AlreadyUsed \<Rightarrow> Err GuardAlreadyUsed
      | Err _ \<Rightarrow> Err GuardUnavailable)"

definition state_observe_time :: "MemoryState observe_op" where
  "state_observe_time scope now st =
     (case durable_scope scope of
        Err e \<Rightarrow> (Err e, st)
      | Ok s \<Rightarrow> (case observe_ingress_time s now st of (r, st') \<Rightarrow> (map_err (\<lambda>_. GuardUnavailable) r, st')))"

definition state_consume :: "MemoryState consume_op" where
  "state_consume scope key_id nonce expires_at now st =
     (case and_then (durable_scope scope) (\<lambda>s.
         map_err (\<lambda>_. GuardUnavailable) (ingress_nonce_consumption_new s key_id nonce expires_at now)) of
        Err e \<Rightarrow> (Err e, st)
      | Ok request \<Rightarrow> (case consume_ingress_nonce request st of
          (decision, st') \<Rightarrow> (map_consumption_decision decision, st')))"

section \<open>The authenticator\<close>

record IngressAuthenticator =
  ia_expected_audience :: string
  ia_replay_scope :: ReplayScope
  ia_maximum_lifetime_seconds :: i64
  ia_authority_domain :: AuthorityDomainState
  ia_registrations :: "string \<Rightarrow> RegisteredIngressKey option"

fun index_registrations ::
    "RegisteredIngressKey list \<Rightarrow> (string \<Rightarrow> RegisteredIngressKey option)
     \<Rightarrow> (string \<Rightarrow> RegisteredIngressKey option) ingress_result" where
  "index_registrations [] indexed = Ok indexed"
| "index_registrations (e # es) indexed =
     and_then (ensure (indexed (rk_key_id e) = None)
       (IngressInvalidConfiguration (''duplicate ingress key ID after activation: '' @ rk_key_id e))) (\<lambda>_.
     index_registrations es (indexed(rk_key_id e \<mapsto> e)))"

definition authenticator_new :: "ActivatedIngressRegistry \<Rightarrow> IngressAuthenticator ingress_result" where
  "authenticator_new registry =
     and_then (replay_scope_new (ar_expected_audience registry)) (\<lambda>replay_scope.
     and_then (ensure (\<not> ar_maximum_lifetime_seconds registry \<le> 0)
       (IngressInvalidConfiguration ''maximum lifetime must be positive'')) (\<lambda>_.
     and_then (index_registrations (ar_entries registry) Map.empty) (\<lambda>indexed.
     Ok \<lparr>ia_expected_audience = ar_expected_audience registry, ia_replay_scope = replay_scope,
         ia_maximum_lifetime_seconds = ar_maximum_lifetime_seconds registry,
         ia_authority_domain = ar_authority_domain registry, ia_registrations = indexed\<rparr>)))"

record StaticallyVerifiedIngressSubmission =
  sv_caller :: AuthenticatedCaller
  sv_request :: SignedIngressRequest
  sv_canonical_claims :: bytes
  sv_replay_scope :: ReplayScope
  sv_maximum_lifetime_seconds :: i64
  sv_key_public_key :: digest32
  sv_key_not_before :: i64
  sv_key_expires_at :: i64
  sv_authority_domain :: AuthorityDomainState
  sv_canonical_payload_commitment :: digest32
  sv_wire_commitment :: digest32
  sv_wire_json :: bytes

definition verify_durable_static ::
    "externals \<Rightarrow> IngressAuthenticator \<Rightarrow> IngressRecoveryProbe \<Rightarrow> StaticallyVerifiedIngressSubmission ingress_result" where
  "verify_durable_static X A probe =
     and_then (ok_or (ia_registrations A (sr_key_id (rp_request probe))) UnknownKey) (\<lambda>registration.
     and_then (verify_probe_signature X probe (rk_key_id registration) (rk_public_key registration)) (\<lambda>_.
     and_then (ensure (rk_status registration = IngressActive) KeyNotCurrent) (\<lambda>_.
     and_then (validate_bound_claims (sr_claims (rp_request probe)) (ia_expected_audience A) (rk_tenant registration)
       (rk_actor registration) (rk_not_before registration) (rk_expires_at registration)
       (ia_maximum_lifetime_seconds A)) (\<lambda>_.
     and_then (ensure (ia_expected_audience A \<in> set (rk_allowed_audiences registration)) AudienceNotAllowed) (\<lambda>_.
     Ok \<lparr>sv_caller = \<lparr>au_tenant = rk_tenant registration, au_actor = rk_actor registration\<rparr>,
         sv_request = rp_request probe, sv_canonical_claims = rp_canonical_claims probe,
         sv_replay_scope = ia_replay_scope A, sv_maximum_lifetime_seconds = ia_maximum_lifetime_seconds A,
         sv_key_public_key = rk_public_key registration, sv_key_not_before = rk_not_before registration,
         sv_key_expires_at = rk_expires_at registration, sv_authority_domain = ia_authority_domain A,
         sv_canonical_payload_commitment = rp_canonical_payload_commitment probe,
         sv_wire_commitment = rp_wire_commitment probe, sv_wire_json = rp_wire_json probe\<rparr>)))))"

text \<open>The checks of \<open>authenticate_json\<close> that come before the guard is asked.\<close>

definition authenticate_static ::
    "externals \<Rightarrow> ingress_reader \<Rightarrow> IngressAuthenticator \<Rightarrow> bytes \<Rightarrow> i64
     \<Rightarrow> (RegisteredIngressKey \<times> SignedIngressRequest) ingress_result" where
  "authenticate_static X R A json now =
     and_then (ensure (\<not> now < 0) InvalidTrustedTime) (\<lambda>_.
     and_then (read_envelope R json) (\<lambda>request.
     let claims = sr_claims request in
     and_then (ok_or (ia_registrations A (sr_key_id request)) UnknownKey) (\<lambda>registration.
     and_then (map_err (\<lambda>_. SignatureInvalid)
       (from_public_key X (rk_key_id registration) (rk_public_key registration))) (\<lambda>verifier.
     and_then (map_err (\<lambda>_. SignatureInvalid)
       (verify_cose X (sr_cose_sign1 request) INGRESS_REQUEST_DOMAIN verifier)) (\<lambda>signed_payload.
     and_then (claims_canonical_bytes X claims) (\<lambda>reconstructed.
     and_then (ensure (signed_payload = reconstructed) PayloadMismatch) (\<lambda>_.
     and_then (ensure (ic_schema_version claims = INGRESS_SCHEMA_VERSION) UnsupportedSchemaVersion) (\<lambda>_.
     and_then (ensure (\<not> is_nil (ic_nonce claims)) InvalidNonce) (\<lambda>_.
     and_then (ensure (rk_status registration = IngressActive) KeyNotCurrent) (\<lambda>_.
     and_then (ensure (\<not> (ic_audience claims \<noteq> ia_expected_audience A
         \<or> dt_audience (ap_template (ic_proposal claims)) \<noteq> ia_expected_audience A)) IngressAudienceMismatch) (\<lambda>_.
     and_then (ensure (ia_expected_audience A \<in> set (rk_allowed_audiences registration)) AudienceNotAllowed) (\<lambda>_.
     and_then (ok_or (i64_checked_sub (ic_expires_at claims) (ic_issued_at claims)) InvalidValidityWindow) (\<lambda>lifetime.
     and_then (ensure (\<not> lifetime \<le> 0) InvalidValidityWindow) (\<lambda>_.
     and_then (ensure (\<not> (ic_issued_at claims < rk_not_before registration
         \<or> ic_expires_at claims > rk_expires_at registration)) RequestOutsideKeyValidity) (\<lambda>_.
     and_then (ensure (\<not> lifetime > ia_maximum_lifetime_seconds A) LifetimeTooLong) (\<lambda>_.
     and_then (ensure (\<not> (ap_tenant (ic_proposal claims) \<noteq> rk_tenant registration
         \<or> ap_actor (ic_proposal claims) \<noteq> rk_actor registration)) CallerBindingMismatch) (\<lambda>_.
     Ok (registration, request))))))))))))))))))"

text \<open>The checks against the trusted clock, after it was observed.\<close>

definition check_current :: "RegisteredIngressKey \<Rightarrow> IngressClaims \<Rightarrow> i64 \<Rightarrow> unit ingress_result" where
  "check_current registration claims now =
     and_then (ensure (\<not> (now < rk_not_before registration \<or> now \<ge> rk_expires_at registration)) KeyNotCurrent) (\<lambda>_.
     and_then (ensure (\<not> now < ic_issued_at claims) IngressNotYetValid) (\<lambda>_.
     ensure (\<not> now \<ge> ic_expires_at claims) IngressRequestExpired))"

definition authenticate_json ::
    "'g observe_op \<Rightarrow> 'g consume_op \<Rightarrow> externals \<Rightarrow> ingress_reader \<Rightarrow> IngressAuthenticator \<Rightarrow> bytes \<Rightarrow> i64 \<Rightarrow> 'g
     \<Rightarrow> AuthenticatedIngressRequest ingress_result \<times> 'g" where
  "authenticate_json observe_op consume_op X R A json now g =
     (case authenticate_static X R A json now of
        Err e \<Rightarrow> (Err e, g)
      | Ok (registration, request) \<Rightarrow>
          (case observe_op (ia_replay_scope A) now g of
             (Err _, g1) \<Rightarrow> (Err ReplayStateUnavailable, g1)
           | (Ok _, g1) \<Rightarrow>
               (case check_current registration (sr_claims request) now of
                  Err e \<Rightarrow> (Err e, g1)
                | Ok _ \<Rightarrow>
                    (case consume_op (ia_replay_scope A) (rk_key_id registration) (ic_nonce (sr_claims request))
                        (ic_expires_at (sr_claims request)) now g1 of
                       (Err GuardAlreadyUsed, g2) \<Rightarrow> (Err Replay, g2)
                     | (Err GuardUnavailable, g2) \<Rightarrow> (Err ReplayStateUnavailable, g2)
                     | (Ok _, g2) \<Rightarrow>
                         (Ok \<lparr>ai_caller = \<lparr>au_tenant = rk_tenant registration, au_actor = rk_actor registration\<rparr>,
                             ai_proposal = ic_proposal (sr_claims request),
                             ai_ingress_key_id = rk_key_id registration, ai_nonce = ic_nonce (sr_claims request),
                             ai_authenticated_at = now, ai_expires_at = ic_expires_at (sr_claims request),
                             ai_authority_domain = ia_authority_domain A\<rparr>, g2)))))"

section \<open>The contract of a guard\<close>

text \<open>The steps that can happen to a guard: its two operations, called with any arguments, and what other
  users of the same state do.\<close>

inductive guard_step :: "'g observe_op \<Rightarrow> 'g consume_op \<Rightarrow> ('g \<Rightarrow> 'g \<Rightarrow> bool) \<Rightarrow> 'g \<Rightarrow> 'g \<Rightarrow> bool"
  for observe_op consume_op others where
  observe: "observe_op scope now g = (r, g') \<Longrightarrow> guard_step observe_op consume_op others g g'"
| consume: "consume_op scope key_id nonce expires_at now g = (r, g') \<Longrightarrow> guard_step observe_op consume_op others g g'"
| other: "others g g' \<Longrightarrow> guard_step observe_op consume_op others g g'"

text \<open>A nonce is spent up to an expiry: no presentation that expires by then is consumed again.\<close>

locale replay_guard =
  fixes observe_op :: "'g observe_op"
    and consume_op :: "'g consume_op"
    and others :: "'g \<Rightarrow> 'g \<Rightarrow> bool"
    and spent :: "'g \<Rightarrow> ReplayScope \<times> string \<times> uuid \<Rightarrow> i64 \<Rightarrow> bool"
  assumes consume_spends: "consume_op s k n e t g = (Ok u, g') \<Longrightarrow> spent g' (s, k, n) e"
    and spent_refused: "spent g (s, k, n) e \<Longrightarrow> e' \<le> e \<Longrightarrow> consume_op s k n e' t g \<noteq> (Ok u, g')"
    and observe_keeps: "spent g key e \<Longrightarrow> observe_op s t g = (r, g') \<Longrightarrow> spent g' key e"
    and consume_keeps: "spent g key e \<Longrightarrow> consume_op s k n e' t g = (r, g') \<Longrightarrow> spent g' key e"
    and others_keep: "spent g key e \<Longrightarrow> others g g' \<Longrightarrow> spent g' key e"
begin

lemma step_keeps: "guard_step observe_op consume_op others g g' \<Longrightarrow> spent g key e \<Longrightarrow> spent g' key e"
  by (erule guard_step.cases) (auto intro: observe_keeps consume_keeps others_keep)

lemma run_keeps:
  "(guard_step observe_op consume_op others)\<^sup>*\<^sup>* g g' \<Longrightarrow> spent g key e \<Longrightarrow> spent g' key e"
  by (induction rule: rtranclp_induct) (auto intro: step_keeps)

lemma authenticate_spends:
  assumes "authenticate_json observe_op consume_op X R A json now g = (Ok r, g')"
  shows "spent g' (ia_replay_scope A, ai_ingress_key_id r, ai_nonce r) (ai_expires_at r)"
  using assms consume_spends unfolding authenticate_json_def
  by (fastforce split: result.splits prod.splits ReplayGuardError.splits)

lemma authenticate_unspent:
  assumes "authenticate_json observe_op consume_op X R A json now g = (Ok r, g')"
    "spent g (ia_replay_scope A, ai_ingress_key_id r, ai_nonce r) e"
  shows "e < ai_expires_at r"
proof (rule ccontr)
  assume "\<not> e < ai_expires_at r"
  moreover obtain g1 u where "observe_op (ia_replay_scope A) now g = (Ok u, g1)"
    "consume_op (ia_replay_scope A) (ai_ingress_key_id r) (ai_nonce r) (ai_expires_at r) now g1 = (Ok u, g')"
    using assms(1) unfolding authenticate_json_def
    by (auto split: result.splits prod.splits ReplayGuardError.splits)
  ultimately show False using spent_refused [OF observe_keeps [OF assms(2)]] by (metis not_less)
qed

text \<open>A key's nonce is authenticated again only for an envelope that expires later.\<close>

lemma authenticated_once:
  assumes "authenticate_json observe_op consume_op X R A json now g = (Ok r, g1)"
    "(guard_step observe_op consume_op others)\<^sup>*\<^sup>* g1 g2"
    "authenticate_json observe_op consume_op X' R' A' json' now' g2 = (Ok r', g3)"
    "ia_replay_scope A' = ia_replay_scope A" "ai_ingress_key_id r' = ai_ingress_key_id r" "ai_nonce r' = ai_nonce r"
  shows "ai_expires_at r < ai_expires_at r'"
  using authenticate_unspent [OF assms(3)] run_keeps [OF assms(2) authenticate_spends [OF assms(1)]] assms(4-6) by simp

end

section \<open>The two guards\<close>

definition memory_spent :: "MemoryReplayState \<Rightarrow> ReplayScope \<times> string \<times> uuid \<Rightarrow> i64 \<Rightarrow> bool" where
  "memory_spent st key e \<longleftrightarrow> (case mr_used st key of Some e' \<Rightarrow> e \<le> e' | None \<Rightarrow> False)
     \<or> (case mr_high_water st (fst key) of Some h \<Rightarrow> e \<le> h | None \<Rightarrow> False)"

interpretation memory: replay_guard memory_observe_time memory_consume "(=)" memory_spent
proof
  show "memory_spent g' (s, k, n) e" if "memory_consume s k n e t g = (Ok u, g')" for s k n e t g u g'
    using that by (auto simp: memory_consume_def memory_spent_def Let_def split: if_splits)
  show "memory_consume s k n e' t g \<noteq> (Ok u, g')" if "memory_spent g (s, k, n) e" "e' \<le> e" for s k n e e' t g u g'
    using that by (auto simp: memory_consume_def memory_spent_def Let_def split: if_splits option.splits)
  show "memory_spent g' key e" if "memory_spent g key e" "memory_observe_time s t g = (r, g')" for g key e s t r g'
    using that by (auto simp: memory_observe_time_def memory_spent_def split: if_splits option.splits)
  show "memory_spent g' key e" if "memory_spent g key e" "memory_consume s k n e' t g = (r, g')" for g key e s k n e' t r g'
    using that by (auto simp: memory_consume_def memory_spent_def Let_def split: if_splits option.splits)
qed simp

text \<open>On the transactional state, in the midst of every other operation of the store.\<close>

definition state_spent :: "MemoryState \<Rightarrow> ReplayScope \<times> string \<times> uuid \<Rightarrow> i64 \<Rightarrow> bool" where
  "state_spent st = (\<lambda>(scope, key_id, nonce) e.
     (case scope of ReplayScope s \<Rightarrow> nonce_spent st ((IngressReplayScope s, key_id, nonce), e) = Some ()))"

lemma store_step_keeps:
  assumes "store_step lin X inst st st'" "state_spent st key e"
  shows "state_spent st' key e"
proof -
  have "changes X inst st st'" using assms(1) by (intro store_run_changes) blast
  from nonces.run_frozen [OF this] show ?thesis
    using assms(2) by (auto simp: state_spent_def split: prod.splits ReplayScope.splits)
qed

lemma durable_scope_Ok: "durable_scope scope = Ok s \<Longrightarrow> \<exists>t. scope = ReplayScope t \<and> s = IngressReplayScope t"
  by (auto simp: durable_scope_def ingress_replay_scope_new_def and_then_Ok map_err_Ok split: ReplayScope.splits)

lemma state_observe_step: "state_observe_time s t st = (r, st') \<Longrightarrow> st' = st \<or> store_step lin X inst st st'"
  by (auto simp: state_observe_time_def split: result.splits prod.splits intro: store_step.step_ingress_time)

lemma state_consume_step: "state_consume s k n e t st = (r, st') \<Longrightarrow> st' = st \<or> store_step lin X inst st st'"
  by (auto simp: state_consume_def split: result.splits prod.splits intro: store_step.step_nonce)

lemma state_consume_Ok:
  assumes "state_consume scope k n e t st = (Ok u, st')"
  obtains s r where "scope = ReplayScope s" "consume_ingress_nonce r st = (Ok Consumed, st')"
    "nc_scope r = IngressReplayScope s" "nc_key_id r = k" "nc_nonce r = n" "nc_expires_unix_s r = e"
    "nc_observed_unix_s r < e"
proof -
  obtain d r where "durable_scope scope = Ok d" "ingress_nonce_consumption_new d k n e t = Ok r"
    "consume_ingress_nonce r st = (Ok Consumed, st')"
    using assms unfolding state_consume_def
    by (auto simp: map_consumption_decision_def and_then_Ok map_err_Ok
        split: result.splits prod.splits IngressReplayDecision.splits)
  then show thesis using that durable_scope_Ok [of scope d]
    by (auto simp: ingress_nonce_consumption_new_def and_then_Ok ensure_Ok)
qed

interpretation state: replay_guard state_observe_time state_consume "store_step lin X inst" state_spent for lin X inst
proof
  show "state_spent g' (s, k, n) e" if "state_consume s k n e t g = (Ok u, g')" for s k n e t g u g'
    using that by (rule state_consume_Ok) (auto simp: state_spent_def dest: consume_nonce_spends)
  show "state_consume s k n e' t g \<noteq> (Ok u, g')" if "state_spent g (s, k, n) e" "e' \<le> e" for s k n e e' t g u g'
  proof
    assume "state_consume s k n e' t g = (Ok u, g')"
    then obtain z r where r: "s = ReplayScope z" "consume_ingress_nonce r g = (Ok Consumed, g')"
      "nc_scope r = IngressReplayScope z" "nc_key_id r = k" "nc_nonce r = n" "nc_observed_unix_s r < e'"
      by (rule state_consume_Ok)
    then show False using spent_nonce_refused [of g r e] that by (simp add: state_spent_def)
  qed
  show "state_spent g' key e" if "state_spent g key e" "state_observe_time s t g = (r, g')" for g key e s t r g'
    using state_observe_step [OF that(2)] store_step_keeps that(1) by blast
  show "state_spent g' key e" if "state_spent g key e" "state_consume s k n e' t g = (r, g')" for g key e s k n e' t r g'
    using state_consume_step [OF that(2)] store_step_keeps that(1) by blast
qed (rule store_step_keeps)

end
