(* ===== verification/Ingress_Facts.thy ===== *)
theory Ingress_Facts
  imports Ingress_Guards
begin

text \<open>
  What the checks of the ingress mean: the first pass over an envelope rejects exactly the documents with a
  repeated key, an activated registry names its callers without ambiguity, the two authentication paths
  make the same checks, and the payload commitment determines the envelope.
\<close>

section \<open>Repeated keys\<close>

fun duplicate_free :: "Value \<Rightarrow> bool" where
  "duplicate_free (JArray vs) \<longleftrightarrow> list_all duplicate_free vs"
| "duplicate_free (JObject m) \<longleftrightarrow> distinct (map fst m) \<and> list_all (\<lambda>(_, v). duplicate_free v) m"
| "duplicate_free _ \<longleftrightarrow> True"

lemma visit_duplicate_free:
  "visit_any v \<longleftrightarrow> duplicate_free v"
  "visit_seq vs \<longleftrightarrow> list_all duplicate_free vs"
  "visit_map keys m \<longleftrightarrow> distinct (map fst m) \<and> set keys \<inter> fst ` set m = {} \<and> list_all (\<lambda>(_, v). duplicate_free v) m"
  by (induction v and vs and keys m rule: visit_any_visit_seq_visit_map.induct) auto

section \<open>The activated registry\<close>

definition registration_ok :: "externals \<Rightarrow> RegisteredIngressKey \<Rightarrow> bool" where
  "registration_ok X e \<longleftrightarrow> \<not> registration_malformed e \<and> is_Ok (from_public_key X (rk_key_id e) (rk_public_key e))"

lemma registrations_loop_Ok:
  "registrations_loop X p ks es = Ok u \<longleftrightarrow> list_all (registration_ok X) es
    \<and> sorted_wrt (<) (map rk_key_id es) \<and> (\<forall>e \<in> set es. \<forall>q. p = Some q \<longrightarrow> q < rk_key_id e)
    \<and> distinct (map rk_public_key es) \<and> set ks \<inter> rk_public_key ` set es = {}"
proof (induction es arbitrary: p ks)
  case (Cons e es)
  have "(\<exists>v. from_public_key X (rk_key_id e) (rk_public_key e) = Ok v)
      \<longleftrightarrow> is_Ok (from_public_key X (rk_key_id e) (rk_public_key e))"
    by (cases "from_public_key X (rk_key_id e) (rk_public_key e)") auto
  then have "registrations_loop X p ks (e # es) = Ok u \<longleftrightarrow> registration_ok X e
      \<and> (\<forall>q. p = Some q \<longrightarrow> q < rk_key_id e) \<and> rk_public_key e \<notin> set ks
      \<and> registrations_loop X (Some (rk_key_id e)) (rk_public_key e # ks) es = Ok u"
    by (auto simp: registration_ok_def and_then_Ok ensure_Ok map_err_Ok not_le split: option.splits)
  then show ?case unfolding Cons.IH by (auto dest: order.strict_trans)
qed simp

text \<open>A registry that was activated: no two entries share an identifier or a public key, each is well formed,
  and the authority's root commits to all of them with the audience and the maximal lifetime.\<close>

lemma ingress_registry_new_Ok:
  assumes "ingress_registry_new X d audience lifetime entries = Ok registry"
  shows "registry = \<lparr>ar_authority_domain = d, ar_expected_audience = audience,
      ar_maximum_lifetime_seconds = lifetime, ar_entries = entries\<rparr>"
    "list_all (registration_ok X) entries" "distinct (map rk_key_id entries)" "distinct (map rk_public_key entries)"
    "ingress_valid_text audience" "0 < lifetime"
    "ingress_compute_root X audience lifetime entries = Ok (ads_root d)" "ingress_validate_authority_domain d = Ok ()"
  using assms
  by (auto simp: ingress_registry_new_def ingress_compute_root_def canonical_registry_material_def result_simps
      registrations_loop_Ok strict_sorted_iff)

lemma index_registrations_Ok:
  "index_registrations es indexed = Ok m \<Longrightarrow> m k = Some e \<longleftrightarrow> indexed k = Some e \<or> (e \<in> set es \<and> rk_key_id e = k)"
proof (induction es arbitrary: indexed)
  case (Cons a es)
  then have m: "index_registrations es (indexed(rk_key_id a \<mapsto> a)) = Ok m" and n: "indexed (rk_key_id a) = None"
    by (auto simp: result_simps)
  show ?case using Cons.IH [OF m] n by (cases "rk_key_id a = k") auto
qed simp

lemma authenticator_new_Ok:
  assumes "authenticator_new registry = Ok A"
  shows "ia_expected_audience A = ar_expected_audience registry"
    "ia_replay_scope A = ReplayScope (ar_expected_audience registry)"
    "ia_maximum_lifetime_seconds A = ar_maximum_lifetime_seconds registry"
    "ia_authority_domain A = ar_authority_domain registry"
    "ia_registrations A k = Some e \<longleftrightarrow> e \<in> set (ar_entries registry) \<and> rk_key_id e = k"
  using assms index_registrations_Ok [of "ar_entries registry" Map.empty "ia_registrations A" k e]
  by (auto simp: authenticator_new_def replay_scope_new_def result_simps)

section \<open>Two paths, one check\<close>

definition current :: "StaticallyVerifiedIngressSubmission \<Rightarrow> i64 \<Rightarrow> bool" where
  "current s now \<longleftrightarrow> sv_key_not_before s \<le> now \<and> now < sv_key_expires_at s
     \<and> ic_issued_at (sr_claims (sv_request s)) \<le> now \<and> now < ic_expires_at (sr_claims (sv_request s))"

definition request_of :: "StaticallyVerifiedIngressSubmission \<Rightarrow> i64 \<Rightarrow> AuthenticatedIngressRequest" where
  "request_of s now = \<lparr>ai_caller = sv_caller s, ai_proposal = ic_proposal (sr_claims (sv_request s)),
     ai_ingress_key_id = sr_key_id (sv_request s), ai_nonce = ic_nonce (sr_claims (sv_request s)),
     ai_authenticated_at = now, ai_expires_at = ic_expires_at (sr_claims (sv_request s)),
     ai_authority_domain = sv_authority_domain s\<rparr>"

lemma parse_bytes_Ok:
  "parse_bytes X R wire = Ok probe \<longleftrightarrow> (\<exists>request claims. read_envelope R wire = Ok request
     \<and> claims_canonical_bytes X (sr_claims request) = Ok claims
     \<and> probe = \<lparr>rp_request = request, rp_canonical_claims = claims,
         rp_canonical_payload_commitment = canonical_payload_commitment X (sr_key_id request) claims (sr_cose_sign1 request),
         rp_wire_commitment = wire_image_commitment X wire, rp_wire_json = wire\<rparr>)"
  by (auto simp: parse_bytes_def result_simps)

lemma validate_bound_claims_Ok:
  "validate_bound_claims c audience tenant actor not_before expires lifetime = Ok u \<longleftrightarrow>
     ic_schema_version c = INGRESS_SCHEMA_VERSION \<and> \<not> is_nil (ic_nonce c) \<and> ic_audience c = audience
     \<and> dt_audience (ap_template (ic_proposal c)) = audience \<and> i64_ok (ic_expires_at c - ic_issued_at c)
     \<and> ic_issued_at c < ic_expires_at c \<and> not_before \<le> ic_issued_at c \<and> ic_expires_at c \<le> expires
     \<and> ic_expires_at c - ic_issued_at c \<le> lifetime
     \<and> ap_tenant (ic_proposal c) = tenant \<and> ap_actor (ic_proposal c) = actor"
  by (auto simp: validate_bound_claims_def result_simps not_less not_le)

text \<open>A request bound to its registration: signed by the registered key over exactly its claims, for this
  audience, in the key's window, by the registered caller.\<close>

definition signed_by :: "externals \<Rightarrow> SignedIngressRequest \<Rightarrow> RegisteredIngressKey \<Rightarrow> bool" where
  "signed_by X q e \<longleftrightarrow> (\<exists>v p. from_public_key X (rk_key_id e) (rk_public_key e) = Ok v
     \<and> verify_cose X (sr_cose_sign1 q) INGRESS_REQUEST_DOMAIN v = Ok p \<and> claims_canonical_bytes X (sr_claims q) = Ok p)"

definition bound_to :: "externals \<Rightarrow> IngressAuthenticator \<Rightarrow> SignedIngressRequest \<Rightarrow> RegisteredIngressKey \<Rightarrow> bool" where
  "bound_to X A q e \<longleftrightarrow> ia_registrations A (sr_key_id q) = Some e \<and> signed_by X q e
     \<and> rk_status e = IngressActive \<and> ia_expected_audience A \<in> set (rk_allowed_audiences e)
     \<and> validate_bound_claims (sr_claims q) (ia_expected_audience A) (rk_tenant e) (rk_actor e) (rk_not_before e)
         (rk_expires_at e) (ia_maximum_lifetime_seconds A) = Ok ()"

lemma authenticate_static_Ok:
  "authenticate_static X R A json now = Ok (e, q) \<longleftrightarrow> 0 \<le> now \<and> read_envelope R json = Ok q \<and> bound_to X A q e"
  unfolding bound_to_def signed_by_def validate_bound_claims_Ok authenticate_static_def Let_def
  by (simp add: result_simps not_less not_le) blast

text \<open>What the durable path hands to the state.\<close>

definition submission_of :: "IngressAuthenticator \<Rightarrow> RegisteredIngressKey \<Rightarrow> IngressRecoveryProbe
    \<Rightarrow> StaticallyVerifiedIngressSubmission" where
  "submission_of A e probe =
      \<lparr>sv_caller = \<lparr>au_tenant = rk_tenant e, au_actor = rk_actor e\<rparr>,
         sv_request = rp_request probe, sv_canonical_claims = rp_canonical_claims probe,
         sv_replay_scope = ia_replay_scope A, sv_maximum_lifetime_seconds = ia_maximum_lifetime_seconds A,
         sv_key_public_key = rk_public_key e, sv_key_not_before = rk_not_before e,
         sv_key_expires_at = rk_expires_at e, sv_authority_domain = ia_authority_domain A,
         sv_canonical_payload_commitment = rp_canonical_payload_commitment probe,
         sv_wire_commitment = rp_wire_commitment probe, sv_wire_json = rp_wire_json probe\<rparr>"

lemma submission_of_simps [simp]:
  "sv_caller (submission_of A e probe) = \<lparr>au_tenant = rk_tenant e, au_actor = rk_actor e\<rparr>"
  "sv_request (submission_of A e probe) = rp_request probe"
  "sv_canonical_claims (submission_of A e probe) = rp_canonical_claims probe"
  "sv_replay_scope (submission_of A e probe) = ia_replay_scope A"
  "sv_maximum_lifetime_seconds (submission_of A e probe) = ia_maximum_lifetime_seconds A"
  "sv_key_public_key (submission_of A e probe) = rk_public_key e"
  "sv_key_not_before (submission_of A e probe) = rk_not_before e"
  "sv_key_expires_at (submission_of A e probe) = rk_expires_at e"
  "sv_authority_domain (submission_of A e probe) = ia_authority_domain A"
  "sv_canonical_payload_commitment (submission_of A e probe) = rp_canonical_payload_commitment probe"
  "sv_wire_commitment (submission_of A e probe) = rp_wire_commitment probe"
  "sv_wire_json (submission_of A e probe) = rp_wire_json probe"
  by (simp_all add: submission_of_def)

lemma verify_durable_static_Ok:
  assumes "\<And>k e. ia_registrations A k = Some e \<Longrightarrow> rk_key_id e = k" "parse_bytes X R json = Ok probe"
  shows "verify_durable_static X A probe = Ok s \<longleftrightarrow> (\<exists>e. bound_to X A (rp_request probe) e
    \<and> s = submission_of A e probe)"
proof -
  obtain claims where c: "claims_canonical_bytes X (sr_claims (rp_request probe)) = Ok claims" "rp_canonical_claims probe = claims"
    using assms(2) by (auto simp: parse_bytes_Ok)
  have sig: "verify_probe_signature X probe (rk_key_id e) (rk_public_key e) = Ok () \<longleftrightarrow> signed_by X (rp_request probe) e"
    if "ia_registrations A (sr_key_id (rp_request probe)) = Some e" for e
    using assms(1) [OF that] c by (auto simp: verify_probe_signature_def signed_by_def result_simps)
  show ?thesis unfolding verify_durable_static_def bound_to_def submission_of_def
    by (cases "ia_registrations A (sr_key_id (rp_request probe))") (auto simp: result_simps sig)
qed

lemma authenticate_json_Ok:
  "authenticate_json observe_op consume_op X R A json now g = (Ok r, g') \<longleftrightarrow>
    (\<exists>e q g1. 0 \<le> now \<and> read_envelope R json = Ok q \<and> bound_to X A q e
       \<and> observe_op (ia_replay_scope A) now g = (Ok (), g1)
       \<and> rk_not_before e \<le> now \<and> now < rk_expires_at e \<and> ic_issued_at (sr_claims q) \<le> now \<and> now < ic_expires_at (sr_claims q)
       \<and> consume_op (ia_replay_scope A) (rk_key_id e) (ic_nonce (sr_claims q)) (ic_expires_at (sr_claims q)) now g1 = (Ok (), g')
       \<and> r = \<lparr>ai_caller = \<lparr>au_tenant = rk_tenant e, au_actor = rk_actor e\<rparr>, ai_proposal = ic_proposal (sr_claims q),
           ai_ingress_key_id = rk_key_id e, ai_nonce = ic_nonce (sr_claims q), ai_authenticated_at = now,
           ai_expires_at = ic_expires_at (sr_claims q), ai_authority_domain = ia_authority_domain A\<rparr>)"
  (is "?L \<longleftrightarrow> ?R")
proof
  assume ?L
  then obtain e q where s: "authenticate_static X R A json now = Ok (e, q)"
    unfolding authenticate_json_def by (auto split: result.splits)
  obtain g1 where "observe_op (ia_replay_scope A) now g = (Ok (), g1)" "check_current e (sr_claims q) now = Ok ()"
    "consume_op (ia_replay_scope A) (rk_key_id e) (ic_nonce (sr_claims q)) (ic_expires_at (sr_claims q)) now g1 = (Ok (), g')"
    "r = \<lparr>ai_caller = \<lparr>au_tenant = rk_tenant e, au_actor = rk_actor e\<rparr>, ai_proposal = ic_proposal (sr_claims q),
       ai_ingress_key_id = rk_key_id e, ai_nonce = ic_nonce (sr_claims q), ai_authenticated_at = now,
       ai_expires_at = ic_expires_at (sr_claims q), ai_authority_domain = ia_authority_domain A\<rparr>"
    using \<open>?L\<close> s unfolding authenticate_json_def
    by (auto split: result.splits prod.splits ReplayGuardError.splits)
  then show ?R using s [unfolded authenticate_static_Ok] by (auto simp: check_current_def result_simps not_less not_le)
next
  assume ?R
  then obtain e q g1 where s: "authenticate_static X R A json now = Ok (e, q)"
    and c: "check_current e (sr_claims q) now = Ok ()"
    and g: "observe_op (ia_replay_scope A) now g = (Ok (), g1)"
      "consume_op (ia_replay_scope A) (rk_key_id e) (ic_nonce (sr_claims q)) (ic_expires_at (sr_claims q)) now g1 = (Ok (), g')"
    and r: "r = \<lparr>ai_caller = \<lparr>au_tenant = rk_tenant e, au_actor = rk_actor e\<rparr>, ai_proposal = ic_proposal (sr_claims q),
       ai_ingress_key_id = rk_key_id e, ai_nonce = ic_nonce (sr_claims q), ai_authenticated_at = now,
       ai_expires_at = ic_expires_at (sr_claims q), ai_authority_domain = ia_authority_domain A\<rparr>"
    unfolding authenticate_static_Ok check_current_def by (auto simp: result_simps not_less not_le)
  show ?L unfolding authenticate_json_def s r by (simp add: g c)
qed

text \<open>The immediate path authenticates exactly what the durable path verifies, when it is current and the guard
  lets its nonce pass, and hands on the same request.\<close>

lemma authenticate_paths:
  assumes k: "\<And>k e. ia_registrations A k = Some e \<Longrightarrow> rk_key_id e = k"
  shows "authenticate_json observe_op consume_op X R A json now g = (Ok r, g') \<longleftrightarrow>
    0 \<le> now \<and> (\<exists>probe s g1. parse_bytes X R json = Ok probe \<and> verify_durable_static X A probe = Ok s \<and> current s now
       \<and> observe_op (ia_replay_scope A) now g = (Ok (), g1)
       \<and> consume_op (ia_replay_scope A) (sr_key_id (sv_request s)) (ic_nonce (sr_claims (sv_request s)))
           (ic_expires_at (sr_claims (sv_request s))) now g1 = (Ok (), g')
       \<and> r = request_of s now)"
  (is "?L \<longleftrightarrow> ?R")
proof
  assume ?L
  then obtain e q g1 where a: "0 \<le> now" "read_envelope R json = Ok q" "bound_to X A q e"
     "observe_op (ia_replay_scope A) now g = (Ok (), g1)"
     "rk_not_before e \<le> now" "now < rk_expires_at e" "ic_issued_at (sr_claims q) \<le> now" "now < ic_expires_at (sr_claims q)"
     "consume_op (ia_replay_scope A) (rk_key_id e) (ic_nonce (sr_claims q)) (ic_expires_at (sr_claims q)) now g1 = (Ok (), g')"
     "r = \<lparr>ai_caller = \<lparr>au_tenant = rk_tenant e, au_actor = rk_actor e\<rparr>, ai_proposal = ic_proposal (sr_claims q),
           ai_ingress_key_id = rk_key_id e, ai_nonce = ic_nonce (sr_claims q), ai_authenticated_at = now,
           ai_expires_at = ic_expires_at (sr_claims q), ai_authority_domain = ia_authority_domain A\<rparr>"
    unfolding authenticate_json_Ok by blast
  then obtain claims where "claims_canonical_bytes X (sr_claims q) = Ok claims" by (auto simp: bound_to_def signed_by_def)
  with a(2) obtain probe where p: "parse_bytes X R json = Ok probe" "rp_request probe = q" by (simp add: parse_bytes_Ok)
  have s: "verify_durable_static X A probe = Ok (submission_of A e probe)"
    using verify_durable_static_Ok [OF k p(1)] a(3) p(2) by blast
  have "rk_key_id e = sr_key_id q" using a(3) k by (simp add: bound_to_def)
  then show ?R using a p s by (auto simp: current_def request_of_def)
next
  assume ?R
  then obtain probe s g1 where a: "0 \<le> now" "parse_bytes X R json = Ok probe" "verify_durable_static X A probe = Ok s"
    "current s now" "observe_op (ia_replay_scope A) now g = (Ok (), g1)"
    "consume_op (ia_replay_scope A) (sr_key_id (sv_request s)) (ic_nonce (sr_claims (sv_request s)))
       (ic_expires_at (sr_claims (sv_request s))) now g1 = (Ok (), g')" "r = request_of s now" by blast
  from a(3) obtain e where e: "bound_to X A (rp_request probe) e" "s = submission_of A e probe"
    using verify_durable_static_Ok [OF k a(2)] by blast
  have "rk_key_id e = sr_key_id (rp_request probe)" using e(1) k by (simp add: bound_to_def)
  moreover have "read_envelope R json = Ok (rp_request probe)" using a(2) by (auto simp: parse_bytes_Ok)
  ultimately show ?L unfolding authenticate_json_Ok using a e by (auto simp: current_def request_of_def)
qed

section \<open>A presentation to the transactional state\<close>

definition clock_reached :: "MemoryState \<Rightarrow> string \<Rightarrow> i64 \<Rightarrow> bool" where
  "clock_reached st audience now \<longleftrightarrow>
     (case ms_ingress_replay_high_water st (IngressReplayScope audience) of None \<Rightarrow> True | Some h \<Rightarrow> h \<le> now)"

definition nonce_free :: "MemoryState \<Rightarrow> string \<Rightarrow> string \<Rightarrow> uuid \<Rightarrow> i64 \<Rightarrow> bool" where
  "nonce_free st audience k n now \<longleftrightarrow> (IngressReplayScope audience, k, n) \<notin> ms_ingress_replay_v13_nonces st
     \<and> (case DAList.lookup (ms_ingress_replay_nonces st) (IngressReplayScope audience, k, n) of None \<Rightarrow> True | Some e \<Rightarrow> e \<le> now)"

lemma state_presentation:
  assumes "ingress_valid_text a" "valid_text MAX_KEY_ID_BYTES k" "\<not> is_nil n" "0 \<le> now" "now < e" "clock_reached st a now"
  obtains st1 st2 where "state_observe_time (ReplayScope a) now st = (Ok (), st1)"
    "state_consume (ReplayScope a) k n e now st1 = ((if nonce_free st a k n now then Ok () else Err GuardAlreadyUsed), st2)"
    "ms_ingress_replay_high_water st2 (IngressReplayScope a) = Some now"
    "nonce_free st a k n now \<Longrightarrow> DAList.lookup (ms_ingress_replay_nonces st2) (IngressReplayScope a, k, n) = Some e"
    "ms_ingress_replay_v13_nonces st2 = ms_ingress_replay_v13_nonces st"
proof -
  define st1 where "st1 = st\<lparr>ms_ingress_replay_high_water := (ms_ingress_replay_high_water st)(IngressReplayScope a \<mapsto> now)\<rparr>"
  define st2 where "st2 = (if nonce_free st a k n now then st1\<lparr>ms_ingress_replay_nonces :=
    DAList.update (IngressReplayScope a, k, n) e (ms_ingress_replay_nonces st1)\<rparr> else st1)"
  have scope: "durable_scope (ReplayScope a) = Ok (IngressReplayScope a)"
    using assms(1) by (simp add: durable_scope_def ingress_replay_scope_new_def ingress_valid_text_def
        MAX_INGRESS_REPLAY_SCOPE_BYTES_def MAX_INGRESS_TEXT_BYTES_def)
  show thesis
  proof (rule that)
    show "state_observe_time (ReplayScope a) now st = (Ok (), st1)"
      using assms(4,6) by (simp add: state_observe_time_def scope observe_ingress_time_def validate_observed_time_def
          try_q_def clock_reached_def st1_def split: option.splits)
    show "state_consume (ReplayScope a) k n e now st1 = ((if nonce_free st a k n now then Ok () else Err GuardAlreadyUsed), st2)"
      using assms(2-5) by (auto simp: state_consume_def scope ingress_nonce_consumption_new_def consume_ingress_nonce_def
          validate_observed_time_def try_q_def map_consumption_decision_def nonce_free_def st1_def st2_def Let_def
          split: option.splits)
  qed (simp_all add: st1_def st2_def)
qed

section \<open>The payload commitment\<close>

text \<open>The sizes that the memory of a machine bounds.\<close>

definition envelope_ok :: "externals \<Rightarrow> SignedIngressRequest \<Rightarrow> bool" where
  "envelope_ok X q \<longleftrightarrow> str_ok (sr_key_id q) \<and> length (sr_cose_sign1 q) < 2 ^ 63
     \<and> str_ok (ic_audience (sr_claims q)) \<and> proposal_ok (ic_proposal (sr_claims q))
     \<and> i64_ok (ic_issued_at (sr_claims q)) \<and> i64_ok (ic_expires_at (sr_claims q))
     \<and> length (concat (map (x_cbor X) (proposal_tokens (ic_proposal (sr_claims q))))) < 2 ^ 63
     \<and> (case claims_canonical_bytes X (sr_claims q) of Ok b \<Rightarrow> length b < 2 ^ 63 | Err _ \<Rightarrow> True)"

lemma claims_bytes_inj:
  assumes X: "cbor_encoder (x_cbor X)" and ok: "envelope_ok X q" "envelope_ok X q'"
    and b: "claims_canonical_bytes X (sr_claims q) = Ok b" "claims_canonical_bytes X (sr_claims q') = Ok b"
  shows "sr_claims q = sr_claims q'"
proof -
  let ?p = "\<lambda>q. concat (map (x_cbor X) (proposal_tokens (ic_proposal (sr_claims q))))"
  let ?ts = "\<lambda>c p. [CArray 7, CInt (uint (ic_schema_version c)), CStr (ic_audience c), CInt (ic_issued_at c),
        CInt (ic_expires_at c), CBytes (uuid_bytes (ic_nonce c)), CBytes p, CStr INGRESS_CLAIMS_DOMAIN]"
  have pb: "canonical_bytes (x_cbor X) (VProposal (ic_proposal (sr_claims q))) = Ok (?p q)" for q
    by (simp add: canonical_bytes_def)
  have tok: "list_all token_ok (?ts (sr_claims z) (?p z))" if "envelope_ok X z" for z
    using that uint_lt2p [of "ic_schema_version (sr_claims z)"]
    by (auto simp: envelope_ok_def str_ok_def arith_defs INGRESS_CLAIMS_DOMAIN_def token_ok.simps
        intro: order_trans [OF _ uint_ge_0])
  have "concat (map (x_cbor X) (?ts (sr_claims q) (?p q))) = concat (map (x_cbor X) (?ts (sr_claims q') (?p q')))"
    using b by (simp add: claims_canonical_bytes_def pb)
  then have eq: "?ts (sr_claims q) (?p q) = ?ts (sr_claims q') (?p q')"
    by (rule cbor_encoder.items_inj [OF X tok [OF ok(1)] tok [OF ok(2)]])
  then have "same_value (VProposal (ic_proposal (sr_claims q))) (VProposal (ic_proposal (sr_claims q')))"
    using ok pb [of q] pb [of q'] by (intro cbor_encoder.canonical_bytes_determine [OF X]) (auto simp: envelope_ok_def)
  then show ?thesis using eq by (auto intro: IngressClaims.equality)
qed

definition payload_material :: "externals \<Rightarrow> SignedIngressRequest \<Rightarrow> bytes \<Rightarrow> bytes" where
  "payload_material X q claims = concat (map (x_cbor X) [CArray 4, CStr (sr_key_id q), CBytes claims,
     CBytes (sr_cose_sign1 q), CStr INGRESS_CANONICAL_PAYLOAD_COMMITMENT_DOMAIN])"

lemma payload_commitment_determines:
  assumes X: "cbor_encoder (x_cbor X)" and ok: "envelope_ok X q" "envelope_ok X q'"
    and b: "claims_canonical_bytes X (sr_claims q) = Ok b" "claims_canonical_bytes X (sr_claims q') = Ok b'"
    and n: "no_collision (x_sha256 X) (payload_material X q b) (payload_material X q' b')"
  shows "canonical_payload_commitment X (sr_key_id q) b (sr_cose_sign1 q)
    = canonical_payload_commitment X (sr_key_id q') b' (sr_cose_sign1 q') \<longleftrightarrow> q = q'"
proof
  let ?ts = "\<lambda>q b. [CArray 4, CStr (sr_key_id q), CBytes b, CBytes (sr_cose_sign1 q),
    CStr INGRESS_CANONICAL_PAYLOAD_COMMITMENT_DOMAIN]"
  assume "canonical_payload_commitment X (sr_key_id q) b (sr_cose_sign1 q)
    = canonical_payload_commitment X (sr_key_id q') b' (sr_cose_sign1 q')"
  then have "payload_material X q b = payload_material X q' b'"
    using n by (simp add: canonical_payload_commitment_def payload_material_def)
  moreover have "list_all token_ok (?ts q b)" "list_all token_ok (?ts q' b')"
    using ok b by (auto simp: envelope_ok_def str_ok_def INGRESS_CANONICAL_PAYLOAD_COMMITMENT_DOMAIN_def token_ok.simps)
  ultimately have "?ts q b = ?ts q' b'" unfolding payload_material_def by (metis cbor_encoder.items_inj [OF X])
  moreover from this have "sr_claims q = sr_claims q'" using claims_bytes_inj [OF X ok b(1)] b(2) by simp
  ultimately show "q = q'" by (auto intro: SignedIngressRequest.equality)
qed (use b in simp)

section \<open>What a registered caller signs\<close>

lemma signed_bound:
  assumes reg: "authenticator_new registry = Ok A" "e \<in> set (ar_entries registry)" "rk_status e = IngressActive"
      "ar_expected_audience registry \<in> set (rk_allowed_audiences e)" "registration_ok X e"
    and signer: "si_key_id signer = rk_key_id e" "x_public_key X (si_key signer) = rk_public_key e"
    and X: "cose_roundtrip X" "signature_correct X"
    and q: "sign_ingress_request X claims signer = Ok q"
    and b: "validate_bound_claims claims (ar_expected_audience registry) (rk_tenant e) (rk_actor e) (rk_not_before e)
       (rk_expires_at e) (ar_maximum_lifetime_seconds registry) = Ok ()"
  shows "bound_to X A q e" "sr_claims q = claims"
proof -
  obtain p c where p: "claims_canonical_bytes X claims = Ok p" "sign_cose X p INGRESS_REQUEST_DOMAIN signer = Ok c"
    and qq: "q = \<lparr>sr_key_id = si_key_id signer, sr_claims = claims, sr_cose_sign1 = c\<rparr>"
    using q by (auto simp: sign_ingress_request_def result_simps)
  obtain v where v: "from_public_key X (rk_key_id e) (rk_public_key e) = Ok v" and "v = identity_verifier X signer"
    using reg(5) signer by (cases "from_public_key X (rk_key_id e) (rk_public_key e)")
      (auto simp: registration_ok_def identity_verifier_def public_key_bytes_def from_public_key_Ok)
  then have "verify_cose X c INGRESS_REQUEST_DOMAIN v = Ok p" using verify_of_sign [OF X p(2)] by simp
  then have "signed_by X q e" using v p by (auto simp: signed_by_def qq)
  then show "bound_to X A q e"
    using reg authenticator_new_Ok [OF reg(1)] signer b by (simp add: bound_to_def qq)
  show "sr_claims q = claims" by (simp add: qq)
qed

text \<open>A bound request is authenticated at the transactional state as long as its nonce is free, and then refused.\<close>

lemma state_authenticates:
  assumes A: "ia_replay_scope A = ReplayScope (ia_expected_audience A)" "ingress_valid_text (ia_expected_audience A)"
      "rk_key_id e = sr_key_id q" "0 \<le> rk_not_before e"
    and q: "read_envelope R json = Ok q" "bound_to X A q e"
    and t: "ic_issued_at (sr_claims q) \<le> now" "now < ic_expires_at (sr_claims q)" "clock_reached st (ia_expected_audience A) now"
  shows "nonce_free st (ia_expected_audience A) (rk_key_id e) (ic_nonce (sr_claims q)) now \<Longrightarrow>
      \<exists>r st'. authenticate_json state_observe_time state_consume X R A json now st = (Ok r, st')
        \<and> ai_proposal r = ic_proposal (sr_claims q) \<and> ai_caller r = \<lparr>au_tenant = rk_tenant e, au_actor = rk_actor e\<rparr>
        \<and> ms_ingress_replay_high_water st' (IngressReplayScope (ia_expected_audience A)) = Some now
        \<and> DAList.lookup (ms_ingress_replay_nonces st') (IngressReplayScope (ia_expected_audience A), rk_key_id e, ic_nonce (sr_claims q))
            = Some (ic_expires_at (sr_claims q))
        \<and> ms_ingress_replay_v13_nonces st' = ms_ingress_replay_v13_nonces st"
    "\<not> nonce_free st (ia_expected_audience A) (rk_key_id e) (ic_nonce (sr_claims q)) now \<Longrightarrow>
      fst (authenticate_json state_observe_time state_consume X R A json now st) = Err Replay"
proof -
  have v: "validate_bound_claims (sr_claims q) (ia_expected_audience A) (rk_tenant e) (rk_actor e) (rk_not_before e)
      (rk_expires_at e) (ia_maximum_lifetime_seconds A) = Ok ()" using q(2) by (simp add: bound_to_def)
  have now: "0 \<le> now" "rk_not_before e \<le> now" "now < rk_expires_at e"
    using v A(4) t by (auto simp: validate_bound_claims_Ok)
  have s: "authenticate_static X R A json now = Ok (e, q)" using now q by (simp add: authenticate_static_Ok)
  have c: "check_current e (sr_claims q) now = Ok ()" using now t by (simp add: check_current_def)
  have key: "valid_text MAX_KEY_ID_BYTES (rk_key_id e)"
    using q(2) by (auto simp: bound_to_def signed_by_def from_public_key_Ok)
  have n: "\<not> is_nil (ic_nonce (sr_claims q))" using v by (simp add: validate_bound_claims_Ok)
  let ?free = "nonce_free st (ia_expected_audience A) (rk_key_id e) (ic_nonce (sr_claims q)) now"
  obtain st1 st2 where st: "state_observe_time (ReplayScope (ia_expected_audience A)) now st = (Ok (), st1)"
    "state_consume (ReplayScope (ia_expected_audience A)) (rk_key_id e) (ic_nonce (sr_claims q)) (ic_expires_at (sr_claims q)) now st1
       = ((if ?free then Ok () else Err GuardAlreadyUsed), st2)"
    "ms_ingress_replay_high_water st2 (IngressReplayScope (ia_expected_audience A)) = Some now"
    "?free \<Longrightarrow> DAList.lookup (ms_ingress_replay_nonces st2) (IngressReplayScope (ia_expected_audience A), rk_key_id e,
       ic_nonce (sr_claims q)) = Some (ic_expires_at (sr_claims q))"
    "ms_ingress_replay_v13_nonces st2 = ms_ingress_replay_v13_nonces st"
    using state_presentation [OF A(2) key n now(1) t(2,3)] by blast
  show "\<exists>r st'. authenticate_json state_observe_time state_consume X R A json now st = (Ok r, st')
        \<and> ai_proposal r = ic_proposal (sr_claims q) \<and> ai_caller r = \<lparr>au_tenant = rk_tenant e, au_actor = rk_actor e\<rparr>
        \<and> ms_ingress_replay_high_water st' (IngressReplayScope (ia_expected_audience A)) = Some now
        \<and> DAList.lookup (ms_ingress_replay_nonces st') (IngressReplayScope (ia_expected_audience A), rk_key_id e, ic_nonce (sr_claims q))
            = Some (ic_expires_at (sr_claims q))
        \<and> ms_ingress_replay_v13_nonces st' = ms_ingress_replay_v13_nonces st" if ?free
    using that st by (simp add: authenticate_json_def s c A(1))
  show "fst (authenticate_json state_observe_time state_consume X R A json now st) = Err Replay" if "\<not> ?free"
    using that st by (simp add: authenticate_json_def s c A(1))
qed

end
