(* ===== verification/Ingress_Submissions.thy ===== *)
theory Ingress_Submissions
  imports Ingress_Facts Issuance
begin

text \<open>
  The durable submission of \<^verbatim>\<open>accordlock-state/src/control.rs\<close>: what the state stores of a statically verified
  envelope, its identifiers, its validation against the stored wire bytes, and the recovery of a historical
  envelope under the verifier frozen with it.
\<close>

section \<open>Identifiers\<close>

definition derive_control_uuid :: "externals \<Rightarrow> string \<Rightarrow> bytes list \<Rightarrow> uuid" where
  "derive_control_uuid X domain components =
     (let material = hash_component (str_bytes domain) @ concat (map hash_component components);
          digest = x_sha256 X material;
          bytes = take 16 (digest_bytes digest);
          bytes = bytes[6 := ((bytes ! 6) AND 0x0f) OR 0x80];
          bytes = bytes[8 := ((bytes ! 8) AND 0x3f) OR 0x80]
      in uuid_from_bytes bytes)"

definition prospective_ids :: "externals \<Rightarrow> uuid \<Rightarrow> digest32 \<Rightarrow> uuid \<Rightarrow> uuid \<times> uuid \<times> uuid" where
  "prospective_ids X state_instance_id commitment request_id =
     (let submission_id = derive_control_uuid X ''accordlock:v13:control-submission''
            [uuid_bytes state_instance_id, digest_bytes commitment];
          receipt_id = derive_control_uuid X ''accordlock:v13:control-receipt''
            [uuid_bytes state_instance_id, uuid_bytes submission_id];
          evaluation_nonce = derive_control_uuid X ''accordlock:v13:evaluation-nonce''
            [uuid_bytes state_instance_id, uuid_bytes submission_id, uuid_bytes request_id]
      in (submission_id, receipt_id, evaluation_nonce))"

definition prospective_evaluation_nonce :: "externals \<Rightarrow> uuid \<Rightarrow> StaticallyVerifiedIngressSubmission \<Rightarrow> uuid" where
  "prospective_evaluation_nonce X state_instance_id verified =
     snd (snd (prospective_ids X state_instance_id (sv_canonical_payload_commitment verified)
       (ap_request_id (ic_proposal (sr_claims (sv_request verified))))))"

section \<open>Storing\<close>

text \<open>The text of an ingress error; the message of a library that it may carry is left out.\<close>

fun ingress_error_text :: "IngressError \<Rightarrow> string" where
  "ingress_error_text RequestTooLarge = ''ingress request exceeds the accepted size limit''"
| "ingress_error_text MalformedJson = ''malformed ingress JSON: ''"
| "ingress_error_text (IngressInvalidConfiguration s) = ''invalid ingress configuration: '' @ s"
| "ingress_error_text IngressRegistryRootMismatch = ''activated ingress registry root does not match its canonical content''"
| "ingress_error_text IngressCanonical = ''ingress canonical encoding failed: ''"
| "ingress_error_text UnknownKey = ''unknown ingress key''"
| "ingress_error_text KeyNotCurrent = ''ingress key is disabled, revoked, or outside its validity window''"
| "ingress_error_text SignatureInvalid = ''ingress signature is invalid''"
| "ingress_error_text PayloadMismatch = ''signed ingress payload does not match the JSON claims''"
| "ingress_error_text UnsupportedSchemaVersion = ''unsupported ingress schema version''"
| "ingress_error_text InvalidNonce = ''ingress nonce must not be nil''"
| "ingress_error_text IngressAudienceMismatch = ''ingress audience does not match this service''"
| "ingress_error_text AudienceNotAllowed = ''registered key is not allowed for this audience''"
| "ingress_error_text InvalidValidityWindow = ''ingress validity window is invalid''"
| "ingress_error_text InvalidTrustedTime = ''trusted ingress time is invalid''"
| "ingress_error_text RequestOutsideKeyValidity = ''ingress request validity is not contained in the registered key validity''"
| "ingress_error_text LifetimeTooLong = ''ingress validity window exceeds the configured maximum''"
| "ingress_error_text IngressNotYetValid = ''ingress request is not yet valid''"
| "ingress_error_text IngressRequestExpired = ''ingress request has expired''"
| "ingress_error_text CallerBindingMismatch = ''proposal tenant or actor does not match the registered caller''"
| "ingress_error_text Replay = ''ingress nonce was already consumed''"
| "ingress_error_text ReplayStateUnavailable = ''ingress replay state is unavailable or indeterminate''"
| "ingress_error_text HistoricalRecoveryMismatch = ''historical ingress envelope does not match its frozen durable verifier''"

definition invalid_ingress :: "'a ingress_result \<Rightarrow> 'a state_result" where
  "invalid_ingress r = map_err (\<lambda>e. InvalidRecord (ingress_error_text e)) r"

definition submission_validate :: "externals \<Rightarrow> ingress_reader \<Rightarrow> StoredControlSubmission \<Rightarrow> unit state_result" where
  "submission_validate X R s =
     (let malformed = InvalidRecord ''durable control submission is malformed or internally inconsistent'';
          mismatch = InvalidRecord ''durable control submission does not match its signed wire lineage'' in
     and_then (ensure (\<not> (is_nil (ss_state_instance_id s) \<or> is_nil (ss_submission_id s) \<or> is_nil (ss_receipt_id s)
         \<or> is_nil (ss_evaluation_nonce s) \<or> is_nil (ss_nonce s) \<or> is_nil (ap_request_id (ss_proposal s))
         \<or> (ss_submission_id s, ss_receipt_id s, ss_evaluation_nonce s)
             \<noteq> prospective_ids X (ss_state_instance_id s) (ss_canonical_payload_commitment s) (ap_request_id (ss_proposal s))
         \<or> ss_canonical_payload_commitment s = 0 \<or> ss_first_wire_commitment s = 0 \<or> ss_proposal_commitment s = 0
         \<or> ss_accepted_at s < 0 \<or> ss_ingress_issued_at s < 0 \<or> ss_accepted_at s < ss_ingress_issued_at s
         \<or> ss_accepted_at s \<ge> ss_ingress_expires_at s \<or> ss_accepted_at s < ss_key_not_before s
         \<or> ss_accepted_at s \<ge> ss_key_expires_at s \<or> ss_ingress_issued_at s < ss_key_not_before s
         \<or> ss_ingress_expires_at s > ss_key_expires_at s \<or> ss_maximum_lifetime_seconds s \<le> 0
         \<or> (case i64_checked_sub (ss_ingress_expires_at s) (ss_ingress_issued_at s) of
              None \<Rightarrow> True | Some lifetime \<Rightarrow> lifetime \<le> 0 \<or> lifetime > ss_maximum_lifetime_seconds s)
         \<or> ss_tenant s \<noteq> ap_tenant (ss_proposal s) \<or> ss_actor s \<noteq> ap_actor (ss_proposal s)
         \<or> ss_environment s \<noteq> dt_environment (ap_template (ss_proposal s)) \<or> ss_replay_scope s \<noteq> ss_audience s
         \<or> ss_audience s \<noteq> dt_audience (ap_template (ss_proposal s)))) malformed) (\<lambda>_.
     and_then (map_err StateCanonical (canonical_hash (x_cbor X) (x_sha256 X) (VProposal (ss_proposal s)))) (\<lambda>proposal_hash.
     and_then (ensure (\<not> (ss_proposal_commitment s \<noteq> proposal_hash
         \<or> ss_canonical_claims s = [] \<or> ss_cose_sign1 s = [] \<or> ss_first_wire_json s = [])) malformed) (\<lambda>_.
     and_then (invalid_ingress (parse_bytes X R (ss_first_wire_json s))) (\<lambda>probe.
     let claims = sr_claims (rp_request probe) in
     and_then (ensure (\<not> (rp_canonical_payload_commitment probe \<noteq> ss_canonical_payload_commitment s
         \<or> rp_wire_commitment probe \<noteq> ss_first_wire_commitment s \<or> sr_key_id (rp_request probe) \<noteq> ss_key_id s
         \<or> ic_proposal claims \<noteq> ss_proposal s \<or> ic_nonce claims \<noteq> ss_nonce s
         \<or> ic_issued_at claims \<noteq> ss_ingress_issued_at s \<or> ic_expires_at claims \<noteq> ss_ingress_expires_at s)) mismatch) (\<lambda>_.
     and_then (map_err (\<lambda>e. InvalidRecord (''stored ingress claims are invalid: '' @ ingress_error_text e))
       (claims_canonical_bytes X claims)) (\<lambda>canonical_claims.
     ensure (\<not> (canonical_claims \<noteq> ss_canonical_claims s \<or> sr_cose_sign1 (rp_request probe) \<noteq> ss_cose_sign1 s))
       mismatch)))))))"

definition from_verified ::
    "externals \<Rightarrow> ingress_reader \<Rightarrow> uuid \<Rightarrow> StaticallyVerifiedIngressSubmission \<Rightarrow> i64 \<Rightarrow> StoredControlSubmission state_result" where
  "from_verified X R state_instance_id verified accepted_at =
     (let request = sv_request verified; claims = sr_claims request; proposal = ic_proposal claims in
     and_then (map_err StateCanonical (canonical_hash (x_cbor X) (x_sha256 X) (VProposal proposal))) (\<lambda>proposal_commitment.
     case prospective_ids X state_instance_id (sv_canonical_payload_commitment verified) (ap_request_id proposal) of
       (submission_id, receipt_id, evaluation_nonce) \<Rightarrow>
     let stored = \<lparr>ss_state_instance_id = state_instance_id, ss_submission_id = submission_id,
           ss_receipt_id = receipt_id, ss_evaluation_nonce = evaluation_nonce,
           ss_replay_scope = (case sv_replay_scope verified of ReplayScope audience \<Rightarrow> audience),
           ss_key_id = sr_key_id request, ss_nonce = ic_nonce claims,
           ss_canonical_payload_commitment = sv_canonical_payload_commitment verified,
           ss_first_wire_commitment = sv_wire_commitment verified, ss_first_wire_json = sv_wire_json verified,
           ss_canonical_claims = sv_canonical_claims verified, ss_cose_sign1 = sr_cose_sign1 request,
           ss_proposal = proposal, ss_proposal_commitment = proposal_commitment,
           ss_tenant = au_tenant (sv_caller verified), ss_environment = dt_environment (ap_template proposal),
           ss_actor = au_actor (sv_caller verified), ss_audience = ic_audience claims,
           ss_ingress_issued_at = ic_issued_at claims, ss_ingress_expires_at = ic_expires_at claims,
           ss_accepted_at = accepted_at, ss_key_public_key = sv_key_public_key verified,
           ss_key_not_before = sv_key_not_before verified, ss_key_expires_at = sv_key_expires_at verified,
           ss_maximum_lifetime_seconds = sv_maximum_lifetime_seconds verified,
           ss_ingress_authority_domain = sv_authority_domain verified\<rparr> in
     and_then (submission_validate X R stored) (\<lambda>_. Ok stored)))"

section \<open>Recovering\<close>

definition frozen_verifier :: "externals \<Rightarrow> StoredControlSubmission \<Rightarrow> FrozenIngressVerifier state_result" where
  "frozen_verifier X s = invalid_ingress (from_persisted X (ss_canonical_payload_commitment s) (ss_key_id s)
     (ss_key_public_key s) (ss_tenant s) (ss_actor s) (ss_audience s) (ss_key_not_before s) (ss_key_expires_at s)
     (ss_maximum_lifetime_seconds s) (ss_ingress_authority_domain s))"

definition matches_historical :: "StoredControlSubmission \<Rightarrow> VerifiedHistoricalIngress \<Rightarrow> unit state_result" where
  "matches_historical s verified =
     (let claims = sr_claims (vh_request verified) in
     ensure (\<not> (vh_canonical_payload_commitment verified \<noteq> ss_canonical_payload_commitment s
         \<or> sr_key_id (vh_request verified) \<noteq> ss_key_id s \<or> ic_nonce claims \<noteq> ss_nonce s
         \<or> ic_proposal claims \<noteq> ss_proposal s \<or> ic_issued_at claims \<noteq> ss_ingress_issued_at s
         \<or> ic_expires_at claims \<noteq> ss_ingress_expires_at s \<or> ic_audience claims \<noteq> ss_audience s
         \<or> vh_authority_domain verified \<noteq> ss_ingress_authority_domain s))
       (InvalidRecord ''historical ingress verification differs from durable submission''))"

definition reverify_frozen_wire :: "externals \<Rightarrow> ingress_reader \<Rightarrow> StoredControlSubmission \<Rightarrow> unit state_result" where
  "reverify_frozen_wire X R s =
     and_then (invalid_ingress (parse_bytes X R (ss_first_wire_json s))) (\<lambda>probe.
     and_then (frozen_verifier X s) (\<lambda>frozen.
     and_then (invalid_ingress (verify_historical X probe frozen)) (\<lambda>verified.
     matches_historical s verified)))"

section \<open>Derived identifiers are never nil\<close>

lemma be_fold_bound: "foldl (\<lambda>n b. 256 * n + unat b) 0 (bs :: bytes) < 256 ^ length bs"
proof (induction bs rule: rev_induct)
  case (snoc b bs)
  have "unat b < 256" using unsigned_less [of b, where ?'a = nat] by simp
  with snoc show ?case by simp
qed simp

lemma be_fold_zero: "foldl (\<lambda>n b. 256 * n + unat b) 0 (bs :: bytes) = 0 \<Longrightarrow> b \<in> set bs \<Longrightarrow> b = 0"
  by (induction bs rule: rev_induct) (auto simp: unsigned_eq_0_iff)

lemma uuid_from_bytes_nil:
  assumes "length bs = 16" "is_nil (uuid_from_bytes bs)" "b \<in> set bs"
  shows "b = 0"
proof (rule be_fold_zero [OF _ assms(3)])
  have "foldl (\<lambda>n b. 256 * n + unat b) 0 bs < 2 ^ 128" using be_fold_bound [of bs] assms(1) by simp
  then show "foldl (\<lambda>n b. 256 * n + unat b) 0 bs = 0"
    using assms(2) by (simp add: is_nil_def uuid_from_bytes_def word_of_nat_eq_0_iff) (meson nat_dvd_not_less neq0_conv)
qed

lemma derive_control_uuid_not_nil: "\<not> is_nil (derive_control_uuid X domain components)"
proof
  define bs where "bs = take 16 (digest_bytes (x_sha256 X (hash_component (str_bytes domain) @ concat (map hash_component components))))"
  let ?c = "bs[6 := ((bs ! 6) AND 0x0f) OR 0x80]"
  let ?b = "((?c ! 8) AND 0x3f) OR 0x80"
  have l: "length bs = 16" by (simp add: bs_def)
  assume "is_nil (derive_control_uuid X domain components)"
  then have "is_nil (uuid_from_bytes (?c[8 := ?b]))" unfolding derive_control_uuid_def Let_def bs_def by simp
  moreover have "?b \<in> set (?c[8 := ?b])" by (rule set_update_memI) (simp add: l)
  ultimately have "?b = 0" using uuid_from_bytes_nil [of "?c[8 := ?b]"] l by simp
  then show False by (simp add: or_eq_0_iff)
qed

lemma prospective_ids_not_nil:
  assumes "prospective_ids X inst c r = (submission_id, receipt_id, evaluation_nonce)"
  shows "\<not> is_nil submission_id" "\<not> is_nil receipt_id" "\<not> is_nil evaluation_nonce"
  using assms by (auto simp: prospective_ids_def Let_def derive_control_uuid_not_nil)

section \<open>A stored submission verifies again\<close>

lemma frozen_verifier_Ok:
  "frozen_verifier X s = Ok f \<Longrightarrow> f = \<lparr>fz_canonical_payload_commitment = ss_canonical_payload_commitment s,
     fz_key_id = ss_key_id s, fz_public_key = ss_key_public_key s, fz_tenant = ss_tenant s, fz_actor = ss_actor s,
     fz_audience = ss_audience s, fz_key_not_before = ss_key_not_before s, fz_key_expires_at = ss_key_expires_at s,
     fz_maximum_lifetime_seconds = ss_maximum_lifetime_seconds s, fz_authority_domain = ss_ingress_authority_domain s\<rparr>"
  by (auto simp: frozen_verifier_def invalid_ingress_def from_persisted_def result_simps)

lemma from_verified_Ok:
  assumes "from_verified X R inst s accepted = Ok stored"
  shows "ss_key_id stored = sr_key_id (sv_request s)" "ss_nonce stored = ic_nonce (sr_claims (sv_request s))"
    "ss_canonical_payload_commitment stored = sv_canonical_payload_commitment s"
    "ss_first_wire_json stored = sv_wire_json s" "ss_proposal stored = ic_proposal (sr_claims (sv_request s))"
    "ss_tenant stored = au_tenant (sv_caller s)" "ss_actor stored = au_actor (sv_caller s)"
    "ss_audience stored = ic_audience (sr_claims (sv_request s))"
    "ss_ingress_issued_at stored = ic_issued_at (sr_claims (sv_request s))"
    "ss_ingress_expires_at stored = ic_expires_at (sr_claims (sv_request s))"
    "ss_key_public_key stored = sv_key_public_key s" "ss_key_not_before stored = sv_key_not_before s"
    "ss_key_expires_at stored = sv_key_expires_at s"
    "ss_maximum_lifetime_seconds stored = sv_maximum_lifetime_seconds s"
    "ss_ingress_authority_domain stored = sv_authority_domain s"
    "submission_validate X R stored = Ok ()"
  using assms unfolding from_verified_def Let_def
  by (cases "prospective_ids X inst (sv_canonical_payload_commitment s)
        (ap_request_id (ic_proposal (sr_claims (sv_request s))))"; force simp: result_simps)+

text \<open>A verified envelope is stored exactly while it is current, degenerate digests and empty byte strings aside:
  the checks that the stored record repeats hold by then.\<close>

lemma from_verified_iff:
  assumes reg: "ingress_registry_new X d audience lifetime entries = Ok registry" "authenticator_new registry = Ok A"
    and v: "parse_bytes X R wire = Ok probe" "verify_durable_static X A probe = Ok s"
    and h: "canonical_hash (x_cbor X) (x_sha256 X) (VProposal (ic_proposal (sr_claims (rp_request probe)))) = Ok h"
  shows "is_Ok (from_verified X R inst s t) \<longleftrightarrow> current s t \<and> \<not> is_nil inst
    \<and> \<not> is_nil (ap_request_id (ic_proposal (sr_claims (rp_request probe))))
    \<and> h \<noteq> 0 \<and> rp_canonical_payload_commitment probe \<noteq> 0 \<and> rp_wire_commitment probe \<noteq> 0
    \<and> rp_canonical_claims probe \<noteq> [] \<and> sr_cose_sign1 (rp_request probe) \<noteq> [] \<and> wire \<noteq> []"
proof -
  note A = authenticator_new_Ok [OF reg(2)] and r = ingress_registry_new_Ok [OF reg(1)]
  obtain e where b: "bound_to X A (rp_request probe) e" and s: "s = submission_of A e probe"
    using verify_durable_static_Ok [OF _ v(1)] A(5) v(2) by blast
  let ?c = "sr_claims (rp_request probe)"
  have c: "validate_bound_claims ?c audience (rk_tenant e) (rk_actor e) (rk_not_before e) (rk_expires_at e) lifetime = Ok ()"
    using b A(1,3) r(1) by (simp add: bound_to_def)
  have "e \<in> set entries" using b A(5) r(1) by (simp add: bound_to_def)
  then have nb: "0 \<le> rk_not_before e" using r(2) by (auto simp: list_all_iff registration_ok_def registration_malformed_def)
  have p: "claims_canonical_bytes X ?c = Ok (rp_canonical_claims probe)" "rp_wire_json probe = wire"
    using v(1) by (auto simp: parse_bytes_Ok)
  obtain i1 i2 i3 where i: "prospective_ids X inst (rp_canonical_payload_commitment probe) (ap_request_id (ic_proposal ?c)) = (i1, i2, i3)"
    by (metis prod_cases3)
  have sc: "ia_replay_scope A = ReplayScope audience" "ia_maximum_lifetime_seconds A = lifetime" using A(2,3) r(1) by simp_all
  have sub: "i64_checked_sub (ic_expires_at ?c) (ic_issued_at ?c) = Some (ic_expires_at ?c - ic_issued_at ?c)"
    using c by (simp add: validate_bound_claims_Ok i64_checked_sub_def)
  show ?thesis
    using c nb r(6) prospective_ids_not_nil [OF i] unfolding validate_bound_claims_Ok
    by (auto simp: from_verified_def submission_validate_def Let_def result.is_Ok_def result_simps s h i p v(1) sc sub
        invalid_ingress_def current_def)
qed

text \<open>What an activated registry accepted and the state stored: the facts a recovery needs.\<close>

lemma stored_facts:
  assumes reg: "ingress_registry_new X d audience lifetime entries = Ok registry" "authenticator_new registry = Ok A"
    and v: "parse_bytes X R wire = Ok probe" "verify_durable_static X A probe = Ok s"
    and st: "from_verified X R inst s accepted = Ok stored"
  obtains e f where "e \<in> set entries" "signed_by X (rp_request probe) e" "rk_key_id e = sr_key_id (rp_request probe)"
    "frozen_verifier X stored = Ok f" "sv_request s = rp_request probe" "sv_wire_json s = wire"
    "fz_canonical_payload_commitment f = rp_canonical_payload_commitment probe"
    "fz_key_id f = rk_key_id e" "fz_public_key f = rk_public_key e" "fz_authority_domain f = ss_ingress_authority_domain stored"
    "validate_bound_claims (sr_claims (rp_request probe)) (fz_audience f) (fz_tenant f) (fz_actor f)
       (fz_key_not_before f) (fz_key_expires_at f) (fz_maximum_lifetime_seconds f) = Ok ()"
proof -
  note A = authenticator_new_Ok [OF reg(2)] and r = ingress_registry_new_Ok [OF reg(1)]
  note F = from_verified_Ok [OF st]
  obtain e where b: "bound_to X A (rp_request probe) e" and s: "s = submission_of A e probe"
    using verify_durable_static_Ok [OF _ v(1)] A(5) v(2) by blast
  have e: "e \<in> set entries" "rk_key_id e = sr_key_id (rp_request probe)"
    using b A(5) r(1) by (auto simp: bound_to_def)
  have ok: "registration_ok X e" using r(2) e(1) by (simp add: list_all_iff)
  have key: "from_public_key X (rk_key_id e) (rk_public_key e) = Ok \<lparr>cv_key_id = rk_key_id e, cv_key = rk_public_key e\<rparr>"
    using b by (auto simp: bound_to_def signed_by_def from_public_key_Ok)
  have aud: "ic_audience (sr_claims (rp_request probe)) = audience"
    using b A(1) r(1) by (simp add: bound_to_def validate_bound_claims_Ok)
  have nz: "ss_canonical_payload_commitment stored \<noteq> 0"
    using F(16) by (auto simp: submission_validate_def result_simps)
  have wf: "ingress_valid_text (rk_key_id e)" "ingress_valid_text (rk_tenant e)" "ingress_valid_text (rk_actor e)"
    "0 \<le> rk_not_before e" "rk_not_before e < rk_expires_at e"
    using ok by (auto simp: registration_ok_def registration_malformed_def)
  let ?f = "\<lparr>fz_canonical_payload_commitment = rp_canonical_payload_commitment probe,
     fz_key_id = rk_key_id e, fz_public_key = rk_public_key e, fz_tenant = rk_tenant e, fz_actor = rk_actor e,
     fz_audience = audience, fz_key_not_before = rk_not_before e, fz_key_expires_at = rk_expires_at e,
     fz_maximum_lifetime_seconds = lifetime, fz_authority_domain = d\<rparr>"
  have dom: "sv_authority_domain s = d" "sv_maximum_lifetime_seconds s = lifetime" using s A(3,4) r(1) by simp_all
  have fr: "frozen_verifier X stored = Ok ?f"
    unfolding frozen_verifier_def invalid_ingress_def from_persisted_def F dom
    using wf key r(5,6,8) nz unfolding F by (simp add: s aud e(2) [symmetric])
  show thesis
  proof (rule that [OF e(1) _ e(2) fr])
    show "signed_by X (rp_request probe) e" using b by (simp add: bound_to_def)
    show "sv_request s = rp_request probe" by (simp add: s)
    show "sv_wire_json s = wire" using v(1) by (auto simp: s parse_bytes_Ok)
    show "fz_authority_domain ?f = ss_ingress_authority_domain stored" by (simp add: F dom)
    show "validate_bound_claims (sr_claims (rp_request probe)) (fz_audience ?f) (fz_tenant ?f) (fz_actor ?f)
       (fz_key_not_before ?f) (fz_key_expires_at ?f) (fz_maximum_lifetime_seconds ?f) = Ok ()"
      using b A(1,3) r(1) by (simp add: bound_to_def)
  qed simp_all
qed

text \<open>The frozen verifier of a stored submission accepts a probe exactly when it presents the same request,
  whatever its JSON text looks like.\<close>

lemma verify_historical_Ok:
  assumes "parse_bytes X R wire' = Ok probe'" "rk_key_id e = sr_key_id (rp_request probe)" "signed_by X (rp_request probe) e"
    and f: "fz_canonical_payload_commitment f = rp_canonical_payload_commitment probe"
      "fz_key_id f = rk_key_id e" "fz_public_key f = rk_public_key e"
      "validate_bound_claims (sr_claims (rp_request probe)) (fz_audience f) (fz_tenant f) (fz_actor f)
         (fz_key_not_before f) (fz_key_expires_at f) (fz_maximum_lifetime_seconds f) = Ok ()"
    and same: "rp_request probe' = rp_request probe"
      "rp_canonical_payload_commitment probe' = rp_canonical_payload_commitment probe"
  shows "verify_historical X probe' f = Ok \<lparr>vh_request = rp_request probe,
     vh_canonical_payload_commitment = rp_canonical_payload_commitment probe,
     vh_wire_commitment = rp_wire_commitment probe', vh_authority_domain = fz_authority_domain f\<rparr>"
proof -
  have "verify_probe_signature X probe' (rk_key_id e) (rk_public_key e) = Ok ()"
    using assms(1-3) same by (auto simp: verify_probe_signature_def signed_by_def parse_bytes_Ok result_simps)
  then show ?thesis using assms(2) f same by (simp add: verify_historical_def)
qed

lemma stored_reverifies:
  assumes "ingress_registry_new X d audience lifetime entries = Ok registry" "authenticator_new registry = Ok A"
    and "parse_bytes X R wire = Ok probe" "verify_durable_static X A probe = Ok s"
    and "from_verified X R inst s accepted = Ok stored"
  shows "reverify_frozen_wire X R stored = Ok ()"
proof -
  from stored_facts [OF assms] obtain e f where f: "signed_by X (rp_request probe) e"
    "rk_key_id e = sr_key_id (rp_request probe)"
    "frozen_verifier X stored = Ok f" "sv_request s = rp_request probe" "sv_wire_json s = wire"
    "fz_canonical_payload_commitment f = rp_canonical_payload_commitment probe"
    "fz_key_id f = rk_key_id e" "fz_public_key f = rk_public_key e" "fz_authority_domain f = ss_ingress_authority_domain stored"
    "validate_bound_claims (sr_claims (rp_request probe)) (fz_audience f) (fz_tenant f) (fz_actor f)
       (fz_key_not_before f) (fz_key_expires_at f) (fz_maximum_lifetime_seconds f) = Ok ()" by blast
  note F = from_verified_Ok [OF assms(5)]
  have "ss_canonical_payload_commitment stored = rp_canonical_payload_commitment probe"
    using f(6) frozen_verifier_Ok [OF f(3)] by simp
  then show ?thesis
    using verify_historical_Ok [OF assms(3) f(2,1,6,7,8,10)] assms(3) f(3,9)
    by (simp add: reverify_frozen_wire_def F f(4,5) invalid_ingress_def matches_historical_def Let_def)
qed

text \<open>An envelope recovers a stored submission exactly when it carries the stored request.\<close>

lemma recovery_is_exact:
  assumes st: "ingress_registry_new X d audience lifetime entries = Ok registry" "authenticator_new registry = Ok A"
      "parse_bytes X R wire = Ok probe" "verify_durable_static X A probe = Ok s"
      "from_verified X R inst s accepted = Ok stored"
    and X: "cbor_encoder (x_cbor X)" and p': "parse_bytes X R wire' = Ok probe'"
    and ok: "envelope_ok X (rp_request probe)" "envelope_ok X (rp_request probe')"
    and n: "no_collision (x_sha256 X) (payload_material X (rp_request probe) (rp_canonical_claims probe))
      (payload_material X (rp_request probe') (rp_canonical_claims probe'))"
  obtains f where "frozen_verifier X stored = Ok f"
    "is_Ok (verify_historical X probe' f) \<longleftrightarrow> rp_request probe' = rp_request probe"
proof -
  from stored_facts [OF st] obtain e f where f: "signed_by X (rp_request probe) e"
    "rk_key_id e = sr_key_id (rp_request probe)" "frozen_verifier X stored = Ok f"
    "fz_canonical_payload_commitment f = rp_canonical_payload_commitment probe"
    "fz_key_id f = rk_key_id e" "fz_public_key f = rk_public_key e"
    "validate_bound_claims (sr_claims (rp_request probe)) (fz_audience f) (fz_tenant f) (fz_actor f)
       (fz_key_not_before f) (fz_key_expires_at f) (fz_maximum_lifetime_seconds f) = Ok ()" by blast
  have c: "claims_canonical_bytes X (sr_claims (rp_request probe)) = Ok (rp_canonical_claims probe)"
      "claims_canonical_bytes X (sr_claims (rp_request probe')) = Ok (rp_canonical_claims probe')"
      "rp_canonical_payload_commitment probe = canonical_payload_commitment X (sr_key_id (rp_request probe))
         (rp_canonical_claims probe) (sr_cose_sign1 (rp_request probe))"
      "rp_canonical_payload_commitment probe' = canonical_payload_commitment X (sr_key_id (rp_request probe'))
         (rp_canonical_claims probe') (sr_cose_sign1 (rp_request probe'))"
    using st(3) p' by (auto simp: parse_bytes_Ok)
  have same: "rp_canonical_payload_commitment probe' = rp_canonical_payload_commitment probe \<longleftrightarrow> rp_request probe' = rp_request probe"
    using payload_commitment_determines [OF X ok c(1,2) n] c(3,4) by metis
  have "is_Ok (verify_historical X probe' f)" if "rp_request probe' = rp_request probe"
    using verify_historical_Ok [OF p' f(2,1,4,5,6,7)] that same by simp
  moreover have "rp_canonical_payload_commitment probe' = rp_canonical_payload_commitment probe"
    if "is_Ok (verify_historical X probe' f)"
    using that f(4) by (cases "rp_canonical_payload_commitment probe' = fz_canonical_payload_commitment f")
      (simp_all add: verify_historical_def)
  ultimately show thesis using that [OF f(3)] same by blast
qed

end
