(* ===== verification/Ingress_Properties.thy ===== *)
theory Ingress_Properties
  imports Ingress_Submissions Kernel_Scenario Store_Scenario
begin

text \<open>
  What the authenticated ingress promises: its two paths authenticate the same requests, a request enters
  once, its caller is the registered one and the kernel takes it over, what a registered caller signs is
  authenticated, and a stored submission is recovered by its own envelope and by no other.
\<close>

section \<open>A registered caller\<close>

definition sample_ingress_key :: RegisteredIngressKey where
  "sample_ingress_key = \<lparr>rk_key_id = ''caller'', rk_public_key = 33, rk_tenant = ''acme'', rk_actor = ''agent'',
     rk_allowed_audiences = [''executor''], rk_not_before = 0, rk_expires_at = 5000, rk_status = IngressActive\<rparr>"

definition sample_caller :: SigningIdentity where
  "sample_caller = \<lparr>si_key_id = ''caller'', si_key = 33\<rparr>"

text \<open>Claims and requests by their expiry, all with one nonce.\<close>

definition sample_claims :: "i64 \<Rightarrow> IngressClaims" where
  "sample_claims t = \<lparr>ic_schema_version = 2, ic_audience = ''executor'', ic_issued_at = t - 250, ic_expires_at = t,
     ic_nonce = 21, ic_proposal = sample_proposal\<rparr>"

definition sample_request :: "i64 \<Rightarrow> SignedIngressRequest" where
  "sample_request t = \<lparr>sr_key_id = ''caller'', sr_claims = sample_claims t,
     sr_cose_sign1 = ok_bytes (sign_cose ref_externals (ok_bytes (claims_canonical_bytes ref_externals (sample_claims t)))
       INGRESS_REQUEST_DOMAIN sample_caller)\<rparr>"

text \<open>A reader under which every text but the empty one is an envelope with the sample request.\<close>

definition sample_reader :: "i64 \<Rightarrow> ingress_reader" where
  "sample_reader t = \<lparr>ir_document = (\<lambda>_. Some (JObject [])),
     ir_request = (\<lambda>w. if w = [] then None else Some (sample_request t))\<rparr>"

definition sample_ingress_registry :: ActivatedIngressRegistry where
  "sample_ingress_registry = \<lparr>ar_authority_domain = domain_at 125, ar_expected_audience = ''executor'',
     ar_maximum_lifetime_seconds = 300, ar_entries = [sample_ingress_key]\<rparr>"

definition sample_authenticator :: IngressAuthenticator where
  "sample_authenticator = \<lparr>ia_expected_audience = ''executor'', ia_replay_scope = ReplayScope ''executor'',
     ia_maximum_lifetime_seconds = 300, ia_authority_domain = domain_at 125,
     ia_registrations = [''caller'' \<mapsto> sample_ingress_key]\<rparr>"

lemma sample_ingress_texts: "ingress_valid_text ''executor''" "ingress_valid_text ''caller''"
  "ingress_valid_text ''acme''" "ingress_valid_text ''agent''" "valid_text MAX_KEY_ID_BYTES ''caller''"
  "valid_text MAX_DOMAIN_BYTES INGRESS_REQUEST_DOMAIN"
  by code_simp+

lemma sample_ingress_registry_new:
  "ingress_registry_new ref_externals (domain_at 125) ''executor'' 300 [sample_ingress_key] = Ok sample_ingress_registry"
proof -
  have "ingress_compute_root ref_externals ''executor'' 300 [sample_ingress_key] = Ok 125" by code_simp
  then show ?thesis by (simp add: ingress_registry_new_def ingress_validate_authority_domain_def domain_at_def is_nil_def
        sample_ingress_registry_def)
qed

lemma sample_authenticator_new: "authenticator_new sample_ingress_registry = Ok sample_authenticator"
  by (simp add: authenticator_new_def replay_scope_new_def sample_ingress_registry_def sample_authenticator_def
      sample_ingress_texts sample_ingress_key_def)

lemma sample_claims_length:
  "length (ok_bytes (claims_canonical_bytes ref_externals (sample_claims 1200))) = 358"
  "length (ok_bytes (claims_canonical_bytes ref_externals (sample_claims 1300))) = 358"
  by code_simp+

lemma sample_signs:
  assumes "t = 1200 \<or> t = 1300"
  shows "sign_ingress_request ref_externals (sample_claims t) sample_caller = Ok (sample_request t)"
proof -
  obtain p where p: "claims_canonical_bytes ref_externals (sample_claims t) = Ok p"
    by (simp add: claims_canonical_bytes_def canonical_bytes_def)
  have "length p \<le> MAX_COSE_PAYLOAD_BYTES"
    using sample_claims_length p assms by (auto simp: ok_bytes_def MAX_COSE_PAYLOAD_BYTES_def)
  then obtain c where "sign_cose ref_externals p INGRESS_REQUEST_DOMAIN sample_caller = Ok c"
    by (rule ref_sign_cose [of sample_caller INGRESS_REQUEST_DOMAIN p, rotated 2])
      (simp_all add: sample_caller_def sample_ingress_texts)
  with p show ?thesis
    by (simp add: sign_ingress_request_def sample_request_def ok_bytes_def sample_caller_def)
qed

lemma sample_ingress_envelope: "read_envelope (sample_reader t) (w # ws) =
    (if length ws < MAX_INGRESS_JSON_BYTES then Ok (sample_request t) else Err RequestTooLarge)"
  by (simp add: read_envelope_def sample_reader_def)

lemma sample_bound:
  "250 \<le> t \<Longrightarrow> t \<le> 5000 \<Longrightarrow> validate_bound_claims (sample_claims t) ''executor'' ''acme'' ''agent'' 0 5000 300 = Ok ()"
  by (simp add: validate_bound_claims_Ok sample_claims_def INGRESS_SCHEMA_VERSION_def is_nil_def
      sample_proposal_def sample_template_def arith_defs)

lemma sample_registered:
  "list_all (registration_ok ref_externals) [sample_ingress_key]" "rk_key_id sample_ingress_key = ''caller''"
  "rk_not_before sample_ingress_key = 0" "rk_status sample_ingress_key = IngressActive"
  "rk_allowed_audiences sample_ingress_key = [''executor'']" "rk_tenant sample_ingress_key = ''acme''"
  "rk_actor sample_ingress_key = ''agent''" "rk_expires_at sample_ingress_key = 5000" "rk_public_key sample_ingress_key = 33"
  "ia_replay_scope sample_authenticator = ReplayScope (ia_expected_audience sample_authenticator)"
  "ia_expected_audience sample_authenticator = ''executor''" "sr_key_id (sample_request t) = ''caller''"
  "sr_claims (sample_request t) = sample_claims t" "ic_issued_at (sample_claims t) = t - 250"
  "ic_expires_at (sample_claims t) = t" "ic_nonce (sample_claims t) = 21"
  "ic_audience (sample_claims t) = ''executor''" "ic_proposal (sample_claims t) = sample_proposal"
  using ingress_registry_new_Ok(2) [OF sample_ingress_registry_new]
  by (simp_all add: sample_ingress_key_def sample_authenticator_def sample_request_def sample_claims_def)

lemma sample_bound_to:
  assumes "t = 1200 \<or> t = 1300"
  shows "bound_to ref_externals sample_authenticator (sample_request t) sample_ingress_key"
proof (rule signed_bound(1) [OF sample_authenticator_new _ _ _ _ _ _ ref_cose_roundtrip ref_signature_correct sample_signs [OF assms]])
  show "registration_ok ref_externals sample_ingress_key" using sample_registered(1) by simp
  show "validate_bound_claims (sample_claims t) (ar_expected_audience sample_ingress_registry) (rk_tenant sample_ingress_key)
      (rk_actor sample_ingress_key) (rk_not_before sample_ingress_key) (rk_expires_at sample_ingress_key)
      (ar_maximum_lifetime_seconds sample_ingress_registry) = Ok ()"
    using sample_bound [of t] assms by (auto simp: sample_ingress_registry_def sample_registered)
qed (simp_all add: sample_ingress_registry_def sample_registered sample_caller_def)

lemma sample_authenticates:
  assumes "t = 1200 \<or> t = 1300" "t - 250 \<le> now" "now < t" "clock_reached st ''executor'' now" "nonce_free st ''executor'' ''caller'' 21 now"
  shows "\<exists>r st'. authenticate_json state_observe_time state_consume ref_externals (sample_reader t) sample_authenticator
      [1] now st = (Ok r, st') \<and> ms_ingress_replay_high_water st' (IngressReplayScope ''executor'') = Some now
      \<and> DAList.lookup (ms_ingress_replay_nonces st') (IngressReplayScope ''executor'', ''caller'', 21) = Some t
      \<and> ms_ingress_replay_v13_nonces st' = ms_ingress_replay_v13_nonces st"
  using state_authenticates(1) [of sample_authenticator sample_ingress_key "sample_request t" "sample_reader t" "[1]" ref_externals
      now st] sample_bound_to [OF assms(1)] assms(2-5)
  by (auto simp: sample_registered sample_ingress_texts sample_ingress_envelope MAX_INGRESS_JSON_BYTES_def)

lemma sample_first:
  obtains r st where "authenticate_json state_observe_time state_consume ref_externals (sample_reader 1200) sample_authenticator
      [1] 1000 memory_default = (Ok r, st)"
    "ms_ingress_replay_high_water st (IngressReplayScope ''executor'') = Some 1000"
    "DAList.lookup (ms_ingress_replay_nonces st) (IngressReplayScope ''executor'', ''caller'', 21) = Some 1200"
    "ms_ingress_replay_v13_nonces st = {}"
proof -
  have "clock_reached memory_default ''executor'' 1000" "nonce_free memory_default ''executor'' ''caller'' 21 1000"
    "ms_ingress_replay_v13_nonces memory_default = {}"
    by (simp_all add: clock_reached_def nonce_free_def memory_default_def)
  then show thesis using sample_authenticates [of 1200 1000 memory_default] that by auto
qed

section \<open>Two paths\<close>

text \<open>C23. Let the authenticator stand on an activated registry. Whatever the replay guard, the immediate
  path authenticates an envelope at a time, with a request and a new guard state, exactly when the time is not
  negative, the durable path parses and verifies the same envelope, its result is current at that time, and the
  guard accepts the time and then the nonce; and the request is the one that the durable result describes.
  The two paths repeat their checks in different orders over different code.\<close>

theorem authentication_paths_agree:
  assumes "ingress_registry_new X d audience lifetime entries = Ok registry" "authenticator_new registry = Ok A"
  shows "authenticate_json observe_op consume_op X R A json now g = (Ok r, g') \<longleftrightarrow>
    0 \<le> now \<and> (\<exists>probe s g1. parse_bytes X R json = Ok probe \<and> verify_durable_static X A probe = Ok s \<and> current s now
       \<and> observe_op (ia_replay_scope A) now g = (Ok (), g1)
       \<and> consume_op (ia_replay_scope A) (sr_key_id (sv_request s)) (ic_nonce (sr_claims (sv_request s)))
           (ic_expires_at (sr_claims (sv_request s))) now g1 = (Ok (), g')
       \<and> r = request_of s now)"
  by (rule authenticate_paths) (simp add: authenticator_new_Ok(5) [OF assms(2)])

theorem authentication_paths_agree_witness:
  "\<exists>r st probe s. authenticate_json state_observe_time state_consume ref_externals (sample_reader 1200) sample_authenticator
       [1] 1000 memory_default = (Ok r, st)
     \<and> parse_bytes ref_externals (sample_reader 1200) [1] = Ok probe
     \<and> verify_durable_static ref_externals sample_authenticator probe = Ok s \<and> current s 1000 \<and> r = request_of s 1000"
proof -
  obtain r st where "authenticate_json state_observe_time state_consume ref_externals (sample_reader 1200) sample_authenticator
    [1] 1000 memory_default = (Ok r, st)" by (rule sample_first)
  with authentication_paths_agree [OF sample_ingress_registry_new sample_authenticator_new,
      of state_observe_time state_consume "sample_reader 1200" "[1]" 1000 memory_default r st]
  show ?thesis by blast
qed

section \<open>Once\<close>

text \<open>C8. Once a request was authenticated at the transactional state, an envelope with the same key and nonce for
  the same audience is authenticated again only if it expires strictly later, so the same envelope never is,
  in whatever JSON text it comes, by whichever authenticator of that audience, and whatever operations of
  the store run in between, the collection of expired nonces included.\<close>

theorem request_authenticated_once:
  assumes "authenticate_json state_observe_time state_consume X R A json now st = (Ok r, st1)"
    "(store_step lin Y inst)\<^sup>*\<^sup>* st1 st2"
    "authenticate_json state_observe_time state_consume X' R' A' json' now' st2 = (Ok r', st3)"
    "ia_replay_scope A' = ia_replay_scope A" "ai_ingress_key_id r' = ai_ingress_key_id r" "ai_nonce r' = ai_nonce r"
  shows "ai_expires_at r < ai_expires_at r'"
proof (rule state.authenticated_once [where lin = lin and Xa = Y and inst = inst, OF assms(1) _ assms(3-6)])
  show "(guard_step state_observe_time state_consume (store_step lin Y inst))\<^sup>*\<^sup>* st1 st2"
    using assms(2) by (rule rev_predicate2D [OF _ rtranclp_mono]) (auto intro: guard_step.other)
qed

theorem request_authenticated_once_witness:
  "\<exists>r st r' st'. authenticate_json state_observe_time state_consume ref_externals (sample_reader 1200) sample_authenticator
       [1] 1000 memory_default = (Ok r, st)
     \<and> authenticate_json state_observe_time state_consume ref_externals (sample_reader 1300) sample_authenticator [1] 1200 st = (Ok r', st')
     \<and> ai_ingress_key_id r' = ai_ingress_key_id r \<and> ai_nonce r' = ai_nonce r \<and> ai_expires_at r < ai_expires_at r'"
proof -
  obtain r st where r: "authenticate_json state_observe_time state_consume ref_externals (sample_reader 1200) sample_authenticator
      [1] 1000 memory_default = (Ok r, st)"
    and st: "ms_ingress_replay_high_water st (IngressReplayScope ''executor'') = Some 1000"
      "DAList.lookup (ms_ingress_replay_nonces st) (IngressReplayScope ''executor'', ''caller'', 21) = Some 1200"
      "ms_ingress_replay_v13_nonces st = {}"
    by (rule sample_first)
  then obtain r' st' where r': "authenticate_json state_observe_time state_consume ref_externals (sample_reader 1300)
      sample_authenticator [1] 1200 st = (Ok r', st')"
    using sample_authenticates [of 1300 1200 st] by (auto simp: clock_reached_def nonce_free_def)
  have k: "ai_ingress_key_id r' = ai_ingress_key_id r" "ai_nonce r' = ai_nonce r"
    using r r' by (auto simp: authenticate_json_Ok sample_ingress_envelope sample_registered bound_to_def MAX_INGRESS_JSON_BYTES_def)
  from request_authenticated_once [where lin = refuse_lineage and Y = ref_externals and inst = 7,
      OF r rtranclp.rtrancl_refl r' refl k]
  show ?thesis using r r' k by blast
qed

section \<open>Identity\<close>

text \<open>C7. A request that any guard let through was signed by a key of the activated registry: active, registered
  for the service's audience, valid around the whole window of the claims; the signature covers exactly the
  canonical bytes of claims with the request's proposal, nonce and expiry; the caller is the one registered for
  the key and the one the proposal names; and the window contains the time and is no longer than allowed.
  The policy kernel then builds its context from the request at a time exactly when the time lies in the window,
  the evaluation nonce is not nil, and authority, policy and registries agree: no check of the caller fails.\<close>

theorem authenticated_identity:
  assumes reg: "ingress_registry_new X d audience lifetime entries = Ok registry" "authenticator_new registry = Ok A"
    and a: "authenticate_json observe_op consume_op X R A json now g = (Ok r, g')"
  shows "(\<exists>e claims cose. e \<in> set entries \<and> rk_key_id e = ai_ingress_key_id r \<and> rk_status e = IngressActive
      \<and> audience \<in> set (rk_allowed_audiences e) \<and> signed_by X \<lparr>sr_key_id = rk_key_id e, sr_claims = claims, sr_cose_sign1 = cose\<rparr> e
      \<and> ic_proposal claims = ai_proposal r \<and> ic_nonce claims = ai_nonce r \<and> ic_expires_at claims = ai_expires_at r
      \<and> ai_caller r = \<lparr>au_tenant = rk_tenant e, au_actor = rk_actor e\<rparr>
      \<and> ap_tenant (ai_proposal r) = rk_tenant e \<and> ap_actor (ai_proposal r) = rk_actor e
      \<and> dt_audience (ap_template (ai_proposal r)) = audience
      \<and> rk_not_before e \<le> ic_issued_at claims \<and> ic_issued_at claims \<le> now \<and> now < ai_expires_at r
      \<and> ai_expires_at r \<le> rk_expires_at e \<and> ai_expires_at r - ic_issued_at claims \<le> lifetime)
    \<and> (is_Ok (from_authenticated_ingress X r t nonce policy authority attesters) \<longleftrightarrow>
      now \<le> t \<and> t < ai_expires_at r \<and> \<not> is_nil nonce \<and> is_Ok (validate_authority_vector authority)
      \<and> canonical_hash (x_cbor X) (x_sha256 X) (VPolicy policy) = Ok (ads_root (av_policy authority))
      \<and> aar_authority_domain attesters = av_registry authority \<and> d = av_principal_registry authority)"
    (is "?I \<and> (?L \<longleftrightarrow> ?R)")
proof -
  note A = authenticator_new_Ok [OF reg(2)] and r = ingress_registry_new_Ok [OF reg(1)]
  obtain e q where e: "0 \<le> now" "bound_to X A q e" "ic_issued_at (sr_claims q) \<le> now" "now < ic_expires_at (sr_claims q)"
     "r = \<lparr>ai_caller = \<lparr>au_tenant = rk_tenant e, au_actor = rk_actor e\<rparr>, ai_proposal = ic_proposal (sr_claims q),
           ai_ingress_key_id = rk_key_id e, ai_nonce = ic_nonce (sr_claims q), ai_authenticated_at = now,
           ai_expires_at = ic_expires_at (sr_claims q), ai_authority_domain = ia_authority_domain A\<rparr>"
    using a unfolding authenticate_json_Ok by blast
  have m: "e \<in> set entries" "rk_key_id e = sr_key_id q" using e(2) A(5) r(1) by (auto simp: bound_to_def)
  have c: "validate_bound_claims (sr_claims q) audience (rk_tenant e) (rk_actor e) (rk_not_before e) (rk_expires_at e) lifetime = Ok ()"
    using e(2) A(1,3) r(1) by (simp add: bound_to_def)
  have q: "q = \<lparr>sr_key_id = rk_key_id e, sr_claims = sr_claims q, sr_cose_sign1 = sr_cose_sign1 q\<rparr>" by (simp add: m(2))
  have "signed_by X \<lparr>sr_key_id = rk_key_id e, sr_claims = sr_claims q, sr_cose_sign1 = sr_cose_sign1 q\<rparr> e"
    using e(2) unfolding q [symmetric] by (simp add: bound_to_def)
  then have I: ?I
    using e c m A(1) r(1) by (intro exI [of _ e] exI [of _ "sr_claims q"] exI [of _ "sr_cose_sign1 q"])
      (simp add: validate_bound_claims_Ok bound_to_def)
  have "registration_ok X e" using r(2) m(1) by (simp add: list_all_iff)
  then have text_ok: "valid_security_text (rk_tenant e)" "valid_security_text (rk_actor e)"
    by (simp_all add: registration_ok_def registration_malformed_def ingress_valid_text_def valid_security_text_def
        MAX_INGRESS_TEXT_BYTES_def MAX_SECURITY_TEXT_BYTES_def)
  have caller: "ap_tenant (ai_proposal r) = rk_tenant e" "ap_actor (ai_proposal r) = rk_actor e"
    using c by (simp_all add: e(5) validate_bound_claims_Ok)
  have iff: "?L \<longleftrightarrow> ?R"
    using e(1,3,4) text_ok caller A(4) r(1)
    by (auto simp: from_authenticated_ingress_def from_trusted_parts_def result.is_Ok_def result_simps e(5) split: result.splits)
  from I iff show ?thesis ..
qed

theorem authenticated_identity_witness:
  "\<exists>r st. authenticate_json state_observe_time state_consume ref_externals (sample_reader 1200) sample_authenticator
       [1] 1000 memory_default = (Ok r, st)
     \<and> ai_caller r = \<lparr>au_tenant = ''acme'', au_actor = ''agent''\<rparr>
     \<and> is_Ok (from_authenticated_ingress ref_externals r 1100 12 sample_policy
           (sample_authority\<lparr>av_principal_registry := domain_at 125\<rparr>) sample_registry)"
proof -
  obtain r st where r: "authenticate_json state_observe_time state_consume ref_externals (sample_reader 1200) sample_authenticator
    [1] 1000 memory_default = (Ok r, st)" by (rule sample_first)
  have "ai_expires_at r = 1200"
    using r by (auto simp: authenticate_json_Ok sample_ingress_envelope sample_registered MAX_INGRESS_JSON_BYTES_def)
  moreover have "validate_authority_vector (sample_authority\<lparr>av_principal_registry := domain_at 125\<rparr>) = Ok ()"
    by (simp add: validate_authority_vector_def domains_def valid_authority_domain_def is_nil_def sample_authority_def domain_at_def)
  moreover note W = authenticated_identity [OF sample_ingress_registry_new sample_authenticator_new r,
    of 1100 12 sample_policy "sample_authority\<lparr>av_principal_registry := domain_at 125\<rparr>" sample_registry]
  ultimately have "is_Ok (from_authenticated_ingress ref_externals r 1100 12 sample_policy
      (sample_authority\<lparr>av_principal_registry := domain_at 125\<rparr>) sample_registry)"
    using sample_policy_root by (simp add: is_nil_def sample_registry_def sample_authority_def)
  moreover have "ai_caller r = \<lparr>au_tenant = ''acme'', au_actor = ''agent''\<rparr>"
    using conjunct1 [OF W] by (auto simp: sample_registered)
  ultimately show ?thesis using r by blast
qed

section \<open>Round trip\<close>

text \<open>C24. What a registered caller signs is authenticated: take an active registration for the service's audience,
  the identity with its key, claims within its bounds and an envelope that reads as the request the identity
  signed over them. At the transactional state it is authenticated at every time in its window that the clock
  mark of the audience allows, if its nonce is free, with the proposal of the claims and the registered caller;
  and presented again to the resulting state while it is still valid, it is refused as a replay.\<close>

theorem signed_request_authenticates:
  assumes reg: "ingress_registry_new X d audience lifetime entries = Ok registry" "authenticator_new registry = Ok A"
    and e: "e \<in> set entries" "rk_status e = IngressActive" "audience \<in> set (rk_allowed_audiences e)"
    and signer: "si_key_id signer = rk_key_id e" "x_public_key X (si_key signer) = rk_public_key e"
    and X: "cose_roundtrip X" "signature_correct X"
    and q: "sign_ingress_request X claims signer = Ok q" "read_envelope R json = Ok q"
      "validate_bound_claims claims audience (rk_tenant e) (rk_actor e) (rk_not_before e) (rk_expires_at e) lifetime = Ok ()"
    and t: "ic_issued_at claims \<le> now" "now \<le> now'" "now' < ic_expires_at claims"
      "clock_reached st audience now" "nonce_free st audience (rk_key_id e) (ic_nonce claims) now"
  shows "\<exists>r st'. authenticate_json state_observe_time state_consume X R A json now st = (Ok r, st')
    \<and> ai_proposal r = ic_proposal claims \<and> ai_caller r = \<lparr>au_tenant = rk_tenant e, au_actor = rk_actor e\<rparr>
    \<and> fst (authenticate_json state_observe_time state_consume X R A json now' st') = Err Replay"
proof -
  note A = authenticator_new_Ok [OF reg(2)] and r = ingress_registry_new_Ok [OF reg(1)]
  have ok: "registration_ok X e" using r(2) e(1) by (simp add: list_all_iff)
  have b: "bound_to X A q e" "sr_claims q = claims"
    by (rule signed_bound [OF reg(2) _ e(2) _ ok signer X q(1)]; use e q(3) r(1) in simp)+
  have aud: "ia_expected_audience A = audience" "ia_replay_scope A = ReplayScope (ia_expected_audience A)"
    "ingress_valid_text (ia_expected_audience A)" "rk_key_id e = sr_key_id q" "0 \<le> rk_not_before e"
    using A r(1,5) b(1) ok by (auto simp: bound_to_def registration_ok_def registration_malformed_def)
  note auth = state_authenticates [OF aud(2-5) q(2) b(1)]
  obtain r st' where r: "authenticate_json state_observe_time state_consume X R A json now st = (Ok r, st')"
    "ai_proposal r = ic_proposal claims" "ai_caller r = \<lparr>au_tenant = rk_tenant e, au_actor = rk_actor e\<rparr>"
    "ms_ingress_replay_high_water st' (IngressReplayScope audience) = Some now"
    "DAList.lookup (ms_ingress_replay_nonces st') (IngressReplayScope audience, rk_key_id e, ic_nonce claims) = Some (ic_expires_at claims)"
    using auth(1) [of now st] t b(2) aud(1) by auto
  have "clock_reached st' audience now'" "\<not> nonce_free st' audience (rk_key_id e) (ic_nonce claims) now'"
    using r(4,5) t by (simp_all add: clock_reached_def nonce_free_def)
  then have "fst (authenticate_json state_observe_time state_consume X R A json now' st') = Err Replay"
    using auth(2) [of now' st'] t b(2) aud(1) by auto
  with r show ?thesis by blast
qed

theorem signed_request_authenticates_witness:
  "\<exists>r st'. authenticate_json state_observe_time state_consume ref_externals (sample_reader 1200) sample_authenticator [1] 1000
      memory_default = (Ok r, st') \<and> ai_proposal r = sample_proposal
    \<and> fst (authenticate_json state_observe_time state_consume ref_externals (sample_reader 1200) sample_authenticator [1] 1100 st')
        = Err Replay"
proof -
  have free: "clock_reached memory_default ''executor'' 1000" "nonce_free memory_default ''executor'' ''caller'' 21 1000"
    by (simp_all add: clock_reached_def nonce_free_def memory_default_def)
  have "read_envelope (sample_reader 1200) [1] = Ok (sample_request 1200)"
    by (simp add: sample_ingress_envelope MAX_INGRESS_JSON_BYTES_def)
  note W = signed_request_authenticates [OF sample_ingress_registry_new sample_authenticator_new, of sample_ingress_key,
      OF _ _ _ _ _ ref_cose_roundtrip ref_signature_correct sample_signs [of 1200] this, of 1000 1100 memory_default]
  show ?thesis using W sample_bound [of 1200] free
    by (auto simp: sample_registered sample_caller_def sample_claims_def)
qed

section \<open>Recovery\<close>

text \<open>C25. A submission that the state stored verifies again under the verifier frozen with it, whatever time it is
  and whatever has become of the registry; and any envelope, however its JSON text is written, recovers it
  exactly when it carries the stored request, key, claims and signature alike, or SHA-256 collides on the two
  canonical payloads. The size conditions are those that memory imposes.\<close>

theorem stored_submission_recovers:
  assumes "ingress_registry_new X d audience lifetime entries = Ok registry" "authenticator_new registry = Ok A"
      "parse_bytes X R wire = Ok probe" "verify_durable_static X A probe = Ok s"
      "from_verified X R inst s accepted = Ok stored"
    and "cbor_encoder (x_cbor X)" "parse_bytes X R wire' = Ok probe'"
      "envelope_ok X (rp_request probe)" "envelope_ok X (rp_request probe')"
      "no_collision (x_sha256 X) (payload_material X (rp_request probe) (rp_canonical_claims probe))
        (payload_material X (rp_request probe') (rp_canonical_claims probe'))"
  shows "reverify_frozen_wire X R stored = Ok () \<and> (\<exists>f. frozen_verifier X stored = Ok f
    \<and> (is_Ok (verify_historical X probe' f) \<longleftrightarrow> rp_request probe' = rp_request probe))"
  using stored_reverifies [OF assms(1-5)] recovery_is_exact [OF assms] by blast

lemma ref_digest_nonzero:
  assumes "length b < 2 ^ 64"
  shows "ref_digest b \<noteq> 0"
proof -
  have "ref_digest b \<noteq> word_of_nat 0"
    unfolding ref_digest_def word_of_nat_eq_iff using assms by (simp add: take_bit_nat_eq_self del: of_nat_Suc)
  then show ?thesis by simp
qed

lemma sample_lengths:
  obtains p c where "claims_canonical_bytes ref_externals (sample_claims 1200) = Ok p"
    "sr_cose_sign1 (sample_request 1200) = c" "length p \<le> 1000" "length c \<le> 2000" "p \<noteq> []" "c \<noteq> []"
proof -
  obtain p where p: "claims_canonical_bytes ref_externals (sample_claims 1200) = Ok p"
    by (simp add: claims_canonical_bytes_def canonical_bytes_def)
  have l: "0 < length p" "length p \<le> 1000" using sample_claims_length(1) by (auto simp: p ok_bytes_def)
  then have "length p \<le> MAX_COSE_PAYLOAD_BYTES" by (simp add: MAX_COSE_PAYLOAD_BYTES_def)
  then obtain c where c: "sign_cose ref_externals p INGRESS_REQUEST_DOMAIN sample_caller = Ok c"
    "length c = length (si_key_id sample_caller) + length p + 80"
    by (rule ref_sign_cose [of sample_caller INGRESS_REQUEST_DOMAIN p, rotated 2])
      (simp_all add: sample_caller_def sample_ingress_texts)
  then have "c \<noteq> []" by (auto simp: sample_caller_def)
  then show thesis using that [OF p] l c by (auto simp: sample_request_def p ok_bytes_def sample_caller_def)
qed

lemma sample_submission:
  obtains probe s stored where "parse_bytes ref_externals (sample_reader 1200) [w] = Ok probe"
    "rp_request probe = sample_request 1200" "envelope_ok ref_externals (rp_request probe)"
    "verify_durable_static ref_externals sample_authenticator probe = Ok s"
    "from_verified ref_externals (sample_reader 1200) 71 s 1000 = Ok stored"
proof -
  obtain p c where l: "claims_canonical_bytes ref_externals (sample_claims 1200) = Ok p"
    "sr_cose_sign1 (sample_request 1200) = c" "length p \<le> 1000" "length c \<le> 2000" "p \<noteq> []" "c \<noteq> []"
    by (rule sample_lengths)
  let ?ts = "[CArray 4, CStr ''caller'', CBytes p, CBytes c, CStr INGRESS_CANONICAL_PAYLOAD_COMMITMENT_DOMAIN]"
  let ?ws = "[CArray 2, CBytes [w], CStr INGRESS_WIRE_COMMITMENT_DOMAIN]"
  let ?ps = "proposal_tokens sample_proposal"
  have n: "length (concat (map rfc8949 ?ts)) < 2 ^ 64" "length (concat (map rfc8949 ?ws)) < 2 ^ 64"
    using l(3,4) by (rule_tac [!] le_less_trans [OF length_encoded])
      (simp_all add: INGRESS_CANONICAL_PAYLOAD_COMMITMENT_DOMAIN_def INGRESS_WIRE_COMMITMENT_DOMAIN_def)
  have pl: "length (concat (map rfc8949 ?ps)) \<le> 1000" by code_simp
  obtain probe where pr: "parse_bytes ref_externals (sample_reader 1200) [w] = Ok probe"
    using l by (simp add: parse_bytes_Ok sample_ingress_envelope MAX_INGRESS_JSON_BYTES_def sample_registered)
  then have q: "parse_bytes ref_externals (sample_reader 1200) [w] = Ok probe" "rp_request probe = sample_request 1200"
    "rp_canonical_claims probe = p" "rp_canonical_payload_commitment probe = ref_digest (concat (map rfc8949 ?ts))"
    "rp_wire_commitment probe = ref_digest (concat (map rfc8949 ?ws))" "rp_wire_json probe = [w]"
    using l by (auto simp: parse_bytes_Ok sample_ingress_envelope MAX_INGRESS_JSON_BYTES_def sample_registered
        canonical_payload_commitment_def wire_image_commitment_def)
  have ok: "envelope_ok ref_externals (rp_request probe)"
    unfolding q using l pl by (simp add: envelope_ok_def sample_registered str_ok_def arith_defs proposal_ok_def
        template_ok_def opt_str_ok_def sample_proposal_def sample_template_def DEPLOY_EKS_IMAGE_V1_def)
  have v: "verify_durable_static ref_externals sample_authenticator probe = Ok (submission_of sample_authenticator sample_ingress_key probe)"
    using verify_durable_static_Ok [OF _ q(1)] authenticator_new_Ok(5) [OF sample_authenticator_new] sample_bound_to [of 1200] q(2)
    by auto
  have request: "ap_request_id sample_proposal = 11" by (simp add: sample_proposal_def)
  have h: "canonical_hash rfc8949 ref_digest (VProposal sample_proposal) = Ok (ref_digest (concat (map rfc8949 ?ps)))"
    by (simp add: canonical_hash_def canonical_bytes_def)
  have "is_Ok (from_verified ref_externals (sample_reader 1200) 71 (submission_of sample_authenticator sample_ingress_key probe) 1000)"
    using from_verified_iff [OF sample_ingress_registry_new sample_authenticator_new q(1) v] h n pl l q(2-6) ref_digest_nonzero
    by (simp add: sample_registered current_def is_nil_def request)
  then show thesis using that q ok v by (auto simp: result.is_Ok_def)
qed

theorem stored_submission_recovers_witness:
  "\<exists>probe s stored probe' f. parse_bytes ref_externals (sample_reader 1200) [1] = Ok probe
     \<and> verify_durable_static ref_externals sample_authenticator probe = Ok s
     \<and> from_verified ref_externals (sample_reader 1200) 71 s 1000 = Ok stored
     \<and> parse_bytes ref_externals (sample_reader 1200) [2] = Ok probe' \<and> rp_wire_json probe' \<noteq> rp_wire_json probe
     \<and> reverify_frozen_wire ref_externals (sample_reader 1200) stored = Ok ()
     \<and> frozen_verifier ref_externals stored = Ok f \<and> is_Ok (verify_historical ref_externals probe' f)"
proof -
  obtain probe s stored where p: "parse_bytes ref_externals (sample_reader 1200) [1] = Ok probe"
    "rp_request probe = sample_request 1200" "envelope_ok ref_externals (rp_request probe)"
    "verify_durable_static ref_externals sample_authenticator probe = Ok s"
    "from_verified ref_externals (sample_reader 1200) 71 s 1000 = Ok stored" by (rule sample_submission)
  obtain probe' where p': "parse_bytes ref_externals (sample_reader 1200) [2] = Ok probe'"
    "rp_request probe' = sample_request 1200" "envelope_ok ref_externals (rp_request probe')" by (rule sample_submission)
  have w: "rp_wire_json probe = [1]" "rp_wire_json probe' = [2]" "rp_canonical_claims probe' = rp_canonical_claims probe"
    using p(1,2) p'(1,2) by (auto simp: parse_bytes_Ok)
  have "no_collision (x_sha256 ref_externals) (payload_material ref_externals (rp_request probe) (rp_canonical_claims probe))
        (payload_material ref_externals (rp_request probe') (rp_canonical_claims probe'))"
    by (simp add: no_collision_def p p' w)
  with stored_submission_recovers [OF sample_ingress_registry_new sample_authenticator_new p(1,4,5) _ p'(1) p(3) p'(3)]
  show ?thesis using p p' w rfc.cbor_encoder_axioms by auto
qed

end
