(* ===== verification/Spec2Isabelle.thy ===== *)
theory Spec2Isabelle
  imports Protocol_Properties Kernel_Properties Dispatch_Properties Store_Properties
    Issuance_Properties Kubernetes_Properties Ingress_Properties
begin

text \<open>
  A verification library of the AccordLock runtime (src/runtime/crates).

  AccordLock lets a software agent propose a deployment and lets the effect happen only when
  a policy kernel allowed exactly that deployment on signed evidence. A request passes from
  the authenticated ingress and the evidence connectors to the kernel, which produces a
  signed evaluation; issuance turns an allowing evaluation into a single-use execution
  authorization; the transactional state consumes it once; the dispatch machine carries the
  consumed authorization through reservation, credential issue, effect and retirement. The
  effect is a JSON Patch of one Kubernetes Deployment, checked at admission, in the response
  and in the rollout that follows.

  \<^bold>\<open>Theories and the code they model\<close>

  \<^item> \<open>Runtime_Prelude\<close>: results, checked integers, big-endian and length framings, and the
    record of parameters for code outside the repository (SHA-256, the CBOR writer, COSE
    parsing, Ed25519, UUID printing). Digests are 256-bit words, UUIDs 128-bit words,
    \<open>i64\<close> is \<open>int\<close> with the range check written out, \<open>u64\<close> is a 64-bit word.
  \<^item> \<open>Protocol_Types\<close>, \<open>Canonical_Encoding\<close>, \<open>Cose_Crypto\<close>: accordlock-protocol (types.rs,
    canonical.rs, crypto.rs). Each canonical encoder is the token sequence it feeds to the
    CBOR writer.
  \<^item> \<open>Kernel_Registry\<close>, \<open>Kernel_Evaluation\<close>, \<open>Kernel_Decision\<close>, \<open>Kernel_Authorization\<close>:
    accordlock-kernel (lib.rs). \<open>Kernel_Decision\<close> states what an allow means as the predicate
    \<open>allow_spec\<close> and shows that the evaluation pipeline computes it.
  \<^item> \<open>State_Model\<close>, \<open>State_Validation\<close>: the records and the validation functions of
    accordlock-state (model.rs), with the deadline shown to be a minimum.
  \<^item> \<open>State_Acquisition\<close>, \<open>State_Control\<close>, \<open>State_Store\<close>, \<open>Ingress_Replay\<close>: the records of claims,
    credential bindings and control work (model.rs, acquisition.rs, control.rs) and the
    in-memory store (memory.rs, ingress_replay.rs): authority, grants, issuance, consumption,
    recovery, claims, provider attempts and the replay ledger. One mutex serialises the
    store, so an operation is a function from the state to a result and the state after it;
    the clock's answer is an argument.
  \<^item> \<open>Store_Changes\<close>, \<open>Store_Invariants\<close>, \<open>Store_Safety\<close>: the step relation over the store's
    operations, the abstract atomic changes that every operation refines, on its error paths
    too, the store invariant proved for the changes, and what no run can undo. A run, and a
    reachable store, is one of the modelled operations; the operations that retire a claim and
    free its physical resource are not among them.
  \<^item> \<open>Issuance\<close>: accordlock-issuance (lib.rs), the issuer with its derived identifiers and its
    signature, over the in-memory store and over the control plane's answers. What other
    callers do between two calls of the store is an argument. \<open>Issuance_Flow\<close> composes
    kernel, issuer and store: \<open>RuntimeState\<close> is the store with the payloads that the kernel's
    evaluator signed, only the issuer records authorizations, its caller hands it any proposal
    and any signed evaluation, and \<open>approved_by\<close> is the link from each stored authorization to
    the evaluation behind it.
  \<^item> \<open>Dispatch_Model\<close>, \<open>Dispatch_Machine\<close>: accordlock-dispatch (model.rs, machine.rs). Every
    method is a function from the machine to a result and the machine after the call, so
    that a rejected call that still cancels or commits the clock is visible.
  \<^item> \<open>Transition_Systems\<close>, \<open>Dispatch_Lifecycle\<close>, \<open>Dispatch_Invariants\<close>, \<open>Dispatch_Safety\<close>,
    \<open>Dispatch_Withdrawal\<close>, \<open>Dispatch_Retirement\<close>: the step relation over all methods, the
    abstract lifecycle it refines, the invariants by rule induction, and the locales for
    monotone counters, single-use names and stable facts with their interpretations on the
    machine.
  \<^item> \<open>Json_Documents\<close>, \<open>Kubernetes_Projection\<close>, \<open>Kubernetes_Rollout\<close>: accordlock-k8s (lib.rs), the
    patch a template stands for, the checks of a Deployment before and after it, and the
    checks of ReplicaSets and Pods. Documents are serde_json values with sorted objects; a
    path is a list of keys and a JSON pointer is its text.
  \<^item> \<open>Kubernetes_Delta\<close>, \<open>Kubernetes_Ownership\<close>, \<open>Kubernetes_Grammar\<close>: what these checks mean:
    the comparison path by path is equality with the authorized effect, a JSON Patch (RFC
    6902) is applied as its operations say, an accepted rollout is a chain of controllers,
    and the scanner of image repositories recognises its grammar.
  \<^item> \<open>Ingress_Requests\<close>, \<open>Ingress_Guards\<close>, \<open>Ingress_Submissions\<close>: accordlock-ingress (lib.rs),
    accordlock-ingress-state (lib.rs) and the stored submissions of accordlock-state
    (control.rs): claims, envelopes and their commitments, the activated registry of caller
    keys, the authenticator with its immediate and its durable path, the replay guards, and
    the verifier frozen with a stored submission. The trait \<open>ReplayGuard\<close> is the locale
    \<open>replay_guard\<close>, interpreted on the guard in memory and on the guard over the transactional
    state. \<open>Ingress_Facts\<close> says what the checks mean.
  \<^item> \<open>Reference_Externals\<close>, \<open>Kernel_Scenario\<close>, \<open>State_Scenario\<close>, \<open>Store_Scenario\<close>,
    \<open>Issuance_Scenario\<close>, \<open>Dispatch_Scenario\<close>, \<open>Kubernetes_Scenario\<close>: concrete instances of the parameters and concrete runs, on which the
    properties are evaluated.
  \<^item> \<open>Protocol_Properties\<close>, \<open>Kernel_Properties\<close>, \<open>Store_Properties\<close>,
    \<open>Issuance_Properties\<close>, \<open>Dispatch_Properties\<close>, \<open>Kubernetes_Properties\<close>, \<open>Ingress_Properties\<close>: the properties of each part and of their
    composition: nothing reaches a provider that the kernel did not allow; a request enters
    once, from its registered caller, and is recovered by its own envelope only; canonical hashes and envelopes bind what they cover; the kernel
    decides its specification; an authorization is consumed exactly once, inside its grant's
    budget and its deadline, and never after revocation, supersession or expiry; claims, until
    they are retired, and provider attempts are exclusive; a transaction's effect, credential and reservation are
    released and retired at most once; a Deployment and its Pods change in the authorized
    image and the reserved annotations and in nothing else.

  \<^bold>\<open>Parameters and bounds\<close>

  Code outside the repository is a field of the \<open>externals\<close> record, and what is relied on is
  a named hypothesis (\<open>cbor_encoder\<close>, \<open>cose_roundtrip\<close>, \<open>signature_correct\<close>; \<open>rfc6901\<close> for the document lookup in
  \<open>document_externals\<close>). \<open>cose_roundtrip\<close> is asked for the envelopes that \<open>sign_cose\<close> builds only.
  That signatures of the evaluator are not forged is the condition \<open>unforged\<close> of the issuing step: an
  envelope that verifies under the evaluator's key carries a payload of the log. The reader of JSON envelopes is the argument \<open>ingress_reader\<close>, of which
  nothing is assumed. A statement
  about hashes says that the digests agree exactly when the values do, given that SHA-256 does
  not collide on these two inputs (\<open>no_collision\<close>). The store's gate for consumptions that the
  control plane owns asks for the receipt of the completed work claim; the audit that produces
  it only reads the control-plane tables and is the argument \<open>phase_completed\<close>, and the
  store's properties hold whatever it answers and whatever those tables hold. No definition
  needs fuel: every loop of the source runs over a list, a document or the indices of a text.

  \<^bold>\<open>Not modelled\<close>

  The control-plane work queue with its lineage audit, the queue acquisitions, credential
  reviews, admission, recovery, disposition and terminal operations of the store. Network
  clients, HTTP services, TLS, processes, files, SQLite and PostgreSQL backends, the
  Kubernetes API traffic around the checked documents, and the desktop application. Methods compiled only for the unit tests
  of the source are left out as well.
\<close>

end
